(* ===== verification/Prelude.thy ===== *)
theory Prelude
  imports Main "HOL-Library.Word"
begin

text \<open>
  What every component shares: the bytes of C strings, the outcome of an operation that may
  run into undefined behaviour, and the lemma collections the component proofs use.

  \<^item> A C \<open>char\<close> is a HOL \<open>char\<close> (one byte); a NUL terminated string is the HOL \<open>string\<close> of
    the bytes before the NUL.
  \<^item> A pointer into a buffer is the list of the bytes from the pointer to the end of the
    buffer (type \<open>mem\<close>): pointers of the modelled code only move forward, so dereferencing
    is looking at the head, and dereferencing \<open>[]\<close> is an access outside the buffer.
  \<^item> \<open>'a outcome\<close> is \<open>Val x\<close>, or \<open>Undef u\<close> where the C code has undefined behaviour of
    kind \<open>u\<close>, blocks for ever or ends the process (see \<open>ub\<close>).
\<close>

type_synonym mem = "char list"

datatype ub =
    OutOfBounds     \<comment> \<open>read or write outside an object\<close>
  | Uninitialised   \<comment> \<open>an indeterminate value is used\<close>
  | IntOverflow     \<comment> \<open>signed overflow or a conversion that does not fit\<close>
  | NullDeref       \<comment> \<open>a null pointer is dereferenced\<close>
  | Blocks          \<comment> \<open>not undefined, but the call never returns\<close>
  | Exits           \<comment> \<open>not undefined, but the process exits\<close>

datatype 'a outcome = Val 'a | Undef ub

definition obind :: "'a outcome \<Rightarrow> ('a \<Rightarrow> 'b outcome) \<Rightarrow> 'b outcome" where
  "obind m f = (case m of Val x \<Rightarrow> f x | Undef u \<Rightarrow> Undef u)"

lemma obind_simps [simp]:
  "obind (Val x) f = f x"
  "obind (Undef u) f = Undef u"
  by (simp_all add: obind_def)

lemma obind_cong [fundef_cong]:
  "m = m' \<Longrightarrow> (\<And>x. m' = Val x \<Longrightarrow> f x = g x) \<Longrightarrow> obind m f = obind m' g"
  by (cases m') auto

lemma obind_eq_Val: "obind m f = Val y \<longleftrightarrow> (\<exists>x. m = Val x \<and> f x = Val y)"
  by (cases m) auto

subsection \<open>Bytes\<close>

abbreviation NUL :: char where
  "NUL \<equiv> CHR 0x00"

abbreviation TAB :: char where
  "TAB \<equiv> CHR 0x09"

abbreviation LF :: char where
  "LF \<equiv> CHR 0x0A"

abbreviation CR :: char where
  "CR \<equiv> CHR 0x0D"

abbreviation DQUOTE :: char where
  "DQUOTE \<equiv> CHR 0x22"

abbreviation BSLASH :: char where
  "BSLASH \<equiv> CHR 0x5C"

definition byte :: "char \<Rightarrow> nat" where
  "byte c = of_char c"

lemma byte_less [simp]: "byte c < 256"
proof -
  have "of_char c mod 256 = (of_char c :: nat)"
    by (rule of_char_mod_256)
  then show ?thesis
    unfolding byte_def by (metis mod_less_divisor zero_less_numeral)
qed

lemma byte_inject [simp]: "byte c = byte d \<longleftrightarrow> c = d"
  by (simp add: byte_def of_char_eq_iff)

lemma byte_char_of [simp]: "n < 256 \<Longrightarrow> byte (char_of n) = n"
  by (simp add: byte_def)

lemma char_of_byte [simp]: "char_of (byte c) = c"
  by (simp add: byte_def)

lemma byte_eq_0 [simp]: "byte c = 0 \<longleftrightarrow> c = NUL"
proof -
  have "byte NUL = 0" by (simp add: byte_def)
  then show ?thesis by (metis byte_inject)
qed

text \<open>The value of a plain \<open>char\<close> promoted to \<open>int\<close> (signed on the supported targets).\<close>

definition schar :: "char \<Rightarrow> int" where
  "schar c = (if byte c < 128 then int (byte c) else int (byte c) - 256)"

lemma schar_inject [simp]: "schar c = schar d \<longleftrightarrow> c = d"
proof
  assume h: "schar c = schar d"
  have "byte c < 256" "byte d < 256" by simp_all
  with h have "byte c = byte d" unfolding schar_def
    by (auto split: if_splits simp del: byte_less byte_inject)
  then show "c = d" by simp
qed simp

subsection \<open>Lists\<close>

named_theorems list_split_simps \<open>facts that move a scan over an appended list\<close>

lemma takeWhile_append_stop [list_split_simps]:
  "\<forall>x\<in>set xs. P x \<Longrightarrow> \<not> P y \<Longrightarrow> takeWhile P (xs @ y # ys) = xs"
  by (induction xs) auto

lemma dropWhile_append_stop [list_split_simps]:
  "\<forall>x\<in>set xs. P x \<Longrightarrow> \<not> P y \<Longrightarrow> dropWhile P (xs @ y # ys) = y # ys"
  by (induction xs) auto

lemma length_dropWhile_le' [simp, intro]: "length (dropWhile P xs) \<le> length xs"
  by (rule length_dropWhile_le)

lemma sum_list_map_le:
  "(\<And>x. x \<in> set xs \<Longrightarrow> f x \<le> g x) \<Longrightarrow> sum_list (map f xs) \<le> (sum_list (map g xs) :: nat)"
  by (induction xs) (auto intro: add_mono)

end
