(* ===== verification/CString.thy ===== *)
theory CString
  imports Prelude
begin

text \<open>
  The parts of the C library the modelled code calls on bytes and strings, in the C locale:
  character classes and case (\<open>ctype.h\<close>), the span and comparison functions of \<open>string.h\<close>,
  decimal output (\<open>%d\<close>, \<open>%u\<close>, \<open>%llu\<close>), \<open>%04x\<close>, and the digit scanner behind the
  \<open>strtol\<close> family.
\<close>

subsection \<open>ctype.h\<close>

definition c_isspace :: "char \<Rightarrow> bool" where
  "c_isspace c \<longleftrightarrow> byte c = 32 \<or> (9 \<le> byte c \<and> byte c \<le> 13)"

definition c_isdigit :: "char \<Rightarrow> bool" where
  "c_isdigit c \<longleftrightarrow> 48 \<le> byte c \<and> byte c \<le> 57"

definition c_isupper :: "char \<Rightarrow> bool" where
  "c_isupper c \<longleftrightarrow> 65 \<le> byte c \<and> byte c \<le> 90"

definition c_islower :: "char \<Rightarrow> bool" where
  "c_islower c \<longleftrightarrow> 97 \<le> byte c \<and> byte c \<le> 122"

definition c_isalnum :: "char \<Rightarrow> bool" where
  "c_isalnum c \<longleftrightarrow> c_isdigit c \<or> c_isupper c \<or> c_islower c"

definition c_tolower :: "char \<Rightarrow> char" where
  "c_tolower c = (if c_isupper c then char_of (byte c + 32) else c)"

definition c_toupper :: "char \<Rightarrow> char" where
  "c_toupper c = (if c_islower c then char_of (byte c - 32) else c)"

lemma c_isdigit_not_space: "c_isdigit c \<Longrightarrow> \<not> c_isspace c"
  by (auto simp: c_isdigit_def c_isspace_def)

lemma c_tolower_NUL [simp]: "c_tolower c = NUL \<longleftrightarrow> c = NUL"
proof -
  have "byte (c_tolower c) = 0 \<longleftrightarrow> byte c = 0"
    unfolding c_tolower_def c_isupper_def by (cases "65 \<le> byte c \<and> byte c \<le> 90") (simp_all del: byte_eq_0)
  then show ?thesis by (simp only: byte_eq_0)
qed

lemma c_tolower_of_NUL [simp]: "c_tolower NUL = NUL" "NUL = c_tolower c \<longleftrightarrow> c = NUL"
  using c_tolower_NUL by (simp_all del: c_tolower_NUL) metis

subsection \<open>string.h\<close>

text \<open>\<open>cstr m\<close> is the C string a pointer to \<open>m\<close> denotes: the bytes before the NUL.\<close>

definition cstr :: "mem \<Rightarrow> string" where
  "cstr m = takeWhile (\<lambda>c. c \<noteq> NUL) m"

definition strlen :: "mem \<Rightarrow> nat" where
  "strlen m = length (cstr m)"

definition is_cstring :: "string \<Rightarrow> bool" where
  "is_cstring s \<longleftrightarrow> NUL \<notin> set s"

lemma is_cstring_simps [simp]:
  "is_cstring []"
  "is_cstring (c # s) \<longleftrightarrow> c \<noteq> NUL \<and> is_cstring s"
  "is_cstring (s @ t) \<longleftrightarrow> is_cstring s \<and> is_cstring t"
  by (auto simp: is_cstring_def)

lemma cstr_append_NUL [simp]: "is_cstring s \<Longrightarrow> cstr (s @ NUL # t) = s"
  unfolding cstr_def is_cstring_def by (rule takeWhile_append_stop) auto

lemma is_cstring_cstr [simp]: "is_cstring (cstr m)"
  by (auto simp: is_cstring_def cstr_def dest: set_takeWhileD)

lemma cstr_id [simp]: "is_cstring s \<Longrightarrow> cstr s = s"
  by (auto simp: is_cstring_def cstr_def intro!: takeWhile_eq_all_conv [THEN iffD2])

definition strcspn :: "string \<Rightarrow> string \<Rightarrow> nat" where
  "strcspn s reject = length (takeWhile (\<lambda>c. c \<notin> set reject) s)"

definition strspn :: "string \<Rightarrow> string \<Rightarrow> nat" where
  "strspn s accept = length (takeWhile (\<lambda>c. c \<in> set accept) s)"

text \<open>\<open>strcasecmp\<close> as an equality test, and prefix tests as \<open>strncmp (s, p, strlen p) == 0\<close>.\<close>

definition strcaseeq :: "string \<Rightarrow> string \<Rightarrow> bool" where
  "strcaseeq s t \<longleftrightarrow> map c_tolower s = map c_tolower t"

definition has_prefix :: "string \<Rightarrow> string \<Rightarrow> bool" where
  "has_prefix p s \<longleftrightarrow> take (length p) s = p"

lemma has_prefix_append [simp]: "has_prefix p (p @ s)"
  by (simp add: has_prefix_def)

fun strstr :: "string \<Rightarrow> string \<Rightarrow> string option" where
  "strstr [] needle = (if needle = [] then Some [] else None)"
| "strstr (c # s) needle = (if has_prefix needle (c # s) then Some (c # s) else strstr s needle)"

lemma strstr_shorter: "strstr s w = Some t \<Longrightarrow> length t \<le> length s \<and> has_prefix w t"
  by (induction s) (auto split: if_splits simp: has_prefix_def)

text \<open>The tokens \<open>strtok\<close> returns one after the other for the delimiter \<open>d\<close>; \<open>cur\<close> is the token being read.\<close>

fun strtok_all :: "char \<Rightarrow> string \<Rightarrow> string \<Rightarrow> string list" where
  "strtok_all d cur [] = (if cur = [] then [] else [cur])"
| "strtok_all d cur (c # s) =
     (if c = d then (if cur = [] then strtok_all d [] s else cur # strtok_all d [] s)
      else strtok_all d (cur @ [c]) s)"

text \<open>\<open>strchr\<close>: the rest of the string from the first \<open>c\<close>.\<close>

fun strchr :: "string \<Rightarrow> char \<Rightarrow> string option" where
  "strchr [] c = None"
| "strchr (x # s) c = (if x = c then Some (x # s) else strchr s c)"

lemma strchr_Some: "strchr s c = Some t \<Longrightarrow> \<exists>r. t = c # r \<and> length t \<le> length s"
  by (induction s) (auto split: if_splits)

subsection \<open>Decimal and hexadecimal output\<close>

definition dec_digit :: "nat \<Rightarrow> char" where
  "dec_digit n = char_of (48 + n)"

definition digit_val :: "char \<Rightarrow> nat" where
  "digit_val c = byte c - 48"

fun dec_of_nat :: "nat \<Rightarrow> string" where
  "dec_of_nat n = (if n < 10 then [dec_digit n] else dec_of_nat (n div 10) @ [dec_digit (n mod 10)])"

declare dec_of_nat.simps [simp del]

definition dec_of_int :: "int \<Rightarrow> string" where
  "dec_of_int i = (if i < 0 then CHR ''-'' # dec_of_nat (nat (- i)) else dec_of_nat (nat i))"

definition hex_digit :: "nat \<Rightarrow> char" where
  "hex_digit n = (if n < 10 then char_of (48 + n) else char_of (87 + n))"

text \<open>\<open>%04x\<close> of a value below \<open>16^4\<close>.\<close>

definition hex4 :: "nat \<Rightarrow> string" where
  "hex4 n = [hex_digit (n div 4096), hex_digit (n div 256 mod 16),
             hex_digit (n div 16 mod 16), hex_digit (n mod 16)]"

text \<open>The value of a run of decimal digits, accumulated from the left.\<close>

fun dec_value :: "nat \<Rightarrow> string \<Rightarrow> nat" where
  "dec_value acc [] = acc"
| "dec_value acc (c # cs) = dec_value (acc * 10 + digit_val c) cs"

lemma c_isdigit_dec_digit [simp]: "n < 10 \<Longrightarrow> c_isdigit (dec_digit n)"
  by (simp add: c_isdigit_def dec_digit_def)

lemma digit_val_dec_digit [simp]: "n < 10 \<Longrightarrow> digit_val (dec_digit n) = n"
  by (simp add: digit_val_def dec_digit_def)

lemma dec_value_append: "dec_value acc (s @ t) = dec_value (dec_value acc s) t"
  by (induction s arbitrary: acc) auto

lemma dec_of_nat_digits: "\<forall>c\<in>set (dec_of_nat n). c_isdigit c"
proof (induction n rule: dec_of_nat.induct)
  case (1 n)
  then show ?case by (subst dec_of_nat.simps) auto
qed

lemma dec_of_nat_not_Nil [simp]: "dec_of_nat n \<noteq> []"
  by (subst dec_of_nat.simps) simp

lemma dec_value_dec_of_nat [simp]: "dec_value 0 (dec_of_nat n) = n"
proof (induction n rule: dec_of_nat.induct)
  case (1 n)
  then show ?case by (subst dec_of_nat.simps) (auto simp: dec_value_append)
qed

lemma dec_value_mono: "acc \<le> dec_value acc s"
proof (induction s arbitrary: acc)
  case (Cons c s)
  have "acc \<le> acc * 10 + digit_val c" by simp
  also have "\<dots> \<le> dec_value (acc * 10 + digit_val c) s" by (rule Cons.IH)
  finally show ?case by simp
qed simp

lemma dec_of_nat_hd_0: "hd (dec_of_nat n) = CHR ''0'' \<longleftrightarrow> n = 0"
proof (induction n rule: dec_of_nat.induct)
  case (1 n)
  have "dec_digit m = CHR ''0'' \<longleftrightarrow> m = 0" if "m < 10" for m
  proof -
    have "byte (dec_digit m) = byte (CHR ''0'') \<longleftrightarrow> m = 0"
      using that by (simp add: dec_digit_def) (simp add: byte_def)
    then show ?thesis by (simp only: byte_inject)
  qed
  with 1 show ?case
    by (subst dec_of_nat.simps) (auto simp: hd_append)
qed

lemma dec_of_nat_is_cstring [simp]: "is_cstring (dec_of_nat n)"
proof -
  have "\<not> c_isdigit NUL" by (simp add: c_isdigit_def byte_def)
  with dec_of_nat_digits [of n] show ?thesis by (auto simp: is_cstring_def)
qed

lemma dec_of_int_is_cstring [simp]: "is_cstring (dec_of_int i)"
  by (simp add: dec_of_int_def)

lemma length_dec_of_nat: "n < 10 ^ k \<Longrightarrow> 0 < k \<Longrightarrow> length (dec_of_nat n) \<le> k"
proof (induction n arbitrary: k rule: dec_of_nat.induct)
  case (1 n)
  show ?case
  proof (cases "n < 10")
    case True
    with "1.prems" show ?thesis by (subst dec_of_nat.simps) simp
  next
    case False
    with "1.prems" obtain j where j: "k = Suc j" "0 < j"
      by (cases k; cases "k - 1") auto
    with "1.prems" have "n div 10 < 10 ^ j" by (simp add: less_mult_imp_div_less mult.commute)
    with False j "1.IH" have "length (dec_of_nat (n div 10)) \<le> j" by simp
    with False j show ?thesis by (subst dec_of_nat.simps) simp
  qed
qed

text \<open>Padding to the field width of \<open>printf\<close>.\<close>

definition pad_left :: "char \<Rightarrow> nat \<Rightarrow> string \<Rightarrow> string" where
  "pad_left c n s = replicate (n - length s) c @ s"

definition pad_right :: "char \<Rightarrow> nat \<Rightarrow> string \<Rightarrow> string" where
  "pad_right c n s = s @ replicate (n - length s) c"

end
