(* ===== verification/Dbl.thy ===== *)
theory Dbl
  imports Complex_Main CString
begin

text \<open>
  The C type \<open>double\<close>: IEEE 754 binary64 with rounding to nearest, ties to even. A finite value
  is its sign and its magnitude, an exact rational; every operation computes the exact result
  and rounds it once (\<open>dbl_round\<close>). The conversions \<open>%f\<close>, \<open>%.nf\<close> and \<open>%e\<close> of \<open>printf\<close>
  print the exact value, rounded to the digits shown.
  \<open>dbl_of_int_exact\<close> is the fact most proofs use: integers below \<open>2^53\<close> are exact.
\<close>

datatype dbl = NaN | Inf bool | Fin bool rat

definition pow2 :: "int \<Rightarrow> rat" where
  "pow2 k = (if 0 \<le> k then 2 ^ nat k else 1 / 2 ^ nat (- k))"

fun bitlen :: "nat \<Rightarrow> nat" where
  "bitlen n = (if n = 0 then 0 else Suc (bitlen (n div 2)))"

declare bitlen.simps [simp del]

text \<open>The binary exponent of a positive rational: \<open>pow2 (ilog2 x) \<le> x < pow2 (ilog2 x + 1)\<close>.\<close>

definition ilog2 :: "rat \<Rightarrow> int" where
  "ilog2 x = (let (p, q) = quotient_of x;
                  e = int (bitlen (nat p)) - int (bitlen (nat q))
              in if pow2 e \<le> x then e else e - 1)"

definition round_half_even :: "rat \<Rightarrow> int" where
  "round_half_even x =
     (let f = \<lfloor>x\<rfloor>; d = x - of_int f
      in if d < 1 / 2 then f else if d > 1 / 2 then f + 1 else if even f then f else f + 1)"

text \<open>Rounding a magnitude to 53 bits (fewer for subnormals); \<open>None\<close> is overflow.\<close>

definition round_mag :: "rat \<Rightarrow> rat option" where
  "round_mag x =
     (if x = 0 then Some 0
      else let u = pow2 (max (ilog2 x) (-1022) - 52);
               r = of_int (round_half_even (x / u)) * u
           in if pow2 1024 \<le> r then None else Some r)"

definition dbl_round :: "bool \<Rightarrow> rat \<Rightarrow> dbl" where
  "dbl_round s x = (case round_mag x of None \<Rightarrow> Inf s | Some r \<Rightarrow> Fin s r)"

fun dbl_val :: "bool \<Rightarrow> rat \<Rightarrow> rat" where
  "dbl_val s m = (if s then - m else m)"

definition dbl_of_rat :: "rat \<Rightarrow> dbl" where
  "dbl_of_rat x = dbl_round (x < 0) \<bar>x\<bar>"

definition dbl_of_int :: "int \<Rightarrow> dbl" where
  "dbl_of_int i = dbl_of_rat (of_int i)"

abbreviation dbl_zero :: dbl where
  "dbl_zero \<equiv> Fin False 0"

fun dbl_neg :: "dbl \<Rightarrow> dbl" where
  "dbl_neg NaN = NaN"
| "dbl_neg (Inf s) = Inf (\<not> s)"
| "dbl_neg (Fin s m) = Fin (\<not> s) m"

fun dbl_add :: "dbl \<Rightarrow> dbl \<Rightarrow> dbl" where
  "dbl_add NaN _ = NaN"
| "dbl_add _ NaN = NaN"
| "dbl_add (Inf s) (Inf t) = (if s = t then Inf s else NaN)"
| "dbl_add (Inf s) (Fin _ _) = Inf s"
| "dbl_add (Fin _ _) (Inf t) = Inf t"
| "dbl_add (Fin s x) (Fin t y) =
     (let v = dbl_val s x + dbl_val t y
      in if v = 0 then Fin (s \<and> t) 0 else dbl_of_rat v)"

definition dbl_sub :: "dbl \<Rightarrow> dbl \<Rightarrow> dbl" where
  "dbl_sub a b = dbl_add a (dbl_neg b)"

fun dbl_mul :: "dbl \<Rightarrow> dbl \<Rightarrow> dbl" where
  "dbl_mul NaN _ = NaN"
| "dbl_mul _ NaN = NaN"
| "dbl_mul (Inf s) (Inf t) = Inf (s \<noteq> t)"
| "dbl_mul (Inf s) (Fin t y) = (if y = 0 then NaN else Inf (s \<noteq> t))"
| "dbl_mul (Fin s x) (Inf t) = (if x = 0 then NaN else Inf (s \<noteq> t))"
| "dbl_mul (Fin s x) (Fin t y) = dbl_round (s \<noteq> t) (x * y)"

fun dbl_div :: "dbl \<Rightarrow> dbl \<Rightarrow> dbl" where
  "dbl_div NaN _ = NaN"
| "dbl_div _ NaN = NaN"
| "dbl_div (Inf _) (Inf _) = NaN"
| "dbl_div (Inf s) (Fin t _) = Inf (s \<noteq> t)"
| "dbl_div (Fin s _) (Inf t) = Fin (s \<noteq> t) 0"
| "dbl_div (Fin s x) (Fin t y) =
     (if y = 0 then (if x = 0 then NaN else Inf (s \<noteq> t)) else dbl_round (s \<noteq> t) (x / y))"

fun dbl_abs :: "dbl \<Rightarrow> dbl" where
  "dbl_abs NaN = NaN"
| "dbl_abs (Inf _) = Inf False"
| "dbl_abs (Fin _ m) = Fin False m"

fun dbl_le :: "dbl \<Rightarrow> dbl \<Rightarrow> bool" where
  "dbl_le NaN _ = False"
| "dbl_le _ NaN = False"
| "dbl_le (Inf s) (Inf t) = (s \<or> \<not> t)"
| "dbl_le (Inf s) (Fin _ _) = s"
| "dbl_le (Fin _ _) (Inf t) = (\<not> t)"
| "dbl_le (Fin s x) (Fin t y) = (dbl_val s x \<le> dbl_val t y)"

fun dbl_lt :: "dbl \<Rightarrow> dbl \<Rightarrow> bool" where
  "dbl_lt NaN _ = False"
| "dbl_lt _ NaN = False"
| "dbl_lt (Inf s) (Inf t) = (s \<and> \<not> t)"
| "dbl_lt (Inf s) (Fin _ _) = s"
| "dbl_lt (Fin _ _) (Inf t) = (\<not> t)"
| "dbl_lt (Fin s x) (Fin t y) = (dbl_val s x < dbl_val t y)"

fun dbl_floor :: "dbl \<Rightarrow> dbl" where
  "dbl_floor NaN = NaN"
| "dbl_floor (Inf s) = Inf s"
| "dbl_floor (Fin s m) = Fin s \<bar>of_int \<lfloor>dbl_val s m\<rfloor>\<bar>"

text \<open>
  Conversion to \<open>int\<close> truncates; a value whose truncation does not fit is undefined behaviour.
\<close>

fun dbl_to_int32 :: "dbl \<Rightarrow> int outcome" where
  "dbl_to_int32 NaN = Undef IntOverflow"
| "dbl_to_int32 (Inf _) = Undef IntOverflow"
| "dbl_to_int32 (Fin s m) =
     (let i = (if s then - \<lfloor>m\<rfloor> else \<lfloor>m\<rfloor>)
      in if -(2 ^ 31) \<le> i \<and> i < 2 ^ 31 then Val i else Undef IntOverflow)"

subsection \<open>printf\<close>

definition fix_digits :: "nat \<Rightarrow> rat \<Rightarrow> string" where
  "fix_digits prec m =
     (let k = nat (round_half_even (m * 10 ^ prec))
      in dec_of_nat (k div 10 ^ prec) @
         (if prec = 0 then [] else CHR ''.'' # pad_left (CHR ''0'') prec (dec_of_nat (k mod 10 ^ prec))))"

text \<open>\<open>%.\<close>\<open>prec\<close>\<open>f\<close>.\<close>

fun fmt_f :: "nat \<Rightarrow> dbl \<Rightarrow> string" where
  "fmt_f prec NaN = ''nan''"
| "fmt_f prec (Inf s) = (if s then ''-inf'' else ''inf'')"
| "fmt_f prec (Fin s m) = (if s then CHR ''-'' # fix_digits prec m else fix_digits prec m)"

definition pow10 :: "int \<Rightarrow> rat" where
  "pow10 k = (if 0 \<le> k then 10 ^ nat k else 1 / 10 ^ nat (- k))"

definition ilog10 :: "rat \<Rightarrow> int" where
  "ilog10 x = (let (p, q) = quotient_of x;
                   e = int (length (dec_of_nat (nat p))) - int (length (dec_of_nat (nat q)))
               in if pow10 e \<le> x then e else e - 1)"

definition exp_digits :: "rat \<Rightarrow> string" where
  "exp_digits m =
     (let e = (if m = 0 then 0 else ilog10 m);
          k = nat (round_half_even (m / pow10 (e - 6)));
          (k, e) = (if k = 10 ^ 7 then (10 ^ 6, e + 1) else (k, e))
      in dec_of_nat (k div 10 ^ 6) @ CHR ''.'' # pad_left (CHR ''0'') 6 (dec_of_nat (k mod 10 ^ 6)) @
         CHR ''e'' # (if e < 0 then CHR ''-'' else CHR ''+'') #
         pad_left (CHR ''0'') 2 (dec_of_nat (nat \<bar>e\<bar>)))"

text \<open>\<open>%e\<close>.\<close>

fun fmt_e :: "dbl \<Rightarrow> string" where
  "fmt_e NaN = ''nan''"
| "fmt_e (Inf s) = (if s then ''-inf'' else ''inf'')"
| "fmt_e (Fin s m) = (if s then CHR ''-'' # exp_digits m else exp_digits m)"

subsection \<open>Integers below \<open>2^53\<close> are exact\<close>

lemma bitlen_lower: "0 < n \<Longrightarrow> 2 ^ (bitlen n - 1) \<le> n"
proof (induction n rule: bitlen.induct)
  case (1 n)
  show ?case
  proof (cases "n div 2 = 0")
    case True
    with "1.prems" have "n = 1" by simp
    then show ?thesis by (simp add: bitlen.simps)
  next
    case False
    with "1.prems" "1.IH" have "2 ^ (bitlen (n div 2) - 1) \<le> n div 2" by simp
    moreover have "bitlen n - 1 = Suc (bitlen (n div 2) - 1)"
      using "1.prems" False by (subst bitlen.simps, subst (2) bitlen.simps) (simp add: bitlen.simps [of "n div 2"])
    ultimately show ?thesis by simp
  qed
qed

lemma bitlen_upper: "n < 2 ^ k \<Longrightarrow> bitlen n \<le> k"
proof (induction n arbitrary: k rule: bitlen.induct)
  case (1 n)
  show ?case
  proof (cases "n = 0")
    case False
    with "1.prems" obtain j where "k = Suc j" by (cases k) auto
    with "1.prems" False "1.IH" [of j] show ?thesis by (simp add: bitlen.simps [of n] less_mult_imp_div_less mult.commute)
  qed (simp add: bitlen.simps)
qed

lemma bitlen_pos: "0 < n \<Longrightarrow> 0 < bitlen n"
  by (simp add: bitlen.simps)

lemma ilog2_of_nat:
  assumes "0 < n"
  shows "ilog2 (of_nat n) = int (bitlen n) - 1"
proof -
  have q: "quotient_of (of_nat n) = (int n, 1)"
    by (simp add: of_nat_rat quotient_of_Fract normalize_def)
  have b1: "bitlen (nat 1) = 1" by (simp add: bitlen.simps)
  have "(2 :: rat) ^ (bitlen n - 1) = of_nat (2 ^ (bitlen n - 1))" by simp
  also have "\<dots> \<le> of_nat n" using bitlen_lower [OF assms] by (simp only: of_nat_le_iff)
  finally have "pow2 (int (bitlen n) - 1) \<le> of_nat n"
    using bitlen_pos [OF assms] by (simp add: pow2_def nat_diff_distrib)
  with q b1 show ?thesis by (simp add: ilog2_def)
qed

lemma round_half_even_of_int [simp]: "round_half_even (of_int i) = i"
  by (simp add: round_half_even_def)

lemma pow2_neg: "pow2 (- int k) = 1 / 2 ^ k"
  by (cases "k = 0") (simp_all add: pow2_def)

lemma round_mag_of_nat:
  assumes "n < 2 ^ 53"
  shows "round_mag (of_nat n) = Some (of_nat n)"
proof (cases "n = 0")
  case True
  then show ?thesis by (simp add: round_mag_def)
next
  case False
  define k where "k = 53 - bitlen n"
  have le: "bitlen n \<le> 53" using assms by (rule bitlen_upper)
  have e: "max (ilog2 (of_nat n)) (-1022) - 52 = - int k"
    using False le bitlen_pos [of n] by (simp add: ilog2_of_nat k_def)
  have "of_nat n / pow2 (- int k) = (of_int (int (n * 2 ^ k)) :: rat)"
    by (simp add: pow2_neg)
  then have r: "of_int (round_half_even (of_nat n / pow2 (- int k))) * pow2 (- int k) = (of_nat n :: rat)"
    by (simp only: round_half_even_of_int) (simp add: pow2_neg)
  have "(of_nat n :: rat) < of_nat (2 ^ 53)" using assms by (simp only: of_nat_less_iff)
  also have "\<dots> \<le> pow2 1024" by (simp add: pow2_def)
  finally have "\<not> pow2 1024 \<le> (of_nat n :: rat)" by simp
  with False r show ?thesis by (simp add: round_mag_def e)
qed

lemma dbl_of_int_exact:
  assumes "\<bar>i\<bar> < 2 ^ 53"
  shows "dbl_of_int i = Fin (i < 0) \<bar>of_int i\<bar>"
proof -
  have eq: "(of_nat (nat \<bar>i\<bar>) :: rat) = \<bar>of_int i\<bar>" by simp
  have "nat \<bar>i\<bar> < 2 ^ 53" using assms by simp
  then have "round_mag \<bar>of_int i\<bar> = Some \<bar>of_int i\<bar>"
    unfolding eq [symmetric] by (rule round_mag_of_nat)
  then show ?thesis by (simp add: dbl_of_int_def dbl_of_rat_def dbl_round_def)
qed

lemma dbl_to_int32_of_int:
  assumes "-(2 ^ 31) \<le> i" "i < 2 ^ 31"
  shows "dbl_to_int32 (dbl_of_int i) = Val i"
proof -
  have "\<bar>i\<bar> < 2 ^ 53" using assms by simp
  then have "dbl_of_int i = Fin (i < 0) \<bar>of_int i\<bar>" by (rule dbl_of_int_exact)
  moreover have "\<lfloor>\<bar>of_int i\<bar> :: rat\<rfloor> = \<bar>i\<bar>" by (metis floor_of_int of_int_abs)
  ultimately show ?thesis using assms by simp
qed

lemma dbl_mul_10_add_digit:
  assumes "n * 10 + d < 2 ^ 53"
  shows "dbl_add (dbl_mul (Fin False (of_nat n)) (Fin False 10)) (Fin False (of_nat d))
       = Fin False (of_nat (n * 10 + d))"
proof -
  have 1: "dbl_mul (Fin False (of_nat n)) (Fin False 10) = Fin False (of_nat (n * 10))"
    using assms round_mag_of_nat [of "n * 10"] by (simp add: dbl_round_def)
  have 2: "of_nat (n * 10) + of_nat d = (of_nat (n * 10 + d) :: rat)" by simp
  show ?thesis
    using assms round_mag_of_nat [of "n * 10 + d"]
    by (simp only: 1) (auto simp: dbl_of_rat_def dbl_round_def simp del: of_nat_add of_nat_mult simp flip: of_nat_add)
qed

end
