(* ===== verification/Binding.thy ===== *)
theory Binding
  imports Prelude
begin

text \<open>
  The two lookup disciplines of the program's name tables, as interfaces. A JSON object is
  searched from its first member (\<open>first_wins\<close>: an earlier member shadows a later one), the
  procedure table of the RPC server from its last entry (\<open>last_wins\<close>: registering a name
  again overrides it). \<open>eqv\<close> is the key comparison of the search, \<open>stored k v\<close> the value as the
  table keeps it under key \<open>k\<close> (a JSON member records its key). The clients rely on what
  follows for a table filled by repeated insertion (\<open>adds\<close>).
\<close>

fun adds :: "('m \<Rightarrow> 'k \<Rightarrow> 'v \<Rightarrow> 'm) \<Rightarrow> 'm \<Rightarrow> ('k \<times> 'v) list \<Rightarrow> 'm" where
  "adds add m [] = m"
| "adds add m ((k, v) # kvs) = adds add (add m k v) kvs"

lemma adds_append: "adds add m (xs @ ys) = adds add (adds add m xs) ys"
  by (induction add m xs rule: adds.induct) simp_all

locale binding_store =
  fixes lookup :: "'m \<Rightarrow> 'k \<Rightarrow> 'v option"
    and add :: "'m \<Rightarrow> 'k \<Rightarrow> 'v \<Rightarrow> 'm"
    and void :: "'m"
    and eqv :: "'k \<Rightarrow> 'k \<Rightarrow> bool"
    and stored :: "'k \<Rightarrow> 'v \<Rightarrow> 'v"
  assumes lookup_void: "lookup void k = None"
    and eqv_refl: "eqv k k"
    and eqv_sym: "eqv k k' \<Longrightarrow> eqv k' k"
    and eqv_trans: "eqv k k' \<Longrightarrow> eqv k' k'' \<Longrightarrow> eqv k k''"
begin

lemma eqv_commute: "eqv k k' \<longleftrightarrow> eqv k' k"
  by (blast intro: eqv_sym)

end

locale first_wins = binding_store +
  assumes lookup_add: "lookup (add m k v) k' =
    (case lookup m k' of Some x \<Rightarrow> Some x | None \<Rightarrow> if eqv k k' then Some (stored k v) else None)"
begin

lemma lookup_adds:
  "lookup (adds add m kvs) k =
    (case lookup m k of Some x \<Rightarrow> Some x | None \<Rightarrow> map_option (case_prod stored) (find (\<lambda>kv. eqv (fst kv) k) kvs))"
  by (induction kvs arbitrary: m) (auto simp: lookup_add split: option.splits)

lemma lookup_filled: "lookup (adds add void kvs) k = map_option (case_prod stored) (find (\<lambda>kv. eqv (fst kv) k) kvs)"
  by (simp add: lookup_adds lookup_void)

lemma lookup_keeps: "lookup m k' = Some x \<Longrightarrow> lookup (add m k v) k' = Some x"
  by (simp add: lookup_add)

end

locale last_wins = binding_store +
  assumes lookup_add: "lookup (add m k v) k' = (if eqv k k' then Some (stored k v) else lookup m k')"
begin

lemma lookup_adds:
  "lookup (adds add m kvs) k =
    (case find (\<lambda>kv. eqv (fst kv) k) (rev kvs) of Some kv \<Rightarrow> Some (case_prod stored kv) | None \<Rightarrow> lookup m k)"
proof (induction kvs arbitrary: m rule: rev_induct)
  case (snoc kv kvs)
  then show ?case
    by (cases kv) (simp add: adds_append lookup_add)
qed simp

lemma lookup_filled:
  "lookup (adds add void kvs) k = map_option (case_prod stored) (find (\<lambda>kv. eqv (fst kv) k) (rev kvs))"
  by (simp add: lookup_adds lookup_void split: option.split)

lemma lookup_override: "lookup (add m k v) k = Some (stored k v)"
  by (simp add: lookup_add eqv_refl)

text \<open>Entries whose keys are pairwise different are all reachable, in any order.\<close>

lemma lookup_distinct:
  assumes "sorted_wrt (\<lambda>a b. \<not> eqv (fst a) (fst b)) kvs" "(k, v) \<in> set kvs"
  shows "lookup (adds add m kvs) k = Some (stored k v)"
  using assms
proof (induction kvs arbitrary: m)
  case (Cons kv kvs)
  show ?case
  proof (cases "(k, v) \<in> set kvs")
    case True
    with Cons show ?thesis by (cases kv) simp
  next
    case False
    with Cons.prems have kv: "kv = (k, v)" by simp
    with Cons.prems have "find (\<lambda>kv. eqv (fst kv) k) (rev kvs) = None"
      by (auto simp: find_None_iff eqv_commute)
    with kv show ?thesis by (simp add: lookup_adds lookup_override)
  qed
qed simp

end

end
