(* ===== verification/CJson.thy ===== *)
theory CJson
  imports Dbl Binding
begin

text \<open>
  \<open>src/cJSON.c\<close>, \<open>include/cJSON.h\<close>: the JSON tree and the operations on it.

  A \<open>struct cJSON\<close> is a value of \<open>cjson\<close>; the doubly linked list that starts at its \<open>child\<close>
  pointer is the list of its members, so \<open>next\<close> and \<open>prev\<close> are list positions. The flag bit
  \<open>cJSON_IsReference\<close> of \<open>type\<close> is the field \<open>isref\<close>. A null \<open>valuestring\<close> or \<open>string\<close> is
  \<open>None\<close>. Items passed to the insertion functions are not members of another list, as the
  header asks. Allocation succeeds; the branches for a failing \<open>malloc\<close> are left out.
\<close>

datatype cjtype = CJ_False | CJ_True | CJ_NULL | CJ_Number | CJ_String | CJ_Array | CJ_Object

datatype cjson =
  CJson (child: "cjson list") (ctype: cjtype) (isref: bool) (valuestring: "string option")
    (valueint: int) (valuedouble: dbl) (name: "string option")

fun set_child :: "cjson list \<Rightarrow> cjson \<Rightarrow> cjson" where
  "set_child cs (CJson _ t r vs vi vd n) = CJson cs t r vs vi vd n"

fun set_type :: "cjtype \<Rightarrow> cjson \<Rightarrow> cjson" where
  "set_type t (CJson cs _ r vs vi vd n) = CJson cs t r vs vi vd n"

fun set_valuestring :: "string option \<Rightarrow> cjson \<Rightarrow> cjson" where
  "set_valuestring vs (CJson cs t r _ vi vd n) = CJson cs t r vs vi vd n"

fun set_valueint :: "int \<Rightarrow> cjson \<Rightarrow> cjson" where
  "set_valueint vi (CJson cs t r vs _ vd n) = CJson cs t r vs vi vd n"

fun set_valuedouble :: "dbl \<Rightarrow> cjson \<Rightarrow> cjson" where
  "set_valuedouble vd (CJson cs t r vs vi _ n) = CJson cs t r vs vi vd n"

fun set_name :: "string option \<Rightarrow> cjson \<Rightarrow> cjson" where
  "set_name n (CJson cs t r vs vi vd _) = CJson cs t r vs vi vd n"

fun set_isref :: "bool \<Rightarrow> cjson \<Rightarrow> cjson" where
  "set_isref r (CJson cs t _ vs vi vd n) = CJson cs t r vs vi vd n"

subsection \<open>Keys\<close>

text \<open>The loop stops at the first NUL, whether it is the end of the list or a byte of it.\<close>

fun casecmp_chars :: "string \<Rightarrow> string \<Rightarrow> int" where
  "casecmp_chars [] [] = 0"
| "casecmp_chars [] (d # t) = - int (byte (c_tolower d))"
| "casecmp_chars (c # s) [] = int (byte (c_tolower c))"
| "casecmp_chars (c # s) (d # t) =
     (if c_tolower c = c_tolower d then (if c = NUL then 0 else casecmp_chars s t)
      else int (byte (c_tolower c)) - int (byte (c_tolower d)))"

definition cJSON_strcasecmp :: "string option \<Rightarrow> string option \<Rightarrow> int" where
  "cJSON_strcasecmp s1 s2 =
     (case s1 of None \<Rightarrow> (if s2 = None then 0 else 1)
      | Some a \<Rightarrow> (case s2 of None \<Rightarrow> 1 | Some b \<Rightarrow> casecmp_chars a b))"

lemma casecmp_chars_eq_0: "casecmp_chars s t = 0 \<longleftrightarrow> strcaseeq (cstr s) (cstr t)"
  by (induction s t rule: casecmp_chars.induct) (auto simp: strcaseeq_def cstr_def)

lemma cJSON_strcasecmp_Some [simp]:
  "cJSON_strcasecmp (Some a) (Some b) = 0 \<longleftrightarrow> strcaseeq (cstr a) (cstr b)"
  by (simp add: cJSON_strcasecmp_def casecmp_chars_eq_0)

lemma strcaseeq_refl [simp]: "strcaseeq s s"
  by (simp add: strcaseeq_def)

subsection \<open>Construction\<close>

definition cJSON_New_Item :: cjson where
  "cJSON_New_Item = CJson [] CJ_False False None 0 dbl_zero None"

definition cJSON_CreateNull :: cjson where
  "cJSON_CreateNull = set_type CJ_NULL cJSON_New_Item"

definition cJSON_CreateTrue :: cjson where
  "cJSON_CreateTrue = set_type CJ_True cJSON_New_Item"

definition cJSON_CreateFalse :: cjson where
  "cJSON_CreateFalse = set_type CJ_False cJSON_New_Item"

definition cJSON_CreateBool :: "bool \<Rightarrow> cjson" where
  "cJSON_CreateBool b = set_type (if b then CJ_True else CJ_False) cJSON_New_Item"

definition cJSON_CreateNumber :: "dbl \<Rightarrow> cjson outcome" where
  "cJSON_CreateNumber num =
     obind (dbl_to_int32 num) (\<lambda>i.
       Val (set_valueint i (set_valuedouble num (set_type CJ_Number cJSON_New_Item))))"

definition cJSON_CreateString :: "string \<Rightarrow> cjson" where
  "cJSON_CreateString s = set_valuestring (Some s) (set_type CJ_String cJSON_New_Item)"

definition cJSON_CreateArray :: cjson where
  "cJSON_CreateArray = set_type CJ_Array cJSON_New_Item"

definition cJSON_CreateObject :: cjson where
  "cJSON_CreateObject = set_type CJ_Object cJSON_New_Item"

text \<open>\<open>int\<close> arguments are converted to \<open>double\<close> by the call, exactly.\<close>

definition cJSON_CreateIntArray :: "int list \<Rightarrow> cjson outcome" where
  "cJSON_CreateIntArray numbers =
     foldl (\<lambda>a n. obind a (\<lambda>a. obind (cJSON_CreateNumber (dbl_of_int n)) (\<lambda>i.
              Val (set_child (child a @ [i]) a))))
       (Val cJSON_CreateArray) numbers"

definition cJSON_CreateDoubleArray :: "dbl list \<Rightarrow> cjson outcome" where
  "cJSON_CreateDoubleArray numbers =
     foldl (\<lambda>a n. obind a (\<lambda>a. obind (cJSON_CreateNumber n) (\<lambda>i.
              Val (set_child (child a @ [i]) a))))
       (Val cJSON_CreateArray) numbers"

definition cJSON_CreateStringArray :: "string list \<Rightarrow> cjson" where
  "cJSON_CreateStringArray strings =
     foldl (\<lambda>a s. set_child (child a @ [cJSON_CreateString s]) a) cJSON_CreateArray strings"

subsection \<open>Access\<close>

definition cJSON_GetArraySize :: "cjson \<Rightarrow> nat" where
  "cJSON_GetArraySize a = length (child a)"

fun walk_to :: "cjson list \<Rightarrow> int \<Rightarrow> cjson option" where
  "walk_to [] item = None"
| "walk_to (c # cs) item = (if 0 < item then walk_to cs (item - 1) else Some c)"

definition cJSON_GetArrayItem :: "cjson \<Rightarrow> int \<Rightarrow> cjson option" where
  "cJSON_GetArrayItem a item = walk_to (child a) item"

definition cJSON_GetObjectItem :: "cjson \<Rightarrow> string \<Rightarrow> cjson option" where
  "cJSON_GetObjectItem obj s = find (\<lambda>c. cJSON_strcasecmp (name c) (Some s) = 0) (child obj)"

subsection \<open>Insertion, removal, replacement\<close>

definition cJSON_AddItemToArray :: "cjson \<Rightarrow> cjson option \<Rightarrow> cjson" where
  "cJSON_AddItemToArray a item =
     (case item of None \<Rightarrow> a | Some i \<Rightarrow> set_child (child a @ [i]) a)"

definition cJSON_AddItemToObject :: "cjson \<Rightarrow> string \<Rightarrow> cjson option \<Rightarrow> cjson" where
  "cJSON_AddItemToObject obj s item =
     (case item of None \<Rightarrow> obj | Some i \<Rightarrow> cJSON_AddItemToArray obj (Some (set_name (Some s) i)))"

definition create_reference :: "cjson \<Rightarrow> cjson" where
  "create_reference item = set_isref True (set_name None item)"

definition cJSON_AddItemReferenceToArray :: "cjson \<Rightarrow> cjson \<Rightarrow> cjson" where
  "cJSON_AddItemReferenceToArray a item = cJSON_AddItemToArray a (Some (create_reference item))"

definition cJSON_AddItemReferenceToObject :: "cjson \<Rightarrow> string \<Rightarrow> cjson \<Rightarrow> cjson" where
  "cJSON_AddItemReferenceToObject obj s item = cJSON_AddItemToObject obj s (Some (create_reference item))"

fun detach_at :: "cjson list \<Rightarrow> int \<Rightarrow> cjson option \<times> cjson list" where
  "detach_at [] which = (None, [])"
| "detach_at (c # cs) which =
     (if 0 < which then (case detach_at cs (which - 1) of (r, cs') \<Rightarrow> (r, c # cs'))
      else (Some c, cs))"

definition cJSON_DetachItemFromArray :: "cjson \<Rightarrow> int \<Rightarrow> cjson option \<times> cjson" where
  "cJSON_DetachItemFromArray a which =
     (case detach_at (child a) which of (r, cs) \<Rightarrow> (r, set_child cs a))"

text \<open>The index the \<open>while (c \<and> strcasecmp) i++\<close> loops stop at, if they stop on a member.\<close>

fun key_index :: "cjson list \<Rightarrow> string \<Rightarrow> int \<Rightarrow> int option" where
  "key_index [] s i = None"
| "key_index (c # cs) s i =
     (if cJSON_strcasecmp (name c) (Some s) = 0 then Some i else key_index cs s (i + 1))"

definition cJSON_DetachItemFromObject :: "cjson \<Rightarrow> string \<Rightarrow> cjson option \<times> cjson" where
  "cJSON_DetachItemFromObject obj s =
     (case key_index (child obj) s 0 of None \<Rightarrow> (None, obj)
      | Some i \<Rightarrow> cJSON_DetachItemFromArray obj i)"

definition cJSON_DeleteItemFromArray :: "cjson \<Rightarrow> int \<Rightarrow> cjson" where
  "cJSON_DeleteItemFromArray a which = snd (cJSON_DetachItemFromArray a which)"

definition cJSON_DeleteItemFromObject :: "cjson \<Rightarrow> string \<Rightarrow> cjson" where
  "cJSON_DeleteItemFromObject obj s = snd (cJSON_DetachItemFromObject obj s)"

fun replace_at :: "cjson list \<Rightarrow> int \<Rightarrow> cjson \<Rightarrow> cjson list" where
  "replace_at [] which newitem = []"
| "replace_at (c # cs) which newitem =
     (if 0 < which then c # replace_at cs (which - 1) newitem else newitem # cs)"

definition cJSON_ReplaceItemInArray :: "cjson \<Rightarrow> int \<Rightarrow> cjson \<Rightarrow> cjson" where
  "cJSON_ReplaceItemInArray a which newitem = set_child (replace_at (child a) which newitem) a"

definition cJSON_ReplaceItemInObject :: "cjson \<Rightarrow> string \<Rightarrow> cjson \<Rightarrow> cjson" where
  "cJSON_ReplaceItemInObject obj s newitem =
     (case key_index (child obj) s 0 of None \<Rightarrow> obj
      | Some i \<Rightarrow> cJSON_ReplaceItemInArray obj i (set_name (Some s) newitem))"

text \<open>
  The number of \<open>cJSON_free\<close> calls of \<open>cJSON_Delete\<close>: a reference item keeps the members and
  the \<open>valuestring\<close> it shares with the original.
\<close>

fun cJSON_Delete :: "cjson \<Rightarrow> nat" where
  "cJSON_Delete (CJson cs t r vs vi vd n) =
     (if r then 0 else sum_list (map cJSON_Delete cs) + (if vs = None then 0 else 1))
     + (if n = None then 0 else 1) + 1"

subsection \<open>Laws\<close>

named_theorems cjson_defs \<open>the constructors and list operations of the tree\<close>

declare cJSON_New_Item_def [cjson_defs] cJSON_CreateNull_def [cjson_defs]
  cJSON_CreateTrue_def [cjson_defs] cJSON_CreateFalse_def [cjson_defs]
  cJSON_CreateString_def [cjson_defs] cJSON_CreateArray_def [cjson_defs]
  cJSON_CreateObject_def [cjson_defs] cJSON_AddItemToArray_def [cjson_defs]
  cJSON_AddItemToObject_def [cjson_defs]

lemma set_simps [simp]:
  "child (set_child cs j) = cs" "ctype (set_child cs j) = ctype j" "name (set_child cs j) = name j"
  "child (set_name n j) = child j" "ctype (set_name n j) = ctype j" "name (set_name n j) = n"
  "valuestring (set_name n j) = valuestring j" "valueint (set_name n j) = valueint j"
  "valuedouble (set_name n j) = valuedouble j" "isref (set_name n j) = isref j"
  "child (set_type t j) = child j" "ctype (set_type t j) = t"
  "set_child cs (set_child cs' j) = set_child cs j"
  "set_name n (set_name n' j) = set_name n j"
  by (cases j; simp)+

lemma set_child_child [simp]: "set_child (child j) j = j"
  by (cases j) simp

lemma GetObjectItem_Add:
  "cJSON_GetObjectItem (cJSON_AddItemToObject obj k (Some i)) k' =
    (case cJSON_GetObjectItem obj k' of Some x \<Rightarrow> Some x
     | None \<Rightarrow> if strcaseeq (cstr k) (cstr k') then Some (set_name (Some k) i) else None)"
proof -
  have "find P (xs @ [x]) = (case find P xs of Some y \<Rightarrow> Some y | None \<Rightarrow> if P x then Some x else None)"
    for P and xs :: "cjson list" and x
    by (induction xs) auto
  then show ?thesis
    by (simp add: cJSON_GetObjectItem_def cjson_defs split: option.split)
qed

lemma GetObjectItem_CreateObject [simp]: "cJSON_GetObjectItem cJSON_CreateObject k = None"
  by (simp add: cJSON_GetObjectItem_def cjson_defs)

interpretation obj: first_wins cJSON_GetObjectItem "\<lambda>m k v. cJSON_AddItemToObject m k (Some v)"
  cJSON_CreateObject "\<lambda>k k'. strcaseeq (cstr k) (cstr k')" "\<lambda>k v. set_name (Some k) v"
  by unfold_locales (auto simp: GetObjectItem_Add strcaseeq_def)

lemma walk_to_nth:
  "walk_to cs i = (if nat i < length cs then Some (cs ! nat i) else None)"
  by (induction cs i rule: walk_to.induct) (auto simp: nat_diff_distrib' nth_Cons')

lemma detach_at_nth:
  "detach_at cs i = (if nat i < length cs
     then (Some (cs ! nat i), take (nat i) cs @ drop (Suc (nat i)) cs) else (None, cs))"
proof (induction cs i rule: detach_at.induct)
  case (2 c cs which)
  show ?case
  proof (cases "0 < which")
    case True
    then obtain k where "nat which = Suc k" "nat (which - 1) = k"
      by (cases "nat which") auto
    with 2 True show ?thesis by simp
  qed simp
qed simp

lemma replace_at_update: "replace_at cs i j = (if nat i < length cs then cs[nat i := j] else cs)"
proof (induction cs i j rule: replace_at.induct)
  case (2 c cs which newitem)
  show ?case
  proof (cases "0 < which")
    case True
    then obtain k where "nat which = Suc k" "nat (which - 1) = k"
      by (cases "nat which") auto
    with 2 True show ?thesis by simp
  qed simp
qed simp

lemma key_index_ge: "key_index cs s i = Some j \<Longrightarrow> i \<le> j"
  by (induction cs s i rule: key_index.induct) (auto split: if_splits)

lemma key_index_find:
  "key_index cs s i = Some j \<Longrightarrow>
     nat (j - i) < length cs \<and> find (\<lambda>c. cJSON_strcasecmp (name c) (Some s) = 0) cs = Some (cs ! nat (j - i))"
proof (induction cs s i rule: key_index.induct)
  case (2 c cs s i)
  show ?case
  proof (cases "cJSON_strcasecmp (name c) (Some s) = 0")
    case False
    with "2.prems" have k: "key_index cs s (i + 1) = Some j" by simp
    then have "nat (j - i) = Suc (nat (j - (i + 1)))" using key_index_ge by fastforce
    with False k "2.IH" show ?thesis by auto
  qed (use "2.prems" in auto)
qed simp

lemma key_index_None:
  "key_index cs s i = None \<longleftrightarrow> find (\<lambda>c. cJSON_strcasecmp (name c) (Some s) = 0) cs = None"
  by (induction cs s i rule: key_index.induct) auto

end
