(* ===== verification/CJsonParse.thy ===== *)
theory CJsonParse
  imports CJson
begin

unbundle bit_operations_syntax

text \<open>
  \<open>src/cJSON.c\<close>: the parser. A \<open>char **value\<close> argument is the memory from the current
  position to the end of the buffer; every function returns the position it leaves behind:
  \<open>Ok x m\<close> is a non-null result, \<open>Fail m\<close> the result NULL, \<open>Crash u\<close> undefined behaviour.
  The recursion is bounded by fuel; \<open>parse_total\<close> shows that \<open>length m + 1\<close> units
  are enough for a buffer \<open>m\<close>, so \<open>NoFuel\<close> never is the outcome of \<open>cJSON_Parse_Stream\<close>.

  \<open>pow\<close> of the C library is the parameter \<open>pw\<close> (\<open>pw x\<close> is \<open>pow(10.0, x)\<close>): its accuracy is
  the implementation's. The proofs use \<open>pw dbl_zero = 1\<close>, which C requires.
  \<open>sscanf("%4x")\<close> follows glibc.
\<close>

datatype 'a parsed = Ok 'a mem | Fail mem | Crash ub | NoFuel

definition pbind :: "'a parsed \<Rightarrow> ('a \<Rightarrow> mem \<Rightarrow> 'b parsed) \<Rightarrow> 'b parsed" where
  "pbind r f = (case r of Ok x m \<Rightarrow> f x m | Fail m \<Rightarrow> Fail m | Crash u \<Rightarrow> Crash u | NoFuel \<Rightarrow> NoFuel)"

lemma pbind_simps [simp]:
  "pbind (Ok x m) f = f x m" "pbind (Fail m) f = Fail m"
  "pbind (Crash u) f = Crash u" "pbind NoFuel f = NoFuel"
  by (simp_all add: pbind_def)

lemma pbind_eq_Ok: "pbind r f = Ok y m' \<longleftrightarrow> (\<exists>x m. r = Ok x m \<and> f x m = Ok y m')"
  by (cases r) auto

lemma pbind_eq_Fail: "pbind r f = Fail m' \<longleftrightarrow> r = Fail m' \<or> (\<exists>x m. r = Ok x m \<and> f x m = Fail m')"
  by (cases r) auto

lemma pbind_eq_NoFuel: "pbind r f = NoFuel \<longleftrightarrow> r = NoFuel \<or> (\<exists>x m. r = Ok x m \<and> f x m = NoFuel)"
  by (cases r) auto

text \<open>An access at the current position: \<open>**value\<close>.\<close>

definition peek :: "mem \<Rightarrow> (char \<Rightarrow> mem \<Rightarrow> 'a parsed) \<Rightarrow> 'a parsed" where
  "peek m f = (case m of [] \<Rightarrow> Crash OutOfBounds | c # r \<Rightarrow> f c r)"

lemma peek_simps [simp]:
  "peek [] f = Crash OutOfBounds" "peek (c # r) f = f c r"
  by (simp_all add: peek_def)

fun skip :: "mem \<Rightarrow> unit parsed" where
  "skip [] = Crash OutOfBounds"
| "skip (c # m) = (if c_isspace c then skip m else Ok () (c # m))"

fun stream_cmp :: "string \<Rightarrow> mem \<Rightarrow> int parsed" where
  "stream_cmp [] m = Crash OutOfBounds"
| "stream_cmp (k # ks) [] = Crash OutOfBounds"
| "stream_cmp (k # ks) (c # m) =
     (if c = k then stream_cmp ks m
      else Ok (if k = NUL then 0 else schar c - schar k) (c # m))"

subsection \<open>Numbers\<close>

text \<open>The loops over digits; \<open>k\<close> counts the digits read, for the scale of the fraction.\<close>

fun scan_digits :: "dbl \<Rightarrow> dbl \<Rightarrow> mem \<Rightarrow> (dbl \<times> dbl) parsed" where
  "scan_digits n scale [] = Crash OutOfBounds"
| "scan_digits n scale (c # m) =
     (if c_isdigit c
      then scan_digits (dbl_add (dbl_mul n (Fin False 10)) (dbl_of_int (int (digit_val c))))
             (dbl_sub scale (Fin False 1)) m
      else Ok (n, scale) (c # m))"

fun scan_exponent :: "int \<Rightarrow> mem \<Rightarrow> int parsed" where
  "scan_exponent s [] = Crash OutOfBounds"
| "scan_exponent s (c # m) =
     (if c_isdigit c
      then (let s' = s * 10 + int (digit_val c)
            in if s' < 2 ^ 31 then scan_exponent s' m else Crash IntOverflow)
      else Ok s (c # m))"

definition parse_fraction :: "dbl \<Rightarrow> mem \<Rightarrow> (dbl \<times> dbl) parsed" where
  "parse_fraction n m =
     peek m (\<lambda>c r.
       if c = CHR ''.'' then
         peek r (\<lambda>d _. if c_isdigit d then scan_digits n dbl_zero r else Ok (n, dbl_zero) m)
       else Ok (n, dbl_zero) m)"

definition parse_exponent :: "mem \<Rightarrow> (int \<times> int) parsed" where
  "parse_exponent m =
     peek m (\<lambda>c r.
       if c = CHR ''e'' \<or> c = CHR ''E'' then
         peek r (\<lambda>s r'.
           pbind (scan_exponent 0 (if s = CHR ''+'' \<or> s = CHR ''-'' then r' else r)) (\<lambda>sub m'.
             Ok (sub, if s = CHR ''-'' then -1 else 1) m'))
       else Ok (0, 1) m)"

text \<open>The optional zero and the digits in front of the fraction.\<close>

definition parse_integer :: "mem \<Rightarrow> (dbl \<times> dbl) parsed" where
  "parse_integer m =
     peek m (\<lambda>c r.
       let m2 = (if c = CHR ''0'' then r else m)
       in peek m2 (\<lambda>c r.
         if c_isdigit c \<and> c \<noteq> CHR ''0'' then scan_digits dbl_zero dbl_zero m2
         else Ok (dbl_zero, dbl_zero) m2))"

definition parse_number :: "(dbl \<Rightarrow> dbl) \<Rightarrow> cjson \<Rightarrow> mem \<Rightarrow> cjson parsed" where
  "parse_number pw item m =
     peek m (\<lambda>c r.
       let sign = (if c = CHR ''-'' then Fin True 1 else Fin False 1)
       in pbind (parse_integer (if c = CHR ''-'' then r else m)) (\<lambda>(n, _) m3.
          pbind (parse_fraction n m3) (\<lambda>(n, scale) m4.
          pbind (parse_exponent m4) (\<lambda>(subscale, signsubscale) m5.
            let v = dbl_mul (dbl_mul sign n)
                      (pw (dbl_add scale (dbl_of_int (subscale * signsubscale))))
            in case dbl_to_int32 v of
                 Undef u \<Rightarrow> Crash u
               | Val i \<Rightarrow> Ok (set_type CJ_Number (set_valueint i (set_valuedouble v item))) m5))))"

subsection \<open>Strings\<close>

text \<open>The loop that computes the size of the output buffer.\<close>

fun str_len :: "mem \<Rightarrow> nat outcome" where
  "str_len [] = Undef OutOfBounds"
| "str_len [c] = (if c = DQUOTE \<or> c = NUL then Val 0 else Undef OutOfBounds)"
| "str_len (c # d # m) =
     (if c = DQUOTE \<or> c = NUL then Val 0
      else obind (str_len (if c = BSLASH then m else d # m)) (\<lambda>n. Val (Suc n)))"

definition c_isxdigit :: "char \<Rightarrow> bool" where
  "c_isxdigit c \<longleftrightarrow> c_isdigit c \<or> (65 \<le> byte c \<and> byte c \<le> 70) \<or> (97 \<le> byte c \<and> byte c \<le> 102)"

definition hex_val :: "char \<Rightarrow> nat" where
  "hex_val c = (if byte c \<le> 57 then byte c - 48 else if byte c \<le> 70 then byte c - 55 else byte c - 87)"

definition hex_value :: "string \<Rightarrow> nat" where
  "hex_value s = foldl (\<lambda>a c. a * 16 + hex_val c) 0 s"

text \<open>\<open>sscanf(m, "%4x", \<dots>)\<close>: \<open>None\<close> when nothing is converted.\<close>

definition sscanf_4x :: "mem \<Rightarrow> 32 word option outcome" where
  "sscanf_4x m =
     (case dropWhile c_isspace m of
        [] \<Rightarrow> Undef OutOfBounds
      | c # r \<Rightarrow>
          let (neg, w, s) = (if c = CHR ''-'' \<or> c = CHR ''+'' then (c = CHR ''-'', 3, r)
                             else (False, 4 :: nat, c # r));
              (zero, w, s) =
                (case s of
                   d # s' \<Rightarrow>
                     if d = CHR ''0'' then
                       (case s' of
                          x # s'' \<Rightarrow> if c_tolower x = CHR ''x'' then (True, w - 2, s'')
                                     else (True, w - 1, s')
                        | [] \<Rightarrow> (True, w - 1, s'))
                     else (False, w, s)
                 | [] \<Rightarrow> (False, w, s));
              ds = takeWhile c_isxdigit (take w s)
          in if length ds < w \<and> length ds = length s then Undef OutOfBounds
             else if \<not> zero \<and> ds = [] then Val None
             else Val (Some (if neg then - of_nat (hex_value ds) else of_nat (hex_value ds))))"

text \<open>The bytes stored for a code point, and the shifted value \<open>uc\<close> is left with.\<close>

definition utf8_len :: "32 word \<Rightarrow> nat" where
  "utf8_len uc = (if uc < 0x80 then 1 else if uc < 0x800 then 2 else if uc < 0x10000 then 3 else 4)"

definition tail_byte :: "32 word \<Rightarrow> char" where
  "tail_byte uc = char_of (unat ((uc OR 0x80) AND 0xBF))"

definition lead_byte :: "nat \<Rightarrow> 32 word \<Rightarrow> char" where
  "lead_byte len uc = char_of (unat (uc OR [0, 0, 0xC0, 0xE0, 0xF0, 0xF8, 0xFC] ! len))"

definition utf8_bytes :: "32 word \<Rightarrow> string" where
  "utf8_bytes uc =
     (let len = utf8_len uc
      in lead_byte len (drop_bit (6 * (len - 1)) uc) #
         map (\<lambda>i. tail_byte (drop_bit (6 * i) uc)) (rev [0..<len - 1]))"

text \<open>
  \<open>uc\<close> and \<open>uc2\<close> are local variables of \<open>parse_string\<close> without an initial value (\<open>None\<close>);
  a \<open>sscanf\<close> that converts nothing leaves them as they were.
\<close>

definition scan_into :: "32 word option \<Rightarrow> mem \<Rightarrow> 32 word outcome" where
  "scan_into old m =
     obind (sscanf_4x m) (\<lambda>v.
       case v of Some w \<Rightarrow> Val w
       | None \<Rightarrow> (case old of Some w \<Rightarrow> Val w | None \<Rightarrow> Undef Uninitialised))"

type_synonym uc_state = "32 word option \<times> 32 word option"

definition put_utf8 :: "32 word \<Rightarrow> 32 word option \<Rightarrow> mem \<Rightarrow> string \<times> uc_state \<times> mem" where
  "put_utf8 w uc2 m = (utf8_bytes w, (Some (drop_bit (6 * (utf8_len w - 1)) w), uc2), m)"

text \<open>The second half of a surrogate pair; \<open>m\<close> is the memory behind its \<open>u\<close>.\<close>

definition unescape_low :: "32 word \<Rightarrow> 32 word option \<Rightarrow> mem \<Rightarrow> (string \<times> uc_state \<times> mem) outcome" where
  "unescape_low w uc2 m =
     obind (scan_into uc2 m) (\<lambda>w2. Val
       (if w2 < 0xDC00 \<or> 0xDFFF < w2 then ([], (Some w, Some w2), drop 4 m)
        else put_utf8 (0x10000 OR push_bit 10 (w AND 0x3FF) OR (w2 AND 0x3FF)) (Some w2) (drop 4 m)))"

text \<open>The case \<open>'u'\<close> of the escape switch; \<open>m\<close> is the memory behind the \<open>u\<close>.\<close>

definition unescape_u :: "uc_state \<Rightarrow> mem \<Rightarrow> (string \<times> uc_state \<times> mem) outcome" where
  "unescape_u ucs m =
     (case ucs of (uc, uc2) \<Rightarrow>
      obind (scan_into uc m) (\<lambda>w.
        if (0xDC00 \<le> w \<and> w \<le> 0xDFFF) \<or> w = 0 then Val ([], (Some w, uc2), drop 4 m)
        else if 0xD800 \<le> w \<and> w \<le> 0xDBFF then
          (case drop 4 m of
             [] \<Rightarrow> Undef OutOfBounds
           | [p1] \<Rightarrow> if p1 \<noteq> BSLASH then Val ([], (Some w, uc2), drop 4 m) else Undef OutOfBounds
           | p1 # p2 # r \<Rightarrow>
               if p1 \<noteq> BSLASH \<or> p2 \<noteq> CHR ''u'' then Val ([], (Some w, uc2), drop 4 m)
               else unescape_low w uc2 r)
        else Val (put_utf8 w uc2 (drop 4 m))))"

lemma unescape_low_length: "unescape_low w uc2 m = Val (bs, ucs, m') \<Longrightarrow> length m' \<le> length m"
  by (auto simp: unescape_low_def put_utf8_def obind_eq_Val split: if_splits)

lemma unescape_u_length:
  assumes "unescape_u ucs m = Val (bs, ucs', m')"
  shows "length m' \<le> length m"
proof -
  have d: "length (drop 4 m) \<le> length m" by simp
  from assms obtain uc uc2 w where [simp]: "ucs = (uc, uc2)" and w: "scan_into uc m = Val w"
    by (cases ucs) (auto simp: unescape_u_def obind_eq_Val)
  show ?thesis
  proof (cases "m' = drop 4 m")
    case False
    with assms w obtain p1 p2 r where r: "drop 4 m = p1 # p2 # r" and "unescape_low w uc2 r = Val (bs, ucs', m')"
      by (auto simp: unescape_u_def put_utf8_def split: if_splits list.splits)
    then have "length m' \<le> length r" by (blast dest: unescape_low_length)
    also have "\<dots> \<le> length m" using d unfolding r by simp
    finally show ?thesis .
  qed (use d in simp)
qed

definition simple_escape :: "char \<Rightarrow> char" where
  "simple_escape e =
     (if e = CHR ''b'' then CHR 0x08 else if e = CHR ''f'' then CHR 0x0C
      else if e = CHR ''n'' then LF else if e = CHR ''r'' then CR
      else if e = CHR ''t'' then TAB else e)"

definition emit :: "string \<Rightarrow> (string \<times> mem) outcome \<Rightarrow> (string \<times> mem) outcome" where
  "emit s r = obind r (\<lambda>(out, m). Val (s @ out, m))"

lemma emit_simps [simp]:
  "emit s (Val (out, m)) = Val (s @ out, m)" "emit s (Undef u) = Undef u"
  by (simp_all add: emit_def)

lemma emit_eq_Val: "emit s r = Val (out, m) \<longleftrightarrow> (\<exists>out'. r = Val (out', m) \<and> out = s @ out')"
  by (cases r) auto

text \<open>The copying loop: the bytes written to \<open>out\<close> and the position it stops at.\<close>

function unescape :: "uc_state \<Rightarrow> mem \<Rightarrow> (string \<times> mem) outcome" where
  "unescape ucs [] = Undef OutOfBounds"
| "unescape ucs (c # m) =
     (if c = DQUOTE \<or> c = NUL then Val ([], c # m)
      else if c \<noteq> BSLASH then emit [c] (unescape ucs m)
      else (case m of
              [] \<Rightarrow> Undef OutOfBounds
            | e # m1 \<Rightarrow>
                if e = CHR ''u'' then
                  (case unescape_u ucs m1 of
                     Undef u \<Rightarrow> Undef u
                   | Val (bs, ucs', m2) \<Rightarrow> emit bs (unescape ucs' m2))
                else emit [simple_escape e] (unescape ucs m1)))"
  by pat_completeness auto
termination
  by (relation "measure (\<lambda>(ucs, m). length m)") (auto dest: unescape_u_length)

definition parse_string :: "cjson \<Rightarrow> mem \<Rightarrow> cjson parsed" where
  "parse_string item m =
     peek m (\<lambda>q r.
       if q \<noteq> DQUOTE then Fail m
       else case str_len r of
              Undef u \<Rightarrow> Crash u
            | Val len \<Rightarrow>
                (case unescape (None, None) r of
                   Undef u \<Rightarrow> Crash u
                 | Val (out, e) \<Rightarrow>
                     if len < length out then Crash OutOfBounds
                     else Ok (set_type CJ_String (set_valuestring (Some (cstr out)) item))
                            (if hd e = DQUOTE then tl e else e)))"

subsection \<open>Values\<close>

definition keyword :: "string \<Rightarrow> string" where
  "keyword s = s @ [NUL]"

text \<open>The member key: \<open>parse_string\<close>, then the string moves from \<open>valuestring\<close> to \<open>string\<close>.\<close>

definition parse_key :: "mem \<Rightarrow> cjson parsed" where
  "parse_key m =
     pbind (parse_string cJSON_New_Item m) (\<lambda>c m1. pbind (skip m1) (\<lambda>_ m2.
       Ok (set_valuestring None (set_name (valuestring c) c)) m2))"

text \<open>
  \<open>parse_array\<close> and \<open>parse_object\<close> take the parser \<open>pv\<close> of the values inside and the fuel \<open>k\<close> of
  their \<open>while (**value == ',')\<close> loop; \<open>parse_value\<close> ties the knot.
\<close>

primrec array_loop ::
  "(cjson \<Rightarrow> mem \<Rightarrow> cjson parsed) \<Rightarrow> nat \<Rightarrow> cjson list \<Rightarrow> mem \<Rightarrow> cjson list parsed" where
  "array_loop pv 0 cs m = NoFuel"
| "array_loop pv (Suc k) cs m =
     peek m (\<lambda>c r.
       if c \<noteq> CHR '','' then Ok cs m
       else pbind (skip r) (\<lambda>_ m1. peek m1 (\<lambda>c r1.
         if c = CHR '']'' then Ok cs r1
         else pbind (pv cJSON_New_Item m1) (\<lambda>v m2. pbind (skip m2) (\<lambda>_ m3.
           array_loop pv k (cs @ [v]) m3)))))"

definition parse_array ::
  "(cjson \<Rightarrow> mem \<Rightarrow> cjson parsed) \<Rightarrow> nat \<Rightarrow> cjson \<Rightarrow> mem \<Rightarrow> cjson parsed" where
  "parse_array pv k item m =
     peek m (\<lambda>c r.
       if c \<noteq> CHR ''['' then Fail m
       else pbind (skip r) (\<lambda>_ m1. peek m1 (\<lambda>c r1.
         if c = CHR '']'' then Ok (set_type CJ_Array item) r1
         else pbind (pv cJSON_New_Item m1) (\<lambda>v m2. pbind (skip m2) (\<lambda>_ m3.
           pbind (array_loop pv k [v] m3) (\<lambda>cs m4.
             peek m4 (\<lambda>c r4.
               if c \<noteq> CHR '']'' then Fail m4
               else Ok (set_child cs (set_type CJ_Array item)) r4)))))))"

text \<open>One member: key, colon, value.\<close>

definition parse_member :: "(cjson \<Rightarrow> mem \<Rightarrow> cjson parsed) \<Rightarrow> mem \<Rightarrow> cjson parsed" where
  "parse_member pv m =
     pbind (parse_key m) (\<lambda>c m1. peek m1 (\<lambda>ch r.
       if ch \<noteq> CHR '':'' then Fail m1
       else pbind (skip r) (\<lambda>_ m2. pbind (pv c m2) (\<lambda>v m3. pbind (skip m3) (\<lambda>_ m4. Ok v m4)))))"

primrec object_loop ::
  "(cjson \<Rightarrow> mem \<Rightarrow> cjson parsed) \<Rightarrow> nat \<Rightarrow> cjson list \<Rightarrow> mem \<Rightarrow> cjson list parsed" where
  "object_loop pv 0 cs m = NoFuel"
| "object_loop pv (Suc k) cs m =
     peek m (\<lambda>c r.
       if c \<noteq> CHR '','' then Ok cs m
       else pbind (skip r) (\<lambda>_ m1. peek m1 (\<lambda>c r1.
         if c = CHR ''}'' then Ok cs r1
         else pbind (parse_member pv m1) (\<lambda>v m2. object_loop pv k (cs @ [v]) m2))))"

definition parse_object ::
  "(cjson \<Rightarrow> mem \<Rightarrow> cjson parsed) \<Rightarrow> nat \<Rightarrow> cjson \<Rightarrow> mem \<Rightarrow> cjson parsed" where
  "parse_object pv k item m =
     peek m (\<lambda>c r.
       if c \<noteq> CHR ''{'' then Fail m
       else pbind (skip r) (\<lambda>_ m1. peek m1 (\<lambda>c r1.
         if c = CHR ''}'' then Ok (set_type CJ_Object item) r1
         else pbind (parse_member pv m1) (\<lambda>v m2.
           pbind (object_loop pv k [v] m2) (\<lambda>cs m3.
             peek m3 (\<lambda>c r3.
               if c \<noteq> CHR ''}'' then Fail m3
               else Ok (set_child cs (set_type CJ_Object item)) r3))))))"

primrec parse_value :: "(dbl \<Rightarrow> dbl) \<Rightarrow> nat \<Rightarrow> cjson \<Rightarrow> mem \<Rightarrow> cjson parsed" where
  "parse_value pw 0 item m = NoFuel"
| "parse_value pw (Suc n) item m =
     pbind (stream_cmp (keyword ''null'') m) (\<lambda>d m.
       if d = 0 then Ok (set_type CJ_NULL item) m
       else pbind (stream_cmp (keyword ''false'') m) (\<lambda>d m.
         if d = 0 then Ok (set_type CJ_False item) m
         else pbind (stream_cmp (keyword ''true'') m) (\<lambda>d m.
           if d = 0 then Ok (set_valueint 1 (set_type CJ_True item)) m
           else peek m (\<lambda>c _.
             if c = DQUOTE then parse_string item m
             else if c = CHR ''-'' \<or> c_isdigit c then parse_number pw item m
             else if c = CHR ''['' then parse_array (parse_value pw n) n item m
             else if c = CHR ''{'' then parse_object (parse_value pw n) n item m
             else Fail m))))"

definition parse_fuel :: "mem \<Rightarrow> nat" where
  "parse_fuel m = length m + 1"

text \<open>\<open>end_ptr\<close> is the position of the result, \<open>Ok\<close> or \<open>Fail\<close>.\<close>

definition cJSON_Parse_Stream :: "(dbl \<Rightarrow> dbl) \<Rightarrow> mem \<Rightarrow> cjson parsed" where
  "cJSON_Parse_Stream pw m =
     pbind (skip m) (\<lambda>_ m1. parse_value pw (parse_fuel m) cJSON_New_Item m1)"

definition cJSON_Parse :: "(dbl \<Rightarrow> dbl) \<Rightarrow> mem \<Rightarrow> cjson option outcome" where
  "cJSON_Parse pw m =
     (case cJSON_Parse_Stream pw m of
        Ok j _ \<Rightarrow> Val (Some j)
      | Fail _ \<Rightarrow> Val None
      | Crash u \<Rightarrow> Undef u
      | NoFuel \<Rightarrow> Undef OutOfBounds)"

end
