(* ===== verification/CJsonTotal.thy ===== *)
theory CJsonTotal
  imports CJsonParse "HOL-Library.Sublist"
begin

text \<open>
  \<open>src/cJSON.c\<close>: termination of the parser. Every parsing function stops at a position of the
  buffer it was given (a suffix), and the fuel \<open>parse_fuel\<close> is never exhausted.
\<close>

definition advances :: "'a parsed \<Rightarrow> mem \<Rightarrow> bool" where
  "advances r m \<longleftrightarrow> r \<noteq> NoFuel \<and> (\<forall>x m'. r = Ok x m' \<longrightarrow> suffix m' m) \<and> (\<forall>m'. r = Fail m' \<longrightarrow> suffix m' m)"

named_theorems adv \<open>the positions the parsing functions stop at\<close>

lemma suffix_tl: "suffix (c # r) m \<Longrightarrow> suffix r m"
  by (meson suffix_ConsD)

lemma suffix_if [adv]:
  "(P \<Longrightarrow> suffix a m) \<Longrightarrow> (\<not> P \<Longrightarrow> suffix b m) \<Longrightarrow> suffix (if P then a else b) m"
  by simp

lemma advances_leaf [adv]:
  "suffix m' m \<Longrightarrow> advances (Ok x m') m" "suffix m' m \<Longrightarrow> advances (Fail m') m" "advances (Crash u) m"
  by (simp_all add: advances_def)

lemma advances_pbind [adv]:
  assumes "advances r m" "\<And>x m'. suffix m' m \<Longrightarrow> advances (f x m') m"
  shows "advances (pbind r f) m"
proof (cases r)
  case (Ok x m')
  with assms(1) have "suffix m' m" by (simp add: advances_def)
  with Ok assms(2) show ?thesis by simp
qed (use assms(1) in \<open>simp_all add: advances_def\<close>)

lemma advances_peek [adv]:
  assumes "suffix m m0" "\<And>c r. m = c # r \<Longrightarrow> suffix (c # r) m0 \<Longrightarrow> suffix r m0 \<Longrightarrow> advances (f c r) m0"
  shows "advances (peek m f) m0"
proof (cases m)
  case (Cons c r)
  with assms(1) show ?thesis using assms(2) [of c r] suffix_tl [of c r m0] by simp
qed (simp add: advances_def)

lemma advances_if [adv]:
  "(P \<Longrightarrow> advances r m) \<Longrightarrow> (\<not> P \<Longrightarrow> advances s m) \<Longrightarrow> advances (if P then r else s) m"
  by simp

lemma advances_outcome [adv]:
  "(\<And>x. v = Val x \<Longrightarrow> advances (f x) m) \<Longrightarrow>
   advances (case v of Val x \<Rightarrow> f x | Undef u \<Rightarrow> Crash u) m"
  by (cases v) (simp_all add: advances_def)

lemma advances_prod [adv]: "(\<And>a b. x = (a, b) \<Longrightarrow> advances (f a b) m) \<Longrightarrow> advances (case x of (a, b) \<Rightarrow> f a b) m"
  by (cases x) simp

lemma advances_prod_app [adv]:
  "(\<And>a b. x = (a, b) \<Longrightarrow> advances (f a b m') m) \<Longrightarrow> advances ((case x of (a, b) \<Rightarrow> f a b) m') m"
  by (cases x) simp

lemma advances_let [adv]: "advances (f x) m \<Longrightarrow> advances (let y = x in f y) m"
  by simp

lemma skip_advances [adv]: "suffix m m0 \<Longrightarrow> advances (skip m) m0"
  by (induction m rule: skip.induct; (frule suffix_tl)?; auto simp: Let_def intro!: adv)

lemma stream_cmp_advances [adv]: "suffix m m0 \<Longrightarrow> advances (stream_cmp ks m) m0"
  by (induction ks m rule: stream_cmp.induct; (frule suffix_tl)?; auto simp: Let_def intro!: adv)

lemma scan_digits_advances [adv]: "suffix m m0 \<Longrightarrow> advances (scan_digits n s m) m0"
  by (induction n s m rule: scan_digits.induct; (frule suffix_tl)?; auto simp: Let_def intro!: adv)

lemma scan_exponent_advances [adv]: "suffix m m0 \<Longrightarrow> advances (scan_exponent s m) m0"
  by (induction s m rule: scan_exponent.induct; (frule suffix_tl)?; auto simp: Let_def intro!: adv)

lemma parse_fraction_advances [adv]: "suffix m m0 \<Longrightarrow> advances (parse_fraction n m) m0"
  unfolding parse_fraction_def by (intro adv)

lemma parse_exponent_advances [adv]: "suffix m m0 \<Longrightarrow> advances (parse_exponent m) m0"
  unfolding parse_exponent_def by (rule adv | assumption)+

lemma parse_integer_advances [adv]: "suffix m m0 \<Longrightarrow> advances (parse_integer m) m0"
  unfolding parse_integer_def by (rule adv | assumption)+

lemma parse_number_advances [adv]: "suffix m m0 \<Longrightarrow> advances (parse_number pw item m) m0"
  unfolding parse_number_def by (rule adv | assumption)+

lemma unescape_u_suffix:
  assumes "unescape_u ucs m = Val (bs, ucs', m')"
  shows "suffix m' m"
proof -
  have low: "suffix m' r" if "unescape_low w uc2 r = Val (bs, ucs', m')" for w uc2 r
    using that by (auto simp: unescape_low_def put_utf8_def obind_eq_Val suffix_drop split: if_splits)
  show ?thesis
  proof (cases "m' = drop 4 m")
    case False
    from assms obtain uc uc2 w where "ucs = (uc, uc2)" and "scan_into uc m = Val w"
      by (cases ucs) (auto simp: unescape_u_def obind_eq_Val)
    with assms False obtain p1 p2 r where r: "drop 4 m = p1 # p2 # r" and "unescape_low w uc2 r = Val (bs, ucs', m')"
      by (auto simp: unescape_u_def put_utf8_def split: if_splits list.splits)
    then have "suffix m' r" by (blast dest: low)
    moreover have "suffix (p1 # p2 # r) m" using suffix_drop [of 4 m] r by simp
    ultimately show ?thesis by (meson suffix_ConsD suffix_order.trans)
  qed (simp add: suffix_drop)
qed

lemma unescape_suffix: "unescape ucs m = Val (out, m') \<Longrightarrow> suffix m' m \<and> m' \<noteq> [] \<and> hd m' \<in> {DQUOTE, NUL}"
proof (induction ucs m arbitrary: out rule: unescape.induct)
  case (2 ucs c m)
  show ?case
  proof (cases "c = DQUOTE \<or> c = NUL")
    case True
    with "2.prems" show ?thesis by auto
  next
    case nq: False
    show ?thesis
    proof (cases "c = BSLASH")
      case False
      with nq "2.prems" obtain o' where "unescape ucs m = Val (o', m')" by (auto simp: emit_eq_Val)
      with "2.IH"(1) nq False show ?thesis by (blast intro: suffix_ConsI)
    next
      case True
      with "2.prems" obtain e m1 where m: "m = e # m1" by (auto split: list.splits)
      show ?thesis
      proof (cases "e = CHR ''u''")
        case False
        with m True nq "2.prems" obtain o' where "unescape ucs m1 = Val (o', m')" by (auto simp: emit_eq_Val)
        with "2.IH"(3) m True nq False have "suffix m' m1 \<and> m' \<noteq> [] \<and> hd m' \<in> {DQUOTE, NUL}" by blast
        with m show ?thesis by (blast intro: suffix_ConsI)
      next
        case u: True
        with m True nq "2.prems" obtain bs ucs' m2 o' where
          s: "unescape_u ucs m1 = Val (bs, ucs', m2)" and "unescape ucs' m2 = Val (o', m')"
          by (auto simp: emit_eq_Val split: outcome.splits)
        with "2.IH"(2) m u True nq have "suffix m' m2 \<and> m' \<noteq> [] \<and> hd m' \<in> {DQUOTE, NUL}" by blast
        moreover have "suffix m' m1" using calculation unescape_u_suffix [OF s] by (blast intro: suffix_order.trans)
        ultimately show ?thesis using m by (blast intro: suffix_ConsI)
      qed
    qed
  qed
qed simp

lemma parse_string_advances [adv]:
  assumes "suffix m m0"
  shows "advances (parse_string item m) m0"
  unfolding parse_string_def
proof (intro advances_peek advances_if advances_leaf advances_outcome advances_prod assms, goal_cases)
  case (1 q r len x out e)
  then have "suffix e r" using unescape_suffix [of _ r out e] by simp
  with 1 have "suffix e m0" by (blast intro: suffix_order.trans)
  moreover from this have "suffix (tl e) m0" using \<open>suffix e m0\<close> by (cases e) (auto intro: suffix_tl)
  ultimately show ?case by simp
qed

lemma parse_key_advances [adv]: "suffix m m0 \<Longrightarrow> advances (parse_key m) m0"
  unfolding parse_key_def by (intro adv)

lemma advances_via: "advances x r \<Longrightarrow> suffix r m0 \<Longrightarrow> advances x m0"
  by (auto simp: advances_def intro: suffix_order.trans)

text \<open>A parser of the values inside that advances on every memory shorter than \<open>n\<close>.\<close>

definition advances_below :: "(cjson \<Rightarrow> mem \<Rightarrow> cjson parsed) \<Rightarrow> nat \<Rightarrow> bool" where
  "advances_below pv n \<longleftrightarrow> (\<forall>c m m0. suffix m m0 \<longrightarrow> length m0 < n \<longrightarrow> advances (pv c m) m0)"

lemma advances_belowD [adv]:
  "advances_below pv n \<Longrightarrow> suffix m m0 \<Longrightarrow> length m0 < n \<Longrightarrow> advances (pv c m) m0"
  by (simp add: advances_below_def)

lemma parse_member_advances [adv]:
  assumes "advances_below pv n" "suffix m m0" "length m0 < n"
  shows "advances (parse_member pv m) m0"
  unfolding parse_member_def by (rule adv assms | assumption)+

lemma array_loop_advances [adv]:
  assumes "advances_below pv n" "suffix m m0" "length m0 < n" "length m < k"
  shows "advances (array_loop pv k cs m) m0"
  using assms(2-4)
proof (induction k arbitrary: cs m m0)
  case (Suc k)
  have IH: "advances (array_loop pv k cs m) m0" if "suffix m m0" "length m0 < n" "length m0 < k" for m m0 cs
    using Suc.IH that suffix_length_le [OF that(1)] by simp
  show ?case
    unfolding array_loop.simps
  proof (rule advances_peek [OF Suc.prems(1)], rule advances_if, rule advances_leaf, rule Suc.prems(1))
    fix c r assume m: "m = c # r" and r: "suffix r m0"
    have l: "length r < n" "length r < k"
      using Suc.prems m suffix_length_le [OF r] by simp_all
    show "advances (pbind (skip r) (\<lambda>_ m1. peek m1 (\<lambda>c r1.
         if c = CHR '']'' then Ok cs r1
         else pbind (pv cJSON_New_Item m1) (\<lambda>v m2. pbind (skip m2) (\<lambda>_ m3.
           array_loop pv k (cs @ [v]) m3))))) m0"
      by (rule advances_via [OF _ r], (rule adv assms(1) IH l suffix_order.refl | assumption)+)
  qed
qed simp

lemma object_loop_advances [adv]:
  assumes "advances_below pv n" "suffix m m0" "length m0 < n" "length m < k"
  shows "advances (object_loop pv k cs m) m0"
  using assms(2-4)
proof (induction k arbitrary: cs m m0)
  case (Suc k)
  have IH: "advances (object_loop pv k cs m) m0" if "suffix m m0" "length m0 < n" "length m0 < k" for m m0 cs
    using Suc.IH that suffix_length_le [OF that(1)] by simp
  show ?case
    unfolding object_loop.simps
  proof (rule advances_peek [OF Suc.prems(1)], rule advances_if, rule advances_leaf, rule Suc.prems(1))
    fix c r assume m: "m = c # r" and r: "suffix r m0"
    have l: "length r < n" "length r < k"
      using Suc.prems m suffix_length_le [OF r] by simp_all
    show "advances (pbind (skip r) (\<lambda>_ m1. peek m1 (\<lambda>c r1.
         if c = CHR ''}'' then Ok cs r1
         else pbind (parse_member pv m1) (\<lambda>v m2. object_loop pv k (cs @ [v]) m2)))) m0"
      by (rule advances_via [OF _ r], (rule adv assms(1) IH l suffix_order.refl | assumption)+)
  qed
qed simp

lemma array_loop_advances' [adv]:
  assumes "advances_below pv n" "suffix m m0" "length m0 < n" "length m0 < k"
  shows "advances (array_loop pv k cs m) m0" "advances (object_loop pv k cs m) m0"
  using assms suffix_length_le [OF assms(2)]
  by (auto intro: array_loop_advances object_loop_advances)

lemma parse_array_advances:
  assumes "advances_below pv n" "suffix m m0" "length m \<le> n"
  shows "advances (parse_array pv n item m) m0"
  unfolding parse_array_def
proof (rule advances_peek [OF assms(2)], rule advances_if, rule advances_leaf, rule assms(2))
  fix c r assume m: "m = c # r" and r: "suffix r m0"
  have l: "length r < n" using m assms(3) by simp
  show "advances (pbind (skip r) (\<lambda>_ m1. peek m1 (\<lambda>c r1.
         if c = CHR '']'' then Ok (set_type CJ_Array item) r1
         else pbind (pv cJSON_New_Item m1) (\<lambda>v m2. pbind (skip m2) (\<lambda>_ m3.
           pbind (array_loop pv n [v] m3) (\<lambda>cs m4.
             peek m4 (\<lambda>c r4.
               if c \<noteq> CHR '']'' then Fail m4
               else Ok (set_child cs (set_type CJ_Array item)) r4))))))) m0"
    by (rule advances_via [OF _ r], (rule adv assms(1) l suffix_order.refl | assumption)+)
qed

lemma parse_object_advances:
  assumes "advances_below pv n" "suffix m m0" "length m \<le> n"
  shows "advances (parse_object pv n item m) m0"
  unfolding parse_object_def
proof (rule advances_peek [OF assms(2)], rule advances_if, rule advances_leaf, rule assms(2))
  fix c r assume m: "m = c # r" and r: "suffix r m0"
  have l: "length r < n" using m assms(3) by simp
  show "advances (pbind (skip r) (\<lambda>_ m1. peek m1 (\<lambda>c r1.
         if c = CHR ''}'' then Ok (set_type CJ_Object item) r1
         else pbind (parse_member pv m1) (\<lambda>v m2.
           pbind (object_loop pv n [v] m2) (\<lambda>cs m3.
             peek m3 (\<lambda>c r3.
               if c \<noteq> CHR ''}'' then Fail m3
               else Ok (set_child cs (set_type CJ_Object item)) r3)))))) m0"
    by (rule advances_via [OF _ r], (rule adv assms(1) l suffix_order.refl | assumption)+)
qed

lemma parse_value_advances: "advances_below (parse_value pw n) n"
proof (induction n)
  case (Suc n)
  have "advances (parse_value pw (Suc n) c m) m0" if "suffix m m0" "length m0 < Suc n" for c m m0
  proof -
    have l: "length m' \<le> n" if "suffix m' m0" for m'
      using suffix_length_le [OF that] \<open>length m0 < Suc n\<close> by simp
    show ?thesis
      unfolding parse_value.simps
      by (rule adv that Suc parse_array_advances parse_object_advances l | assumption)+
  qed
  then show ?case by (simp add: advances_below_def)
qed (simp add: advances_below_def)

text \<open>
  C5: The recursive descent over any buffer ends. With one unit of fuel per byte plus one the parser
  never runs out, and where it returns, with an item or with NULL, the stream pointer is a suffix of
  the input: it only moves forward and stays in the buffer.
\<close>

theorem parse_total:
  "case cJSON_Parse_Stream pw m of
     Ok j m' \<Rightarrow> suffix m' m
   | Fail m' \<Rightarrow> suffix m' m
   | Crash u \<Rightarrow> True
   | NoFuel \<Rightarrow> False"
proof -
  have "advances (cJSON_Parse_Stream pw m) m"
    unfolding cJSON_Parse_Stream_def parse_fuel_def
    by (rule adv parse_value_advances suffix_order.refl | simp)+
  then show ?thesis by (auto simp: advances_def split: parsed.split)
qed

end
