(* ===== verification/CJsonPrint.thy ===== *)
theory CJsonPrint
  imports CJson
begin

text \<open>
  \<open>src/cJSON.c\<close>: rendering. The text of an item is a string; next to each rendering function
  stands the number of bytes the code allocates for it (\<open>\<dots>_alloc\<close>), and the lemmas
  \<open>\<dots>_fits\<close> compare the two, the terminating NUL included.
\<close>

definition dbl_epsilon :: dbl where
  "dbl_epsilon = Fin False (1 / 2 ^ 52)"

definition is_int_number :: "cjson \<Rightarrow> bool" where
  "is_int_number item \<longleftrightarrow>
     dbl_le (dbl_abs (dbl_sub (dbl_of_int (valueint item)) (valuedouble item))) dbl_epsilon \<and>
     dbl_le (valuedouble item) (dbl_of_int (2 ^ 31 - 1)) \<and>
     dbl_le (dbl_of_int (-(2 ^ 31))) (valuedouble item)"

definition print_number :: "cjson \<Rightarrow> string" where
  "print_number item =
     (let d = valuedouble item
      in if is_int_number item then dec_of_int (valueint item)
         else if dbl_le (dbl_abs (dbl_sub (dbl_floor d) d)) dbl_epsilon then fmt_f 0 d
         else if dbl_lt (dbl_abs d) (dbl_of_rat (1 / 10 ^ 6)) \<or> dbl_lt (dbl_of_rat (10 ^ 9)) (dbl_abs d)
              then fmt_e d
         else fmt_f 6 d)"

definition print_number_alloc :: "cjson \<Rightarrow> nat" where
  "print_number_alloc item = (if is_int_number item then 21 else 64)"

definition escape_char :: "char \<Rightarrow> string" where
  "escape_char c =
     (if 31 < byte c \<and> c \<noteq> DQUOTE \<and> c \<noteq> BSLASH then [c]
      else BSLASH #
        (if c = BSLASH then [BSLASH] else if c = DQUOTE then [DQUOTE]
         else if c = CHR 0x08 then ''b'' else if c = CHR 0x0C then ''f''
         else if c = LF then ''n'' else if c = CR then ''r'' else if c = TAB then ''t''
         else CHR ''u'' # hex4 (byte c)))"

definition print_string_ptr :: "string option \<Rightarrow> string" where
  "print_string_ptr str =
     (case str of None \<Rightarrow> [] | Some s \<Rightarrow> DQUOTE # concat (map escape_char (cstr s)) @ [DQUOTE])"

definition escape_cost :: "char \<Rightarrow> nat" where
  "escape_cost c =
     (if c \<in> {DQUOTE, BSLASH, CHR 0x08, CHR 0x0C, LF, CR, TAB} then 2
      else if byte c < 32 then 6 else 1)"

definition print_string_alloc :: "string option \<Rightarrow> nat" where
  "print_string_alloc str =
     (case str of None \<Rightarrow> 1 | Some s \<Rightarrow> sum_list (map escape_cost (cstr s)) + 3)"

definition print_string :: "cjson \<Rightarrow> string" where
  "print_string item = print_string_ptr (valuestring item)"

text \<open>The composition loop of \<open>print_array\<close>, from the rendered entries.\<close>

fun array_body :: "bool \<Rightarrow> string list \<Rightarrow> string" where
  "array_body fmt [] = []"
| "array_body fmt [e] = e"
| "array_body fmt (e # es) = e @ CHR '','' # (if fmt then '' '' else []) @ array_body fmt es"

definition array_text :: "bool \<Rightarrow> string list \<Rightarrow> string" where
  "array_text fmt entries = CHR ''['' # array_body fmt entries @ '']''"

definition array_alloc :: "bool \<Rightarrow> string list \<Rightarrow> nat" where
  "array_alloc fmt entries = 5 + sum_list (map (\<lambda>e. length e + 2 + (if fmt then 1 else 0)) entries)"

text \<open>The composition loop of \<open>print_object\<close>; \<open>d\<close> is the already incremented depth.\<close>

fun object_body :: "nat \<Rightarrow> bool \<Rightarrow> (string \<times> string) list \<Rightarrow> string" where
  "object_body d fmt [] = []"
| "object_body d fmt ((nm, e) # ms) =
     (if fmt then replicate d TAB else []) @ nm @ CHR '':'' # (if fmt then [TAB] else []) @ e @
     (if ms \<noteq> [] then '','' else []) @ (if fmt then [LF] else []) @ object_body d fmt ms"

definition object_text :: "nat \<Rightarrow> bool \<Rightarrow> (string \<times> string) list \<Rightarrow> string" where
  "object_text d fmt ms =
     CHR ''{'' # (if fmt then [LF] else []) @ object_body d fmt ms @
     (if fmt then replicate (d - 1) TAB else []) @ ''}''"

definition object_alloc :: "nat \<Rightarrow> bool \<Rightarrow> (string \<times> string) list \<Rightarrow> nat" where
  "object_alloc d fmt ms =
     7 + (if fmt then d else 0) +
     sum_list (map (\<lambda>(nm, e). length e + length nm + 2 + (if fmt then 2 + d else 0)) ms)"

fun print_value :: "nat \<Rightarrow> bool \<Rightarrow> cjson \<Rightarrow> string" where
  "print_value depth fmt (CJson cs t r vs vi vd n) =
     (case t of
        CJ_NULL \<Rightarrow> ''null''
      | CJ_False \<Rightarrow> ''false''
      | CJ_True \<Rightarrow> ''true''
      | CJ_Number \<Rightarrow> print_number (CJson cs t r vs vi vd n)
      | CJ_String \<Rightarrow> print_string (CJson cs t r vs vi vd n)
      | CJ_Array \<Rightarrow> array_text fmt (map (print_value (depth + 1) fmt) cs)
      | CJ_Object \<Rightarrow>
          object_text (depth + 1) fmt
            (map (\<lambda>c. (print_string_ptr (name c), print_value (depth + 1) fmt c)) cs))"

definition print_array :: "nat \<Rightarrow> bool \<Rightarrow> cjson \<Rightarrow> string" where
  "print_array depth fmt item = array_text fmt (map (print_value (depth + 1) fmt) (child item))"

definition print_object :: "nat \<Rightarrow> bool \<Rightarrow> cjson \<Rightarrow> string" where
  "print_object depth fmt item =
     object_text (depth + 1) fmt
       (map (\<lambda>c. (print_string_ptr (name c), print_value (depth + 1) fmt c)) (child item))"

definition cJSON_Print :: "cjson \<Rightarrow> string" where
  "cJSON_Print item = print_value 0 True item"

definition cJSON_PrintUnformatted :: "cjson \<Rightarrow> string" where
  "cJSON_PrintUnformatted item = print_value 0 False item"

lemma print_value_dispatch:
  "print_value depth fmt item =
     (case ctype item of
        CJ_NULL \<Rightarrow> ''null'' | CJ_False \<Rightarrow> ''false'' | CJ_True \<Rightarrow> ''true''
      | CJ_Number \<Rightarrow> print_number item | CJ_String \<Rightarrow> print_string item
      | CJ_Array \<Rightarrow> print_array depth fmt item | CJ_Object \<Rightarrow> print_object depth fmt item)"
  by (cases item) (simp add: print_array_def print_object_def split: cjtype.split)

subsection \<open>Sizes\<close>

lemma length_escape_char: "length (escape_char c) = escape_cost c"
proof -
  have b: "byte DQUOTE = 34" "byte BSLASH = 92" "byte (CHR 0x08) = 8" "byte (CHR 0x0C) = 12"
      "byte LF = 10" "byte CR = 13" "byte TAB = 9"
    by (simp_all add: byte_def)
  show ?thesis
  proof (cases "c \<in> {DQUOTE, BSLASH, CHR 0x08, CHR 0x0C, LF, CR, TAB}")
    case True
    then show ?thesis by (auto simp: escape_char_def escape_cost_def b)
  next
    case False
    then show ?thesis by (auto simp: escape_char_def escape_cost_def hex4_def)
  qed
qed

lemma length_escapes: "length (concat (map escape_char s)) = sum_list (map escape_cost s)"
  by (induction s) (auto simp: length_escape_char)

lemma print_string_ptr_fits: "length (print_string_ptr str) + 1 = print_string_alloc str"
  by (simp add: print_string_ptr_def print_string_alloc_def length_escapes split: option.split)

lemma length_array_body:
  "length (array_body fmt es) \<le> sum_list (map (\<lambda>e. length e + 2 + (if fmt then 1 else 0)) es)"
  by (induction fmt es rule: array_body.induct) auto

lemma array_text_fits: "length (array_text fmt es) + 1 \<le> array_alloc fmt es"
  using length_array_body [of fmt es] by (simp add: array_text_def array_alloc_def)

lemma length_object_body:
  "length (object_body d fmt ms) \<le>
     sum_list (map (\<lambda>(nm, e). length e + length nm + 2 + (if fmt then 2 + d else 0)) ms)"
  by (induction d fmt ms rule: object_body.induct) auto

lemma object_text_fits: "length (object_text d fmt ms) + 1 \<le> object_alloc d fmt ms"
proof (cases fmt)
  case True
  with length_object_body [of d True ms] show ?thesis
    by (simp add: object_text_def object_alloc_def case_prod_unfold)
next
  case False
  with length_object_body [of d False ms] show ?thesis
    by (simp add: object_text_def object_alloc_def case_prod_unfold)
qed

lemma print_int_number_fits:
  assumes "is_int_number item" "-(2 ^ 31) \<le> valueint item" "valueint item < 2 ^ 31"
  shows "length (print_number item) + 1 \<le> print_number_alloc item"
proof -
  define k where "k = nat \<bar>valueint item\<bar>"
  have "k < 10 ^ 10" using assms by (simp add: k_def nat_less_iff)
  then have "length (dec_of_nat k) \<le> 10" by (intro length_dec_of_nat) simp_all
  then have "length (dec_of_int (valueint item)) \<le> 11"
    by (auto simp: dec_of_int_def k_def split: if_splits)
  with assms show ?thesis by (simp add: print_number_def print_number_alloc_def)
qed

end
