(* ===== verification/CJsonRound.thy ===== *)
theory CJsonRound
  imports CJsonParse CJsonPrint
begin

text \<open>
  \<open>src/cJSON.c\<close>: the parser reads back what the renderer writes. \<open>canon\<close> is the tree the
  parser builds; it differs from the tree printed only in what the text does not carry (the
  reference bit, strings behind an embedded NUL, values of fields another type uses).
  Numbers are those that hold an integer; the text of other numbers loses digits.
\<close>

fun printable :: "cjson \<Rightarrow> bool" where
  "printable (CJson cs t r vs vi vd n) =
     (case t of
        CJ_Number \<Rightarrow> vd = dbl_of_int vi \<and> -(2 ^ 31) \<le> vi \<and> vi < 2 ^ 31
      | CJ_String \<Rightarrow> vs \<noteq> None
      | CJ_Array \<Rightarrow> (\<forall>c\<in>set cs. printable c)
      | CJ_Object \<Rightarrow> (\<forall>c\<in>set cs. printable c \<and> name c \<noteq> None)
      | _ \<Rightarrow> True)"

definition leaf :: "cjtype \<Rightarrow> string option \<Rightarrow> cjson" where
  "leaf t n = CJson [] t False None 0 dbl_zero n"

fun canon :: "string option \<Rightarrow> cjson \<Rightarrow> cjson" where
  "canon n (CJson cs t r vs vi vd nm) =
     (case t of
        CJ_True \<Rightarrow> set_valueint 1 (leaf CJ_True n)
      | CJ_Number \<Rightarrow> set_valueint vi (set_valuedouble (dbl_of_int vi) (leaf CJ_Number n))
      | CJ_String \<Rightarrow> set_valuestring (map_option cstr vs) (leaf CJ_String n)
      | CJ_Array \<Rightarrow> set_child (map (canon None) cs) (leaf CJ_Array n)
      | CJ_Object \<Rightarrow> set_child (map (\<lambda>c. canon (map_option cstr (name c)) c) cs) (leaf CJ_Object n)
      | _ \<Rightarrow> leaf t n)"

text \<open>What may follow a value: the parser looks one byte behind a keyword or a number.\<close>

definition delimiter :: "mem \<Rightarrow> bool" where
  "delimiter rest \<longleftrightarrow> rest \<noteq> [] \<and> hd rest \<in> {CHR '','', CHR '']'', CHR ''}'', LF}"

definition delimited :: "cjson \<Rightarrow> mem \<Rightarrow> bool" where
  "delimited j rest =
     (case ctype j of
        CJ_Number \<Rightarrow> rest \<noteq> [] \<and> \<not> c_isdigit (hd rest) \<and> hd rest \<notin> {CHR ''.'', CHR ''e'', CHR ''E''}
      | CJ_NULL \<Rightarrow> rest \<noteq> [] \<and> hd rest \<noteq> NUL
      | CJ_False \<Rightarrow> rest \<noteq> [] \<and> hd rest \<noteq> NUL
      | CJ_True \<Rightarrow> rest \<noteq> [] \<and> hd rest \<noteq> NUL
      | _ \<Rightarrow> True)"

lemma byte_consts:
  "byte (CHR '','') = 44" "byte (CHR '']'') = 93" "byte (CHR ''}'') = 125" "byte LF = 10"
  "byte (CHR ''['') = 91" "byte (CHR ''{'') = 123" "byte (CHR '':'') = 58" "byte (CHR '' '') = 32"
  "byte TAB = 9" "byte DQUOTE = 34" "byte BSLASH = 92" "byte (CHR ''-'') = 45" "byte (CHR ''n'') = 110"
  "byte (CHR ''f'') = 102" "byte (CHR ''t'') = 116" "byte (CHR ''0'') = 48" "byte NUL = 0"
  "byte (CHR 0x08) = 8" "byte (CHR 0x0C) = 12" "byte CR = 13"
  by (simp_all add: byte_def)

lemma delimiter_delimited: "delimiter rest \<Longrightarrow> delimited j rest"
  by (auto simp: delimiter_def delimited_def c_isdigit_def byte_consts split: cjtype.split)

lemma spaces:
  "c_isspace (CHR '' '')" "c_isspace LF" "c_isspace TAB" "\<not> c_isspace (CHR '','')" "\<not> c_isspace (CHR '']'')"
  "\<not> c_isspace (CHR ''}'')" "\<not> c_isspace (CHR ''['')" "\<not> c_isspace (CHR ''{'')" "\<not> c_isspace (CHR '':'')"
  "\<not> c_isspace DQUOTE" "\<not> c_isspace (CHR ''-'')" "\<not> c_isspace (CHR ''n'')" "\<not> c_isspace (CHR ''f'')"
  "\<not> c_isspace (CHR ''t'')"
  by (simp_all add: c_isspace_def byte_consts)

lemma skip_spaces [simp]: "\<forall>c\<in>set ws. c_isspace c \<Longrightarrow> skip (ws @ m) = skip m"
  by (induction ws) auto

lemma skip_tabs [simp]: "skip (replicate k TAB @ m) = skip m"
  by (rule skip_spaces) (simp add: spaces)

subsection \<open>Strings\<close>

lemma hex_digit_simps [simp]:
  "n < 16 \<Longrightarrow> c_isxdigit (hex_digit n)" "n < 16 \<Longrightarrow> hex_val (hex_digit n) = n"
  "n < 16 \<Longrightarrow> \<not> c_isspace (hex_digit n)" "n < 16 \<Longrightarrow> hex_digit n \<noteq> CHR ''x''"
  "n < 16 \<Longrightarrow> c_tolower (hex_digit n) \<noteq> CHR ''x''" "hex_digit 0 = CHR ''0''"
proof -
  have b: "byte (hex_digit n) = (if n < 10 then 48 + n else 87 + n)" if "n < 16" for n
    using that by (simp add: hex_digit_def)
  have x: "byte (CHR ''x'') = 120" "byte (CHR ''0'') = 48" by (simp_all add: byte_def)
  show "n < 16 \<Longrightarrow> c_isxdigit (hex_digit n)" "n < 16 \<Longrightarrow> hex_val (hex_digit n) = n"
    "n < 16 \<Longrightarrow> \<not> c_isspace (hex_digit n)"
    by (auto simp: c_isxdigit_def c_isdigit_def hex_val_def c_isspace_def b)
  show nx: "n < 16 \<Longrightarrow> hex_digit n \<noteq> CHR ''x''"
    using b [of n] x by (auto split: if_splits)
  have "\<not> c_isupper (hex_digit n)" if "n < 16" using that b [of n] by (auto simp: c_isupper_def)
  with nx show "n < 16 \<Longrightarrow> c_tolower (hex_digit n) \<noteq> CHR ''x''" by (simp add: c_tolower_def)
  have "byte (hex_digit 0) = byte (CHR ''0'')" by (simp add: b x)
  then show "hex_digit 0 = CHR ''0''" by (simp only: byte_inject)
qed

lemma hex4_digits:
  assumes "k < 32"
  shows "hex4 k = [CHR ''0'', CHR ''0'', hex_digit (k div 16), hex_digit (k mod 16)]"
  using assms by (simp add: hex4_def)

lemma zero_char:
  "\<not> c_isspace (CHR ''0'')" "c_tolower (CHR ''0'') = CHR ''0''" "c_isxdigit (CHR ''0'')" "hex_val (CHR ''0'') = 0"
  by (simp_all add: c_isspace_def c_tolower_def c_isupper_def byte_consts c_isxdigit_def c_isdigit_def hex_val_def)

lemma sscanf_4x_hex4:
  assumes "k < 32"
  shows "sscanf_4x (hex4 k @ m) = Val (Some (of_nat k))"
proof -
  have "k div 16 < 16" "k mod 16 < 16" using assms by simp_all
  then show ?thesis
    by (simp add: sscanf_4x_def hex4_digits [OF assms] zero_char hex_value_def) 
qed

lemma utf8_bytes_low:
  assumes "k < 32"
  shows "utf8_bytes (of_nat k) = [char_of k]"
proof -
  have "(of_nat k :: 32 word) < 0x80" using assms by (simp add: word_less_nat_alt unat_of_nat)
  moreover have "unat (of_nat k :: 32 word) = k" using assms by (simp add: unat_of_nat)
  ultimately show ?thesis by (simp add: utf8_bytes_def utf8_len_def lead_byte_def)
qed

lemma unescape_u_hex4:
  assumes "0 < k" "k < 32"
  shows "unescape_u (uc, uc2) (hex4 k @ m) = Val ([char_of k], (Some (of_nat k), uc2), m)"
proof -
  have u: "unat (of_nat k :: 32 word) = k" using assms by (simp add: unat_of_nat)
  then have "\<not> (0xDC00 \<le> (of_nat k :: 32 word))" "\<not> (0xD800 \<le> (of_nat k :: 32 word))"
      "(of_nat k :: 32 word) \<noteq> 0" "(of_nat k :: 32 word) < 0x80"
    using assms by (auto simp: word_le_nat_alt word_less_nat_alt)
  moreover have "drop 4 (hex4 k @ m) = m" by (simp add: hex4_def)
  ultimately show ?thesis
    using assms by (simp add: unescape_u_def scan_into_def sscanf_4x_hex4 put_utf8_def utf8_bytes_low utf8_len_def)
qed

lemma escape_char_cases:
  obtains "escape_char c = [c]" "c \<noteq> DQUOTE" "c \<noteq> BSLASH" "c \<noteq> NUL"
  | e where "escape_char c = [BSLASH, e]" "e \<noteq> CHR ''u''" "simple_escape e = c"
  | "escape_char c = BSLASH # CHR ''u'' # hex4 (byte c)" "byte c < 32"
proof (cases "31 < byte c \<and> c \<noteq> DQUOTE \<and> c \<noteq> BSLASH")
  case True
  then have "c \<noteq> NUL" by (auto simp: byte_consts)
  with True that(1) show ?thesis by (simp add: escape_char_def)
next
  case False
  show ?thesis
  proof (cases "c \<in> {DQUOTE, BSLASH, CHR 0x08, CHR 0x0C, LF, CR, TAB}")
    case True
    then show ?thesis
      using that(2) by (auto simp: escape_char_def simple_escape_def byte_consts)
  next
    case nc: False
    with False have "escape_char c = BSLASH # CHR ''u'' # hex4 (byte c)" by (auto simp: escape_char_def)
    with that(3) False nc show ?thesis by auto
  qed
qed

lemma str_len_escapes:
  "\<exists>k\<ge>length s. str_len (concat (map escape_char s) @ DQUOTE # rest) = Val k"
proof (induction s)
  case Nil
  have "str_len (DQUOTE # rest) = Val 0" by (cases rest) simp_all
  then show ?case by auto
next
  case (Cons c s)
  then obtain k where k: "length s \<le> k" "str_len (concat (map escape_char s) @ DQUOTE # rest) = Val k"
    by blast
  define m where "m = concat (map escape_char s) @ DQUOTE # rest"
  have step: "str_len (x # m') = obind (str_len m') (\<lambda>n. Val (Suc n))"
    if "x \<notin> {DQUOTE, NUL, BSLASH}" "m' \<noteq> []" for x m'
    using that by (cases m') auto
  have m: "m \<noteq> []" "str_len m = Val k" using k by (simp_all add: m_def)
  show ?case
  proof (cases c rule: escape_char_cases)
    case 1
    with m step [of c m] have "str_len (escape_char c @ m) = Val (Suc k)" by simp
    with k show ?thesis by (auto simp: m_def)
  next
    case (2 e)
    with m have "str_len (escape_char c @ m) = Val (Suc k)" by simp
    with k show ?thesis by (auto simp: m_def)
  next
    case 3
    have h: "hex_digit n \<notin> {DQUOTE, NUL, BSLASH}" if "n < 16" for n
    proof -
      have "byte (hex_digit n) \<ge> 48" "byte (hex_digit n) \<noteq> 92" using that by (auto simp: hex_digit_def)
      then show ?thesis by (auto simp: byte_consts)
    qed
    from 3 have "byte c div 16 < 16" "byte c mod 16 < 16" by simp_all
    with h m 3 have "str_len (escape_char c @ m) = Val (Suc (Suc (Suc (Suc (Suc k)))))"
      by (simp add: hex4_digits step)
    with k show ?thesis by (auto simp: m_def)
  qed
qed

lemma unescape_escapes:
  assumes "is_cstring s"
  shows "unescape ucs (concat (map escape_char s) @ DQUOTE # rest) = Val (s, DQUOTE # rest)"
  using assms
proof (induction s arbitrary: ucs)
  case (Cons c s)
  define m where "m = concat (map escape_char s) @ DQUOTE # rest"
  have IH: "unescape ucs m = Val (s, DQUOTE # rest)" for ucs
    using Cons by (simp add: m_def)
  show ?case
  proof (cases c rule: escape_char_cases)
    case 1
    with IH show ?thesis by (simp flip: m_def)
  next
    case (2 e)
    with IH show ?thesis by (simp flip: m_def)
  next
    case 3
    have "0 < byte c" using Cons.prems by (simp add: zero_less_iff_neq_zero)
    with 3 IH show ?thesis by (cases ucs) (simp add: unescape_u_hex4 flip: m_def)
  qed
qed simp

lemma parse_string_print:
  assumes "is_cstring s"
  shows "parse_string item (print_string_ptr (Some s) @ rest)
       = Ok (set_type CJ_String (set_valuestring (Some s) item)) rest"
proof -
  from str_len_escapes [of s rest] obtain k where
    "length s \<le> k" "str_len (concat (map escape_char s) @ DQUOTE # rest) = Val k" by blast
  with assms unescape_escapes [OF assms, of "(None, None)" rest] show ?thesis
    by (simp add: parse_string_def print_string_ptr_def)
qed

lemma print_string_ptr_cstr [simp]: "print_string_ptr (Some (cstr s)) = print_string_ptr (Some s)"
  by (simp add: print_string_ptr_def)

subsection \<open>Numbers\<close>

lemma scan_digits_dec:
  assumes "\<forall>c\<in>set ds. c_isdigit c" "rest \<noteq> []" "\<not> c_isdigit (hd rest)" "dec_value n ds < 2 ^ 53"
  shows "\<exists>sc. scan_digits (Fin False (of_nat n)) scale (ds @ rest) = Ok (Fin False (of_nat (dec_value n ds)), sc) rest"
  using assms
proof (induction ds arbitrary: n scale)
  case Nil
  then show ?case by (cases rest) auto
next
  case (Cons d ds)
  have d: "digit_val d < 10" using Cons.prems(1) by (auto simp: digit_val_def c_isdigit_def)
  have lt: "n * 10 + digit_val d < 2 ^ 53"
    using Cons.prems(4) dec_value_mono [of "n * 10 + digit_val d" ds] by simp
  have "dbl_of_int (int (digit_val d)) = Fin False (of_nat (digit_val d))"
    using d by (simp add: dbl_of_int_exact)
  moreover obtain sc where "scan_digits (Fin False (of_nat (n * 10 + digit_val d))) (dbl_sub scale (Fin False 1)) (ds @ rest)
      = Ok (Fin False (of_nat (dec_value (n * 10 + digit_val d) ds)), sc) rest"
    using Cons by fastforce
  ultimately show ?case using Cons.prems(1) by (simp only: append_Cons scan_digits.simps dbl_mul_10_add_digit [OF lt]) simp
qed

lemma int32_dbl: "-(2 ^ 31) \<le> i \<Longrightarrow> i < 2 ^ 31 \<Longrightarrow> dbl_of_int i = Fin (i < 0) (of_nat (nat \<bar>i\<bar>))"
  by (subst dbl_of_int_exact) auto

lemma dbl_mul_int:
  assumes "k < 2 ^ 53"
  shows "dbl_mul (Fin a (of_nat k)) (Fin b 1) = Fin (a \<noteq> b) (of_nat k)"
    "dbl_mul (Fin a 1) (Fin b (of_nat k)) = Fin (a \<noteq> b) (of_nat k)"
  using round_mag_of_nat [OF assms] by (simp_all add: dbl_round_def)

lemma parse_no_fraction:
  assumes "rest \<noteq> []" "hd rest \<noteq> CHR ''.''"
  shows "parse_fraction n rest = Ok (n, dbl_zero) rest"
  using assms by (cases rest) (auto simp: parse_fraction_def)

lemma parse_no_exponent:
  assumes "rest \<noteq> []" "hd rest \<noteq> CHR ''e''" "hd rest \<noteq> CHR ''E''"
  shows "parse_exponent rest = Ok (0, 1) rest"
  using assms by (cases rest) (auto simp: parse_exponent_def)

text \<open>The digits without the sign: \<open>m2\<close>, the optional leading zero skipped, and the number read.\<close>

lemma scan_magnitude:
  assumes "k < 2 ^ 53" "rest \<noteq> []" "\<not> c_isdigit (hd rest)"
  shows "\<exists>c r sc. dec_of_nat k @ rest = c # r \<and> c \<noteq> CHR ''-'' \<and>
     parse_integer (dec_of_nat k @ rest) = Ok (Fin False (of_nat k), sc) rest"
proof (cases "k = 0")
  case True
  have "dec_of_nat 0 = ''0''" using dec_of_nat_hd_0 [of 0] by (simp add: dec_of_nat.simps [of 0])
  with True assms show ?thesis by (cases rest) (auto simp: parse_integer_def)
next
  case False
  obtain c r where ds: "dec_of_nat k = c # r" by (cases "dec_of_nat k") simp_all
  have c: "c_isdigit c" "c \<noteq> CHR ''0''"
    using dec_of_nat_digits [of k] dec_of_nat_hd_0 [of k] False ds by auto
  then have "c \<noteq> CHR ''-''" by (auto simp: c_isdigit_def byte_consts)
  moreover obtain sc where "scan_digits (Fin False (of_nat 0)) dbl_zero (dec_of_nat k @ rest) = Ok (Fin False (of_nat k), sc) rest"
    using scan_digits_dec [of "dec_of_nat k" rest 0 dbl_zero] dec_of_nat_digits [of k] assms by auto
  ultimately show ?thesis using c ds by (auto simp: parse_integer_def)
qed

lemma parse_number_dec:
  assumes pw: "pw dbl_zero = Fin False 1" and i: "-(2 ^ 31) \<le> i" "i < 2 ^ 31"
    and r: "rest \<noteq> []" "\<not> c_isdigit (hd rest)" "hd rest \<notin> {CHR ''.'', CHR ''e'', CHR ''E''}"
  shows "parse_number pw item (dec_of_int i @ rest)
       = Ok (set_type CJ_Number (set_valueint i (set_valuedouble (dbl_of_int i) item))) rest"
proof -
  define k where "k = nat \<bar>i\<bar>"
  have k: "k < 2 ^ 53" using i by (simp add: k_def nat_less_iff)
  from scan_magnitude [OF k r(1,2)] obtain c t sc where
    s: "dec_of_nat k @ rest = c # t" "c \<noteq> CHR ''-''" "parse_integer (c # t) = Ok (Fin False (of_nat k), sc) rest"
    by fastforce
  have e: "parse_fraction n rest = Ok (n, dbl_zero) rest" "parse_exponent rest = Ok (0, 1) rest" for n
    using r by (simp_all add: parse_no_fraction parse_no_exponent)
  have z: "dbl_add dbl_zero (dbl_of_int 0) = dbl_zero" by (simp add: dbl_of_int_exact)
  have v: "dbl_mul (dbl_mul (if i < 0 then Fin True 1 else Fin False 1) (Fin False (of_nat k))) (Fin False 1) = dbl_of_int i"
  proof -
    have "dbl_of_int i = Fin (i < 0) (of_nat k)" using i by (simp only: int32_dbl k_def)
    then show ?thesis by (simp add: dbl_mul_int [OF k] del: dbl_mul.simps)
  qed
  have tx: "dec_of_int i @ rest = (if i < 0 then CHR ''-'' # c # t else c # t)"
    using s(1) by (cases "i < 0") (simp_all add: dec_of_int_def k_def)
  show ?thesis
    using s(2) v dbl_to_int32_of_int [OF i]
    by (cases "i < 0") (simp_all add: tx parse_number_def Let_def s(3) e z pw del: dbl_mul.simps)
qed

subsection \<open>Keywords and dispatch\<close>

lemma stream_cmp_differs:
  "m \<noteq> [] \<Longrightarrow> hd m \<noteq> k \<Longrightarrow> k \<noteq> NUL \<Longrightarrow> \<exists>d. d \<noteq> 0 \<and> stream_cmp (k # ks) m = Ok d m"
  by (cases m) auto

lemma stream_cmp_matches:
  "rest \<noteq> [] \<Longrightarrow> hd rest \<noteq> NUL \<Longrightarrow> stream_cmp (ks @ [NUL]) (ks @ rest) = Ok 0 rest"
  by (induction ks) (cases rest; auto)+

lemma parse_value_null:
  "rest \<noteq> [] \<Longrightarrow> hd rest \<noteq> NUL \<Longrightarrow> parse_value pw (Suc n) item (''null'' @ rest) = Ok (set_type CJ_NULL item) rest"
  using stream_cmp_matches [of rest "''null''"] by (simp add: keyword_def)

lemma parse_value_false:
  "rest \<noteq> [] \<Longrightarrow> hd rest \<noteq> NUL \<Longrightarrow> parse_value pw (Suc n) item (''false'' @ rest) = Ok (set_type CJ_False item) rest"
  using stream_cmp_matches [of rest "''false''"] by (simp add: keyword_def)

lemma parse_value_true:
  "rest \<noteq> [] \<Longrightarrow> hd rest \<noteq> NUL \<Longrightarrow>
   parse_value pw (Suc n) item (''true'' @ rest) = Ok (set_valueint 1 (set_type CJ_True item)) rest"
  using stream_cmp_matches [of rest "''true''"] by (simp add: keyword_def)

lemma parse_value_other:
  assumes "c \<notin> {CHR ''n'', CHR ''f'', CHR ''t''}"
  shows "parse_value pw (Suc n) item (c # m) =
    (if c = DQUOTE then parse_string item (c # m)
     else if c = CHR ''-'' \<or> c_isdigit c then parse_number pw item (c # m)
     else if c = CHR ''['' then parse_array (parse_value pw n) n item (c # m)
     else if c = CHR ''{'' then parse_object (parse_value pw n) n item (c # m)
     else Fail (c # m))"
  using assms by (simp add: keyword_def)

lemma dec_of_int_Cons: obtains c t where "dec_of_int i = c # t" "c = CHR ''-'' \<or> c_isdigit c"
proof -
  have "\<exists>c t. dec_of_nat k = c # t \<and> c_isdigit c" for k
    using dec_of_nat_digits [of k] by (cases "dec_of_nat k") auto
  with that show ?thesis by (metis dec_of_int_def)
qed

lemma number_first:
  assumes "c = CHR ''-'' \<or> c_isdigit c"
  shows "c \<notin> {CHR ''n'', CHR ''f'', CHR ''t'', DQUOTE, CHR '']''}" "\<not> c_isspace c"
  using assms by (auto simp: c_isdigit_def byte_consts spaces c_isspace_def)

lemma print_number_printable:
  assumes "valuedouble j = dbl_of_int (valueint j)" "-(2 ^ 31) \<le> valueint j" "valueint j < 2 ^ 31"
  shows "print_number j = dec_of_int (valueint j)"
proof -
  let ?i = "valueint j"
  have ex: "dbl_of_int i = Fin (i < 0) \<bar>of_int i\<bar>" if "\<bar>i\<bar> < 2 ^ 53" for i
    using that by (rule dbl_of_int_exact)
  have v: "dbl_val (i < 0) \<bar>of_int i\<bar> = of_int i" for i :: int by simp
  have i: "\<bar>?i\<bar> < 2 ^ 53" using assms by simp
  have "dbl_sub (dbl_of_int ?i) (dbl_of_int ?i) = Fin (?i < 0 \<and> \<not> ?i < 0) 0"
    by (simp add: dbl_sub_def ex [OF i])
  then have "dbl_le (dbl_abs (dbl_sub (dbl_of_int ?i) (dbl_of_int ?i))) dbl_epsilon"
    by (simp add: dbl_epsilon_def)
  moreover have "dbl_le (dbl_of_int a) (dbl_of_int b)" if "a \<le> b" "\<bar>a\<bar> < 2 ^ 53" "\<bar>b\<bar> < 2 ^ 53" for a b
    using that by (simp only: ex dbl_le.simps v of_int_le_iff)
  ultimately have "is_int_number j" using assms i by (simp add: is_int_number_def)
  then show ?thesis by (simp add: print_number_def)
qed

lemma print_value_first:
  assumes "printable j"
  obtains c t where "print_value d fmt j = c # t" "\<not> c_isspace c" "c \<noteq> CHR '']''"
proof (cases j)
  case (CJson cs t r vs vi vd n)
  show ?thesis
  proof (cases t)
    case CJ_Number
    with assms CJson have "print_value d fmt j = dec_of_int vi" by (simp add: print_number_printable)
    with that dec_of_int_Cons [of vi] number_first show ?thesis by (metis insert_iff)
  qed (use that assms CJson in \<open>auto simp: spaces print_string_def print_string_ptr_def array_text_def object_text_def\<close>)
qed

subsection \<open>Arrays and objects\<close>

text \<open>\<open>reads pv item e v\<close>: in front of a delimiter \<open>pv\<close> reads the text \<open>e\<close> as \<open>v\<close>.\<close>

definition reads :: "(cjson \<Rightarrow> mem \<Rightarrow> cjson parsed) \<Rightarrow> cjson \<Rightarrow> string \<Rightarrow> cjson \<Rightarrow> bool" where
  "reads pv item e v \<longleftrightarrow>
     (\<forall>rest. delimiter rest \<longrightarrow> pv item (e @ rest) = Ok v rest) \<and>
     (\<exists>c t. e = c # t \<and> \<not> c_isspace c \<and> c \<noteq> CHR '']'')"

lemma readsD:
  assumes "reads pv item e v" "delimiter rest"
  shows "pv item (e @ rest) = Ok v rest" "skip (e @ rest) = Ok () (e @ rest)"
  using assms by (auto simp: reads_def)

lemma reads_Cons: "reads pv item e v \<Longrightarrow> \<exists>c t. e = c # t \<and> c \<noteq> CHR '']''"
  by (auto simp: reads_def)

lemma delimiter_not_space: "delimiter rest \<Longrightarrow> hd rest \<noteq> LF \<Longrightarrow> skip rest = Ok () rest"
  by (cases rest) (auto simp: delimiter_def spaces)

fun array_tail :: "bool \<Rightarrow> string list \<Rightarrow> string" where
  "array_tail fmt [] = '']''"
| "array_tail fmt (e # es) = CHR '','' # (if fmt then '' '' else []) @ e @ array_tail fmt es"

lemma array_body_tail: "array_body fmt (e # es) @ '']'' = e @ array_tail fmt es"
  by (induction es arbitrary: e) auto

lemma array_tail_delimiter: "delimiter (array_tail fmt es @ rest)" "hd (array_tail fmt es @ rest) \<noteq> LF"
  by (cases es; simp add: delimiter_def)+

lemma array_tail_skip: "skip (array_tail fmt es @ rest) = Ok () (array_tail fmt es @ rest)"
  using array_tail_delimiter by (rule delimiter_not_space)

lemma array_loop_tail:
  assumes "list_all2 (reads pv cJSON_New_Item) es vs" "length es < k"
  shows "array_loop pv k acc (array_tail fmt es @ rest) = Ok (acc @ vs) ('']'' @ rest)"
  using assms
proof (induction es vs arbitrary: k acc rule: list_all2_induct)
  case (Cons e es v vs)
  then obtain k' where "k = Suc k'" "length es < k'" by (cases k) auto
  moreover obtain c t where "e = c # t" "c \<noteq> CHR '']''" using reads_Cons [OF Cons.hyps(1)] by blast
  ultimately show ?case
    using Cons.IH [of k' "acc @ [v]"] readsD [OF Cons.hyps(1) array_tail_delimiter(1)]
    by (simp add: array_tail_skip spaces)
next
  case Nil
  then show ?case by (cases k) simp_all
qed

lemma parse_array_text:
  assumes "list_all2 (reads pv cJSON_New_Item) es vs" "length es \<le> k" "child item = []"
  shows "parse_array pv k item (array_text fmt es @ rest)
       = Ok (set_child vs (set_type CJ_Array item)) rest"
proof (cases es)
  case Nil
  with assms show ?thesis
    by (cases item) (simp add: parse_array_def array_text_def spaces)
next
  case (Cons e es')
  with assms obtain v vs' where v: "vs = v # vs'" "reads pv cJSON_New_Item e v"
      "list_all2 (reads pv cJSON_New_Item) es' vs'" "length es' < k"
    by (auto simp: list_all2_Cons1)
  have t: "array_text fmt es @ rest = CHR ''['' # e @ array_tail fmt es' @ rest"
    using array_body_tail [of fmt e es'] Cons by (simp add: array_text_def)
  moreover obtain c u where "e = c # u" "c \<noteq> CHR '']''" using reads_Cons [OF v(2)] by blast
  ultimately show ?thesis
    using readsD [OF v(2) array_tail_delimiter(1)] array_loop_tail [OF v(3,4), of "[v]" fmt rest]
    by (simp add: parse_array_def array_tail_skip v(1))
qed

text \<open>A member is its printed key, the text of its value, and the value read under the key.\<close>

definition reads_member :: "(cjson \<Rightarrow> mem \<Rightarrow> cjson parsed) \<Rightarrow> string \<times> string \<Rightarrow> cjson \<Rightarrow> bool" where
  "reads_member pv m v \<longleftrightarrow>
     (\<exists>key. is_cstring key \<and> fst m = print_string_ptr (Some key) \<and> reads pv (leaf CJ_String (Some key)) (snd m) v)"

definition close_object :: "nat \<Rightarrow> bool \<Rightarrow> string" where
  "close_object d fmt = (if fmt then replicate (d - 1) TAB else []) @ ''}''"

text \<open>What stands behind the value of a member, before and after \<open>skip\<close>.\<close>

definition follow :: "nat \<Rightarrow> bool \<Rightarrow> (string \<times> string) list \<Rightarrow> string" where
  "follow d fmt ms =
     (if ms \<noteq> [] then '','' else []) @ (if fmt then [LF] else []) @ object_body d fmt ms @ close_object d fmt"

definition skipped :: "nat \<Rightarrow> bool \<Rightarrow> (string \<times> string) list \<Rightarrow> string" where
  "skipped d fmt ms = (if ms = [] then ''}'' else follow d fmt ms)"

lemma object_body_follow:
  "object_body d fmt ((nm, e) # ms) @ close_object d fmt =
     (if fmt then replicate d TAB else []) @ nm @ CHR '':'' # (if fmt then [TAB] else []) @ e @ follow d fmt ms"
  by (simp add: follow_def)

lemma follow_delimiter: "delimiter (follow d fmt ms @ rest)"
  by (cases ms) (auto simp: follow_def delimiter_def close_object_def)

lemma follow_skip: "skip (follow d fmt ms @ rest) = Ok () (skipped d fmt ms @ rest)"
  by (cases ms) (auto simp: follow_def skipped_def close_object_def spaces)

lemma parse_member_text:
  assumes "reads_member pv (nm, e) v"
  shows "parse_member pv (nm @ CHR '':'' # (if fmt then [TAB] else []) @ e @ follow d fmt ms @ rest)
       = Ok v (skipped d fmt ms @ rest)"
proof -
  from assms obtain key where k: "is_cstring key" "nm = print_string_ptr (Some key)"
      "reads pv (leaf CJ_String (Some key)) e v"
    by (auto simp: reads_member_def)
  have "parse_key (nm @ CHR '':'' # m) = Ok (leaf CJ_String (Some key)) (CHR '':'' # m)" for m
    using k(1) by (simp add: k(2) parse_key_def parse_string_print spaces cJSON_New_Item_def leaf_def)
  with readsD [OF k(3) follow_delimiter] show ?thesis
    by (simp add: parse_member_def follow_skip spaces)
qed

lemma object_loop_skipped:
  assumes "list_all2 (reads_member pv) ms vs" "length ms < k"
  shows "object_loop pv k acc (skipped d fmt ms @ rest) = Ok (acc @ vs) (''}'' @ rest)"
  using assms
proof (induction ms vs arbitrary: k acc rule: list_all2_induct)
  case (Cons m ms v vs)
  then obtain k' where k: "k = Suc k'" "length ms < k'" by (cases k) auto
  obtain nm e where m: "m = (nm, e)" by fastforce
  with Cons.hyps(1) obtain q where q: "nm = DQUOTE # q"
    by (auto simp: reads_member_def print_string_ptr_def)
  have s: "skip ((if fmt then [LF] else []) @ object_body d fmt (m # ms) @ close_object d fmt @ rest)
      = Ok () (nm @ CHR '':'' # (if fmt then [TAB] else []) @ e @ follow d fmt ms @ rest)"
    using object_body_follow [of d fmt nm e ms] by (auto simp: m q spaces)
  have p: "parse_member pv (nm @ CHR '':'' # (if fmt then [TAB] else []) @ e @ follow d fmt ms @ rest)
       = Ok v (skipped d fmt ms @ rest)"
    using Cons.hyps(1) m by (intro parse_member_text) simp
  have "skipped d fmt (m # ms) @ rest =
      CHR '','' # (if fmt then [LF] else []) @ object_body d fmt (m # ms) @ close_object d fmt @ rest"
    by (simp add: skipped_def follow_def)
  with k s p Cons.IH [of k' "acc @ [v]"] q show ?case by simp
next
  case Nil
  then show ?case by (cases k) (simp_all add: skipped_def)
qed

lemma parse_object_text:
  assumes "list_all2 (reads_member pv) ms vs" "length ms \<le> k" "child item = []" "0 < d"
  shows "parse_object pv k item (object_text d fmt ms @ rest)
       = Ok (set_child vs (set_type CJ_Object item)) rest"
proof (cases ms)
  case Nil
  with assms show ?thesis
    by (cases item) (simp add: parse_object_def object_text_def spaces)
next
  case (Cons m ms')
  obtain nm e where m: "m = (nm, e)" by fastforce
  with Cons assms obtain v vs' where v: "vs = v # vs'" "reads_member pv (nm, e) v"
      "list_all2 (reads_member pv) ms' vs'" "length ms' < k"
    by (auto simp: list_all2_Cons1)
  then obtain q where q: "nm = DQUOTE # q"
    by (auto simp: reads_member_def print_string_ptr_def)
  have t: "object_text d fmt ms @ rest =
      CHR ''{'' # (if fmt then LF # replicate d TAB else []) @
        nm @ CHR '':'' # (if fmt then [TAB] else []) @ e @ follow d fmt ms' @ rest"
    using object_body_follow [of d fmt nm e ms'] Cons m by (simp add: object_text_def close_object_def)
  have s: "skip ((if fmt then LF # replicate d TAB else []) @ nm @ r) = Ok () (nm @ r)" for r
    by (simp add: q spaces)
  show ?thesis
    unfolding t parse_object_def
    using parse_member_text [OF v(2), of fmt d ms' rest] object_loop_skipped [OF v(3,4), of "[v]" d fmt rest]
    by (cases fmt) (simp_all add: q v(1) spaces)
qed

subsection \<open>The round trip\<close>

lemma leaf_simps [simp]: "set_type t (leaf t' n) = leaf t n" "child (leaf t n) = []"
  "set_type t (set_valuestring s (leaf t' n)) = set_valuestring s (leaf t n)"
  "set_type t (set_valueint i (set_valuedouble x (leaf t' n))) = set_valueint i (set_valuedouble x (leaf t n))"
  by (simp_all add: leaf_def)

lemma New_Item_leaf: "cJSON_New_Item = leaf CJ_False None"
  by (simp add: cJSON_New_Item_def leaf_def)

lemma length_array_text: "e \<in> set es \<Longrightarrow> length e + 2 \<le> length (array_text fmt es)"
  by (induction fmt es rule: array_body.induct) (auto simp: array_text_def)

lemma array_text_entries: "es \<noteq> [] \<Longrightarrow> length es < length (array_text fmt es)"
  by (induction fmt es rule: array_body.induct) (auto simp: array_text_def)

lemma object_text_entries:
  "length ms < length (object_text d fmt ms)" "(nm, e) \<in> set ms \<Longrightarrow> length e + 2 \<le> length (object_text d fmt ms)"
  by (induction d fmt ms rule: object_body.induct) (auto simp: object_text_def)

lemma parse_value_print:
  assumes "pw dbl_zero = Fin False 1"
  shows "printable j \<Longrightarrow> length (print_value d fmt j) < n \<Longrightarrow> delimited j rest \<Longrightarrow>
    parse_value pw n (leaf t0 nm) (print_value d fmt j @ rest) = Ok (canon nm j) rest"
proof (induction j arbitrary: d n rest t0 nm)
  case (CJson cs t r vs vi vd jn)
  then obtain n' where n: "n = Suc n'" by (cases n) auto
  have rd: "reads (parse_value pw n') (leaf t1 nm1) (print_value d' fmt c) (canon nm1 c)"
    if "c \<in> set cs" "printable c" "length (print_value d' fmt c) < n'" for c t1 nm1 d'
    using CJson.IH [OF that, of _ t1 nm1] print_value_first [OF that(2), of d' fmt]
    unfolding reads_def by (metis delimiter_delimited)
  show ?case
  proof (cases t)
    case CJ_NULL
    with CJson.prems n parse_value_null [of rest pw n' "leaf t0 nm"] show ?thesis
      by (simp add: delimited_def del: parse_value.simps)
  next
    case CJ_False
    with CJson.prems n parse_value_false [of rest pw n' "leaf t0 nm"] show ?thesis
      by (simp add: delimited_def del: parse_value.simps)
  next
    case CJ_True
    with CJson.prems n parse_value_true [of rest pw n' "leaf t0 nm"] show ?thesis
      by (simp add: delimited_def del: parse_value.simps)
  next
    case CJ_Number
    obtain c s where c: "dec_of_int vi = c # s" "c = CHR ''-'' \<or> c_isdigit c" by (rule dec_of_int_Cons)
    have "print_value d fmt (CJson cs t r vs vi vd jn) = c # s"
      using CJson.prems CJ_Number c by (simp add: print_number_printable)
    moreover have "parse_number pw (leaf t0 nm) (c # s @ rest) =
        Ok (set_valueint vi (set_valuedouble (dbl_of_int vi) (leaf CJ_Number nm))) rest"
      using assms parse_number_dec [of pw vi rest "leaf t0 nm"] CJson.prems CJ_Number c
      by (simp add: delimited_def)
    ultimately show ?thesis
      using CJson.prems CJ_Number n c number_first [OF c(2)]
      by (simp add: parse_value_other del: parse_value.simps print_value.simps) 
  next
    case CJ_String
    with CJson.prems obtain s where s: "vs = Some s" by auto
    have "parse_string (leaf t0 nm) (print_string_ptr (Some s) @ rest) =
        Ok (set_valuestring (Some (cstr s)) (leaf CJ_String nm)) rest"
      using parse_string_print [of "cstr s" "leaf t0 nm" rest] by simp
    then show ?thesis
      using CJ_String n s
      by (simp add: print_string_def print_string_ptr_def parse_value_other del: parse_value.simps)
  next
    case CJ_Array
    define es where "es = map (print_value (d + 1) fmt) cs"
    have t: "print_value d fmt (CJson cs t r vs vi vd jn) = array_text fmt es"
      using CJ_Array by (simp add: es_def)
    have le: "length (array_text fmt es) < Suc n'" using CJson.prems(2) unfolding t n .
    have "list_all2 (reads (parse_value pw n') cJSON_New_Item) es (map (canon None) cs)"
      unfolding es_def list_all2_map1 list_all2_map2 New_Item_leaf
    proof (rule list.rel_refl_strong)
      fix c assume c: "c \<in> set cs"
      with length_array_text [of "print_value (d + 1) fmt c" es fmt] le
      show "reads (parse_value pw n') (leaf CJ_False None) (print_value (d + 1) fmt c) (canon None c)"
        using CJson.prems CJ_Array by (intro rd c) (auto simp: es_def)
    qed
    moreover have "length es \<le> n'" using array_text_entries [of es fmt] le by (cases es) auto
    ultimately have "parse_array (parse_value pw n') n' (leaf t0 nm) (array_text fmt es @ rest)
        = Ok (set_child (map (canon None) cs) (leaf CJ_Array nm)) rest"
      by (subst parse_array_text) simp_all
    then show ?thesis
      unfolding t n using CJ_Array by (simp add: array_text_def parse_value_other c_isdigit_def byte_consts del: parse_value.simps)
  next
    case CJ_Object
    define ms where "ms = map (\<lambda>c. (print_string_ptr (name c), print_value (d + 1) fmt c)) cs"
    have t: "print_value d fmt (CJson cs t r vs vi vd jn) = object_text (d + 1) fmt ms"
      using CJ_Object by (simp add: ms_def)
    have le: "length (object_text (d + 1) fmt ms) < Suc n'" using CJson.prems(2) unfolding t n .
    have "list_all2 (reads_member (parse_value pw n')) ms (map (\<lambda>c. canon (map_option cstr (name c)) c) cs)"
      unfolding ms_def list_all2_map1 list_all2_map2
    proof (rule list.rel_refl_strong)
      fix c assume c: "c \<in> set cs"
      with CJson.prems CJ_Object obtain k where k: "name c = Some k" "printable c" by auto
      have "length (print_value (d + 1) fmt c) < n'"
        using object_text_entries(2) [of "print_string_ptr (name c)" "print_value (d + 1) fmt c" ms "d + 1" fmt] c le
        by (auto simp: ms_def)
      with rd [OF c k(2), of "d + 1" CJ_String "Some (cstr k)"] k
      show "reads_member (parse_value pw n') (print_string_ptr (name c), print_value (d + 1) fmt c)
          (canon (map_option cstr (name c)) c)"
        by (auto simp: reads_member_def intro!: exI [of _ "cstr k"])
    qed
    moreover have "length ms \<le> n'" using object_text_entries(1) [of ms "d + 1" fmt] le by simp
    ultimately have "parse_object (parse_value pw n') n' (leaf t0 nm) (object_text (d + 1) fmt ms @ rest)
        = Ok (set_child (map (\<lambda>c. canon (map_option cstr (name c)) c) cs) (leaf CJ_Object nm)) rest"
      by (subst parse_object_text) simp_all
    then show ?thesis
      unfolding t n using CJ_Object by (simp add: object_text_def parse_value_other c_isdigit_def byte_consts del: parse_value.simps)
  qed
qed

lemma parse_stream_print:
  assumes "pw dbl_zero = Fin False 1" "printable j" "delimited j rest"
  shows "cJSON_Parse_Stream pw (print_value 0 fmt j @ rest) = Ok (canon None j) rest"
proof -
  obtain c t where "print_value 0 fmt j = c # t" "\<not> c_isspace c"
    using print_value_first [OF assms(2)] by metis
  then have "skip (print_value 0 fmt j @ rest) = Ok () (print_value 0 fmt j @ rest)" by simp
  then show ?thesis
    using assms parse_value_print [of pw j 0 fmt _ rest CJ_False None]
    by (simp add: cJSON_Parse_Stream_def parse_fuel_def New_Item_leaf del: parse_value.simps)
qed

text \<open>
  C4: Parsing inverts printing. The text of a printable item, formatted or not and followed by
  anything that cannot continue a number, parses to the canonical form of the item, and the parser
  stops exactly where the text ends.
\<close>

theorem print_parse:
  assumes "pw dbl_zero = Fin False 1" "printable j" "delimited j rest"
  shows "cJSON_Parse_Stream pw (print_value 0 fmt j @ rest) = Ok (canon None j) rest"
  using assms by (rule parse_stream_print)

end
