(* ===== verification/CJsonProps.thy ===== *)
theory CJsonProps
  imports CJsonTotal CJsonRound
begin

text \<open>
  \<open>src/cJSON.c\<close>: what the parser and the renderer do outside the round trip. UTF-16 escapes
  are compared with a reference decoder, the buffers with what is written into them, and the
  inputs on which the parser leaves the buffer, accepts malformed text or rejects JSON are
  characterised.
\<close>

subsection \<open>UTF-8 and UTF-16\<close>

definition utf8_ref :: "nat \<Rightarrow> nat list" where
  "utf8_ref u =
     (if u < 0x80 then [u]
      else if u < 0x800 then [0xC0 + u div 64, 0x80 + u mod 64]
      else if u < 0x10000 then [0xE0 + u div 4096, 0x80 + u div 64 mod 64, 0x80 + u mod 64]
      else [0xF0 + u div 262144, 0x80 + u div 4096 mod 64, 0x80 + u div 64 mod 64, 0x80 + u mod 64])"

lemma or_disjoint_nat:
  assumes "a < 2 ^ k"
  shows "a OR (b * 2 ^ k) = a + b * (2 ^ k :: nat)"
proof -
  have "take_bit k a AND push_bit k b = 0" by (rule bit_eqI) (auto simp: bit_simps)
  with assms have "a AND push_bit k b = 0" by (simp add: take_bit_nat_eq_self)
  then show ?thesis
    using disjunctive_add_eq_or [of a "push_bit k b"] by (simp add: push_bit_eq_mult)
qed

lemma or_and_mask: "j \<le> k \<Longrightarrow> (n OR 2 ^ k) AND (mask j OR 2 ^ k) = take_bit j n OR (2 ^ k :: nat)"
  by (rule bit_eqI) (auto simp: bit_simps)

lemma tail_byte_nat: "((n :: nat) OR 0x80) AND 0xBF = 0x80 + n mod 64"
proof -
  have m: "(0xBF :: nat) = mask 6 OR 2 ^ 7" "(0x80 :: nat) = 2 ^ 7" by (simp_all add: mask_eq_exp_minus_1)
  have "(n OR 0x80) AND 0xBF = take_bit 6 n OR (2 ^ 7 :: nat)"
    unfolding m by (rule or_and_mask) simp
  then show ?thesis
    using or_disjoint_nat [of "n mod 64" 7 1] by (simp add: take_bit_eq_mod)
qed

lemma unat_tail_byte: "byte (tail_byte uc) = 0x80 + unat uc mod 64"
proof -
  have "unat ((uc OR 0x80) AND 0xBF) = 0x80 + unat uc mod 64"
    by (simp add: unsigned_or_eq unsigned_and_eq tail_byte_nat)
  then show ?thesis by (simp add: tail_byte_def) 
qed

text \<open>
  The encoder of escapes with its fall-through switch and first-byte table produces the UTF-8
  encoding of every code point, as the standard defines it by ranges.
\<close>

lemma utf8_bytes_ref:
  assumes "uc \<le> 0x10FFFF"
  shows "map byte (utf8_bytes uc) = utf8_ref (unat uc)"
proof -
  have u: "unat uc \<le> 0x10FFFF" using assms by (simp add: word_le_nat_alt)
  have d: "unat (drop_bit k uc) = unat uc div 2 ^ k" for k
    by (simp only: unat_drop_bit_eq) (simp add: drop_bit_eq_div)
  have lead: "byte (lead_byte len (drop_bit k uc)) = unat uc div 2 ^ k + b * 2 ^ j"
    if "len < 7" "unat ([0, 0, 0xC0, 0xE0, 0xF0, 0xF8, 0xFC] ! len :: 32 word) = b * 2 ^ j" "b * 2 ^ j + 2 ^ j \<le> 256"
      "unat uc div 2 ^ k < 2 ^ j" for len k b j
  proof -
    have "unat (drop_bit k uc OR [0, 0, 0xC0, 0xE0, 0xF0, 0xF8, 0xFC] ! len) = unat uc div 2 ^ k + b * 2 ^ j"
      unfolding unsigned_or_eq that(2) d by (rule or_disjoint_nat) (rule that(4))
    then show ?thesis using that(3,4) by (simp only: lead_byte_def) (simp add: byte_def)
  qed
  consider "unat uc < 0x80" | "0x80 \<le> unat uc" "unat uc < 0x800" | "0x800 \<le> unat uc" "unat uc < 0x10000"
    | "0x10000 \<le> unat uc" by linarith
  then show ?thesis
  proof cases
    case 1
    then have "utf8_len uc = 1" by (simp add: utf8_len_def word_less_nat_alt)
    with 1 lead [of 1 0 7 0] show ?thesis by (simp add: utf8_bytes_def utf8_ref_def)
  next
    case 2
    then have "utf8_len uc = 2" by (simp add: utf8_len_def word_less_nat_alt)
    moreover have "unat uc div 64 < 32" using 2 by (simp add: less_mult_imp_div_less)
    then have "byte (lead_byte 2 (drop_bit 6 uc)) = unat uc div 2 ^ 6 + 6 * 2 ^ 5"
      by (intro lead) (simp_all add: nth_Cons')
    ultimately show ?thesis
      using 2 by (simp add: utf8_bytes_def utf8_ref_def unat_tail_byte)
  next
    case 3
    then have "utf8_len uc = 3" by (simp add: utf8_len_def word_less_nat_alt)
    moreover have "unat uc div 4096 < 16" using 3 by (simp add: less_mult_imp_div_less)
    then have "byte (lead_byte 3 (drop_bit 12 uc)) = unat uc div 2 ^ 12 + 14 * 2 ^ 4"
      by (intro lead) (simp_all add: nth_Cons')
    ultimately show ?thesis
      using 3 by (simp add: utf8_bytes_def utf8_ref_def unat_tail_byte d upt_rec)
  next
    case 4
    then have "utf8_len uc = 4" by (simp add: utf8_len_def word_less_nat_alt)
    moreover have "unat uc div 262144 < 8" using u by (simp add: less_mult_imp_div_less)
    then have "byte (lead_byte 4 (drop_bit 18 uc)) = unat uc div 2 ^ 18 + 30 * 2 ^ 3"
      by (intro lead) (simp_all add: nth_Cons')
    ultimately show ?thesis
      using 4 by (simp add: utf8_bytes_def utf8_ref_def unat_tail_byte d upt_rec)
  qed
qed

lemma or_power_set: "bit x k \<Longrightarrow> 2 ^ k OR x = (x :: nat)"
  by (rule bit_eqI) (auto simp: bit_simps)

lemma or_power_clear: "\<not> bit x k \<Longrightarrow> 2 ^ k OR x = 2 ^ k + (x :: nat)"
proof -
  assume "\<not> bit x k"
  then have "2 ^ k AND x = 0" by (intro bit_eqI) (auto simp: bit_simps)
  then show ?thesis by (simp only: disjunctive_add_eq_or)
qed

text \<open>
  Surrogate pairs are combined with a bitwise or where the standard adds the offset 0x10000. The
  code point is the standard's exactly if bit 6 of the high surrogate is clear.
\<close>

lemma surrogate_pair:
  assumes "scan_into uc2 m = Val w2" "0xD800 \<le> w" "w \<le> 0xDBFF" "0xDC00 \<le> w2" "w2 \<le> 0xDFFF"
  shows "\<exists>cp. unescape_low w uc2 m = Val (put_utf8 cp (Some w2) (drop 4 m)) \<and>
     (unat cp = 0x10000 + (unat w - 0xD800) * 0x400 + (unat w2 - 0xDC00) \<longleftrightarrow> \<not> bit w 6)"
proof -
  define a b where "a = unat w - 0xD800" and "b = unat w2 - 0xDC00"
  have w: "unat w = a + 54 * 1024" "a < 1024" and w2: "unat w2 = b + 55 * 1024" "b < 1024"
    using assms(2-5) by (simp_all add: a_def b_def word_le_nat_alt)
  let ?cp = "0x10000 OR push_bit 10 (w AND 0x3FF) OR (w2 AND 0x3FF)"
  have m10: "(0x3FF :: nat) = mask 10" by (simp add: mask_eq_exp_minus_1)
  have md: "unat w mod 1024 = a" "unat w2 mod 1024 = b"
    by (simp_all only: w w2 mod_mult_self1 mod_less)
  then have ab: "unat (w AND 0x3FF) = a" "unat (w2 AND 0x3FF) = b"
    by (simp_all add: unsigned_and_eq m10 flip: take_bit_eq_mask) (simp_all add: take_bit_eq_mod)
  have "unat (push_bit 10 (w AND 0x3FF)) = a * 2 ^ 10"
    using w(2) by (simp only: unsigned_push_bit_eq ab) (simp add: push_bit_eq_mult take_bit_nat_eq_self)
  then have "unat ?cp = 2 ^ 16 OR (a * 2 ^ 10 OR b)"
    by (simp only: unsigned_or_eq ab or.assoc) simp
  also have "a * 2 ^ 10 OR b = b + a * 2 ^ 10"
    using or_disjoint_nat [of b 10 a] w2(2) by (simp add: or.commute)
  finally have cp: "unat ?cp = 2 ^ 16 OR (b + a * 2 ^ 10)" .
  have "bit w 6 \<longleftrightarrow> bit (unat w) 6" by (simp add: bit_unsigned_iff)
  also have "\<dots> \<longleftrightarrow> bit (unat w mod 2 ^ 10) 6" by (simp only: bit_take_bit_iff flip: take_bit_eq_mod) simp
  also have "unat w mod 2 ^ 10 = a" using md by simp
  also have "bit a 6 \<longleftrightarrow> bit (b + a * 2 ^ 10) 16"
  proof -
    have "(b + a * 2 ^ 10) div 2 ^ 16 = (b + a * 2 ^ 10) div 2 ^ 10 div 2 ^ 6"
      by (simp only: flip: div_mult2_eq) simp
    also have "(b + a * 2 ^ 10) div 2 ^ 10 = a" using w2(2) by simp
    finally show ?thesis by (simp only: bit_iff_odd)
  qed
  finally have bit: "bit w 6 \<longleftrightarrow> bit (b + a * 2 ^ 10) 16" .
  have "unat ?cp = 0x10000 + a * 0x400 + b \<longleftrightarrow> \<not> bit w 6"
  proof (cases "bit (b + a * 2 ^ 10) 16")
    case True
    with bit cp or_power_set [OF True] show ?thesis by simp
  next
    case False
    with bit cp or_power_clear [OF False] show ?thesis by simp
  qed
  moreover have "\<not> (w2 < 0xDC00 \<or> 0xDFFF < w2)" using assms by (simp add: not_less)
  ultimately show ?thesis
    using assms(1) unfolding a_def b_def by (auto simp: unescape_low_def)
qed

subsection \<open>Inputs that are read wrongly\<close>

text \<open>
  An array with a trailing comma is not rejected as such: the parser goes on after the bracket, so
  it accepts such an array when a second bracket follows and rejects it otherwise.
\<close>

lemma array_trailing_comma:
  "parse_value pw (Suc (Suc (Suc n))) (leaf t nm) (''[true,]'' @ c # rest) =
     (if c = CHR '']'' then Ok (set_child [set_valueint 1 (leaf CJ_True None)] (leaf CJ_Array nm)) rest
      else Fail (c # rest))"
  by (simp add: keyword_def parse_array_def c_isdigit_def byte_consts spaces New_Item_leaf)

text \<open>
  The parser compares a keyword as a prefix of the stream without looking at what follows, and the
  comparison that fails consumes what agreed.
\<close>

lemma keyword_prefix:
  assumes "k \<le> 3" "rest \<noteq> []" "hd rest \<noteq> NUL"
  shows "parse_value pw (Suc n) item (take k ''null'' @ ''false'' @ rest) = Ok (set_type CJ_False item) rest"
proof -
  have "k = 0 \<or> k = 1 \<or> k = 2 \<or> k = 3" using assms by linarith
  with parse_value_false [OF assms(2,3), of pw n item] show ?thesis by (auto simp: keyword_def numeral_eq_Suc)
qed

text \<open>
  A keyword that ends the buffer is read past the terminating NUL.
\<close>

lemma bare_keyword:
  "cJSON_Parse pw (''null'' @ [NUL]) = Undef OutOfBounds \<and>
   cJSON_Parse pw (''true'' @ [NUL]) = Undef OutOfBounds \<and>
   cJSON_Parse pw (''false'' @ [NUL]) = Undef OutOfBounds"
  by (simp_all add: cJSON_Parse_def cJSON_Parse_Stream_def keyword_def parse_fuel_def spaces)

subsection \<open>Strings that leave their buffer\<close>

definition plain :: "string \<Rightarrow> bool" where
  "plain s \<longleftrightarrow> (\<forall>c\<in>set s. c \<noteq> DQUOTE \<and> c \<noteq> BSLASH \<and> c \<noteq> NUL)"

lemma plain_simps [simp]: "plain []" "plain (c # s) \<longleftrightarrow> c \<noteq> DQUOTE \<and> c \<noteq> BSLASH \<and> c \<noteq> NUL \<and> plain s"
  by (auto simp: plain_def)

lemma unescape_plain: "plain s \<Longrightarrow> unescape ucs (s @ DQUOTE # rest) = Val (s, DQUOTE # rest)"
  by (induction s) auto

lemma str_len_stop [simp]: "str_len (DQUOTE # m) = Val 0"
  by (cases m) simp_all

lemma str_len_char [simp]:
  "c \<noteq> DQUOTE \<Longrightarrow> c \<noteq> BSLASH \<Longrightarrow> c \<noteq> NUL \<Longrightarrow> m \<noteq> [] \<Longrightarrow> str_len (c # m) = obind (str_len m) (\<lambda>n. Val (Suc n))"
  by (cases m) auto

lemma str_len_plain: "plain s \<Longrightarrow> str_len (s @ DQUOTE # rest) = Val (length s)"
  by (induction s) auto

lemma parse_quoted:
  "cJSON_Parse pw (DQUOTE # m) =
     (case parse_string cJSON_New_Item (DQUOTE # m) of
        Ok j _ \<Rightarrow> Val (Some j) | Fail _ \<Rightarrow> Val None | Crash u \<Rightarrow> Undef u | NoFuel \<Rightarrow> Undef OutOfBounds)"
  by (simp add: cJSON_Parse_def cJSON_Parse_Stream_def parse_fuel_def spaces parse_value_other
      del: parse_value.simps(2))

text \<open>
  A unicode escape cut short by the closing quote makes the string parser skip that quote. The copy
  then goes on into the text after the string and is written past the end of the allocated buffer.
\<close>

lemma short_escape_overflow:
  assumes "plain s" "3 < length s"
  shows "cJSON_Parse pw (DQUOTE # BSLASH # ''u00'' @ DQUOTE # x # s @ DQUOTE # rest) = Undef OutOfBounds"
proof -
  have x: "\<not> c_isxdigit DQUOTE" "c_tolower (CHR ''0'') \<noteq> CHR ''x''"
    by (simp_all add: c_isxdigit_def c_isdigit_def byte_consts zero_char)
  have sc: "sscanf_4x (CHR ''0'' # CHR ''0'' # DQUOTE # x # s @ DQUOTE # rest) = Val (Some 0)"
    by (simp add: sscanf_4x_def zero_char x hex_value_def take_Cons')
  have "unescape_u (None, None) (CHR ''0'' # CHR ''0'' # DQUOTE # x # s @ DQUOTE # rest)
      = Val ([], (Some 0, None), s @ DQUOTE # rest)"
    by (simp add: unescape_u_def scan_into_def sc)
  with assms show ?thesis
    by (simp add: parse_quoted parse_string_def unescape_plain)
qed

text \<open>
  An escape without a hexadecimal digit leaves the variable of the code point uninitialised.
\<close>

lemma bad_escape_uninitialised:
  assumes "plain s" "\<not> c_isspace c" "\<not> c_isxdigit c" "c \<notin> {CHR ''+'', CHR ''-'', DQUOTE, BSLASH, NUL}"
  shows "cJSON_Parse pw (DQUOTE # BSLASH # CHR ''u'' # c # s @ DQUOTE # rest) = Undef Uninitialised"
proof -
  have "c \<noteq> CHR ''0''" using assms(3) zero_char by auto
  with assms have "sscanf_4x (c # s @ DQUOTE # rest) = Val None"
    by (simp add: sscanf_4x_def take_Cons' Let_def)
  then have "unescape_u (None, None) (c # s @ DQUOTE # rest) = Undef Uninitialised"
    by (simp add: unescape_u_def scan_into_def)
  with assms show ?thesis
    by (simp add: parse_quoted parse_string_def str_len_plain)
qed

subsection \<open>Numbers\<close>

text \<open>
  An integer from 2^31 up to 2^53 parses into undefined behaviour: the conversion of the double to
  int is out of range.
\<close>

lemma big_integer_undefined:
  assumes "pw dbl_zero = Fin False 1" "2 ^ 31 \<le> k" "k < 2 ^ 53" "rest \<noteq> []" "\<not> c_isdigit (hd rest)"
    "hd rest \<notin> {CHR ''.'', CHR ''e'', CHR ''E''}"
  shows "cJSON_Parse pw (dec_of_nat k @ rest) = Undef IntOverflow"
proof -
  from scan_magnitude [OF assms(3,4,5)] obtain c t sc where
    s: "dec_of_nat k @ rest = c # t" "c \<noteq> CHR ''-''" "parse_integer (c # t) = Ok (Fin False (of_nat k), sc) rest"
    by fastforce
  have c: "c_isdigit c"
    using s(1) dec_of_nat_digits [of k] by (cases "dec_of_nat k") auto
  have e: "parse_fraction n rest = Ok (n, dbl_zero) rest" "parse_exponent rest = Ok (0, 1) rest" for n
    using assms by (simp_all add: parse_no_fraction parse_no_exponent)
  have z: "dbl_add dbl_zero (dbl_of_int 0) = dbl_zero" by (simp add: dbl_of_int_exact)
  have v: "dbl_mul (dbl_mul (Fin False 1) (Fin False (of_nat k))) (Fin False 1) = Fin False (of_nat k)"
    by (simp add: dbl_mul_int [OF assms(3)] del: dbl_mul.simps)
  have "dbl_to_int32 (Fin False (of_nat k)) = Undef IntOverflow"
    using assms(2) by (simp add: floor_of_nat)
  then have n: "parse_number pw cJSON_New_Item (c # t) = Crash IntOverflow"
    using s(2) v by (simp add: parse_number_def Let_def s(3) e z assms(1) del: dbl_mul.simps dbl_to_int32.simps)
  have f: "c \<notin> {CHR ''n'', CHR ''f'', CHR ''t''}" "c \<noteq> DQUOTE" "\<not> c_isspace c"
    using number_first [of c] c by auto
  show ?thesis
    by (simp add: cJSON_Parse_def cJSON_Parse_Stream_def parse_fuel_def s(1) f(3)
        parse_value_other [OF f(1)] f(2) c n del: parse_value.simps(2))
qed

lemma dec_of_nat_long: "10 ^ k \<le> n \<Longrightarrow> k < length (dec_of_nat n)"
proof (induction n arbitrary: k rule: dec_of_nat.induct)
  case (1 n)
  show ?case
  proof (cases k)
    case (Suc j)
    have o: "(1 :: nat) \<le> 10 ^ j" by simp
    have le: "10 * 10 ^ j \<le> n" using "1.prems" Suc by simp
    from o le have "\<not> n < 10" by linarith
    moreover from le have "10 ^ j \<le> n div 10" by (simp add: less_eq_div_iff_mult_less_eq mult.commute)
    ultimately have "10 ^ j \<le> n div 10" "\<not> n < 10" by blast+
    with "1.IH" [of j] Suc show ?thesis by (subst dec_of_nat.simps) simp
  qed simp
qed

text \<open>
  A whole number of at least 10^63 is printed in full digits into a buffer of 64 bytes, which it
  does not fit.
\<close>

lemma big_number_overruns_buffer:
  assumes "valuedouble item = Fin s (of_nat k)" "10 ^ 63 \<le> k"
  shows "print_number_alloc item < length (print_number item) + 1"
proof -
  have k: "(10 :: rat) ^ 63 \<le> of_nat k" using assms(2) by (metis of_nat_le_iff of_nat_numeral of_nat_power)
  then have big: "(2147483648 :: rat) < of_nat k" by simp
  have "dbl_of_int (2 ^ 31 - 1) = Fin False 2147483647" "dbl_of_int (-(2 ^ 31)) = Fin True 2147483648"
    by (simp_all add: dbl_of_int_exact)
  with big have ni: "\<not> is_int_number item"
    by (cases s) (simp_all add: is_int_number_def assms(1))
  have fl: "dbl_floor (Fin s (of_nat k)) = Fin s (of_nat k)"
  proof (cases s)
    case True
    have "\<lfloor>- (of_nat k :: rat)\<rfloor> = - int k" by (metis floor_of_int of_int_minus of_int_of_nat_eq)
    with True show ?thesis by simp
  qed simp
  have "dbl_le (dbl_abs (dbl_sub (dbl_floor (Fin s (of_nat k))) (Fin s (of_nat k)))) dbl_epsilon"
    unfolding fl by (cases s) (simp_all add: dbl_sub_def dbl_epsilon_def)
  with ni have "print_number item = fmt_f 0 (Fin s (of_nat k))"
    by (simp add: print_number_def assms(1) Let_def)
  moreover have "nat (round_half_even (of_nat k :: rat)) = k"
    by (metis nat_int of_int_of_nat_eq round_half_even_of_int)
  ultimately have "length (dec_of_nat k) \<le> length (print_number item)"
    by (simp add: fix_digits_def)
  with ni dec_of_nat_long [OF assms(2)] show ?thesis by (simp add: print_number_alloc_def)
qed


subsection \<open>Objects as tables\<close>

definition first_match :: "cjson \<Rightarrow> string \<Rightarrow> cjson list" where
  "first_match obj s = takeWhile (\<lambda>c. cJSON_strcasecmp (name c) (Some s) \<noteq> 0) (child obj)"

lemma key_index_takeWhile:
  "key_index cs s i =
     (let n = length (takeWhile (\<lambda>c. cJSON_strcasecmp (name c) (Some s) \<noteq> 0) cs)
      in if n < length cs then Some (i + int n) else None)"
  by (induction cs s i rule: key_index.induct) (auto simp: Let_def)

text \<open>
  An object built by insertions is looked up to the first value inserted under the key, up to the
  case of letters.
\<close>

lemma object_lookup:
  "cJSON_GetObjectItem (adds (\<lambda>m k v. cJSON_AddItemToObject m k (Some v)) cJSON_CreateObject kvs) k =
     map_option (\<lambda>(k', v). set_name (Some k') v) (find (\<lambda>kv. strcaseeq (cstr (fst kv)) (cstr k)) kvs)"
  by (rule obj.lookup_filled)

text \<open>
  On an object that has a key, up to the case of letters, detaching it removes the first member of
  that key and no other and returns it; replacing puts the new value in its place under that key,
  and a lookup then finds the new value.
\<close>

lemma object_update:
  assumes "cJSON_GetObjectItem obj s = Some x"
  shows "\<exists>pre post. child obj = pre @ x # post \<and>
     (\<forall>c\<in>set pre. cJSON_strcasecmp (name c) (Some s) \<noteq> 0) \<and>
     cJSON_DetachItemFromObject obj s = (Some x, set_child (pre @ post) obj) \<and>
     cJSON_ReplaceItemInObject obj s y = set_child (pre @ set_name (Some s) y # post) obj \<and>
     cJSON_GetObjectItem (cJSON_ReplaceItemInObject obj s y) s = Some (set_name (Some s) y)"
proof -
  let ?P = "\<lambda>c. cJSON_strcasecmp (name c) (Some s) \<noteq> 0"
  let ?cs = "child obj"
  obtain pre post where cs: "?cs = pre @ x # post" "\<forall>c\<in>set pre. ?P c" "\<not> ?P x"
    using assms by (fastforce simp: cJSON_GetObjectItem_def find_Some_iff in_set_conv_nth
        dest: id_take_nth_drop intro: that [of "take i ?cs" "drop (Suc i) ?cs" for i])
  then have "takeWhile ?P ?cs = pre" by (simp add: takeWhile_append)
  with cs have i: "key_index ?cs s 0 = Some (int (length pre))" by (simp add: key_index_takeWhile)
  have f: "find (\<lambda>c. \<not> ?P c) (pre @ z # post) = Some z" if "\<not> ?P z" for z
    using cs(2) that by (induction pre) auto
  show ?thesis
    by (rule exI [of _ pre], rule exI [of _ post])
      (use cs i f in \<open>auto simp: cJSON_DetachItemFromObject_def cJSON_DetachItemFromArray_def detach_at_nth
        cJSON_ReplaceItemInObject_def cJSON_ReplaceItemInArray_def replace_at_update cJSON_GetObjectItem_def\<close>)
qed

end
