(* ===== verification/ConnQueue.thy ===== *)
theory ConnQueue
  imports CString
begin

text \<open>
  \<open>src/jsonrpc-c.c\<close>: the hand-over of accepted connections to the worker threads.
  \<open>CQ\<close> is a singly linked list with a head and a tail pointer; the items it reaches are reached
  from no other queue, so a queue carries its part of the heap (\<open>items\<close>). The mutex makes
  \<open>cq_push\<close> and \<open>cq_pop\<close> atomic. The locale \<open>fifo\<close> is what the dispatcher and the workers rely on;
  \<open>step\<close> interleaves the main thread (push, then \<open>ev_async_send\<close>) with the workers (the async
  watcher fires, then pops until the queue is empty) in every order.
\<close>

type_synonym addr = nat

record cq_item =
  sfd :: int
  szAddr :: string
  port :: nat

record cq =
  head :: "addr option"
  tail :: "addr option"
  items :: "addr \<rightharpoonup> (cq_item \<times> addr option)"

definition cq_init :: cq where
  "cq_init = \<lparr> head = None, tail = None, items = Map.empty \<rparr>"

definition cq_pop :: "cq \<Rightarrow> cq_item option \<times> cq" where
  "cq_pop q =
     (case head q of
        None \<Rightarrow> (None, q)
      | Some a \<Rightarrow>
          (case items q a of
             None \<Rightarrow> (None, q)
           | Some (it, nxt) \<Rightarrow>
               (Some it, q \<lparr> head := nxt, tail := (if nxt = None then None else tail q),
                             items := (items q)(a := None) \<rparr>)))"

text \<open>\<open>a\<close> is the address of the item, \<open>item->next\<close> is reset first.\<close>

definition cq_push :: "cq \<Rightarrow> addr \<Rightarrow> cq_item \<Rightarrow> cq" where
  "cq_push q a it =
     (let s = (items q)(a \<mapsto> (it, None))
      in case tail q of
           None \<Rightarrow> q \<lparr> head := Some a, tail := Some a, items := s \<rparr>
         | Some t \<Rightarrow> q \<lparr> tail := Some a, items := s(t := map_option (\<lambda>(i, _). (i, Some a)) (s t)) \<rparr>)"

subsection \<open>The interface of a queue\<close>

text \<open>The elements in order of arrival; \<open>fresh\<close> says that an address is not in use.\<close>

fun drain :: "('q \<Rightarrow> 'e option \<times> 'q) \<Rightarrow> nat \<Rightarrow> 'q \<Rightarrow> 'e list \<times> 'q" where
  "drain deq 0 q = ([], q)"
| "drain deq (Suc n) q =
     (case deq q of (None, q') \<Rightarrow> ([], q')
      | (Some x, q') \<Rightarrow> (case drain deq n q' of (xs, q'') \<Rightarrow> (x # xs, q'')))"

locale fifo =
  fixes void :: 'q
    and enq :: "'q \<Rightarrow> 'a \<Rightarrow> 'e \<Rightarrow> 'q"
    and deq :: "'q \<Rightarrow> 'e option \<times> 'q"
    and fresh :: "'q \<Rightarrow> 'a \<Rightarrow> bool"
    and holds :: "'q \<Rightarrow> 'e list \<Rightarrow> bool"
  assumes holds_void: "holds void []"
    and holds_enq: "holds q xs \<Longrightarrow> fresh q a \<Longrightarrow> holds (enq q a x) (xs @ [x])"
    and deq_Nil: "holds q [] \<Longrightarrow> deq q = (None, q)"
    and deq_Cons: "holds q (x # xs) \<Longrightarrow> \<exists>q'. deq q = (Some x, q') \<and> holds q' xs"
begin

lemma deq_cases:
  assumes "holds q xs"
  obtains "xs = []" "deq q = (None, q)"
  | x ys q' where "xs = x # ys" "deq q = (Some x, q')" "holds q' ys"
  using assms deq_Nil deq_Cons by (cases xs) blast+

lemma holds_unique: "holds q xs \<Longrightarrow> holds q ys \<Longrightarrow> xs = ys"
proof (induction xs arbitrary: q ys)
  case Nil
  then show ?case using deq_Nil deq_Cons by (cases ys) fastforce+
next
  case (Cons x xs)
  then obtain q' where q': "deq q = (Some x, q')" "holds q' xs" using deq_Cons by blast
  with Cons.prems(2) obtain y ys' where "ys = y # ys'" using deq_Nil by (cases ys) fastforce+
  with Cons.prems(2) q' obtain "y = x" "holds q' ys'" using deq_Cons by fastforce
  with Cons.IH q' \<open>ys = y # ys'\<close> show ?case by blast
qed

lemma drain_holds: "holds q xs \<Longrightarrow> length xs \<le> n \<Longrightarrow> \<exists>q'. drain deq n q = (xs, q') \<and> holds q' []"
proof (induction xs arbitrary: q n)
  case Nil
  then show ?case using deq_Nil by (cases n) auto
next
  case (Cons x xs)
  from Cons.prems(2) obtain m where "n = Suc m" "length xs \<le> m" by (cases n) auto
  moreover from deq_Cons [OF Cons.prems(1)] obtain q' where "deq q = (Some x, q')" "holds q' xs" by blast
  ultimately show ?case using Cons.IH [of q' m] by auto
qed

end

subsection \<open>The linked list is a queue\<close>

text \<open>\<open>linked q as its\<close>: the items \<open>its\<close> sit at the addresses \<open>as\<close>, chained in this order.\<close>

fun chained :: "(addr \<rightharpoonup> (cq_item \<times> addr option)) \<Rightarrow> addr list \<Rightarrow> cq_item list \<Rightarrow> bool" where
  "chained s [] its = (its = [])"
| "chained s (a # as) its =
     (case its of [] \<Rightarrow> False
      | it # its' \<Rightarrow> s a = Some (it, if as = [] then None else Some (hd as)) \<and> chained s as its')"

definition linked :: "cq \<Rightarrow> addr list \<Rightarrow> cq_item list \<Rightarrow> bool" where
  "linked q as its \<longleftrightarrow>
     distinct as \<and> chained (items q) as its \<and>
     head q = (if as = [] then None else Some (hd as)) \<and>
     tail q = (if as = [] then None else Some (last as)) \<and> dom (items q) = set as"

definition cq_holds :: "cq \<Rightarrow> cq_item list \<Rightarrow> bool" where
  "cq_holds q its \<longleftrightarrow> (\<exists>as. linked q as its)"

definition cq_fresh :: "cq \<Rightarrow> addr \<Rightarrow> bool" where
  "cq_fresh q a \<longleftrightarrow> items q a = None"

lemma chained_length: "chained s as its \<Longrightarrow> length its = length as"
  by (induction as arbitrary: its) (auto split: list.splits)

lemma chained_upd: "a \<notin> set as \<Longrightarrow> chained (s(a := v)) as its = chained s as its"
  by (induction as arbitrary: its) (auto split: list.splits)

lemma chained_append:
  assumes "chained s as its" "as \<noteq> []" "a \<notin> set as" "distinct as"
  shows "chained ((s(a \<mapsto> (it, None)))(last as := map_option (\<lambda>(i, _). (i, Some a)) ((s(a \<mapsto> (it, None))) (last as))))
    (as @ [a]) (its @ [it])"
  using assms
proof (induction as arbitrary: its)
  case (Cons b bs)
  then obtain i its' where i: "its = i # its'" by (cases its) auto
  show ?case
  proof (cases bs)
    case Nil
    with Cons i show ?thesis by auto
  next
    case (Cons b' bs')
    with Cons.IH [of its'] Cons.prems i have "b \<noteq> last bs" "b \<noteq> a" "bs \<noteq> []" by auto
    with Cons.IH [of its'] Cons.prems i show ?thesis by (simp add: hd_append)
  qed
qed simp

lemma linked_push: "linked q as its \<Longrightarrow> cq_fresh q a \<Longrightarrow> linked (cq_push q a it) (as @ [a]) (its @ [it])"
proof -
  assume l: "linked q as its" and f: "cq_fresh q a"
  then have a: "a \<notin> set as" by (auto simp: linked_def cq_fresh_def)
  show ?thesis
  proof (cases "as = []")
    case True
    with l show ?thesis by (auto simp: linked_def cq_push_def Let_def)
  next
    case False
    with l have t: "tail q = Some (last as)" "last as \<in> dom (items q)"
      by (auto simp: linked_def)
    with l a False chained_append [of "items q" as its a it] show ?thesis
      by (auto simp: linked_def cq_push_def Let_def hd_append)
  qed
qed

lemma linked_pop:
  assumes "linked q (a # as) (it # its)"
  obtains q' where "cq_pop q = (Some it, q')" "linked q' as its"
proof -
  from assms have "items q a = Some (it, if as = [] then None else Some (hd as))" "head q = Some a"
    by (auto simp: linked_def)
  with assms that show ?thesis
    by (auto simp: linked_def cq_pop_def chained_upd)
qed

interpretation cqs: fifo cq_init cq_push cq_pop cq_fresh cq_holds
proof unfold_locales
  show "cq_holds cq_init []" by (auto simp: cq_holds_def linked_def cq_init_def)
next
  show "cq_holds q xs \<Longrightarrow> cq_fresh q a \<Longrightarrow> cq_holds (cq_push q a x) (xs @ [x])" for q xs a x
    by (auto simp: cq_holds_def dest: linked_push)
next
  show "cq_pop q = (None, q)" if h: "cq_holds q []" for q
  proof -
    from h obtain as where l: "linked q as []" by (auto simp: cq_holds_def)
    then have "as = []" by (cases as) (auto simp: linked_def)
    with l show ?thesis by (simp add: cq_pop_def linked_def)
  qed
next
  show "\<exists>q'. cq_pop q = (Some x, q') \<and> cq_holds q' xs" if h: "cq_holds q (x # xs)" for q x xs
  proof -
    from h obtain as where l: "linked q as (x # xs)" by (auto simp: cq_holds_def)
    then obtain a as' where "as = a # as'" by (cases as) (auto simp: linked_def)
    with l obtain q' where "cq_pop q = (Some x, q')" "linked q' as' xs" by (auto elim: linked_pop)
    then show ?thesis by (auto simp: cq_holds_def)
  qed
qed

subsection \<open>Dispatching\<close>

record pool =
  init_count :: nat
  round_robin :: int
  queue :: "nat \<Rightarrow> cq"
  notified :: "nat \<Rightarrow> bool"

text \<open>\<open>thread_init\<close> returns when all workers have counted themselves in.\<close>

definition worker_libev :: "pool \<Rightarrow> pool" where
  "worker_libev p = p \<lparr> init_count := init_count p + 1 \<rparr>"

definition setup_thread :: "nat \<Rightarrow> pool \<Rightarrow> pool" where
  "setup_thread w p = p \<lparr> queue := (queue p)(w := cq_init), notified := (notified p)(w := False) \<rparr>"

definition thread_init :: "pool \<Rightarrow> pool" where
  "thread_init p =
     (let nthreads = 5
      in (worker_libev ^^ nthreads) (fold setup_thread [0..<nthreads] p))"

definition inet_ntoa :: "nat \<times> nat \<times> nat \<times> nat \<Rightarrow> string" where
  "inet_ntoa = (\<lambda>(a, b, c, d). dec_of_nat a @ ''.'' @ dec_of_nat b @ ''.'' @ dec_of_nat c @ ''.'' @ dec_of_nat d)"

text \<open>The index the round robin selects: C's \<open>%\<close> has the sign of the dividend.\<close>

definition robin_of :: "pool \<Rightarrow> int" where
  "robin_of p = (if round_robin p < 0 then - ((- round_robin p) mod int (init_count p))
                 else round_robin p mod int (init_count p))"

definition push_conn :: "nat \<Rightarrow> addr \<Rightarrow> cq_item \<Rightarrow> pool \<Rightarrow> pool" where
  "push_conn w a it p = p \<lparr> queue := (queue p)(w := cq_push (queue p w) a it) \<rparr>"

text \<open>\<open>ev_async_send\<close> and \<open>round_robin++\<close>.\<close>

definition notify_worker :: "nat \<Rightarrow> pool \<Rightarrow> pool" where
  "notify_worker w p = p \<lparr> notified := (notified p)(w := True), round_robin := round_robin p + 1 \<rparr>"

definition dispath_conn :: "int \<Rightarrow> (nat \<times> nat \<times> nat \<times> nat) \<Rightarrow> nat \<Rightarrow> addr \<Rightarrow> pool \<Rightarrow> pool outcome" where
  "dispath_conn anewfd sin_addr sin_port a p =
     (let it = \<lparr> sfd = anewfd, szAddr = inet_ntoa sin_addr, port = sin_port \<rparr>;
          robin = robin_of p
      in if robin < 0 then Undef OutOfBounds
         else if round_robin p = 2 ^ 31 - 1 then Undef IntOverflow
         else Val (notify_worker (nat robin) (push_conn (nat robin) a it p)))"

datatype accept_result = Accepted int "nat \<times> nat \<times> nat \<times> nat" nat | EAgain | AcceptError

text \<open>
  \<open>accept_callback2\<close>: the results of the calls of \<open>accept\<close>, until one ends the loop; \<open>stack\<close> is
  what \<open>sin\<close> holds before a call has filled it in. After an error the loop is left with
  \<open>newfd = -1\<close>, which is dispatched like a connection.
\<close>

fun accept_callback2 :: "accept_result list \<Rightarrow> (nat \<times> nat \<times> nat \<times> nat) \<times> nat \<Rightarrow> addr \<Rightarrow> pool \<Rightarrow> pool outcome" where
  "accept_callback2 [] stack a p = Val p"
| "accept_callback2 (r # rs) stack a p =
     (case r of
        Accepted fd ad pt \<Rightarrow> dispath_conn fd ad pt a p
      | EAgain \<Rightarrow> accept_callback2 rs stack a p
      | AcceptError \<Rightarrow> dispath_conn (-1) (fst stack) (snd stack) a p)"

lemma szAddr_fits:
  assumes "a < 256" "b < 256" "c < 256" "d < 256"
  shows "length (inet_ntoa (a, b, c, d)) + 1 \<le> 16"
proof -
  have l: "length (dec_of_nat n) \<le> 3" if "n < 256" for n using that by (intro length_dec_of_nat) simp_all
  show ?thesis using l [OF assms(1)] l [OF assms(2)] l [OF assms(3)] l [OF assms(4)] by (simp add: inet_ntoa_def)
qed

subsection \<open>Interleavings\<close>

text \<open>
  \<open>sending\<close> is the worker the main thread has pushed to and not yet notified, \<open>busy\<close> the workers
  inside \<open>async_cb\<close>; \<open>accepted\<close> and \<open>handled\<close> record what went in and what came out.
\<close>

record sys =
  workers :: pool
  sending :: "nat option"
  busy :: "nat \<Rightarrow> bool"
  accepted :: "cq_item list"
  handled :: "nat \<Rightarrow> cq_item list"

definition sys_init :: sys where
  "sys_init = \<lparr> workers = thread_init \<lparr> init_count = 0, round_robin = 0, queue = (\<lambda>_. cq_init), notified = (\<lambda>_. False) \<rparr>,
     sending = None, busy = (\<lambda>_. False), accepted = [], handled = (\<lambda>_. []) \<rparr>"

inductive worker_step :: "sys \<Rightarrow> sys \<Rightarrow> bool" where
  notify: "sending s = Some w \<Longrightarrow> round_robin (workers s) < 2 ^ 31 - 1 \<Longrightarrow>
    worker_step s (s \<lparr> workers := notify_worker w (workers s), sending := None \<rparr>)"
| wake: "w < init_count (workers s) \<Longrightarrow> notified (workers s) w \<Longrightarrow> \<not> busy s w \<Longrightarrow>
    worker_step s (s \<lparr> workers := (workers s) \<lparr> notified := (notified (workers s))(w := False) \<rparr>, busy := (busy s)(w := True) \<rparr>)"
| pop: "w < init_count (workers s) \<Longrightarrow> busy s w \<Longrightarrow> cq_pop (queue (workers s) w) = (Some it, q) \<Longrightarrow>
    worker_step s (s \<lparr> workers := (workers s) \<lparr> queue := (queue (workers s))(w := q) \<rparr>,
      handled := (handled s)(w := handled s w @ [it]) \<rparr>)"
| idle: "w < init_count (workers s) \<Longrightarrow> busy s w \<Longrightarrow> cq_pop (queue (workers s) w) = (None, q) \<Longrightarrow>
    worker_step s (s \<lparr> busy := (busy s)(w := False) \<rparr>)"

inductive step :: "sys \<Rightarrow> sys \<Rightarrow> bool" where
  accept: "sending s = None \<Longrightarrow> w = nat (robin_of (workers s)) \<Longrightarrow> cq_fresh (queue (workers s) w) a \<Longrightarrow>
    step s (s \<lparr> workers := push_conn w a it (workers s), sending := Some w, accepted := accepted s @ [it] \<rparr>)"
| worker: "worker_step s s' \<Longrightarrow> step s s'"

inductive reachable :: "sys \<Rightarrow> bool" where
  init: "reachable sys_init"
| step: "reachable s \<Longrightarrow> step s s' \<Longrightarrow> reachable s'"

definition assigned :: "nat \<Rightarrow> cq_item list \<Rightarrow> cq_item list" where
  "assigned w xs = nths xs {i. i mod 5 = w}"

lemma assigned_snoc: "assigned w (xs @ [x]) = assigned w xs @ (if length xs mod 5 = w then [x] else [])"
  by (simp add: assigned_def nths_append)

definition sys_inv :: "sys \<Rightarrow> bool" where
  "sys_inv s \<longleftrightarrow>
     init_count (workers s) = 5 \<and>
     round_robin (workers s) = int (length (accepted s)) - (if sending s = None then 0 else 1) \<and>
     (\<forall>w. sending s = Some w \<longrightarrow> w < 5 \<and> accepted s \<noteq> []) \<and>
     (\<forall>w<5. \<exists>xs. cq_holds (queue (workers s) w) xs \<and> handled s w @ xs = assigned w (accepted s) \<and>
        (xs \<noteq> [] \<longrightarrow> notified (workers s) w \<or> busy s w \<or> sending s = Some w))"

lemma thread_init_simps [simp]:
  "init_count (thread_init p) = init_count p + 5" "round_robin (thread_init p) = round_robin p"
  "w < 5 \<Longrightarrow> queue (thread_init p) w = cq_init" "w < 5 \<Longrightarrow> \<not> notified (thread_init p) w"
  by (auto simp: thread_init_def worker_libev_def setup_thread_def numeral_eq_Suc less_Suc_eq Let_def)

lemma inv_init: "sys_inv sys_init"
  by (auto simp: sys_inv_def sys_init_def assigned_def intro: cqs.holds_void)

lemma robin_of_inv:
  assumes "sys_inv s" "sending s = None"
  shows "nat (robin_of (workers s)) = length (accepted s) mod 5" "0 \<le> robin_of (workers s)"
  using assms by (auto simp: sys_inv_def robin_of_def zmod_int [symmetric] nat_mod_distrib)

lemma inv_worker:
  assumes "sys_inv s" "w < 5"
  shows "\<exists>xs. cq_holds (queue (workers s) w) xs \<and> handled s w @ xs = assigned w (accepted s) \<and>
        (xs \<noteq> [] \<longrightarrow> notified (workers s) w \<or> busy s w \<or> sending s = Some w)"
  using assms unfolding sys_inv_def by blast

lemma inv_worker_step: "worker_step s s' \<Longrightarrow> sys_inv s \<Longrightarrow> sys_inv s'"
proof (induction rule: worker_step.induct)
  case (notify s w)
  then show ?case by (auto simp: sys_inv_def notify_worker_def)
next
  case (wake w s)
  then show ?case by (auto simp: sys_inv_def)
next
  case (pop w s it q)
  then have w: "w < 5" by (simp add: sys_inv_def)
  then obtain xs where xs: "cq_holds (queue (workers s) w) xs" "handled s w @ xs = assigned w (accepted s)"
    using inv_worker [OF pop.prems] by blast
  then obtain ys where "xs = it # ys" "cq_holds q ys"
    using pop.hyps(3) by (cases rule: cqs.deq_cases) auto
  with xs have "cq_holds q ys \<and> (handled s w @ [it]) @ ys = assigned w (accepted s)" by simp
  with pop show ?case by (auto simp: sys_inv_def)
next
  case (idle w s q)
  then have w: "w < 5" by (simp add: sys_inv_def)
  then obtain xs where xs: "cq_holds (queue (workers s) w) xs" "handled s w @ xs = assigned w (accepted s)"
    using inv_worker [OF idle.prems] by blast
  then have "xs = []" using idle.hyps(3) by (cases rule: cqs.deq_cases) auto
  with xs idle show ?case by (auto simp: sys_inv_def)
qed

lemma inv_step: "step s s' \<Longrightarrow> sys_inv s \<Longrightarrow> sys_inv s'"
proof (induction rule: step.induct)
  case (accept s w a it)
  then have w: "w = length (accepted s) mod 5" "w < 5" using robin_of_inv by simp_all
  from inv_worker [OF accept.prems w(2)]
  obtain xs where xs: "cq_holds (queue (workers s) w) xs" "handled s w @ xs = assigned w (accepted s)"
    by blast
  then have "cq_holds (cq_push (queue (workers s) w) a it) (xs @ [it])"
    using accept.hyps(3) by (intro cqs.holds_enq)
  moreover have "handled s w @ xs @ [it] = assigned w (accepted s @ [it])"
    using xs(2) w(1) by (simp add: assigned_snoc)
  moreover have "\<forall>v. v \<noteq> w \<longrightarrow> assigned v (accepted s @ [it]) = assigned v (accepted s)"
    using w(1) by (simp add: assigned_snoc)
  ultimately show ?case using accept.hyps(1) accept.prems w(2)
    by (auto simp: sys_inv_def push_conn_def)
qed (rule inv_worker_step)

lemma inv_reachable: "reachable s \<Longrightarrow> sys_inv s"
  by (induction rule: reachable.induct) (auto intro: inv_init inv_step)

subsection \<open>Every accepted connection is handled\<close>

definition load :: "sys \<Rightarrow> nat \<Rightarrow> nat" where
  "load s w = 2 * (length (assigned w (accepted s)) - length (handled s w)) +
     (if notified (workers s) w then 2 else 0) + (if busy s w then 1 else 0)"

definition work :: "sys \<Rightarrow> nat" where
  "work s = (\<Sum>w<5. load s w) + (if sending s = None then 0 else 3)"

lemma sum_less_at:
  fixes f g :: "nat \<Rightarrow> nat"
  assumes "v < n" "f v + k \<le> g v" "\<And>w. w \<noteq> v \<Longrightarrow> f w = g w"
  shows "(\<Sum>w<n. f w) + k \<le> (\<Sum>w<n. g w)"
proof -
  have "(\<Sum>w<n. h w) = h v + (\<Sum>w\<in>{..<n} - {v}. h w)" for h :: "nat \<Rightarrow> nat"
    using assms(1) by (intro sum.remove) auto
  moreover have "(\<Sum>w\<in>{..<n} - {v}. f w) = (\<Sum>w\<in>{..<n} - {v}. g w)"
    using assms(3) by (intro sum.cong) auto
  ultimately show ?thesis using assms(2) by simp
qed

text \<open>As long as a worker can move, some step takes work away.\<close>

lemma worker_progress:
  assumes "sys_inv s" "length (accepted s) < 2 ^ 31" "w < 5" "handled s w \<noteq> assigned w (accepted s)"
  shows "\<exists>s'. worker_step s s' \<and> accepted s' = accepted s \<and> work s' < work s"
proof -
  obtain xs where xs: "cq_holds (queue (workers s) w) xs" "handled s w @ xs = assigned w (accepted s)" "xs \<noteq> []"
      "notified (workers s) w \<or> busy s w \<or> sending s = Some w"
    using inv_worker [OF assms(1,3)] assms(4) by fastforce
  have n: "init_count (workers s) = 5" using assms(1) by (simp add: sys_inv_def)
  show ?thesis
  proof (cases "busy s w")
    case True
    obtain it ys q where q: "xs = it # ys" "cq_pop (queue (workers s) w) = (Some it, q)"
      using xs(1,3) by (cases rule: cqs.deq_cases) auto
    let ?s = "s \<lparr> workers := (workers s) \<lparr> queue := (queue (workers s))(w := q) \<rparr>,
      handled := (handled s)(w := handled s w @ [it]) \<rparr>"
    have "length (handled s w) < length (assigned w (accepted s))" using xs(2,3) by (metis length_append less_add_same_cancel1 length_greater_0_conv)
    then have "work ?s + 1 \<le> work s"
      using sum_less_at [of w 5 "load ?s" 1 "load s"] assms(3) by (simp add: work_def load_def)
    moreover have "worker_step s ?s" using True q assms(3) n by (intro worker_step.pop) simp_all
    ultimately show ?thesis by (intro exI [of _ ?s]) simp
  next
    case nb: False
    show ?thesis
    proof (cases "notified (workers s) w")
      case True
      let ?s = "s \<lparr> workers := (workers s) \<lparr> notified := (notified (workers s))(w := False) \<rparr>, busy := (busy s)(w := True) \<rparr>"
      have "work ?s + 1 \<le> work s"
        using sum_less_at [of w 5 "load ?s" 1 "load s"] assms(3) True nb by (simp add: work_def load_def)
      moreover have "worker_step s ?s" using True nb assms(3) n by (intro worker_step.wake) simp_all
      ultimately show ?thesis by (intro exI [of _ ?s]) simp
    next
      case False
      with nb xs(4) have m: "sending s = Some w" by simp
      let ?s = "s \<lparr> workers := notify_worker w (workers s), sending := None \<rparr>"
      have "(\<Sum>v<5. load s v) + 2 \<le> (\<Sum>v<5. load ?s v)"
        using False assms(3) by (intro sum_less_at) (simp_all add: load_def notify_worker_def)
      moreover have "(\<Sum>v<5. load ?s v) \<le> (\<Sum>v<5. load s v + (if v = w then 2 else 0))"
        by (intro sum_mono) (simp add: load_def notify_worker_def)
      ultimately have "work ?s + 1 \<le> work s"
        using m assms(3) by (simp add: work_def sum.distrib)
      moreover have "round_robin (workers s) < 2 ^ 31 - 1"
        using assms(1,2) m by (simp add: sys_inv_def)
      then have "worker_step s ?s" using m by (intro worker_step.notify)
      ultimately show ?thesis by (intro exI [of _ ?s]) simp
    qed
  qed
qed

lemma workers_finish:
  assumes "sys_inv s" "length (accepted s) < 2 ^ 31"
  shows "\<exists>s'. worker_step\<^sup>*\<^sup>* s s' \<and> accepted s' = accepted s \<and> (\<forall>w<5. handled s' w = assigned w (accepted s))"
  using assms
proof (induction "work s" arbitrary: s rule: less_induct)
  case less
  show ?case
  proof (cases "\<forall>w<5. handled s w = assigned w (accepted s)")
    case True
    then show ?thesis by blast
  next
    case False
    then obtain w where "w < 5" "handled s w \<noteq> assigned w (accepted s)" by blast
    with less.prems worker_progress obtain s1 where
      s1: "worker_step s s1" "accepted s1 = accepted s" "work s1 < work s" by blast
    with less.hyps [of s1] less.prems inv_worker_step show ?thesis
      by (metis converse_rtranclp_into_rtranclp)
  qed
qed

text \<open>
  C2: In every reachable interleaving of the dispatcher with the five workers each queue holds, in
  the order of arrival, exactly the connections that were assigned to its worker by the round robin
  and were not handled yet, none lost and none duplicated; and a non-empty queue has a worker that
  was notified, is draining, or is about to be notified.
\<close>

theorem connections_in_order:
  assumes "reachable s" "w < 5"
  shows "\<exists>xs. cq_holds (queue (workers s) w) xs \<and> handled s w @ xs = assigned w (accepted s) \<and>
     (xs \<noteq> [] \<longrightarrow> notified (workers s) w \<or> busy s w \<or> sending s = Some w)"
  using inv_worker [OF inv_reachable [OF assms(1)] assms(2)] .


text \<open>
  When accept fails with an error that cannot be retried, the callback dispatches a connection with
  the descriptor -1 to the next worker all the same and wakes it.
\<close>

lemma accept_error_dispatched:
  assumes "0 < init_count p" "0 \<le> round_robin p" "round_robin p < 2 ^ 31 - 1"
    and "cq_holds (queue p (nat (robin_of p))) xs" "cq_fresh (queue p (nat (robin_of p))) a"
  shows "\<exists>p' it. accept_callback2 (replicate n EAgain @ AcceptError # rs) stack a p = Val p' \<and> sfd it = -1 \<and>
     cq_holds (queue p' (nat (robin_of p))) (xs @ [it]) \<and> notified p' (nat (robin_of p))"
proof -
  have "accept_callback2 (replicate n EAgain @ AcceptError # rs) stack a p = dispath_conn (-1) (fst stack) (snd stack) a p"
    by (induction n) simp_all
  moreover have "0 \<le> robin_of p" using assms(1,2) by (simp add: robin_of_def)
  ultimately show ?thesis
    using assms cqs.holds_enq [OF assms(4,5)]
    by (simp add: dispath_conn_def Let_def push_conn_def notify_worker_def) (metis cq_item.select_convs(1))
qed

end
