(* ===== verification/JsonRpc.thy ===== *)
theory JsonRpc
  imports CJsonProps
begin

text \<open>
  \<open>src/jsonrpc-c.c\<close>, \<open>include/jsonrpc-c.h\<close>: the procedure table, the evaluation of a request
  and the read callback of a connection.

  A procedure is a function of its \<open>data\<close>, the \<open>params\<close> and \<open>id\<close> items and a world state \<open>'w\<close>
  (everything outside the process); its reply carries the returned item and the two error
  fields of \<open>jrpc_context\<close>. What is written to the socket is returned as a string; a \<open>write\<close>
  takes all bytes. The messages printed for a nonzero \<open>debug_level\<close> are left out.
\<close>

definition JRPC_PARSE_ERROR :: int where
  "JRPC_PARSE_ERROR = -32700"

definition JRPC_INVALID_REQUEST :: int where
  "JRPC_INVALID_REQUEST = -32600"

definition JRPC_METHOD_NOT_FOUND :: int where
  "JRPC_METHOD_NOT_FOUND = -32601"

definition JRPC_INVALID_PARAMS :: int where
  "JRPC_INVALID_PARAMS = -32603"

definition JRPC_INTERNAL_ERROR :: int where
  "JRPC_INTERNAL_ERROR = -32693"

record jrpc_reply =
  returned :: "cjson option"
  error_code :: int
  error_message :: "string option"

type_synonym 'w jrpc_function =
  "string option \<Rightarrow> cjson option \<Rightarrow> cjson option \<Rightarrow> 'w \<Rightarrow> (jrpc_reply \<times> 'w) outcome"

record 'w jrpc_procedure =
  pname :: string
  pfunction :: "'w jrpc_function"
  pdata :: "string option"

text \<open>\<open>procedures\<close> is a null pointer exactly when the table is empty.\<close>

record 'w jrpc_server =
  port_number :: int
  procedures :: "'w jrpc_procedure list"

definition procedure_count :: "'w jrpc_server \<Rightarrow> nat" where
  "procedure_count srv = length (procedures srv)"

subsection \<open>The procedure table\<close>

definition jrpc_register_procedure ::
  "'w jrpc_server \<Rightarrow> 'w jrpc_function \<Rightarrow> string \<Rightarrow> string option \<Rightarrow> int \<times> 'w jrpc_server" where
  "jrpc_register_procedure srv f nm d =
     (0, srv \<lparr> procedures := procedures srv @ [\<lparr> pname = nm, pfunction = f, pdata = d \<rparr>] \<rparr>)"

text \<open>The loop that closes the gap: the first entry with the name goes, the later ones move down.\<close>

fun close_gap :: "string \<Rightarrow> bool \<Rightarrow> 'w jrpc_procedure list \<Rightarrow> bool \<times> 'w jrpc_procedure list" where
  "close_gap nm found [] = (found, [])"
| "close_gap nm found (p # ps) =
     (if found then (case close_gap nm found ps of (f, qs) \<Rightarrow> (f, p # qs))
      else if nm = pname p then close_gap nm True ps
      else (case close_gap nm found ps of (f, qs) \<Rightarrow> (f, p # qs)))"

definition jrpc_deregister_procedure :: "'w jrpc_server \<Rightarrow> string \<Rightarrow> int \<times> 'w jrpc_server" where
  "jrpc_deregister_procedure srv nm =
     (if procedures srv = [] then (-1, srv)
      else (case close_gap nm False (procedures srv) of (found, ps) \<Rightarrow>
              (0, if found then srv \<lparr> procedures := ps \<rparr> else srv)))"

text \<open>The pointers \<open>jrpc_procedure_destroy\<close> hands to \<open>free\<close>: the copied name, and the data as given.\<close>

datatype freed = FreedName string | FreedData string

definition jrpc_procedure_destroy :: "'w jrpc_procedure \<Rightarrow> freed list" where
  "jrpc_procedure_destroy p =
     FreedName (pname p) # (case pdata p of None \<Rightarrow> [] | Some d \<Rightarrow> [FreedData d])"

definition jrpc_server_destroy :: "'w jrpc_server \<Rightarrow> freed list" where
  "jrpc_server_destroy srv = concat (map jrpc_procedure_destroy (procedures srv))"

text \<open>The search of \<open>invoke_procedure\<close>, from the last entry down.\<close>

definition find_procedure :: "'w jrpc_server \<Rightarrow> string \<Rightarrow> 'w jrpc_procedure option" where
  "find_procedure srv nm = find (\<lambda>p. pname p = nm) (rev (procedures srv))"

subsection \<open>Responses\<close>

definition send_response :: "string \<Rightarrow> string" where
  "send_response response = response @ [LF]"

text \<open>\<open>cJSON_AddNumberToObject\<close> and \<open>cJSON_AddStringToObject\<close> (a null string is copied with \<open>strlen\<close>).\<close>

definition add_number :: "cjson \<Rightarrow> string \<Rightarrow> int \<Rightarrow> cjson outcome" where
  "add_number obj nm n =
     obind (cJSON_CreateNumber (dbl_of_int n)) (\<lambda>j. Val (cJSON_AddItemToObject obj nm (Some j)))"

definition add_string :: "cjson \<Rightarrow> string \<Rightarrow> string option \<Rightarrow> cjson outcome" where
  "add_string obj nm s =
     (case s of None \<Rightarrow> Undef NullDeref
      | Some s \<Rightarrow> Val (cJSON_AddItemToObject obj nm (Some (cJSON_CreateString s))))"

definition error_object :: "int \<Rightarrow> string option \<Rightarrow> cjson option \<Rightarrow> cjson outcome" where
  "error_object code message rid =
     obind (add_number cJSON_CreateObject ''code'' code) (\<lambda>e.
     obind (add_string e ''message'' message) (\<lambda>e. Val
       (cJSON_AddItemToObject (cJSON_AddItemToObject cJSON_CreateObject ''error'' (Some e)) ''id'' rid)))"

definition send_error :: "int \<Rightarrow> string option \<Rightarrow> cjson option \<Rightarrow> string outcome" where
  "send_error code message rid =
     obind (error_object code message rid) (\<lambda>r. Val (send_response (cJSON_Print r)))"

definition result_object :: "cjson option \<Rightarrow> cjson option \<Rightarrow> cjson" where
  "result_object result rid =
     cJSON_AddItemToObject (cJSON_AddItemToObject cJSON_CreateObject ''result'' result) ''id'' rid"

definition send_result :: "cjson option \<Rightarrow> cjson option \<Rightarrow> string" where
  "send_result result rid = send_response (cJSON_Print (result_object result rid))"

definition invoke_procedure ::
  "'w jrpc_server \<Rightarrow> string \<Rightarrow> cjson option \<Rightarrow> cjson option \<Rightarrow> 'w \<Rightarrow> (string \<times> 'w) outcome" where
  "invoke_procedure srv nm params rid w =
     (case find_procedure srv nm of
        None \<Rightarrow> obind (send_error JRPC_METHOD_NOT_FOUND (Some ''Method not found.'') rid) (\<lambda>s. Val (s, w))
      | Some p \<Rightarrow> obind (pfunction p (pdata p) params rid w) (\<lambda>(r, w').
          if error_code r \<noteq> 0
          then obind (send_error (error_code r) (error_message r) rid) (\<lambda>s. Val (s, w'))
          else Val (send_result (returned r) rid, w')))"

subsection \<open>Requests\<close>

definition invalid_request_message :: string where
  "invalid_request_message = ''The JSON sent is not a valid Request object.''"

definition params_ok :: "cjson option \<Rightarrow> bool" where
  "params_ok params = (case params of None \<Rightarrow> True | Some p \<Rightarrow> ctype p = CJ_Array \<or> ctype p = CJ_Object)"

definition id_ok :: "cjson option \<Rightarrow> bool" where
  "id_ok rid = (case rid of None \<Rightarrow> True | Some i \<Rightarrow> ctype i = CJ_String \<or> ctype i = CJ_Number)"

definition copy_id :: "cjson option \<Rightarrow> cjson option outcome" where
  "copy_id rid =
     (case rid of None \<Rightarrow> Val None
      | Some i \<Rightarrow>
          if ctype i = CJ_String
          then (case valuestring i of None \<Rightarrow> Undef NullDeref | Some s \<Rightarrow> Val (Some (cJSON_CreateString s)))
          else obind (cJSON_CreateNumber (dbl_of_int (valueint i))) (\<lambda>n. Val (Some n)))"

text \<open>The result is the value returned (0 or -1), what was sent, and the world.\<close>

definition eval_request :: "'w jrpc_server \<Rightarrow> cjson \<Rightarrow> 'w \<Rightarrow> (int \<times> string \<times> 'w) outcome" where
  "eval_request srv req w =
     (let invalid = obind (send_error JRPC_INVALID_REQUEST (Some invalid_request_message) None) (\<lambda>s. Val (-1, s, w))
      in case cJSON_GetObjectItem req ''method'' of
           None \<Rightarrow> invalid
         | Some m \<Rightarrow>
             if ctype m \<noteq> CJ_String then invalid
             else if \<not> params_ok (cJSON_GetObjectItem req ''params'') then invalid
             else if \<not> id_ok (cJSON_GetObjectItem req ''id'') then invalid
             else obind (copy_id (cJSON_GetObjectItem req ''id'')) (\<lambda>rid.
                  case valuestring m of
                    None \<Rightarrow> Undef NullDeref
                  | Some nm \<Rightarrow>
                      obind (invoke_procedure srv nm (cJSON_GetObjectItem req ''params'') rid w)
                        (\<lambda>(s, w'). Val (0, s, w'))))"

subsection \<open>Connections\<close>

text \<open>\<open>buffer_size\<close> is the length of \<open>buffer\<close>.\<close>

record jrpc_connection =
  cfd :: int
  pos :: nat
  buffer :: mem

definition buffer_size :: "jrpc_connection \<Rightarrow> nat" where
  "buffer_size c = length (buffer c)"

text \<open>The part of \<open>async_cb\<close> that sets up a connection.\<close>

definition new_connection :: "int \<Rightarrow> jrpc_connection" where
  "new_connection f = \<lparr> cfd = f, pos = 0, buffer = replicate 1500 NUL \<rparr>"

datatype read_result = ReadError | ReadEof | ReadData string

datatype conn_state = Open jrpc_connection | Closed

definition grow :: "jrpc_connection \<Rightarrow> jrpc_connection outcome" where
  "grow c =
     (if pos c = buffer_size c - 1
      then (if 2 ^ 31 \<le> 2 * buffer_size c then Undef IntOverflow
            else Val (c \<lparr> buffer := take (pos c) (buffer c) @ replicate (2 * buffer_size c - pos c) NUL \<rparr>))
      else Val c)"

definition max_read_size :: "jrpc_connection \<Rightarrow> nat" where
  "max_read_size c = buffer_size c - pos c - 1"

definition store_read :: "string \<Rightarrow> jrpc_connection \<Rightarrow> jrpc_connection" where
  "store_read bs c =
     c \<lparr> buffer := take (pos c) (buffer c) @ bs @ drop (pos c + length bs) (buffer c),
         pos := pos c + length bs \<rparr>"

text \<open>
  \<open>memmove(buffer, end_ptr, strlen(end_ptr) + 2)\<close>, the second \<open>strlen(end_ptr)\<close>, which reads the
  moved bytes when the two regions overlap, and the \<open>memset\<close>; \<open>e\<close> is \<open>end_ptr - buffer\<close>.
\<close>

definition shift_buffer :: "nat \<Rightarrow> jrpc_connection \<Rightarrow> jrpc_connection outcome" where
  "shift_buffer e c =
     (let b = buffer c; n = strlen (drop e b) + 2
      in if NUL \<notin> set (drop e b) \<or> length (drop e b) < n then Undef OutOfBounds
         else let b1 = take n (drop e b) @ drop n b; p = strlen (drop e b1)
              in Val (c \<lparr> pos := p,
                          buffer := take p b1 @ replicate (length b - p - 1) NUL @ [last b1] \<rparr>))"

definition parse_error_message :: string where
  "parse_error_message = ''Parse error. Invalid JSON was received by the server.''"

definition connection_cb ::
  "(dbl \<Rightarrow> dbl) \<Rightarrow> 'w jrpc_server \<Rightarrow> read_result \<Rightarrow> jrpc_connection \<Rightarrow> 'w \<Rightarrow> (conn_state \<times> string \<times> 'w) outcome" where
  "connection_cb pw srv r c w =
     obind (grow c) (\<lambda>c.
     case r of
       ReadError \<Rightarrow> Val (Closed, [], w)
     | ReadEof \<Rightarrow> Val (Closed, [], w)
     | ReadData bs \<Rightarrow>
         let c = store_read bs c
         in case cJSON_Parse_Stream pw (buffer c) of
              Ok req m \<Rightarrow>
                obind (if ctype req = CJ_Object then eval_request srv req w else Val (0, [], w)) (\<lambda>(_, s, w').
                obind (shift_buffer (buffer_size c - length m) c) (\<lambda>c. Val (Open c, s, w')))
            | Fail m \<Rightarrow>
                if buffer_size c - length m \<noteq> pos c
                then obind (send_error JRPC_PARSE_ERROR (Some parse_error_message) None) (\<lambda>s. Val (Closed, s, w))
                else Val (Open c, [], w)
            | Crash u \<Rightarrow> Undef u
            | NoFuel \<Rightarrow> Undef OutOfBounds)"

subsection \<open>Starting the server\<close>

text \<open>One address of the list \<open>getaddrinfo\<close> returns, with the results of the calls made on it.\<close>

record address =
  socket_ok :: bool
  setsockopt_ok :: bool
  bind_ok :: bool
  bound_port :: "int option"

datatype start_result = Listening int | Return int | Exit int

fun try_addresses :: "address list \<Rightarrow> (int + int option)" where
  "try_addresses [] = Inr None"
| "try_addresses (p # ps) =
     (if \<not> socket_ok p then try_addresses ps
      else if \<not> setsockopt_ok p then Inl 1
      else if \<not> bind_ok p then try_addresses ps
      else case bound_port p of None \<Rightarrow> try_addresses ps | Some n \<Rightarrow> Inr (Some n))"

definition jrpc_server_start :: "address list option \<Rightarrow> bool \<Rightarrow> start_result" where
  "jrpc_server_start servinfo listen_ok =
     (case servinfo of None \<Rightarrow> Return 1
      | Some ps \<Rightarrow>
          (case try_addresses ps of
             Inl code \<Rightarrow> Exit code
           | Inr None \<Rightarrow> Return 2
           | Inr (Some n) \<Rightarrow> if listen_ok then Listening n else Exit 1))"

definition jrpc_server_init :: "int \<Rightarrow> 'w jrpc_server" where
  "jrpc_server_init n = \<lparr> port_number = n, procedures = [] \<rparr>"

end
