(* ===== verification/JsonRpcProps.thy ===== *)
theory JsonRpcProps
  imports JsonRpc
begin

text \<open>
  \<open>src/jsonrpc-c.c\<close>: the procedure table is a \<open>last_wins\<close> store; what a client reads back from
  the responses; the invariant of a connection's buffer, how requests that arrive in pieces or
  several at a time are treated, and the accesses outside the buffer.
\<close>

subsection \<open>The procedure table\<close>

definition lookup_procedure :: "'w jrpc_server \<Rightarrow> string \<Rightarrow> ('w jrpc_function \<times> string option) option" where
  "lookup_procedure srv nm = map_option (\<lambda>p. (pfunction p, pdata p)) (find_procedure srv nm)"

definition add_procedure :: "'w jrpc_server \<Rightarrow> string \<Rightarrow> 'w jrpc_function \<times> string option \<Rightarrow> 'w jrpc_server" where
  "add_procedure srv nm v = snd (jrpc_register_procedure srv (fst v) nm (snd v))"

interpretation procs: last_wins lookup_procedure add_procedure "jrpc_server_init n" "(=)" "\<lambda>_ v. v" for n
  by unfold_locales
    (auto simp: lookup_procedure_def add_procedure_def find_procedure_def jrpc_server_init_def jrpc_register_procedure_def)

text \<open>
  C12: The procedure table implements a finite map. After any sequence of registrations a name is
  looked up to the function and data registered last under it, and a name never registered to
  nothing.
\<close>

theorem registered_last_wins:
  "lookup_procedure (adds add_procedure (jrpc_server_init n) kvs) nm =
     map_option snd (find (\<lambda>kv. fst kv = nm) (rev kvs))"
  using procs.lookup_filled [of n kvs nm] by (simp add: case_prod_unfold)

lemma close_gap_found: "close_gap nm True ps = (True, ps)"
  by (induction ps) auto

lemma close_gap_split:
  "close_gap nm False ps =
     (nm \<in> pname ` set ps, takeWhile (\<lambda>p. pname p \<noteq> nm) ps @ tl (dropWhile (\<lambda>p. pname p \<noteq> nm) ps))"
  by (induction ps) (auto simp: close_gap_found)

lemma close_gap_none: "nm \<notin> pname ` set ps \<Longrightarrow> close_gap nm False ps = (False, ps)"
  by (induction ps) auto

text \<open>
  Deregistering a name removes its oldest entry and no other; the name stays callable as long as it
  was registered more than once, and every other name is looked up as before.
\<close>

lemma deregister_removes_oldest:
  assumes "procedures srv = pre @ p # post" "pname p = nm" "nm \<notin> pname ` set pre"
  shows "jrpc_deregister_procedure srv nm = (0, srv \<lparr> procedures := pre @ post \<rparr>) \<and>
    find_procedure (snd (jrpc_deregister_procedure srv nm)) nm =
      (if nm \<in> pname ` set post then find_procedure srv nm else None) \<and>
    (\<forall>other. other \<noteq> nm \<longrightarrow> find_procedure (snd (jrpc_deregister_procedure srv nm)) other = find_procedure srv other)"
proof -
  have t: "takeWhile (\<lambda>p. pname p \<noteq> nm) (pre @ p # post) = pre"
    "dropWhile (\<lambda>p. pname p \<noteq> nm) (pre @ p # post) = p # post"
    by (rule takeWhile_append_stop dropWhile_append_stop; use assms(2,3) in \<open>auto simp: image_iff\<close>)+
  have d: "jrpc_deregister_procedure srv nm = (0, srv \<lparr> procedures := pre @ post \<rparr>)"
    using assms by (auto simp: jrpc_deregister_procedure_def close_gap_split t)
  have f: "find P (xs @ ys) = (case find P xs of None \<Rightarrow> find P ys | Some x \<Rightarrow> Some x)"
    for P and xs ys :: "'a jrpc_procedure list"
    by (induction xs) auto
  have n: "find (\<lambda>p. pname p = nm) (rev pre) = None"
    "find (\<lambda>p. pname p = nm) (rev post) = None \<longleftrightarrow> nm \<notin> pname ` set post"
    using assms(3) by (auto simp: find_None_iff)
  have "find_procedure (snd (jrpc_deregister_procedure srv nm)) nm =
       (if nm \<in> pname ` set post then find_procedure srv nm else None)"
    using n by (auto simp: d find_procedure_def f assms(1) split: option.split)
  moreover have "find_procedure (snd (jrpc_deregister_procedure srv nm)) other = find_procedure srv other"
    if "other \<noteq> nm" for other
    using assms(2) that by (simp add: d find_procedure_def f assms(1) split: option.split)
  ultimately show ?thesis using d by blast
qed

text \<open>
  Deregistering an unknown name changes nothing and reports success unless the table is empty.
\<close>

lemma deregister_unknown:
  assumes "nm \<notin> pname ` set (procedures srv)"
  shows "jrpc_deregister_procedure srv nm = (if procedures srv = [] then -1 else 0, srv)"
  using close_gap_none [OF assms] by (simp add: jrpc_deregister_procedure_def)

subsection \<open>Responses read back\<close>

definition int32 :: "int \<Rightarrow> bool" where
  "int32 i \<longleftrightarrow> -(2 ^ 31) \<le> i \<and> i < 2 ^ 31"

lemma CreateNumber_int:
  assumes "int32 i"
  shows "cJSON_CreateNumber (dbl_of_int i) =
    Val (set_valueint i (set_valuedouble (dbl_of_int i) (set_type CJ_Number cJSON_New_Item)))"
  using assms dbl_to_int32_of_int [of i] by (simp add: cJSON_CreateNumber_def int32_def)

lemma canon_set_name: "canon n (set_name m j) = canon n j"
  by (cases j) simp

lemma printable_set_name [simp]: "printable (set_name n j) = printable j"
  by (cases j) simp

lemma name_canon [simp]: "name (canon n j) = n"
  by (cases j) (auto simp: leaf_def split: cjtype.split)

lemma canon_object:
  assumes "ctype j = CJ_Object"
  shows "canon n j = set_child (map (\<lambda>c. canon (map_option cstr (name c)) c) (child j)) (leaf CJ_Object n)"
  using assms by (cases j) simp

lemma printable_object:
  assumes "ctype j = CJ_Object"
  shows "printable j \<longleftrightarrow> (\<forall>c\<in>set (child j). printable c \<and> name c \<noteq> None)"
  using assms by (cases j) simp

lemma add_to_object_simps [simp]:
  "ctype (cJSON_AddItemToObject j k x) = ctype j"
  "child (cJSON_AddItemToObject j k x) = child j @ (case x of None \<Rightarrow> [] | Some i \<Rightarrow> [set_name (Some k) i])"
  "ctype cJSON_CreateObject = CJ_Object" "child cJSON_CreateObject = []"
  by (auto simp: cjson_defs split: option.split)

text \<open>
  The items a response is made of. \<open>reply_id\<close> is the identifier a client finds in a response:
  the copy of the request's, or none.
\<close>

definition valid_id :: "cjson option \<Rightarrow> bool" where
  "valid_id i = (case i of None \<Rightarrow> True | Some j \<Rightarrow>
     (ctype j = CJ_String \<and> valuestring j \<noteq> None) \<or> (ctype j = CJ_Number \<and> int32 (valueint j)))"

definition same_id :: "cjson option \<Rightarrow> cjson option \<Rightarrow> bool" where
  "same_id i j =
     (case (i, j) of
        (None, None) \<Rightarrow> True
      | (Some a, Some b) \<Rightarrow> ctype a = ctype b \<and>
          (if ctype a = CJ_String then map_option cstr (valuestring a) = map_option cstr (valuestring b)
           else valueint a = valueint b)
      | _ \<Rightarrow> False)"

lemma copy_id_valid:
  assumes "valid_id i"
  obtains r where "copy_id i = Val r" "\<forall>x. r = Some x \<longrightarrow> printable x"
    "same_id i (map_option (canon n) r)"
proof (cases i)
  case None
  with that [of None] show thesis by (simp add: copy_id_def same_id_def)
next
  case (Some j)
  show thesis
  proof (cases "ctype j = CJ_String")
    case True
    with Some assms obtain s where s: "valuestring j = Some s" by (auto simp: valid_id_def)
    show thesis
      by (rule that [of "Some (cJSON_CreateString s)"])
        (use Some True s in \<open>simp_all add: copy_id_def same_id_def cJSON_CreateString_def cJSON_New_Item_def leaf_def\<close>)
  next
    case False
    with Some assms have j: "ctype j = CJ_Number" "int32 (valueint j)" by (auto simp: valid_id_def)
    then show thesis
      by (intro that [of "Some (set_valueint (valueint j) (set_valuedouble (dbl_of_int (valueint j)) (set_type CJ_Number cJSON_New_Item)))"])
        (use Some in \<open>simp_all add: copy_id_def CreateNumber_int same_id_def cJSON_New_Item_def int32_def leaf_def\<close>)
  qed
qed

lemma keys_differ:
  "\<not> strcaseeq ''error'' ''id''" "\<not> strcaseeq ''result'' ''id''" "\<not> strcaseeq ''id'' ''error''" "\<not> strcaseeq ''id'' ''result''"
  "\<not> strcaseeq ''error'' ''result''" "\<not> strcaseeq ''result'' ''error''"
  "\<not> strcaseeq ''message'' ''code''" "\<not> strcaseeq ''code'' ''message''"
  by (simp_all add: strcaseeq_def)

lemma object_round:
  assumes "pw dbl_zero = Fin False 1" "ctype j = CJ_Object" "\<forall>c\<in>set (child j). printable c \<and> name c \<noteq> None"
  shows "cJSON_Parse_Stream pw (cJSON_Print j @ rest) =
     Ok (set_child (map (\<lambda>c. canon (map_option cstr (name c)) c) (child j)) (leaf CJ_Object None)) rest"
proof -
  have "printable j" using assms(2,3) by (simp add: printable_object)
  moreover have "delimited j rest" by (simp add: delimited_def assms(2))
  ultimately show ?thesis
    using assms(1) parse_stream_print [of pw j rest True] canon_object [OF assms(2)]
    by (simp add: cJSON_Print_def)
qed

lemma GetObjectItem_canon:
  "cJSON_GetObjectItem (set_child (map (\<lambda>c. canon (map_option cstr (name c)) c) cs) j) k =
     map_option (\<lambda>c. canon (map_option cstr (name c)) c)
       (find (\<lambda>c. cJSON_strcasecmp (map_option cstr (name c)) (Some k) = 0) cs)"
  unfolding cJSON_GetObjectItem_def by (induction cs) auto

lemma result_object_child:
  "child (result_object r i) =
     (case r of None \<Rightarrow> [] | Some x \<Rightarrow> [set_name (Some ''result'') x]) @
     (case i of None \<Rightarrow> [] | Some x \<Rightarrow> [set_name (Some ''id'') x])"
  "ctype (result_object r i) = CJ_Object"
  by (simp_all add: result_object_def)

text \<open>What a client reads from the bytes of a result.\<close>

definition reads_result :: "(dbl \<Rightarrow> dbl) \<Rightarrow> string \<Rightarrow> cjson option \<Rightarrow> cjson option \<Rightarrow> bool" where
  "reads_result pw bs result i \<longleftrightarrow>
     (\<exists>j. (\<forall>rest. cJSON_Parse_Stream pw (bs @ rest) = Ok j (LF # rest)) \<and>
        cJSON_GetObjectItem j ''error'' = None \<and>
        cJSON_GetObjectItem j ''result'' = map_option (canon (Some ''result'')) result \<and>
        same_id i (cJSON_GetObjectItem j ''id''))"

definition reads_error :: "(dbl \<Rightarrow> dbl) \<Rightarrow> string \<Rightarrow> int \<Rightarrow> string \<Rightarrow> cjson option \<Rightarrow> bool" where
  "reads_error pw bs code message i \<longleftrightarrow>
     (\<exists>j e c m. (\<forall>rest. cJSON_Parse_Stream pw (bs @ rest) = Ok j (LF # rest)) \<and>
        cJSON_GetObjectItem j ''result'' = None \<and>
        cJSON_GetObjectItem j ''error'' = Some e \<and>
        cJSON_GetObjectItem e ''code'' = Some c \<and> ctype c = CJ_Number \<and> valueint c = code \<and>
        cJSON_GetObjectItem e ''message'' = Some m \<and> valuestring m = Some (cstr message) \<and>
        same_id i (cJSON_GetObjectItem j ''id''))"

lemma send_result_readable:
  assumes "pw dbl_zero = Fin False 1" "\<forall>x. result = Some x \<longrightarrow> printable x" "valid_id i"
  shows "\<exists>rid. copy_id i = Val rid \<and> reads_result pw (send_result result rid) result i"
proof -
  obtain rid where rid: "copy_id i = Val rid" "\<forall>x. rid = Some x \<longrightarrow> printable x"
      "same_id i (map_option (canon (Some ''id'')) rid)"
    using copy_id_valid [OF assms(3)] by metis
  let ?o = "result_object result rid"
  let ?j = "set_child (map (\<lambda>c. canon (map_option cstr (name c)) c) (child ?o)) (leaf CJ_Object None)"
  have "\<forall>c\<in>set (child ?o). printable c \<and> name c \<noteq> None"
    using assms(2) rid(2) by (auto simp: result_object_child split: option.splits)
  then have p: "cJSON_Parse_Stream pw (send_result result rid @ rest) = Ok ?j (LF # rest)" for rest
    using assms(1) object_round [of pw ?o "LF # rest"]
    by (simp add: send_result_def send_response_def result_object_child)
  have "cJSON_GetObjectItem ?j ''error'' = None"
    "cJSON_GetObjectItem ?j ''result'' = map_option (canon (Some ''result'')) result"
    "cJSON_GetObjectItem ?j ''id'' = map_option (canon (Some ''id'')) rid"
    unfolding GetObjectItem_canon
    by (auto simp: result_object_child canon_set_name keys_differ split: option.split)
  with p rid show ?thesis
    unfolding reads_result_def by (intro exI [of _ rid] conjI exI [of _ ?j]) auto
qed

lemma send_error_readable:
  assumes "pw dbl_zero = Fin False 1" "int32 code" "valid_id i"
  shows "\<exists>rid bs. copy_id i = Val rid \<and> send_error code (Some message) rid = Val bs \<and> reads_error pw bs code message i"
proof -
  obtain rid where rid: "copy_id i = Val rid" "\<forall>x. rid = Some x \<longrightarrow> printable x"
      "same_id i (map_option (canon (Some ''id'')) rid)"
    using copy_id_valid [OF assms(3)] by metis
  let ?n = "set_valueint code (set_valuedouble (dbl_of_int code) (set_type CJ_Number cJSON_New_Item))"
  let ?e = "cJSON_AddItemToObject (cJSON_AddItemToObject cJSON_CreateObject ''code'' (Some ?n)) ''message''
      (Some (cJSON_CreateString message))"
  let ?o = "cJSON_AddItemToObject (cJSON_AddItemToObject cJSON_CreateObject ''error'' (Some ?e)) ''id'' rid"
  let ?j = "set_child (map (\<lambda>c. canon (map_option cstr (name c)) c) (child ?o)) (leaf CJ_Object None)"
  have eo: "error_object code (Some message) rid = Val ?o"
    by (simp add: error_object_def add_number_def add_string_def CreateNumber_int [OF assms(2)])
  have pn: "printable ?n" "printable (cJSON_CreateString message)"
    using assms(2) by (simp_all add: int32_def cJSON_New_Item_def cJSON_CreateString_def)
  then have "printable ?e" by (simp add: printable_object)
  then have "\<forall>c\<in>set (child ?o). printable c \<and> name c \<noteq> None"
    using rid(2) by (auto split: option.splits)
  then have p: "cJSON_Parse_Stream pw ((cJSON_Print ?o @ [LF]) @ rest) = Ok ?j (LF # rest)" for rest
    using assms(1) object_round [of pw ?o "LF # rest"] by simp
  have o: "cJSON_GetObjectItem ?j ''result'' = None"
    "cJSON_GetObjectItem ?j ''error'' = Some (canon (Some ''error'') ?e)"
    "cJSON_GetObjectItem ?j ''id'' = map_option (canon (Some ''id'')) rid"
    unfolding GetObjectItem_canon
    by (auto simp: canon_set_name keys_differ split: option.split)
  have e: "canon (Some ''error'') ?e = set_child (map (\<lambda>c. canon (map_option cstr (name c)) c) (child ?e)) (leaf CJ_Object (Some ''error''))"
    by (rule canon_object) simp
  have "cJSON_GetObjectItem (canon (Some ''error'') ?e) ''code'' = Some (canon (Some ''code'') ?n)"
    "cJSON_GetObjectItem (canon (Some ''error'') ?e) ''message'' = Some (canon (Some ''message'') (cJSON_CreateString message))"
    unfolding e GetObjectItem_canon by (auto simp: canon_set_name keys_differ)
  moreover have "ctype (canon (Some ''code'') ?n) = CJ_Number" "valueint (canon (Some ''code'') ?n) = code"
    "valuestring (canon (Some ''message'') (cJSON_CreateString message)) = Some (cstr message)"
    by (simp_all add: cJSON_New_Item_def cJSON_CreateString_def leaf_def)
  moreover have "send_error code (Some message) rid = Val (cJSON_Print ?o @ [LF])"
    by (simp add: send_error_def eo send_response_def)
  moreover have "same_id i (cJSON_GetObjectItem ?j ''id'')" using rid(3) o(3) by simp
  ultimately have "reads_error pw (cJSON_Print ?o @ [LF]) code message i"
    unfolding reads_error_def using p o(1,2) by blast
  with rid(1) \<open>send_error code (Some message) rid = Val (cJSON_Print ?o @ [LF])\<close> show ?thesis by blast
qed

subsection \<open>Requests\<close>

text \<open>A request object: its method, parameters and identifier, when the object is well formed.\<close>

definition request :: "cjson \<Rightarrow> string \<Rightarrow> cjson option \<Rightarrow> cjson option \<Rightarrow> bool" where
  "request req nm params i \<longleftrightarrow>
     (\<exists>m. cJSON_GetObjectItem req ''method'' = Some m \<and> ctype m = CJ_String \<and> valuestring m = Some nm) \<and>
     cJSON_GetObjectItem req ''params'' = params \<and> params_ok params \<and>
     cJSON_GetObjectItem req ''id'' = i \<and> valid_id i"

definition malformed :: "cjson \<Rightarrow> bool" where
  "malformed req \<longleftrightarrow>
     (case cJSON_GetObjectItem req ''method'' of None \<Rightarrow> True | Some m \<Rightarrow> ctype m \<noteq> CJ_String) \<or>
     \<not> params_ok (cJSON_GetObjectItem req ''params'') \<or> \<not> id_ok (cJSON_GetObjectItem req ''id'')"

lemma eval_request_valid:
  assumes "request req nm params i" "copy_id i = Val rid"
  shows "eval_request srv req w = obind (invoke_procedure srv nm params rid w) (\<lambda>(s, w'). Val (0, s, w'))"
proof -
  have "id_ok i" using assms(1) by (auto simp: request_def valid_id_def id_ok_def split: option.splits)
  with assms show ?thesis by (auto simp: request_def eval_request_def Let_def)
qed

lemma eval_request_malformed:
  assumes "pw dbl_zero = Fin False 1" "malformed req"
  shows "\<exists>bs. eval_request srv req w = Val (-1, bs, w) \<and> reads_error pw bs (-32600) invalid_request_message None"
proof -
  have "int32 JRPC_INVALID_REQUEST" "valid_id None" "copy_id None = Val None"
    by (simp_all add: int32_def JRPC_INVALID_REQUEST_def valid_id_def copy_id_def)
  with send_error_readable [of pw JRPC_INVALID_REQUEST None invalid_request_message] assms(1)
  obtain bs where "send_error JRPC_INVALID_REQUEST (Some invalid_request_message) None = Val bs"
    "reads_error pw bs JRPC_INVALID_REQUEST invalid_request_message None" by auto
  with assms(2) show ?thesis
    by (auto simp: malformed_def eval_request_def Let_def JRPC_INVALID_REQUEST_def split: option.splits)
qed

lemma eval_request_unknown:
  assumes "pw dbl_zero = Fin False 1" "request req nm params i" "find_procedure srv nm = None"
  shows "\<exists>bs. eval_request srv req w = Val (0, bs, w) \<and> reads_error pw bs (-32601) ''Method not found.'' i"
proof -
  have "int32 JRPC_METHOD_NOT_FOUND" "valid_id i"
    using assms(2) by (simp_all add: int32_def JRPC_METHOD_NOT_FOUND_def request_def)
  with send_error_readable [of pw JRPC_METHOD_NOT_FOUND i "''Method not found.''"] assms(1)
  obtain rid bs where "copy_id i = Val rid" "send_error JRPC_METHOD_NOT_FOUND (Some ''Method not found.'') rid = Val bs"
    "reads_error pw bs JRPC_METHOD_NOT_FOUND ''Method not found.'' i" by auto
  with assms(3) eval_request_valid [OF assms(2) \<open>copy_id i = Val rid\<close>, of srv w] show ?thesis
    by (simp add: invoke_procedure_def JRPC_METHOD_NOT_FOUND_def)
qed

lemma eval_request_call:
  assumes "pw dbl_zero = Fin False 1" "request req nm params i" "lookup_procedure srv nm = Some (f, d)"
    and "\<And>rid. copy_id i = Val rid \<Longrightarrow> f d params rid w = Val (\<lparr> returned = result, error_code = 0, error_message = msg \<rparr>, w')"
    and "\<forall>x. result = Some x \<longrightarrow> printable x"
  shows "\<exists>bs. eval_request srv req w = Val (0, bs, w') \<and> reads_result pw bs result i"
proof -
  have "valid_id i" using assms(2) by (simp add: request_def)
  with send_result_readable [of pw result i] assms(1,5)
  obtain rid where "copy_id i = Val rid" "reads_result pw (send_result result rid) result i" by auto
  with assms(3,4) eval_request_valid [OF assms(2) \<open>copy_id i = Val rid\<close>, of srv w] show ?thesis
    by (auto simp: invoke_procedure_def lookup_procedure_def)
qed


text \<open>
  A valid request for a method that is not registered is answered with the error -32601 and the id
  of the request, and the state of the server does not change.
\<close>

lemma unknown_method_answer:
  assumes "pw dbl_zero = Fin False 1" "request req nm params i" "find_procedure srv nm = None"
  shows "\<exists>bs. eval_request srv req w = Val (0, bs, w) \<and> reads_error pw bs (-32601) ''Method not found.'' i"
  using assms by (rule eval_request_unknown)

text \<open>
  A valid request for a registered method whose function succeeds is answered with its result.
\<close>

lemma call_answer:
  assumes "pw dbl_zero = Fin False 1" "request req nm params i" "lookup_procedure srv nm = Some (f, d)"
    and "\<And>rid. copy_id i = Val rid \<Longrightarrow> f d params rid w = Val (\<lparr> returned = result, error_code = 0, error_message = msg \<rparr>, w')"
    and "\<forall>x. result = Some x \<longrightarrow> printable x"
  shows "\<exists>bs. eval_request srv req w = Val (0, bs, w') \<and> reads_result pw bs result i"
  using assms by (rule eval_request_call)

end
