(* ===== verification/Connection.thy ===== *)
theory Connection
  imports JsonRpcProps
begin

text \<open>
  \<open>src/jsonrpc-c.c\<close>, \<open>connection_cb\<close>: the buffer of a connection. \<open>conn_ok\<close> is its invariant: behind
  \<open>pos\<close> there are only NULs, and at least one. The lemmas show how a request that arrives in
  pieces is put together, what is left in the buffer after a request, and when that differs from
  what the client sent.
\<close>

definition conn_ok :: "jrpc_connection \<Rightarrow> bool" where
  "conn_ok c \<longleftrightarrow> pos c < buffer_size c \<and> 1500 \<le> buffer_size c \<and>
     drop (pos c) (buffer c) = replicate (buffer_size c - pos c) NUL"

lemma conn_ok_new: "conn_ok (new_connection f)"
  by (simp add: conn_ok_def new_connection_def buffer_size_def)

lemma conn_ok_buffer: "conn_ok c \<Longrightarrow> buffer c = take (pos c) (buffer c) @ replicate (buffer_size c - pos c) NUL"
  by (metis append_take_drop_id conn_ok_def)

lemma grow_ok:
  assumes "conn_ok c" "grow c = Val c'"
  shows "conn_ok c'" "pos c' = pos c" "take (pos c) (buffer c') = take (pos c) (buffer c)" "0 < max_read_size c'"
    "buffer_size c \<le> buffer_size c'"
proof -
  have l: "length (buffer c) = buffer_size c" by (simp add: buffer_size_def)
  consider "pos c = buffer_size c - 1" "c' = c \<lparr> buffer := take (pos c) (buffer c) @ replicate (2 * buffer_size c - pos c) NUL \<rparr>"
    | "pos c \<noteq> buffer_size c - 1" "c' = c"
    using assms(2) by (auto simp: grow_def split: if_splits)
  then have "conn_ok c' \<and> pos c' = pos c \<and> take (pos c) (buffer c') = take (pos c) (buffer c) \<and> 0 < max_read_size c'
    \<and> buffer_size c \<le> buffer_size c'"
  proof cases
    case 1
    have h: "pos c < length (buffer c)" "1500 \<le> length (buffer c)"
      using assms(1) by (simp_all add: conn_ok_def buffer_size_def)
    define xs where "xs = take (pos c) (buffer c)"
    from h 1(1) have "length (buffer c) = Suc (pos c)" "length xs = pos c"
      by (simp_all add: buffer_size_def xs_def)
    with h(2) 1(2) show ?thesis
      by (simp add: conn_ok_def max_read_size_def buffer_size_def flip: xs_def)
  next
    case 2
    with assms(1) show ?thesis by (auto simp: conn_ok_def max_read_size_def)
  qed
  then show "conn_ok c'" "pos c' = pos c" "take (pos c) (buffer c') = take (pos c) (buffer c)" "0 < max_read_size c'"
    "buffer_size c \<le> buffer_size c'"
    by auto
qed

lemma store_read_ok:
  assumes "conn_ok c" "length bs \<le> max_read_size c"
  shows "conn_ok (store_read bs c)" "buffer_size (store_read bs c) = buffer_size c"
    "buffer (store_read bs c) =
       take (pos c) (buffer c) @ bs @ replicate (buffer_size c - (pos c + length bs)) NUL"
proof -
  have l: "pos c + length bs < buffer_size c" using assms by (auto simp: conn_ok_def max_read_size_def)
  have "drop (pos c + length bs) (buffer c) = drop (length bs) (replicate (buffer_size c - pos c) NUL)"
    using assms(1) by (metis conn_ok_def drop_drop add.commute)
  then have d: "drop (pos c + length bs) (buffer c) = replicate (buffer_size c - (pos c + length bs)) NUL" by simp
  then show b: "buffer (store_read bs c) =
       take (pos c) (buffer c) @ bs @ replicate (buffer_size c - (pos c + length bs)) NUL"
    by (simp add: store_read_def)
  show s: "buffer_size (store_read bs c) = buffer_size c"
    using l by (simp add: buffer_size_def b)
  have "pos (store_read bs c) = pos c + length bs" by (simp add: store_read_def)
  moreover have "min (length (buffer c)) (pos c) = pos c" using l by (simp add: buffer_size_def)
  ultimately show "conn_ok (store_read bs c)"
    using l assms(1) unfolding conn_ok_def s by (simp add: b)
qed

lemma store_read_twice: "pos c + length xs \<le> length (buffer c) \<Longrightarrow>
   store_read ys (store_read xs c) = store_read (xs @ ys) c"
  by (simp add: store_read_def ac_simps)

subsection \<open>Shifting the buffer\<close>

lemma strlen_replicate [simp]: "0 < n \<Longrightarrow> strlen (s @ replicate n NUL) = strlen s"
  by (cases n) (auto simp: strlen_def cstr_def takeWhile_append intro!: arg_cong [of _ _ length] takeWhile_eq_all_conv [THEN iffD2, symmetric])

lemma strlen_cstring [simp]: "is_cstring s \<Longrightarrow> strlen s = length s"
  by (simp add: strlen_def)

lemma strlen_append_NUL: "is_cstring s \<Longrightarrow> strlen (s @ NUL # t) = length s"
  by (simp add: strlen_def)

text \<open>
  \<open>rest\<close> is what follows the request in the buffer. The second \<open>strlen\<close> reads the moved bytes:
  unless the request is at least two bytes longer than \<open>rest\<close>, the count is short by the length of
  the request.
\<close>

definition kept :: "nat \<Rightarrow> nat \<Rightarrow> nat" where
  "kept e l = (if l + 2 \<le> e then l else l - e)"

lemma shift_buffer_rest:
  assumes b: "buffer c = req @ rest @ replicate k NUL" and "is_cstring rest" "2 \<le> k"
  shows "shift_buffer (length req) c =
    Val (c \<lparr> pos := kept (length req) (length rest),
             buffer := take (kept (length req) (length rest)) rest @
               replicate (buffer_size c - kept (length req) (length rest)) NUL \<rparr>)"
proof -
  let ?e = "length req" and ?l = "length rest"
  obtain k' where k: "k = Suc (Suc k')" using assms(3) by (metis add_2_eq_Suc le_Suc_ex)
  have d: "drop ?e (buffer c) = rest @ NUL # NUL # replicate k' NUL" by (simp add: b k)
  have n: "strlen (drop ?e (buffer c)) = ?l" using assms(2) by (simp add: d strlen_append_NUL)
  define b1 where "b1 = take (?l + 2) (drop ?e (buffer c)) @ drop (?l + 2) (buffer c)"
  have b1: "b1 = rest @ NUL # NUL # drop (?l + 2) (buffer c)" by (simp add: b1_def d)
  have len: "length b1 = buffer_size c" by (simp add: b1_def buffer_size_def b k)
  have p: "strlen (drop ?e b1) = kept ?e ?l"
  proof (cases "?l + 2 \<le> ?e")
    case True
    have "b1 = (rest @ [NUL, NUL]) @ drop (?l + 2) (buffer c)" by (simp add: b1)
    with True have "drop ?e b1 = drop (?e - (?l + 2)) (drop (?l + 2) (buffer c))"
      by (simp only: drop_append) simp
    also have "\<dots> = drop ?e (buffer c)" using True by (simp only: drop_drop le_add_diff_inverse2)
    finally have "drop ?e b1 = drop ?e (buffer c)" .
    with True n show ?thesis by (simp add: kept_def)
  next
    case False
    show ?thesis
    proof (cases "?e \<le> ?l")
      case True
      then have "drop ?e b1 = drop ?e rest @ NUL # NUL # drop (?l + 2) (buffer c)" by (simp add: b1)
      moreover have "is_cstring (drop ?e rest)" using assms(2) by (auto simp: is_cstring_def dest: in_set_dropD)
      ultimately show ?thesis using True by (simp add: kept_def strlen_append_NUL)
    next
      case f: False
      with False have "?e = ?l + 1" by simp
      then have "drop ?e b1 = NUL # drop (?l + 2) (buffer c)" by (simp add: b1)
      moreover have "kept ?e ?l = 0" using \<open>?e = ?l + 1\<close> by (simp add: kept_def)
      ultimately show ?thesis using strlen_append_NUL [of "[]"] by simp
    qed
  qed
  have le: "kept ?e ?l \<le> ?l" by (simp add: kept_def)
  have "last b1 = NUL"
  proof (cases "drop (?l + 2) (buffer c) = []")
    case True
    then show ?thesis by (simp add: b1)
  next
    case False
    then have "last b1 = last (buffer c)" by (simp add: b1)
    also have "\<dots> = NUL" by (simp add: b k)
    finally show ?thesis .
  qed
  moreover have "replicate (buffer_size c - kept ?e ?l - 1) NUL @ [NUL] = replicate (buffer_size c - kept ?e ?l) NUL"
  proof -
    have "0 < buffer_size c - kept ?e ?l" using le by (simp add: buffer_size_def b k)
    then show ?thesis by (metis Suc_diff_1 replicate_Suc replicate_append_same)
  qed
  moreover have "take (kept ?e ?l) b1 = take (kept ?e ?l) rest" using le by (simp add: b1)
  moreover have "NUL \<in> set (drop ?e (buffer c))" "?l + 2 \<le> length (drop ?e (buffer c))" by (simp_all add: d)
  ultimately show ?thesis
    using p by (simp add: shift_buffer_def Let_def n b1_def buffer_size_def not_less)
qed

lemma shift_buffer_full:
  assumes "buffer c = req @ rest @ [NUL]" "is_cstring rest"
  shows "shift_buffer (length req) c = Undef OutOfBounds"
  using assms strlen_append_NUL [of rest "[]"] by (simp add: shift_buffer_def Let_def)

lemma strlen_less: "NUL \<in> set m \<Longrightarrow> strlen m < length m"
  by (induction m) (auto simp: strlen_def cstr_def)

lemma shift_buffer_ok:
  assumes "conn_ok c" "shift_buffer e c = Val c'"
  shows "conn_ok c'" "buffer_size c' = buffer_size c"
proof -
  let ?b = "buffer c"
  define n where "n = strlen (drop e ?b) + 2"
  define b1 where "b1 = take n (drop e ?b) @ drop n ?b"
  define p where "p = strlen (drop e b1)"
  from assms(2) have c: "NUL \<in> set (drop e ?b)" "n \<le> length (drop e ?b)"
      "c' = c \<lparr> pos := p, buffer := take p b1 @ replicate (length ?b - p - 1) NUL @ [last b1] \<rparr>"
    by (simp_all add: shift_buffer_def Let_def n_def b1_def p_def not_less split: if_splits)
  have ne: "?b \<noteq> []" using c(1) by auto
  have "last ?b = NUL"
  proof -
    have "pos c < length ?b" and d: "drop (pos c) ?b = replicate (length ?b - pos c) NUL"
      using assms(1) by (simp_all add: conn_ok_def buffer_size_def)
    have "last ?b = last (drop (pos c) ?b)"
      using \<open>pos c < length ?b\<close> by (rule last_drop [symmetric])
    also have "\<dots> = NUL" unfolding d using \<open>pos c < length ?b\<close> by simp
    finally show ?thesis .
  qed
  have len: "length b1 = length ?b" using c(2) by (simp add: b1_def)
  have last: "last b1 = NUL"
  proof (cases "n < length ?b")
    case True
    with \<open>last ?b = NUL\<close> show ?thesis by (simp add: b1_def last_drop)
  next
    case False
    moreover have "0 < length ?b" using ne by simp
    moreover have "n \<le> length ?b - e" using c(2) by simp
    ultimately have "e = 0" "n = length ?b" by linarith+
    with \<open>last ?b = NUL\<close> show ?thesis by (simp add: b1_def)
  qed
  have e: "e < length b1" using c(1) len by (metis drop_all empty_iff empty_set not_le)
  then have "NUL \<in> set (drop e b1)" using last by (metis last_drop last_in_set drop_eq_Nil not_le)
  then have p: "p < length ?b" using strlen_less [of "drop e b1"] len by (simp add: p_def)
  then have t: "length (take p b1) = p" using len by simp
  show s: "buffer_size c' = buffer_size c" using p t c(3) by (simp add: buffer_size_def)
  have r: "replicate (length ?b - Suc p) NUL @ [NUL] = replicate (length ?b - p) NUL"
  proof -
    obtain q where "length ?b = Suc (p + q)" using p less_imp_Suc_add by blast
    then show ?thesis by (simp add: replicate_append_same)
  qed
  show "conn_ok c'"
    using assms(1) p t unfolding conn_ok_def s by (simp add: c(3) last r buffer_size_def del: length_take)
qed

subsection \<open>One call of the read callback\<close>

lemma connection_cb_data:
  assumes "conn_ok c" "grow c = Val c0"
  shows "connection_cb pw srv (ReadData bs) c w =
    (let c = store_read bs c0
     in case cJSON_Parse_Stream pw (buffer c) of
          Ok req m \<Rightarrow>
            obind (if ctype req = CJ_Object then eval_request srv req w else Val (0, [], w)) (\<lambda>(_, s, w').
            obind (shift_buffer (buffer_size c - length m) c) (\<lambda>c. Val (Open c, s, w')))
        | Fail m \<Rightarrow>
            if buffer_size c - length m \<noteq> pos c
            then obind (send_error JRPC_PARSE_ERROR (Some parse_error_message) None) (\<lambda>s. Val (Closed, s, w))
            else Val (Open c, [], w)
        | Crash u \<Rightarrow> Undef u
        | NoFuel \<Rightarrow> Undef OutOfBounds)"
  using assms(2) by (simp add: connection_cb_def)

lemma callback_keeps_ok:
  assumes "conn_ok c" "connection_cb pw srv (ReadData bs) c w = Val (Open c', s, w')"
    "\<And>c0. grow c = Val c0 \<Longrightarrow> length bs \<le> max_read_size c0"
  shows "conn_ok c' \<and> buffer_size c \<le> buffer_size c'"
proof -
  obtain c0 where g: "grow c = Val c0" using assms(2) by (auto simp: connection_cb_def obind_eq_Val)
  note c0 = grow_ok [OF assms(1) g]
  note c1 = store_read_ok [OF c0(1) assms(3) [OF g]]
  from assms(2) show ?thesis
    unfolding connection_cb_data [OF assms(1) g] Let_def
    using c0 c1 shift_buffer_ok [OF c1(1)]
    by (auto simp: obind_eq_Val split: parsed.splits if_splits)
qed

text \<open>The text in the buffer after the read is \<open>req @ rest\<close>, and the parser stops behind \<open>req\<close>.\<close>

definition arrives :: "(dbl \<Rightarrow> dbl) \<Rightarrow> jrpc_connection \<Rightarrow> string \<Rightarrow> cjson \<Rightarrow> string \<Rightarrow> string \<Rightarrow> bool" where
  "arrives pw c bs j req rest \<longleftrightarrow>
     pos c < buffer_size c - 1 \<and> take (pos c) (buffer c) @ bs = req @ rest \<and> is_cstring rest \<and>
     pos c + length bs < buffer_size c \<and>
     (\<forall>k. 0 < k \<longrightarrow> cJSON_Parse_Stream pw (req @ rest @ replicate k NUL) = Ok j (rest @ replicate k NUL))"

lemma arrives_buffer:
  assumes "conn_ok c" "arrives pw c bs j req rest"
  shows "grow c = Val c"
    "buffer (store_read bs c) = req @ rest @ replicate (buffer_size c - (length req + length rest)) NUL"
    "cJSON_Parse_Stream pw (buffer (store_read bs c)) =
       Ok j (rest @ replicate (buffer_size c - (length req + length rest)) NUL)"
    "buffer_size (store_read bs c) - length (rest @ replicate (buffer_size c - (length req + length rest)) NUL) = length req"
    "length req + length rest < buffer_size c"
proof -
  show "grow c = Val c" using assms(2) by (auto simp: arrives_def grow_def)
  have m: "length bs \<le> max_read_size c" using assms(2) by (auto simp: arrives_def max_read_size_def)
  have t: "take (pos c) (buffer c) @ bs = req @ rest" using assms(2) by (simp add: arrives_def)
  have "length (take (pos c) (buffer c)) = pos c" using assms(1) by (simp add: conn_ok_def buffer_size_def)
  then have l: "pos c + length bs = length req + length rest" using arg_cong [OF t, of length] by simp
  have "pos c + length bs < buffer_size c" using assms(2) by (simp add: arrives_def)
  then show lt: "length req + length rest < buffer_size c" using l by simp
  show b: "buffer (store_read bs c) = req @ rest @ replicate (buffer_size c - (length req + length rest)) NUL"
    using store_read_ok(3) [OF assms(1) m] t l by (metis append.assoc)
  show "cJSON_Parse_Stream pw (buffer (store_read bs c)) =
       Ok j (rest @ replicate (buffer_size c - (length req + length rest)) NUL)"
    using assms(2) lt by (simp add: arrives_def b)
  show "buffer_size (store_read bs c) - length (rest @ replicate (buffer_size c - (length req + length rest)) NUL) = length req"
    using lt by (simp add: buffer_size_def b)
qed

lemma callback_request:
  assumes "conn_ok c" "arrives pw c bs j req rest" "ctype j = CJ_Object"
    and "length req + length rest + 2 \<le> buffer_size c" "eval_request srv j w = Val (v, s, w')"
  shows "connection_cb pw srv (ReadData bs) c w =
    Val (Open (c \<lparr> pos := kept (length req) (length rest),
        buffer := take (kept (length req) (length rest)) rest @
          replicate (buffer_size c - kept (length req) (length rest)) NUL \<rparr>), s, w')"
proof -
  note a = arrives_buffer [OF assms(1,2)]
  have "is_cstring rest" using assms(2) by (simp add: arrives_def)
  moreover have "2 \<le> buffer_size c - (length req + length rest)" using assms(4) by simp
  ultimately have "shift_buffer (length req) (store_read bs c) =
    Val (store_read bs c \<lparr> pos := kept (length req) (length rest),
             buffer := take (kept (length req) (length rest)) rest @
               replicate (buffer_size (store_read bs c) - kept (length req) (length rest)) NUL \<rparr>)"
    by (intro shift_buffer_rest [OF a(2)])
  moreover have "buffer_size (store_read bs c) = buffer_size c"
    using assms(4) by (simp add: buffer_size_def a(2))
  moreover have e: "buffer_size c - (length rest + (buffer_size c - (length req + length rest))) = length req"
    using assms(4) by simp
  ultimately show ?thesis
    using assms(3,5) unfolding connection_cb_data [OF assms(1) a(1)] Let_def a(3)
    by (simp add: e) (simp add: store_read_def)
qed

text \<open>
  C6: The connection invariant. A read that leaves the connection open keeps the buffer well formed,
  the write position inside it and every byte from there on zero, and the buffer never shrinks.
\<close>

theorem callback_invariant:
  assumes "conn_ok c" "connection_cb pw srv (ReadData bs) c w = Val (Open c', s, w')"
    "\<And>c0. grow c = Val c0 \<Longrightarrow> length bs \<le> max_read_size c0"
  shows "conn_ok c' \<and> buffer_size c \<le> buffer_size c'"
  using assms by (rule callback_keeps_ok)


text \<open>
  A second request sent before the first is answered is lost in part. When more bytes follow a
  request than the request has, the callback keeps only as many of them as they exceed the length of
  the request by.
\<close>

lemma pipelined_request_truncated:
  assumes "conn_ok c" "arrives pw c bs j req rest" "ctype j = CJ_Object" "length req < length rest + 2"
    and "length req + length rest + 2 \<le> buffer_size c" "eval_request srv j w = Val (v, s, w')"
  shows "\<exists>c'. connection_cb pw srv (ReadData bs) c w = Val (Open c', s, w') \<and>
    pos c' = length rest - length req \<and>
    buffer c' = take (length rest - length req) rest @ replicate (buffer_size c - (length rest - length req)) NUL"
  using callback_request [OF assms(1-3,5,6)] assms(4) by (simp add: kept_def)

text \<open>
  When a request and what follows it fill the buffer to its last byte but one, moving the rest to
  the front accesses one byte past the end of the buffer.
\<close>

lemma full_buffer_overrun:
  assumes "conn_ok c" "arrives pw c bs j req rest" "ctype j = CJ_Object"
    and "length req + length rest + 1 = buffer_size c" "eval_request srv j w = Val (v, s, w')"
  shows "connection_cb pw srv (ReadData bs) c w = Undef OutOfBounds"
proof -
  note a = arrives_buffer [OF assms(1,2)]
  have one: "buffer_size c - (length req + length rest) = 1" using assms(4) by simp
  have "is_cstring rest" using assms(2) by (simp add: arrives_def)
  then have "shift_buffer (length req) (store_read bs c) = Undef OutOfBounds"
    using a(2) by (intro shift_buffer_full [of _ req rest]) (simp_all add: one)
  with assms(3,5) show ?thesis
    unfolding connection_cb_data [OF assms(1) a(1)] Let_def a(3)
    by (simp only: parsed.case a(4)) simp
qed



subsection \<open>From request to response\<close>

lemma arrives_printed:
  assumes "pw dbl_zero = Fin False 1" "printable j" "ctype j = CJ_Object"
    and "length (print_value 0 fmt j) < 1498"
  shows "arrives pw (new_connection f) (print_value 0 fmt j @ [LF]) (canon None j) (print_value 0 fmt j) [LF]"
proof -
  have "cJSON_Parse_Stream pw (print_value 0 fmt j @ [LF] @ replicate k NUL) = Ok (canon None j) ([LF] @ replicate k NUL)" for k
    using assms parse_stream_print [of pw j "[LF] @ replicate k NUL" fmt] by (simp add: delimited_def)
  with assms(4) show ?thesis
    by (simp add: arrives_def new_connection_def buffer_size_def)
qed

lemma object_text_length: "ctype j = CJ_Object \<Longrightarrow> child j \<noteq> [] \<Longrightarrow> 3 \<le> length (print_value 0 fmt j)"
  by (cases j; cases "child j") (auto simp: object_text_def)

lemma ctype_canon [simp]: "ctype (canon n j) = ctype j"
  by (cases j) (auto simp: leaf_def split: cjtype.split)


end
