(* ===== verification/Server.thy ===== *)
theory Server
  imports JsonRpcProps
begin

text \<open>
  \<open>src/server.c\<close>: the table of built-in commands, the handlers of the methods, and the methods
  \<open>main\<close> registers.

  \<open>world\<close> is what the handlers reach outside: the files of \<open>/proc\<close>, the output of a command run
  by \<open>popen\<close> (which may depend on the commands \<open>system\<close> ran before, \<open>history\<close>), and the built-in
  commands, \<open>builtin name argc argv\<close> being the bytes written to the pipe and whether the command
  closed the descriptor. \<open>locked\<close> are the mutexes held; a handler that finds its mutex taken
  blocks, so the model runs one handler at a time.
\<close>

record world =
  proc_file :: "string \<Rightarrow> string option"
  popen_output :: "string list \<Rightarrow> string \<Rightarrow> string option"
  builtin :: "string \<Rightarrow> nat \<Rightarrow> string list \<Rightarrow> string \<times> bool"
  pipe_capacity :: nat
  pipe_ok :: bool
  history :: "string list"
  locked :: "string set"

definition PROC_BUFF :: nat where
  "PROC_BUFF = 8192"

definition CMD_BUFF :: nat where
  "CMD_BUFF = 16384"

definition MAX_CMD_ARGV :: nat where
  "MAX_CMD_ARGV = 32"

definition endstring :: string where
  "endstring = ''lepdendstring''"

datatype cmd_type =
  CMD_TYPE_NONE | CMD_TYPE_SYS | CMD_TYPE_PROC | CMD_TYPE_BUILTIN | CMD_TYPE_PERF | CMD_TYPE_MAX

record builtin_func_info =
  bname :: string
  btype :: cmd_type
  block :: string
  bfunc :: "string option"

definition builtin_entry :: "string \<Rightarrow> string \<Rightarrow> builtin_func_info" where
  "builtin_entry n l = \<lparr> bname = n, btype = CMD_TYPE_BUILTIN, block = l, bfunc = Some n \<rparr>"

definition lookup_table :: "builtin_func_info list" where
  "lookup_table =
     [\<lparr> bname = ''sys'', btype = CMD_TYPE_SYS, block = ''sys'', bfunc = None \<rparr>,
      \<lparr> bname = ''proc'', btype = CMD_TYPE_PROC, block = ''proc'', bfunc = None \<rparr>,
      \<lparr> bname = ''perf'', btype = CMD_TYPE_PERF, block = ''perf'', bfunc = None \<rparr>,
      builtin_entry ''ps'' ''ps'', builtin_entry ''cpuinfo'' ''sysstat'', builtin_entry ''iostat'' ''sysstat'',
      builtin_entry ''mpstat'' ''sysstat'', builtin_entry ''free'' ''busybox'', builtin_entry ''top'' ''busybox'',
      builtin_entry ''procrank'' ''procrank'', builtin_entry ''iotop'' ''iotop'', builtin_entry ''df'' ''busybox'',
      builtin_entry ''dmesg'' ''busybox'', builtin_entry ''cgtop'' ''sysstat'', builtin_entry ''irq_info'' ''sysstat'']"

definition lookup_func :: "string \<Rightarrow> builtin_func_info option" where
  "lookup_func nm = find (\<lambda>p. nm = bname p) lookup_table"

definition lock_info :: "string \<Rightarrow> world \<Rightarrow> world outcome" where
  "lock_info l w = (if l \<in> locked w then Undef Blocks else Val (w \<lparr> locked := insert l (locked w) \<rparr>))"

definition unlock_info :: "string \<Rightarrow> world \<Rightarrow> world" where
  "unlock_info l w = w \<lparr> locked := locked w - {l} \<rparr>"

definition no_error :: "cjson option \<Rightarrow> jrpc_reply" where
  "no_error j = \<lparr> returned = j, error_code = 0, error_message = None \<rparr>"

text \<open>
  A buffer of \<open>sz\<close> bytes, cleared, filled with the first \<open>limit\<close> bytes read, then \<open>strcat\<close> of
  \<open>endstring\<close>.
\<close>

definition append_endstring :: "nat \<Rightarrow> nat \<Rightarrow> string \<Rightarrow> string outcome" where
  "append_endstring sz limit bs =
     (let buff = take limit bs @ replicate (sz - length (take limit bs)) NUL
      in if NUL \<notin> set buff \<or> sz < strlen buff + length endstring + 1 then Undef OutOfBounds
         else Val (cstr buff @ endstring))"

definition say_hello :: "world jrpc_function" where
  "say_hello d params i w = Val (no_error (Some (cJSON_CreateString ''Hello!lepdendstring'')), w)"

definition read_proc :: "world jrpc_function" where
  "read_proc d params i w =
     (case d of
        None \<Rightarrow> Val (no_error None, w)
      | Some dat \<Rightarrow>
          let path = take 49 (''/proc/'' @ dat)
          in obind (lock_info ''proc'' w) (\<lambda>w.
             case proc_file w path of
               None \<Rightarrow> Val (no_error None, unlock_info ''proc'' w)
             | Some contents \<Rightarrow>
                 obind (append_endstring PROC_BUFF PROC_BUFF contents) (\<lambda>s.
                   Val (no_error (Some (cJSON_CreateString s)), unlock_info ''proc'' w))))"

text \<open>
  The command runs to its end before the pipe is read: more output than the pipe holds, or none
  at all while both ends are open, blocks for ever.
\<close>

definition run_in_pipe :: "string \<Rightarrow> string list \<Rightarrow> world \<Rightarrow> string outcome" where
  "run_in_pipe f argv w =
     (case builtin w f (length argv) argv of
        (out, eof) \<Rightarrow>
          if pipe_capacity w < length out then Undef Blocks
          else if out = [] \<and> \<not> eof then Undef Blocks
          else append_endstring CMD_BUFF (CMD_BUFF - length endstring - 1) out)"

definition run_builtin_cmd :: "world jrpc_function" where
  "run_builtin_cmd d params i w =
     (case d of
        None \<Rightarrow> Val (no_error None, w)
      | Some dat \<Rightarrow>
          let argv = strtok_all (CHR '' '') [] dat
          in if argv = [] then Undef NullDeref
             else if MAX_CMD_ARGV \<le> length argv then Undef OutOfBounds
             else (case lookup_func (hd argv) of
                     None \<Rightarrow> Undef NullDeref
                   | Some info \<Rightarrow>
                       (case bfunc info of
                          None \<Rightarrow> Val (no_error None, w)
                        | Some f \<Rightarrow>
                            obind (lock_info (block info) w) (\<lambda>w.
                            if \<not> pipe_ok w then Val (no_error None, unlock_info (block info) w)
                            else obind (run_in_pipe f argv w) (\<lambda>s.
                              Val (no_error (Some (cJSON_CreateString s)), unlock_info (block info) w))))))"

definition run_cmd :: "world jrpc_function" where
  "run_cmd d params i w =
     (case d of
        None \<Rightarrow> Val (no_error None, w)
      | Some cmd \<Rightarrow>
          (case popen_output w (history w) cmd of
             None \<Rightarrow> Val (no_error None, w)
           | Some out \<Rightarrow>
               obind (lock_info ''sys'' w) (\<lambda>w.
               obind (append_endstring CMD_BUFF (CMD_BUFF - length endstring - 1) out) (\<lambda>s.
                 Val (no_error (Some (cJSON_CreateString s)), unlock_info ''sys'' w)))))"

definition system_cmd :: "string \<Rightarrow> world \<Rightarrow> world" where
  "system_cmd cmd w = w \<lparr> history := history w @ [cmd] \<rparr>"

text \<open>The common text of \<open>run_perf_report_cmd\<close> and \<open>run_perf_script_cmd\<close>, up to the second command.\<close>

definition run_perf :: "string \<Rightarrow> world jrpc_function" where
  "run_perf view d params i w =
     (case d of
        None \<Rightarrow> Val (no_error None, w)
      | Some cmd \<Rightarrow>
          obind (lock_info ''perf'' w) (\<lambda>w.
          let w = system_cmd cmd w
          in case popen_output w (history w) view of
               None \<Rightarrow> Val (no_error None, unlock_info ''perf'' w)
             | Some out \<Rightarrow>
                 obind (append_endstring CMD_BUFF (CMD_BUFF - length endstring - 1) out) (\<lambda>s.
                   Val (no_error (Some (cJSON_CreateString s)), unlock_info ''perf'' w))))"

definition run_perf_report_cmd :: "world jrpc_function" where
  "run_perf_report_cmd = run_perf ''perf report''"

definition run_perf_script_cmd :: "world jrpc_function" where
  "run_perf_script_cmd = run_perf ''perf script''"

text \<open>\<open>list_all\<close> concatenates the names of \<open>my_server\<close>; only \<open>PROC_BUFF\<close> bytes are cleared, the first is enough.\<close>

definition list_all_methods :: "string list \<Rightarrow> world jrpc_function" where
  "list_all_methods names d params i w =
     (let s = concat (map (\<lambda>n. n @ '' '') names) @ endstring
      in if CMD_BUFF < length s + 1 then Undef OutOfBounds
         else Val (no_error (Some (cJSON_CreateString s)), w))"

subsection \<open>main\<close>

datatype handler = SayHello | ListAll | ReadProc | RunBuiltin | RunPerfReport | RunPerfScript

definition proc_methods :: "(handler \<times> string \<times> string option) list" where
  "proc_methods =
     [(SayHello, ''SayHello'', None), (ListAll, ''ListAllMethod'', None),
      (ReadProc, ''GetProcMeminfo'', Some ''meminfo''), (ReadProc, ''GetProcLoadavg'', Some ''loadavg''),
      (ReadProc, ''GetProcVmstat'', Some ''vmstat''), (ReadProc, ''GetProcZoneinfo'', Some ''zoneinfo''),
      (ReadProc, ''GetProcBuddyinfo'', Some ''buddyinfo''), (ReadProc, ''GetProcCpuinfo'', Some ''cpuinfo''),
      (ReadProc, ''GetProcSlabinfo'', Some ''slabinfo''), (ReadProc, ''GetProcSwaps'', Some ''swaps''),
      (ReadProc, ''GetProcInterrupts'', Some ''interrupts''), (ReadProc, ''GetProcSoftirqs'', Some ''softirqs''),
      (ReadProc, ''GetProcDiskstats'', Some ''diskstats''), (ReadProc, ''GetProcVersion'', Some ''version''),
      (ReadProc, ''GetProcStat'', Some ''stat''), (ReadProc, ''GetProcModules'', Some ''modules''),
      (ReadProc, ''GetProcVmallocinfo'', Some ''vmallocinfo'')]"

definition cmd_methods :: "(handler \<times> string \<times> string option) list" where
  "cmd_methods =
     [(RunBuiltin, ''GetCmdIotop'', Some ''iotop''), (RunBuiltin, ''GetCmdFree'', Some ''free''),
      (RunBuiltin, ''GetCmdProcrank'', Some ''procrank''), (RunBuiltin, ''GetCmdIostat'', Some ''iostat -d -x -k''),
      (RunBuiltin, ''GetCmdTop'', Some ''ps -e -o pid,user,pri,ni,vsize,rss,s,%cpu,%mem,time,cmd --sort=-%cpu ''),
      (RunBuiltin, ''GetCmdDmesg'', Some ''dmesg''), (RunBuiltin, ''GetCmdDf'', Some ''df -h''),
      (RunBuiltin, ''GetCpuInfo'', Some ''cpuinfo''), (RunBuiltin, ''GetCmdMpstat'', Some ''mpstat -P ALL 1 1''),
      (RunBuiltin, ''GetCmdMpstat-I'', Some ''mpstat -I ALL 1 1''), (RunBuiltin, ''GetCmdIrqInfo'', Some ''irq_info''),
      (RunBuiltin, ''GetCmdCgtop'', Some ''cgtop''),
      (RunPerfReport, ''GetCmdPerfFaults'', Some ''perf record -a -e faults sleep 1''),
      (RunPerfReport, ''GetCmdPerfCpuclock'', Some ''perf record -a -e cpu-clock sleep 1''),
      (RunPerfScript, ''GetCmdPerfFlame'', Some ''perf record -F 99 -a -g -- sleep 1'')]"

definition main_methods :: "(handler \<times> string \<times> string option) list" where
  "main_methods = proc_methods @ cmd_methods"

definition handler_function :: "string list \<Rightarrow> handler \<Rightarrow> world jrpc_function" where
  "handler_function names h =
     (case h of SayHello \<Rightarrow> say_hello | ListAll \<Rightarrow> list_all_methods names | ReadProc \<Rightarrow> read_proc
      | RunBuiltin \<Rightarrow> run_builtin_cmd | RunPerfReport \<Rightarrow> run_perf_report_cmd | RunPerfScript \<Rightarrow> run_perf_script_cmd)"

definition method_names :: "string list" where
  "method_names = map (\<lambda>(_, n, _). n) main_methods"

definition main_bindings :: "(string \<times> (world jrpc_function \<times> string option)) list" where
  "main_bindings = map (\<lambda>(h, n, d). (n, handler_function method_names h, d)) main_methods"

definition PORT :: int where
  "PORT = 12307"

definition my_server :: "world jrpc_server" where
  "my_server = adds add_procedure (jrpc_server_init PORT) main_bindings"

subsection \<open>The methods\<close>

lemma endstring_length [simp]: "length endstring = 13" "is_cstring endstring"
  by (simp_all add: endstring_def)

lemma append_endstring_fits:
  assumes "limit + 14 \<le> sz"
  shows "append_endstring sz limit bs = Val (cstr (take limit bs) @ endstring)"
proof -
  let ?z = "sz - length (take limit bs)"
  have "0 < ?z" using assms by simp
  then have c: "cstr (take limit bs @ replicate ?z NUL) = cstr (take limit bs)"
    by (cases ?z) (auto simp: cstr_def takeWhile_append takeWhile_eq_all_conv [THEN iffD2])
  have "length (cstr (take limit bs)) \<le> limit"
    unfolding cstr_def by (metis le_trans length_takeWhile_le length_take min.cobounded2)
  with assms c \<open>0 < ?z\<close> show ?thesis by (auto simp: append_endstring_def strlen_def Let_def)
qed

lemma append_endstring_whole:
  "append_endstring sz sz bs =
     (if length (cstr (take sz bs)) + 14 \<le> sz then Val (cstr (take sz bs) @ endstring) else Undef OutOfBounds)"
proof (cases "length bs < sz")
  case True
  then have z: "0 < sz - length (take sz bs)" by simp
  then have "cstr (take sz bs @ replicate (sz - length (take sz bs)) NUL) = cstr (take sz bs)"
    by (cases "sz - length (take sz bs)") (auto simp: cstr_def takeWhile_append takeWhile_eq_all_conv [THEN iffD2])
  with z show ?thesis by (auto simp: append_endstring_def strlen_def Let_def)
next
  case False
  then have b: "take sz bs @ replicate (sz - length (take sz bs)) NUL = take sz bs" by simp
  show ?thesis
  proof (cases "NUL \<in> set (take sz bs)")
    case True
    with b show ?thesis by (auto simp: append_endstring_def strlen_def Let_def)
  next
    case n: False
    then have "cstr (take sz bs) = take sz bs" by (simp add: is_cstring_def)
    with n b False show ?thesis by (simp add: append_endstring_def Let_def del: take_all_iff) 
  qed
qed

lemma lock_round: "l \<notin> locked w \<Longrightarrow> unlock_info l (w \<lparr> locked := insert l (locked w) \<rparr>) = w"
  by (cases w) (simp add: unlock_info_def)

text \<open>What a handler answers when its mutex is free.\<close>

definition text_reply :: "string \<Rightarrow> jrpc_reply" where
  "text_reply s = no_error (Some (cJSON_CreateString (s @ endstring)))"

lemma read_proc_spec:
  assumes "''proc'' \<notin> locked w" "proc_file w (take 49 (''/proc/'' @ dat)) = Some contents"
  shows "read_proc (Some dat) params i w =
    (if length (cstr (take 8192 contents)) + 14 \<le> 8192 then Val (text_reply (cstr (take 8192 contents)), w)
     else Undef OutOfBounds)"
  using assms
  by (simp add: read_proc_def lock_info_def append_endstring_whole PROC_BUFF_def text_reply_def lock_round Let_def)

lemma lookup_func_table:
  assumes "lookup_func nm = Some info"
  shows "bfunc info = (if nm \<in> {''sys'', ''proc'', ''perf''} then None else Some nm)"
  using assms by (auto simp: lookup_func_def lookup_table_def builtin_entry_def split: if_splits)

text \<open>The command line of a method: the command is in the table and its arguments fit in \<open>argv\<close>.\<close>

definition runnable :: "string \<Rightarrow> bool" where
  "runnable cmd \<longleftrightarrow>
     (let argv = strtok_all (CHR '' '') [] cmd
      in argv \<noteq> [] \<and> length argv < MAX_CMD_ARGV \<and>
         (case lookup_func (hd argv) of None \<Rightarrow> False | Some info \<Rightarrow> bfunc info \<noteq> None))"

lemma run_builtin_spec:
  assumes "runnable cmd" "pipe_ok w" "locked w = {}"
    and "builtin w (hd (strtok_all (CHR '' '') [] cmd)) (length (strtok_all (CHR '' '') [] cmd)) (strtok_all (CHR '' '') [] cmd) = (out, eof)"
  shows "run_builtin_cmd (Some cmd) params i w =
    (if pipe_capacity w < length out \<or> out = [] \<and> \<not> eof then Undef Blocks
     else Val (text_reply (cstr (take 16370 out)), w))"
proof -
  let ?argv = "strtok_all (CHR '' '') [] cmd"
  obtain info where info: "lookup_func (hd ?argv) = Some info" "bfunc info \<noteq> None" "?argv \<noteq> []" "length ?argv < 32"
    using assms(1) by (auto simp: runnable_def Let_def MAX_CMD_ARGV_def split: option.splits)
  then have f: "bfunc info = Some (hd ?argv)" using lookup_func_table [OF info(1)] by (auto split: if_splits)
  have "append_endstring CMD_BUFF (CMD_BUFF - length endstring - 1) out = Val (cstr (take 16370 out) @ endstring)"
    by (subst append_endstring_fits) (simp_all add: CMD_BUFF_def)
  then have p: "run_in_pipe (hd ?argv) ?argv (w \<lparr> locked := {block info} \<rparr>) =
      (if pipe_capacity w < length out \<or> out = [] \<and> \<not> eof then Undef Blocks else Val (cstr (take 16370 out) @ endstring))"
    using assms(4) by (simp add: run_in_pipe_def)
  have u: "unlock_info (block info) (w \<lparr> locked := {block info} \<rparr>) = w"
    using assms(3) by (cases w) (simp add: unlock_info_def)
  show ?thesis
    using info f p u assms(2,3)
    by (simp add: run_builtin_cmd_def Let_def MAX_CMD_ARGV_def lock_info_def text_reply_def)
qed

lemma methods_runnable: "list_all (\<lambda>(h, n, d). h = RunBuiltin \<longrightarrow> (\<exists>cmd. d = Some cmd \<and> runnable cmd)) main_methods"
  by (simp add: main_methods_def proc_methods_def cmd_methods_def runnable_def Let_def lookup_func_def
      lookup_table_def builtin_entry_def MAX_CMD_ARGV_def)

lemma method_names_distinct: "distinct method_names"
  by (simp add: method_names_def main_methods_def proc_methods_def cmd_methods_def)

lemma lookup_my_server:
  assumes "(h, nm, d) \<in> set main_methods"
  shows "lookup_procedure my_server nm = Some (handler_function method_names h, d)"
proof -
  have "distinct (map fst main_bindings)"
    using method_names_distinct by (simp add: main_bindings_def method_names_def comp_def case_prod_unfold)
  then have "sorted_wrt (\<lambda>a b. fst a \<noteq> fst b) main_bindings"
    by (simp add: distinct_map sorted_wrt_iff_nth_less distinct_conv_nth)
  moreover have "(nm, handler_function method_names h, d) \<in> set main_bindings"
    using assms by (force simp: main_bindings_def)
  ultimately show ?thesis
    unfolding my_server_def by (rule procs.lookup_distinct)
qed

lemma printable_text_reply: "returned (text_reply s) = Some j \<Longrightarrow> printable j"
  by (auto simp: text_reply_def no_error_def cJSON_CreateString_def cJSON_New_Item_def)


text \<open>
  C14: A built-in command method runs the function of its table entry on the words of its command
  line with standard output in a pipe, and answers the first 16370 bytes of the output with the end
  marker. The handler reads only after the command returned, so it blocks forever when the output
  exceeds the capacity of the pipe, or is empty while the write end stays open.
\<close>

theorem builtin_command_answer:
  assumes "(RunBuiltin, nm, Some cmd) \<in> set main_methods" "pipe_ok w" "locked w = {}"
    and "builtin w (hd (strtok_all (CHR '' '') [] cmd)) (length (strtok_all (CHR '' '') [] cmd)) (strtok_all (CHR '' '') [] cmd) = (out, eof)"
  shows "\<exists>f. lookup_procedure my_server nm = Some (f, Some cmd) \<and> f (Some cmd) params i w =
    (if pipe_capacity w < length out \<or> out = [] \<and> \<not> eof then Undef Blocks
     else Val (text_reply (cstr (take 16370 out)), w))"
proof -
  have "runnable cmd" using methods_runnable assms(1) by (fastforce simp: list_all_iff)
  with run_builtin_spec [OF _ assms(2-4)] lookup_my_server [OF assms(1)] show ?thesis
    by (simp add: handler_function_def)
qed


lemma procedures_adds:
  "procedures (adds add_procedure srv kvs) = procedures srv @ map (\<lambda>(n, f, d). \<lparr> pname = n, pfunction = f, pdata = d \<rparr>) kvs"
  by (induction kvs arbitrary: srv) (auto simp: add_procedure_def jrpc_register_procedure_def)

lemma my_server_names: "map pname (procedures my_server) = method_names"
  unfolding my_server_def procedures_adds
  by (simp add: jrpc_server_init_def main_bindings_def method_names_def comp_def case_prod_unfold)

text \<open>
  The list method answers the names of all registered methods in the order of registration.
\<close>

lemma method_list_answer:
  "list_all_methods method_names d params i w = Val (text_reply (concat (map (\<lambda>n. n @ '' '') method_names)), w) \<and>
   method_names = map pname (procedures my_server)"
proof -
  have "length (concat (map (\<lambda>n. n @ '' '') method_names)) \<le> 600"
    by (simp add: method_names_def main_methods_def proc_methods_def cmd_methods_def)
  then show ?thesis
    by (simp add: list_all_methods_def text_reply_def CMD_BUFF_def Let_def my_server_names)
qed

text \<open>
  C15: Every handler that returns has released each lock it took, leaves the locks of others alone,
  and reports no JSON-RPC error.
\<close>

theorem handlers_release_locks:
  assumes "handler_function names h d params i w = Val (r, w')"
  shows "locked w' = locked w \<and> error_code r = 0"
proof (cases h)
  case ReadProc
  with assms show ?thesis
    by (auto simp: handler_function_def read_proc_def no_error_def Let_def obind_eq_Val lock_info_def unlock_info_def
        split: option.splits if_splits)
next
  case RunBuiltin
  with assms show ?thesis
    by (auto simp: handler_function_def run_builtin_cmd_def no_error_def Let_def obind_eq_Val lock_info_def unlock_info_def
        split: option.splits if_splits)
next
  case RunPerfReport
  with assms show ?thesis
    by (auto simp: handler_function_def run_perf_report_cmd_def run_perf_def no_error_def Let_def obind_eq_Val lock_info_def
        unlock_info_def system_cmd_def split: option.splits if_splits)
next
  case RunPerfScript
  with assms show ?thesis
    by (auto simp: handler_function_def run_perf_script_cmd_def run_perf_def no_error_def Let_def obind_eq_Val lock_info_def
        unlock_info_def system_cmd_def split: option.splits if_splits)
qed (use assms in \<open>auto simp: handler_function_def say_hello_def list_all_methods_def no_error_def Let_def split: if_splits\<close>)

text \<open>
  Three methods of the README are not registered.
\<close>

lemma documented_methods_missing:
  "find_procedure my_server ''GetCmdVmstat'' = None \<and> find_procedure my_server ''GetCmdTopH'' = None \<and>
   find_procedure my_server ''GetCmdSmem'' = None"
proof -
  have "nm \<notin> set method_names" if "nm = ''GetCmdVmstat'' \<or> nm = ''GetCmdTopH'' \<or> nm = ''GetCmdSmem''" for nm
    using that by (auto simp: method_names_def main_methods_def proc_methods_def cmd_methods_def)
  then show ?thesis
    unfolding my_server_names [symmetric] by (auto simp: find_procedure_def find_None_iff)
qed

end
