(* ===== verification/Scan.thy ===== *)
theory Scan
  imports CString
begin

text \<open>
  Reading the text files of \<open>/proc\<close> and \<open>/sys\<close>: \<open>fgets\<close>, and the conversions of \<open>sscanf\<close> the
  readers use. Integers are kept at their width: \<open>%u\<close> stores an \<open>unsigned int\<close> (\<open>32 word\<close>),
  \<open>%lu\<close> and \<open>%llu\<close> 64 bits. \<open>scan_uint_dec\<close> says that a number printed in decimal is read back.
\<close>

type_synonym u32 = "32 word"
type_synonym u64 = "64 word"

text \<open>One \<open>fgets(line, n, fp)\<close>: at most \<open>n - 1\<close> bytes, up to and including a newline.\<close>

definition fgets :: "nat \<Rightarrow> string \<Rightarrow> string \<times> string" where
  "fgets n s = (let k = min (n - 1) (Suc (length (takeWhile (\<lambda>c. c \<noteq> LF) s))) in (take k s, drop k s))"

function fgets_lines :: "nat \<Rightarrow> string \<Rightarrow> string list" where
  "fgets_lines n s =
     (if s = [] \<or> n < 2 then [] else (case fgets n s of (l, r) \<Rightarrow> cstr l # fgets_lines n r))"
  by pat_completeness auto
termination
  by (relation "measure (\<lambda>(n, s). length s)") (auto simp: fgets_def Let_def min_def split: if_splits)

declare fgets_lines.simps [simp del]

lemma fgets_lines_Nil [simp]: "fgets_lines n [] = []"
  by (simp add: fgets_lines.simps)

lemma fgets_lines_line:
  assumes "LF \<notin> set l" "is_cstring l" "length l + 2 \<le> n"
  shows "fgets_lines n (l @ LF # s) = (l @ [LF]) # fgets_lines n s"
proof -
  have "takeWhile (\<lambda>c. c \<noteq> LF) (l @ LF # s) = l"
    using assms(1) by (intro takeWhile_append_stop) auto
  moreover have "min (n - 1) (Suc (length l)) = Suc (length l)" using assms(3) by simp
  ultimately have "fgets n (l @ LF # s) = (l @ [LF], s)"
    by (simp add: fgets_def Let_def)
  with assms(2,3) show ?thesis by (subst fgets_lines.simps) (simp add: cstr_id)
qed

subsection \<open>Conversions\<close>

text \<open>
  \<open>strtoul\<close> on a subject sequence \<open>ds\<close>: a value that does not fit is \<open>ULONG_MAX\<close>, a sign negates.
\<close>

definition strtoul_value :: "bool \<Rightarrow> string \<Rightarrow> u64" where
  "strtoul_value neg ds =
     (let v = dec_value 0 ds
      in if 2 ^ 64 \<le> v then -1 else if neg then - of_nat v else of_nat v)"

definition scan_uint :: "string \<Rightarrow> (u64 \<times> string) option" where
  "scan_uint s =
     (let s = dropWhile c_isspace s;
          neg = (s \<noteq> [] \<and> hd s = CHR ''-'');
          s = (if s \<noteq> [] \<and> (hd s = CHR ''-'' \<or> hd s = CHR ''+'') then tl s else s);
          ds = takeWhile c_isdigit s
      in if ds = [] then None else Some (strtoul_value neg ds, dropWhile c_isdigit s))"

text \<open>\<open>%d\<close> into an \<open>int\<close>: \<open>strtol\<close> saturates to 64 bits, the store keeps the low 32.\<close>

definition strtol_value :: "bool \<Rightarrow> string \<Rightarrow> int" where
  "strtol_value neg ds =
     (let v = int (dec_value 0 ds)
      in if neg then max (- (2 ^ 63)) (- v) else min (2 ^ 63 - 1) v)"

definition scan_int :: "string \<Rightarrow> (int \<times> string) option" where
  "scan_int s =
     (let s = dropWhile c_isspace s;
          neg = (s \<noteq> [] \<and> hd s = CHR ''-'');
          s = (if s \<noteq> [] \<and> (hd s = CHR ''-'' \<or> hd s = CHR ''+'') then tl s else s);
          ds = takeWhile c_isdigit s
      in if ds = [] then None
         else Some (sint (of_int (strtol_value neg ds) :: 32 word), dropWhile c_isdigit s))"

text \<open>
  A format of unsigned conversions, each with the assignment it makes (\<open>Put\<close>) or without one
  (\<open>Skip\<close> is \<open>%*u\<close>); the first conversion that fails ends the scan.
\<close>

datatype 'r conv = Put "u64 \<Rightarrow> 'r \<Rightarrow> 'r" | Skip

fun sscanf :: "'r conv list \<Rightarrow> string \<Rightarrow> 'r \<Rightarrow> 'r" where
  "sscanf [] s r = r"
| "sscanf (c # cs) s r =
     (case scan_uint s of
        None \<Rightarrow> r
      | Some (v, s') \<Rightarrow> sscanf cs s' (case c of Put f \<Rightarrow> f v r | Skip \<Rightarrow> r))"

text \<open>A chain of \<open>if (!strncmp(line, key, n)) sscanf(line + k, \<dots>) else \<dots>\<close>, and the loop around it.\<close>

fun read_line :: "(string \<times> nat \<times> 'r conv list) list \<Rightarrow> string \<Rightarrow> 'r \<Rightarrow> 'r" where
  "read_line [] line r = r"
| "read_line ((key, k, cs) # entries) line r =
     (if has_prefix key line then sscanf cs (drop k line) r else read_line entries line r)"

definition read_keyed :: "(string \<times> nat \<times> 'r conv list) list \<Rightarrow> string list \<Rightarrow> 'r \<Rightarrow> 'r" where
  "read_keyed entries lines r = fold (read_line entries) lines r"

lemma read_keyed_simps [simp]:
  "read_keyed entries [] r = r"
  "read_keyed entries (l # ls) r = read_keyed entries ls (read_line entries l r)"
  by (simp_all add: read_keyed_def)

subsection \<open>Numbers are read back\<close>

definition starts_digit :: "string \<Rightarrow> bool" where
  "starts_digit s \<longleftrightarrow> s \<noteq> [] \<and> c_isdigit (hd s)"

lemma dropWhile_spaces [simp]:
  "dropWhile c_isspace (replicate k (CHR '' '') @ s) = dropWhile c_isspace s"
proof -
  have "c_isspace (CHR '' '')" by (simp add: c_isspace_def byte_def)
  then show ?thesis by (induction k) simp_all
qed

lemma dropWhile_space [simp]: "dropWhile c_isspace (CHR '' '' # s) = dropWhile c_isspace s"
  using dropWhile_spaces [of 1 s] by simp

lemma scan_uint_space [simp]:
  "scan_uint (CHR '' '' # s) = scan_uint s" "scan_uint (replicate k (CHR '' '') @ s) = scan_uint s"
  by (simp_all only: scan_uint_def dropWhile_space dropWhile_spaces)

lemma scan_int_space [simp]: "scan_int (CHR '' '' # s) = scan_int s"
  by (simp only: scan_int_def dropWhile_space)

lemma digits_front:
  assumes "\<not> starts_digit rest"
  shows "dropWhile c_isspace (dec_of_nat n @ rest) = dec_of_nat n @ rest"
    "takeWhile c_isdigit (dec_of_nat n @ rest) = dec_of_nat n"
    "dropWhile c_isdigit (dec_of_nat n @ rest) = rest"
    "hd (dec_of_nat n @ rest) \<notin> {CHR ''-'', CHR ''+''}"
proof -
  obtain c ds where ds: "dec_of_nat n = c # ds" by (cases "dec_of_nat n") simp_all
  have dig: "\<forall>x\<in>set (dec_of_nat n). c_isdigit x" by (rule dec_of_nat_digits)
  then have c: "c_isdigit c" using ds by simp
  then have "\<not> c_isspace c" by (rule c_isdigit_not_space)
  then show "dropWhile c_isspace (dec_of_nat n @ rest) = dec_of_nat n @ rest" by (simp add: ds)
  show "hd (dec_of_nat n @ rest) \<notin> {CHR ''-'', CHR ''+''}"
    using c by (auto simp: ds c_isdigit_def byte_def)
  show "takeWhile c_isdigit (dec_of_nat n @ rest) = dec_of_nat n"
    "dropWhile c_isdigit (dec_of_nat n @ rest) = rest"
    using assms dig by (cases rest; simp add: starts_digit_def takeWhile_append dropWhile_append)+
qed

lemma scan_uint_dec [simp]:
  assumes "\<not> starts_digit rest" "n < 2 ^ 64"
  shows "scan_uint (dec_of_nat n @ rest) = Some (of_nat n, rest)"
  using digits_front [OF assms(1), of n] assms(2) by (simp add: scan_uint_def strtoul_value_def Let_def)

lemma scan_int_dec [simp]:
  assumes "\<not> starts_digit rest" "n < 2 ^ 31"
  shows "scan_int (dec_of_nat n @ rest) = Some (int n, rest)"
proof -
  have "sint (of_int (int n) :: 32 word) = int n"
    using assms(2) by (simp add: signed_of_nat signed_take_bit_int_eq_self_iff)
  then show ?thesis
    using digits_front [OF assms(1), of n] assms(2) by (simp add: scan_int_def strtol_value_def Let_def min_def)
qed

text \<open>The kernel's \<open>%llu\<close> and \<open>%8lu\<close>.\<close>

definition show_u64 :: "u64 \<Rightarrow> string" where
  "show_u64 w = dec_of_nat (unat w)"

definition show_u64_8 :: "u64 \<Rightarrow> string" where
  "show_u64_8 w = replicate (8 - length (show_u64 w)) (CHR '' '') @ show_u64 w"

lemma scan_show_u64 [simp]: "\<not> starts_digit rest \<Longrightarrow> scan_uint (show_u64 w @ rest) = Some (w, rest)"
proof -
  have "unat w < 2 ^ 64" using unsigned_less [of w, where 'a = nat] by simp
  then show "\<not> starts_digit rest \<Longrightarrow> scan_uint (show_u64 w @ rest) = Some (w, rest)"
    by (simp add: show_u64_def)
qed

lemma scan_show_u64_8 [simp]: "\<not> starts_digit rest \<Longrightarrow> scan_uint (show_u64_8 w @ rest) = Some (w, rest)"
  by (simp add: show_u64_8_def)

lemma starts_digit_simps [simp]:
  "\<not> starts_digit []" "starts_digit (c # s) \<longleftrightarrow> c_isdigit c"
  by (simp_all add: starts_digit_def)

lemma sep_not_digit [simp]: "\<not> c_isdigit (CHR '' '')" "\<not> c_isdigit LF" "\<not> c_isdigit (CHR ''.'')"
  by (simp_all add: c_isdigit_def byte_def)

lemma show_u64_bytes [simp]: "LF \<notin> set (show_u64 w)" "is_cstring (show_u64 w)" "length (show_u64 w) \<le> 20"
proof -
  show "LF \<notin> set (show_u64 w)"
    using dec_of_nat_digits [of "unat w"] sep_not_digit by (auto simp: show_u64_def)
  show "is_cstring (show_u64 w)" by (simp add: show_u64_def)
  have "unat w < 2 ^ 64" using unsigned_less [of w, where 'a = nat] by simp
  then show "length (show_u64 w) \<le> 20"
    unfolding show_u64_def by (intro length_dec_of_nat) simp_all
qed

lemma show_u64_8_bytes [simp]: "LF \<notin> set (show_u64_8 w)" "is_cstring (show_u64_8 w)" "length (show_u64_8 w) \<le> 20"
proof -
  show "LF \<notin> set (show_u64_8 w)" by (auto simp: show_u64_8_def)
  show "length (show_u64_8 w) \<le> 20"
    using show_u64_bytes(3) [of w] unfolding show_u64_8_def length_append length_replicate by linarith
  have "is_cstring (replicate k (CHR '' ''))" for k by (simp add: is_cstring_def)
  then show "is_cstring (show_u64_8 w)" by (simp add: show_u64_8_def)
qed

lemma has_prefix_Cons [simp]:
  "has_prefix [] s" "has_prefix (c # p) (d # s) \<longleftrightarrow> c = d \<and> has_prefix p s" "\<not> has_prefix (c # p) []"
  by (auto simp: has_prefix_def)

end
