(* ===== verification/Sysstat.thy ===== *)
theory Sysstat
  imports Scan
begin

text \<open>
  The \<open>sysstat-lite\<close> module, what it reads: \<open>rd_stats.c\<close> (\<open>/proc/stat\<close>, \<open>/proc/meminfo\<close>,
  \<open>/proc/uptime\<close>; the functions behind \<open>SOURCE_SADC\<close> are not compiled), \<open>count.c\<close> (the number of
  processors and of interrupts) and \<open>cpuinfo.c\<close>. A file is the list of the lines \<open>fgets\<close> returns,
  or \<open>None\<close> when it cannot be opened.
\<close>

subsection \<open>CPU statistics\<close>

record stats_cpu =
  cpu_user :: u64
  cpu_nice :: u64
  cpu_sys :: u64
  cpu_idle :: u64
  cpu_iowait :: u64
  cpu_steal :: u64
  cpu_hardirq :: u64
  cpu_softirq :: u64
  cpu_guest :: u64
  cpu_guest_nice :: u64

definition zero_cpu :: stats_cpu where
  "zero_cpu = \<lparr> cpu_user = 0, cpu_nice = 0, cpu_sys = 0, cpu_idle = 0, cpu_iowait = 0, cpu_steal = 0,
     cpu_hardirq = 0, cpu_softirq = 0, cpu_guest = 0, cpu_guest_nice = 0 \<rparr>"

definition cpu_format :: "stats_cpu conv list" where
  "cpu_format =
     [Put (\<lambda>v. cpu_user_update (\<lambda>_. v)), Put (\<lambda>v. cpu_nice_update (\<lambda>_. v)), Put (\<lambda>v. cpu_sys_update (\<lambda>_. v)),
      Put (\<lambda>v. cpu_idle_update (\<lambda>_. v)), Put (\<lambda>v. cpu_iowait_update (\<lambda>_. v)), Put (\<lambda>v. cpu_hardirq_update (\<lambda>_. v)),
      Put (\<lambda>v. cpu_softirq_update (\<lambda>_. v)), Put (\<lambda>v. cpu_steal_update (\<lambda>_. v)), Put (\<lambda>v. cpu_guest_update (\<lambda>_. v)),
      Put (\<lambda>v. cpu_guest_nice_update (\<lambda>_. v))]"

definition cpu_uptime :: "stats_cpu \<Rightarrow> u64" where
  "cpu_uptime c = cpu_user c + cpu_nice c + cpu_sys c + cpu_idle c + cpu_iowait c + cpu_hardirq c +
     cpu_steal c + cpu_softirq c"

text \<open>\<open>proc_nb\<close> is a local without initial value that a failing conversion leaves as it was.\<close>

record cpu_state =
  st_cpu :: "stats_cpu list"
  proc_nb :: "int option"
  uptime :: u64
  uptime0 :: u64

definition store_cpu :: "int \<Rightarrow> int \<Rightarrow> stats_cpu \<Rightarrow> cpu_state \<Rightarrow> cpu_state outcome" where
  "store_cpu nbr nb sc s =
     (let s0 = (if nb = 0 \<and> uptime0 s = 0 then s \<lparr> uptime0 := cpu_uptime sc \<rparr> else s)
      in if nb < nbr - 1
         then (if nb + 1 < 0 \<or> int (length (st_cpu s)) \<le> nb + 1 then Undef OutOfBounds
               else Val (s0 \<lparr> st_cpu := (st_cpu s)[nat (nb + 1) := sc] \<rparr>))
         else Val s0)"

definition read_stat_cpu_line :: "int \<Rightarrow> string \<Rightarrow> cpu_state \<Rightarrow> cpu_state outcome" where
  "read_stat_cpu_line nbr line s =
     (if has_prefix ''cpu '' line
      then let c = sscanf cpu_format (drop 5 line) zero_cpu
           in Val (s \<lparr> st_cpu := (st_cpu s)[0 := c], uptime := cpu_uptime c \<rparr>)
      else if has_prefix ''cpu'' line \<and> 1 < nbr
      then (case scan_int (drop 3 line) of
              None \<Rightarrow> (case proc_nb s of None \<Rightarrow> Undef Uninitialised | Some nb \<Rightarrow> store_cpu nbr nb zero_cpu s)
            | Some (nb, r) \<Rightarrow> store_cpu nbr nb (sscanf cpu_format r zero_cpu) (s \<lparr> proc_nb := Some nb \<rparr>))
      else Val s)"

fun read_stat_cpu_lines :: "int \<Rightarrow> string list \<Rightarrow> cpu_state \<Rightarrow> cpu_state outcome" where
  "read_stat_cpu_lines nbr [] s = Val s"
| "read_stat_cpu_lines nbr (l # ls) s = obind (read_stat_cpu_line nbr l s) (read_stat_cpu_lines nbr ls)"

text \<open>\<open>None\<close>: the file cannot be opened and the process exits with status 2.\<close>

definition read_stat_cpu ::
  "string list option \<Rightarrow> stats_cpu list \<Rightarrow> int \<Rightarrow> u64 \<Rightarrow> u64 \<Rightarrow> (stats_cpu list \<times> u64 \<times> u64) outcome option" where
  "read_stat_cpu file st nbr up up0 =
     map_option (\<lambda>ls. obind (read_stat_cpu_lines nbr ls \<lparr> st_cpu = st, proc_nb = None, uptime = up, uptime0 = up0 \<rparr>)
        (\<lambda>s. Val (st_cpu s, uptime s, uptime0 s))) file"

text \<open>The lines the kernel writes.\<close>

definition cpu_values :: "stats_cpu \<Rightarrow> string" where
  "cpu_values c = concat (map (\<lambda>v. '' '' @ show_u64 v)
     [cpu_user c, cpu_nice c, cpu_sys c, cpu_idle c, cpu_iowait c, cpu_hardirq c, cpu_softirq c, cpu_steal c,
      cpu_guest c, cpu_guest_nice c]) @ [LF]"

definition cpu_all_line :: "stats_cpu \<Rightarrow> string" where
  "cpu_all_line c = ''cpu '' @ cpu_values c"

definition cpu_line :: "nat \<Rightarrow> stats_cpu \<Rightarrow> string" where
  "cpu_line n c = ''cpu'' @ dec_of_nat n @ cpu_values c"

lemma sscanf_cpu_values [simp]: "sscanf cpu_format (cpu_values c) zero_cpu = c"
  by (simp add: cpu_format_def cpu_values_def zero_cpu_def)

lemma read_all_line:
  "read_stat_cpu_line nbr (cpu_all_line c) s = Val (s \<lparr> st_cpu := (st_cpu s)[0 := c], uptime := cpu_uptime c \<rparr>)"
proof -
  have "drop 5 (cpu_all_line c) = tl (cpu_values c)" by (simp add: cpu_all_line_def cpu_values_def)
  moreover have "sscanf cpu_format (tl (cpu_values c)) zero_cpu = c"
    using sscanf_cpu_values [of c] by (simp add: cpu_values_def cpu_format_def)
  ultimately show ?thesis by (simp add: read_stat_cpu_line_def cpu_all_line_def)
qed

lemma read_cpu_line:
  assumes "1 < nbr" "n < 2 ^ 31"
  shows "read_stat_cpu_line nbr (cpu_line n c) s = store_cpu nbr (int n) c (s \<lparr> proc_nb := Some (int n) \<rparr>)"
proof -
  obtain d ds where ds: "dec_of_nat n = d # ds" "c_isdigit d"
    using dec_of_nat_digits [of n] by (cases "dec_of_nat n") auto
  then have "d \<noteq> CHR '' ''" by auto
  then have "\<not> has_prefix ''cpu '' (cpu_line n c)" by (simp add: cpu_line_def ds)
  moreover have "has_prefix ''cpu'' (cpu_line n c)" by (simp add: cpu_line_def)
  moreover have "drop 3 (cpu_line n c) = dec_of_nat n @ cpu_values c" by (simp add: cpu_line_def)
  moreover have "\<not> starts_digit (cpu_values c)" by (simp add: cpu_values_def)
  ultimately show ?thesis using assms by (simp add: read_stat_cpu_line_def)
qed

lemma read_cpu_lines:
  assumes "st_cpu s = pre @ old" "length pre = Suc k" "length old = length cs" "int (k + length cs) < nbr" "1 < nbr"
    "k + length cs < 2 ^ 31"
  shows "\<exists>s'. read_stat_cpu_lines nbr (map (\<lambda>(n, c). cpu_line n c) (enumerate k cs)) s = Val s' \<and>
    st_cpu s' = pre @ cs \<and> uptime s' = uptime s \<and>
    uptime0 s' = (if k = 0 \<and> cs \<noteq> [] \<and> uptime0 s = 0 then cpu_uptime (hd cs) else uptime0 s)"
  using assms
proof (induction cs arbitrary: s pre old k)
  case (Cons c cs)
  then obtain o1 os where o: "old = o1 # os" "length os = length cs" by (cases old) auto
  have "(pre @ o1 # os)[Suc k := c] = (pre @ [c]) @ os" using Cons.prems(2) by (simp add: list_update_append)
  moreover have "int (length (st_cpu s)) > int k + 1" using Cons.prems o by simp
  ultimately obtain s1 where s1: "store_cpu nbr (int k) c (s \<lparr> proc_nb := Some (int k) \<rparr>) = Val s1"
    "st_cpu s1 = (pre @ [c]) @ os" "uptime s1 = uptime s"
    "uptime0 s1 = (if k = 0 \<and> uptime0 s = 0 then cpu_uptime c else uptime0 s)"
    using Cons.prems o by (auto simp: store_cpu_def Let_def nat_add_distrib)
  from Cons.IH [of s1 "pre @ [c]" os "Suc k"] Cons.prems o s1
  obtain s' where s': "read_stat_cpu_lines nbr (map (\<lambda>(n, c). cpu_line n c) (enumerate (Suc k) cs)) s1 = Val s'"
    "st_cpu s' = (pre @ [c]) @ cs" "uptime s' = uptime s1" "uptime0 s' = uptime0 s1"
    by auto
  with s1 Cons.prems show ?case by (simp add: read_cpu_line)
qed simp

lemma read_other_lines:
  assumes "\<forall>l\<in>set ls. \<not> has_prefix ''cpu'' l"
  shows "read_stat_cpu_lines nbr ls s = Val s"
proof -
  have "read_stat_cpu_line nbr l s = Val s" if "\<not> has_prefix ''cpu'' l" for l
  proof -
    have "\<not> has_prefix ''cpu '' l" using that by (cases l; cases "tl l"; cases "tl (tl l)") auto
    with that show ?thesis by (simp add: read_stat_cpu_line_def)
  qed
  with assms show ?thesis by (induction ls) auto
qed

lemma read_stat_cpu_append:
  "read_stat_cpu_lines nbr (xs @ ys) s = obind (read_stat_cpu_lines nbr xs s) (read_stat_cpu_lines nbr ys)"
proof (induction xs arbitrary: s)
  case (Cons x xs)
  then show ?case by (cases "read_stat_cpu_line nbr x s") simp_all
qed simp

text \<open>
  C18: Reading /proc/stat inverts the kernel's format. From the line of the machine and one line for
  each processor the reader recovers every counter, the uptime of the machine, and the uptime of the
  first processor when it was not known.
\<close>

theorem stat_cpu_roundtrip:
  assumes "cs \<noteq> []" "length cs < 2 ^ 31" "length st = length cs + 1" "\<forall>l\<in>set others. \<not> has_prefix ''cpu'' l"
  shows "read_stat_cpu (Some (cpu_all_line tot # map (\<lambda>(n, c). cpu_line n c) (enumerate 0 cs) @ others))
      st (int (length cs) + 1) up up0 =
    Some (Val (tot # cs, cpu_uptime tot, if up0 = 0 then cpu_uptime (hd cs) else up0))"
proof -
  let ?nbr = "int (length cs) + 1"
  obtain x xs where st: "st = x # xs" "length xs = length cs" using assms(3) by (cases st) auto
  let ?s = "\<lparr> st_cpu = tot # xs, proc_nb = None, uptime = cpu_uptime tot, uptime0 = up0 \<rparr>"
  have "1 < ?nbr" using assms(1) by (cases cs) auto
  with read_cpu_lines [of ?s "[tot]" xs 0 cs ?nbr] assms(1,2) st
  obtain s' where "read_stat_cpu_lines ?nbr (map (\<lambda>(n, c). cpu_line n c) (enumerate 0 cs)) ?s = Val s'"
    "st_cpu s' = tot # cs" "uptime s' = cpu_uptime tot"
    "uptime0 s' = (if up0 = 0 then cpu_uptime (hd cs) else up0)"
    by auto
  then show ?thesis
    using assms(4) by (simp add: read_stat_cpu_def read_all_line read_stat_cpu_append read_other_lines st)
qed

subsection \<open>Interrupts, memory, uptime\<close>

text \<open>\<open>read_stat_irq\<close>: \<open>pos\<close> is an offset in the line; behind its end the old contents of the buffer would be read.\<close>

fun irq_fields :: "nat \<Rightarrow> string \<Rightarrow> nat \<Rightarrow> u64 list \<Rightarrow> nat \<Rightarrow> u64 list outcome" where
  "irq_fields 0 line p st i = Val st"
| "irq_fields (Suc n) line p st i =
     (if length line \<le> p then Undef OutOfBounds
      else irq_fields n line (p + strcspn (drop (p + 1) line) '' '' + 1)
             (case scan_uint (drop p line) of None \<Rightarrow> st | Some (v, _) \<Rightarrow> st[i := v]) (i + 1))"

definition read_stat_irq_line :: "nat \<Rightarrow> string \<Rightarrow> u64 list \<Rightarrow> u64 list outcome" where
  "read_stat_irq_line nbr line st =
     (if has_prefix ''intr '' line
      then irq_fields (nbr - 1) line (strcspn (drop 5 line) '' '' + 5)
             (case scan_uint (drop 5 line) of None \<Rightarrow> st | Some (v, _) \<Rightarrow> st[0 := v]) 1
      else Val st)"

fun read_stat_irq :: "nat \<Rightarrow> string list \<Rightarrow> u64 list \<Rightarrow> u64 list outcome" where
  "read_stat_irq nbr [] st = Val st"
| "read_stat_irq nbr (l # ls) st = obind (read_stat_irq_line nbr l st) (read_stat_irq nbr ls)"

record stats_memory =
  frmkb :: u64
  bufkb :: u64
  camkb :: u64
  tlmkb :: u64
  frskb :: u64
  tlskb :: u64
  caskb :: u64
  comkb :: u64
  activekb :: u64
  inactkb :: u64
  dirtykb :: u64
  anonpgkb :: u64
  slabkb :: u64
  kstackkb :: u64
  pgtblkb :: u64
  vmusedkb :: u64

definition meminfo_table :: "(string \<times> nat \<times> stats_memory conv list) list" where
  "meminfo_table =
     [(''MemTotal:'', 9, [Put (\<lambda>v. tlmkb_update (\<lambda>_. v))]), (''MemFree:'', 8, [Put (\<lambda>v. frmkb_update (\<lambda>_. v))]),
      (''Buffers:'', 8, [Put (\<lambda>v. bufkb_update (\<lambda>_. v))]), (''Cached:'', 7, [Put (\<lambda>v. camkb_update (\<lambda>_. v))]),
      (''SwapCached:'', 11, [Put (\<lambda>v. caskb_update (\<lambda>_. v))]), (''Active:'', 7, [Put (\<lambda>v. activekb_update (\<lambda>_. v))]),
      (''Inactive:'', 9, [Put (\<lambda>v. inactkb_update (\<lambda>_. v))]), (''SwapTotal:'', 10, [Put (\<lambda>v. tlskb_update (\<lambda>_. v))]),
      (''SwapFree:'', 9, [Put (\<lambda>v. frskb_update (\<lambda>_. v))]), (''Dirty:'', 6, [Put (\<lambda>v. dirtykb_update (\<lambda>_. v))]),
      (''Committed_AS:'', 13, [Put (\<lambda>v. comkb_update (\<lambda>_. v))]), (''AnonPages:'', 10, [Put (\<lambda>v. anonpgkb_update (\<lambda>_. v))]),
      (''Slab:'', 5, [Put (\<lambda>v. slabkb_update (\<lambda>_. v))]), (''KernelStack:'', 12, [Put (\<lambda>v. kstackkb_update (\<lambda>_. v))]),
      (''PageTables:'', 11, [Put (\<lambda>v. pgtblkb_update (\<lambda>_. v))]), (''VmallocUsed:'', 12, [Put (\<lambda>v. vmusedkb_update (\<lambda>_. v))])]"

definition read_meminfo :: "string option \<Rightarrow> stats_memory \<Rightarrow> stats_memory" where
  "read_meminfo file st =
     (case file of None \<Rightarrow> st | Some s \<Rightarrow> read_keyed meminfo_table (fgets_lines 128 s) st)"

text \<open>The file as the kernel writes it, the lines the reader does not know among the others.\<close>

definition meminfo_line :: "string \<Rightarrow> u64 \<Rightarrow> string" where
  "meminfo_line key v = key @ show_u64_8 v @ '' kB''"

definition meminfo_lines :: "stats_memory \<Rightarrow> u64 list \<Rightarrow> string list" where
  "meminfo_lines m xs =
     [meminfo_line ''MemTotal:       '' (tlmkb m), meminfo_line ''MemFree:        '' (frmkb m),
      meminfo_line ''MemAvailable:   '' (xs ! 0), meminfo_line ''Buffers:        '' (bufkb m),
      meminfo_line ''Cached:         '' (camkb m), meminfo_line ''SwapCached:     '' (caskb m),
      meminfo_line ''Active:         '' (activekb m), meminfo_line ''Inactive:       '' (inactkb m),
      meminfo_line ''Active(anon):   '' (xs ! 1), meminfo_line ''Inactive(anon): '' (xs ! 2),
      meminfo_line ''SwapTotal:      '' (tlskb m), meminfo_line ''SwapFree:       '' (frskb m),
      meminfo_line ''Dirty:          '' (dirtykb m), meminfo_line ''AnonPages:      '' (anonpgkb m),
      meminfo_line ''Slab:           '' (slabkb m), meminfo_line ''KernelStack:    '' (kstackkb m),
      meminfo_line ''PageTables:     '' (pgtblkb m), meminfo_line ''Committed_AS:   '' (comkb m),
      meminfo_line ''VmallocUsed:    '' (vmusedkb m), meminfo_line ''VmallocChunk:   '' (xs ! 3)]"

lemma fgets_lines_all:
  assumes "\<forall>l\<in>set ls. LF \<notin> set l \<and> is_cstring l \<and> length l + 2 \<le> n"
  shows "fgets_lines n (concat (map (\<lambda>l. l @ [LF]) ls)) = map (\<lambda>l. l @ [LF]) ls"
  using assms by (induction ls) (simp_all add: fgets_lines_line)

lemma meminfo_line_ok:
  assumes "LF \<notin> set key" "is_cstring key" "length key \<le> 16"
  shows "LF \<notin> set (meminfo_line key v) \<and> is_cstring (meminfo_line key v) \<and> length (meminfo_line key v) + 2 \<le> 128"
proof -
  have "length (show_u64_8 v) \<le> 20" by simp
  with assms show ?thesis by (simp add: meminfo_line_def del: show_u64_8_bytes(3))
qed

lemma meminfo_lines_ok:
  "\<forall>l\<in>set (meminfo_lines m xs). LF \<notin> set l \<and> is_cstring l \<and> length l + 2 \<le> 128"
  unfolding meminfo_lines_def list.set ball_simps by (rule meminfo_line_ok TrueI conjI | simp)+

text \<open>
  Reading /proc/meminfo inverts the kernel's format: every field of the memory statistics is
  recovered from its line, whatever the other lines hold and whatever the structure held before.
\<close>

lemma meminfo_roundtrip:
  "read_meminfo (Some (concat (map (\<lambda>l. l @ [LF]) (meminfo_lines m xs)))) st = m"
proof -
  have "read_meminfo (Some (concat (map (\<lambda>l. l @ [LF]) (meminfo_lines m xs)))) st =
      read_keyed meminfo_table (map (\<lambda>l. l @ [LF]) (meminfo_lines m xs)) st"
    using fgets_lines_all [OF meminfo_lines_ok] by (simp add: read_meminfo_def)
  also have "\<dots> = m"
    by (simp add: meminfo_lines_def meminfo_table_def meminfo_line_def)
  finally show ?thesis .
qed

text \<open>\<open>read_uptime\<close>: the two locals have no initial value; \<open>hz\<close> is the \<open>HZ\<close> of the build.\<close>

definition read_uptime :: "u64 \<Rightarrow> string list option \<Rightarrow> u64 \<Rightarrow> u64 outcome" where
  "read_uptime hz file up =
     (case file of
        Some (l # _) \<Rightarrow>
          (case scan_uint l of
             Some (sec, CHR ''.'' # r) \<Rightarrow>
               (case scan_uint r of Some (cent, _) \<Rightarrow> Val (sec * hz + cent * hz div 100) | None \<Rightarrow> Undef Uninitialised)
           | _ \<Rightarrow> Undef Uninitialised)
      | _ \<Rightarrow> Val up)"

subsection \<open>Counting processors and interrupts\<close>

text \<open>An entry of \<open>/sys/devices/system/cpu\<close> and whether \<open>stat\<close> says it is a directory.\<close>

definition sys_cpu_entry :: "bool \<Rightarrow> string \<times> bool \<Rightarrow> int \<Rightarrow> int" where
  "sys_cpu_entry highest e nr =
     (case e of (nm, dir) \<Rightarrow>
        if has_prefix ''cpu'' nm \<and> starts_digit (drop 3 nm) \<and> dir
        then (if highest then (case scan_int (drop 3 nm) of None \<Rightarrow> nr | Some (n, _) \<Rightarrow> max nr n) else nr + 1)
        else nr)"

definition get_sys_cpu_nr :: "bool \<Rightarrow> (string \<times> bool) list option \<Rightarrow> int" where
  "get_sys_cpu_nr highest dir =
     (case dir of None \<Rightarrow> 0 | Some es \<Rightarrow> fold (sys_cpu_entry highest) es (-1) + 1)"

text \<open>\<open>num_proc\<close> keeps its value when \<open>sscanf\<close> fails; the lines are those of a 16 byte buffer.\<close>

definition proc_cpu_line :: "string \<Rightarrow> int option \<times> int \<Rightarrow> (int option \<times> int) outcome" where
  "proc_cpu_line line st =
     (if \<not> has_prefix ''cpu '' line \<and> has_prefix ''cpu'' line
      then (case (case scan_int (drop 3 line) of Some (n, _) \<Rightarrow> Some n | None \<Rightarrow> fst st) of
              None \<Rightarrow> Undef Uninitialised
            | Some n \<Rightarrow> Val (Some n, max (snd st) n))
      else Val st)"

fun proc_cpu_lines :: "string list \<Rightarrow> int option \<times> int \<Rightarrow> (int option \<times> int) outcome" where
  "proc_cpu_lines [] st = Val st"
| "proc_cpu_lines (l # ls) st = obind (proc_cpu_line l st) (proc_cpu_lines ls)"

definition get_proc_cpu_nr :: "string list option \<Rightarrow> int outcome option" where
  "get_proc_cpu_nr file =
     map_option (\<lambda>ls. obind (proc_cpu_lines ls (None, -1)) (\<lambda>(_, nr). Val (nr + 1))) file"

definition get_cpu_nr :: "bool \<Rightarrow> (string \<times> bool) list option \<Rightarrow> string list option \<Rightarrow> int outcome option" where
  "get_cpu_nr highest dir file =
     (let n = get_sys_cpu_nr highest dir in if n = 0 then get_proc_cpu_nr file else Some (Val n))"

definition get_irqcpu_nr :: "nat \<Rightarrow> string list option \<Rightarrow> nat" where
  "get_irqcpu_nr max_nr file =
     (case file of None \<Rightarrow> 0
      | Some ls \<Rightarrow> fold (\<lambda>l irq. let p = strcspn l '':'' in
          if irq < max_nr \<and> 0 < p \<and> p < 16 then irq + 1 else irq) ls 0)"

lemma sys_cpu_highest_mono: "nr \<le> sys_cpu_entry True e nr"
  by (auto simp: sys_cpu_entry_def split: prod.split option.split)

lemma sys_cpu_fold_mono: "nr \<le> fold (sys_cpu_entry True) es nr"
proof (induction es arbitrary: nr)
  case (Cons e es)
  show ?case using Cons.IH [of "sys_cpu_entry True e nr"] sys_cpu_highest_mono [of nr e] by simp
qed simp

text \<open>
  Every CPU directory fits below the number returned, so \<open>cpu_nr + 1\<close> structures are enough for
  every line of \<open>/proc/stat\<close> with one of these numbers.
\<close>

lemma get_sys_cpu_nr_covers:
  assumes "(''cpu'' @ dec_of_nat n, True) \<in> set es" "n < 2 ^ 31"
  shows "int n < get_sys_cpu_nr True (Some es)"
proof -
  obtain xs ys where es: "es = xs @ (''cpu'' @ dec_of_nat n, True) # ys" using assms(1) by (meson split_list)
  have "starts_digit (dec_of_nat n)"
    using dec_of_nat_digits [of n] by (cases "dec_of_nat n") (simp_all add: starts_digit_def)
  then have "int n \<le> sys_cpu_entry True (''cpu'' @ dec_of_nat n, True) nr" for nr
    using scan_int_dec [of "[]" n] assms(2) by (simp add: sys_cpu_entry_def)
  then have "int n \<le> fold (sys_cpu_entry True) ys (sys_cpu_entry True (''cpu'' @ dec_of_nat n, True) nr)" for nr
    using sys_cpu_fold_mono order_trans by blast
  then show ?thesis by (simp add: get_sys_cpu_nr_def es zle_add1_eq_le)
qed

lemma store_cpu_in_bounds:
  assumes "0 \<le> nb" "int (length (st_cpu s)) = nbr"
  shows "\<exists>s'. store_cpu nbr nb c s = Val s' \<and> length (st_cpu s') = length (st_cpu s)"
  using assms by (auto simp: store_cpu_def Let_def)

subsection \<open>The processor's name\<close>

definition names_cpu :: "string \<Rightarrow> bool" where
  "names_cpu s \<longleftrightarrow> strstr s ''ARM'' \<noteq> None \<or> strstr s ''AArch64'' \<noteq> None \<or>
     strstr s ''Intel'' \<noteq> None \<or> strstr s ''AMD'' \<noteq> None"

text \<open>A line without a colon makes \<open>s\<close> a null pointer, which \<open>strstr(s, "ARM")\<close> dereferences.\<close>

fun figureout_cpu :: "string list \<Rightarrow> string outcome" where
  "figureout_cpu [] = Val ''cpu_name: unknown''"
| "figureout_cpu (l # ls) =
     (case strstr l '':'' of
        None \<Rightarrow> Undef NullDeref
      | Some s \<Rightarrow> if names_cpu s then Val (''cpu_name: '' @ drop 2 s) else figureout_cpu ls)"

definition cpuinfo_main :: "int \<Rightarrow> string list option \<Rightarrow> string outcome" where
  "cpuinfo_main cpu_nr file =
     obind (case file of None \<Rightarrow> Val [] | Some ls \<Rightarrow> figureout_cpu ls) (\<lambda>s.
       Val (''cpunr: '' @ dec_of_int cpu_nr @ [LF] @ s))"

lemma strstr_colon: "CHR '':'' \<notin> set k \<Longrightarrow> strstr (k @ CHR '':'' # v) '':'' = Some (CHR '':'' # v)"
  by (induction k) auto

lemma strstr_no_colon: "CHR '':'' \<notin> set l \<Longrightarrow> strstr l '':'' = None"
  by (induction l) auto

text \<open>
  The processor name is read from the first line that has it; a line without a colon before it is a
  null dereference.
\<close>

lemma cpu_name_found_or_crash:
  assumes "\<forall>(k, v)\<in>set kvs. CHR '':'' \<notin> set k \<and> \<not> names_cpu (CHR '':'' # v)"
    and "CHR '':'' \<notin> set k" "names_cpu ('': '' @ nm)" "CHR '':'' \<notin> set blank"
  shows "cpuinfo_main n (Some (map (\<lambda>(k, v). k @ CHR '':'' # v) kvs @ (k @ '': '' @ nm) # ls)) =
      Val (''cpunr: '' @ dec_of_int n @ [LF] @ ''cpu_name: '' @ nm) \<and>
    cpuinfo_main n (Some (map (\<lambda>(k, v). k @ CHR '':'' # v) kvs @ blank # ls)) = Undef NullDeref"
proof -
  have skip: "figureout_cpu (map (\<lambda>(k, v). k @ CHR '':'' # v) kvs @ rest) = figureout_cpu rest" for rest
    using assms by (induction kvs) (auto simp: strstr_colon)
  show ?thesis
    using assms strstr_colon [of k "CHR '' '' # nm"] by (simp add: cpuinfo_main_def skip strstr_no_colon)
qed

end
