(* ===== verification/SysstatCalc.thy ===== *)
theory SysstatCalc
  imports Sysstat Dbl
begin

text \<open>
  The \<open>sysstat-lite\<close> module, what it computes: \<open>common.c\<close> (counting devices in \<open>/sys\<close>, names of
  devices, time intervals, rates and percentages, colours and the coloured \<open>printf\<close>s). The file
  system is a parameter, the record \<open>sysfs\<close>: what \<open>opendir\<close>, \<open>access\<close>, \<open>readlink\<close>, \<open>realpath\<close>
  and \<open>scandir\<close> answer. What is written is a list of pieces, each with its stream.
\<close>

record sysfs =
  dir_entries :: "string \<Rightarrow> string list option"
  readable :: "string \<Rightarrow> bool"
  file_exists :: "string \<Rightarrow> bool"
  link_target :: "string \<Rightarrow> string option"
  real_path :: "string \<Rightarrow> string option"
  sorted_dir :: "string \<Rightarrow> string list option"

subsection \<open>Arguments and devices\<close>

function csv_loop :: "string \<Rightarrow> nat" where
  "csv_loop t = Suc (case strchr (tl t) (CHR '','') of None \<Rightarrow> 0 | Some r \<Rightarrow> csv_loop r)"
  by pat_completeness auto
termination
proof (relation "measure length")
  fix t r assume r: "strchr (tl t) (CHR '','') = Some r"
  then obtain q where "r = CHR '','' # q" "length r \<le> length (tl t)" using strchr_Some by blast
  then show "(r, t) \<in> measure length" by (cases t) auto
qed simp

declare csv_loop.simps [simp del]

definition count_csvalues :: "string list \<Rightarrow> nat" where
  "count_csvalues argv =
     sum_list (map (\<lambda>s. case strchr s (CHR '','') of None \<Rightarrow> 0 | Some _ \<Rightarrow> csv_loop s) (tl argv))"

definition SYSFS_BLOCK :: string where
  "SYSFS_BLOCK = ''/sys/block''"

definition stat_entries :: "sysfs \<Rightarrow> string \<Rightarrow> string list \<Rightarrow> string list" where
  "stat_entries fs dir es =
     filter (\<lambda>e. e \<noteq> ''.'' \<and> e \<noteq> ''..'' \<and> readable fs (take 1023 (dir @ ''/'' @ e @ ''/stat''))) es"

definition get_dev_part_nr :: "sysfs \<Rightarrow> string \<Rightarrow> nat" where
  "get_dev_part_nr fs dev =
     (let dfile = take 1023 (SYSFS_BLOCK @ ''/'' @ dev)
      in case dir_entries fs dfile of None \<Rightarrow> 0 | Some es \<Rightarrow> length (stat_entries fs dfile es))"

definition get_sysfs_dev_nr :: "sysfs \<Rightarrow> bool \<Rightarrow> nat" where
  "get_sysfs_dev_nr fs display_partitions =
     (case dir_entries fs SYSFS_BLOCK of
        None \<Rightarrow> 0
      | Some es \<Rightarrow> sum_list (map (\<lambda>e. 1 + (if display_partitions then get_dev_part_nr fs e else 0))
          (stat_entries fs SYSFS_BLOCK es)))"

definition devmap_line :: "string \<Rightarrow> u32 \<Rightarrow> u32" where
  "devmap_line line major =
     (if strstr line ''device-mapper'' = None then major
      else case scan_uint line of None \<Rightarrow> major | Some (v, _) \<Rightarrow> ucast v)"

text \<open>\<open>~0U\<close> is \<open>-1\<close> as a word.\<close>

definition get_devmap_major :: "string option \<Rightarrow> u32" where
  "get_devmap_major file =
     (case file of None \<Rightarrow> -1 | Some s \<Rightarrow> fold devmap_line (fgets_lines 128 s) (-1))"

definition device_name :: "sysfs \<Rightarrow> string \<Rightarrow> string" where
  "device_name fs name =
     (case real_path fs name of
        None \<Rightarrow> name
      | Some p \<Rightarrow> take 255 (if has_prefix ''/dev/'' p then drop 5 p else p))"

text \<open>The slashes of the caller's string are replaced in place: the new string is returned too.\<close>

definition is_device :: "sysfs \<Rightarrow> string \<Rightarrow> bool \<Rightarrow> bool \<times> string" where
  "is_device fs name allow_virtual =
     (let name = map (\<lambda>c. if c = CHR ''/'' then CHR ''!'' else c) name
      in (file_exists fs (take 4095 (SYSFS_BLOCK @ ''/'' @ name @ (if allow_virtual then '''' else ''/device''))), name))"

subsection \<open>Units and intervals\<close>

text \<open>The argument is what \<open>sysconf\<close> returns; \<open>size >>= 10\<close> is an arithmetic shift.\<close>

function shift_loop :: "int \<Rightarrow> nat" where
  "shift_loop sz = (if sz > 1 then Suc (shift_loop (sz div 2)) else 0)"
  by pat_completeness auto
termination by (relation "measure nat") auto

declare shift_loop.simps [simp del]

definition get_kb_shift :: "int \<Rightarrow> u32" where
  "get_kb_shift pagesize = of_nat (shift_loop (pagesize div 1024))"

definition get_HZ :: "int \<Rightarrow> u32" where
  "get_HZ ticks = of_int ticks"

definition dbl_of_u64 :: "u64 \<Rightarrow> dbl" where
  "dbl_of_u64 w = dbl_of_int (uint w)"

definition dbl_of_u32 :: "u32 \<Rightarrow> dbl" where
  "dbl_of_u32 w = dbl_of_int (uint w)"

definition S_VALUE :: "u32 \<Rightarrow> u64 \<Rightarrow> u64 \<Rightarrow> u64 \<Rightarrow> dbl" where
  "S_VALUE hz m n p = dbl_mul (dbl_div (dbl_of_u64 (n - m)) (dbl_of_u64 p)) (dbl_of_u32 hz)"

definition SP_VALUE :: "u64 \<Rightarrow> u64 \<Rightarrow> u64 \<Rightarrow> dbl" where
  "SP_VALUE m n p = dbl_mul (dbl_div (dbl_of_u64 (n - m)) (dbl_of_u64 p)) (dbl_of_int 100)"

definition ll_sp_value :: "u64 \<Rightarrow> u64 \<Rightarrow> u64 \<Rightarrow> dbl" where
  "ll_sp_value value1 value2 itv = (if value2 < value1 then dbl_zero else SP_VALUE value1 value2 itv)"

definition get_interval :: "u64 \<Rightarrow> u64 \<Rightarrow> u64" where
  "get_interval prev_uptime curr_uptime =
     (let itv = curr_uptime - prev_uptime in if itv = 0 then 1 else itv)"

definition get_per_cpu_interval :: "stats_cpu \<Rightarrow> stats_cpu \<Rightarrow> u64" where
  "get_per_cpu_interval scc scp =
     (let ishift = 0;
          ishift = (if cpu_user scc - cpu_guest scc < cpu_user scp - cpu_guest scp
                    then ishift + ((cpu_user scp - cpu_guest scp) - (cpu_user scc - cpu_guest scc)) else ishift);
          ishift = (if cpu_nice scc - cpu_guest_nice scc < cpu_nice scp - cpu_guest_nice scp
                    then ishift + ((cpu_nice scp - cpu_guest_nice scp) - (cpu_nice scc - cpu_guest_nice scc))
                    else ishift)
      in (cpu_user scc + cpu_nice scc + cpu_sys scc + cpu_iowait scc + cpu_idle scc + cpu_steal scc +
          cpu_hardirq scc + cpu_softirq scc) -
         (cpu_user scp + cpu_nice scp + cpu_sys scp + cpu_iowait scp + cpu_idle scp + cpu_steal scp +
          cpu_hardirq scp + cpu_softirq scp) + ishift)"

definition count_bits :: "string \<Rightarrow> nat" where
  "count_bits bytes = sum_list (map (\<lambda>b. length (filter (bit (byte b)) (rev [0..<8]))) bytes)"

record stats_disk =
  nr_ios :: u64
  rd_sect :: u64
  wr_sect :: u64
  rd_ticks :: u32
  wr_ticks :: u32
  tot_ticks :: u32

record ext_disk_stats =
  util :: dbl
  await :: dbl
  svctm :: dbl
  arqsz :: dbl

definition compute_ext_disk_stats :: "u32 \<Rightarrow> stats_disk \<Rightarrow> stats_disk \<Rightarrow> u64 \<Rightarrow> ext_disk_stats" where
  "compute_ext_disk_stats hz sdc sdp itv =
     (let ios = nr_ios sdc - nr_ios sdp;
          tput = dbl_div (dbl_mul (dbl_of_u64 ios) (dbl_of_u32 hz)) (dbl_of_u64 itv);
          u = dbl_mul (dbl_div (dbl_of_u32 (tot_ticks sdc - tot_ticks sdp)) (dbl_of_u64 itv)) (dbl_of_u32 hz)
      in \<lparr> util = u,
           await = (if ios \<noteq> 0
             then dbl_div (dbl_of_u32 ((rd_ticks sdc - rd_ticks sdp) + (wr_ticks sdc - wr_ticks sdp))) (dbl_of_u64 ios)
             else dbl_zero),
           svctm = (if dbl_le tput dbl_zero \<and> dbl_le dbl_zero tput then dbl_zero else dbl_div u tput),
           arqsz = (if ios \<noteq> 0
             then dbl_div (dbl_of_u64 ((rd_sect sdc - rd_sect sdp) + (wr_sect sdc - wr_sect sdp))) (dbl_of_u64 ios)
             else dbl_zero) \<rparr>)"

definition strtolower :: "string \<Rightarrow> string" where
  "strtolower s = map c_tolower s"

subsection \<open>Persistent device names\<close>

definition get_persistent_type_dir :: "sysfs \<Rightarrow> string \<Rightarrow> string option" where
  "get_persistent_type_dir fs type =
     (let dir = take 31 (''/dev/disk/by'' @ ''-'' @ type) in if readable fs dir then Some dir else None)"

text \<open>\<open>type\<close> is the global \<open>persistent_name_type\<close>; a missing directory is printed with \<open>%s\<close>.\<close>

definition get_persistent_name_path :: "sysfs \<Rightarrow> string \<Rightarrow> string \<Rightarrow> string option outcome" where
  "get_persistent_name_path fs type name =
     (case get_persistent_type_dir fs type of
        None \<Rightarrow> Undef NullDeref
      | Some d \<Rightarrow> (let path = take 4095 (d @ ''/'' @ name)
                   in Val (if file_exists fs path then Some path else None)))"

text \<open>\<open>calloc(n - 1)\<close> makes room for \<open>n - 1\<close> pointers, the last one the terminating NULL.\<close>

definition get_persistent_names :: "sysfs \<Rightarrow> string \<Rightarrow> string list option outcome" where
  "get_persistent_names fs type =
     (case get_persistent_type_dir fs type of
        None \<Rightarrow> Val None
      | Some d \<Rightarrow>
          (case sorted_dir fs d of
             None \<Rightarrow> Val None
           | Some es \<Rightarrow>
               if length es \<le> 2 then Val None
               else (let files = filter (\<lambda>e. e \<noteq> ''.'' \<and> e \<noteq> ''..'') es
                     in if length files < length es - 1 then Val (Some files) else Undef OutOfBounds)))"

text \<open>\<open>basename\<close> of \<open>libgen.h\<close>.\<close>

definition strip_slashes :: "string \<Rightarrow> string" where
  "strip_slashes p = rev (dropWhile (\<lambda>c. c = CHR ''/'') (rev p))"

definition base_name :: "string \<Rightarrow> string" where
  "base_name p =
     (if p = [] then ''.''
      else if strip_slashes p = [] then ''/''
      else rev (takeWhile (\<lambda>c. c \<noteq> CHR ''/'') (rev (strip_slashes p))))"

text \<open>\<open>readlink\<close> into \<open>char target[PATH_MAX]\<close> and the name of the file it points at.\<close>

definition pretty_of_link :: "sysfs \<Rightarrow> string \<Rightarrow> string option" where
  "pretty_of_link fs link =
     (case link_target fs link of
        None \<Rightarrow> None
      | Some t \<Rightarrow> if t = [] \<or> 4096 \<le> length t then None
                  else if base_name t = [] then None else Some (base_name t))"

fun find_persistent :: "sysfs \<Rightarrow> string \<Rightarrow> string \<Rightarrow> string list \<Rightarrow> string outcome" where
  "find_persistent fs type pretty [] = Val []"
| "find_persistent fs type pretty (n # ns) =
     obind (get_persistent_name_path fs type n) (\<lambda>link.
       case (case link of None \<Rightarrow> None | Some l \<Rightarrow> pretty_of_link fs l) of
         None \<Rightarrow> find_persistent fs type pretty ns
       | Some name \<Rightarrow> if take 4096 name = take 4096 pretty then Val (take 4095 n)
                      else find_persistent fs type pretty ns)"

definition get_persistent_name_from_pretty :: "sysfs \<Rightarrow> string \<Rightarrow> string \<Rightarrow> string option outcome" where
  "get_persistent_name_from_pretty fs type pretty =
     obind (get_persistent_names fs type) (\<lambda>names.
       case names of
         None \<Rightarrow> Val None
       | Some ns \<Rightarrow> obind (find_persistent fs type pretty ns) (\<lambda>n. Val (if n = [] then None else Some n)))"

text \<open>
  \<open>get_pretty_name_from_persistent\<close> returns what \<open>basename\<close> returns for its local array: a pointer
  into storage that is gone when the function returns.
\<close>

datatype name_ptr = Null | Dangling

definition get_pretty_name_from_persistent :: "sysfs \<Rightarrow> string \<Rightarrow> string \<Rightarrow> name_ptr outcome" where
  "get_pretty_name_from_persistent fs type persistent =
     obind (get_persistent_name_path fs type persistent) (\<lambda>link.
       Val (case link of
              None \<Rightarrow> Null
            | Some l \<Rightarrow> (case pretty_of_link fs l of None \<Rightarrow> Null | Some _ \<Rightarrow> Dangling)))"

subsection \<open>Coloured output\<close>

datatype stream = Stdout | File

type_synonym pieces = "(stream \<times> string) list"

definition on_file :: "pieces \<Rightarrow> string" where
  "on_file out = concat (map snd (filter (\<lambda>p. fst p = File) out))"

definition on_stdout :: "pieces \<Rightarrow> string" where
  "on_stdout out = concat (map snd (filter (\<lambda>p. fst p = Stdout) out))"

lemma streams_append [simp]:
  "on_file (a @ b) = on_file a @ on_file b" "on_stdout (a @ b) = on_stdout a @ on_stdout b"
  by (simp_all add: on_file_def on_stdout_def)

lemma streams_Cons [simp]:
  "on_file ((st, s) # out) = (if st = File then s else []) @ on_file out"
  "on_stdout ((st, s) # out) = (if st = Stdout then s else []) @ on_stdout out"
  "on_file [] = []" "on_stdout [] = []"
  by (simp_all add: on_file_def on_stdout_def)

record colors =
  sc_percent_high :: string
  sc_percent_low :: string
  sc_zero_int_stat :: string
  sc_int_stat :: string
  sc_item_name :: string
  sc_sa_comment :: string
  sc_sa_restart :: string
  sc_normal :: string

definition ESC :: char where
  "ESC = CHR 0x1B"

definition default_colors :: colors where
  "default_colors = \<lparr> sc_percent_high = ESC # ''[31;1m'', sc_percent_low = ESC # ''[34;1m'',
     sc_zero_int_stat = ESC # ''[33;22m'', sc_int_stat = ESC # ''[33;1m'', sc_item_name = ESC # ''[32;22m'',
     sc_sa_comment = ESC # ''[36;22m'', sc_sa_restart = ESC # ''[31;22m'', sc_normal = ESC # ''[0m'' \<rparr>"

definition no_colors :: colors where
  "no_colors = \<lparr> sc_percent_high = [], sc_percent_low = [], sc_zero_int_stat = [], sc_int_stat = [],
     sc_item_name = [], sc_sa_comment = [], sc_sa_restart = [], sc_normal = [] \<rparr>"

text \<open>One code of \<open>S_COLORS_SGR\<close>; \<open>snprintf(\<dots>, MAX_SGR_LEN, "\e[%sm", p + 2)\<close>.\<close>

definition set_color :: "string \<Rightarrow> colors \<Rightarrow> colors" where
  "set_color p c =
     (let len = length p; sgr = take 15 (ESC # CHR ''['' # drop 2 p @ ''m'')
      in if 7 < len \<or> len < 3 \<or> p ! 1 \<noteq> CHR ''='' \<or> strspn (drop 2 p) '';0123456789'' \<noteq> len - 2 then c
         else if p ! 0 = CHR ''H'' then c \<lparr> sc_percent_high := sgr \<rparr>
         else if p ! 0 = CHR ''M'' then c \<lparr> sc_percent_low := sgr \<rparr>
         else if p ! 0 = CHR ''Z'' then c \<lparr> sc_zero_int_stat := sgr \<rparr>
         else if p ! 0 = CHR ''N'' then c \<lparr> sc_int_stat := sgr \<rparr>
         else if p ! 0 = CHR ''I'' then c \<lparr> sc_item_name := sgr \<rparr>
         else if p ! 0 = CHR ''C'' then c \<lparr> sc_sa_comment := sgr \<rparr>
         else if p ! 0 = CHR ''R'' then c \<lparr> sc_sa_restart := sgr \<rparr>
         else c)"

text \<open>The arguments: \<open>getenv("S_COLORS")\<close>, \<open>getenv("S_COLORS_SGR")\<close> and \<open>isatty\<close>.\<close>

definition init_colors :: "string option \<Rightarrow> string option \<Rightarrow> bool \<Rightarrow> colors \<Rightarrow> colors" where
  "init_colors s_colors s_sgr tty c =
     (case s_colors of
        None \<Rightarrow> no_colors
      | Some e \<Rightarrow>
          if e = ''never'' \<or> (e \<noteq> ''always'' \<and> \<not> tty) then no_colors
          else (case s_sgr of None \<Rightarrow> c | Some g \<Rightarrow> fold set_color (strtok_all (CHR '':'') [] g) c))"

definition cprintf_u64 :: "colors \<Rightarrow> nat \<Rightarrow> u64 list \<Rightarrow> pieces" where
  "cprintf_u64 c width vals =
     concat (map (\<lambda>v. [(Stdout, if v = 0 then sc_zero_int_stat c else sc_int_stat c),
                       (File, CHR '' '' # pad_left (CHR '' '') width (show_u64 v)), (File, sc_normal c)]) vals)"

fun hex_of_nat :: "nat \<Rightarrow> string" where
  "hex_of_nat n = (if n < 16 then [hex_digit n] else hex_of_nat (n div 16) @ [hex_digit (n mod 16)])"

declare hex_of_nat.simps [simp del]

definition cprintf_x :: "colors \<Rightarrow> nat \<Rightarrow> u32 list \<Rightarrow> pieces" where
  "cprintf_x c width vals =
     concat (map (\<lambda>v. [(Stdout, sc_int_stat c),
                       (Stdout, CHR '' '' # pad_left (CHR '' '') width (hex_of_nat (unat v))),
                       (Stdout, sc_normal c)]) vals)"

definition dbl_lit :: "int \<Rightarrow> int \<Rightarrow> dbl" where
  "dbl_lit n d = dbl_of_rat (of_int n / of_int d)"

definition cprintf_f :: "colors \<Rightarrow> nat \<Rightarrow> nat \<Rightarrow> dbl list \<Rightarrow> pieces" where
  "cprintf_f c wi wd vals =
     concat (map (\<lambda>v. [(File, if (dbl_lt v (dbl_lit 5 1000) \<and> dbl_lt (dbl_neg (dbl_lit 5 1000)) v) \<or>
                                 (wd = 0 \<and> dbl_lt v (dbl_lit 1 2)) then sc_zero_int_stat c else sc_int_stat c),
                       (File, CHR '' '' # pad_left (CHR '' '') wi (fmt_f wd v)), (File, sc_normal c)]) vals)"

definition percent_color :: "colors \<Rightarrow> dbl \<Rightarrow> string" where
  "percent_color c v =
     (if dbl_le (dbl_of_int 75) v then sc_percent_high c
      else if dbl_le (dbl_of_int 50) v then sc_percent_low c
      else if dbl_lt v (dbl_lit 5 1000) then sc_zero_int_stat c
      else sc_int_stat c)"

definition cprintf_pc :: "colors \<Rightarrow> nat \<Rightarrow> nat \<Rightarrow> dbl list \<Rightarrow> pieces" where
  "cprintf_pc c wi wd vals =
     concat (map (\<lambda>v. [(File, percent_color c v), (File, CHR '' '' # pad_left (CHR '' '') wi (fmt_f wd v)),
                       (File, sc_normal c)]) vals)"

text \<open>The item is given as formatted by the caller's format.\<close>

definition cprintf_in :: "colors \<Rightarrow> string \<Rightarrow> pieces" where
  "cprintf_in c item = [(File, sc_item_name c), (File, item), (File, sc_normal c)]"

definition cprintf_s :: "colors \<Rightarrow> int \<Rightarrow> string \<Rightarrow> pieces" where
  "cprintf_s c type item =
     [(Stdout, if type = 1 then sc_int_stat c else if type = 4 then sc_zero_int_stat c
               else if type = 2 then sc_sa_restart c else sc_sa_comment c),
      (Stdout, item), (Stdout, sc_normal c)]"

text \<open>The \<open>printf\<close> of the JSON output: \<open>buf\<close> holds 1024 bytes.\<close>

definition prtab :: "nat \<Rightarrow> pieces" where
  "prtab nr_tab = replicate nr_tab (Stdout, [TAB])"

definition xprintf0 :: "nat \<Rightarrow> string \<Rightarrow> pieces" where
  "xprintf0 nr_tab s = prtab nr_tab @ [(Stdout, take 1023 s)]"

definition xprintf :: "nat \<Rightarrow> string \<Rightarrow> pieces" where
  "xprintf nr_tab s = prtab nr_tab @ [(Stdout, take 1023 s @ [LF])]"

subsection \<open>What they compute\<close>

lemma csv_loop_count: "csv_loop s = Suc (count_list (tl s) (CHR '',''))"
proof (induction s rule: csv_loop.induct)
  case (1 t)
  have chr: "strchr u c = (if c \<in> set u then Some (dropWhile (\<lambda>x. x \<noteq> c) u) else None)" for u c
    by (induction u) auto
  have cnt: "count_list u c = Suc (count_list (tl (dropWhile (\<lambda>x. x \<noteq> c) u)) c)" if "c \<in> set u" for u and c :: char
    using that by (induction u) auto
  show ?case
  proof (cases "CHR '','' \<in> set (tl t)")
    case True
    then show ?thesis using "1.IH" cnt [OF True] by (subst csv_loop.simps) (simp add: chr)
  next
    case False
    then have "count_list (tl t) (CHR '','') = 0" by (simp add: count_list_0_iff)
    then show ?thesis using False by (subst csv_loop.simps) (simp add: chr)
  qed
qed

lemma csv_args:
  "(case strchr s (CHR '','') of None \<Rightarrow> 0 | Some _ \<Rightarrow> csv_loop s) =
   (if CHR '','' \<in> set s then Suc (count_list (tl s) (CHR '','')) else 0)"
proof -
  have "strchr s (CHR '','') = None \<longleftrightarrow> CHR '','' \<notin> set s" by (induction s) auto
  then show ?thesis by (cases "strchr s (CHR '','')") (auto simp: csv_loop_count)
qed

text \<open>
  The number of comma separated values of the arguments.
\<close>

lemma csvalues_counted:
  "count_csvalues argv =
     sum_list (map (\<lambda>s. if CHR '','' \<in> set s then Suc (count_list (tl s) (CHR '','')) else 0) (tl argv))"
  by (simp only: count_csvalues_def csv_args)

lemma shift_loop_pow: "shift_loop (2 ^ k) = k"
proof (induction k)
  case (Suc k)
  have "(1 :: int) < 2 ^ Suc k" by (rule one_less_power) simp_all
  with Suc show ?case by (subst shift_loop.simps) simp
qed (simp add: shift_loop.simps)

text \<open>
  The shift from bytes to kilobytes of a page size that is a power of two.
\<close>

lemma kb_shift_page: "get_kb_shift (1024 * 2 ^ k) = of_nat k"
  by (simp add: get_kb_shift_def shift_loop_pow)

definition color_list :: "colors \<Rightarrow> string list" where
  "color_list c = [sc_percent_high c, sc_percent_low c, sc_zero_int_stat c, sc_int_stat c, sc_item_name c,
     sc_sa_comment c, sc_sa_restart c, sc_normal c]"

text \<open>An escape sequence \<open>ESC [ codes m\<close>, or none.\<close>

definition is_sgr :: "string \<Rightarrow> bool" where
  "is_sgr s \<longleftrightarrow> s = [] \<or> (\<exists>g. s = ESC # CHR ''['' # g @ ''m'' \<and> set g \<subseteq> set '';0123456789'')"

definition colors_fit :: "colors \<Rightarrow> bool" where
  "colors_fit c \<longleftrightarrow> (\<forall>s\<in>set (color_list c). is_sgr s \<and> length s < 16)"

lemma strspn_all: "strspn s a = length s \<longleftrightarrow> set s \<subseteq> set a"
proof
  assume "strspn s a = length s"
  then have "takeWhile (\<lambda>c. c \<in> set a) s = s"
    unfolding strspn_def by (metis takeWhile_eq_take take_all order_refl)
  then show "set s \<subseteq> set a" by (metis set_takeWhileD subsetI)
qed (auto simp: strspn_def takeWhile_eq_all_conv [THEN iffD2] subset_iff)

lemma set_color_fit:
  assumes "colors_fit c"
  shows "colors_fit (set_color p c)"
proof (cases "7 < length p \<or> length p < 3 \<or> p ! 1 \<noteq> CHR ''='' \<or> strspn (drop 2 p) '';0123456789'' \<noteq> length p - 2")
  case True
  with assms show ?thesis by (simp only: set_color_def Let_def if_True)
next
  case False
  then have "set (drop 2 p) \<subseteq> set '';0123456789''" "length p \<le> 7" using strspn_all [of "drop 2 p"] by auto
  then have "is_sgr (ESC # CHR ''['' # drop 2 p @ ''m'')" "length (ESC # CHR ''['' # drop 2 p @ ''m'') < 16"
    by (auto simp: is_sgr_def)
  moreover from this have "take 15 (ESC # CHR ''['' # drop 2 p @ ''m'') = ESC # CHR ''['' # drop 2 p @ ''m''"
    by (intro take_all) simp
  ultimately show ?thesis using False assms
    by (simp only: set_color_def Let_def if_False) (simp add: colors_fit_def color_list_def)
qed

text \<open>
  Whatever the environment variables S_COLORS and S_COLORS_SGR hold, each of the six colour buffers
  still holds a terminal escape sequence that fits it.
\<close>

lemma colors_stay_sequences:
  assumes "colors_fit c"
  shows "colors_fit (init_colors s_colors s_sgr tty c)"
proof -
  have "colors_fit (fold set_color ps c)" if "colors_fit c" for ps c
    using that by (induction ps arbitrary: c) (auto intro: set_color_fit)
  moreover have "colors_fit no_colors" by (simp add: colors_fit_def color_list_def no_colors_def is_sgr_def)
  ultimately show ?thesis using assms by (simp add: init_colors_def split: option.splits)
qed

subsection \<open>Persistent names\<close>

text \<open>The device the entry \<open>n\<close> of the directory \<open>d\<close> stands for.\<close>

definition device_of :: "sysfs \<Rightarrow> string \<Rightarrow> string \<Rightarrow> string option" where
  "device_of fs d n =
     (if file_exists fs (d @ ''/'' @ n)
      then (case link_target fs (d @ ''/'' @ n) of
              None \<Rightarrow> None
            | Some t \<Rightarrow> if t = [] \<or> 4096 \<le> length t then None else Some (base_name t))
      else None)"

lemma base_name_props: "p \<noteq> [] \<Longrightarrow> base_name p \<noteq> []" "p \<noteq> [] \<Longrightarrow> length (base_name p) \<le> length p"
proof -
  have "rev (takeWhile (\<lambda>c. c \<noteq> CHR ''/'') (rev (strip_slashes p))) \<noteq> []" if "strip_slashes p \<noteq> []"
  proof -
    let ?r = "dropWhile (\<lambda>c. c = CHR ''/'') (rev p)"
    have "?r \<noteq> []" using that by (simp add: strip_slashes_def)
    then have "hd ?r \<noteq> CHR ''/''" by (rule hd_dropWhile)
    with \<open>?r \<noteq> []\<close> show ?thesis by (cases ?r) (simp_all add: strip_slashes_def)
  qed
  then show "p \<noteq> [] \<Longrightarrow> base_name p \<noteq> []" by (simp add: base_name_def)
  have "length (rev (takeWhile Q (rev (strip_slashes p)))) \<le> length p" for Q
    using length_takeWhile_le [of Q "rev (strip_slashes p)"] length_dropWhile_le [of "\<lambda>c. c = CHR ''/''" "rev p"]
    by (simp add: strip_slashes_def del: length_dropWhile_le' length_takeWhile_le)
  then show "p \<noteq> [] \<Longrightarrow> length (base_name p) \<le> length p"
    by (cases p) (simp_all add: base_name_def)
qed

lemma find_persistent_find:
  assumes "get_persistent_type_dir fs type = Some d" "\<forall>n\<in>set ns. length n < 256" "length pretty < 4096"
  shows "find_persistent fs type pretty ns =
    Val (case List.find (\<lambda>n. device_of fs d n = Some pretty) ns of None \<Rightarrow> [] | Some n \<Rightarrow> n)"
  using assms(2)
proof (induction ns)
  case (Cons n ns)
  have d: "length d \<le> 31" using assms(1) by (auto simp: get_persistent_type_dir_def Let_def split: if_splits)
  then have path: "take 4095 (d @ ''/'' @ n) = d @ ''/'' @ n" "take 4095 n = n"
    using Cons.prems by (auto intro!: take_all)
  let ?l = "d @ ''/'' @ n"
  show ?case
  proof (cases "file_exists fs ?l \<and> (\<exists>t. link_target fs ?l = Some t \<and> t \<noteq> [] \<and> length t < 4096)")
    case True
    then obtain t where t: "link_target fs ?l = Some t" "t \<noteq> []" "length t < 4096" "file_exists fs ?l" by auto
    then have "base_name t \<noteq> []" "length (base_name t) < 4096" using base_name_props [of t] by auto
    then show ?thesis using t path assms(1,3) Cons
      by (simp add: get_persistent_name_path_def pretty_of_link_def device_of_def)
  next
    case False
    then have "device_of fs d n = None" by (auto simp: device_of_def split: option.splits)
    moreover have "find_persistent fs type pretty (n # ns) = find_persistent fs type pretty ns"
      using False assms(1) path(1)
      by (cases "file_exists fs ?l") (auto simp: get_persistent_name_path_def pretty_of_link_def Let_def split: option.splits)
    ultimately show ?thesis using Cons by simp
  qed
qed simp

text \<open>
  Looking up the persistent name of a device returns the first entry of the sorted directory
  /dev/disk/by-type, other than the two dot entries, whose link leads to that device, and none when
  there is no such entry.
\<close>

lemma persistent_name_found:
  assumes "get_persistent_type_dir fs type = Some d" "sorted_dir fs d = Some es" "{''.'', ''..''} \<subseteq> set es"
    "\<forall>n\<in>set es. n \<noteq> [] \<and> length n < 256" "length pretty < 4096"
  shows "get_persistent_name_from_pretty fs type pretty =
    Val (List.find (\<lambda>n. device_of fs d n = Some pretty) (filter (\<lambda>e. e \<noteq> ''.'' \<and> e \<noteq> ''..'') es))"
proof -
  let ?f = "filter (\<lambda>e. e \<noteq> ''.'' \<and> e \<noteq> ''..'') es"
  let ?g = "filter (\<lambda>e. \<not> (e \<noteq> ''.'' \<and> e \<noteq> ''..'')) es"
  have "{''.'', ''..''} \<subseteq> set ?g" using assms(3) by auto
  then have "card {''.'', ''..''} \<le> length ?g"
    by (meson List.finite_set card_length card_mono le_trans)
  then have "2 \<le> length ?g" by simp
  then have len: "length ?f + 2 \<le> length es" using sum_length_filter_compl [of "\<lambda>e. e \<noteq> ''.'' \<and> e \<noteq> ''..''" es] by linarith
  then have names: "get_persistent_names fs type = Val (if length es \<le> 2 then None else Some ?f)"
    using assms(1,2) by (auto simp: get_persistent_names_def Let_def)
  have "List.find P ?f = Some n \<Longrightarrow> n \<noteq> []" for P n
    using assms(4) by (metis find_Some_iff nth_mem filter_is_subset subsetD)
  then show ?thesis
  proof (cases "length es \<le> 2")
    case True
    with len have "length ?f = 0" by linarith
    then have "?f = []" by (simp only: length_0_conv)
    then show ?thesis using True names by (simp add: get_persistent_name_from_pretty_def)
  next
    case False
    have "find_persistent fs type pretty ?f = Val (case List.find (\<lambda>n. device_of fs d n = Some pretty) ?f of None \<Rightarrow> [] | Some n \<Rightarrow> n)"
      using assms by (intro find_persistent_find) auto
    with False names \<open>\<And>P n. List.find P ?f = Some n \<Longrightarrow> n \<noteq> []\<close> show ?thesis
      by (auto simp: get_persistent_name_from_pretty_def split: option.splits)
  qed
qed

end
