(* ===== verification/Mpstat.thy ===== *)
theory Mpstat
  imports SysstatCalc
begin

text \<open>
  The \<open>mpstat\<close> command (\<open>mpstat.c\<close>): the samples it keeps, reading \<open>/proc/interrupts\<close>, the reports in
  plain and in JSON form, the command line and the main loop. Samples 0 and 1 alternate, sample 2
  keeps the first one for the averages. In every sample entry 0 of \<open>s_cpu\<close> and \<open>s_irq\<close> is the
  machine, entry \<open>n + 1\<close> is processor \<open>n\<close>.
\<close>

unbundle bit_operations_syntax

record stats_irqcpu =
  interrupt :: u32
  irq_name :: string

record sample =
  s_cpu :: "stats_cpu list"
  s_irq :: "u64 list"
  s_irqcpu :: "stats_irqcpu list"
  s_softirq :: "stats_irqcpu list"
  s_uptime :: u64
  s_uptime0 :: u64
  s_time :: string

definition zero_irqcpu :: stats_irqcpu where
  "zero_irqcpu = \<lparr> interrupt = 0, irq_name = [] \<rparr>"

definition salloc_mp_struct :: "nat \<Rightarrow> nat \<Rightarrow> nat \<Rightarrow> sample \<times> string" where
  "salloc_mp_struct nr_cpus irqcpu_nr softirqcpu_nr =
     (\<lparr> s_cpu = replicate nr_cpus zero_cpu, s_irq = replicate nr_cpus 0,
        s_irqcpu = replicate (nr_cpus * irqcpu_nr) zero_irqcpu,
        s_softirq = replicate (nr_cpus * softirqcpu_nr) zero_irqcpu,
        s_uptime = 0, s_uptime0 = 0, s_time = [] \<rparr>,
      replicate (nr_cpus div 8 + 1) NUL)"

text \<open>\<open>*(cpu_bitmap + (cpu >> 3)) & (1 << (cpu & 0x07))\<close>\<close>

definition cpu_wanted :: "string \<Rightarrow> nat \<Rightarrow> bool" where
  "cpu_wanted bitmap cpu = bit (byte (bitmap ! (cpu div 8))) (cpu mod 8)"

text \<open>The sum that is zero for a processor \<open>/proc/stat\<close> does not list.\<close>

definition cpu_total :: "stats_cpu \<Rightarrow> u64" where
  "cpu_total c = cpu_user c + cpu_nice c + cpu_sys c + cpu_iowait c + cpu_idle c + cpu_steal c +
     cpu_hardirq c + cpu_softirq c"

subsection \<open>CPU statistics\<close>

text \<open>The ten percentages of a row.\<close>

definition cpu_columns :: "stats_cpu \<Rightarrow> stats_cpu \<Rightarrow> u64 \<Rightarrow> dbl list" where
  "cpu_columns scc scp itv =
     [if cpu_user scc - cpu_guest scc < cpu_user scp - cpu_guest scp then dbl_zero
      else ll_sp_value (cpu_user scp - cpu_guest scp) (cpu_user scc - cpu_guest scc) itv,
      if cpu_nice scc - cpu_guest_nice scc < cpu_nice scp - cpu_guest_nice scp then dbl_zero
      else ll_sp_value (cpu_nice scp - cpu_guest_nice scp) (cpu_nice scc - cpu_guest_nice scc) itv,
      ll_sp_value (cpu_sys scp) (cpu_sys scc) itv,
      ll_sp_value (cpu_iowait scp) (cpu_iowait scc) itv,
      ll_sp_value (cpu_hardirq scp) (cpu_hardirq scc) itv,
      ll_sp_value (cpu_softirq scp) (cpu_softirq scc) itv,
      ll_sp_value (cpu_steal scp) (cpu_steal scc) itv,
      ll_sp_value (cpu_guest scp) (cpu_guest scc) itv,
      ll_sp_value (cpu_guest_nice scp) (cpu_guest_nice scc) itv,
      if cpu_idle scc < cpu_idle scp then dbl_zero else ll_sp_value (cpu_idle scp) (cpu_idle scc) itv]"

definition row_label :: "colors \<Rightarrow> string \<Rightarrow> nat \<Rightarrow> pieces" where
  "row_label c curr_string cpu =
     (File, pad_right (CHR '' '') 11 curr_string) #
     cprintf_in c (CHR '' '' # pad_left (CHR '' '') 4 (dec_of_int (int cpu - 1)))"

definition plain_cpu_row :: "colors \<Rightarrow> bool \<Rightarrow> string \<Rightarrow> nat \<Rightarrow> stats_cpu \<Rightarrow> stats_cpu \<Rightarrow> pieces" where
  "plain_cpu_row c online curr_string cpu scc scp =
     (if cpu_total scc = 0
      then (if online then []
            else row_label c curr_string cpu @ cprintf_pc c 7 2 (replicate 10 dbl_zero) @ [(File, [LF])])
      else row_label c curr_string cpu @
        (let pc_itv = get_per_cpu_interval scc scp
         in if pc_itv = 0 then cprintf_pc c 7 2 (replicate 9 dbl_zero @ [dbl_of_int 100])
            else cprintf_pc c 7 2 (cpu_columns scc scp pc_itv)) @ [(File, [LF])])"

definition write_plain_cpu_stats ::
  "colors \<Rightarrow> bool \<Rightarrow> string \<Rightarrow> nat \<Rightarrow> bool \<Rightarrow> u64 \<Rightarrow> sample \<Rightarrow> sample \<Rightarrow> string \<Rightarrow> string \<Rightarrow> pieces" where
  "write_plain_cpu_stats c online bitmap cpu_nr dis g_itv prev cur prev_string curr_string =
     (if dis then [(File, LF # pad_right (CHR '' '') 11 prev_string @
        ''  CPU    %usr   %nice    %sys %iowait    %irq   %soft  %steal  %guest  %gnice   %idle'' @ [LF])] else []) @
     (if cpu_wanted bitmap 0
      then [(File, pad_right (CHR '' '') 11 curr_string)] @ cprintf_in c ''  all'' @
           cprintf_pc c 7 2 (cpu_columns (s_cpu cur ! 0) (s_cpu prev ! 0) g_itv) @ [(File, [LF])] else []) @
     concat (map (\<lambda>cpu. if cpu_wanted bitmap cpu
                        then plain_cpu_row c online curr_string cpu (s_cpu cur ! cpu) (s_cpu prev ! cpu) else [])
                 [1..<Suc cpu_nr])"

definition quoted :: "string \<Rightarrow> string" where
  "quoted s = DQUOTE # s @ [DQUOTE]"

definition cpu_json :: "string \<Rightarrow> string list \<Rightarrow> string" where
  "cpu_json name vals =
     ''{'' @ quoted ''cpu'' @ '': '' @ quoted name @
     concat (map (\<lambda>(k, v). '', '' @ quoted k @ '': '' @ v)
       (zip [''usr'', ''nice'', ''sys'', ''iowait'', ''irq'', ''soft'', ''steal'', ''guest'', ''gnice'', ''idle''] vals)) @
     ''}''"

definition json_cpu_row :: "bool \<Rightarrow> nat \<Rightarrow> nat \<Rightarrow> stats_cpu \<Rightarrow> stats_cpu \<Rightarrow> pieces" where
  "json_cpu_row online tab cpu scc scp =
     (let name = dec_of_int (int cpu - 1)
      in if cpu_total scc = 0
         then (if online then [] else xprintf0 tab (cpu_json name (replicate 10 ''0.00'')))
         else (let pc_itv = get_per_cpu_interval scc scp
               in if pc_itv = 0 then xprintf0 tab (cpu_json name (replicate 9 ''0.00'' @ [''100.00'']))
                  else xprintf0 tab (cpu_json name (map (fmt_f 2) (cpu_columns scc scp pc_itv)))))"

text \<open>The loop over the processors with the flag \<open>next\<close>; \<open>row\<close> writes the entry of one.\<close>

fun json_rows :: "string \<Rightarrow> (nat \<Rightarrow> pieces) \<Rightarrow> bool \<Rightarrow> nat list \<Rightarrow> pieces" where
  "json_rows bitmap row nxt [] = []"
| "json_rows bitmap row nxt (cpu # cpus) =
     (if cpu_wanted bitmap cpu
      then (if nxt then [(Stdout, '','' @ [LF])] else []) @ row cpu @ json_rows bitmap row True cpus
      else json_rows bitmap row nxt cpus)"

definition write_json_cpu_stats ::
  "bool \<Rightarrow> string \<Rightarrow> nat \<Rightarrow> nat \<Rightarrow> u64 \<Rightarrow> sample \<Rightarrow> sample \<Rightarrow> pieces" where
  "write_json_cpu_stats online bitmap cpu_nr tab g_itv prev cur =
     xprintf tab (quoted ''cpu-load'' @ '': ['') @
     (if cpu_wanted bitmap 0
      then xprintf0 (Suc tab) (cpu_json ''all'' (map (fmt_f 2) (cpu_columns (s_cpu cur ! 0) (s_cpu prev ! 0) g_itv)))
      else []) @
     json_rows bitmap (\<lambda>cpu. json_cpu_row online (Suc tab) cpu (s_cpu cur ! cpu) (s_cpu prev ! cpu))
       (cpu_wanted bitmap 0) [1..<Suc cpu_nr] @
     [(Stdout, [LF])] @ xprintf0 tab '']''"

subsection \<open>Totals of interrupts\<close>

definition plain_isum_row ::
  "colors \<Rightarrow> bool \<Rightarrow> u32 \<Rightarrow> string \<Rightarrow> u64 \<Rightarrow> nat \<Rightarrow> stats_cpu \<Rightarrow> stats_cpu \<Rightarrow> u64 \<Rightarrow> u64 \<Rightarrow> pieces" where
  "plain_isum_row c online hz curr_string itv cpu scc scp sic sip =
     (if cpu_total scc = 0
      then (if online then [] else row_label c curr_string cpu @ cprintf_f c 9 2 [dbl_zero] @ [(File, [LF])])
      else row_label c curr_string cpu @
        (if get_per_cpu_interval scc scp = 0 then cprintf_f c 9 2 [dbl_zero]
         else cprintf_f c 9 2 [S_VALUE hz sip sic itv]) @ [(File, [LF])])"

definition write_plain_isumcpu_stats ::
  "colors \<Rightarrow> bool \<Rightarrow> u32 \<Rightarrow> string \<Rightarrow> nat \<Rightarrow> bool \<Rightarrow> u64 \<Rightarrow> sample \<Rightarrow> sample \<Rightarrow> string \<Rightarrow> string \<Rightarrow> pieces" where
  "write_plain_isumcpu_stats c online hz bitmap cpu_nr dis itv prev cur prev_string curr_string =
     (if dis then [(File, LF # pad_right (CHR '' '') 11 prev_string @ ''  CPU    intr/s'' @ [LF])] else []) @
     (if cpu_wanted bitmap 0
      then [(File, DQUOTE # pad_right (CHR '' '') 11 curr_string)] @ cprintf_in c ''  all'' @
           cprintf_f c 9 2 [S_VALUE hz (s_irq prev ! 0) (s_irq cur ! 0) itv] @ [(File, [LF])] else []) @
     concat (map (\<lambda>cpu. if cpu_wanted bitmap cpu
                        then plain_isum_row c online hz curr_string itv cpu (s_cpu cur ! cpu) (s_cpu prev ! cpu)
                               (s_irq cur ! cpu) (s_irq prev ! cpu) else []) [1..<Suc cpu_nr])"

definition isum_json :: "string \<Rightarrow> string \<Rightarrow> string" where
  "isum_json name val = ''{'' @ quoted ''cpu'' @ '': '' @ quoted name @ '', '' @ quoted ''intr'' @ '': '' @ val @ ''}''"

definition json_isum_row ::
  "bool \<Rightarrow> u32 \<Rightarrow> nat \<Rightarrow> u64 \<Rightarrow> nat \<Rightarrow> stats_cpu \<Rightarrow> stats_cpu \<Rightarrow> u64 \<Rightarrow> u64 \<Rightarrow> pieces" where
  "json_isum_row online hz tab itv cpu scc scp sic sip =
     (let name = dec_of_int (int cpu - 1)
      in if cpu_total scc = 0 then (if online then [] else xprintf0 tab (isum_json name ''0.00''))
         else if get_per_cpu_interval scc scp = 0 then xprintf0 tab (isum_json name ''0.00'')
         else xprintf0 tab (isum_json name (fmt_f 2 (S_VALUE hz sip sic itv))))"

definition write_json_isumcpu_stats ::
  "bool \<Rightarrow> u32 \<Rightarrow> string \<Rightarrow> nat \<Rightarrow> nat \<Rightarrow> u64 \<Rightarrow> sample \<Rightarrow> sample \<Rightarrow> pieces" where
  "write_json_isumcpu_stats online hz bitmap cpu_nr tab itv prev cur =
     xprintf tab (quoted ''sum-interrupts'' @ '': ['') @
     (if cpu_wanted bitmap 0
      then xprintf0 (Suc tab) (isum_json ''all'' (fmt_f 2 (S_VALUE hz (s_irq prev ! 0) (s_irq cur ! 0) itv))) else []) @
     json_rows bitmap (\<lambda>cpu. json_isum_row online hz (Suc tab) itv cpu (s_cpu cur ! cpu) (s_cpu prev ! cpu)
         (s_irq cur ! cpu) (s_irq prev ! cpu))
       (cpu_wanted bitmap 0) [1..<Suc cpu_nr] @
     [(Stdout, [LF])] @ xprintf0 tab '']''"

subsection \<open>Each interrupt\<close>

text \<open>What every function reads of the options and of the machine.\<close>

record mp_conf =
  c_colors :: colors
  c_actflags :: u32
  c_flags :: u32
  c_interval :: int
  c_bitmap :: string
  c_cpu_nr :: nat
  c_irqcpu_nr :: nat
  c_softirqcpu_nr :: nat
  c_hz :: u32

definition flag_set :: "u32 \<Rightarrow> u32 \<Rightarrow> bool" where
  "flag_set m f \<longleftrightarrow> m AND f = f"

abbreviation M_D_CPU :: u32 where "M_D_CPU \<equiv> 1"
abbreviation M_D_IRQ_SUM :: u32 where "M_D_IRQ_SUM \<equiv> 2"
abbreviation M_D_IRQ_CPU :: u32 where "M_D_IRQ_CPU \<equiv> 4"
abbreviation M_D_SOFTIRQS :: u32 where "M_D_SOFTIRQS \<equiv> 8"
abbreviation F_P_OPTION :: u32 where "F_P_OPTION \<equiv> 1"
abbreviation F_P_ON :: u32 where "F_P_ON \<equiv> 2"
abbreviation F_JSON_OUTPUT :: u32 where "F_JSON_OUTPUT \<equiv> 4"

definition S_VALUE32 :: "u32 \<Rightarrow> u32 \<Rightarrow> u32 \<Rightarrow> u64 \<Rightarrow> dbl" where
  "S_VALUE32 hz m n p = dbl_mul (dbl_div (dbl_of_u32 (n - m)) (dbl_of_u64 p)) (dbl_of_u32 hz)"

text \<open>The interrupts up to the first one without a name.\<close>

definition irqs_shown :: "stats_irqcpu list \<Rightarrow> nat \<Rightarrow> nat list" where
  "irqs_shown ic ic_nr = takeWhile (\<lambda>j. irq_name (ic ! j) \<noteq> []) [0..<ic_nr]"

text \<open>The rate of interrupt \<open>j\<close> on a processor; the interrupt may have had another place before.\<close>

definition irq_rate ::
  "u32 \<Rightarrow> int \<Rightarrow> u64 \<Rightarrow> nat \<Rightarrow> stats_irqcpu list \<Rightarrow> stats_irqcpu list \<Rightarrow> nat \<Rightarrow> nat \<Rightarrow> dbl" where
  "irq_rate hz interval itv ic_nr prev cur cpu j =
     (let n = irq_name (cur ! j);
          offset = (if n \<noteq> irq_name (prev ! j) \<and> interval \<noteq> 0
                    then length (takeWhile (\<lambda>k. irq_name (prev ! k) \<noteq> n) [0..<ic_nr]) else j);
          p = interrupt (cur ! ((cpu - 1) * ic_nr + j))
      in if interval = 0 \<or> offset < ic_nr
         then S_VALUE32 hz (interrupt (prev ! ((cpu - 1) * ic_nr + offset))) p itv
         else S_VALUE32 hz 0 p itv)"

text \<open>The processors reported: all, or the ones asked for with \<open>-P\<close>; with \<open>-P ON\<close> only those online.\<close>

definition irq_cpus :: "mp_conf \<Rightarrow> sample \<Rightarrow> nat list" where
  "irq_cpus cf cur =
     filter (\<lambda>cpu. (cpu_wanted (c_bitmap cf) cpu \<or> \<not> flag_set (c_flags cf) F_P_OPTION) \<and>
                   (cpu_total (s_cpu cur ! cpu) \<noteq> 0 \<or> \<not> flag_set (c_flags cf) F_P_ON)) [1..<Suc (c_cpu_nr cf)]"

text \<open>\<open>colwidth\<close> is an array of \<open>NR_IRQS\<close> (1024) elements on the stack, filled for every \<open>j < ic_nr\<close>.\<close>

definition write_plain_irqcpu_stats ::
  "mp_conf \<Rightarrow> (sample \<Rightarrow> stats_irqcpu list) \<Rightarrow> nat \<Rightarrow> bool \<Rightarrow> u64 \<Rightarrow> sample \<Rightarrow> sample \<Rightarrow> string \<Rightarrow> string \<Rightarrow> pieces outcome" where
  "write_plain_irqcpu_stats cf st_ic ic_nr dis itv prev cur prev_string cur_string =
     (let shown = irqs_shown (st_ic cur) ic_nr; name = (\<lambda>j. irq_name (st_ic cur ! j));
          changed = (\<not> dis \<and> c_interval cf \<noteq> 0 \<and> list_ex (\<lambda>j. name j \<noteq> irq_name (st_ic prev ! j)) [0..<ic_nr])
      in if 1024 < ic_nr then Undef OutOfBounds
         else Val (
           (if dis \<or> changed
            then (File, LF # pad_right (CHR '' '') 11 prev_string @ ''  CPU'') #
                 map (\<lambda>j. (File, CHR '' '' # pad_left (CHR '' '') 8 (name j) @ ''/s'')) shown @ [(File, [LF])]
            else []) @
           concat (map (\<lambda>cpu.
             (File, pad_right (CHR '' '') 11 cur_string) #
             cprintf_in (c_colors cf) (''  '' @ pad_left (CHR '' '') 3 (dec_of_int (int cpu - 1))) @
             concat (map (\<lambda>j. cprintf_f (c_colors cf) (max 10 (length (name j) + 2)) 2
               [irq_rate (c_hz cf) (c_interval cf) itv ic_nr (st_ic prev) (st_ic cur) cpu j]) shown) @
             [(File, [LF])]) (irq_cpus cf cur))))"

definition irq_json :: "string \<Rightarrow> string \<Rightarrow> string" where
  "irq_json name val = ''{'' @ quoted ''name'' @ '': '' @ quoted name @ '', '' @ quoted ''value'' @ '': '' @ val @ ''}''"

text \<open>The entries of a JSON list: \<open>",\n"\<close> between them.\<close>

fun json_sep :: "pieces list \<Rightarrow> pieces" where
  "json_sep [] = []"
| "json_sep [p] = p"
| "json_sep (p # ps) = p @ [(Stdout, '','' @ [LF])] @ json_sep ps"

definition write_json_irqcpu_stats ::
  "mp_conf \<Rightarrow> nat \<Rightarrow> (sample \<Rightarrow> stats_irqcpu list) \<Rightarrow> nat \<Rightarrow> u64 \<Rightarrow> sample \<Rightarrow> sample \<Rightarrow> u32 \<Rightarrow> pieces" where
  "write_json_irqcpu_stats cf tab st_ic ic_nr itv prev cur type =
     xprintf tab (quoted (if type = M_D_IRQ_CPU then ''individual-interrupts'' else ''soft-interrupts'') @ '': ['') @
     json_sep (map (\<lambda>cpu.
       xprintf (tab + 1) (''{'' @ quoted ''cpu'' @ '': '' @ quoted (dec_of_int (int cpu - 1)) @ '', '' @ quoted ''intr'' @ '': ['') @
       json_sep (map (\<lambda>j. xprintf0 (tab + 2) (irq_json (irq_name (st_ic cur ! j))
         (fmt_f 2 (irq_rate (c_hz cf) (c_interval cf) itv ic_nr (st_ic prev) (st_ic cur) cpu j))))
         (irqs_shown (st_ic cur) ic_nr)) @
       [(Stdout, [LF])] @ xprintf0 (tab + 1) ''] }'') (irq_cpus cf cur)) @
     [(Stdout, [LF])] @ xprintf0 tab '']''"

subsection \<open>One report\<close>

text \<open>\<open>plain\<close> and \<open>json\<close> forms of an activity; \<open>nxt\<close> is the flag \<open>*next\<close>.\<close>

definition write_activity :: "mp_conf \<Rightarrow> bool \<Rightarrow> pieces outcome \<Rightarrow> pieces \<Rightarrow> bool \<Rightarrow> (pieces \<times> bool) outcome" where
  "write_activity cf act plain json nxt =
     (if \<not> act then Val ([], nxt)
      else if flag_set (c_flags cf) F_JSON_OUTPUT
      then Val ((if nxt then [(Stdout, '','' @ [LF])] else []) @ json, True)
      else obind plain (\<lambda>out. Val (out, nxt)))"

definition fix_offline :: "nat \<Rightarrow> stats_cpu list \<Rightarrow> stats_cpu list \<Rightarrow> stats_cpu list" where
  "fix_offline cpu_nr prev cur =
     map (\<lambda>cpu. if 1 \<le> cpu \<and> cpu \<le> cpu_nr \<and> cpu_total (cur ! cpu) = 0 then prev ! cpu else cur ! cpu) [0..<length cur]"

text \<open>The text written and the current sample with its offline processors put back.\<close>

definition write_stats_core ::
  "mp_conf \<Rightarrow> sample \<Rightarrow> sample \<Rightarrow> bool \<Rightarrow> string \<Rightarrow> string \<Rightarrow> (pieces \<times> sample) outcome" where
  "write_stats_core cf prev cur dis prev_string cur_string =
     (let js = flag_set (c_flags cf) F_JSON_OUTPUT; on = flag_set (c_flags cf) F_P_ON;
          tab = (if js then 5 else 4); n = c_cpu_nr cf; bm = c_bitmap cf; c = c_colors cf; hz = c_hz cf;
          g_itv = get_interval (s_uptime prev) (s_uptime cur);
          itv = (if 1 < n then get_interval (s_uptime0 prev) (s_uptime0 cur) else g_itv)
      in obind (write_activity cf (flag_set (c_actflags cf) M_D_CPU)
           (Val (write_plain_cpu_stats c on bm n dis g_itv prev cur prev_string cur_string))
           (write_json_cpu_stats on bm n tab g_itv prev cur) False) (\<lambda>(o1, x1).
         obind (write_activity cf (flag_set (c_actflags cf) M_D_IRQ_SUM)
           (Val (write_plain_isumcpu_stats c on hz bm n dis itv prev cur prev_string cur_string))
           (write_json_isumcpu_stats on hz bm n tab itv prev cur) x1) (\<lambda>(o2, x2).
         obind (write_activity cf (flag_set (c_actflags cf) M_D_IRQ_CPU)
           (write_plain_irqcpu_stats cf s_irqcpu (c_irqcpu_nr cf) dis itv prev cur prev_string cur_string)
           (write_json_irqcpu_stats cf tab s_irqcpu (c_irqcpu_nr cf) itv prev cur M_D_IRQ_CPU) x2) (\<lambda>(o3, x3).
         obind (write_activity cf (flag_set (c_actflags cf) M_D_SOFTIRQS)
           (write_plain_irqcpu_stats cf s_softirq (c_softirqcpu_nr cf) dis itv prev cur prev_string cur_string)
           (write_json_irqcpu_stats cf tab s_softirq (c_softirqcpu_nr cf) itv prev cur M_D_SOFTIRQS) x3) (\<lambda>(o4, x4).
         Val ((if js then xprintf 4 ''{'' @
                 xprintf 5 (quoted ''timestamp'' @ '': '' @ quoted cur_string @ '','') else []) @
              o1 @ o2 @ o3 @ o4 @
              (if js then [(Stdout, [LF])] @ xprintf0 4 ''}'' else []),
              cur \<lparr> s_cpu := fix_offline n (s_cpu prev) (s_cpu cur) \<rparr>))))))"

definition write_stats :: "mp_conf \<Rightarrow> sample \<Rightarrow> sample \<Rightarrow> bool \<Rightarrow> (pieces \<times> sample) outcome" where
  "write_stats cf prev cur dis = write_stats_core cf prev cur dis (s_time prev) (s_time cur)"

definition write_stats_avg :: "mp_conf \<Rightarrow> sample \<Rightarrow> sample \<Rightarrow> bool \<Rightarrow> (pieces \<times> sample) outcome" where
  "write_stats_avg cf first cur dis = write_stats_core cf first cur dis ''Average:'' ''Average:''"

subsection \<open>Reading interrupts\<close>

text \<open>The numbers after \<open>CPU\<close> in the header; \<open>strtol\<close> that finds no digits is 0 and the scan goes on there.\<close>

fun header_cpus :: "nat \<Rightarrow> string \<Rightarrow> int list" where
  "header_cpus 0 next = []"
| "header_cpus (Suc room) next =
     (case strstr next ''CPU'' of
        None \<Rightarrow> []
      | Some cp \<Rightarrow>
          (case scan_int (drop 3 cp) of
             None \<Rightarrow> 0 # header_cpus room (drop 3 cp)
           | Some (v, r) \<Rightarrow> v # header_cpus room r))"

fun find_header :: "nat \<Rightarrow> string list \<Rightarrow> int list \<times> string list" where
  "find_header cpu_nr [] = ([], [])"
| "find_header cpu_nr (l # ls) =
     (let h = header_cpus cpu_nr l in if h \<noteq> [] then (h, ls) else find_header cpu_nr ls)"

fun irq_counts :: "int list \<Rightarrow> string \<Rightarrow> (int \<times> u32) list" where
  "irq_counts [] cp = []"
| "irq_counts (k # ks) cp =
     (case scan_uint cp of
        None \<Rightarrow> (k, 0) # irq_counts ks cp
      | Some (v, r) \<Rightarrow> (k, ucast v) # irq_counts ks r)"

type_synonym irq_store = "stats_irqcpu list \<times> u64 list"

definition store_count :: "nat \<Rightarrow> nat \<Rightarrow> int \<times> u32 \<Rightarrow> irq_store \<Rightarrow> irq_store outcome" where
  "store_count ic_nr irq kv st =
     (case kv of (k, v) \<Rightarrow> case st of (ic, tot) \<Rightarrow>
        let pos = nat k * ic_nr + irq
        in if k < 0 \<or> length ic \<le> pos \<or> length tot \<le> nat k + 1 then Undef OutOfBounds
           else Val (ic[pos := (ic ! pos) \<lparr> interrupt := v \<rparr>],
                     tot[nat k + 1 := tot ! (nat k + 1) + ucast v]))"

fun store_counts :: "nat \<Rightarrow> nat \<Rightarrow> (int \<times> u32) list \<Rightarrow> irq_store \<Rightarrow> irq_store outcome" where
  "store_counts ic_nr irq [] st = Val st"
| "store_counts ic_nr irq (kv # kvs) st = obind (store_count ic_nr irq kv st) (store_counts ic_nr irq kvs)"

definition store_name :: "nat \<Rightarrow> string \<Rightarrow> irq_store \<Rightarrow> irq_store outcome" where
  "store_name j name st =
     (case st of (ic, tot) \<Rightarrow> if length ic \<le> j then Undef OutOfBounds
                              else Val (ic[j := (ic ! j) \<lparr> irq_name := name \<rparr>], tot))"

definition line_name :: "string \<Rightarrow> string" where
  "line_name line =
     (let li = dropWhile (\<lambda>c. c = CHR '' '') line; len = strcspn li '':''
      in take (if 16 \<le> len then 15 else len) li)"

fun irq_lines :: "nat \<Rightarrow> int list \<Rightarrow> string list \<Rightarrow> nat \<Rightarrow> irq_store \<Rightarrow> (nat \<times> irq_store) outcome" where
  "irq_lines ic_nr idx [] irq st = Val (irq, st)"
| "irq_lines ic_nr idx (l # ls) irq st =
     (if ic_nr \<le> irq then Val (irq, st)
      else case strchr l (CHR '':'') of
             None \<Rightarrow> irq_lines ic_nr idx ls irq st
           | Some cp \<Rightarrow>
               obind (store_name irq (line_name l) st) (\<lambda>st1.
               obind (store_counts ic_nr irq (irq_counts idx (tl cp)) st1) (\<lambda>st2.
               irq_lines ic_nr idx ls (Suc irq) st2)))"

fun clear_names :: "nat list \<Rightarrow> irq_store \<Rightarrow> irq_store outcome" where
  "clear_names [] st = Val st"
| "clear_names (j # js) st = obind (store_name j [] st) (clear_names js)"

definition read_interrupts_stat :: "string option \<Rightarrow> nat \<Rightarrow> nat \<Rightarrow> irq_store \<Rightarrow> irq_store outcome" where
  "read_interrupts_stat file cpu_nr ic_nr st =
     (case st of (ic, tot) \<Rightarrow>
        let st0 = (ic, map (\<lambda>i. if 1 \<le> i \<and> i \<le> cpu_nr then 0 else tot ! i) [0..<length tot])
        in obind (case file of
                    None \<Rightarrow> Val (0, st0)
                  | Some s \<Rightarrow> (case find_header cpu_nr (fgets_lines (128 + 11 * cpu_nr) s) of
                                 (idx, rest) \<Rightarrow> irq_lines ic_nr idx rest 0 st0))
             (\<lambda>(irq, st1). clear_names [irq..<ic_nr] st1))"

subsection \<open>The main loop\<close>

text \<open>What the files hold and the clock shows when a sample is taken. \<open>None\<close>: the file cannot be opened.\<close>

record reading =
  r_stat :: "string list option"
  r_uptime :: "string list option"
  r_interrupts :: "string option"
  r_softirqs :: "string option"
  r_time :: string

text \<open>A run that may end the process: \<open>None\<close> is an exit (\<open>/proc/stat\<close> cannot be opened).\<close>

definition rbind :: "'a outcome option \<Rightarrow> ('a \<Rightarrow> 'b outcome option) \<Rightarrow> 'b outcome option" where
  "rbind m f = (case m of None \<Rightarrow> None | Some (Undef u) \<Rightarrow> Some (Undef u) | Some (Val x) \<Rightarrow> f x)"

lemma rbind_simps [simp]:
  "rbind None f = None" "rbind (Some (Undef u)) f = Some (Undef u)" "rbind (Some (Val x)) f = f x"
  by (simp_all add: rbind_def)

definition take_sample :: "mp_conf \<Rightarrow> reading \<Rightarrow> sample \<Rightarrow> sample outcome option" where
  "take_sample cf r s =
     (let act = c_actflags cf; n = c_cpu_nr cf; irq_sum = flag_set act M_D_IRQ_SUM in
      rbind (Some (if 1 < n then read_uptime (ucast (c_hz cf)) (r_uptime r) 0 else Val (s_uptime0 s))) (\<lambda>up0.
      rbind (read_stat_cpu (r_stat r) (s_cpu s) (int n + 1) (s_uptime s) up0) (\<lambda>(cpus, up, up0).
      rbind (Some (if irq_sum then read_stat_irq 1 (case r_stat r of None \<Rightarrow> [] | Some ls \<Rightarrow> ls) (s_irq s)
                   else Val (s_irq s))) (\<lambda>irq.
      rbind (Some (if irq_sum \<or> flag_set act M_D_IRQ_CPU
                   then read_interrupts_stat (r_interrupts r) n (c_irqcpu_nr cf) (s_irqcpu s, irq)
                   else Val (s_irqcpu s, irq))) (\<lambda>(ic, irq).
      rbind (Some (if flag_set act M_D_SOFTIRQS
                   then read_interrupts_stat (r_softirqs r) n (c_softirqcpu_nr cf) (s_softirq s, irq)
                   else Val (s_softirq s, irq))) (\<lambda>(sic, irq).
      Some (Val \<lparr> s_cpu = cpus, s_irq = irq, s_irqcpu = ic, s_softirq = sic, s_uptime = up, s_uptime0 = up0,
                  s_time = r_time r \<rparr>)))))))"

definition json_trailer :: pieces where
  "json_trailer = [(Stdout, LF # replicate 3 TAB @ '']'' @ LF # replicate 2 TAB @ ''}'' @ LF # TAB # '']'' @ LF # ''}}'' @ [LF])]"

definition clear_cpus :: "nat \<Rightarrow> sample \<Rightarrow> sample" where
  "clear_cpus n s = s \<lparr> s_cpu := map (\<lambda>i. if 1 \<le> i \<and> i \<le> n then zero_cpu else s_cpu s ! i) [0..<length (s_cpu s)] \<rparr>"

text \<open>What follows the loop: the averages since the first sample.\<close>

definition mp_finish :: "mp_conf \<Rightarrow> bool \<Rightarrow> (nat \<Rightarrow> sample) \<Rightarrow> nat \<Rightarrow> pieces outcome option" where
  "mp_finish cf dis_hdr bufs cur =
     (if flag_set (c_flags cf) F_JSON_OUTPUT then Some (Val json_trailer)
      else rbind (Some (write_stats_avg cf (bufs 2) (bufs cur) dis_hdr)) (\<lambda>(out, _). Some (Val out)))"

text \<open>
  Each element of the last argument is the reading of one turn and whether the \<open>pause\<close> that follows
  ends with an interrupt from the user. When the list is used up the process waits in \<open>pause\<close>.
\<close>

fun mp_loop ::
  "mp_conf \<Rightarrow> bool \<Rightarrow> nat \<Rightarrow> int \<Rightarrow> nat \<Rightarrow> nat \<Rightarrow> (nat \<Rightarrow> sample) \<Rightarrow> (reading \<times> bool) list \<Rightarrow> pieces outcome option" where
  "mp_loop cf dis_hdr rows cnt lines cur bufs [] = Some (Val [])"
| "mp_loop cf dis_hdr rows cnt lines cur bufs ((r, sigint) # rs) =
     rbind (take_sample cf r (clear_cpus (c_cpu_nr cf) (bufs cur))) (\<lambda>s.
       let dis = (dis_hdr \<or> 0 < lines div rows);
           lines = (if dis_hdr then lines else Suc (if 0 < lines div rows then lines mod rows else lines))
       in rbind (Some (write_stats cf (bufs (1 - cur)) s dis)) (\<lambda>(out, s).
          let bufs = bufs(cur := s);
              cnt = (if 0 < cnt then cnt - 1 else cnt)
          in rbind
               (if cnt = 0 then mp_finish cf dis_hdr bufs cur
                else rbind
                  (if sigint then rbind (mp_finish cf dis_hdr bufs cur) (\<lambda>o2. Some (Val ((Stdout, [LF]) # o2)))
                   else mp_loop cf dis_hdr rows cnt lines (1 - cur) bufs rs)
                  (\<lambda>o2. Some (Val ((if flag_set (c_flags cf) F_JSON_OUTPUT then [(Stdout, '','' @ [LF])] else []) @ o2))))
               (\<lambda>o2. Some (Val (out @ o2)))))"

definition rw_mpstat_loop ::
  "mp_conf \<Rightarrow> bool \<Rightarrow> nat \<Rightarrow> int \<Rightarrow> reading \<Rightarrow> (reading \<times> bool) list \<Rightarrow> pieces outcome option" where
  "rw_mpstat_loop cf dis_hdr rows cnt first rs =
     (let s0 = fst (salloc_mp_struct (c_cpu_nr cf + 1) (c_irqcpu_nr cf) (c_softirqcpu_nr cf))
      in rbind (take_sample cf first s0) (\<lambda>s.
         if c_interval cf = 0
         then rbind (Some (write_stats cf (s0 \<lparr> s_time := s_time s \<rparr>) s True)) (\<lambda>(out, _).
                Some (Val (out @ (if flag_set (c_flags cf) F_JSON_OUTPUT then json_trailer else []))))
         else mp_loop cf dis_hdr rows cnt rows 1 (\<lambda>i. if i = 0 \<or> i = 2 then s else s0) rs))"

end
