(* ===== verification/MpstatOpt.thy ===== *)
theory MpstatOpt
  imports Mpstat
begin

text \<open>
  The command line of \<open>mpstat\<close> (\<open>mpstat_main\<close>): options, the bitmap of the processors asked for, the
  defaults, and the run of the command on what the machine shows.
\<close>

record mp_opts =
  o_actflags :: u32
  o_flags :: u32
  o_interval :: int
  o_count :: int
  o_actset :: bool
  o_dis_hdr :: int
  o_bitmap :: string

text \<open>How the command ends before its loop: \<open>usage\<close>, a processor there is not, the version, or undefined.\<close>

datatype mp_stop = Usage | NotThatMany | PrintVersion | Bad ub

type_synonym 'a parse = "mp_stop + 'a"

definition sbind :: "'e + 'a \<Rightarrow> ('a \<Rightarrow> 'e + 'b) \<Rightarrow> 'e + 'b" where
  "sbind m f = (case m of Inl e \<Rightarrow> Inl e | Inr x \<Rightarrow> f x)"

lemma sbind_simps [simp]: "sbind (Inl e) f = Inl e" "sbind (Inr x) f = f x"
  by (simp_all add: sbind_def)

fun sfold :: "('x \<Rightarrow> 'a \<Rightarrow> 'e + 'a) \<Rightarrow> 'x list \<Rightarrow> 'a \<Rightarrow> 'e + 'a" where
  "sfold f [] a = Inr a"
| "sfold f (x # xs) a = sbind (f x a) (sfold f xs)"

definition all_bits :: "nat \<Rightarrow> string" where
  "all_bits cpu_nr = replicate ((cpu_nr + 1) div 8 + 1) (CHR 0xFF)"

definition set_bit_at :: "nat \<Rightarrow> string \<Rightarrow> string" where
  "set_bit_at i bm = bm[i div 8 := char_of (or (byte (bm ! (i div 8))) (2 ^ (i mod 8)))]"

definition only_digits :: "string \<Rightarrow> bool" where
  "only_digits s \<longleftrightarrow> strspn s ''0123456789'' = length s"

text \<open>\<open>atoi\<close> and \<open>atol\<close> of a string of digits.\<close>

definition atoi :: "string \<Rightarrow> int" where
  "atoi s = sint (of_int (strtol_value False s) :: 32 word)"

definition atol :: "string \<Rightarrow> int" where
  "atol s = strtol_value False s"

definition irq_option :: "string \<Rightarrow> mp_opts \<Rightarrow> mp_opts parse" where
  "irq_option t st =
     (if t = ''SUM'' then Inr (st \<lparr> o_actflags := o_actflags st OR M_D_IRQ_SUM \<rparr>)
      else if t = ''CPU'' then Inr (st \<lparr> o_actflags := o_actflags st OR M_D_IRQ_CPU \<rparr>)
      else if t = ''SCPU'' then Inr (st \<lparr> o_actflags := o_actflags st OR M_D_SOFTIRQS \<rparr>)
      else if t = ''ALL''
      then Inr (st \<lparr> o_actflags := o_actflags st OR (M_D_IRQ_SUM + M_D_IRQ_CPU + M_D_SOFTIRQS) \<rparr>)
      else Inl Usage)"

definition cpu_option :: "nat \<Rightarrow> string \<Rightarrow> mp_opts \<Rightarrow> mp_opts parse" where
  "cpu_option cpu_nr t st =
     (if t = ''ALL'' \<or> t = ''ON''
      then (let st = (if cpu_nr \<noteq> 0 then st \<lparr> o_dis_hdr := 9 \<rparr> else st);
                st = st \<lparr> o_bitmap := all_bits cpu_nr \<rparr>
            in Inr (if t = ''ON'' then st \<lparr> o_flags := o_flags st OR F_P_ON \<rparr> else st))
      else if \<not> only_digits t then Inl Usage
      else (let i = atoi t
            in if int cpu_nr \<le> i then Inl NotThatMany
               else if i + 1 < 0 then Inl (Bad OutOfBounds)
               else Inr (st \<lparr> o_bitmap := set_bit_at (nat (i + 1)) (o_bitmap st) \<rparr>)))"

definition letter_option :: "nat \<Rightarrow> char \<Rightarrow> mp_opts \<Rightarrow> mp_opts parse" where
  "letter_option cpu_nr c st =
     (if c = CHR ''A''
      then Inr (st \<lparr> o_actflags := o_actflags st OR (M_D_CPU + M_D_IRQ_SUM + M_D_IRQ_CPU + M_D_SOFTIRQS),
                     o_actset := True, o_flags := o_flags st OR F_P_OPTION, o_bitmap := all_bits cpu_nr \<rparr>)
      else if c = CHR ''u'' then Inr (st \<lparr> o_actflags := o_actflags st OR M_D_CPU \<rparr>)
      else if c = CHR ''V'' then Inl PrintVersion
      else Inl Usage)"

fun parse_options :: "nat \<Rightarrow> string list \<Rightarrow> mp_opts \<Rightarrow> mp_opts parse" where
  "parse_options cpu_nr [] st = Inr st"
| "parse_options cpu_nr (a # args) st =
     (if a = ''-I''
      then (case args of
              [] \<Rightarrow> Inl Usage
            | v # rest \<Rightarrow> sbind (sfold irq_option (strtok_all (CHR '','') [] v) (st \<lparr> o_actset := True \<rparr>))
                (parse_options cpu_nr rest))
      else if a = ''-o''
      then (case args of
              [] \<Rightarrow> Inl Usage
            | v # rest \<Rightarrow> if v = ''JSON'' then parse_options cpu_nr rest (st \<lparr> o_flags := o_flags st OR F_JSON_OUTPUT \<rparr>)
                          else Inl Usage)
      else if a = ''-P''
      then (case args of
              [] \<Rightarrow> Inl Usage
            | v # rest \<Rightarrow> sbind (sfold (cpu_option cpu_nr) (strtok_all (CHR '','') [] v)
                  (st \<lparr> o_flags := o_flags st OR F_P_OPTION, o_dis_hdr := o_dis_hdr st + 1 \<rparr>))
                (parse_options cpu_nr rest))
      else if has_prefix ''-'' a
      then sbind (sfold (letter_option cpu_nr) (tl a) st) (parse_options cpu_nr args)
      else if o_interval st < 0
      then (if \<not> only_digits a then Inl Usage
            else parse_options cpu_nr args (st \<lparr> o_interval := atol a, o_count := -1 \<rparr>))
      else if o_count st \<le> 0
      then (if \<not> only_digits a \<or> o_interval st = 0 \<or> atol a < 1 then Inl Usage
            else parse_options cpu_nr args (st \<lparr> o_count := atol a \<rparr>))
      else Inl Usage)"

definition word_bytes :: "u32 \<Rightarrow> string" where
  "word_bytes w = map (\<lambda>i. char_of (unat (drop_bit (8 * i) w) mod 256)) [0..<4]"

text \<open>The defaults; \<open>win_height\<close> is what \<open>get_win_height\<close> returns. The result has the rows of the screen.\<close>

definition set_defaults :: "nat \<Rightarrow> mp_opts \<Rightarrow> mp_opts \<times> nat" where
  "set_defaults win_height st =
     (let st = (if o_actset st then st else st \<lparr> o_actflags := o_actflags st OR M_D_CPU \<rparr>);
          st = (if count_bits (word_bytes (o_actflags st)) > 1 then st \<lparr> o_dis_hdr := 9 \<rparr> else st);
          st = (if flag_set (o_flags st) F_P_OPTION then st else st \<lparr> o_bitmap := (o_bitmap st)[0 := CHR 0x01] \<rparr>);
          st = (if o_dis_hdr st < 0 then st \<lparr> o_dis_hdr := 0 \<rparr> else st);
          rows = (if o_dis_hdr st = 0 then win_height else 23);
          st = (if o_interval st < 0 then st \<lparr> o_interval := 0 \<rparr> else st)
      in (st, rows))"

definition initial_opts :: "nat \<Rightarrow> mp_opts" where
  "initial_opts cpu_nr =
     \<lparr> o_actflags = 0, o_flags = 0, o_interval = -1, o_count = 0, o_actset = False, o_dis_hdr = -1,
       o_bitmap = snd (salloc_mp_struct (cpu_nr + 1) 0 0) \<rparr>"

text \<open>What the command finds on the machine when it starts.\<close>

record machine =
  m_s_colors :: "string option"
  m_s_sgr :: "string option"
  m_tty :: bool
  m_ticks :: int
  m_sys_cpus :: "(string \<times> bool) list option"
  m_stat :: "string list option"
  m_interrupts :: "string list option"
  m_softirqs :: "string list option"
  m_win_height :: nat
  m_header :: string

text \<open>The report after the banner (\<open>m_header\<close>); the outer option is an exit without a report.\<close>

definition mpstat_conf :: "machine \<Rightarrow> nat \<Rightarrow> mp_opts \<Rightarrow> mp_conf" where
  "mpstat_conf m cpu_nr st =
     \<lparr> c_colors = init_colors (m_s_colors m) (m_s_sgr m) (m_tty m) default_colors,
       c_actflags = o_actflags st, c_flags = o_flags st, c_interval = o_interval st, c_bitmap = o_bitmap st,
       c_cpu_nr = cpu_nr,
       c_irqcpu_nr = get_irqcpu_nr 1024 (m_interrupts m) + 3,
       c_softirqcpu_nr = get_irqcpu_nr 1024 (m_softirqs m) + 3,
       c_hz = get_HZ (m_ticks m) \<rparr>"

definition mpstat_main ::
  "machine \<Rightarrow> string list \<Rightarrow> reading \<Rightarrow> (reading \<times> bool) list \<Rightarrow> (pieces outcome option) parse" where
  "mpstat_main m argv first rs =
     (case get_cpu_nr True (m_sys_cpus m) (m_stat m) of
        None \<Rightarrow> Inr None
      | Some (Undef u) \<Rightarrow> Inl (Bad u)
      | Some (Val n) \<Rightarrow>
          sbind (parse_options (nat n) (tl argv) (initial_opts (nat n))) (\<lambda>st.
            case set_defaults (m_win_height m) st of
              (st, rows) \<Rightarrow>
                Inr (rbind (rw_mpstat_loop (mpstat_conf m (nat n) st) (o_dis_hdr st \<noteq> 0) rows (o_count st) first rs)
                       (\<lambda>out. Some (Val ((File, m_header m) # out))))))"

end
