(* ===== verification/MpstatProps.thy ===== *)
theory MpstatProps
  imports MpstatOpt
begin

text \<open>
  What \<open>mpstat\<close> shows: the percentages of a row are parts of one interval, the JSON lists are well
  formed unless offline processors are left out, the report is made without waiting for the
  interval, and the command line selects the processors it names.
\<close>

subsection \<open>Percentages\<close>

definition percent :: "u64 \<Rightarrow> u64 \<Rightarrow> dbl" where
  "percent part whole = dbl_mul (dbl_div (dbl_of_u64 part) (dbl_of_u64 whole)) (dbl_of_int 100)"

text \<open>What a row divides among its columns; time handed back by the guest counters counts as none.\<close>

definition clamped_diff :: "u64 \<Rightarrow> u64 \<Rightarrow> u64" where
  "clamped_diff before now = (if now < before then 0 else now - before)"

definition row_parts :: "stats_cpu \<Rightarrow> stats_cpu \<Rightarrow> u64 list" where
  "row_parts scc scp =
     [clamped_diff (cpu_user scp - cpu_guest scp) (cpu_user scc - cpu_guest scc),
      clamped_diff (cpu_nice scp - cpu_guest_nice scp) (cpu_nice scc - cpu_guest_nice scc),
      cpu_sys scc - cpu_sys scp, cpu_iowait scc - cpu_iowait scp, cpu_hardirq scc - cpu_hardirq scp,
      cpu_softirq scc - cpu_softirq scp, cpu_steal scc - cpu_steal scp, cpu_guest scc - cpu_guest scp,
      cpu_guest_nice scc - cpu_guest_nice scp, cpu_idle scc - cpu_idle scp]"

definition counters_grow :: "stats_cpu \<Rightarrow> stats_cpu \<Rightarrow> bool" where
  "counters_grow scp scc \<longleftrightarrow>
     cpu_sys scp \<le> cpu_sys scc \<and> cpu_iowait scp \<le> cpu_iowait scc \<and> cpu_hardirq scp \<le> cpu_hardirq scc \<and>
     cpu_softirq scp \<le> cpu_softirq scc \<and> cpu_steal scp \<le> cpu_steal scc \<and> cpu_guest scp \<le> cpu_guest scc \<and>
     cpu_guest_nice scp \<le> cpu_guest_nice scc \<and> cpu_idle scp \<le> cpu_idle scc"

lemma pow2_minus_52: "pow2 (int m - 52) \<le> 2 ^ m"
proof (cases "52 \<le> m")
  case True
  then have "pow2 (int m - 52) = 2 ^ (m - 52)" by (simp add: pow2_def nat_diff_distrib)
  also have "\<dots> \<le> 2 ^ m" by (intro power_increasing) simp_all
  finally show ?thesis .
next
  case False
  then have "pow2 (int m - 52) = 1 / 2 ^ (52 - m)" by (simp add: pow2_def nat_diff_distrib)
  also have "\<dots> \<le> 1" by simp
  also have "\<dots> \<le> 2 ^ m" by simp
  finally show ?thesis .
qed

lemma round_mag_of_nat_pos:
  assumes "0 < n" "round_mag (of_nat n) = Some r"
  shows "0 < r"
proof -
  let ?u = "pow2 (max (ilog2 (of_nat n)) (-1022) - 52)"
  have u0: "0 < ?u" by (simp add: pow2_def)
  have e: "max (ilog2 (of_nat n)) (-1022) = int (bitlen n - 1)"
    using assms(1) bitlen_pos [of n] by (simp add: ilog2_of_nat of_nat_diff)
  have "?u \<le> 2 ^ (bitlen n - 1)"
    unfolding e by (rule pow2_minus_52)
  also have "(2 :: rat) ^ (bitlen n - 1) = of_nat (2 ^ (bitlen n - 1))" by simp
  also have "\<dots> \<le> of_nat n" using bitlen_lower [OF assms(1)] by (simp only: of_nat_le_iff)
  finally have "1 \<le> of_nat n / ?u" using u0 by simp
  then have "1 \<le> round_half_even (of_nat n / ?u)"
    unfolding round_half_even_def Let_def by (auto simp: le_floor_iff)
  then have "0 < of_int (round_half_even (of_nat n / ?u)) * ?u" using u0 by simp
  then show ?thesis using assms by (auto simp: round_mag_def Let_def split: if_splits)
qed

lemma dbl_of_u64_pos:
  assumes "w \<noteq> 0"
  shows "dbl_of_u64 w = Inf False \<or> (\<exists>r > 0. dbl_of_u64 w = Fin False r)"
proof -
  have n: "0 < unat w" using assms by (simp add: unat_gt_0)
  have "(of_int (uint w) :: rat) = of_nat (unat w)" by simp
  then have "dbl_of_u64 w = dbl_of_rat (of_nat (unat w))" by (simp only: dbl_of_u64_def dbl_of_int_def)
  moreover have "dbl_of_rat (of_nat k) = dbl_round False (of_nat k)" for k by (simp add: dbl_of_rat_def)
  ultimately have "dbl_of_u64 w = dbl_round False (of_nat (unat w))" by (simp only:)
  then show ?thesis using round_mag_of_nat_pos [OF n] by (auto simp: dbl_round_def split: option.splits)
qed

lemma percent_zero: "whole \<noteq> 0 \<Longrightarrow> percent 0 whole = dbl_zero"
proof -
  have "dbl_of_u64 0 = dbl_zero" by (simp add: dbl_of_u64_def dbl_of_int_exact)
  moreover have "dbl_of_int 100 = Fin False 100" by (simp add: dbl_of_int_exact)
  moreover have "dbl_round False 0 = dbl_zero" by (simp add: dbl_round_def round_mag_def)
  ultimately show "whole \<noteq> 0 \<Longrightarrow> percent 0 whole = dbl_zero"
    using dbl_of_u64_pos [of whole] by (auto simp: percent_def)
qed

lemma ll_sp_value_percent: "itv \<noteq> 0 \<Longrightarrow> ll_sp_value m n itv = percent (clamped_diff m n) itv"
  by (simp add: ll_sp_value_def clamped_diff_def SP_VALUE_def percent_zero) (simp add: percent_def)

lemma row_parts_sum: "sum_list (row_parts scc scp) = get_per_cpu_interval scc scp"
  by (simp add: row_parts_def clamped_diff_def get_per_cpu_interval_def Let_def)

text \<open>
  C17: The columns of a processor in an mpstat report. While the counters grow, the interval is the
  sum of the ten shares, and each column is the percentage of its share in that sum: guest time is
  counted once although the kernel also adds it to the user time.
\<close>

theorem cpu_row_adds_up:
  assumes "counters_grow scp scc" "get_per_cpu_interval scc scp \<noteq> 0"
  shows "cpu_columns scc scp (get_per_cpu_interval scc scp) =
      map (\<lambda>d. percent d (sum_list (row_parts scc scp))) (row_parts scc scp)"
proof -
  have p: "ll_sp_value m n (get_per_cpu_interval scc scp) = percent (n - m) (get_per_cpu_interval scc scp)"
    if "m \<le> n" for m n
    using that assms(2) by (simp add: ll_sp_value_percent clamped_diff_def leD)
  show ?thesis
    using assms unfolding cpu_columns_def row_parts_sum
    by (simp add: row_parts_def clamped_diff_def counters_grow_def p leD percent_zero not_less)
qed

subsection \<open>The JSON lists\<close>

lemma json_rows_sep:
  "json_rows bitmap row nxt cpus =
     (let rows = map row (filter (cpu_wanted bitmap) cpus)
      in if nxt \<and> rows \<noteq> [] then [(Stdout, '','' @ [LF])] @ json_sep rows else json_sep rows)"
proof (induction cpus arbitrary: nxt)
  case (Cons cpu cpus)
  have "json_sep (p # ps) = p @ (if ps \<noteq> [] then [(Stdout, '','' @ [LF])] @ json_sep ps else json_sep ps)" for p ps
    by (cases ps) simp_all
  with Cons show ?case by (simp add: Let_def)
qed simp

definition json_list :: "nat \<Rightarrow> string \<Rightarrow> pieces list \<Rightarrow> pieces" where
  "json_list tab key rows = xprintf tab (quoted key @ '': ['') @ json_sep rows @ [(Stdout, [LF])] @ xprintf0 tab '']''"

definition total_entry :: "string \<Rightarrow> nat \<Rightarrow> u64 \<Rightarrow> sample \<Rightarrow> sample \<Rightarrow> pieces list" where
  "total_entry bitmap tab g_itv prev cur =
     (if cpu_wanted bitmap 0
      then [xprintf0 (Suc tab) (cpu_json ''all'' (map (fmt_f 2) (cpu_columns (s_cpu cur ! 0) (s_cpu prev ! 0) g_itv)))]
      else [])"

lemma write_json_cpu_stats_list:
  "write_json_cpu_stats online bitmap cpu_nr tab g_itv prev cur =
     json_list tab ''cpu-load'' (total_entry bitmap tab g_itv prev cur @
       map (\<lambda>cpu. json_cpu_row online (Suc tab) cpu (s_cpu cur ! cpu) (s_cpu prev ! cpu))
         (filter (cpu_wanted bitmap) [1..<Suc cpu_nr]))"
proof -
  have "json_sep (p # ps) = p @ (if ps \<noteq> [] then [(Stdout, '','' @ [LF])] @ json_sep ps else json_sep ps)" for p ps
    by (cases ps) simp_all
  then show ?thesis
    by (simp add: write_json_cpu_stats_def json_rows_sep json_list_def total_entry_def Let_def del: upt_Suc)
qed

text \<open>The entry of a processor, or nothing at all for one that is offline with \<open>-P ON\<close>.\<close>

lemma json_sep_append: "ps \<noteq> [] \<Longrightarrow> json_sep (ps @ [p]) = json_sep ps @ [(Stdout, '','' @ [LF])] @ p"
  by (induction ps rule: json_sep.induct) simp_all

text \<open>
  With -P ON and the last processor offline the JSON report ends its list with a comma and no entry
  after it, which is no JSON.
\<close>

lemma json_online_dangling_comma:
  assumes "cpu_total (s_cpu cur ! cpu_nr) = 0" "cpu_wanted bitmap cpu_nr" "cpu_wanted bitmap 0" "0 < cpu_nr"
  shows "\<exists>entries. on_stdout (write_json_cpu_stats True bitmap cpu_nr tab g_itv prev cur) =
     replicate tab TAB @ quoted ''cpu-load'' @ '': ['' @ [LF] @ entries @
     '','' @ [LF] @ [LF] @ replicate tab TAB @ '']''"
proof -
  have tabs: "on_stdout (prtab n) = replicate n TAB" for n
    by (induction n) (simp_all add: prtab_def)
  obtain m where m: "cpu_nr = Suc m" using assms(4) by (cases cpu_nr) auto
  let ?row = "\<lambda>cpu. json_cpu_row True (Suc tab) cpu (s_cpu cur ! cpu) (s_cpu prev ! cpu)"
  let ?init = "total_entry bitmap tab g_itv prev cur @ map ?row (filter (cpu_wanted bitmap) [1..<Suc m])"
  have rows: "total_entry bitmap tab g_itv prev cur @ map ?row (filter (cpu_wanted bitmap) [1..<Suc cpu_nr]) = ?init @ [[]]"
    using assms(1,2) by (simp add: m json_cpu_row_def Let_def)
  have "?init \<noteq> []" using assms(3) by (simp add: total_entry_def)
  then have "write_json_cpu_stats True bitmap cpu_nr tab g_itv prev cur =
      xprintf tab (quoted ''cpu-load'' @ '': ['') @ (json_sep ?init @ [(Stdout, '','' @ [LF])]) @
      [(Stdout, [LF])] @ xprintf0 tab '']''"
    unfolding write_json_cpu_stats_list rows json_list_def by (subst json_sep_append) simp_all
  then show ?thesis
    by (intro exI [of _ "on_stdout (json_sep ?init)"]) (simp add: xprintf_def xprintf0_def tabs quoted_def)
qed

definition entry_of :: "pieces \<Rightarrow> bool" where
  "entry_of p \<longleftrightarrow> (\<exists>tabs name vals. on_stdout p = tabs @ take 1023 (cpu_json name vals) \<and> length vals = 10)"

text \<open>
  The JSON report of the processors is a well-formed list, with one entry for every selected
  processor and a comma between two entries, unless an offline processor is dropped under -P ON.
\<close>

lemma json_all_entries:
  assumes "\<forall>cpu\<in>{1..cpu_nr}. cpu_wanted bitmap cpu \<and> online \<longrightarrow> cpu_total (s_cpu cur ! cpu) \<noteq> 0"
  shows "\<exists>rows. write_json_cpu_stats online bitmap cpu_nr tab g_itv prev cur = json_list tab ''cpu-load'' rows \<and>
     (\<forall>p\<in>set rows. entry_of p) \<and>
     length rows = length (filter (cpu_wanted bitmap) [0..<Suc cpu_nr])"
proof -
  have tabs: "on_stdout (prtab n) = replicate n TAB" for n
    by (induction n) (simp_all add: prtab_def)
  have entry: "length vals = 10 \<Longrightarrow> entry_of (xprintf0 n (cpu_json name vals))" for n name vals
    unfolding entry_of_def by (intro exI [of _ "replicate n TAB"] exI [of _ name] exI [of _ vals]) (simp add: xprintf0_def tabs)
  have cols: "length (cpu_columns scc scp itv) = 10" for scc scp itv
    by (simp add: cpu_columns_def)
  let ?rows = "total_entry bitmap tab g_itv prev cur @
       map (\<lambda>cpu. json_cpu_row online (Suc tab) cpu (s_cpu cur ! cpu) (s_cpu prev ! cpu))
         (filter (cpu_wanted bitmap) [1..<Suc cpu_nr])"
  have "entry_of p" if "p \<in> set ?rows" for p
    using that assms by (auto simp: total_entry_def json_cpu_row_def Let_def entry cols split: if_splits)
  moreover have "[0..<Suc cpu_nr] = 0 # [1..<Suc cpu_nr]" by (simp add: upt_conv_Cons del: upt_Suc)
  then have "length ?rows = length (filter (cpu_wanted bitmap) [0..<Suc cpu_nr])"
    by (simp add: total_entry_def del: upt_Suc)
  ultimately show ?thesis using write_json_cpu_stats_list by blast
qed

subsection \<open>One run\<close>

lemma flags_cpu [simp]:
  "flag_set M_D_CPU M_D_CPU" "\<not> flag_set M_D_CPU M_D_IRQ_SUM" "\<not> flag_set M_D_CPU M_D_IRQ_CPU"
  "\<not> flag_set M_D_CPU M_D_SOFTIRQS"
  by (simp_all add: flag_set_def)

abbreviation plain_report :: "mp_conf \<Rightarrow> bool \<Rightarrow> sample \<Rightarrow> sample \<Rightarrow> string \<Rightarrow> string \<Rightarrow> pieces" where
  "plain_report cf dis prev cur prev_string cur_string \<equiv>
     write_plain_cpu_stats (c_colors cf) (flag_set (c_flags cf) F_P_ON) (c_bitmap cf) (c_cpu_nr cf) dis
       (get_interval (s_uptime prev) (s_uptime cur)) prev cur prev_string cur_string"

definition offline_fixed :: "mp_conf \<Rightarrow> sample \<Rightarrow> sample \<Rightarrow> sample" where
  "offline_fixed cf prev cur = cur \<lparr> s_cpu := fix_offline (c_cpu_nr cf) (s_cpu prev) (s_cpu cur) \<rparr>"

lemma write_stats_core_cpu:
  assumes "c_actflags cf = M_D_CPU" "\<not> flag_set (c_flags cf) F_JSON_OUTPUT"
  shows "write_stats_core cf prev cur dis prev_string cur_string =
    Val (plain_report cf dis prev cur prev_string cur_string, offline_fixed cf prev cur)"
  using assms by (simp add: write_stats_core_def write_activity_def Let_def offline_fixed_def)

lemma unchanged_cpu_row:
  assumes "cpu_total scc \<noteq> 0"
  shows "plain_cpu_row c online str cpu scc scc =
    row_label c str cpu @ cprintf_pc c 7 2 (replicate 9 dbl_zero @ [dbl_of_int 100]) @ [(File, [LF])]"
proof -
  have "get_per_cpu_interval scc scc = 0" by (simp add: get_per_cpu_interval_def)
  with assms show ?thesis by (simp add: plain_cpu_row_def)
qed

definition first_buffers :: "mp_conf \<Rightarrow> sample" where
  "first_buffers cf = fst (salloc_mp_struct (c_cpu_nr cf + 1) (c_irqcpu_nr cf) (c_softirqcpu_nr cf))"

text \<open>
  mpstat with an interval and a count of one takes its two samples without waiting for the interval.
  If no counter changed between them the report and the average are printed at once and every
  processor row shows nine zero columns and one hundred percent idle.
\<close>

lemma one_report_without_waiting:
  assumes "c_interval cf \<noteq> 0" "c_actflags cf = M_D_CPU" "\<not> flag_set (c_flags cf) F_JSON_OUTPUT" "0 < rows"
    and first: "take_sample cf first (first_buffers cf) = Some (Val s)"
    and second: "take_sample cf r (clear_cpus (c_cpu_nr cf) (first_buffers cf)) = Some (Val s')"
    and same: "s_cpu s' = s_cpu s"
  shows "rw_mpstat_loop cf dis_hdr rows 1 first ((r, sigint) # rs) =
      Some (Val (plain_report cf True s s' (s_time s) (s_time s') @
                 plain_report cf dis_hdr s (offline_fixed cf s s') ''Average:'' ''Average:'')) \<and>
    (\<forall>cpu c online str. cpu_total (s_cpu s' ! cpu) \<noteq> 0 \<longrightarrow>
       plain_cpu_row c online str cpu (s_cpu s' ! cpu) (s_cpu s ! cpu) =
       row_label c str cpu @ cprintf_pc c 7 2 (replicate 9 dbl_zero @ [dbl_of_int 100]) @ [(File, [LF])])"
proof
  have dis: "dis_hdr \<or> 0 < rows div rows" using assms(4) by simp
  show "rw_mpstat_loop cf dis_hdr rows 1 first ((r, sigint) # rs) =
      Some (Val (plain_report cf True s s' (s_time s) (s_time s') @
                 plain_report cf dis_hdr s (offline_fixed cf s s') ''Average:'' ''Average:''))"
    using assms(1-3) first second dis
    by (simp add: rw_mpstat_loop_def mp_finish_def write_stats_def write_stats_avg_def write_stats_core_cpu
        first_buffers_def Let_def)
qed (simp add: same unchanged_cpu_row)

text \<open>An offline processor keeps the counters it was last seen with.\<close>

text \<open>
  After a report the current sample is unchanged except for processors that went offline, whose
  counters are all zero and are replaced by those of the previous sample; so the next interval of
  such a processor starts from real counters.
\<close>

lemma offline_cpu_keeps_counters:
  assumes "write_stats_core cf prev cur dis prev_string cur_string = Val (out, s)"
  shows "s_uptime s = s_uptime cur \<and> s_irq s = s_irq cur \<and> length (s_cpu s) = length (s_cpu cur) \<and>
    (\<forall>cpu < length (s_cpu cur). s_cpu s ! cpu =
       (if 1 \<le> cpu \<and> cpu \<le> c_cpu_nr cf \<and> cpu_total (s_cpu cur ! cpu) = 0
        then s_cpu prev ! cpu else s_cpu cur ! cpu))"
proof -
  have "s = offline_fixed cf prev cur"
    using assms by (auto simp: write_stats_core_def Let_def obind_eq_Val offline_fixed_def)
  then show ?thesis by (simp add: offline_fixed_def fix_offline_def)
qed

subsection \<open>Interrupts\<close>

lemma get_irqcpu_nr_lines:
  assumes "\<forall>l\<in>set ls. 0 < strcspn l '':'' \<and> strcspn l '':'' < 16"
  shows "get_irqcpu_nr m (Some ls) = min m (length ls)"
proof -
  have "fold (\<lambda>l irq. let p = strcspn l '':'' in if irq < m \<and> 0 < p \<and> p < 16 then irq + 1 else irq) ls n =
      min m (n + length ls)" if "n \<le> m" for n
    using assms that by (induction ls arbitrary: n) (auto simp: Let_def)
  from this [of 0] show ?thesis by (simp add: get_irqcpu_nr_def)
qed

text \<open>
  On a machine with 1022 or more interrupt lines the table of column widths, which has 1024 entries,
  is accessed past its end when the interrupts of the processors are displayed.
\<close>

lemma many_interrupts_overflow:
  assumes "\<forall>l\<in>set ls. 0 < strcspn l '':'' \<and> strcspn l '':'' < 16" "1022 \<le> length ls" "m_interrupts m = Some ls"
  shows "write_plain_irqcpu_stats (mpstat_conf m n st) s_irqcpu (c_irqcpu_nr (mpstat_conf m n st)) dis itv prev cur p c =
    Undef OutOfBounds"
proof -
  have "1024 < c_irqcpu_nr (mpstat_conf m n st)"
    using assms(2) by (simp add: mpstat_conf_def get_irqcpu_nr_lines [OF assms(1)] assms(3))
  then show ?thesis by (simp add: write_plain_irqcpu_stats_def Let_def)
qed

text \<open>The totals a reading changes: entry 0 (the machine) and the number of entries stay.\<close>

definition same_frame :: "u64 list \<Rightarrow> u64 list \<Rightarrow> bool" where
  "same_frame t t' \<longleftrightarrow> length t' = length t \<and> t' ! 0 = t ! 0"

lemma same_frame_refl: "same_frame t t"
  by (simp add: same_frame_def)

lemma same_frame_trans: "same_frame t u \<Longrightarrow> same_frame u v \<Longrightarrow> same_frame t v"
  by (simp add: same_frame_def)

lemma store_name_frame: "store_name j name st = Val st' \<Longrightarrow> same_frame (snd st) (snd st')"
  by (auto simp: store_name_def same_frame_def split: prod.splits if_splits)

lemma store_counts_frame: "store_counts m irq kvs st = Val st' \<Longrightarrow> same_frame (snd st) (snd st')"
proof (induction kvs arbitrary: st)
  case (Cons kv kvs)
  then obtain st1 where st1: "store_count m irq kv st = Val st1" "store_counts m irq kvs st1 = Val st'"
    by (auto simp: obind_eq_Val)
  have "same_frame (snd st) (snd st1)"
    using st1(1) by (auto simp: store_count_def same_frame_def Let_def split: prod.splits if_splits)
  then show ?case using Cons.IH [OF st1(2)] by (rule same_frame_trans)
qed (simp add: same_frame_refl)

lemma irq_lines_frame: "irq_lines m idx ls irq st = Val (k, st') \<Longrightarrow> same_frame (snd st) (snd st')"
proof (induction ls arbitrary: irq st)
  case (Cons l ls)
  show ?case
  proof (cases "m \<le> irq \<or> strchr l (CHR '':'') = None")
    case True
    then show ?thesis using Cons by (auto simp: same_frame_refl split: if_splits)
  next
    case False
    then obtain cp where "strchr l (CHR '':'') = Some cp" "\<not> m \<le> irq" by auto
    with Cons.prems obtain st1 st2 where
      "store_name irq (line_name l) st = Val st1" "store_counts m irq (irq_counts idx (tl cp)) st1 = Val st2"
      "irq_lines m idx ls (Suc irq) st2 = Val (k, st')"
      by (auto simp: obind_eq_Val)
    then show ?thesis
      by (meson Cons.IH same_frame_trans store_counts_frame store_name_frame)
  qed
qed (simp add: same_frame_refl)

lemma clear_names_frame: "clear_names js st = Val st' \<Longrightarrow> same_frame (snd st) (snd st')"
proof (induction js arbitrary: st)
  case (Cons j js)
  then obtain st1 where st1: "store_name j [] st = Val st1" "clear_names js st1 = Val st'"
    by (auto simp: obind_eq_Val)
  from same_frame_trans [OF store_name_frame [OF st1(1)] Cons.IH [OF st1(2)]] show ?case .
qed (simp add: same_frame_refl)

lemma read_interrupts_frame:
  assumes "read_interrupts_stat file n m (ic, t) = Val (ic', t')" "t \<noteq> []"
  shows "same_frame t t'"
proof -
  let ?z = "map (\<lambda>i. if 1 \<le> i \<and> i \<le> n then 0 else t ! i) [0..<length t]"
  have "same_frame t ?z" using assms(2) by (simp add: same_frame_def)
  moreover have "same_frame ?z t'"
    using assms(1)
    by (auto simp: read_interrupts_stat_def Let_def obind_eq_Val split: option.splits prod.splits
        dest!: irq_lines_frame clear_names_frame intro: same_frame_trans)
  ultimately show ?thesis by (rule same_frame_trans)
qed

lemma read_interrupts_same:
  assumes "same_frame t t'" "length t = Suc n"
  shows "read_interrupts_stat file n m (ic, t) = read_interrupts_stat file n m (ic, t')"
proof -
  have "map (\<lambda>i. if 1 \<le> i \<and> i \<le> n then 0 else t ! i) [0..<length t] =
        map (\<lambda>i. if 1 \<le> i \<and> i \<le> n then 0 else t' ! i) [0..<length t']"
    using assms by (intro map_cong) (auto simp: same_frame_def less_Suc_eq_le Suc_le_eq)
  then show ?thesis by (simp add: read_interrupts_stat_def)
qed

lemma read_stat_irq_length: "read_stat_irq 1 ls st = Val st' \<Longrightarrow> length st' = length st"
proof (induction ls arbitrary: st)
  case (Cons l ls)
  then obtain st1 where "read_stat_irq_line 1 l st = Val st1" "read_stat_irq 1 ls st1 = Val st'"
    by (auto simp: obind_eq_Val)
  moreover from this(1) have "length st1 = length st"
    by (auto simp: read_stat_irq_line_def split: if_splits option.splits)
  ultimately show ?case using Cons.IH by simp
qed simp

lemma rbind_eq_Val: "rbind m f = Some (Val y) \<longleftrightarrow> (\<exists>x. m = Some (Val x) \<and> f x = Some (Val y))"
  by (auto simp: rbind_def split: option.splits outcome.splits)

text \<open>
  When the sums of interrupts and the soft interrupts are both displayed, reading the soft
  interrupts overwrites the per-processor totals, so they no longer depend on /proc/interrupts at
  all.
\<close>

lemma softirqs_replace_totals:
  assumes "flag_set (c_actflags cf) M_D_IRQ_SUM" "flag_set (c_actflags cf) M_D_SOFTIRQS"
    and len: "length (s_irq s) = Suc (c_cpu_nr cf)"
    and a: "take_sample cf r s = Some (Val a)"
    and b: "take_sample cf (r \<lparr> r_interrupts := other \<rparr>) s = Some (Val b)"
  shows "s_irq a = s_irq b"
proof -
  let ?n = "c_cpu_nr cf"
  obtain cpus up up0 t ic1 t1 sic ta where 1:
      "read_stat_irq 1 (case r_stat r of None \<Rightarrow> [] | Some ls \<Rightarrow> ls) (s_irq s) = Val t"
      "read_interrupts_stat (r_interrupts r) ?n (c_irqcpu_nr cf) (s_irqcpu s, t) = Val (ic1, t1)"
      "read_interrupts_stat (r_softirqs r) ?n (c_softirqcpu_nr cf) (s_softirq s, t1) = Val (sic, ta)" "s_irq a = ta"
    using a assms(1,2) by (auto simp: take_sample_def Let_def rbind_eq_Val)
  obtain t' ic2 t2 sic' tb where 2:
      "read_stat_irq 1 (case r_stat r of None \<Rightarrow> [] | Some ls \<Rightarrow> ls) (s_irq s) = Val t'"
      "read_interrupts_stat other ?n (c_irqcpu_nr cf) (s_irqcpu s, t') = Val (ic2, t2)"
      "read_interrupts_stat (r_softirqs r) ?n (c_softirqcpu_nr cf) (s_softirq s, t2) = Val (sic', tb)" "s_irq b = tb"
    using b assms(1,2) by (auto simp: take_sample_def Let_def rbind_eq_Val)
  have t: "t' = t" "length t = Suc ?n" using 1(1) 2(1) len read_stat_irq_length [OF 1(1)] by simp_all
  then have "t \<noteq> []" by auto
  then have "same_frame t t1" "same_frame t t2" using 1(2) 2(2) t(1) by (auto intro: read_interrupts_frame)
  then have "same_frame t1 t2" "length t1 = Suc ?n" using t(2) by (auto simp: same_frame_def)
  then show ?thesis using 1(3,4) 2(3,4) read_interrupts_same by fastforce
qed

subsection \<open>The processors named on the command line\<close>

lemma byte_or_pow: "k < 8 \<Longrightarrow> byte (char_of (or (byte c) (2 ^ k))) = or (byte c) (2 ^ k)"
proof -
  assume "k < 8"
  then have "(2 :: nat) ^ k < 2 ^ 8" by (intro power_strict_increasing) simp_all
  then have "take_bit 8 ((2 :: nat) ^ k) = 2 ^ k" "take_bit 8 (byte c) = byte c"
    using byte_less [of c] by (simp_all only: take_bit_nat_eq_self_iff) simp
  then have "take_bit 8 (or (byte c) (2 ^ k)) = or (byte c) (2 ^ k)" by (simp only: take_bit_or)
  then have "or (byte c) (2 ^ k) < 2 ^ 8" by (simp only: take_bit_nat_eq_self_iff)
  then show ?thesis by simp
qed

lemma wanted_set_bit:
  assumes "i div 8 < length bm"
  shows "cpu_wanted (set_bit_at i bm) j \<longleftrightarrow> j = i \<or> cpu_wanted bm j"
proof (cases "j div 8 = i div 8")
  case True
  have "j = i \<longleftrightarrow> j mod 8 = i mod 8" using True by (metis div_mult_mod_eq)
  then show ?thesis using True assms
    by (auto simp: cpu_wanted_def set_bit_at_def byte_or_pow bit_or_iff bit_exp_iff)
qed (auto simp: cpu_wanted_def set_bit_at_def)

lemma length_set_bit_at [simp]: "length (set_bit_at i bm) = length bm"
  by (simp add: set_bit_at_def)

lemma cpu_option_number:
  assumes "c < n" "n < 2 ^ 31"
  shows "cpu_option n (dec_of_nat c) st = Inr (st \<lparr> o_bitmap := set_bit_at (Suc c) (o_bitmap st) \<rparr>)"
proof -
  have dig: "\<forall>x\<in>set (dec_of_nat c). c_isdigit x" by (rule dec_of_nat_digits)
  then have "dec_of_nat c \<noteq> ''ALL''" "dec_of_nat c \<noteq> ''ON''" by (auto simp: c_isdigit_def byte_def)
  moreover have "x \<in> set ''0123456789''" if "c_isdigit x" for x
  proof -
    have "list_all (\<lambda>k. dec_digit k \<in> set ''0123456789'') [0..<10]" by code_simp
    then have digits: "dec_digit k \<in> set ''0123456789''" if "k < 10" for k using that by (simp add: list_all_iff del: set_simps)
    from that have "x = dec_digit (byte x - 48)" "byte x - 48 < 10" by (auto simp: c_isdigit_def dec_digit_def)
    then show ?thesis using digits by metis
  qed
  with dig have "only_digits (dec_of_nat c)" by (auto simp: only_digits_def strspn_all)
  moreover have "sint (of_int (int c) :: 32 word) = int c"
    using assms by (simp add: signed_of_nat signed_take_bit_int_eq_self_iff)
  then have "atoi (dec_of_nat c) = int c" using assms by (simp add: atoi_def strtol_value_def Let_def min_def)
  ultimately show ?thesis using assms by (simp add: cpu_option_def Let_def nat_add_distrib)
qed

lemma cpu_options_numbers:
  assumes "\<forall>c\<in>set cs. c < n" "n < 2 ^ 31" "n div 8 < length (o_bitmap st)"
  shows "\<exists>bm. sfold (cpu_option n) (map dec_of_nat cs) st = Inr (st \<lparr> o_bitmap := bm \<rparr>) \<and>
    (\<forall>j. cpu_wanted bm j \<longleftrightarrow> cpu_wanted (o_bitmap st) j \<or> j \<in> Suc ` set cs)"
  using assms
proof (induction cs arbitrary: st)
  case (Cons c cs)
  have "Suc c div 8 \<le> n div 8" using Cons.prems by (intro div_le_mono) simp
  then have c: "Suc c div 8 < length (o_bitmap st)" using Cons.prems(3) by linarith
  with Cons.IH [of "st \<lparr> o_bitmap := set_bit_at (Suc c) (o_bitmap st) \<rparr>"] Cons.prems
  obtain bm where "sfold (cpu_option n) (map dec_of_nat cs) (st \<lparr> o_bitmap := set_bit_at (Suc c) (o_bitmap st) \<rparr>) =
      Inr (st \<lparr> o_bitmap := bm \<rparr>)"
    "\<forall>j. cpu_wanted bm j \<longleftrightarrow> cpu_wanted (set_bit_at (Suc c) (o_bitmap st)) j \<or> j \<in> Suc ` set cs"
    by auto
  then show ?case using Cons.prems c by (auto simp: cpu_option_number wanted_set_bit)
next
  case Nil
  then show ?case by (intro exI [of _ "o_bitmap st"]) simp
qed

text \<open>
  A list of processor numbers after -P selects exactly those processors: bit n + 1 of the bitmap for
  each listed n, no other bit, and the option flag is set.
\<close>

lemma cpu_list_selected:
  assumes "strtok_all (CHR '','') [] v = map dec_of_nat cs" "\<forall>c\<in>set cs. c < n" "n < 2 ^ 31"
  shows "\<exists>st. parse_options n [''-P'', v] (initial_opts n) = Inr st \<and> flag_set (o_flags st) F_P_OPTION \<and>
    (\<forall>cpu \<le> n. cpu_wanted (o_bitmap st) cpu \<longleftrightarrow> cpu \<in> Suc ` set cs)"
proof -
  let ?st = "initial_opts n \<lparr> o_flags := o_flags (initial_opts n) OR F_P_OPTION, o_dis_hdr := o_dis_hdr (initial_opts n) + 1 \<rparr>"
  have "n div 8 < length (o_bitmap ?st)"
    by (simp add: initial_opts_def salloc_mp_struct_def le_imp_less_Suc div_le_mono)
  then obtain bm where bm: "sfold (cpu_option n) (map dec_of_nat cs) ?st = Inr (?st \<lparr> o_bitmap := bm \<rparr>)"
    "\<forall>j. cpu_wanted bm j \<longleftrightarrow> cpu_wanted (o_bitmap ?st) j \<or> j \<in> Suc ` set cs"
    using cpu_options_numbers [OF assms(2,3), of ?st] by blast
  have "\<not> cpu_wanted (o_bitmap ?st) cpu" if "cpu \<le> n" for cpu
  proof -
    have "cpu div 8 < Suc n div 8 + 1" using that by (simp add: le_imp_less_Suc div_le_mono)
    then have "replicate (Suc n div 8 + 1) NUL ! (cpu div 8) = NUL" by (rule nth_replicate)
    then show ?thesis by (simp add: cpu_wanted_def initial_opts_def salloc_mp_struct_def byte_def)
  qed
  moreover have "flag_set (0 OR F_P_OPTION) F_P_OPTION" by (simp add: flag_set_def)
  moreover have "parse_options n [''-P'', v] (initial_opts n) = Inr (?st \<lparr> o_bitmap := bm \<rparr>)"
    using bm(1) assms(1) by simp
  ultimately show ?thesis using bm(2) by (intro exI [of _ "?st \<lparr> o_bitmap := bm \<rparr>"]) (simp add: initial_opts_def)
qed

end
