(* ===== verification/PsTable.thy ===== *)
theory PsTable
  imports CString "HOL-Library.Char_ord" "HOL-Library.List_Lexorder"
begin

text \<open>
  \<open>bsearch\<close> of the C library over the sorted tables of ps, and the tables of
  \<open>src/modules/ps/src/output.c\<close>: the format specifiers, the macros, the AIX descriptors and the
  one-letter sort codes, with the functions that search them.

  The search is the loop of glibc. The locale \<open>sorted_table\<close> is what its callers rely on: the
  comparison of a key with the entries of the table is ordered; then the search finds the entry a
  linear scan finds. Every table of ps that is searched interprets it.
\<close>

subsection \<open>Comparison of strings\<close>

fun strcmp :: "string \<Rightarrow> string \<Rightarrow> int" where
  "strcmp [] [] = 0"
| "strcmp [] (d # t) = - int (byte d)"
| "strcmp (c # s) [] = int (byte c)"
| "strcmp (c # s) (d # t) = (if c = d then strcmp s t else int (byte c) - int (byte d))"

text \<open>On strings without NUL the sign of \<open>strcmp\<close> is the lexicographic order of the bytes.\<close>

lemma byte_less_iff: "byte c < byte d \<longleftrightarrow> c < d"
  by (simp add: byte_def less_char_def)

lemma strcmp_less: "is_cstring s \<Longrightarrow> is_cstring t \<Longrightarrow> strcmp s t < 0 \<longleftrightarrow> s < t"
  by (induction s t rule: strcmp.induct)
    (auto simp: is_cstring_def byte_less_iff zero_less_iff_neq_zero)

lemma strcmp_0: "is_cstring s \<Longrightarrow> is_cstring t \<Longrightarrow> strcmp s t = 0 \<longleftrightarrow> s = t"
  by (induction s t rule: strcmp.induct) (auto simp: is_cstring_def)

lemma strcmp_greater: "is_cstring s \<Longrightarrow> is_cstring t \<Longrightarrow> 0 < strcmp s t \<longleftrightarrow> t < s"
  using strcmp_less [of s t] strcmp_0 [of s t] by (metis linorder_less_linear order_less_imp_not_less)

definition strcasecmp :: "string \<Rightarrow> string \<Rightarrow> int" where
  "strcasecmp s t = strcmp (map c_tolower s) (map c_tolower t)"

subsection \<open>bsearch\<close>

function bsearch_between :: "('k \<Rightarrow> 'e \<Rightarrow> int) \<Rightarrow> 'k \<Rightarrow> 'e list \<Rightarrow> nat \<Rightarrow> nat \<Rightarrow> 'e option" where
  "bsearch_between cmp k base l u =
     (if l < u then
        let idx = (l + u) div 2; comparison = cmp k (base ! idx)
        in if comparison < 0 then bsearch_between cmp k base l idx
           else if 0 < comparison then bsearch_between cmp k base (idx + 1) u
           else Some (base ! idx)
      else None)"
  by pat_completeness auto
termination by (relation "measure (\<lambda>(_, _, _, l, u). u - l)") auto

declare bsearch_between.simps [simp del]

definition bsearch :: "('k \<Rightarrow> 'e \<Rightarrow> int) \<Rightarrow> 'k \<Rightarrow> 'e list \<Rightarrow> 'e option" where
  "bsearch cmp k base = bsearch_between cmp k base 0 (length base)"

text \<open>The contract of a searched table: below an entry not above the key, the key is strictly above.\<close>

locale sorted_table =
  fixes cmp :: "'k \<Rightarrow> 'e \<Rightarrow> int"
    and table :: "'e list"
    and legal :: "'k \<Rightarrow> bool"
  assumes ordered: "legal k \<Longrightarrow> i < j \<Longrightarrow> j < length table \<Longrightarrow> 0 \<le> cmp k (table ! j) \<Longrightarrow> 0 < cmp k (table ! i)"
begin

lemma unique: "legal k \<Longrightarrow> i < length table \<Longrightarrow> j < length table \<Longrightarrow> cmp k (table ! i) = 0 \<Longrightarrow> cmp k (table ! j) = 0 \<Longrightarrow> i = j"
  using ordered [of k i j] ordered [of k j i] by (cases i j rule: linorder_cases) auto

lemma between_Some: "bsearch_between cmp k table l u = Some e \<Longrightarrow> u \<le> length table \<Longrightarrow> \<exists>i<length table. e = table ! i \<and> cmp k e = 0"
proof (induction cmp k table l u rule: bsearch_between.induct)
  case (1 c k t l u)
  then show ?case
    by (subst (asm) (3) bsearch_between.simps) (auto simp: Let_def split: if_splits intro!: exI [of _ "(l + u) div 2"])
qed

lemma between_finds:
  assumes "legal k" "l \<le> i" "i < u" "u \<le> length table" "cmp k (table ! i) = 0"
  shows "bsearch_between cmp k table l u = Some (table ! i)"
  using assms(2-)
proof (induction "u - l" arbitrary: l u rule: less_induct)
  case less
  let ?m = "(l + u) div 2"
  have m: "l \<le> ?m" "?m < u" using less.prems by auto
  consider "i < ?m" | "i = ?m" | "?m < i" by linarith
  then show ?case
  proof cases
    case 1
    have "cmp k (table ! ?m) < 0"
      using ordered [OF assms(1) 1] less.prems m by force
    then show ?thesis
      using less.hyps [of ?m l] less.prems m 1 by (simp add: bsearch_between.simps [of _ _ _ l u])
  next
    case 2
    then show ?thesis using less.prems m by (simp add: bsearch_between.simps [of _ _ _ l u])
  next
    case 3
    have "0 < cmp k (table ! ?m)"
      using ordered [OF assms(1) 3] less.prems m by force
    then show ?thesis
      using less.hyps [of u "?m + 1"] less.prems m 3 by (simp add: bsearch_between.simps [of _ _ _ l u])
  qed
qed

lemma bsearch_find:
  assumes "legal k"
  shows "bsearch cmp k table = find (\<lambda>e. cmp k e = 0) table"
proof (cases "find (\<lambda>e. cmp k e = 0) table")
  case None
  then have "\<forall>e\<in>set table. cmp k e \<noteq> 0" by (simp add: find_None_iff)
  moreover have "e \<in> set table \<and> cmp k e = 0" if "bsearch cmp k table = Some e" for e
    using between_Some [OF that [unfolded bsearch_def]] by auto
  ultimately have "bsearch cmp k table \<noteq> Some e" for e by blast
  with None show ?thesis by (metis not_None_eq)
next
  case (Some e)
  then obtain i where "i < length table" "e = table ! i" "cmp k e = 0"
    by (auto simp: find_Some_iff)
  with Some show ?thesis using between_finds [OF assms, of 0 i "length table"] by (simp add: bsearch_def)
qed

end

text \<open>A table sorted by a string that \<open>strcmp\<close> compares, and one sorted up to the case of letters.\<close>

definition by_spec :: "('e \<Rightarrow> string) \<Rightarrow> string \<Rightarrow> 'e \<Rightarrow> int" where
  "by_spec f k e = strcmp k (f e)"

definition strictly_sorted :: "string list \<Rightarrow> bool" where
  "strictly_sorted xs = successively (<) xs"

lemma strictly_sorted_nth:
  assumes "strictly_sorted xs" "i < j" "j < length xs"
  shows "xs ! i < xs ! j"
proof -
  have "sorted_wrt (<) xs"
    using assms(1) by (simp add: strictly_sorted_def successively_conv_sorted_wrt)
  then show ?thesis using assms by (simp add: sorted_wrt_iff_nth_less)
qed

lemma sorted_by_spec:
  assumes "strictly_sorted (map f table)" "list_all is_cstring (map f table)"
  shows "sorted_table (by_spec f) table is_cstring"
proof
  fix k :: string and i j
  assume k: "is_cstring k" and ij: "i < j" "j < length table" and le: "0 \<le> by_spec f k (table ! j)"
  have cs: "is_cstring (f (table ! i))" "is_cstring (f (table ! j))"
    using assms(2) ij by (auto simp: list_all_length)
  have "f (table ! i) < f (table ! j)"
    using strictly_sorted_nth [OF assms(1), of i j] ij by simp
  moreover have "\<not> k < f (table ! j)"
    using le strcmp_less [OF k cs(2)] by (simp add: by_spec_def)
  ultimately have "f (table ! i) < k" by order
  then show "0 < by_spec f k (table ! i)"
    using strcmp_greater [OF k cs(1)] by (simp add: by_spec_def)
qed

lemma find_by_spec:
  "is_cstring k \<Longrightarrow> list_all is_cstring (map f table) \<Longrightarrow>
     find (\<lambda>e. by_spec f k e = 0) table = find (\<lambda>e. f e = k) table"
  by (induction table) (auto simp: by_spec_def strcmp_0)

subsection \<open>Format specifiers\<close>

datatype vendor = U98 | XXX | DEC | AIX | SCO | LNX | BSD | SUN | HPU | SGI | SOE | TST

text \<open>\<open>fpr\<close> and \<open>fsr\<close> are the names of the printing and comparison functions without their prefix.\<close>

datatype format_struct =
  Format_Struct (fspec: string) (fhead: string) (fpr: string) (fsr: string) (fwidth: nat) (fneed: "32 word")
    (fvendor: vendor) (fflags: "32 word")

datatype macro_struct = Macro_Struct (mspec: string) (mhead: string)
datatype aix_struct = Aix_Struct (adesc: char) (aspec: string) (ahead: string)
datatype shortsort_struct = Shortsort_Struct (sdesc: char) (sspec: string)

text \<open>Column flags (\<open>inc/common.h\<close>) and what a column needs read (\<open>inc/readproc.h\<close>).\<close>

abbreviation USER :: "32 word" where "USER \<equiv> 1"
abbreviation LEFT :: "32 word" where "LEFT \<equiv> 2"
abbreviation RIGHT :: "32 word" where "RIGHT \<equiv> 3"
abbreviation UNLIMITED :: "32 word" where "UNLIMITED \<equiv> 4"
abbreviation WCHAN :: "32 word" where "WCHAN \<equiv> 5"
abbreviation SIGNAL :: "32 word" where "SIGNAL \<equiv> 6"
abbreviation PIDMAX :: "32 word" where "PIDMAX \<equiv> 0x10"
abbreviation TO :: "32 word" where "TO \<equiv> 0x10000000"
abbreviation PO :: "32 word" where "PO \<equiv> 0x20000000"
abbreviation ET :: "32 word" where "ET \<equiv> 0x40000000"
abbreviation AN :: "32 word" where "AN \<equiv> 0x80000000"
abbreviation NEED_MEM :: "32 word" where "NEED_MEM \<equiv> 0x1"
abbreviation NEED_COM :: "32 word" where "NEED_COM \<equiv> 0x2"
abbreviation NEED_ENV :: "32 word" where "NEED_ENV \<equiv> 0x4"
abbreviation NEED_USR :: "32 word" where "NEED_USR \<equiv> 0x8"
abbreviation NEED_GRP :: "32 word" where "NEED_GRP \<equiv> 0x10"
abbreviation NEED_ARG :: "32 word" where "NEED_ARG \<equiv> 0x100"
abbreviation NEED_NS :: "32 word" where "NEED_NS \<equiv> 0x8000"
abbreviation NEED_LXC :: "32 word" where "NEED_LXC \<equiv> 0x800000"
abbreviation NEED_SD :: "32 word" where "NEED_SD \<equiv> 0x80000"
abbreviation NEED_SGRP :: "32 word" where "NEED_SGRP \<equiv> 0x420"
abbreviation NEED_CGRP :: "32 word" where "NEED_CGRP \<equiv> 0x10200"

unbundle bit_operations_syntax

definition format_rows_1 :: "format_struct list" where
  "format_rows_1 =
     [Format_Struct ''%cpu'' ''%CPU'' ''pcpu'' ''pcpu'' 4 0 BSD (ET OR RIGHT),
      Format_Struct ''%mem'' ''%MEM'' ''pmem'' ''rss'' 4 0 BSD (PO OR RIGHT),
      Format_Struct ''_left'' ''LLLLLLLL'' ''t_left'' ''nop'' 8 0 TST (ET OR LEFT),
      Format_Struct ''_left2'' ''L2L2L2L2'' ''t_left2'' ''nop'' 8 0 TST (ET OR LEFT),
      Format_Struct ''_right'' ''RRRRRRRRRRR'' ''t_right'' ''nop'' 11 0 TST (ET OR RIGHT),
      Format_Struct ''_right2'' ''R2R2R2R2R2R'' ''t_right2'' ''nop'' 11 0 TST (ET OR RIGHT),
      Format_Struct ''_unlimited'' ''U'' ''t_unlimited'' ''nop'' 16 0 TST (ET OR UNLIMITED),
      Format_Struct ''_unlimited2'' ''U2'' ''t_unlimited2'' ''nop'' 16 0 TST (ET OR UNLIMITED),
      Format_Struct ''acflag'' ''ACFLG'' ''nop'' ''nop'' 5 0 XXX (AN OR RIGHT),
      Format_Struct ''acflg'' ''ACFLG'' ''nop'' ''nop'' 5 0 BSD (AN OR RIGHT),
      Format_Struct ''addr'' ''ADDR'' ''nop'' ''nop'' 4 0 XXX (AN OR RIGHT),
      Format_Struct ''addr_1'' ''ADDR'' ''nop'' ''nop'' 1 0 LNX (AN OR LEFT),
      Format_Struct ''alarm'' ''ALARM'' ''alarm'' ''alarm'' 5 0 LNX (AN OR RIGHT),
      Format_Struct ''argc'' ''ARGC'' ''nop'' ''nop'' 4 0 LNX (PO OR RIGHT),
      Format_Struct ''args'' ''COMMAND'' ''args'' ''cmd'' 27 NEED_ARG U98 (PO OR UNLIMITED),
      Format_Struct ''atime'' ''TIME'' ''time'' ''time'' 8 0 SOE (ET OR RIGHT),
      Format_Struct ''blocked'' ''BLOCKED'' ''sigmask'' ''nop'' 9 0 BSD (TO OR SIGNAL),
      Format_Struct ''bnd'' ''BND'' ''nop'' ''nop'' 1 0 AIX (TO OR RIGHT),
      Format_Struct ''bsdstart'' ''START'' ''bsdstart'' ''nop'' 6 0 LNX (ET OR RIGHT),
      Format_Struct ''bsdtime'' ''TIME'' ''bsdtime'' ''nop'' 6 0 LNX (ET OR RIGHT),
      Format_Struct ''c'' ''C'' ''c'' ''pcpu'' 2 0 SUN (ET OR RIGHT),
      Format_Struct ''caught'' ''CAUGHT'' ''sigcatch'' ''nop'' 9 0 BSD (TO OR SIGNAL),
      Format_Struct ''cgname'' ''CGNAME'' ''cgname'' ''cgname'' 27 NEED_CGRP LNX (PO OR UNLIMITED),
      Format_Struct ''cgroup'' ''CGROUP'' ''cgroup'' ''cgroup'' 27 NEED_CGRP LNX (PO OR UNLIMITED),
      Format_Struct ''class'' ''CLS'' ''class'' ''sched'' 3 0 XXX (TO OR LEFT),
      Format_Struct ''cls'' ''CLS'' ''class'' ''sched'' 3 0 HPU (TO OR RIGHT),
      Format_Struct ''cmaj_flt'' ''-'' ''nop'' ''cmaj_flt'' 1 0 LNX (AN OR RIGHT),
      Format_Struct ''cmd'' ''CMD'' ''args'' ''cmd'' 27 NEED_ARG DEC (PO OR UNLIMITED),
      Format_Struct ''cmin_flt'' ''-'' ''nop'' ''cmin_flt'' 1 0 LNX (AN OR RIGHT),
      Format_Struct ''cnswap'' ''-'' ''nop'' ''nop'' 1 0 LNX (AN OR RIGHT),
      Format_Struct ''comm'' ''COMMAND'' ''comm'' ''cmd'' 15 NEED_COM U98 (PO OR UNLIMITED),
      Format_Struct ''command'' ''COMMAND'' ''args'' ''cmd'' 27 NEED_ARG XXX (PO OR UNLIMITED),
      Format_Struct ''context'' ''CONTEXT'' ''context'' ''nop'' 31 0 LNX (ET OR LEFT),
      Format_Struct ''cp'' ''CP'' ''cp'' ''pcpu'' 3 0 DEC (ET OR RIGHT),
      Format_Struct ''cpu'' ''CPU'' ''nop'' ''nop'' 3 0 BSD (AN OR RIGHT),
      Format_Struct ''cpuid'' ''CPUID'' ''psr'' ''nop'' 5 0 BSD (TO OR RIGHT),
      Format_Struct ''cputime'' ''TIME'' ''time'' ''time'' 8 0 DEC (ET OR RIGHT),
      Format_Struct ''ctid'' ''CTID'' ''nop'' ''nop'' 5 0 SUN (ET OR RIGHT),
      Format_Struct ''cursig'' ''CURSIG'' ''nop'' ''nop'' 6 0 DEC (AN OR RIGHT),
      Format_Struct ''cutime'' ''-'' ''nop'' ''cutime'' 1 0 LNX (AN OR RIGHT),
      Format_Struct ''cwd'' ''CWD'' ''nop'' ''nop'' 3 0 LNX (AN OR LEFT),
      Format_Struct ''drs'' ''DRS'' ''drs'' ''drs'' 5 NEED_MEM LNX (PO OR RIGHT),
      Format_Struct ''dsiz'' ''DSIZ'' ''dsiz'' ''nop'' 4 0 LNX (PO OR RIGHT),
      Format_Struct ''egid'' ''EGID'' ''egid'' ''egid'' 5 0 LNX (ET OR RIGHT),
      Format_Struct ''egroup'' ''EGROUP'' ''egroup'' ''egroup'' 8 NEED_GRP LNX (ET OR USER),
      Format_Struct ''eip'' ''EIP'' ''eip'' ''kstk_eip'' 8 0 LNX (TO OR RIGHT),
      Format_Struct ''emul'' ''EMUL'' ''nop'' ''nop'' 13 0 BSD (PO OR LEFT),
      Format_Struct ''end_code'' ''E_CODE'' ''nop'' ''end_code'' 8 0 LNX (PO OR RIGHT),
      Format_Struct ''environ'' ''ENVIRONMENT'' ''nop'' ''nop'' 11 NEED_ENV LNX (PO OR UNLIMITED),
      Format_Struct ''esp'' ''ESP'' ''esp'' ''kstk_esp'' 8 0 LNX (TO OR RIGHT),
      Format_Struct ''etime'' ''ELAPSED'' ''etime'' ''etime'' 11 0 U98 (ET OR RIGHT),
      Format_Struct ''etimes'' ''ELAPSED'' ''etimes'' ''etime'' 7 0 BSD (ET OR RIGHT),
      Format_Struct ''euid'' ''EUID'' ''euid'' ''euid'' 5 0 LNX (ET OR RIGHT),
      Format_Struct ''euser'' ''EUSER'' ''euser'' ''euser'' 8 NEED_USR LNX (ET OR USER),
      Format_Struct ''f'' ''F'' ''flag'' ''flags'' 1 0 XXX (ET OR RIGHT),
      Format_Struct ''fgid'' ''FGID'' ''fgid'' ''fgid'' 5 0 LNX (ET OR RIGHT),
      Format_Struct ''fgroup'' ''FGROUP'' ''fgroup'' ''fgroup'' 8 NEED_GRP LNX (ET OR USER),
      Format_Struct ''flag'' ''F'' ''flag'' ''flags'' 1 0 DEC (ET OR RIGHT),
      Format_Struct ''flags'' ''F'' ''flag'' ''flags'' 1 0 BSD (ET OR RIGHT),
      Format_Struct ''fname'' ''COMMAND'' ''fname'' ''nop'' 8 0 SUN (PO OR LEFT),
      Format_Struct ''fsgid'' ''FSGID'' ''fgid'' ''fgid'' 5 0 LNX (ET OR RIGHT),
      Format_Struct ''fsgroup'' ''FSGROUP'' ''fgroup'' ''fgroup'' 8 NEED_GRP LNX (ET OR USER),
      Format_Struct ''fsuid'' ''FSUID'' ''fuid'' ''fuid'' 5 0 LNX (ET OR RIGHT),
      Format_Struct ''fsuser'' ''FSUSER'' ''fuser'' ''fuser'' 8 NEED_USR LNX (ET OR USER)]"

definition format_rows_2 :: "format_struct list" where
  "format_rows_2 =
     [Format_Struct ''fuid'' ''FUID'' ''fuid'' ''fuid'' 5 0 LNX (ET OR RIGHT),
      Format_Struct ''fuser'' ''FUSER'' ''fuser'' ''fuser'' 8 NEED_USR LNX (ET OR USER),
      Format_Struct ''gid'' ''GID'' ''egid'' ''egid'' 5 0 SUN (ET OR RIGHT),
      Format_Struct ''group'' ''GROUP'' ''egroup'' ''egroup'' 8 NEED_GRP U98 (ET OR USER),
      Format_Struct ''ignored'' ''IGNORED'' ''sigignore'' ''nop'' 9 0 BSD (TO OR SIGNAL),
      Format_Struct ''inblk'' ''INBLK'' ''nop'' ''nop'' 5 0 BSD (AN OR RIGHT),
      Format_Struct ''inblock'' ''INBLK'' ''nop'' ''nop'' 5 0 DEC (AN OR RIGHT),
      Format_Struct ''intpri'' ''PRI'' ''opri'' ''priority'' 3 0 HPU (TO OR RIGHT),
      Format_Struct ''ipcns'' ''IPCNS'' ''ipcns'' ''ipcns'' 10 NEED_NS LNX (ET OR RIGHT),
      Format_Struct ''jid'' ''JID'' ''nop'' ''nop'' 1 0 SGI (PO OR RIGHT),
      Format_Struct ''jobc'' ''JOBC'' ''nop'' ''nop'' 4 0 XXX (AN OR RIGHT),
      Format_Struct ''ktrace'' ''KTRACE'' ''nop'' ''nop'' 8 0 BSD (AN OR RIGHT),
      Format_Struct ''ktracep'' ''KTRACEP'' ''nop'' ''nop'' 8 0 BSD (AN OR RIGHT),
      Format_Struct ''label'' ''LABEL'' ''context'' ''nop'' 31 0 SGI (ET OR LEFT),
      Format_Struct ''lastcpu'' ''C'' ''psr'' ''nop'' 3 0 BSD (TO OR RIGHT),
      Format_Struct ''lim'' ''LIM'' ''lim'' ''rss_rlim'' 5 0 BSD (AN OR RIGHT),
      Format_Struct ''login'' ''LOGNAME'' ''nop'' ''nop'' 8 0 BSD (AN OR LEFT),
      Format_Struct ''logname'' ''LOGNAME'' ''nop'' ''nop'' 8 0 XXX (AN OR LEFT),
      Format_Struct ''longtname'' ''TTY'' ''tty8'' ''tty'' 8 0 DEC (PO OR LEFT),
      Format_Struct ''lsession'' ''SESSION'' ''sd_session'' ''nop'' 11 NEED_SD LNX (ET OR LEFT),
      Format_Struct ''lstart'' ''STARTED'' ''lstart'' ''nop'' 24 0 XXX (ET OR RIGHT),
      Format_Struct ''luid'' ''LUID'' ''nop'' ''nop'' 5 0 LNX (ET OR RIGHT),
      Format_Struct ''luser'' ''LUSER'' ''nop'' ''nop'' 8 NEED_USR LNX (ET OR USER),
      Format_Struct ''lwp'' ''LWP'' ''tasks'' ''tasks'' 5 0 SUN (TO OR PIDMAX OR RIGHT),
      Format_Struct ''lxc'' ''LXC'' ''lxcname'' ''lxcname'' 8 NEED_LXC LNX (ET OR LEFT),
      Format_Struct ''m_drs'' ''DRS'' ''drs'' ''drs'' 5 NEED_MEM LNX (PO OR RIGHT),
      Format_Struct ''m_dt'' ''DT'' ''nop'' ''dt'' 4 NEED_MEM LNX (PO OR RIGHT),
      Format_Struct ''m_lrs'' ''LRS'' ''nop'' ''lrs'' 5 NEED_MEM LNX (PO OR RIGHT),
      Format_Struct ''m_resident'' ''RES'' ''nop'' ''resident'' 5 NEED_MEM LNX (PO OR RIGHT),
      Format_Struct ''m_share'' ''SHRD'' ''nop'' ''share'' 5 NEED_MEM LNX (PO OR RIGHT),
      Format_Struct ''m_size'' ''SIZE'' ''size'' ''size'' 5 NEED_MEM LNX (PO OR RIGHT),
      Format_Struct ''m_swap'' ''SWAP'' ''nop'' ''nop'' 5 0 LNX (PO OR RIGHT),
      Format_Struct ''m_trs'' ''TRS'' ''trs'' ''trs'' 5 NEED_MEM LNX (PO OR RIGHT),
      Format_Struct ''machine'' ''MACHINE'' ''sd_machine'' ''nop'' 31 NEED_SD LNX (ET OR LEFT),
      Format_Struct ''maj_flt'' ''MAJFL'' ''majflt'' ''maj_flt'' 6 0 LNX (AN OR RIGHT),
      Format_Struct ''majflt'' ''MAJFLT'' ''majflt'' ''maj_flt'' 6 0 XXX (AN OR RIGHT),
      Format_Struct ''min_flt'' ''MINFL'' ''minflt'' ''min_flt'' 6 0 LNX (AN OR RIGHT),
      Format_Struct ''minflt'' ''MINFLT'' ''minflt'' ''min_flt'' 6 0 XXX (AN OR RIGHT),
      Format_Struct ''mntns'' ''MNTNS'' ''mntns'' ''mntns'' 10 NEED_NS LNX (ET OR RIGHT),
      Format_Struct ''msgrcv'' ''MSGRCV'' ''nop'' ''nop'' 6 0 XXX (AN OR RIGHT),
      Format_Struct ''msgsnd'' ''MSGSND'' ''nop'' ''nop'' 6 0 XXX (AN OR RIGHT),
      Format_Struct ''mwchan'' ''MWCHAN'' ''nop'' ''nop'' 6 0 BSD (TO OR WCHAN),
      Format_Struct ''netns'' ''NETNS'' ''netns'' ''netns'' 10 NEED_NS LNX (ET OR RIGHT),
      Format_Struct ''ni'' ''NI'' ''nice'' ''nice'' 3 0 BSD (TO OR RIGHT),
      Format_Struct ''nice'' ''NI'' ''nice'' ''nice'' 3 0 U98 (TO OR RIGHT),
      Format_Struct ''nivcsw'' ''IVCSW'' ''nop'' ''nop'' 5 0 XXX (AN OR RIGHT),
      Format_Struct ''nlwp'' ''NLWP'' ''nlwp'' ''nlwp'' 4 0 SUN (PO OR RIGHT),
      Format_Struct ''nsignals'' ''NSIGS'' ''nop'' ''nop'' 5 0 DEC (AN OR RIGHT),
      Format_Struct ''nsigs'' ''NSIGS'' ''nop'' ''nop'' 5 0 BSD (AN OR RIGHT),
      Format_Struct ''nswap'' ''NSWAP'' ''nop'' ''nop'' 5 0 XXX (AN OR RIGHT),
      Format_Struct ''nvcsw'' ''VCSW'' ''nop'' ''nop'' 5 0 XXX (AN OR RIGHT),
      Format_Struct ''nwchan'' ''WCHAN'' ''nwchan'' ''nop'' 6 0 XXX (TO OR RIGHT),
      Format_Struct ''opri'' ''PRI'' ''opri'' ''priority'' 3 0 SUN (TO OR RIGHT),
      Format_Struct ''osz'' ''SZ'' ''nop'' ''nop'' 2 0 SUN (PO OR RIGHT),
      Format_Struct ''oublk'' ''OUBLK'' ''nop'' ''nop'' 5 0 BSD (AN OR RIGHT),
      Format_Struct ''oublock'' ''OUBLK'' ''nop'' ''nop'' 5 0 DEC (AN OR RIGHT),
      Format_Struct ''ouid'' ''OWNER'' ''sd_ouid'' ''nop'' 5 NEED_SD LNX (ET OR LEFT),
      Format_Struct ''p_ru'' ''P_RU'' ''nop'' ''nop'' 6 0 BSD (AN OR RIGHT),
      Format_Struct ''paddr'' ''PADDR'' ''nop'' ''nop'' 6 0 BSD (AN OR RIGHT),
      Format_Struct ''pagein'' ''PAGEIN'' ''majflt'' ''maj_flt'' 6 0 XXX (AN OR RIGHT),
      Format_Struct ''pcpu'' ''%CPU'' ''pcpu'' ''pcpu'' 4 0 U98 (ET OR RIGHT),
      Format_Struct ''pending'' ''PENDING'' ''sig'' ''nop'' 9 0 BSD (ET OR SIGNAL),
      Format_Struct ''pgid'' ''PGID'' ''pgid'' ''pgrp'' 5 0 U98 (PO OR PIDMAX OR RIGHT),
      Format_Struct ''pgrp'' ''PGRP'' ''pgid'' ''pgrp'' 5 0 LNX (PO OR PIDMAX OR RIGHT)]"

definition format_rows_3 :: "format_struct list" where
  "format_rows_3 =
     [Format_Struct ''pid'' ''PID'' ''procs'' ''procs'' 5 0 U98 (PO OR PIDMAX OR RIGHT),
      Format_Struct ''pidns'' ''PIDNS'' ''pidns'' ''pidns'' 10 NEED_NS LNX (ET OR RIGHT),
      Format_Struct ''pmem'' ''%MEM'' ''pmem'' ''rss'' 4 0 XXX (PO OR RIGHT),
      Format_Struct ''poip'' ''-'' ''nop'' ''nop'' 1 0 BSD (AN OR RIGHT),
      Format_Struct ''policy'' ''POL'' ''class'' ''sched'' 3 0 DEC (TO OR LEFT),
      Format_Struct ''ppid'' ''PPID'' ''ppid'' ''ppid'' 5 0 U98 (PO OR PIDMAX OR RIGHT),
      Format_Struct ''pri'' ''PRI'' ''pri'' ''nop'' 3 0 XXX (TO OR RIGHT),
      Format_Struct ''pri_api'' ''API'' ''pri_api'' ''nop'' 3 0 LNX (TO OR RIGHT),
      Format_Struct ''pri_bar'' ''BAR'' ''pri_bar'' ''nop'' 3 0 LNX (TO OR RIGHT),
      Format_Struct ''pri_baz'' ''BAZ'' ''pri_baz'' ''nop'' 3 0 LNX (TO OR RIGHT),
      Format_Struct ''pri_foo'' ''FOO'' ''pri_foo'' ''nop'' 3 0 LNX (TO OR RIGHT),
      Format_Struct ''priority'' ''PRI'' ''priority'' ''priority'' 3 0 LNX (TO OR RIGHT),
      Format_Struct ''prmgrp'' ''PRMGRP'' ''nop'' ''nop'' 12 0 HPU (PO OR RIGHT),
      Format_Struct ''prmid'' ''PRMID'' ''nop'' ''nop'' 12 0 HPU (PO OR RIGHT),
      Format_Struct ''project'' ''PROJECT'' ''nop'' ''nop'' 12 0 SUN (PO OR LEFT),
      Format_Struct ''projid'' ''PROJID'' ''nop'' ''nop'' 5 0 SUN (PO OR RIGHT),
      Format_Struct ''pset'' ''PSET'' ''nop'' ''nop'' 4 0 DEC (TO OR RIGHT),
      Format_Struct ''psr'' ''PSR'' ''psr'' ''nop'' 3 0 DEC (TO OR RIGHT),
      Format_Struct ''psxpri'' ''PPR'' ''nop'' ''nop'' 3 0 DEC (TO OR RIGHT),
      Format_Struct ''re'' ''RE'' ''nop'' ''nop'' 3 0 BSD (AN OR RIGHT),
      Format_Struct ''resident'' ''RES'' ''nop'' ''resident'' 5 NEED_MEM LNX (PO OR RIGHT),
      Format_Struct ''rgid'' ''RGID'' ''rgid'' ''rgid'' 5 0 XXX (ET OR RIGHT),
      Format_Struct ''rgroup'' ''RGROUP'' ''rgroup'' ''rgroup'' 8 NEED_GRP U98 (ET OR USER),
      Format_Struct ''rlink'' ''RLINK'' ''nop'' ''nop'' 8 0 BSD (AN OR RIGHT),
      Format_Struct ''rss'' ''RSS'' ''rss'' ''rss'' 5 0 XXX (PO OR RIGHT),
      Format_Struct ''rssize'' ''RSS'' ''rss'' ''vm_rss'' 5 0 DEC (PO OR RIGHT),
      Format_Struct ''rsz'' ''RSZ'' ''rss'' ''vm_rss'' 5 0 BSD (PO OR RIGHT),
      Format_Struct ''rtprio'' ''RTPRIO'' ''rtprio'' ''rtprio'' 6 0 BSD (TO OR RIGHT),
      Format_Struct ''ruid'' ''RUID'' ''ruid'' ''ruid'' 5 0 XXX (ET OR RIGHT),
      Format_Struct ''ruser'' ''RUSER'' ''ruser'' ''ruser'' 8 NEED_USR U98 (ET OR USER),
      Format_Struct ''s'' ''S'' ''s'' ''state'' 1 0 SUN (TO OR LEFT),
      Format_Struct ''sched'' ''SCH'' ''sched'' ''sched'' 3 0 AIX (TO OR RIGHT),
      Format_Struct ''scnt'' ''SCNT'' ''nop'' ''nop'' 4 0 DEC (AN OR RIGHT),
      Format_Struct ''scount'' ''SC'' ''nop'' ''nop'' 4 0 AIX (AN OR RIGHT),
      Format_Struct ''seat'' ''SEAT'' ''sd_seat'' ''nop'' 11 NEED_SD LNX (ET OR LEFT),
      Format_Struct ''sess'' ''SESS'' ''sess'' ''session'' 5 0 XXX (PO OR PIDMAX OR RIGHT),
      Format_Struct ''session'' ''SESS'' ''sess'' ''session'' 5 0 LNX (PO OR PIDMAX OR RIGHT),
      Format_Struct ''sgi_p'' ''P'' ''sgi_p'' ''nop'' 1 0 LNX (TO OR RIGHT),
      Format_Struct ''sgi_rss'' ''RSS'' ''rss'' ''nop'' 4 0 LNX (PO OR LEFT),
      Format_Struct ''sgid'' ''SGID'' ''sgid'' ''sgid'' 5 0 LNX (ET OR RIGHT),
      Format_Struct ''sgroup'' ''SGROUP'' ''sgroup'' ''sgroup'' 8 NEED_GRP LNX (ET OR USER),
      Format_Struct ''share'' ''-'' ''nop'' ''share'' 1 NEED_MEM LNX (PO OR RIGHT),
      Format_Struct ''sid'' ''SID'' ''sess'' ''session'' 5 0 XXX (PO OR PIDMAX OR RIGHT),
      Format_Struct ''sig'' ''PENDING'' ''sig'' ''nop'' 9 0 XXX (ET OR SIGNAL),
      Format_Struct ''sig_block'' ''BLOCKED'' ''sigmask'' ''nop'' 9 0 LNX (TO OR SIGNAL),
      Format_Struct ''sig_catch'' ''CATCHED'' ''sigcatch'' ''nop'' 9 0 LNX (TO OR SIGNAL),
      Format_Struct ''sig_ignore'' ''IGNORED'' ''sigignore'' ''nop'' 9 0 LNX (TO OR SIGNAL),
      Format_Struct ''sig_pend'' ''SIGNAL'' ''sig'' ''nop'' 9 0 LNX (ET OR SIGNAL),
      Format_Struct ''sigcatch'' ''CAUGHT'' ''sigcatch'' ''nop'' 9 0 XXX (TO OR SIGNAL),
      Format_Struct ''sigignore'' ''IGNORED'' ''sigignore'' ''nop'' 9 0 XXX (TO OR SIGNAL),
      Format_Struct ''sigmask'' ''BLOCKED'' ''sigmask'' ''nop'' 9 0 XXX (TO OR SIGNAL),
      Format_Struct ''size'' ''SIZE'' ''swapable'' ''swapable'' 5 0 SCO (PO OR RIGHT),
      Format_Struct ''sl'' ''SL'' ''nop'' ''nop'' 3 0 XXX (AN OR RIGHT),
      Format_Struct ''slice'' ''SLICE'' ''sd_slice'' ''nop'' 31 NEED_SD LNX (ET OR LEFT),
      Format_Struct ''spid'' ''SPID'' ''tasks'' ''tasks'' 5 0 SGI (TO OR PIDMAX OR RIGHT),
      Format_Struct ''stackp'' ''STACKP'' ''stackp'' ''start_stack'' 8 0 LNX (PO OR RIGHT),
      Format_Struct ''start'' ''STARTED'' ''start'' ''nop'' 8 0 XXX (ET OR RIGHT),
      Format_Struct ''start_code'' ''S_CODE'' ''nop'' ''start_code'' 8 0 LNX (PO OR RIGHT),
      Format_Struct ''start_stack'' ''STACKP'' ''stackp'' ''start_stack'' 8 0 LNX (PO OR RIGHT),
      Format_Struct ''start_time'' ''START'' ''stime'' ''start_time'' 5 0 LNX (ET OR RIGHT),
      Format_Struct ''stat'' ''STAT'' ''stat'' ''state'' 4 0 BSD (TO OR LEFT),
      Format_Struct ''state'' ''S'' ''s'' ''state'' 1 0 XXX (TO OR LEFT),
      Format_Struct ''status'' ''STATUS'' ''nop'' ''nop'' 6 0 DEC (AN OR RIGHT),
      Format_Struct ''stime'' ''STIME'' ''stime'' ''stime'' 5 0 XXX (ET OR RIGHT)]"

definition format_rows_4 :: "format_struct list" where
  "format_rows_4 =
     [Format_Struct ''suid'' ''SUID'' ''suid'' ''suid'' 5 0 LNX (ET OR RIGHT),
      Format_Struct ''supgid'' ''SUPGID'' ''supgid'' ''nop'' 20 0 LNX (PO OR UNLIMITED),
      Format_Struct ''supgrp'' ''SUPGRP'' ''supgrp'' ''nop'' 40 NEED_SGRP LNX (PO OR UNLIMITED),
      Format_Struct ''suser'' ''SUSER'' ''suser'' ''suser'' 8 NEED_USR LNX (ET OR USER),
      Format_Struct ''svgid'' ''SVGID'' ''sgid'' ''sgid'' 5 0 XXX (ET OR RIGHT),
      Format_Struct ''svgroup'' ''SVGROUP'' ''sgroup'' ''sgroup'' 8 NEED_GRP LNX (ET OR USER),
      Format_Struct ''svuid'' ''SVUID'' ''suid'' ''suid'' 5 0 XXX (ET OR RIGHT),
      Format_Struct ''svuser'' ''SVUSER'' ''suser'' ''suser'' 8 NEED_USR LNX (ET OR USER),
      Format_Struct ''systime'' ''SYSTEM'' ''nop'' ''nop'' 6 0 DEC (ET OR RIGHT),
      Format_Struct ''sz'' ''SZ'' ''sz'' ''nop'' 5 0 HPU (PO OR RIGHT),
      Format_Struct ''taskid'' ''TASKID'' ''nop'' ''nop'' 5 0 SUN (TO OR PIDMAX OR RIGHT),
      Format_Struct ''tdev'' ''TDEV'' ''nop'' ''nop'' 4 0 XXX (AN OR RIGHT),
      Format_Struct ''tgid'' ''TGID'' ''procs'' ''procs'' 5 0 LNX (PO OR PIDMAX OR RIGHT),
      Format_Struct ''thcount'' ''THCNT'' ''nlwp'' ''nlwp'' 5 0 AIX (PO OR RIGHT),
      Format_Struct ''tid'' ''TID'' ''tasks'' ''tasks'' 5 0 AIX (TO OR PIDMAX OR RIGHT),
      Format_Struct ''time'' ''TIME'' ''time'' ''time'' 8 0 U98 (ET OR RIGHT),
      Format_Struct ''timeout'' ''TMOUT'' ''nop'' ''nop'' 5 0 LNX (AN OR RIGHT),
      Format_Struct ''tmout'' ''TMOUT'' ''nop'' ''nop'' 5 0 LNX (AN OR RIGHT),
      Format_Struct ''tname'' ''TTY'' ''tty8'' ''tty'' 8 0 DEC (PO OR LEFT),
      Format_Struct ''tpgid'' ''TPGID'' ''tpgid'' ''tpgid'' 5 0 XXX (PO OR PIDMAX OR RIGHT),
      Format_Struct ''trs'' ''TRS'' ''trs'' ''trs'' 4 NEED_MEM AIX (PO OR RIGHT),
      Format_Struct ''trss'' ''TRSS'' ''trs'' ''trs'' 4 NEED_MEM BSD (PO OR RIGHT),
      Format_Struct ''tsess'' ''TSESS'' ''nop'' ''nop'' 5 0 BSD (PO OR PIDMAX OR RIGHT),
      Format_Struct ''tsession'' ''TSESS'' ''nop'' ''nop'' 5 0 DEC (PO OR PIDMAX OR RIGHT),
      Format_Struct ''tsid'' ''TSID'' ''nop'' ''nop'' 5 0 BSD (PO OR PIDMAX OR RIGHT),
      Format_Struct ''tsig'' ''PENDING'' ''tsig'' ''nop'' 9 0 BSD (ET OR SIGNAL),
      Format_Struct ''tsiz'' ''TSIZ'' ''tsiz'' ''nop'' 4 0 BSD (PO OR RIGHT),
      Format_Struct ''tt'' ''TT'' ''tty8'' ''tty'' 8 0 BSD (PO OR LEFT),
      Format_Struct ''tty'' ''TT'' ''tty8'' ''tty'' 8 0 U98 (PO OR LEFT),
      Format_Struct ''tty4'' ''TTY'' ''tty4'' ''tty'' 4 0 LNX (PO OR LEFT),
      Format_Struct ''tty8'' ''TTY'' ''tty8'' ''tty'' 8 0 LNX (PO OR LEFT),
      Format_Struct ''u_procp'' ''UPROCP'' ''nop'' ''nop'' 6 0 DEC (AN OR RIGHT),
      Format_Struct ''ucmd'' ''CMD'' ''comm'' ''cmd'' 15 NEED_COM DEC (PO OR UNLIMITED),
      Format_Struct ''ucomm'' ''COMMAND'' ''comm'' ''cmd'' 15 NEED_COM XXX (PO OR UNLIMITED),
      Format_Struct ''uid'' ''UID'' ''euid'' ''euid'' 5 0 XXX (ET OR RIGHT),
      Format_Struct ''uid_hack'' ''UID'' ''euser'' ''euser'' 8 NEED_USR XXX (ET OR USER),
      Format_Struct ''umask'' ''UMASK'' ''nop'' ''nop'' 5 0 DEC (AN OR RIGHT),
      Format_Struct ''uname'' ''USER'' ''euser'' ''euser'' 8 NEED_USR DEC (ET OR USER),
      Format_Struct ''unit'' ''UNIT'' ''sd_unit'' ''nop'' 31 NEED_SD LNX (ET OR LEFT),
      Format_Struct ''upr'' ''UPR'' ''nop'' ''nop'' 3 0 BSD (TO OR RIGHT),
      Format_Struct ''uprocp'' ''UPROCP'' ''nop'' ''nop'' 8 0 BSD (AN OR RIGHT),
      Format_Struct ''user'' ''USER'' ''euser'' ''euser'' 8 NEED_USR U98 (ET OR USER),
      Format_Struct ''userns'' ''USERNS'' ''userns'' ''userns'' 10 NEED_NS LNX (ET OR RIGHT),
      Format_Struct ''usertime'' ''USER'' ''nop'' ''nop'' 4 0 DEC (ET OR RIGHT),
      Format_Struct ''usrpri'' ''UPR'' ''nop'' ''nop'' 3 0 DEC (TO OR RIGHT),
      Format_Struct ''util'' ''C'' ''c'' ''pcpu'' 2 0 SGI (ET OR RIGHT),
      Format_Struct ''utime'' ''UTIME'' ''nop'' ''utime'' 6 0 LNX (ET OR RIGHT),
      Format_Struct ''utsns'' ''UTSNS'' ''utsns'' ''utsns'' 10 NEED_NS LNX (ET OR RIGHT),
      Format_Struct ''uunit'' ''UUNIT'' ''sd_uunit'' ''nop'' 31 NEED_SD LNX (ET OR LEFT),
      Format_Struct ''vm_data'' ''DATA'' ''nop'' ''vm_data'' 5 0 LNX (PO OR RIGHT),
      Format_Struct ''vm_exe'' ''EXE'' ''nop'' ''vm_exe'' 5 0 LNX (PO OR RIGHT),
      Format_Struct ''vm_lib'' ''LIB'' ''nop'' ''vm_lib'' 5 0 LNX (PO OR RIGHT),
      Format_Struct ''vm_lock'' ''LCK'' ''nop'' ''vm_lock'' 3 0 LNX (PO OR RIGHT),
      Format_Struct ''vm_stack'' ''STACK'' ''nop'' ''vm_stack'' 5 0 LNX (PO OR RIGHT),
      Format_Struct ''vsize'' ''VSZ'' ''vsz'' ''vsize'' 6 0 DEC (PO OR RIGHT),
      Format_Struct ''vsz'' ''VSZ'' ''vsz'' ''vm_size'' 6 0 U98 (PO OR RIGHT),
      Format_Struct ''wchan'' ''WCHAN'' ''wchan'' ''wchan'' 6 0 XXX (TO OR WCHAN),
      Format_Struct ''wname'' ''WCHAN'' ''wname'' ''nop'' 6 0 SGI (TO OR WCHAN),
      Format_Struct ''xstat'' ''XSTAT'' ''nop'' ''nop'' 5 0 BSD (AN OR RIGHT),
      Format_Struct ''zone'' ''ZONE'' ''context'' ''nop'' 31 0 SUN (ET OR LEFT),
      Format_Struct ''zoneid'' ''ZONEID'' ''nop'' ''nop'' 31 0 SUN (ET OR RIGHT),
      Format_Struct ''~'' ''-'' ''nop'' ''nop'' 1 0 LNX (AN OR RIGHT)]"

definition format_array :: "format_struct list" where
  "format_array = format_rows_1 @ format_rows_2 @ format_rows_3 @ format_rows_4"

definition macro_array :: "macro_struct list" where
  "macro_array =
     [Macro_Struct ''DFMT'' ''pid,tname,state,cputime,cmd'',
      Macro_Struct ''DefBSD'' ''pid,tname,stat,bsdtime,args'',
      Macro_Struct ''DefSysV'' ''pid,tname,time,cmd'',
      Macro_Struct ''END_BSD'' ''state,tname,cputime,comm'',
      Macro_Struct ''END_SYS5'' ''state,tname,time,command'',
      Macro_Struct ''F5FMT'' ''uname,pid,ppid,c,start,tname,time,cmd'',
      Macro_Struct ''FB_'' ''pid,tt,stat,time,command'',
      Macro_Struct ''FB_j'' ''user,pid,ppid,pgid,sess,jobc,stat,tt,time,command'',
      Macro_Struct ''FB_l'' ''uid,pid,ppid,cpu,pri,nice,vsz,rss,wchan,stat,tt,time,command'',
      Macro_Struct ''FB_u'' ''user,pid,pcpu,pmem,vsz,rss,tt,stat,start,time,command'',
      Macro_Struct ''FB_v'' ''pid,stat,time,sl,re,pagein,vsz,rss,lim,tsiz,pcpu,pmem,command'',
      Macro_Struct ''FD_'' ''pid,tty,time,comm'',
      Macro_Struct ''FD_f'' ''user,pid,ppid,start_time,tty,time,comm'',
      Macro_Struct ''FD_fj'' ''user,pid,ppid,start_time,tty,time,pgid,sid,comm'',
      Macro_Struct ''FD_j'' ''pid,tty,time,pgid,sid,comm'',
      Macro_Struct ''FD_l'' ''flags,state,uid,pid,ppid,priority,nice,vsz,wchan,tty,time,comm'',
      Macro_Struct ''FD_lj'' ''flags,state,uid,pid,ppid,priority,nice,vsz,wchan,tty,time,pgid,sid,comm'',
      Macro_Struct ''FL5FMT'' ''f,state,uid,pid,ppid,pcpu,pri,nice,rss,wchan,start,time,command'',
      Macro_Struct ''FLASK_context'' ''pid,context,command'',
      Macro_Struct ''HP_'' ''pid,tty,time,comm'',
      Macro_Struct ''HP_f'' ''user,pid,ppid,cpu,stime,tty,time,args'',
      Macro_Struct ''HP_fl'' ''flags,state,user,pid,ppid,cpu,intpri,nice,addr,sz,wchan,stime,tty,time,args'',
      Macro_Struct ''HP_l'' ''flags,state,uid,pid,ppid,cpu,intpri,nice,addr,sz,wchan,tty,time,comm'',
      Macro_Struct ''J390'' ''pid,sid,pgrp,tname,atime,args'',
      Macro_Struct ''JFMT'' ''user,pid,ppid,pgid,sess,jobc,state,tname,cputime,command'',
      Macro_Struct ''L5FMT'' ''f,state,uid,pid,ppid,c,pri,nice,addr,sz,wchan,tt,time,ucmd'',
      Macro_Struct ''LFMT'' ''uid,pid,ppid,cp,pri,nice,vsz,rss,wchan,state,tname,cputime,command'',
      Macro_Struct ''OL_X'' ''pid,start_stack,esp,eip,timeout,alarm,stat,tname,bsdtime,args'',
      Macro_Struct ''OL_j'' ''ppid,pid,pgid,sid,tname,tpgid,stat,uid,bsdtime,args'',
      Macro_Struct ''OL_l'' ''flags,uid,pid,ppid,priority,nice,vsz,rss,wchan,stat,tname,bsdtime,args'',
      Macro_Struct ''OL_m'' ''pid,tname,majflt,minflt,m_trs,m_drs,m_size,m_swap,rss,m_share,vm_lib,m_dt,args'',
      Macro_Struct ''OL_s'' ''uid,pid,pending,sig_block,sig_ignore,caught,stat,tname,bsdtime,args'',
      Macro_Struct ''OL_u'' ''user,pid,pcpu,pmem,vsz,rss,tname,stat,start_time,bsdtime,args'',
      Macro_Struct ''OL_v'' ''pid,tname,stat,bsdtime,maj_flt,m_trs,m_drs,rss,pmem,args'',
      Macro_Struct ''RD_'' ''pid,tname,state,bsdtime,comm'',
      Macro_Struct ''RD_f'' ''uid,pid,ppid,start_time,tname,bsdtime,args'',
      Macro_Struct ''RD_fj'' ''uid,pid,ppid,start_time,tname,bsdtime,pgid,sid,args'',
      Macro_Struct ''RD_j'' ''pid,tname,state,bsdtime,pgid,sid,comm'',
      Macro_Struct ''RD_l'' ''flags,state,uid,pid,ppid,priority,nice,wchan,tname,bsdtime,comm'',
      Macro_Struct ''RD_lj'' ''flags,state,uid,pid,ppid,priority,nice,wchan,tname,bsdtime,pgid,sid,comm'',
      Macro_Struct ''RUSAGE'' ''minflt,majflt,nswap,inblock,oublock,msgsnd,msgrcv,nsigs,nvcsw,nivcsw'',
      Macro_Struct ''SCHED'' ''user,pcpu,pri,usrpri,nice,psxpri,psr,policy,pset'',
      Macro_Struct ''SFMT'' ''uid,pid,cursig,sig,sigmask,sigignore,sigcatch,stat,tname,command'',
      Macro_Struct ''Std_f'' ''uid_hack,pid,ppid,c,stime,tname,time,cmd'',
      Macro_Struct ''Std_fl'' ''f,s,uid_hack,pid,ppid,c,opri,ni,addr,sz,wchan,stime,tname,time,cmd'',
      Macro_Struct ''Std_l'' ''f,s,uid,pid,ppid,c,opri,ni,addr,sz,wchan,tname,time,ucmd'',
      Macro_Struct ''THREAD'' ''user,pcpu,pri,scnt,wchan,usertime,systime'',
      Macro_Struct ''UFMT'' ''uname,pid,pcpu,pmem,vsz,rss,tt,state,start,time,command'',
      Macro_Struct ''VFMT'' ''pid,tt,state,time,sl,pagein,vsz,rss,pcpu,pmem,command'',
      Macro_Struct ''~'' ''~'']"

definition aix_array :: "aix_struct list" where
  "aix_array =
     [Aix_Struct (CHR ''C'') ''pcpu'' ''%CPU'',
      Aix_Struct (CHR ''G'') ''group'' ''GROUP'',
      Aix_Struct (CHR ''P'') ''ppid'' ''PPID'',
      Aix_Struct (CHR ''U'') ''user'' ''USER'',
      Aix_Struct (CHR ''a'') ''args'' ''COMMAND'',
      Aix_Struct (CHR ''c'') ''comm'' ''COMMAND'',
      Aix_Struct (CHR ''g'') ''rgroup'' ''RGROUP'',
      Aix_Struct (CHR ''n'') ''nice'' ''NI'',
      Aix_Struct (CHR ''p'') ''pid'' ''PID'',
      Aix_Struct (CHR ''r'') ''pgid'' ''PGID'',
      Aix_Struct (CHR ''t'') ''etime'' ''ELAPSED'',
      Aix_Struct (CHR ''u'') ''ruser'' ''RUSER'',
      Aix_Struct (CHR ''x'') ''time'' ''TIME'',
      Aix_Struct (CHR ''y'') ''tty'' ''TTY'',
      Aix_Struct (CHR ''z'') ''vsz'' ''VSZ'',
      Aix_Struct (CHR ''~'') ''~'' ''~'']"

definition shortsort_array :: "shortsort_struct list" where
  "shortsort_array =
     [Shortsort_Struct (CHR ''C'') ''pcpu'',
      Shortsort_Struct (CHR ''G'') ''tpgid'',
      Shortsort_Struct (CHR ''J'') ''cstime'',
      Shortsort_Struct (CHR ''M'') ''maj_flt'',
      Shortsort_Struct (CHR ''N'') ''cmaj_flt'',
      Shortsort_Struct (CHR ''P'') ''ppid'',
      Shortsort_Struct (CHR ''R'') ''resident'',
      Shortsort_Struct (CHR ''S'') ''share'',
      Shortsort_Struct (CHR ''T'') ''start_time'',
      Shortsort_Struct (CHR ''U'') ''uid'',
      Shortsort_Struct (CHR ''c'') ''cmd'',
      Shortsort_Struct (CHR ''f'') ''flags'',
      Shortsort_Struct (CHR ''g'') ''pgrp'',
      Shortsort_Struct (CHR ''j'') ''cutime'',
      Shortsort_Struct (CHR ''k'') ''utime'',
      Shortsort_Struct (CHR ''m'') ''min_flt'',
      Shortsort_Struct (CHR ''n'') ''cmin_flt'',
      Shortsort_Struct (CHR ''o'') ''session'',
      Shortsort_Struct (CHR ''p'') ''pid'',
      Shortsort_Struct (CHR ''r'') ''rss'',
      Shortsort_Struct (CHR ''s'') ''size'',
      Shortsort_Struct (CHR ''t'') ''tty'',
      Shortsort_Struct (CHR ''u'') ''user'',
      Shortsort_Struct (CHR ''v'') ''vsize'',
      Shortsort_Struct (CHR ''y'') ''priority'',
      Shortsort_Struct (CHR ''~'') ''~'']"

subsection \<open>The searches\<close>

definition search_format_array :: "string \<Rightarrow> format_struct option" where
  "search_format_array findme = bsearch (by_spec fspec) findme format_array"

definition search_macro_array :: "string \<Rightarrow> macro_struct option" where
  "search_macro_array findme = bsearch (by_spec mspec) findme macro_array"

fun walk_aix :: "char \<Rightarrow> aix_struct list \<Rightarrow> aix_struct option" where
  "walk_aix c [] = None"
| "walk_aix c (a # as) = (if adesc a = CHR ''~'' then None else if adesc a = c then Some a else walk_aix c as)"

definition search_aix_array :: "char \<Rightarrow> aix_struct option" where
  "search_aix_array c = walk_aix c aix_array"

fun walk_shortsort :: "char \<Rightarrow> shortsort_struct list \<Rightarrow> shortsort_struct option" where
  "walk_shortsort c [] = None"
| "walk_shortsort c (a # as) = (if sdesc a = CHR ''~'' then None else if sdesc a = c then Some a else walk_shortsort c as)"

definition search_shortsort_array :: "char \<Rightarrow> shortsort_struct option" where
  "search_shortsort_array c = walk_shortsort c shortsort_array"

lemma format_array_sorted:
  "strictly_sorted (map fspec format_array)" "list_all is_cstring (map fspec format_array)"
  by code_simp+

lemma macro_array_sorted:
  "strictly_sorted (map mspec macro_array)" "list_all is_cstring (map mspec macro_array)"
  by code_simp+

interpretation formats: sorted_table "by_spec fspec" format_array is_cstring
  by (intro sorted_by_spec format_array_sorted)

interpretation macros: sorted_table "by_spec mspec" macro_array is_cstring
  by (intro sorted_by_spec macro_array_sorted)

lemma search_format_find: "is_cstring s \<Longrightarrow> search_format_array s = find (\<lambda>f. fspec f = s) format_array"
  by (simp add: search_format_array_def formats.bsearch_find find_by_spec format_array_sorted)

lemma search_macro_find: "is_cstring s \<Longrightarrow> search_macro_array s = find (\<lambda>m. mspec m = s) macro_array"
  by (simp add: search_macro_array_def macros.bsearch_find find_by_spec macro_array_sorted)

end
