(* ===== verification/PsProc.thy ===== *)
theory PsProc
  imports PsTable Scan
begin

text \<open>
  What ps knows of a process (\<open>proc_t\<close> of \<open>src/modules/ps/inc/readproc.h\<close>), as the selection, the
  sorting and the printing functions use it, and the globals of \<open>src/modules/ps/src/global.c\<close>.

  An \<open>int\<close> of the struct is an \<open>int\<close> here and stays in its range; counters are \<open>u64\<close>. A vector of
  strings that was not read is \<open>None\<close>. All fields of the struct are there but the two deltas nobody
  fills in and the links \<open>ring\<close> and \<open>next\<close>.
\<close>

record proc_t =
  p_tid :: int
  p_ppid :: int
  p_pcpu :: u32
  p_state :: char
  p_utime :: u64
  p_stime :: u64
  p_cutime :: u64
  p_cstime :: u64
  p_start_time :: u64
  p_start_code :: u64
  p_end_code :: u64
  p_wchan :: u64
  p_priority :: int
  p_nice :: int
  p_alarm :: int
  p_vm_size :: u64
  p_vm_lock :: u64
  p_vm_rss :: u64
  p_vm_data :: u64
  p_vm_stack :: u64
  p_rtprio :: u64
  p_sched :: u64
  p_vsize :: u64
  p_flags :: u64
  p_min_flt :: u64
  p_maj_flt :: u64
  p_cmin_flt :: u64
  p_cmaj_flt :: u64
  p_environ :: "string list option"
  p_cmdline :: "string list option"
  p_euser :: string
  p_ruser :: string
  p_cmd :: string
  p_pgrp :: int
  p_session :: int
  p_nlwp :: int
  p_tgid :: int
  p_tty :: int
  p_euid :: int
  p_egid :: int
  p_ruid :: int
  p_rgid :: int
  p_suid :: int
  p_sgid :: int
  p_fuid :: int
  p_fgid :: int
  p_tpgid :: int
  p_processor :: int
  p_signal :: string
  p_blocked :: string
  p_sigignore :: string
  p_sigcatch :: string
  p_sigpnd :: string
  p_start_stack :: u64
  p_kstk_esp :: u64
  p_kstk_eip :: u64
  p_rss :: int
  p_size :: int
  p_resident :: int
  p_share :: int
  p_trs :: int
  p_lrs :: int
  p_drs :: int
  p_dt :: int
  p_vm_rss_anon :: u64
  p_vm_rss_file :: u64
  p_vm_rss_shared :: u64
  p_vm_swap :: u64
  p_vm_exe :: u64
  p_vm_lib :: u64
  p_rss_rlim :: u64
  p_cgroup :: "string list option"
  p_cgname :: "string option"
  p_supgid :: "string option"
  p_supgrp :: "string option"
  p_suser :: string
  p_fuser :: string
  p_rgroup :: string
  p_egroup :: string
  p_sgroup :: string
  p_fgroup :: string
  p_exit_signal :: int
  p_oom_score :: int
  p_oom_adj :: int
  p_ns :: "int list"
  p_sd_mach :: "string option"
  p_sd_ouid :: "string option"
  p_sd_seat :: "string option"
  p_sd_sess :: "string option"
  p_sd_slice :: "string option"
  p_sd_unit :: "string option"
  p_sd_uunit :: "string option"
  p_lxcname :: "string option"

text \<open>A structure of zero bytes, as \<open>free_acquired\<close> leaves it for the next process.\<close>

definition blank_proc :: proc_t where
  "blank_proc = \<lparr> p_tid = 0, p_ppid = 0, p_pcpu = 0, p_state = NUL, p_utime = 0, p_stime = 0, p_cutime = 0,
     p_cstime = 0, p_start_time = 0, p_start_code = 0, p_end_code = 0, p_wchan = 0, p_priority = 0, p_nice = 0, p_alarm = 0,
     p_vm_size = 0, p_vm_lock = 0, p_vm_rss = 0, p_vm_data = 0, p_vm_stack = 0, p_rtprio = 0, p_sched = 0, p_vsize = 0,
     p_flags = 0, p_min_flt = 0, p_maj_flt = 0, p_cmin_flt = 0, p_cmaj_flt = 0, p_environ = None, p_cmdline = None,
     p_euser = [], p_ruser = [], p_cmd = [], p_pgrp = 0, p_session = 0, p_nlwp = 0, p_tgid = 0, p_tty = 0, p_euid = 0,
     p_egid = 0, p_ruid = 0, p_rgid = 0, p_suid = 0, p_sgid = 0, p_fuid = 0, p_fgid = 0, p_tpgid = 0, p_processor = 0,
     p_signal = [], p_blocked = [], p_sigignore = [], p_sigcatch = [], p_sigpnd = [], p_start_stack = 0, p_kstk_esp = 0,
     p_kstk_eip = 0, p_rss = 0, p_size = 0, p_resident = 0, p_share = 0, p_trs = 0, p_lrs = 0, p_drs = 0, p_dt = 0,
     p_vm_rss_anon = 0, p_vm_rss_file = 0, p_vm_rss_shared = 0, p_vm_swap = 0, p_vm_exe = 0, p_vm_lib = 0, p_rss_rlim = 0,
     p_cgroup = None, p_cgname = None, p_supgid = None, p_supgrp = None, p_suser = [], p_fuser = [], p_rgroup = [],
     p_egroup = [], p_sgroup = [], p_fgroup = [], p_exit_signal = 0, p_oom_score = 0, p_oom_adj = 0,
     p_ns = [0, 0, 0, 0, 0, 0], p_sd_mach = None, p_sd_ouid = None, p_sd_seat = None, p_sd_sess = None,
     p_sd_slice = None, p_sd_unit = None, p_sd_uunit = None, p_lxcname = None \<rparr>"

subsection \<open>Lists the options build\<close>

text \<open>The type of a selection list, and its values (a union in the code: a number or a command name).\<close>

datatype sel_type =
  SEL_RUID | SEL_EUID | SEL_SUID | SEL_FUID | SEL_RGID | SEL_EGID | SEL_SGID | SEL_FGID | SEL_PGRP | SEL_PID |
  SEL_TTY | SEL_SESS | SEL_COMM | SEL_PPID | SEL_PID_QUICK

datatype sel_union = Sel_Num int | Sel_Cmd string

record selection_node =
  sel_u :: "sel_union list"
  typecode :: sel_type

record sort_node =
  sn_sr :: string
  sn_reverse :: bool
  sn_need :: u32

text \<open>\<open>fn_pr\<close> is the name of the printing function, \<open>None\<close> for the text of an AIX format.\<close>

record format_node =
  fn_name :: string
  fn_pr :: "string option"
  fn_width :: int
  fn_need :: u32
  fn_vendor :: vendor
  fn_flags :: u32

datatype sf_source = SF_U_O | SF_U_o | SF_B_O | SF_B_o | SF_B_m | SF_G_sort | SF_G_format

record sf_node =
  f_cooked :: "format_node list"
  s_cooked :: "sort_node list"
  sf :: string
  sf_code :: sf_source

datatype header_kind = HEAD_SINGLE | HEAD_NONE | HEAD_MULTI

subsection \<open>Flags\<close>

abbreviation SS_B_x :: u32 where "SS_B_x \<equiv> 0x01"
abbreviation SS_B_g :: u32 where "SS_B_g \<equiv> 0x02"
abbreviation SS_U_d :: u32 where "SS_U_d \<equiv> 0x04"
abbreviation SS_U_a :: u32 where "SS_U_a \<equiv> 0x08"
abbreviation SS_B_a :: u32 where "SS_B_a \<equiv> 0x10"

abbreviation PER_BROKEN_o :: u32 where "PER_BROKEN_o \<equiv> 0x0001"
abbreviation PER_BSD_h :: u32 where "PER_BSD_h \<equiv> 0x0002"
abbreviation PER_BSD_m :: u32 where "PER_BSD_m \<equiv> 0x0004"
abbreviation PER_IRIX_l :: u32 where "PER_IRIX_l \<equiv> 0x0008"
abbreviation PER_FORCE_BSD :: u32 where "PER_FORCE_BSD \<equiv> 0x0010"
abbreviation PER_GOOD_o :: u32 where "PER_GOOD_o \<equiv> 0x0020"
abbreviation PER_OLD_m :: u32 where "PER_OLD_m \<equiv> 0x0040"
abbreviation PER_NO_DEFAULT_g :: u32 where "PER_NO_DEFAULT_g \<equiv> 0x0080"
abbreviation PER_ZAP_ADDR :: u32 where "PER_ZAP_ADDR \<equiv> 0x0100"
abbreviation PER_SANE_USER :: u32 where "PER_SANE_USER \<equiv> 0x0200"
abbreviation PER_HPUX_x :: u32 where "PER_HPUX_x \<equiv> 0x0400"
abbreviation PER_SVR4_x :: u32 where "PER_SVR4_x \<equiv> 0x0800"

abbreviation FF_Uf :: u32 where "FF_Uf \<equiv> 0x0001"
abbreviation FF_Uj :: u32 where "FF_Uj \<equiv> 0x0002"
abbreviation FF_Ul :: u32 where "FF_Ul \<equiv> 0x0004"
abbreviation FF_Bj :: u32 where "FF_Bj \<equiv> 0x0008"
abbreviation FF_Bl :: u32 where "FF_Bl \<equiv> 0x0010"
abbreviation FF_Bs :: u32 where "FF_Bs \<equiv> 0x0020"
abbreviation FF_Bu :: u32 where "FF_Bu \<equiv> 0x0040"
abbreviation FF_Bv :: u32 where "FF_Bv \<equiv> 0x0080"
abbreviation FF_LX :: u32 where "FF_LX \<equiv> 0x0100"
abbreviation FF_Lm :: u32 where "FF_Lm \<equiv> 0x0200"
abbreviation FF_Fc :: u32 where "FF_Fc \<equiv> 0x0400"

abbreviation FM_c :: u32 where "FM_c \<equiv> 0x0001"
abbreviation FM_j :: u32 where "FM_j \<equiv> 0x0002"
abbreviation FM_y :: u32 where "FM_y \<equiv> 0x0004"
abbreviation FM_P :: u32 where "FM_P \<equiv> 0x0010"
abbreviation FM_M :: u32 where "FM_M \<equiv> 0x0020"
abbreviation FM_F :: u32 where "FM_F \<equiv> 0x0080"

abbreviation TF_B_H :: u32 where "TF_B_H \<equiv> 0x0001"
abbreviation TF_B_m :: u32 where "TF_B_m \<equiv> 0x0002"
abbreviation TF_U_m :: u32 where "TF_U_m \<equiv> 0x0004"
abbreviation TF_U_T :: u32 where "TF_U_T \<equiv> 0x0008"
abbreviation TF_U_L :: u32 where "TF_U_L \<equiv> 0x0010"
abbreviation TF_show_proc :: u32 where "TF_show_proc \<equiv> 0x0100"
abbreviation TF_show_task :: u32 where "TF_show_task \<equiv> 0x0200"
abbreviation TF_show_both :: u32 where "TF_show_both \<equiv> 0x0400"
abbreviation TF_loose_tasks :: u32 where "TF_loose_tasks \<equiv> 0x0800"
abbreviation TF_no_sort :: u32 where "TF_no_sort \<equiv> 0x1000"
abbreviation TF_must_use :: u32 where "TF_must_use \<equiv> 0x4000"

definition has :: "u32 \<Rightarrow> u32 \<Rightarrow> bool" where
  "has flags m \<longleftrightarrow> flags AND m \<noteq> 0"

subsection \<open>The globals\<close>

text \<open>
  The variables of \<open>global.c\<close> and the static ones of \<open>select.c\<close>, \<open>sortformat.c\<close> and \<open>parser.c\<close>.
  \<open>forest_type\<close> is the character it is set to, NUL for none.
  \<open>flagptr\<close>, set before each use, is an argument of the parsers instead.
\<close>

record ps_state =
  all_processes :: bool
  bsd_j_format :: string
  bsd_l_format :: string
  bsd_s_format :: string
  bsd_u_format :: string
  bsd_v_format :: string
  bsd_c_option :: bool
  bsd_e_option :: bool
  cached_euid :: int
  cached_tty :: int
  forest_type :: char
  format_flags :: u32
  format_list :: "format_node list"
  format_modifiers :: u32
  header_gap :: int
  header_type :: header_kind
  include_dead_children :: bool
  lines_to_next_header :: int
  negate_selection :: bool
  page_size :: int
  personality :: u32
  prefer_bsd_defaults :: bool
  running_only :: bool
  screen_cols :: int
  screen_rows :: int
  seconds_since_boot :: u64
  selection_list :: "selection_node list"
  simple_select :: u32
  sort_list :: "sort_node list"
  sysv_f_format :: "string option"
  sysv_fl_format :: "string option"
  sysv_j_format :: "string option"
  sysv_l_format :: "string option"
  thread_flags :: u32
  unix_f_option :: bool
  user_is_number :: bool
  wchan_is_number :: bool
  select_bits :: u64
  sf_list :: "sf_node list"
  have_gnu_sort :: bool
  already_parsed_sort :: bool
  already_parsed_format :: bool
  errbuf :: string
  w_count :: nat
  force_bsd :: bool
  ps_argv :: "string list"
  thisarg :: nat

end
