(* ===== verification/PsEscape.thy ===== *)
theory PsEscape
  imports PsProc
begin

text \<open>
  \<open>src/modules/ps/src/escape.c\<close>: what ps prints of names it does not trust. A function that writes to a
  buffer returns the bytes before the NUL it writes, and the room that is left (\<open>*maxcells\<close>).

  The C library decides by the locale: \<open>clib\<close> holds what it answers (\<open>mbrtowc\<close> the length of the next
  character, negative for an invalid sequence, and its code).
\<close>

record clib =
  utf8 :: bool
  mbrtowc :: "string \<Rightarrow> int \<times> nat"
  c_isprint :: "char \<Rightarrow> bool"
  iswprint :: "nat \<Rightarrow> bool"
  wcwidth :: "nat \<Rightarrow> int"

text \<open>The table \<open>codes\<close>; \<open>|\<close> keeps the byte.\<close>

definition escape_code :: "char \<Rightarrow> char" where
  "escape_code c =
     (if byte c < 32 \<or> byte c = 127 then CHR ''.'' else if byte c < 127 then c else CHR ''?'')"

fun escape_8bit :: "int \<Rightarrow> int \<Rightarrow> int \<Rightarrow> string \<Rightarrow> string" where
  "escape_8bit bufsize maxcells n [] = []"
| "escape_8bit bufsize maxcells n (c # src) =
     (if maxcells \<le> n \<or> bufsize \<le> n + 1 then [] else escape_code c # escape_8bit bufsize maxcells (n + 1) src)"

text \<open>One turn of the loop: the bytes written, the cells they take and the bytes of \<open>src\<close> read.\<close>

definition utf8_turn :: "clib \<Rightarrow> int \<Rightarrow> int \<Rightarrow> int \<Rightarrow> int \<Rightarrow> string \<Rightarrow> (string \<times> int \<times> nat) option" where
  "utf8_turn lc bufsize maxcells cells bytes src =
     (if maxcells \<le> cells \<or> bufsize \<le> bytes + 1 \<or> src = [] then None
      else (case mbrtowc lc src of (len, wc) \<Rightarrow>
        if len = 0 then None
        else if len < 0 then Some (''?'', 1, 1)
        else if len = 1 then Some ([if c_isprint lc (hd src) then hd src else CHR ''?''], 1, 1)
        else if \<not> iswprint lc wc \<or> wcwidth lc wc = 0 then Some (''?'', 1, nat len)
        else if maxcells < cells + wcwidth lc wc \<or> bufsize \<le> bytes + 1 + len then None
        else if CHR 0x9B \<in> set (take (nat len) src) then Some (''?'', 1, nat len)
        else Some (take (nat len) src, wcwidth lc wc, nat len)))"

lemma utf8_turn_reads: "utf8_turn lc bufsize maxcells cells bytes src = Some (t, w, k) \<Longrightarrow> 0 < k \<and> src \<noteq> []"
  by (auto simp: utf8_turn_def split: if_splits prod.splits)

function escape_utf8 :: "clib \<Rightarrow> int \<Rightarrow> int \<Rightarrow> int \<Rightarrow> int \<Rightarrow> string \<Rightarrow> string \<times> int" where
  "escape_utf8 lc bufsize maxcells cells bytes src =
     (case utf8_turn lc bufsize maxcells cells bytes src of
        None \<Rightarrow> ([], cells)
      | Some (t, w, k) \<Rightarrow>
          (case escape_utf8 lc bufsize maxcells (cells + w) (bytes + int (length t)) (drop k src) of
             (s, n) \<Rightarrow> (t @ s, n)))"
  by pat_completeness auto
termination
  by (relation "measure (\<lambda>(_, _, _, _, _, src). length src)") (auto dest: utf8_turn_reads)

declare escape_utf8.simps [simp del]

definition escape_str :: "clib \<Rightarrow> string \<Rightarrow> int \<Rightarrow> int \<Rightarrow> string \<times> int" where
  "escape_str lc src bufsize maxcells =
     (if utf8 lc then (case escape_utf8 lc bufsize maxcells 0 0 src of (s, n) \<Rightarrow> (s, maxcells - n))
      else let bufsize = (if maxcells + 1 < bufsize then maxcells + 1 else bufsize);
               s = escape_8bit bufsize maxcells 0 src
           in (s, maxcells - int (length s)))"

text \<open>The vector of strings must not be empty: its first entry is read without a test.\<close>

fun escape_strlist :: "clib \<Rightarrow> string list \<Rightarrow> int \<Rightarrow> int \<Rightarrow> (string \<times> int) outcome" where
  "escape_strlist lc [] bytes cells = Undef NullDeref"
| "escape_strlist lc (s # src) bytes cells =
     (case escape_str lc s bytes cells of (t, cells) \<Rightarrow>
        let room = bytes - int (length t)
        in if room < 3 \<or> src = [] \<or> cells \<le> 1 then Val (t, cells)
           else obind (escape_strlist lc src (room - 1) (cells - 1)) (\<lambda>(u, cells). Val (t @ '' '' @ u, cells)))"

abbreviation ESC_ARGS :: u32 where "ESC_ARGS \<equiv> 1"
abbreviation ESC_BRACKETS :: u32 where "ESC_BRACKETS \<equiv> 2"
abbreviation ESC_DEFUNCT :: u32 where "ESC_DEFUNCT \<equiv> 4"

text \<open>Without room for one byte of the name only the second byte of the buffer is set: \<open>old\<close> is its text before.\<close>

definition escape_command :: "clib \<Rightarrow> string \<Rightarrow> proc_t \<Rightarrow> int \<Rightarrow> int \<Rightarrow> u32 \<Rightarrow> (string \<times> int) outcome" where
  "escape_command lc old pp bytes cells flags =
     (if has flags ESC_ARGS \<and> p_cmdline pp \<noteq> None \<and> p_cmdline pp \<noteq> Some []
      then escape_strlist lc (the (p_cmdline pp)) bytes cells
      else let defunct = (has flags ESC_DEFUNCT \<and> p_state pp = CHR ''Z'');
               brackets = has flags ESC_BRACKETS;
               overhead = (if brackets then 2 else 0) + (if defunct then 10 else 0)
           in if cells \<le> overhead + 1 then Val (take 1 old, cells)
              else (case escape_str lc (p_cmd pp) (bytes - overhead) (cells - overhead) of (t, cells) \<Rightarrow>
                      Val ((if brackets then ''['' else []) @ t @ (if brackets then '']'' else []) @
                           (if defunct then '' <defunct>'' else []), cells)))"

text \<open>A size below 1 would be handed to \<open>snprintf\<close> as an unsigned number.\<close>

definition escaped_copy :: "string \<Rightarrow> int \<Rightarrow> int \<Rightarrow> (string \<times> int) outcome" where
  "escaped_copy src bufsize maxroom =
     (let bufsize = (if maxroom + 1 < bufsize then maxroom + 1 else bufsize)
      in if bufsize < 1 then Undef OutOfBounds
         else let t = take (nat (bufsize - 1)) src in Val (t, maxroom - int (length t)))"

subsection \<open>The room that is used\<close>

lemma escape_8bit_length: "0 \<le> n \<Longrightarrow> n \<le> maxcells \<Longrightarrow> n + 1 \<le> bufsize \<Longrightarrow>
    n + int (length (escape_8bit bufsize maxcells n src)) \<le> min maxcells (bufsize - 1)"
  by (induction bufsize maxcells n src rule: escape_8bit.induct) (auto simp: min_def split: if_splits)

text \<open>
  What the C library promises: a wide character that can be printed has no negative width; a
  printable byte is neither a control byte nor above 126; the bytes of a longer character are all
  at least 128.
\<close>

definition clib_ok :: "clib \<Rightarrow> bool" where
  "clib_ok lc \<longleftrightarrow>
     (\<forall>wc. iswprint lc wc \<longrightarrow> 0 \<le> wcwidth lc wc) \<and>
     (\<forall>c. c_isprint lc c \<longrightarrow> 32 \<le> byte c \<and> byte c < 127) \<and>
     (\<forall>src. 1 < fst (mbrtowc lc src) \<longrightarrow> (\<forall>c\<in>set (take (nat (fst (mbrtowc lc src))) src). 128 \<le> byte c))"

definition harmless :: "char \<Rightarrow> bool" where
  "harmless c \<longleftrightarrow> 32 \<le> byte c \<and> byte c \<noteq> 127 \<and> byte c \<noteq> 0x9B"

lemma utf8_turn_room:
  assumes "utf8_turn lc bufsize maxcells cells bytes src = Some (t, w, k)" "clib_ok lc"
  shows "0 \<le> w \<and> cells + w \<le> maxcells \<and> bytes + int (length t) + 1 \<le> bufsize \<and> (\<forall>c\<in>set t. harmless c)"
proof -
  have q: "harmless (CHR ''?'')" by (simp add: harmless_def byte_def)
  have x: "byte (CHR 0x9B) = 0x9B" by (simp add: byte_def)
  obtain len wc where m: "mbrtowc lc src = (len, wc)" by fastforce
  have long: "\<forall>c\<in>set (take (nat len) src). harmless c" if "1 < len" "CHR 0x9B \<notin> set (take (nat len) src)"
  proof
    fix c assume c: "c \<in> set (take (nat len) src)"
    have "\<forall>c\<in>set (take (nat (fst (mbrtowc lc src))) src). 128 \<le> byte c"
      using assms(2) m that(1) unfolding clib_ok_def by (metis fst_conv)
    with c m have "128 \<le> byte c" by simp
    moreover have "c \<noteq> CHR 0x9B" using c that(2) by blast
    then have "byte c \<noteq> 0x9B" using x byte_inject by metis
    ultimately show "harmless c" by (simp add: harmless_def)
  qed
  have one: "harmless c" if "c_isprint lc c" for c
    using assms(2) that by (fastforce simp: clib_ok_def harmless_def)
  have wide: "0 \<le> wcwidth lc wc" if "iswprint lc wc" using assms(2) that by (simp add: clib_ok_def)
  have len: "int (length (take (nat len) src)) \<le> len" if "0 < len" using that by simp
  show ?thesis
    using assms(1) m q long one wide len by (auto simp: utf8_turn_def split: if_splits)
qed

lemma escape_utf8_room:
  assumes "escape_utf8 lc bufsize maxcells cells bytes src = (s, n)" "clib_ok lc" "cells \<le> maxcells" "bytes + 1 \<le> bufsize"
  shows "cells \<le> n \<and> n \<le> maxcells \<and> bytes + int (length s) + 1 \<le> bufsize \<and> (\<forall>c\<in>set s. harmless c)"
  using assms
proof (induction lc bufsize maxcells cells bytes src arbitrary: s n rule: escape_utf8.induct)
  case (1 lc bufsize maxcells cells bytes src)
  show ?case
  proof (cases "utf8_turn lc bufsize maxcells cells bytes src")
    case None
    with 1 show ?thesis by (auto simp: escape_utf8.simps)
  next
    case (Some a)
    obtain t w k where a: "a = (t, w, k)" by (cases a)
    obtain u m where r: "escape_utf8 lc bufsize maxcells (cells + w) (bytes + int (length t)) (drop k src) = (u, m)"
      by fastforce
    note room = utf8_turn_room [OF Some [unfolded a] "1.prems"(2)]
    have "cells + w \<le> m \<and> m \<le> maxcells \<and> bytes + int (length t) + int (length u) + 1 \<le> bufsize \<and> (\<forall>c\<in>set u. harmless c)"
      using "1.IH" [OF Some a [symmetric] refl r] "1.prems"(2) room by simp
    moreover have "s = t @ u" "n = m"
      using "1.prems"(1) Some a r by (simp_all add: escape_utf8.simps)
    ultimately show ?thesis using room by auto
  qed
qed

lemma escape_code_harmless: "harmless (escape_code c)"
  by (auto simp: harmless_def escape_code_def byte_def)

lemma escape_8bit_harmless: "\<forall>c\<in>set (escape_8bit bufsize maxcells n src). harmless c"
  by (induction bufsize maxcells n src rule: escape_8bit.induct) (auto simp: escape_code_harmless)

lemma escape_str_room:
  assumes "escape_str lc src bufsize maxcells = (s, room)" "clib_ok lc" "0 \<le> maxcells" "1 \<le> bufsize"
  shows "0 \<le> room \<and> room \<le> maxcells \<and> int (length s) + 1 \<le> bufsize \<and> (\<forall>c\<in>set s. harmless c)"
proof (cases "utf8 lc")
  case True
  then obtain n where "escape_utf8 lc bufsize maxcells 0 0 src = (s, n)" "room = maxcells - n"
    using assms(1) by (auto simp: escape_str_def split: prod.splits)
  with escape_utf8_room [of lc bufsize maxcells 0 0 src s n] assms(2-4) show ?thesis by auto
next
  case False
  let ?b = "if maxcells + 1 < bufsize then maxcells + 1 else bufsize"
  have "s = escape_8bit ?b maxcells 0 src" "room = maxcells - int (length s)"
    using assms(1) False by (auto simp: escape_str_def Let_def)
  moreover have "int (length (escape_8bit ?b maxcells 0 src)) \<le> min maxcells (?b - 1)"
    using escape_8bit_length [of 0 maxcells ?b src] assms(3,4) by simp
  ultimately show ?thesis using escape_8bit_harmless by (auto simp: min_def split: if_splits)
qed

lemma escape_strlist_room:
  assumes "escape_strlist lc src bytes cells = Val (s, room)" "clib_ok lc" "0 \<le> cells" "1 \<le> bytes"
  shows "int (length s) + 1 \<le> bytes \<and> 0 \<le> room \<and> room \<le> cells \<and> (\<forall>c\<in>set s. harmless c)"
  using assms
proof (induction lc src bytes cells arbitrary: s room rule: escape_strlist.induct)
  case (2 lc a src bytes cells)
  obtain t c where t: "escape_str lc a bytes cells = (t, c)" by fastforce
  note r = escape_str_room [OF t "2.prems"(2,3,4)]
  have sp: "harmless (CHR '' '')" by (simp add: harmless_def byte_def)
  show ?case
  proof (cases "bytes - int (length t) < 3 \<or> src = [] \<or> c \<le> 1")
    case True
    with "2.prems"(1) t r show ?thesis by auto
  next
    case False
    then obtain u where u: "escape_strlist lc src (bytes - int (length t) - 1) (c - 1) = Val (u, room)" "s = t @ '' '' @ u"
      using "2.prems"(1) t by (auto simp: obind_eq_Val)
    have "int (length u) + 1 \<le> bytes - int (length t) - 1 \<and> 0 \<le> room \<and> room \<le> c - 1 \<and> (\<forall>c\<in>set u. harmless c)"
      using "2.IH" [OF t [symmetric] refl] False u(1) "2.prems"(2) by auto
    with r u(2) sp show ?thesis by auto
  qed
qed simp


end
