(* ===== verification/PsSelect.thy ===== *)
theory PsSelect
  imports PsProc
begin

text \<open>
  \<open>src/modules/ps/src/select.c\<close>: which processes are shown. The table of 16 bits per option set is
  proved equal to the selection the options stand for.
\<close>

definition has_our_euid :: "ps_state \<Rightarrow> proc_t \<Rightarrow> bool" where
  "has_our_euid g p \<longleftrightarrow> (word_of_int (p_euid p) :: u32) = word_of_int (cached_euid g)"

definition on_our_tty :: "ps_state \<Rightarrow> proc_t \<Rightarrow> bool" where
  "on_our_tty g p \<longleftrightarrow> (word_of_int (p_tty p) :: u32) = word_of_int (cached_tty g)"

definition running :: "proc_t \<Rightarrow> bool" where
  "running p \<longleftrightarrow> p_state p = CHR ''R'' \<or> p_state p = CHR ''D''"

definition session_leader :: "proc_t \<Rightarrow> bool" where
  "session_leader p \<longleftrightarrow> p_session p = p_tgid p"

definition without_a_tty :: "proc_t \<Rightarrow> bool" where
  "without_a_tty p \<longleftrightarrow> p_tty p = 0"

definition conflict_message :: string where
  "conflict_message = ''process selection options conflict''"

definition select_bits_setup :: "ps_state \<Rightarrow> string option \<times> ps_state" where
  "select_bits_setup g =
     (if simple_select g = 0 \<and> \<not> prefer_bsd_defaults g then (None, g \<lparr> select_bits := 0xaa00 \<rparr>)
      else let s = simple_select g;
               v = (if \<not> has (personality g) PER_NO_DEFAULT_g \<and> \<not> has s (SS_U_a OR SS_U_d) then s OR SS_B_g else s)
           in if v = SS_U_a OR SS_U_d then (None, g \<lparr> select_bits := 0x3f3f \<rparr>)
              else if v = SS_U_a then (None, g \<lparr> select_bits := 0x0303 \<rparr>)
              else if v = SS_U_d then (None, g \<lparr> select_bits := 0x3333 \<rparr>)
              else if v = 0 then (None, g \<lparr> select_bits := 0x0202 \<rparr>)
              else if v = SS_B_a then (None, g \<lparr> select_bits := 0x0303 \<rparr>)
              else if v = SS_B_x then (None, g \<lparr> select_bits := 0x2222 \<rparr>)
              else if v = SS_B_x OR SS_B_a then (None, g \<lparr> select_bits := 0x3333 \<rparr>)
              else if v = SS_B_g then (None, g \<lparr> select_bits := 0x0a0a \<rparr>)
              else if v = SS_B_g OR SS_B_a then (None, g \<lparr> select_bits := 0x0f0f \<rparr>)
              else if v = SS_B_g OR SS_B_x then (None, g \<lparr> select_bits := 0xaaaa \<rparr>)
              else if v = SS_B_g OR SS_B_x OR SS_B_a then (None, g \<lparr> all_processes := True, simple_select := 0 \<rparr>)
              else (Some conflict_message, g))"

definition proc_index :: "ps_state \<Rightarrow> proc_t \<Rightarrow> nat" where
  "proc_index g p = of_bool (has_our_euid g p) + 2 * of_bool (session_leader p) +
     4 * of_bool (without_a_tty p) + 8 * of_bool (on_our_tty g p)"

definition table_accept :: "ps_state \<Rightarrow> proc_t \<Rightarrow> bool" where
  "table_accept g p \<longleftrightarrow> bit (select_bits g) (proc_index g p)"

definition strncmp :: "nat \<Rightarrow> string \<Rightarrow> string \<Rightarrow> int" where
  "strncmp n s t = strcmp (take n s) (take n t)"

text \<open>\<open>return_if_match\<close>: both sides are compared as \<open>unsigned\<close>.\<close>

definition same_number :: "int \<Rightarrow> sel_union \<Rightarrow> bool" where
  "same_number n u = (case u of Sel_Num m \<Rightarrow> (word_of_int n :: u32) = word_of_int m | Sel_Cmd _ \<Rightarrow> False)"

definition node_matches :: "proc_t \<Rightarrow> selection_node \<Rightarrow> bool" where
  "node_matches p sn =
     (let num = (\<lambda>n. list_ex (same_number n) (sel_u sn))
      in case typecode sn of
           SEL_RUID \<Rightarrow> num (p_ruid p) | SEL_EUID \<Rightarrow> num (p_euid p) | SEL_SUID \<Rightarrow> num (p_suid p) | SEL_FUID \<Rightarrow> num (p_fuid p)
         | SEL_RGID \<Rightarrow> num (p_rgid p) | SEL_EGID \<Rightarrow> num (p_egid p) | SEL_SGID \<Rightarrow> num (p_sgid p) | SEL_FGID \<Rightarrow> num (p_fgid p)
         | SEL_PGRP \<Rightarrow> num (p_pgrp p) | SEL_PID \<Rightarrow> num (p_tgid p) | SEL_PID_QUICK \<Rightarrow> num (p_tgid p)
         | SEL_PPID \<Rightarrow> num (p_ppid p) | SEL_TTY \<Rightarrow> num (p_tty p) | SEL_SESS \<Rightarrow> num (p_session p)
         | SEL_COMM \<Rightarrow> list_ex (\<lambda>u. case u of Sel_Cmd c \<Rightarrow> strncmp 15 (p_cmd p) c = 0 | Sel_Num _ \<Rightarrow> False) (sel_u sn))"

definition proc_was_listed :: "ps_state \<Rightarrow> proc_t \<Rightarrow> bool" where
  "proc_was_listed g p = list_ex (node_matches p) (selection_list g)"

definition want_this_proc :: "ps_state \<Rightarrow> proc_t \<Rightarrow> bool" where
  "want_this_proc g p =
     (let accepted = all_processes g \<or>
            (simple_select g \<noteq> 0 \<or> selection_list g = []) \<and> table_accept g p \<or> proc_was_listed g p;
          accepted = (if running_only g \<and> \<not> running p then False else accepted)
      in if negate_selection g then \<not> accepted else accepted)"

subsection \<open>What the table means\<close>

text \<open>
  The documented selections: without options the user's processes on the terminal; \<open>-a\<close> those with a
  terminal but no session leaders, \<open>-d\<close> all but session leaders, \<open>-a -d\<close> all but the session leaders
  without a terminal; the BSD options each lift one restriction (\<open>a\<close> the user, \<open>x\<close> the terminal, \<open>g\<close>,
  set by default, the session leaders).
\<close>

definition documented_selection :: "ps_state \<Rightarrow> proc_t \<Rightarrow> bool" where
  "documented_selection g p \<longleftrightarrow>
     (let s = simple_select g; ours = has_our_euid g p; tty = (\<not> without_a_tty p); leader = session_leader p
      in if s = 0 \<and> \<not> prefer_bsd_defaults g then ours \<and> on_our_tty g p
         else if has s SS_U_a \<and> has s SS_U_d then tty \<or> \<not> leader
         else if has s SS_U_a then tty \<and> \<not> leader
         else if has s SS_U_d then \<not> leader
         else (has s SS_B_a \<or> ours) \<and> (has s SS_B_x \<or> tty) \<and>
              (has s SS_B_g \<or> \<not> has (personality g) PER_NO_DEFAULT_g \<or> \<not> leader))"

lemma has_bits:
  "has s 1 = bit s 0" "has s 2 = bit s 1" "has s 4 = bit s 2" "has s 8 = bit s 3" "has s 0x10 = bit s 4"
  using bit_iff_and_push_bit_not_eq_0 [of s 0] bit_iff_and_push_bit_not_eq_0 [of s 1] bit_iff_and_push_bit_not_eq_0 [of s 2]
    bit_iff_and_push_bit_not_eq_0 [of s 3] bit_iff_and_push_bit_not_eq_0 [of s 4]
  by (simp_all add: has_def)

lemma has_U: "has s (SS_U_a OR SS_U_d) \<longleftrightarrow> has s SS_U_a \<or> has s SS_U_d"
proof -
  have "s AND (SS_U_a OR SS_U_d) = (s AND SS_U_a) OR (s AND SS_U_d)"
    by (rule bit.conj_disj_distrib)
  then show ?thesis by (simp only: has_def) (metis or_eq_0_iff)
qed

text \<open>The five option bits of a word that equals another.\<close>

lemma option_bits:
  fixes s c :: u32
  assumes "s = c"
  shows "bit s 0 = bit c 0" "bit s 1 = bit c 1" "bit s 2 = bit c 2" "bit s 3 = bit c 3" "bit s 4 = bit c 4"
  using assms by simp_all

lemma or_g_bits:
  "bit (s OR 2 :: u32) 0 = bit s 0" "bit (s OR 2 :: u32) 1" "bit (s OR 2 :: u32) 2 = bit s 2"
  "bit (s OR 2 :: u32) 3 = bit s 3" "bit (s OR 2 :: u32) 4 = bit s 4"
  by (simp_all add: bit_or_iff)

text \<open>What each constant of the table selects.\<close>

definition row_accepts :: "u64 \<Rightarrow> bool \<Rightarrow> bool \<Rightarrow> bool \<Rightarrow> bool \<Rightarrow> bool" where
  "row_accepts b ours leader notty ontty =
     bit b (of_bool ours + 2 * of_bool leader + 4 * of_bool notty + 8 * of_bool ontty)"

lemma table_rows:
  "row_accepts 0xaa00 e l n t \<longleftrightarrow> e \<and> t"
  "row_accepts 0x3f3f e l n t \<longleftrightarrow> \<not> n \<or> \<not> l"
  "row_accepts 0x0303 e l n t \<longleftrightarrow> \<not> n \<and> \<not> l"
  "row_accepts 0x3333 e l n t \<longleftrightarrow> \<not> l"
  "row_accepts 0x0202 e l n t \<longleftrightarrow> e \<and> \<not> n \<and> \<not> l"
  "row_accepts 0x2222 e l n t \<longleftrightarrow> e \<and> \<not> l"
  "row_accepts 0x0a0a e l n t \<longleftrightarrow> e \<and> \<not> n"
  "row_accepts 0x0f0f e l n t \<longleftrightarrow> \<not> n"
  "row_accepts 0xaaaa e l n t \<longleftrightarrow> e"
  by (cases e; cases l; cases n; cases t; simp add: row_accepts_def)+

lemma table_accept_bits:
  "table_accept (g \<lparr> select_bits := b \<rparr>) p =
     row_accepts b (has_our_euid g p) (session_leader p) (without_a_tty p) (on_our_tty g p)"
  by (simp add: table_accept_def proc_index_def row_accepts_def has_our_euid_def on_our_tty_def)

text \<open>
  The 16-bit table that select_bits_setup chooses for the simple options accepts exactly the
  processes the options stand for: the options are lifted restrictions on the user, the terminal and
  the session leaders.
\<close>

lemma table_is_documented:
  assumes "select_bits_setup g = (None, g')" "\<not> all_processes g"
  shows "all_processes g' \<or> table_accept g' p \<longleftrightarrow> documented_selection g p"
proof -
  define s v where "s = simple_select g"
    and "v = (if \<not> has (personality g) PER_NO_DEFAULT_g \<and> \<not> (bit s 3 \<or> bit s 2) then s OR SS_B_g else s)"
  have doc: "documented_selection g p \<longleftrightarrow>
     (if s = 0 \<and> \<not> prefer_bsd_defaults g then has_our_euid g p \<and> on_our_tty g p
      else if bit s 3 \<and> bit s 2 then \<not> without_a_tty p \<or> \<not> session_leader p
      else if bit s 3 then \<not> without_a_tty p \<and> \<not> session_leader p
      else if bit s 2 then \<not> session_leader p
      else (bit s 4 \<or> has_our_euid g p) \<and> (bit s 0 \<or> \<not> without_a_tty p) \<and> (bit v 1 \<or> \<not> session_leader p))"
    by (simp add: documented_selection_def s_def v_def has_bits Let_def bit_or_iff)
  show ?thesis
  proof (cases "s = 0 \<and> \<not> prefer_bsd_defaults g")
    case True
    with assms show ?thesis
      by (auto simp: select_bits_setup_def s_def doc table_accept_bits table_rows)
  next
    case False
    have eq: "select_bits_setup g = (if v = SS_U_a OR SS_U_d then (None, g \<lparr> select_bits := 0x3f3f \<rparr>)
              else if v = SS_U_a then (None, g \<lparr> select_bits := 0x0303 \<rparr>)
              else if v = SS_U_d then (None, g \<lparr> select_bits := 0x3333 \<rparr>)
              else if v = 0 then (None, g \<lparr> select_bits := 0x0202 \<rparr>)
              else if v = SS_B_a then (None, g \<lparr> select_bits := 0x0303 \<rparr>)
              else if v = SS_B_x then (None, g \<lparr> select_bits := 0x2222 \<rparr>)
              else if v = SS_B_x OR SS_B_a then (None, g \<lparr> select_bits := 0x3333 \<rparr>)
              else if v = SS_B_g then (None, g \<lparr> select_bits := 0x0a0a \<rparr>)
              else if v = SS_B_g OR SS_B_a then (None, g \<lparr> select_bits := 0x0f0f \<rparr>)
              else if v = SS_B_g OR SS_B_x then (None, g \<lparr> select_bits := 0xaaaa \<rparr>)
              else if v = SS_B_g OR SS_B_x OR SS_B_a then (None, g \<lparr> all_processes := True, simple_select := 0 \<rparr>)
              else (Some conflict_message, g))"
      using False by (simp only: select_bits_setup_def s_def v_def has_U has_bits Let_def if_False)
    have vs: "bit v 0 = bit s 0" "bit v 2 = bit s 2" "bit v 3 = bit s 3" "bit v 4 = bit s 4"
      by (simp_all add: v_def or_g_bits)
    show ?thesis
      using assms(1) False option_bits [of v] unfolding eq doc vs [symmetric]
      by (auto simp: table_accept_bits table_rows assms(2) split: if_splits)
  qed
qed

end
