(* ===== verification/Strto.thy ===== *)
theory Strto
  imports Scan
begin

text \<open>
  \<open>strtol\<close> and \<open>strtoul\<close> with a base and an end pointer, as the options of ps are read: the value
  and the rest of the string from \<open>endp\<close>. Base 0 takes the prefixes of hexadecimal and octal
  numbers. Without a digit the value is 0 and the end pointer the start of the string.
\<close>

definition alnum_value :: "char \<Rightarrow> nat" where
  "alnum_value c =
     (if c_isdigit c then byte c - 48 else if c_islower c then byte c - 87 else if c_isupper c then byte c - 55 else 36)"

fun base_value :: "nat \<Rightarrow> nat \<Rightarrow> string \<Rightarrow> nat" where
  "base_value b acc [] = acc"
| "base_value b acc (c # cs) = base_value b (acc * b + alnum_value c) cs"

definition hex_prefix :: "string \<Rightarrow> bool" where
  "hex_prefix s \<longleftrightarrow> 3 \<le> length s \<and> s ! 0 = CHR ''0'' \<and> c_tolower (s ! 1) = CHR ''x'' \<and> alnum_value (s ! 2) < 16"

definition strip_sign :: "string \<Rightarrow> string" where
  "strip_sign s = (if s \<noteq> [] \<and> (hd s = CHR ''-'' \<or> hd s = CHR ''+'') then tl s else s)"

text \<open>The base of the digits of \<open>s\<close>, and \<open>s\<close> without the prefix of hexadecimal numbers.\<close>

definition base_of :: "nat \<Rightarrow> string \<Rightarrow> nat \<times> string" where
  "base_of base s =
     (if base \<noteq> 0 then (base, s) else if hex_prefix s then (16, drop 2 s)
      else if s \<noteq> [] \<and> hd s = CHR ''0'' then (8, s) else (10, s))"

definition strto :: "nat \<Rightarrow> string \<Rightarrow> (bool \<times> nat \<times> string) option" where
  "strto base s =
     (let s1 = dropWhile c_isspace s; neg = (s1 \<noteq> [] \<and> hd s1 = CHR ''-'');
          (b, s2) = base_of base (strip_sign s1);
          ds = takeWhile (\<lambda>c. alnum_value c < b) s2
      in if ds = [] then None else Some (neg, base_value b 0 ds, dropWhile (\<lambda>c. alnum_value c < b) s2))"

definition strtol :: "nat \<Rightarrow> string \<Rightarrow> int \<times> string" where
  "strtol base s =
     (case strto base s of None \<Rightarrow> (0, s)
      | Some (neg, v, rest) \<Rightarrow> (if neg then max (- (2 ^ 63)) (- int v) else min (2 ^ 63 - 1) (int v), rest))"

definition strtoul :: "nat \<Rightarrow> string \<Rightarrow> nat \<times> string" where
  "strtoul base s =
     (case strto base s of None \<Rightarrow> (0, s)
      | Some (neg, v, rest) \<Rightarrow>
          (if 2 ^ 64 \<le> v then 2 ^ 64 - 1 else if neg then (2 ^ 64 - v) mod 2 ^ 64 else v, rest))"

subsection \<open>Decimal numbers are read back\<close>

lemma alnum_value_digit: "alnum_value c < 10 \<longleftrightarrow> c_isdigit c"
  by (auto simp: alnum_value_def c_isdigit_def c_islower_def c_isupper_def)

lemma base_value_digits: "\<forall>c\<in>set ds. c_isdigit c \<Longrightarrow> base_value 10 acc ds = dec_value acc ds"
  by (induction ds arbitrary: acc) (auto simp: alnum_value_def digit_val_def)

lemma strip_sign_dec [simp]: "\<not> starts_digit rest \<Longrightarrow> strip_sign (dec_of_nat n @ rest) = dec_of_nat n @ rest"
  using digits_front(4) [of rest n] by (auto simp: strip_sign_def)

lemma strto_dec:
  assumes "\<not> starts_digit rest" "base = 10 \<or> base = 0 \<and> 0 < n"
  shows "strto base (dec_of_nat n @ rest) = Some (False, n, rest)"
proof -
  note front = digits_front [OF assms(1), of n]
  obtain c ds where ds: "dec_of_nat n = c # ds" by (cases "dec_of_nat n") simp_all
  have "base = 0 \<Longrightarrow> c \<noteq> CHR ''0''"
    using assms(2) dec_of_nat_hd_0 [of n] by (auto simp: ds)
  then have b: "base_of base (dec_of_nat n @ rest) = (10, dec_of_nat n @ rest)"
    using assms(2) by (auto simp: base_of_def hex_prefix_def ds)
  have "base_value 10 0 (dec_of_nat n) = n"
    using base_value_digits [OF dec_of_nat_digits, of 0] by simp
  then show ?thesis
    using front b assms(1) by (simp add: strto_def Let_def alnum_value_digit)
qed

lemma strtol_dec:
  "\<not> starts_digit rest \<Longrightarrow> base = 10 \<or> base = 0 \<and> 0 < n \<Longrightarrow> n < 2 ^ 63 \<Longrightarrow> strtol base (dec_of_nat n @ rest) = (int n, rest)"
  by (simp add: strtol_def strto_dec)

lemma strtoul_dec:
  "\<not> starts_digit rest \<Longrightarrow> base = 10 \<or> base = 0 \<and> 0 < n \<Longrightarrow> n < 2 ^ 64 \<Longrightarrow> strtoul base (dec_of_nat n @ rest) = (n, rest)"
  by (simp add: strtoul_def strto_dec)

lemma strtol_neg_dec:
  assumes "n < 2 ^ 63"
  shows "strtol 10 (CHR ''-'' # dec_of_nat n) = (- int n, [])"
proof -
  have sp: "\<not> c_isspace (CHR ''-'')" by (simp add: c_isspace_def byte_def)
  have v: "base_value 10 0 (dec_of_nat n) = n"
    using base_value_digits [OF dec_of_nat_digits, of 0] by simp
  note all = takeWhile_eq_all_conv [THEN iffD2, OF dec_of_nat_digits [of n]]
  have "strto 10 (CHR ''-'' # dec_of_nat n) = Some (True, n, [])"
    using dec_of_nat_digits [of n] by (simp add: strto_def strip_sign_def sp base_of_def alnum_value_digit all v)
  then show ?thesis using assms by (simp add: strtol_def)
qed

end
