(* ===== verification/PsGlobal.thy ===== *)
theory PsGlobal
  imports PsProc Strto
begin

text \<open>
  \<open>src/modules/ps/src/global.c\<close>: the personality of ps from the environment, the size of the screen,
  and the reset of the globals at the start of a run.

  \<open>ps_host\<close> is what the code asks the system: the environment, the window sizes the four \<open>ioctl\<close>
  calls give in order (\<open>None\<close> a failure, also of the \<open>open\<close> of \<open>/dev/tty\<close>), whether standard output is a
  terminal, and the identity of the process.
\<close>

record ps_host =
  host_getenv :: "string \<Rightarrow> string option"
  host_winsize :: "(nat \<times> nat) option list"
  host_isatty :: bool
  host_euid :: int
  host_tty :: int
  host_page_size :: int
  host_uptime :: u64

subsection \<open>Screen size\<close>

abbreviation OUTBUF_SIZE :: int where "OUTBUF_SIZE \<equiv> 131072"

definition env_size :: "string option \<Rightarrow> int \<Rightarrow> int" where
  "env_size v default_size =
     (case v of
        None \<Rightarrow> default_size
      | Some s \<Rightarrow>
          if s = [] then default_size
          else case strtol 0 s of (t, endptr) \<Rightarrow> if endptr = [] \<and> 0 < t \<and> t < OUTBUF_SIZE then t else default_size)"

fun window_size :: "(nat \<times> nat) option list \<Rightarrow> nat \<times> nat" where
  "window_size [] = (80, 24)"
| "window_size (None # ws) = window_size ws"
| "window_size (Some (col, row) # ws) = (if 0 < col \<and> 0 < row then (col, row) else window_size ws)"

definition set_screen_size :: "ps_host \<Rightarrow> ps_state \<Rightarrow> ps_state" where
  "set_screen_size h g =
     (case window_size (host_winsize h) of (col, row) \<Rightarrow>
        let cols = (if host_isatty h then int col else OUTBUF_SIZE)
        in g \<lparr> screen_cols := env_size (host_getenv h ''COLUMNS'') cols,
               screen_rows := env_size (host_getenv h ''LINES'') (int row) \<rparr>)"

subsection \<open>Personality\<close>

text \<open>The labels the table jumps to; labels on the same code are one constructor.\<close>

datatype personality_case =
  Case_390 | Case_aix | Case_bsd | Case_digital | Case_gnu | Case_hp | Case_irix | Case_linux | Case_old |
  Case_sunos4 | Case_svr4 | Case_plain

definition personality_table :: "(string \<times> personality_case) list" where
  "personality_table =
     [(''390'', Case_390), (''aix'', Case_aix), (''bsd'', Case_bsd), (''compaq'', Case_digital),
      (''debian'', Case_gnu), (''default'', Case_plain), (''digital'', Case_digital), (''gnu'', Case_gnu),
      (''hp'', Case_hp), (''hpux'', Case_hp), (''irix'', Case_irix), (''linux'', Case_linux),
      (''old'', Case_old), (''os390'', Case_390), (''posix'', Case_plain), (''s390'', Case_390),
      (''sco'', Case_svr4), (''sgi'', Case_irix), (''solaris2'', Case_plain), (''sunos4'', Case_sunos4),
      (''svr4'', Case_svr4), (''sysv'', Case_svr4), (''tru64'', Case_digital), (''unix'', Case_plain),
      (''unix95'', Case_plain), (''unix98'', Case_plain), (''unknown'', Case_plain)]"

definition compare_personality :: "string \<Rightarrow> string \<times> personality_case \<Rightarrow> int" where
  "compare_personality k e = strcasecmp k (fst e)"

definition personality_text :: "ps_host \<Rightarrow> string" where
  "personality_text h =
     (let or_else = (\<lambda>s d. case s of None \<Rightarrow> d | Some t \<Rightarrow> if t = [] then d else t)
      in if host_getenv h ''I_WANT_A_BROKEN_PS'' \<noteq> None then ''old''
         else or_else (host_getenv h ''PS_PERSONALITY'') (or_else (host_getenv h ''CMD_ENV'') ''unknown''))"

definition set_personality_case :: "ps_host \<Rightarrow> personality_case \<Rightarrow> ps_state \<Rightarrow> ps_state" where
  "set_personality_case h c g =
     (case c of
        Case_bsd \<Rightarrow> g \<lparr> personality := PER_FORCE_BSD OR PER_BSD_h OR PER_BSD_m, prefer_bsd_defaults := True,
                        bsd_j_format := ''FB_j'', bsd_l_format := ''FB_l'', bsd_u_format := ''FB_u'', bsd_v_format := ''FB_v'' \<rparr>
      | Case_old \<Rightarrow> g \<lparr> personality := PER_FORCE_BSD OR PER_OLD_m, prefer_bsd_defaults := True \<rparr>
      | Case_gnu \<Rightarrow> g \<lparr> personality := PER_GOOD_o OR PER_OLD_m, prefer_bsd_defaults := True,
                        sysv_f_format := Some ''RD_f'', sysv_j_format := Some ''RD_j'', sysv_l_format := Some ''RD_l'' \<rparr>
      | Case_linux \<Rightarrow> g \<lparr> personality := PER_GOOD_o OR PER_ZAP_ADDR OR PER_SANE_USER \<rparr>
      | Case_plain \<Rightarrow> g
      | Case_aix \<Rightarrow> g \<lparr> bsd_j_format := ''FB_j'', bsd_l_format := ''FB_l'', bsd_u_format := ''FB_u'', bsd_v_format := ''FB_v'' \<rparr>
      | Case_digital \<Rightarrow> g \<lparr> personality := PER_GOOD_o OR PER_BSD_h, prefer_bsd_defaults := True,
                        sysv_f_format := Some ''F5FMT'', sysv_fl_format := Some ''FL5FMT'', sysv_j_format := Some ''JFMT'',
                        sysv_l_format := Some ''L5FMT'', bsd_j_format := ''JFMT'', bsd_l_format := ''LFMT'',
                        bsd_s_format := ''SFMT'', bsd_u_format := ''UFMT'', bsd_v_format := ''VFMT'' \<rparr>
      | Case_sunos4 \<Rightarrow> g \<lparr> personality := PER_NO_DEFAULT_g, prefer_bsd_defaults := True,
                        bsd_j_format := ''FB_j'', bsd_l_format := ''FB_l'', bsd_u_format := ''FB_u'', bsd_v_format := ''FB_v'' \<rparr>
      | Case_irix \<Rightarrow>
          (case host_getenv h ''_XPG'' of
             None \<Rightarrow> g \<lparr> personality := PER_IRIX_l \<rparr>
           | Some s \<Rightarrow> if s \<noteq> [] \<and> byte CHR ''0'' < byte (hd s) \<and> byte (hd s) \<le> byte CHR ''9'' then g
                       else g \<lparr> personality := PER_IRIX_l \<rparr>)
      | Case_390 \<Rightarrow> g \<lparr> sysv_j_format := Some ''J390'' \<rparr>
      | Case_hp \<Rightarrow> g \<lparr> personality := PER_HPUX_x \<rparr>
      | Case_svr4 \<Rightarrow> g \<lparr> personality := PER_SVR4_x \<rparr>)"

definition unknown_personality :: string where
  "unknown_personality = ''environment specified an unknown personality''"

definition default_formats :: "ps_state \<Rightarrow> ps_state" where
  "default_formats g =
     g \<lparr> personality := 0, prefer_bsd_defaults := False, bsd_j_format := ''OL_j'', bsd_l_format := ''OL_l'',
         bsd_s_format := ''OL_s'', bsd_u_format := ''OL_u'', bsd_v_format := ''OL_v'', sysv_f_format := None,
         sysv_fl_format := None, sysv_j_format := None, sysv_l_format := None \<rparr>"

definition set_personality :: "ps_host \<Rightarrow> ps_state \<Rightarrow> string option \<times> ps_state" where
  "set_personality h g =
     (let g = default_formats g; s = personality_text h
      in if 15 < length s then (Some unknown_personality, g)
         else case bsearch compare_personality s personality_table of
                None \<Rightarrow> (Some unknown_personality, g)
              | Some e \<Rightarrow> (None, set_personality_case h (snd e) g))"

subsection \<open>Reset\<close>

text \<open>\<open>forest_prefix\<close>, a buffer of the display, and \<open>w_count\<close>, \<open>sf_list\<close> and \<open>force_bsd\<close> of other files stay.\<close>

definition reset_global :: "ps_host \<Rightarrow> ps_state \<Rightarrow> ps_state" where
  "reset_global h g =
     (snd (set_personality h (set_screen_size h g)))
       \<lparr> all_processes := False, bsd_c_option := False, bsd_e_option := False, cached_euid := host_euid h,
         cached_tty := host_tty h, forest_type := NUL, format_flags := 0, format_list := [], format_modifiers := 0,
         header_gap := -1, header_type := HEAD_SINGLE, include_dead_children := False, lines_to_next_header := 1,
         negate_selection := False, page_size := host_page_size h, running_only := False,
         seconds_since_boot := host_uptime h, selection_list := [], simple_select := 0, sort_list := [],
         thread_flags := 0, unix_f_option := False, user_is_number := False, wchan_is_number := False \<rparr>"

subsection \<open>The table of personalities\<close>

lemma compare_personality_spec: "compare_personality k = by_spec (\<lambda>e. map c_tolower (fst e)) (map c_tolower k)"
  by (rule ext) (simp add: compare_personality_def by_spec_def strcasecmp_def)

lemma personality_table_sorted:
  "strictly_sorted (map (\<lambda>e. map c_tolower (fst e)) personality_table)"
  "list_all is_cstring (map (\<lambda>e. map c_tolower (fst e)) personality_table)"
  by code_simp+

interpretation personalities: sorted_table "by_spec (\<lambda>e. map c_tolower (fst e))" personality_table is_cstring
  by (intro sorted_by_spec personality_table_sorted)

end
