(* ===== verification/PsOutput.thy ===== *)
theory PsOutput
  imports PsEscape PsSelect PsGlobal
begin

text \<open>
  \<open>src/modules/ps/src/output.c\<close>: the columns of ps and the line of a process.

  A printing function puts a text into the buffer and returns the cells it takes; here it yields the
  two. \<open>out_env\<close> is what the functions ask outside: the clock rate (positive), the memory of the
  machine, the calendar of the C library, the locale, the names of terminals and the \<open>wchan\<close> and
  \<open>attr/current\<close> files. \<open>out_state\<close> holds the static variables of the file; \<open>out_buf\<close> is the text left
  in the buffer. \<open>max_rightward\<close> is kept as the \<open>int\<close> the functions convert it to.
\<close>

record out_env =
  hertz :: u64
  kb_main_total :: u64
  getbtime :: int
  ctime :: "int \<Rightarrow> string"
  year_yday :: "int \<Rightarrow> int \<times> int"
  strftime :: "string \<Rightarrow> int \<Rightarrow> string"
  locale_lib :: clib
  tty_name :: "int \<Rightarrow> int \<Rightarrow> string option"
  wchan_file :: "int \<Rightarrow> string option"
  attr_current :: "int \<Rightarrow> string option"

record out_state =
  max_rightward :: int
  active_cols :: int
  wide_signals :: bool
  seconds_since_1970 :: int
  page_shift :: nat
  out_buf :: string
  did_stuff :: bool
  forest_prefix :: string

type_synonym column = "out_env \<Rightarrow> ps_state \<Rightarrow> out_state \<Rightarrow> proc_t \<Rightarrow> (string \<times> int) outcome"

subsection \<open>Numbers\<close>

text \<open>\<open>snprintf\<close> into \<open>COLWID\<close> bytes; it returns the length the text would have.\<close>

abbreviation COLWID :: nat where "COLWID \<equiv> 240"

definition sn :: "string \<Rightarrow> (string \<times> int) outcome" where
  "sn t = Val (take (COLWID - 1) t, int (length t))"

definition show_unsigned :: "int \<Rightarrow> string" where
  "show_unsigned i = dec_of_nat (nat (i mod 2 ^ 32))"

definition show_ld :: "u64 \<Rightarrow> string" where
  "show_ld w = dec_of_int (sint w)"

fun hex_of :: "nat \<Rightarrow> string" where
  "hex_of n = (if n < 16 then [hex_digit n] else hex_of (n div 16) @ [hex_digit (n mod 16)])"

declare hex_of.simps [simp del]

definition two_digits :: "nat \<Rightarrow> string" where
  "two_digits n = pad_left (CHR ''0'') 2 (dec_of_nat n)"

subsection \<open>Times\<close>

definition cook_time :: "out_env \<Rightarrow> proc_t \<Rightarrow> u64" where
  "cook_time env p = (p_utime p + p_stime p) div hertz env"

definition cook_etime :: "out_env \<Rightarrow> ps_state \<Rightarrow> proc_t \<Rightarrow> u64" where
  "cook_etime env g p =
     (if p_start_time p div hertz env \<le> seconds_since_boot g then seconds_since_boot g - p_start_time p div hertz env else 0)"

definition pr_etime :: column where
  "pr_etime env g out p =
     (let t = unat (cook_etime env g p); ss = t mod 60; mm = t div 60 mod 60; hh = t div 3600 mod 24; dd = t div 86400 mod 2 ^ 32;
          s = (if dd \<noteq> 0 then dec_of_nat dd @ ''-'' else []) @ (if dd \<noteq> 0 \<or> hh \<noteq> 0 then two_digits hh @ '':'' else []) @
              two_digits mm @ '':'' @ two_digits ss
      in Val (s, int (length s)))"

definition pr_etimes :: column where
  "pr_etimes env g out p = sn (show_unsigned (uint (cook_etime env g p)))"

definition total_time :: "ps_state \<Rightarrow> proc_t \<Rightarrow> u64" where
  "total_time g p = p_utime p + p_stime p + (if include_dead_children g then p_cutime p + p_cstime p else 0)"

text \<open>The share of the processor, \<open>scale\<close> times, as an \<open>unsigned\<close>.\<close>

definition scaled_pcpu :: "u64 \<Rightarrow> out_env \<Rightarrow> ps_state \<Rightarrow> proc_t \<Rightarrow> nat" where
  "scaled_pcpu scale env g p =
     (let seconds = cook_etime env g p
      in if seconds \<noteq> 0 then unat (total_time g p * scale div hertz env div seconds) mod 2 ^ 32 else 0)"

definition pr_c :: column where
  "pr_c env g out p = sn (pad_left (CHR '' '') 2 (dec_of_nat (min 99 (scaled_pcpu 100 env g p))))"

definition pr_pcpu :: column where
  "pr_pcpu env g out p =
     (let pcpu = scaled_pcpu 1000 env g p
      in if 999 < pcpu then sn (dec_of_nat (pcpu div 10)) else sn (dec_of_nat (pcpu div 10) @ ''.'' @ dec_of_nat (pcpu mod 10)))"

definition pr_cp :: column where
  "pr_cp env g out p = sn (pad_left (CHR '' '') 3 (dec_of_nat (min 999 (scaled_pcpu 1000 env g p))))"

definition pr_time :: column where
  "pr_time env g out p =
     (let t = unat (cook_time env p); ss = t mod 60; mm = t div 60 mod 60; hh = t div 3600 mod 24; dd = t div 86400 mod 2 ^ 32;
          s = (if dd \<noteq> 0 then dec_of_nat dd @ ''-'' else []) @ two_digits hh @ '':'' @ two_digits mm @ '':'' @ two_digits ss
      in Val (s, int (length s)))"

definition old_time_helper :: "u64 \<Rightarrow> u64 \<Rightarrow> (string \<times> int) outcome" where
  "old_time_helper t rel =
     (if t = 0 then sn ''    -''
      else if t = - 1 then sn ''   xx''
      else let t = (if sint (t - rel) < 0 then 0 else t - rel)
           in if 9999 < t then sn (pad_left (CHR '' '') 5 (dec_of_nat (unat t div 100)))
              else sn (pad_left (CHR '' '') 2 (dec_of_nat (unat t div 100)) @ ''.'' @ two_digits (unat t mod 100)))"

definition pr_alarm :: column where
  "pr_alarm env g out p = old_time_helper (word_of_int (p_alarm p)) 0"

definition pr_bsdtime :: column where
  "pr_bsdtime env g out p =
     (let u = unat (total_time g p div hertz env) mod 2 ^ 32
      in sn (pad_left (CHR '' '') 3 (dec_of_nat (u div 60)) @ '':'' @ two_digits (u mod 60)))"

definition start_seconds :: "out_env \<Rightarrow> proc_t \<Rightarrow> int" where
  "start_seconds env p = getbtime env + uint (p_start_time p div hertz env)"

text \<open>\<open>ctime\<close> gives 24 characters and a line feed.\<close>

definition pr_bsdstart :: column where
  "pr_bsdstart env g out p =
     (let start = start_seconds env p; seconds_ago = max 0 (seconds_since_1970 out - start)
      in Val (take 6 (drop (if 3600 * 24 < seconds_ago then 4 else 10) (ctime env start)), 6))"

definition pr_lstart :: column where
  "pr_lstart env g out p = sn (pad_left (CHR '' '') 24 (take 24 (ctime env (start_seconds env p))))"

definition pr_stime :: column where
  "pr_stime env g out p =
     (let (year, yday) = year_yday env (seconds_since_1970 out); t = start_seconds env p; (year', yday') = year_yday env t;
          fmt = (if year \<noteq> year' then ''%Y'' else if yday \<noteq> yday' then ''%b%d'' else ''%H:%M'');
          s = strftime env fmt t
      in if 42 \<le> length s then Undef Uninitialised else Val (s, int (length s)))"

definition blank_to_zero :: "nat \<Rightarrow> string \<Rightarrow> string" where
  "blank_to_zero i s = (if i < length s \<and> s ! i = CHR '' '' then s[i := CHR ''0''] else s)"

definition pr_start :: column where
  "pr_start env g out p =
     (let t = start_seconds env p; str = blank_to_zero 11 (blank_to_zero 8 (ctime env t));
          u = (\<lambda>x :: int. x mod 2 ^ 64)
      in if u (seconds_since_1970 out) < u (u t + 60 * 60 * 24)
         then sn (pad_left (CHR '' '') 8 (take 8 (drop 11 str)))
         else sn (''  '' @ pad_left (CHR '' '') 6 (take 6 (drop 4 str))))"

subsection \<open>Numbers of the process\<close>

definition pr_nop :: column where
  "pr_nop env g out p = sn ''-''"

definition pr_pgid :: column where
  "pr_pgid env g out p = sn (show_unsigned (p_pgrp p))"

definition pr_ppid :: column where
  "pr_ppid env g out p = sn (show_unsigned (p_ppid p))"

definition pr_procs :: column where
  "pr_procs env g out p = sn (show_unsigned (p_tgid p))"

definition pr_tasks :: column where
  "pr_tasks env g out p = sn (show_unsigned (p_tid p))"

definition pr_sess :: column where
  "pr_sess env g out p = sn (show_unsigned (p_session p))"

definition pr_egid :: column where
  "pr_egid env g out p = sn (dec_of_int (p_egid p))"

definition pr_rgid :: column where
  "pr_rgid env g out p = sn (dec_of_int (p_rgid p))"

definition pr_sgid :: column where
  "pr_sgid env g out p = sn (dec_of_int (p_sgid p))"

definition pr_fgid :: column where
  "pr_fgid env g out p = sn (dec_of_int (p_fgid p))"

definition pr_euid :: column where
  "pr_euid env g out p = sn (dec_of_int (p_euid p))"

definition pr_ruid :: column where
  "pr_ruid env g out p = sn (dec_of_int (p_ruid p))"

definition pr_suid :: column where
  "pr_suid env g out p = sn (dec_of_int (p_suid p))"

definition pr_fuid :: column where
  "pr_fuid env g out p = sn (dec_of_int (p_fuid p))"

definition pr_nlwp :: column where
  "pr_nlwp env g out p = sn (dec_of_int (p_nlwp p))"

definition pr_tpgid :: column where
  "pr_tpgid env g out p = sn (dec_of_int (p_tpgid p))"

definition pr_psr :: column where
  "pr_psr env g out p = sn (dec_of_int (p_processor p))"

definition pr_size :: column where
  "pr_size env g out p = sn (dec_of_int (p_size p))"

definition pr_vsz :: column where
  "pr_vsz env g out p = sn (dec_of_nat (unat (p_vm_size p)))"

definition pr_rss :: column where
  "pr_rss env g out p = sn (dec_of_nat (unat (p_vm_rss p)))"

definition pr_swapable :: column where
  "pr_swapable env g out p = sn (show_ld (p_vm_data p + p_vm_stack p))"

definition pr_priority :: column where
  "pr_priority env g out p = sn (dec_of_int (p_priority p))"

definition pr_opri :: column where
  "pr_opri env g out p = sn (dec_of_int (60 + p_priority p))"

definition pr_pri_foo :: column where
  "pr_pri_foo env g out p = sn (dec_of_int (p_priority p - 20))"

definition pr_pri_bar :: column where
  "pr_pri_bar env g out p = sn (dec_of_int (p_priority p + 1))"

definition pr_pri_baz :: column where
  "pr_pri_baz env g out p = sn (dec_of_int (p_priority p + 100))"

definition pr_pri :: column where
  "pr_pri env g out p = sn (dec_of_int (39 - p_priority p))"

definition pr_pri_api :: column where
  "pr_pri_api env g out p = sn (dec_of_int (- 1 - p_priority p))"

text \<open>\<open>sched\<close> is unsigned; \<open>-1\<close>, its largest value, is a class that was not reported.\<close>

definition pr_nice :: column where
  "pr_nice env g out p = (if p_sched p \<noteq> 0 \<and> p_sched p \<noteq> 3 \<and> p_sched p \<noteq> - 1 then sn ''-'' else sn (dec_of_int (p_nice p)))"

definition pr_class :: column where
  "pr_class env g out p =
     (let c = p_sched p
      in sn (if c = - 1 then ''-'' else if c = 0 then ''TS'' else if c = 1 then ''FF'' else if c = 2 then ''RR''
             else if c = 3 then ''B'' else if c = 4 then ''ISO'' else if c = 5 then ''IDL'' else if c = 6 then ''DLN''
             else if c = 7 then ''#7'' else if c = 8 then ''#8'' else if c = 9 then ''#9'' else ''?''))"

definition pr_rtprio :: column where
  "pr_rtprio env g out p = (if p_sched p = 0 \<or> p_sched p = - 1 then sn ''-'' else sn (show_ld (p_rtprio p)))"

definition pr_sched :: column where
  "pr_sched env g out p = (if p_sched p = - 1 then sn ''-'' else sn (show_ld (p_sched p)))"

definition pr_flag :: column where
  "pr_flag env g out p = sn (dec_of_nat (unat (p_flags p div 64) mod 8))"

text \<open>\<open>outbuf[end++]\<close> for each mark that holds.\<close>

definition pr_stat :: column where
  "pr_stat env g out p =
     (let s = [p_state p] @ (if p_nice p < 0 then ''<'' else []) @ (if 0 < p_nice p then ''N'' else []) @
              (if p_vm_lock p \<noteq> 0 then ''L'' else []) @ (if p_session p = p_tgid p then ''s'' else []) @
              (if 1 < p_nlwp p then ''l'' else []) @ (if p_pgrp p = p_tpgid p then ''+'' else [])
      in Val (cstr s, int (length s)))"

definition pr_s :: column where
  "pr_s env g out p = Val (cstr [p_state p], 1)"

definition pr_stackp :: column where
  "pr_stackp env g out p = sn (pad_left (CHR ''0'') 8 (hex_of (unat (p_start_stack p) mod 2 ^ 32)))"

definition pr_esp :: column where
  "pr_esp env g out p = sn (pad_left (CHR ''0'') 8 (hex_of (unat (p_kstk_esp p) mod 2 ^ 32)))"

definition pr_eip :: column where
  "pr_eip env g out p = sn (pad_left (CHR ''0'') 8 (hex_of (unat (p_kstk_eip p) mod 2 ^ 32)))"

text \<open>A division by a page size below 1024 is one by zero.\<close>

definition pr_sz :: column where
  "pr_sz env g out p = (if page_size g div 1024 = 0 then Undef IntOverflow
      else sn (dec_of_nat (unat (p_vm_size p div word_of_int (page_size g div 1024)))))"

definition pr_dsiz :: column where
  "pr_dsiz env g out p = sn (if p_vsize p \<noteq> 0 then show_ld ((p_vsize p - p_end_code p + p_start_code p) div 1024) else ''0'')"

definition pr_tsiz :: column where
  "pr_tsiz env g out p = sn (if p_vsize p \<noteq> 0 then show_ld ((p_end_code p - p_start_code p) div 1024) else ''0'')"

definition pr_drs :: column where
  "pr_drs env g out p = sn (if p_vsize p \<noteq> 0 then show_ld ((p_vsize p - p_end_code p + p_start_code p) div 1024) else ''0'')"

definition pr_trs :: column where
  "pr_trs env g out p = sn (if p_vsize p \<noteq> 0 then show_ld ((p_end_code p - p_start_code p) div 1024) else ''0'')"

definition pr_minflt :: column where
  "pr_minflt env g out p = sn (show_ld (p_min_flt p + (if include_dead_children g then p_cmin_flt p else 0)))"

definition pr_majflt :: column where
  "pr_majflt env g out p = sn (show_ld (p_maj_flt p + (if include_dead_children g then p_cmaj_flt p else 0)))"

definition pr_lim :: column where
  "pr_lim env g out p = (if p_rss_rlim p = - 1 then Val (''xx'', 2) else sn (pad_left (CHR '' '') 5 (show_ld (p_rss_rlim p div 1024))))"

definition pr_pmem :: column where
  "pr_pmem env g out p =
     (if kb_main_total env = 0 then Undef IntOverflow
      else let pmem = min 999 (unat (p_vm_rss p * 1000 div kb_main_total env))
           in sn (pad_left (CHR '' '') 2 (dec_of_nat (pmem div 10)) @ ''.'' @ dec_of_nat (pmem mod 10)))"

definition pr_sgi_p :: column where
  "pr_sgi_p env g out p = (if p_state p = CHR ''R'' then sn (dec_of_int (p_processor p)) else sn ''*'')"

text \<open>Namespaces, in the order of \<open>ns_names\<close>.\<close>

definition pr_ipcns :: column where
  "pr_ipcns env g out p = (if p_ns p ! 0 \<noteq> 0 then sn (dec_of_int (p_ns p ! 0)) else sn ''-'')"

definition pr_mntns :: column where
  "pr_mntns env g out p = (if p_ns p ! 1 \<noteq> 0 then sn (dec_of_int (p_ns p ! 1)) else sn ''-'')"

definition pr_netns :: column where
  "pr_netns env g out p = (if p_ns p ! 2 \<noteq> 0 then sn (dec_of_int (p_ns p ! 2)) else sn ''-'')"

definition pr_pidns :: column where
  "pr_pidns env g out p = (if p_ns p ! 3 \<noteq> 0 then sn (dec_of_int (p_ns p ! 3)) else sn ''-'')"

definition pr_userns :: column where
  "pr_userns env g out p = (if p_ns p ! 4 \<noteq> 0 then sn (dec_of_int (p_ns p ! 4)) else sn ''-'')"

definition pr_utsns :: column where
  "pr_utsns env g out p = (if p_ns p ! 5 \<noteq> 0 then sn (dec_of_int (p_ns p ! 5)) else sn ''-'')"

subsection \<open>Signals\<close>

text \<open>Sixteen hexadecimal digits; a shorter text in the narrow form would be read before its start.\<close>

definition help_pr_sig :: "out_state \<Rightarrow> string \<Rightarrow> (string \<times> int) outcome" where
  "help_pr_sig out sig =
     (let len = length sig
      in if wide_signals out then (if 8 < len then sn sig else sn (''00000000'' @ sig))
         else if len < 8 then Undef OutOfBounds
         else if 8 < len - strspn sig ''0'' then sn (CHR ''<'' # drop (len - 8) sig)
         else sn (drop (len - 8) sig))"

definition pr_tsig :: column where
  "pr_tsig env g out p = help_pr_sig out (p_sigpnd p)"

definition pr_sig :: column where
  "pr_sig env g out p = help_pr_sig out (p_signal p)"

definition pr_sigmask :: column where
  "pr_sigmask env g out p = help_pr_sig out (p_blocked p)"

definition pr_sigignore :: column where
  "pr_sigignore env g out p = help_pr_sig out (p_sigignore p)"

definition pr_sigcatch :: column where
  "pr_sigcatch env g out p = help_pr_sig out (p_sigcatch p)"

subsection \<open>Names and commands\<close>

text \<open>
  The prefix of the forest, four cells a level, or two under \<open>-H\<close>. The piece that does not fit is
  written and cut; the length returned is then the whole room. With no room at all the cut is written
  before the buffer.
\<close>

definition forest_piece :: "char \<Rightarrow> char \<Rightarrow> string" where
  "forest_piece kind c =
     (if kind = CHR ''u'' then ''  ''
      else if c = CHR '' '' then ''    '' else if c = CHR ''|'' then '' |  '' else '' '' @ [BSLASH] @ ''_ '')"

fun forest_pieces :: "char \<Rightarrow> int \<Rightarrow> int \<Rightarrow> string \<Rightarrow> string \<Rightarrow> (string \<times> int) outcome" where
  "forest_pieces kind room rightward acc [] = Val (acc, int (length acc))"
| "forest_pieces kind room rightward acc (c # cs) =
     (let piece = forest_piece kind c; n = int (length piece)
      in if rightward - n < 0 then
           (if int (length acc) + rightward < 0 then Undef OutOfBounds
            else Val (take (nat (int (length acc) + rightward)) (acc @ piece), room))
         else forest_pieces kind room (rightward - n) (acc @ piece) cs)"

definition forest_helper :: "ps_state \<Rightarrow> out_state \<Rightarrow> (string \<times> int) outcome" where
  "forest_helper g out =
     (if forest_prefix out = [] then Val (out_buf out, 0)
      else forest_pieces (forest_type g) (max_rightward out) (max_rightward out) [] (forest_prefix out))"

text \<open>The text before \<open>endp\<close> and what the buffer holds from there.\<close>

definition split_buffer :: "string \<Rightarrow> int \<Rightarrow> string \<times> string" where
  "split_buffer s fh = (take (nat fh) s, drop (nat fh) s)"

definition with_environ :: "out_env \<Rightarrow> ps_state \<Rightarrow> proc_t \<Rightarrow> string \<Rightarrow> int \<Rightarrow> (string \<times> int) outcome" where
  "with_environ env g p s rightward =
     (if bsd_e_option g \<and> 1 < rightward \<and> p_environ p \<noteq> None \<and> p_environ p \<noteq> Some []
      then obind (escape_strlist (locale_lib env) (the (p_environ p)) OUTBUF_SIZE (rightward - 1))
             (\<lambda>(t, rightward). Val (s @ '' '' @ t, rightward))
      else Val (s, rightward))"

text \<open>\<open>pr_args\<close> and \<open>pr_comm\<close>: the first string of the vector \<open>cmdline\<close>, taken as escaped, or the command.\<close>

definition command_column :: "bool \<Rightarrow> column" where
  "command_column long env g out p =
     obind (forest_helper g out) (\<lambda>(buf, fh).
       let (s, old) = split_buffer buf fh; rightward = max_rightward out - fh
       in obind (if p_cmdline p \<noteq> None \<and> long
                 then (case the (p_cmdline p) of
                         [] \<Rightarrow> Undef NullDeref
                       | arg # _ \<Rightarrow> escaped_copy arg OUTBUF_SIZE rightward)
                 else escape_command (locale_lib env) old p OUTBUF_SIZE rightward ESC_DEFUNCT) (\<lambda>(t, rightward).
          obind (with_environ env g p (s @ t) rightward) (\<lambda>(s, rightward). Val (s, max_rightward out - rightward))))"

definition pr_args :: column where
  "pr_args env g out p = command_column (\<not> bsd_c_option g) env g out p"

definition pr_comm :: column where
  "pr_comm env g out p = command_column (unix_f_option g) env g out p"

definition pr_fname :: column where
  "pr_fname env g out p =
     obind (forest_helper g out) (\<lambda>(buf, fh).
       case escape_str (locale_lib env) (p_cmd p) OUTBUF_SIZE (min 8 (max_rightward out - fh)) of
         (t, rightward) \<Rightarrow> Val (fst (split_buffer buf fh) @ t, max_rightward out - rightward))"

text \<open>A copy of an escaped text; the pointer may be null when the file was not read.\<close>

definition copied :: "string option \<Rightarrow> out_state \<Rightarrow> (string \<times> int) outcome" where
  "copied src out =
     (case src of
        None \<Rightarrow> Undef NullDeref
      | Some src \<Rightarrow> obind (escaped_copy src OUTBUF_SIZE (max_rightward out)) (\<lambda>(t, r). Val (t, max_rightward out - r)))"

definition pr_cgname :: column where
  "pr_cgname env g out p = copied (p_cgname p) out"

definition pr_cgroup :: column where
  "pr_cgroup env g out p = copied (Option.bind (p_cgroup p) (\<lambda>v. case v of [] \<Rightarrow> None | x # _ \<Rightarrow> Some x)) out"

definition pr_supgid :: column where
  "pr_supgid env g out p = copied (p_supgid p) out"

definition pr_supgrp :: column where
  "pr_supgrp env g out p = copied (p_supgrp p) out"

text \<open>A name that does not fit is cut and marked with \<open>+\<close>, which needs one cell.\<close>

definition do_pr_name :: "out_env \<Rightarrow> ps_state \<Rightarrow> out_state \<Rightarrow> string \<Rightarrow> int \<Rightarrow> (string \<times> int) outcome" where
  "do_pr_name env g out name u =
     (if user_is_number g then sn (show_unsigned u)
      else case escape_str (locale_lib env) name OUTBUF_SIZE OUTBUF_SIZE of
        (t, rightward) \<Rightarrow>
          let len = OUTBUF_SIZE - rightward
          in if len \<le> max_rightward out then Val (t, len)
             else if max_rightward out < 1 then Undef OutOfBounds
             else Val (take (nat (max_rightward out - 1)) t @ ''+'', max_rightward out))"

definition pr_ruser :: column where "pr_ruser env g out p = do_pr_name env g out (p_ruser p) (p_ruid p)"
definition pr_euser :: column where "pr_euser env g out p = do_pr_name env g out (p_euser p) (p_euid p)"
definition pr_fuser :: column where "pr_fuser env g out p = do_pr_name env g out (p_fuser p) (p_fuid p)"
definition pr_suser :: column where "pr_suser env g out p = do_pr_name env g out (p_suser p) (p_suid p)"
definition pr_egroup :: column where "pr_egroup env g out p = do_pr_name env g out (p_egroup p) (p_egid p)"
definition pr_rgroup :: column where "pr_rgroup env g out p = do_pr_name env g out (p_rgroup p) (p_rgid p)"
definition pr_fgroup :: column where "pr_fgroup env g out p = do_pr_name env g out (p_fgroup p) (p_fgid p)"
definition pr_sgroup :: column where "pr_sgroup env g out p = do_pr_name env g out (p_sgroup p) (p_sgid p)"

text \<open>The strings of systemd and LXC; a null pointer is undefined in \<open>printf\<close>.\<close>

definition text_column :: "string option \<Rightarrow> (string \<times> int) outcome" where
  "text_column s = (case s of None \<Rightarrow> Undef NullDeref | Some s \<Rightarrow> sn s)"

definition pr_sd_unit :: column where "pr_sd_unit env g out p = text_column (p_sd_unit p)"
definition pr_sd_session :: column where "pr_sd_session env g out p = text_column (p_sd_sess p)"
definition pr_sd_ouid :: column where "pr_sd_ouid env g out p = text_column (p_sd_ouid p)"
definition pr_sd_machine :: column where "pr_sd_machine env g out p = text_column (p_sd_mach p)"
definition pr_sd_uunit :: column where "pr_sd_uunit env g out p = text_column (p_sd_uunit p)"
definition pr_sd_seat :: column where "pr_sd_seat env g out p = text_column (p_sd_seat p)"
definition pr_sd_slice :: column where "pr_sd_slice env g out p = text_column (p_sd_slice p)"
definition pr_lxcname :: column where "pr_lxcname env g out p = text_column (p_lxcname p)"

subsection \<open>Terminals, wait channels, contexts\<close>

abbreviation ABBREV_DEV :: u32 where "ABBREV_DEV \<equiv> 1"
abbreviation ABBREV_TTY :: u32 where "ABBREV_TTY \<equiv> 2"
abbreviation ABBREV_PTS :: u32 where "ABBREV_PTS \<equiv> 4"

definition strip_prefix :: "bool \<Rightarrow> string \<Rightarrow> string \<Rightarrow> string" where
  "strip_prefix b pre s = (if b \<and> has_prefix pre s \<and> length pre < length s then drop (length pre) s else s)"

text \<open>
  \<open>dev_to_tty\<close> of \<open>devname.c\<close> on the name its four searches find. The name is cut when the cut is in the
  buffer of 128 bytes; a byte above 126 is a negative \<open>char\<close>, so \<open><= ' '\<close> catches it.
\<close>

definition dev_to_tty :: "nat \<Rightarrow> int \<Rightarrow> string option \<Rightarrow> u32 \<Rightarrow> string" where
  "dev_to_tty chop dev name flags =
     (if dev mod 2 ^ 32 = 0 then ''?''
      else case name of
             None \<Rightarrow> ''?''
           | Some name \<Rightarrow>
               let s = strip_prefix (has flags ABBREV_DEV) ''/dev/'' name;
                   s = strip_prefix (has flags ABBREV_TTY) ''tty'' s;
                   s = strip_prefix (has flags ABBREV_PTS) ''pts/'' s;
                   s = (if chop + (length name - length s) \<le> 128 then take chop s else s)
               in map (\<lambda>c. if schar c \<le> 32 \<or> 126 < schar c then CHR ''?'' else c) s)"

definition pr_tty4 :: column where
  "pr_tty4 env g out p =
     (let s = dev_to_tty 4 (p_tty p) (tty_name env (p_tty p) (p_tid p)) (ABBREV_DEV OR ABBREV_TTY OR ABBREV_PTS)
      in Val (s, int (length s)))"

definition pr_tty8 :: column where
  "pr_tty8 env g out p =
     (let s = dev_to_tty COLWID (p_tty p) (tty_name env (p_tty p) (p_tid p)) ABBREV_DEV in Val (s, int (length s)))"

text \<open>\<open>wchan.c\<close>: at most 63 bytes of the file of the process.\<close>

definition lookup_wchan :: "out_env \<Rightarrow> int \<Rightarrow> string" where
  "lookup_wchan env pid =
     (case wchan_file env pid of
        None \<Rightarrow> ''?''
      | Some f \<Rightarrow>
          let buf = take 63 f; s = cstr buf
          in if buf = [] then ''?'' else if s = ''0'' then ''-''
             else dropWhile (\<lambda>c. c = CHR ''_'') (if s \<noteq> [] \<and> hd s = CHR ''.'' then tl s else s))"

definition wname_text :: "out_env \<Rightarrow> out_state \<Rightarrow> proc_t \<Rightarrow> (string \<times> int) outcome" where
  "wname_text env out p =
     (let s = take (nat (max_rightward out mod 2 ^ 32)) (lookup_wchan env (p_tid p)) in Val (s, int (length s)))"

definition pr_wname :: column where
  "pr_wname env g out p = (if p_wchan p AND 0xffffff = 0 then Val (''-'', 1) else wname_text env out p)"

definition pr_nwchan :: column where
  "pr_nwchan env g out p =
     (if p_wchan p AND 0xffffff = 0 then Val (''-'', 1) else sn (hex_of (unat (p_wchan p AND 0xffffff))))"

definition pr_wchan :: column where
  "pr_wchan env g out p = (if wchan_is_number g then pr_nwchan env g out p else pr_wname env g out p)"

text \<open>Without SELinux the text is the printable beginning of \<open>/proc/<pid>/attr/current\<close>.\<close>

definition pr_context :: column where
  "pr_context env g out p =
     (let s = (case attr_current env (p_tgid p) of
                 None \<Rightarrow> [] | Some f \<Rightarrow> takeWhile (c_isprint (locale_lib env)) (take (nat (OUTBUF_SIZE - 1)) f))
      in if s = [] then Val (''-'', 1) else Val (s, int (length s)))"

subsection \<open>The columns for tests\<close>

definition pick :: "ps_state \<Rightarrow> string list \<Rightarrow> string" where
  "pick g vals = vals ! (nat (lines_to_next_header g mod 2 ^ 32) mod length vals)"

definition pr_t_cut :: "string \<Rightarrow> out_state \<Rightarrow> (string \<times> int) outcome" where
  "pr_t_cut s out =
     (let size = nat ((max_rightward out + 1) mod 2 ^ 32); t = take (size - 1) s
      in if size = 0 then Undef Uninitialised else Val (t, int (length t)))"

definition pr_t_unlimited :: column where
  "pr_t_unlimited env g out p = pr_t_cut (pick g [''[123456789-12345] <defunct>'', ''ps'', ''123456789-123456'']) out"

definition pr_t_unlimited2 :: column where
  "pr_t_unlimited2 env g out p =
     pr_t_cut (pick g [''unlimited'', ''[123456789-12345] <defunct>'', ''ps'', ''123456789-123456'']) out"

definition pr_t_right :: column where
  "pr_t_right env g out p = sn (pick g [''999-23:59:59'', ''99-23:59:59'', ''9-23:59:59'', ''59:59''])"

definition pr_t_right2 :: column where
  "pr_t_right2 env g out p = sn (pick g [''999-23:59:59'', ''99-23:59:59'', ''9-23:59:59''])"

definition pr_t_left :: column where
  "pr_t_left env g out p = sn (pick g [''tty7'', ''pts/9999'', ''iseries/vtty42'', ''ttySMX0'', ''3270/tty4''])"

definition pr_t_left2 :: column where
  "pr_t_left2 env g out p = sn (pick g [''tty7'', ''pts/9999'', ''ttySMX0'', ''3270/tty4''])"

subsection \<open>The line\<close>

text \<open>The functions by the names the table of specifiers has for them.\<close>

definition pr_table :: "(string \<times> column) list" where
  "pr_table =
     [(''alarm'', pr_alarm), (''args'', pr_args), (''bsdstart'', pr_bsdstart), (''bsdtime'', pr_bsdtime),
      (''c'', pr_c), (''cgname'', pr_cgname), (''cgroup'', pr_cgroup), (''class'', pr_class),
      (''comm'', pr_comm), (''context'', pr_context), (''cp'', pr_cp), (''drs'', pr_drs), (''dsiz'', pr_dsiz),
      (''egid'', pr_egid), (''egroup'', pr_egroup), (''eip'', pr_eip), (''esp'', pr_esp),
      (''etime'', pr_etime), (''etimes'', pr_etimes), (''euid'', pr_euid), (''euser'', pr_euser),
      (''fgid'', pr_fgid), (''fgroup'', pr_fgroup), (''flag'', pr_flag), (''fname'', pr_fname),
      (''fuid'', pr_fuid), (''fuser'', pr_fuser), (''ipcns'', pr_ipcns), (''lim'', pr_lim),
      (''lstart'', pr_lstart), (''lxcname'', pr_lxcname), (''majflt'', pr_majflt), (''minflt'', pr_minflt),
      (''mntns'', pr_mntns), (''netns'', pr_netns), (''nice'', pr_nice), (''nlwp'', pr_nlwp),
      (''nop'', pr_nop), (''nwchan'', pr_nwchan), (''opri'', pr_opri), (''pcpu'', pr_pcpu),
      (''pgid'', pr_pgid), (''pidns'', pr_pidns), (''pmem'', pr_pmem), (''ppid'', pr_ppid), (''pri'', pr_pri),
      (''pri_api'', pr_pri_api), (''pri_bar'', pr_pri_bar), (''pri_baz'', pr_pri_baz),
      (''pri_foo'', pr_pri_foo), (''priority'', pr_priority), (''procs'', pr_procs), (''psr'', pr_psr),
      (''rgid'', pr_rgid), (''rgroup'', pr_rgroup), (''rss'', pr_rss), (''rtprio'', pr_rtprio),
      (''ruid'', pr_ruid), (''ruser'', pr_ruser), (''s'', pr_s), (''sched'', pr_sched),
      (''sd_machine'', pr_sd_machine), (''sd_ouid'', pr_sd_ouid), (''sd_seat'', pr_sd_seat),
      (''sd_session'', pr_sd_session), (''sd_slice'', pr_sd_slice), (''sd_unit'', pr_sd_unit),
      (''sd_uunit'', pr_sd_uunit), (''sess'', pr_sess), (''sgi_p'', pr_sgi_p), (''sgid'', pr_sgid),
      (''sgroup'', pr_sgroup), (''sig'', pr_sig), (''sigcatch'', pr_sigcatch), (''sigignore'', pr_sigignore),
      (''sigmask'', pr_sigmask), (''size'', pr_size), (''stackp'', pr_stackp), (''start'', pr_start),
      (''stat'', pr_stat), (''stime'', pr_stime), (''suid'', pr_suid), (''supgid'', pr_supgid),
      (''supgrp'', pr_supgrp), (''suser'', pr_suser), (''swapable'', pr_swapable), (''sz'', pr_sz),
      (''t_left'', pr_t_left), (''t_left2'', pr_t_left2), (''t_right'', pr_t_right),
      (''t_right2'', pr_t_right2), (''t_unlimited'', pr_t_unlimited), (''t_unlimited2'', pr_t_unlimited2),
      (''tasks'', pr_tasks), (''time'', pr_time), (''tpgid'', pr_tpgid), (''trs'', pr_trs),
      (''tsig'', pr_tsig), (''tsiz'', pr_tsiz), (''tty4'', pr_tty4), (''tty8'', pr_tty8),
      (''userns'', pr_userns), (''utsns'', pr_utsns), (''vsz'', pr_vsz), (''wchan'', pr_wchan),
      (''wname'', pr_wname)]"

definition call_pr :: "string \<Rightarrow> column" where
  "call_pr name env g out p = (case map_of pr_table name of None \<Rightarrow> Undef NullDeref | Some f \<Rightarrow> f env g out p)"

abbreviation JUST_MASK :: u32 where "JUST_MASK \<equiv> 0x0f"

definition just :: "format_node \<Rightarrow> u32" where
  "just n = fn_flags n AND JUST_MASK"

text \<open>
  \<open>check_header_width\<close>: the room the columns need, as an \<open>unsigned\<close>, and how many of them are
  signals; then the screen is taken as often as they need, up to half of the buffer.
\<close>

fun header_total :: "format_node list \<Rightarrow> bool \<Rightarrow> int \<Rightarrow> nat \<Rightarrow> int \<times> nat" where
  "header_total [] was_normal width sigs = (width mod 2 ^ 32, sigs)"
| "header_total (n # ns) was_normal width sigs =
     (let gap = of_bool was_normal
      in if just n = 0 then header_total ns False (width + fn_width n) sigs
         else if just n = SIGNAL then header_total ns True (width + fn_width n + gap) (Suc sigs)
         else if just n = UNLIMITED then header_total ns True (width + (if ns \<noteq> [] then fn_width n else 3) + gap) sigs
         else header_total ns True (width + fn_width n + gap) sigs)"

function widen :: "int \<Rightarrow> int \<Rightarrow> int \<Rightarrow> int" where
  "widen cols width i =
     (if cols \<le> 0 \<or> i < 0 then 0
      else if width \<le> cols * i \<or> OUTBUF_SIZE div 2 \<le> cols * i then cols * i else widen cols width (i + 1))"
  by pat_completeness auto
termination
proof (relation "measure (\<lambda>(cols, width, i). nat (OUTBUF_SIZE - i))")
  fix cols width i :: int
  assume a: "\<not> (cols \<le> 0 \<or> i < 0)" "\<not> (width \<le> cols * i \<or> OUTBUF_SIZE div 2 \<le> cols * i)"
  then have "i \<le> cols * i" by (simp add: mult_le_cancel_right1)
  then show "((cols, width, i + 1), cols, width, i) \<in> measure (\<lambda>(cols, width, i). nat (OUTBUF_SIZE - i))"
    using a by simp
qed simp

declare widen.simps [simp del]

text \<open>With no column on the screen the loop would not end.\<close>

definition check_header_width :: "ps_state \<Rightarrow> out_state \<Rightarrow> out_state outcome" where
  "check_header_width g out =
     (case header_total (format_list g) False 0 0 of (width, sigs) \<Rightarrow>
        if screen_cols g \<le> 0 then Undef Blocks
        else let cols = widen (screen_cols g) width 1
             in Val (out \<lparr> active_cols := cols, wide_signals := ((width + 7 * int sigs) mod 2 ^ 32 \<le> cols) \<rparr>))"

abbreviation SPACE_AMOUNT :: int where "SPACE_AMOUNT \<equiv> 144"

text \<open>The text of a column: the printing function, or the name in headers and for the text of an AIX format.\<close>

definition cell :: "out_env \<Rightarrow> ps_state \<Rightarrow> out_state \<Rightarrow> proc_t option \<Rightarrow> format_node \<Rightarrow> (string \<times> int) outcome" where
  "cell env g out p n =
     (case (p, fn_pr n) of
        (Some p, Some pr) \<Rightarrow> call_pr pr env g out p
      | _ \<Rightarrow> Val (fn_name n, int (length (fn_name n))))"

text \<open>
  The padding on the left and the room a wide signal takes; an unlimited column or a wait channel that
  starts exactly at the edge keeps one byte.
\<close>

definition justify :: "ps_state \<Rightarrow> out_state \<Rightarrow> format_node \<Rightarrow> int \<Rightarrow> string \<times> int \<Rightarrow> int \<times> int \<times> string" where
  "justify g out n room ta =
     (case ta of (text, amount) \<Rightarrow>
        let right = max 0 (fn_width n - amount); cut = (if room mod 2 ^ 32 < 1 then take 1 text else text)
        in if just n = RIGHT then (right, 0, text)
           else if just n = SIGNAL then
             (if wide_signals out then (max 0 (16 - amount), 7, text) else (max 0 (9 - amount), 0, text))
           else if just n = USER then (if user_is_number g then right else 0, 0, text)
           else if just n = WCHAN then (if wchan_is_number g then (right, 0, text) else (0, 0, cut))
           else if just n = UNLIMITED then (0, 0, cut)
           else (0, 0, text))"

definition spaces :: "int \<Rightarrow> string" where
  "spaces k = replicate (nat k) (CHR '' '')"

text \<open>
  The loop over the columns: \<open>correct\<close> is the position the column should start at, \<open>actual\<close> the one
  the line is at, \<open>dospace\<close> whether a space must separate the two columns.
\<close>

fun show_columns :: "out_env \<Rightarrow> ps_state \<Rightarrow> proc_t option \<Rightarrow> format_node list \<Rightarrow> int \<Rightarrow> int \<Rightarrow> int \<Rightarrow> out_state
    \<Rightarrow> (string \<times> out_state) outcome" where
  "show_columns env g p [] correct actual dospace out = Undef NullDeref"
| "show_columns env g p (n # ns) correct actual dospace out =
     (let tmpspace = (if ns \<noteq> [] then 0 else if correct - actual < 1 then dospace else correct - actual);
          right = (if ns \<noteq> [] then fn_width n
                   else if correct - actual < 1 then active_cols out - actual - tmpspace
                   else active_cols out - correct);
          out = out \<lparr> max_rightward := right \<rparr>
      in obind (cell env g out p n) (\<lambda>(text, amount).
         case justify g out n (active_cols out - actual - tmpspace) (text, amount) of (leftpad, legit, text) \<Rightarrow>
           let space = correct - actual + leftpad;
               space = min SPACE_AMOUNT (if space < 1 then dospace else space);
               out = out \<lparr> out_buf := text \<rparr>
           in case ns of
                [] \<Rightarrow> Val (spaces space @ text @ [LF], out \<lparr> out_buf := text @ [LF] \<rparr>)
              | m # _ \<Rightarrow>
                  let both = fn_pr n \<noteq> None \<and> fn_pr m \<noteq> None
                  in obind (show_columns env g p ns (correct + fn_width n + legit + of_bool both) (actual + space + amount)
                              (of_bool both) out)
                       (\<lambda>(line, out). Val (spaces space @ text @ line, out))))"

text \<open>\<open>show_one_proc\<close>: a header when it is due, then the line. \<open>None\<close> is the header itself.\<close>

definition show_line :: "out_env \<Rightarrow> proc_t option \<Rightarrow> format_node list \<Rightarrow> ps_state \<Rightarrow> out_state \<Rightarrow> (string \<times> out_state) outcome" where
  "show_line env p fmt g out = show_columns env g p fmt 0 0 0 (out \<lparr> did_stuff := True \<rparr>)"

definition header_due :: "ps_state \<Rightarrow> bool \<times> ps_state" where
  "header_due g =
     (let n = lines_to_next_header g - 1
      in if n = 0 then (True, g \<lparr> lines_to_next_header := header_gap g \<rparr>) else (False, g \<lparr> lines_to_next_header := n \<rparr>))"

definition show_one_proc :: "out_env \<Rightarrow> proc_t \<Rightarrow> format_node list \<Rightarrow> ps_state \<times> out_state \<Rightarrow> (string \<times> ps_state \<times> out_state) outcome" where
  "show_one_proc env p fmt s =
     (case s of (g, out) \<Rightarrow>
        case header_due g of (due, g) \<Rightarrow>
          obind (if due then show_line env None fmt g out else Val ([], out)) (\<lambda>(header, out).
          obind (show_line env (Some p) fmt g out) (\<lambda>(line, out). Val (header @ line, g, out))))"

text \<open>The call with \<open>-1\<close> at the end of the run: when nothing was ever printed the process ends.\<close>

definition show_end :: "out_state \<Rightarrow> unit outcome" where
  "show_end out = (if did_stuff out then Val () else Undef Exits)"

definition init_output :: "int \<Rightarrow> ps_state \<Rightarrow> out_state \<Rightarrow> out_state outcome" where
  "init_output now g out =
     (let shift = (if page_size g = 65536 then 16 else if page_size g = 32768 then 15 else if page_size g = 16384 then 14
                   else if page_size g = 8192 then 13 else if page_size g = 2048 then 11 else if page_size g = 1024 then 10 else 12)
      in check_header_width g (out \<lparr> page_shift := shift, out_buf := [], seconds_since_1970 := now \<rparr>))"

end
