(* ===== verification/PsSortFormat.thy ===== *)
theory PsSortFormat
  imports PsProc Strto
begin

text \<open>
  \<open>src/modules/ps/src/sortformat.c\<close>: the format and sort specifications of ps.

  A list of nodes is a list, its \<open>next\<close> pointers the order. Functions that return a message or NULL
  return \<open>Some\<close> message or \<open>None\<close>, next to the nodes and globals they change, as the code keeps what
  it had done before an error. \<open>penv\<close> holds what the code reads outside: the digits of a process id,
  the environment, the user and group files, and the terminals.
\<close>

record ps_env =
  pid_digits :: int
  ps_format :: "string option"
  getpwnam :: "string \<Rightarrow> int option"
  getgrnam :: "string \<Rightarrow> int option"
  stat_file :: "string \<Rightarrow> (bool \<times> int) option"

type_synonym message = "string option"

subsection \<open>One specifier\<close>

definition node_of :: "ps_env \<Rightarrow> format_struct \<Rightarrow> string option \<Rightarrow> format_node" where
  "node_of env fs override =
     (let w1 = (if has (fflags fs) PIDMAX then max (pid_digits env) (int (length (fhead fs))) else int (fwidth fs))
      in \<lparr> fn_name = (case override of None \<Rightarrow> fhead fs | Some s \<Rightarrow> s), fn_pr = Some (fpr fs),
           fn_width = (case override of None \<Rightarrow> w1 | Some s \<Rightarrow> max w1 (int (length s))),
           fn_need = fneed fs, fn_vendor = fvendor fs, fn_flags = fflags fs \<rparr>)"

text \<open>The items of a macro: up to the next comma or blank.\<close>

fun macro_items :: "string \<Rightarrow> string \<Rightarrow> string list" where
  "macro_items cur [] = (if cur = [] then [] else [cur])"
| "macro_items cur (c # s) =
     (if c = CHR '','' \<or> c = CHR '' '' then cur # macro_items [] s else macro_items (cur @ [c]) s)"

text \<open>
  A macro's items are looked up by the function itself; the first node of each is put before the list.
  The macros of the table name specifiers only, so a depth of two is enough (\<open>macros_expand\<close>).
\<close>

fun spec_nodes :: "nat \<Rightarrow> ps_env \<Rightarrow> string \<Rightarrow> string option \<Rightarrow> format_node list outcome" where
  "spec_nodes 0 env spec override = Undef Blocks"
| "spec_nodes (Suc n) env spec override =
     (case search_format_array spec of
        Some fs \<Rightarrow> Val [node_of env fs override]
      | None \<Rightarrow>
          (case search_macro_array spec of
             None \<Rightarrow> Val []
           | Some ms \<Rightarrow>
               fold (\<lambda>item acc. obind acc (\<lambda>list.
                   if 16 \<le> length item then Undef OutOfBounds
                   else obind (spec_nodes n env item override) (\<lambda>nodes.
                     case nodes of [] \<Rightarrow> Undef NullDeref | node # _ \<Rightarrow> Val (node # list))))
                 (macro_items [] (mhead ms)) (Val [])))"

definition do_one_spec :: "ps_env \<Rightarrow> string \<Rightarrow> string option \<Rightarrow> format_node list outcome" where
  "do_one_spec env spec override = spec_nodes 2 env spec override"

definition single_spec :: "ps_env \<Rightarrow> string \<Rightarrow> format_node outcome" where
  "single_spec env spec =
     obind (do_one_spec env spec None) (\<lambda>nodes. case nodes of [] \<Rightarrow> Undef NullDeref | node # _ \<Rightarrow> Val node)"

subsection \<open>Format lists\<close>

text \<open>\<open>O_wrap\<close>: \<open>pid\<close> goes to the end of the list, the trailer to its front; the list is backwards.\<close>

definition O_wrap :: "ps_env \<Rightarrow> bool \<Rightarrow> sf_node \<Rightarrow> sf_node outcome" where
  "O_wrap env bsd sfn =
     obind (do_one_spec env ''pid'' None) (\<lambda>pid.
     if pid = [] then Undef Exits
     else if f_cooked sfn = [] then Undef NullDeref
     else obind (do_one_spec env (if bsd then ''END_BSD'' else ''END_SYS5'') None) (\<lambda>trailer.
     if trailer = [] then Undef Exits
     else Val (sfn \<lparr> f_cooked := trailer @ f_cooked sfn @ pid \<rparr>)))"

text \<open>The state machine that counts the items of an AIX format.\<close>

fun aix_initial :: "string \<Rightarrow> nat option" and aix_text :: "string \<Rightarrow> nat option" and aix_desc :: "string \<Rightarrow> nat option" where
  "aix_initial [] = Some 0"
| "aix_initial (c # s) = (if c = CHR ''%'' then aix_desc s else map_option Suc (aix_text s))"
| "aix_text [] = Some 0"
| "aix_text (c # s) = (if c = CHR ''%'' then aix_desc s else aix_text s)"
| "aix_desc [] = None"
| "aix_desc (c # s) = map_option Suc (aix_initial s)"

definition text_node :: "string \<Rightarrow> format_node" where
  "text_node s = \<lparr> fn_name = s, fn_pr = None, fn_width = int (length s), fn_need = 0, fn_vendor = AIX, fn_flags = ET \<rparr>"

text \<open>The nodes of the next item and the rest of the format, or a message.\<close>

definition aix_item :: "ps_env \<Rightarrow> string \<Rightarrow> (string + format_node list \<times> string) outcome" where
  "aix_item env walk =
     (if walk \<noteq> [] \<and> hd walk = CHR ''%'' then
        (case tl walk of
           [] \<Rightarrow> Val (Inl ''unknown AIX field descriptor'')
         | c # rest \<Rightarrow>
             if c = CHR ''%'' then Val (Inr ([text_node ''%''], rest))
             else (case search_aix_array c of
                     None \<Rightarrow> Val (Inl ''unknown AIX field descriptor'')
                   | Some aix \<Rightarrow>
                       obind (do_one_spec env (aspec aix) (Some (ahead aix))) (\<lambda>nodes.
                         if nodes = [] then Val (Inl ''AIX field descriptor processing bug'') else Val (Inr (nodes, rest)))))
      else Val (Inr ([text_node (takeWhile (\<lambda>c. c \<noteq> CHR ''%'') walk)], dropWhile (\<lambda>c. c \<noteq> CHR ''%'') walk)))"

fun aix_items :: "ps_env \<Rightarrow> nat \<Rightarrow> string \<Rightarrow> sf_node \<Rightarrow> (message \<times> sf_node) outcome" where
  "aix_items env 0 walk sfn = Val (None, sfn)"
| "aix_items env (Suc n) walk sfn =
     obind (aix_item env walk) (\<lambda>r.
       case r of
         Inl m \<Rightarrow> Val (Some m, sfn)
       | Inr (nodes, rest) \<Rightarrow> aix_items env n rest (sfn \<lparr> f_cooked := nodes @ f_cooked sfn \<rparr>))"

definition aix_format_parse :: "ps_env \<Rightarrow> sf_node \<Rightarrow> ps_state \<Rightarrow> (message \<times> sf_node \<times> ps_state) outcome" where
  "aix_format_parse env sfn g =
     (case aix_initial (sf sfn) of
        None \<Rightarrow> Val (Some ''improper AIX field descriptor'', sfn, g)
      | Some items \<Rightarrow>
          obind (aix_items env items (sf sfn) sfn) (\<lambda>(m, sfn).
            Val (m, sfn, if m = None then g \<lparr> already_parsed_format := True \<rparr> else g)))"

text \<open>
  The check of a list: separators must not be doubled, one may trail. The result is the number of
  items and whether the list ends with a separator; \<open>None\<close> is an improper list.
\<close>

definition is_sep :: "char \<Rightarrow> bool" where
  "is_sep c \<longleftrightarrow> c = CHR '' '' \<or> c = CHR '','' \<or> c = TAB \<or> c = LF"

fun count_items :: "(char \<Rightarrow> bool) \<Rightarrow> bool \<Rightarrow> string \<Rightarrow> (nat \<times> bool) option" where
  "count_items sep need_item [] = Some (0, need_item)"
| "count_items sep need_item (c # s) =
     (if sep c then (if need_item then None else count_items sep True s)
      else map_option (\<lambda>(n, e). (if need_item then Suc n else n, e)) (count_items sep False s))"

fun split_at :: "(char \<Rightarrow> bool) \<Rightarrow> string \<Rightarrow> string list" where
  "split_at sep [] = [[]]"
| "split_at sep (c # s) =
     (if sep c then [] # split_at sep s
      else (case split_at sep s of [] \<Rightarrow> [[c]] | x # xs \<Rightarrow> (c # x) # xs))"

text \<open>\<open>do \<dots> while (*++walk)\<close> looks at the first character even when it is the NUL.\<close>

definition list_items :: "(char \<Rightarrow> bool) \<Rightarrow> string \<Rightarrow> string list option" where
  "list_items sep s =
     (if s = [] then None
      else case count_items sep True s of
             None \<Rightarrow> None
           | Some (items, trailing) \<Rightarrow> Some (split_at sep (if trailing then butlast s else s)))"

definition before :: "char \<Rightarrow> string \<Rightarrow> string" where
  "before c s = takeWhile (\<lambda>x. x \<noteq> c) s"

definition after :: "char \<Rightarrow> string \<Rightarrow> string option" where
  "after c s = (case dropWhile (\<lambda>x. x \<noteq> c) s of [] \<Rightarrow> None | _ # t \<Rightarrow> Some t)"

definition bad_width :: "string \<Rightarrow> bool" where
  "bad_width s \<longleftrightarrow> strspn s ''0123456789'' \<noteq> length s \<or> s = [] \<or> hd s = CHR ''0''"

definition unknown_message :: "string \<Rightarrow> string" where
  "unknown_message s = take 79 (''unknown user-defined format specifier '' @ [DQUOTE] @ s @ [DQUOTE])"

text \<open>One item \<open>spec:width=header\<close>. The text of an unknown specifier goes to \<open>errbuf\<close> unless that has a text.\<close>

definition format_item :: "ps_env \<Rightarrow> string \<Rightarrow> ps_state \<Rightarrow> (string + format_node list) outcome \<times> ps_state" where
  "format_item env item g =
     (let equal_loc = after (CHR ''='') item; walk = before (CHR ''='') item;
          colon_loc = after (CHR '':'') walk; walk = before (CHR '':'') walk
      in if (case colon_loc of None \<Rightarrow> False | Some w \<Rightarrow> bad_width w)
         then (Val (Inl ''column widths must be unsigned decimal numbers''), g)
         else case do_one_spec env walk equal_loc of
                Undef u \<Rightarrow> (Undef u, g)
              | Val [] \<Rightarrow>
                  (let g = (if errbuf g = [] then g \<lparr> errbuf := unknown_message walk \<rparr> else g) in (Val (Inl (errbuf g)), g))
              | Val (node # nodes) \<Rightarrow>
                  (case colon_loc of
                     None \<Rightarrow> (Val (Inr (node # nodes)), g)
                   | Some w \<Rightarrow>
                       if nodes \<noteq> [] then (Val (Inl ''can not set width for a macro (multi-column) format specifier''), g)
                       else (Val (Inr [node \<lparr> fn_width := sint (word_of_int (fst (strtol 10 w)) :: u32) \<rparr>]), g)))"

fun format_items :: "ps_env \<Rightarrow> string list \<Rightarrow> sf_node \<Rightarrow> ps_state \<Rightarrow> (message \<times> sf_node \<times> ps_state) outcome" where
  "format_items env [] sfn g = Val (None, sfn, g)"
| "format_items env (item # items) sfn g =
     (case format_item env item g of (r, g) \<Rightarrow>
        obind r (\<lambda>r. case r of
            Inl m \<Rightarrow> Val (Some m, sfn, g)
          | Inr nodes \<Rightarrow> format_items env items (sfn \<lparr> f_cooked := nodes @ f_cooked sfn \<rparr>) g))"

definition format_parse :: "ps_env \<Rightarrow> sf_node \<Rightarrow> ps_state \<Rightarrow> (message \<times> sf_node \<times> ps_state) outcome" where
  "format_parse env sfn g =
     obind (case list_items is_sep (sf sfn) of
              None \<Rightarrow> Val (Some ''improper format list'', sfn, g)
            | Some items \<Rightarrow> format_items env items sfn g)
       (\<lambda>(m, sfn, g).
          if m = None then Val (None, sfn, g \<lparr> already_parsed_format := True \<rparr>)
          else if CHR ''%'' \<in> set (sf sfn) then aix_format_parse env sfn g
          else Val (m, sfn, g))"

subsection \<open>Sort lists\<close>

definition do_one_sort_spec :: "string \<Rightarrow> sort_node option" where
  "do_one_sort_spec spec =
     (let reverse = (spec \<noteq> [] \<and> hd spec = CHR ''-''); spec = strip_sign spec
      in map_option (\<lambda>fs. \<lparr> sn_sr = fsr fs, sn_reverse = reverse, sn_need = fneed fs \<rparr>) (search_format_array spec))"

fun sort_items :: "string list \<Rightarrow> sf_node \<Rightarrow> message \<times> sf_node" where
  "sort_items [] sfn = (None, sfn)"
| "sort_items (item # items) sfn =
     (case do_one_sort_spec item of
        None \<Rightarrow> (Some ''unknown sort specifier'', sfn)
      | Some node \<Rightarrow> sort_items items (sfn \<lparr> s_cooked := node # s_cooked sfn \<rparr>))"

definition long_sort_parse :: "sf_node \<Rightarrow> ps_state \<Rightarrow> message \<times> sf_node \<times> ps_state" where
  "long_sort_parse sfn g =
     (case list_items is_sep (sf sfn) of
        None \<Rightarrow> (Some ''improper sort list'', sfn, g)
      | Some items \<Rightarrow>
          (case sort_items items sfn of
             (m, sfn) \<Rightarrow> (m, sfn, if m = None then g \<lparr> already_parsed_sort := True \<rparr> else g)))"

definition bad_code :: message where
  "bad_code = Some ''bad sorting code''"

fun verify_codes :: "char \<Rightarrow> char set \<Rightarrow> string \<Rightarrow> message" where
  "verify_codes forest checkoff [] = None"
| "verify_codes forest checkoff (c # s) =
     (if c = CHR ''+'' \<or> c = CHR ''-'' then
        (case s of [] \<Rightarrow> bad_code
         | d # _ \<Rightarrow> if d = CHR ''+'' \<or> d = CHR ''-'' then bad_code else verify_codes forest checkoff s)
      else if c = CHR ''P'' \<and> forest \<noteq> NUL then Some ''PPID sort and forest output conflict''
      else if c \<in> checkoff then bad_code
      else verify_codes forest (insert c checkoff) s)"

definition verify_short_sort :: "char \<Rightarrow> string \<Rightarrow> message" where
  "verify_short_sort forest arg =
     (if strspn arg ''CGJKMNPRSTUcfgjkmnoprstuvy+-'' \<noteq> length arg then bad_code else verify_codes forest {} arg)"

fun short_codes :: "bool \<Rightarrow> string \<Rightarrow> sf_node \<Rightarrow> message \<times> sf_node" where
  "short_codes direction [] sfn = (None, sfn)"
| "short_codes direction (c # s) sfn =
     (if c = CHR ''+'' then short_codes False s sfn
      else if c = CHR ''-'' then short_codes True s sfn
      else (case search_shortsort_array c of
              None \<Rightarrow> (Some ''unknown sort specifier'', sfn)
            | Some ss \<Rightarrow>
                (case do_one_sort_spec (sspec ss) of
                   None \<Rightarrow> (Some ''unknown sort specifier'', sfn)
                 | Some node \<Rightarrow>
                     short_codes False s (sfn \<lparr> s_cooked := node \<lparr> sn_reverse := direction \<rparr> # s_cooked sfn \<rparr>))))"

definition short_sort_parse :: "sf_node \<Rightarrow> ps_state \<Rightarrow> message \<times> sf_node \<times> ps_state" where
  "short_sort_parse sfn g =
     (case short_codes False (sf sfn) sfn of
        (m, sfn) \<Rightarrow> (m, sfn, if m = None then g \<lparr> already_parsed_sort := True \<rparr> else g))"

subsection \<open>Deferred options\<close>

text \<open>The \<open>switch\<close> of \<open>parse_O_option\<close> on one deferred option. The result of \<open>short_sort_parse\<close> is dropped.\<close>

definition parse_sf_node :: "ps_env \<Rightarrow> sf_node \<Rightarrow> ps_state \<Rightarrow> (message \<times> sf_node \<times> ps_state) outcome" where
  "parse_sf_node env sfn g =
     (let parse_format = format_parse env sfn g
      in case sf_code sfn of
           SF_B_o \<Rightarrow> parse_format | SF_G_format \<Rightarrow> parse_format | SF_U_o \<Rightarrow> parse_format
         | SF_U_O \<Rightarrow>
             if already_parsed_format g then Val (Some ''option -O can not follow other format options'', sfn, g)
             else obind parse_format (\<lambda>(m, sfn, g).
                    if m \<noteq> None then Val (m, sfn, g) else obind (O_wrap env False sfn) (\<lambda>sfn. Val (None, sfn, g)))
         | SF_B_O \<Rightarrow>
             (let m = (if have_gnu_sort g \<or> already_parsed_sort g then Some ''multiple sort options''
                       else verify_short_sort (forest_type g) (sf sfn))
              in if m = None then
                   (case short_sort_parse sfn g of (_, sfn, g) \<Rightarrow> Val (None, sfn, g \<lparr> already_parsed_sort := True \<rparr>))
                 else if already_parsed_format g then Val (Some ''option O is neither first format nor sort order'', sfn, g)
                 else obind parse_format (\<lambda>(m', sfn, g).
                        if m' = None then obind (O_wrap env True sfn) (\<lambda>sfn. Val (None, sfn, g)) else Val (m, sfn, g)))
         | SF_G_sort \<Rightarrow>
             (if already_parsed_sort g then Val (Some ''multiple sort options'', sfn, g)
              else case long_sort_parse sfn g of (m, sfn, g) \<Rightarrow> Val (m, sfn, g \<lparr> already_parsed_sort := True \<rparr>))
         | SF_B_m \<Rightarrow>
             (if already_parsed_sort g then Val (Some ''multiple sort options'', sfn, g)
              else case long_sort_parse sfn g of (m, sfn, g) \<Rightarrow> Val (m, sfn, g \<lparr> already_parsed_sort := True \<rparr>)))"

text \<open>The list is in reverse order of the options; the recursion takes the tail first.\<close>

fun parse_O_option :: "ps_env \<Rightarrow> sf_node list \<Rightarrow> ps_state \<Rightarrow> (message \<times> sf_node list \<times> ps_state) outcome" where
  "parse_O_option env [] g = Val (None, [], g)"
| "parse_O_option env (sfn # rest) g =
     obind (parse_O_option env rest g) (\<lambda>(m, rest, g).
       if m \<noteq> None then Val (m, sfn # rest, g)
       else obind (parse_sf_node env sfn g) (\<lambda>(m, sfn, g). Val (m, sfn # rest, g)))"

text \<open>Whether the argument of \<open>-o\<close> has an excuse to ignore the Unix98 parsing of headers.\<close>

fun not_unix98 :: "bool \<Rightarrow> string \<Rightarrow> bool" where
  "not_unix98 need_item [] = False"
| "not_unix98 need_item (c # s) =
     (if c = CHR '' '' \<or> c = CHR '','' then need_item \<or> not_unix98 True s
      else if c = CHR ''='' then need_item
      else if \<not> need_item then not_unix98 False s
      else let item = takeWhile (\<lambda>x. x \<notin> {CHR '','', CHR '' '', CHR ''=''}) (c # s)
           in 15 < length item \<or>
              (case search_format_array item of None \<Rightarrow> True | Some fs \<Rightarrow> fvendor fs \<noteq> U98 \<or> not_unix98 False s))"

definition defer_sf_option :: "string \<Rightarrow> sf_source \<Rightarrow> ps_state \<Rightarrow> bool \<times> ps_state" where
  "defer_sf_option arg source g =
     (source \<noteq> SF_U_o \<or> arg = [] \<or> not_unix98 True arg,
      g \<lparr> sf_list := \<lparr> f_cooked = [], s_cooked = [], sf = arg, sf_code = source \<rparr> # sf_list g,
          have_gnu_sort := (have_gnu_sort g \<or> source = SF_G_sort) \<rparr>)"

definition reset_sortformat :: "ps_state \<Rightarrow> ps_state" where
  "reset_sortformat g =
     g \<lparr> sf_list := [], format_list := [], sort_list := [], have_gnu_sort := False, already_parsed_sort := False,
         already_parsed_format := False \<rparr>"

subsection \<open>The final format\<close>

text \<open>Both read the first node's name without a test.\<close>

fun insert_after :: "string \<Rightarrow> format_node \<Rightarrow> format_node list \<Rightarrow> bool \<times> format_node list" where
  "insert_after findme putme [] = (False, [])"
| "insert_after findme putme (n # ns) =
     (if fn_name n = findme then (True, n # putme # ns)
      else (case insert_after findme putme ns of (b, ms) \<Rightarrow> (b, n # ms)))"

definition fmt_add_after :: "string \<Rightarrow> format_node \<Rightarrow> ps_state \<Rightarrow> (bool \<times> ps_state) outcome" where
  "fmt_add_after findme putme g =
     (if format_list g = [] then Undef NullDeref
      else case insert_after findme putme (format_list g) of (b, ns) \<Rightarrow> Val (b, g \<lparr> format_list := ns \<rparr>))"

fun remove_named :: "string \<Rightarrow> format_node list \<Rightarrow> format_node list" where
  "remove_named findme [] = []"
| "remove_named findme (n # ns) = (if fn_name n = findme then ns else n # remove_named findme ns)"

definition fmt_delete :: "string \<Rightarrow> ps_state \<Rightarrow> ps_state outcome" where
  "fmt_delete findme g =
     (if format_list g = [] then Undef NullDeref else Val (g \<lparr> format_list := remove_named findme (format_list g) \<rparr>))"

text \<open>The columns of \<open>generate_sysv_list\<close> in the order they are pushed; \<open>None\<close> is the \<open>:\<close> of IRIX.\<close>

definition sysv_columns :: "ps_state \<Rightarrow> string option list" where
  "sysv_columns g =
     (let ff = has (format_flags g); fm = has (format_modifiers g); per = has (personality g); tf = has (thread_flags g);
          when = (\<lambda>b xs. if b then map Some xs else [])
      in (if prefer_bsd_defaults g
          then when True [if format_flags g \<noteq> 0 then ''cmd'' else ''args'', ''bsdtime''] @ when (\<not> ff FF_Ul) [''stat'']
          else when True [if ff FF_Uf then ''cmd'' else ''ucmd'', ''time'']) @
         when True [''tname''] @
         when (ff FF_Uf) [''stime''] @
         (if fm FM_F
          then when (\<not> fm FM_P) [''psr''] @ when (\<not> (ff FF_Ul \<and> fm FM_y)) [''rss'']
          else []) @
         when (ff FF_Ul) [''wchan''] @
         (if ff FF_Ul \<and> \<not> fm FM_y \<and> per PER_IRIX_l then [Some ''sgi_rss'', None] else []) @
         when (fm FM_F \<or> ff FF_Ul) [''sz''] @
         (if ff FF_Ul
          then when True [if fm FM_y then ''rss'' else if per (PER_ZAP_ADDR OR PER_IRIX_l) then ''sgi_p'' else ''addr_1'']
          else []) @
         (if fm FM_c then when True [''pri'', ''class'']
          else if ff FF_Ul then when True [''ni'', if per PER_IRIX_l then ''priority'' else ''opri'']
          else []) @
         when (tf TF_U_L \<and> ff FF_Uf) [''nlwp''] @
         when (ff (FF_Uf OR FF_Ul) \<and> \<not> fm FM_c) [''c''] @
         when (fm FM_P) [''psr''] @
         when (tf TF_U_L) [''lwp''] @
         when (fm FM_j) [''sid'', ''pgid''] @
         when (ff (FF_Uf OR FF_Ul)) [''ppid''] @
         when (tf TF_U_T) [''spid''] @
         when True [''pid''] @
         (if ff FF_Uf then when True [if per PER_SANE_USER then ''user'' else ''uid_hack'']
          else when (ff FF_Ul) [''uid'']) @
         when (ff FF_Ul) [''s''] @ when (ff FF_Ul \<and> \<not> fm FM_y) [''f''] @
         when (fm FM_M) [''label''])"

definition colon_node :: format_node where
  "colon_node = (text_node '':'') \<lparr> fn_width := 1 \<rparr>"

fun push_columns :: "ps_env \<Rightarrow> string option list \<Rightarrow> ps_state \<Rightarrow> ps_state outcome" where
  "push_columns env [] g = Val g"
| "push_columns env (c # cs) g =
     obind (case c of None \<Rightarrow> Val colon_node | Some spec \<Rightarrow> single_spec env spec) (\<lambda>n.
       push_columns env cs (g \<lparr> format_list := n # format_list g \<rparr>))"

definition generate_sysv_list :: "ps_env \<Rightarrow> ps_state \<Rightarrow> (message \<times> ps_state) outcome" where
  "generate_sysv_list env g =
     (if has (format_modifiers g) FM_y \<and> \<not> has (format_flags g) FF_Ul
      then Val (Some ''modifier -y without format -l makes no sense'', g)
      else obind (push_columns env (sysv_columns g) g) (\<lambda>g. Val (None, g)))"

text \<open>
  The first part of \<open>process_sf_options\<close>: the nodes each option made are put onto the two lists in the
  opposite way, the options from the last one.
\<close>

fun merge_sf :: "sf_node list \<Rightarrow> ps_state \<Rightarrow> ps_state" where
  "merge_sf [] g = g"
| "merge_sf (sfn # rest) g =
     merge_sf rest (g \<lparr> format_list := rev (f_cooked sfn) @ format_list g, sort_list := rev (s_cooked sfn) @ sort_list g \<rparr>)"

definition merge_options :: "ps_state \<Rightarrow> ps_state" where
  "merge_options g =
     (merge_sf (sf_list g) g) \<lparr> sf_list := map (\<lambda>sfn. sfn \<lparr> f_cooked := [], s_cooked := [] \<rparr>) (sf_list g) \<rparr>"

text \<open>The predefined format of the flags; \<open>None\<close> is a conflict, \<open>Some None\<close> the SysV generator.\<close>

definition predefined_format :: "ps_state \<Rightarrow> string option option" where
  "predefined_format g =
     (let ff = format_flags g
      in if ff = 0 then Some None
         else if ff = FF_Uf OR FF_Ul then Some (sysv_fl_format g)
         else if ff = FF_Uf then Some (sysv_f_format g)
         else if ff = FF_Ul then Some (sysv_l_format g)
         else if ff = FF_Uj then Some (sysv_j_format g)
         else if ff = FF_Uj OR FF_Ul then Some (Some ''RD_lj'')
         else if ff = FF_Uj OR FF_Uf then Some (Some ''RD_fj'')
         else if ff = FF_Bj then Some (Some (bsd_j_format g))
         else if ff = FF_Bl then Some (Some (bsd_l_format g))
         else if ff = FF_Bs then Some (Some (bsd_s_format g))
         else if ff = FF_Bu then Some (Some (bsd_u_format g))
         else if ff = FF_Bv then Some (Some (bsd_v_format g))
         else if ff = FF_LX then Some (Some ''OL_X'')
         else if ff = FF_Lm then Some (Some ''OL_m'')
         else if ff = FF_Fc then Some (Some ''FLASK_context'')
         else None)"

text \<open>The modifiers, each a step that may end the function with a message (or the process).\<close>

definition mod_step :: "bool \<Rightarrow> (ps_state \<Rightarrow> (message \<times> ps_state) outcome) \<Rightarrow> (message \<times> ps_state) outcome \<Rightarrow> (message \<times> ps_state) outcome" where
  "mod_step b f r = obind r (\<lambda>(m, g). if m = None \<and> b then f g else Val (m, g))"

definition add_or :: "ps_env \<Rightarrow> string \<Rightarrow> string \<Rightarrow> (message \<times> ps_state) outcome \<Rightarrow> ps_state \<Rightarrow> (message \<times> ps_state) outcome" where
  "add_or env spec findme failed g =
     obind (single_spec env spec) (\<lambda>n. obind (fmt_add_after findme n g) (\<lambda>(ok, g). if ok then Val (None, g) else failed))"

definition replace_column :: "ps_env \<Rightarrow> string \<Rightarrow> string \<Rightarrow> ps_state \<Rightarrow> (message \<times> ps_state) outcome" where
  "replace_column env spec findme g =
     obind (single_spec env spec) (\<lambda>n. obind (fmt_add_after findme n g) (\<lambda>(ok, g).
       if ok then obind (fmt_delete findme g) (\<lambda>g. Val (None, g)) else Val (None, g)))"

fun delete_all :: "string list \<Rightarrow> ps_state \<Rightarrow> ps_state outcome" where
  "delete_all [] g = Val g"
| "delete_all (s # ss) g = obind (fmt_delete s g) (delete_all ss)"

fun add_after_first :: "string list \<Rightarrow> format_node \<Rightarrow> ps_state \<Rightarrow> (bool \<times> ps_state) outcome" where
  "add_after_first [] n g = Val (False, g)"
| "add_after_first (s # ss) n g = obind (fmt_add_after s n g) (\<lambda>(ok, g). if ok then Val (True, g) else add_after_first ss n g)"

definition modify_jobs :: "ps_env \<Rightarrow> ps_state \<Rightarrow> (message \<times> ps_state) outcome" where
  "modify_jobs env g =
     obind (single_spec env ''pgid'') (\<lambda>n. obind (add_after_first [''PPID'', ''PID''] n g) (\<lambda>(ok, g).
       if \<not> ok then Undef Exits else add_or env ''sid'' ''PGID'' (Val (Some ''lost my PGID'', g)) g))"

definition modify_y :: "ps_env \<Rightarrow> ps_state \<Rightarrow> (message \<times> ps_state) outcome" where
  "modify_y env g = obind (fmt_delete ''F'' g) (replace_column env ''rss'' ''ADDR'')"

definition modify_class :: "ps_env \<Rightarrow> ps_state \<Rightarrow> (message \<times> ps_state) outcome" where
  "modify_class env g =
     obind (delete_all [''%CPU'', ''CPU'', ''CP'', ''C'', ''NI''] g) (\<lambda>g.
     obind (add_or env ''class'' ''PRI'' (Undef Exits) g) (\<lambda>(_, g).
     obind (fmt_delete ''PRI'' g) (\<lambda>g. add_or env ''pri'' ''CLS'' (Val (Some ''lost my CLS'', g)) g)))"

definition modify_spid :: "ps_env \<Rightarrow> ps_state \<Rightarrow> (message \<times> ps_state) outcome" where
  "modify_spid env g =
     add_or env ''spid'' ''PID''
       (Val (if has (thread_flags g) TF_must_use then Some ''-T with H/-m/m but no PID for SPID to follow'' else None, g)) g"

definition modify_lwp :: "ps_env \<Rightarrow> ps_state \<Rightarrow> (message \<times> ps_state) outcome" where
  "modify_lwp env g =
     obind (single_spec env ''lwp'') (\<lambda>n.
     obind (add_after_first [''SID'', ''SESS'', ''PGID'', ''PGRP'', ''PPID'', ''PID''] n g) (\<lambda>(ok, g).
       if \<not> ok \<and> has (thread_flags g) TF_must_use
       then Val (Some ''-L with H/-m/m but no PID/PGID/SID/SESS for NLWP to follow'', g)
       else add_or env ''nlwp'' ''%CPU'' (Val (None, g)) g))"

definition modify_label :: "ps_env \<Rightarrow> ps_state \<Rightarrow> (message \<times> ps_state) outcome" where
  "modify_label env g = obind (single_spec env ''label'') (\<lambda>n. Val (None, g \<lparr> format_list := n # format_list g \<rparr>))"

definition apply_modifiers :: "ps_env \<Rightarrow> ps_state \<Rightarrow> (message \<times> ps_state) outcome" where
  "apply_modifiers env g =
     (let fm = has (format_modifiers g); tf = has (thread_flags g); per = has (personality g); ff = has (format_flags g)
      in mod_step (per PER_SANE_USER \<and> ff FF_Uf) (replace_column env ''user'' ''UID'')
        (mod_step (per PER_ZAP_ADDR \<and> ff FF_Ul) (replace_column env ''sgi_p'' ''ADDR'')
        (mod_step (fm FM_M) (modify_label env)
        (mod_step (tf TF_U_L) (modify_lwp env)
        (mod_step (tf TF_U_T) (modify_spid env)
        (mod_step (fm FM_c) (modify_class env)
        (mod_step (fm FM_y) (modify_y env)
        (mod_step (fm FM_j) (modify_jobs env) (Val (None, g))))))))))"

definition default_format :: "ps_env \<Rightarrow> ps_state \<Rightarrow> (message \<times> ps_state) outcome" where
  "default_format env g =
     (case predefined_format g of
        None \<Rightarrow> Val (Some ''conflicting format options'', g)
      | Some None \<Rightarrow> generate_sysv_list env g
      | Some (Some spec) \<Rightarrow>
          obind (do_one_spec env spec None) (\<lambda>nodes. apply_modifiers env (g \<lparr> format_list := rev nodes @ format_list g \<rparr>)))"

definition user_format :: "ps_state \<Rightarrow> message \<times> ps_state" where
  "user_format g =
     (if format_flags g \<noteq> 0 then Some ''conflicting format options''
      else if format_modifiers g \<noteq> 0 then Some ''can not use output modifiers with user-defined output''
      else if has (thread_flags g) TF_must_use then Some ''-L/-T with H/m/-m and -o/-O/o/O is nonsense''
      else None, g)"

text \<open>\<open>$PS_FORMAT\<close>: \<open>Some\<close> is the return of the function, \<open>None\<close> goes on (after a warning when it was malformed).\<close>

definition format_from_env :: "ps_env \<Rightarrow> ps_state \<Rightarrow> ((message \<times> ps_state) option \<times> ps_state) outcome" where
  "format_from_env env g =
     (case ps_format env of
        None \<Rightarrow> Val (None, g)
      | Some tmp \<Rightarrow>
          if format_flags g \<noteq> 0 \<or> format_modifiers g \<noteq> 0 \<or> format_list g \<noteq> [] \<or> tmp = [] then Val (None, g)
          else if has (thread_flags g) TF_must_use
          then Val (Some (Some ''tell <procps@freelists.org> what you want (-L/-T, -m/m/H, and $PS_FORMAT)'', g), g)
          else obind (format_parse env \<lparr> f_cooked = [], s_cooked = [], sf = tmp, sf_code = SF_B_o \<rparr> g) (\<lambda>(m, sfn, g).
                 if m = None
                 then (let g = g \<lparr> format_list := rev (f_cooked sfn) @ format_list g \<rparr> in Val (Some (None, g), g))
                 else Val (None, g)))"

definition process_sf_options :: "ps_env \<Rightarrow> ps_state \<Rightarrow> (message \<times> ps_state) outcome" where
  "process_sf_options env g =
     obind (parse_O_option env (sf_list g) g) (\<lambda>(m, sfl, g).
       let g = g \<lparr> sf_list := sfl \<rparr>
       in if m \<noteq> None then Val (m, g)
          else if format_list g \<noteq> [] then Undef Exits
          else let g = merge_options g
               in if sort_list g \<noteq> [] \<and> has (thread_flags g) TF_no_sort
                  then Val (Some ''tell <procps@freelists.org> what you expected'', g)
                  else obind (format_from_env env g) (\<lambda>(r, g).
                    case r of Some r \<Rightarrow> Val r
                    | None \<Rightarrow> if format_list g \<noteq> [] then Val (user_format g) else default_format env g))"

end
