(* ===== verification/PsSortProps.thy ===== *)
theory PsSortProps
  imports PsSortFormat
begin

text \<open>
  What the format and sort specifications of ps come to: every specifier and macro of the tables
  expands without undefined behaviour, and a list of columns and of sort keys is kept in its order.
\<close>

subsection \<open>Specifiers\<close>

lemma bsearch_member: "bsearch cmp k base = Some e \<Longrightarrow> e \<in> set base"
proof -
  have "bsearch_between cmp k base l u = Some e \<Longrightarrow> u \<le> length base \<Longrightarrow> e \<in> set base" for l u
  proof (induction cmp k base l u rule: bsearch_between.induct)
    case (1 cmp k base l u)
    then show ?case
      by (subst (asm) (3) bsearch_between.simps) (auto simp: Let_def split: if_splits)
  qed
  then show "bsearch cmp k base = Some e \<Longrightarrow> e \<in> set base" unfolding bsearch_def by blast
qed

text \<open>The words of the macros, in the order of the table, so that one pass finds them all.\<close>

definition macro_words :: "string list" where
  "macro_words =
     [''addr'', ''alarm'', ''args'', ''atime'', ''bsdtime'', ''c'', ''caught'', ''cmd'', ''comm'',
      ''command'', ''context'', ''cp'', ''cpu'', ''cputime'', ''cursig'', ''eip'', ''esp'', ''f'', ''flags'',
      ''inblock'', ''intpri'', ''jobc'', ''lim'', ''m_drs'', ''m_dt'', ''m_share'', ''m_size'', ''m_swap'',
      ''m_trs'', ''maj_flt'', ''majflt'', ''minflt'', ''msgrcv'', ''msgsnd'', ''ni'', ''nice'', ''nivcsw'',
      ''nsigs'', ''nswap'', ''nvcsw'', ''opri'', ''oublock'', ''pagein'', ''pcpu'', ''pending'', ''pgid'',
      ''pgrp'', ''pid'', ''pmem'', ''policy'', ''ppid'', ''pri'', ''priority'', ''pset'', ''psr'', ''psxpri'',
      ''re'', ''rss'', ''s'', ''scnt'', ''sess'', ''sid'', ''sig'', ''sig_block'', ''sig_ignore'',
      ''sigcatch'', ''sigignore'', ''sigmask'', ''sl'', ''start'', ''start_stack'', ''start_time'', ''stat'',
      ''state'', ''stime'', ''systime'', ''sz'', ''time'', ''timeout'', ''tname'', ''tpgid'', ''tsiz'', ''tt'',
      ''tty'', ''ucmd'', ''uid'', ''uid_hack'', ''uname'', ''user'', ''usertime'', ''usrpri'', ''vm_lib'',
      ''vsz'', ''wchan'', ''~'']"

fun in_order :: "string list \<Rightarrow> string list \<Rightarrow> bool" where
  "in_order [] ss = True"
| "in_order (w # ws) [] = False"
| "in_order (w # ws) (s # ss) = (if w = s then in_order ws ss else in_order (w # ws) ss)"

lemma in_order_subset: "in_order ws ss \<Longrightarrow> set ws \<subseteq> set ss"
  by (induction ws ss rule: in_order.induct) (auto split: if_splits)

lemma macro_words_found: "set macro_words \<subseteq> set (map fspec format_array)"
proof (rule in_order_subset)
  show "in_order macro_words (map fspec format_array)" by code_simp
qed

text \<open>The items of each macro as positions in that list.\<close>

definition macro_index :: "nat list list" where
  "macro_index =
     [[47, 79, 73, 13, 7], [47, 79, 72, 4, 2], [47, 79, 77, 7], [73, 79, 13, 8], [73, 79, 77, 9], [87, 47, 50,
      5, 69, 79, 77, 7], [47, 82, 72, 77, 9], [88, 47, 50, 45, 60, 21, 72, 82, 77, 9], [85, 47, 50, 12, 51, 35,
      92, 57, 93, 72, 82, 77, 9], [88, 47, 43, 48, 92, 57, 82, 72, 69, 77, 9], [47, 72, 77, 68, 56, 42, 92, 57,
      22, 81, 43, 48, 9], [47, 83, 77, 8], [88, 47, 50, 71, 83, 77, 8], [88, 47, 50, 71, 83, 77, 45, 61, 8],
      [47, 83, 77, 45, 61, 8], [18, 73, 85, 47, 50, 52, 35, 92, 93, 83, 77, 8], [18, 73, 85, 47, 50, 52, 35,
      92, 93, 83, 77, 45, 61, 8], [17, 73, 85, 47, 50, 43, 51, 35, 57, 93, 69, 77, 9], [47, 10, 9], [47, 83,
      77, 8], [88, 47, 50, 12, 74, 83, 77, 2], [18, 73, 88, 47, 50, 12, 20, 35, 0, 76, 93, 74, 83, 77, 2], [18,
      73, 85, 47, 50, 12, 20, 35, 0, 76, 93, 83, 77, 8], [47, 61, 46, 79, 3, 2], [88, 47, 50, 45, 60, 21, 73,
      79, 13, 9], [17, 73, 85, 47, 50, 5, 51, 35, 0, 76, 93, 82, 77, 84], [85, 47, 50, 11, 51, 35, 92, 57, 93,
      73, 79, 13, 9], [47, 70, 16, 15, 78, 1, 72, 79, 4, 2], [50, 47, 45, 61, 79, 80, 72, 85, 4, 2], [18, 85,
      47, 50, 52, 35, 92, 57, 93, 72, 79, 4, 2], [47, 79, 30, 31, 28, 23, 26, 27, 57, 25, 91, 24, 2], [85, 47,
      44, 63, 64, 6, 72, 79, 4, 2], [88, 47, 43, 48, 92, 57, 79, 72, 71, 4, 2], [47, 79, 72, 4, 29, 28, 23, 57,
      48, 2], [47, 79, 73, 4, 8], [85, 47, 50, 71, 79, 4, 2], [85, 47, 50, 71, 79, 4, 45, 61, 2], [47, 79, 73,
      4, 45, 61, 8], [18, 73, 85, 47, 50, 52, 35, 93, 79, 4, 8], [18, 73, 85, 47, 50, 52, 35, 93, 79, 4, 45,
      61, 8], [31, 30, 38, 19, 41, 33, 32, 37, 39, 36], [88, 43, 51, 90, 35, 55, 54, 49, 53], [85, 47, 14, 62,
      67, 66, 65, 72, 79, 9], [86, 47, 50, 5, 74, 79, 77, 7], [17, 58, 86, 47, 50, 5, 40, 34, 0, 76, 93, 74,
      79, 77, 7], [17, 58, 85, 47, 50, 5, 40, 34, 0, 76, 93, 79, 77, 84], [88, 43, 51, 59, 93, 89, 75], [87,
      47, 43, 48, 92, 57, 82, 73, 69, 77, 9], [47, 82, 73, 77, 68, 42, 92, 57, 43, 48, 9], [94]]"

lemma macro_items_found:
  "map (\<lambda>ms. macro_items [] (mhead ms)) macro_array = map (map (\<lambda>k. macro_words ! k)) macro_index"
  "list_all (list_all (\<lambda>k. k < length macro_words)) macro_index" "list_all (\<lambda>w. length w < 16) macro_words"
  by code_simp+

definition column :: "string \<Rightarrow> bool" where
  "column s \<longleftrightarrow> s \<in> set (map fspec format_array)"

lemma column_found:
  assumes "column s"
  shows "\<exists>fs. search_format_array s = Some fs"
proof -
  have "is_cstring s" using assms format_array_sorted(2) by (auto simp: column_def list_all_iff)
  moreover have "find (\<lambda>f. fspec f = s) format_array \<noteq> None"
    using assms by (auto simp: column_def find_None_iff)
  ultimately show ?thesis using search_format_find [of s] by auto
qed

lemma macro_table_complete:
  assumes "ms \<in> set macro_array"
  shows "\<forall>i\<in>set (macro_items [] (mhead ms)). length i < 16 \<and> search_format_array i \<noteq> None"
proof
  fix i assume i: "i \<in> set (macro_items [] (mhead ms))"
  have "macro_items [] (mhead ms) \<in> set (map (map (\<lambda>k. macro_words ! k)) macro_index)"
    using assms unfolding macro_items_found(1) [symmetric] by simp
  then have "i \<in> set macro_words" using i macro_items_found(2) by (fastforce simp: list_all_iff)
  then have "length i < 16" "column i"
    using macro_items_found(3) macro_words_found by (auto simp: list_all_iff column_def)
  then show "length i < 16 \<and> search_format_array i \<noteq> None" using column_found by auto
qed

definition plain_node :: "ps_env \<Rightarrow> string option \<Rightarrow> string \<Rightarrow> format_node" where
  "plain_node env override s = node_of env (the (search_format_array s)) override"

lemma spec_nodes_format: "search_format_array s = Some fs \<Longrightarrow> spec_nodes (Suc n) env s ov = Val [node_of env fs ov]"
  by simp

lemma fold_items:
  assumes "\<forall>i\<in>set items. length i < 16 \<and> search_format_array i \<noteq> None"
  shows "fold (\<lambda>item acc. obind acc (\<lambda>list.
                   if 16 \<le> length item then Undef OutOfBounds
                   else obind (spec_nodes (Suc n) env item ov) (\<lambda>nodes.
                     case nodes of [] \<Rightarrow> Undef NullDeref | node # _ \<Rightarrow> Val (node # list)))) items (Val acc) =
         Val (rev (map (plain_node env ov) items) @ acc)"
  using assms
proof (induction items arbitrary: acc)
  case (Cons i items)
  then obtain fs where "search_format_array i = Some fs" by auto
  with Cons show ?case by (simp add: plain_node_def del: spec_nodes.simps add: spec_nodes_format)
qed simp

lemma do_one_spec_total:
  "do_one_spec env s ov = Val
     (case search_format_array s of
        Some fs \<Rightarrow> [node_of env fs ov]
      | None \<Rightarrow> (case search_macro_array s of None \<Rightarrow> []
                 | Some ms \<Rightarrow> rev (map (plain_node env ov) (macro_items [] (mhead ms)))))"
proof (cases "search_format_array s")
  case None
  show ?thesis
  proof (cases "search_macro_array s")
    case (Some ms)
    then have "ms \<in> set macro_array" unfolding search_macro_array_def by (rule bsearch_member)
    then have "\<forall>i\<in>set (macro_items [] (mhead ms)). length i < 16 \<and> search_format_array i \<noteq> None"
      by (rule macro_table_complete)
    from fold_items [OF this, of 0 env ov "[]"] None Some show ?thesis
      by (simp add: do_one_spec_def numeral_2_eq_2)
  qed (simp add: do_one_spec_def numeral_2_eq_2 None)
qed (simp add: do_one_spec_def numeral_2_eq_2)

subsection \<open>Lists\<close>

fun join :: "char \<Rightarrow> string list \<Rightarrow> string" where
  "join c [] = []"
| "join c [x] = x"
| "join c (x # xs) = x @ c # join c xs"

lemma split_at_word: "\<forall>c\<in>set x. \<not> sep c \<Longrightarrow> sep d \<Longrightarrow> split_at sep (x @ d # s) = x # split_at sep s"
  by (induction x) auto

lemma split_at_last: "\<forall>c\<in>set x. \<not> sep c \<Longrightarrow> split_at sep x = [x]"
  by (induction x) auto

lemma count_items_inside: "\<forall>c\<in>set x. \<not> sep c \<Longrightarrow> count_items sep False (x @ s) = count_items sep False s"
  by (induction x) (auto simp: option.map_id0)

lemma count_items_word:
  "x \<noteq> [] \<Longrightarrow> \<forall>c\<in>set x. \<not> sep c \<Longrightarrow> count_items sep True (x @ s) = map_option (\<lambda>(n, e). (Suc n, e)) (count_items sep False s)"
  by (cases x) (simp_all add: count_items_inside)

lemma count_items_join:
  assumes "xs \<noteq> []" "\<forall>x\<in>set xs. x \<noteq> [] \<and> (\<forall>c\<in>set x. \<not> sep c)" "sep d"
  shows "count_items sep True (join d xs) = Some (length xs, False)" "split_at sep (join d xs) = xs"
proof -
  have "count_items sep True (join d xs) = Some (length xs, False) \<and> split_at sep (join d xs) = xs"
    using assms
  proof (induction d xs rule: join.induct)
    case (2 c x)
    then show ?case using count_items_word [of x sep "[]"] by (simp add: split_at_last)
  next
    case (3 c x y ys)
    then show ?case by (simp add: split_at_word count_items_word)
  qed simp
  then show "count_items sep True (join d xs) = Some (length xs, False)" "split_at sep (join d xs) = xs" by auto
qed

lemma list_items_join:
  assumes "xs \<noteq> []" "\<forall>x\<in>set xs. x \<noteq> [] \<and> (\<forall>c\<in>set x. \<not> sep c)" "sep d"
  shows "list_items sep (join d xs) = Some xs"
proof -
  have "join d xs \<noteq> []" using count_items_join(1) [OF assms] by auto
  then show ?thesis using count_items_join [OF assms] by (simp add: list_items_def)
qed

subsection \<open>Columns and keys\<close>

lemma table_words:
  "list_all (\<lambda>s. s \<noteq> [] \<and> list_all (\<lambda>c. \<not> is_sep c \<and> c \<noteq> CHR ''='' \<and> c \<noteq> CHR '':'') s \<and>
     hd s \<noteq> CHR ''-'' \<and> hd s \<noteq> CHR ''+'') (map fspec format_array)"
  by code_simp

lemma column_word:
  assumes "column s"
  shows "s \<noteq> []" "\<forall>c\<in>set s. \<not> is_sep c" "CHR ''='' \<notin> set s" "CHR '':'' \<notin> set s" "strip_sign s = s" "hd s \<noteq> CHR ''-''"
  using assms table_words by (auto simp: column_def list_all_iff strip_sign_def)

lemma before_after_none [simp]: "c \<notin> set s \<Longrightarrow> before c s = s" "c \<notin> set s \<Longrightarrow> after c s = None"
proof -
  assume "c \<notin> set s"
  then have "\<forall>x\<in>set s. x \<noteq> c" by auto
  then have "takeWhile (\<lambda>x. x \<noteq> c) s = s" "dropWhile (\<lambda>x. x \<noteq> c) s = []"
    by (simp_all add: takeWhile_eq_all_conv dropWhile_eq_Nil_conv)
  then show "before c s = s" "after c s = None"
    unfolding before_def after_def by (simp_all only: list.case)
qed

lemma format_item_column:
  assumes "column s"
  shows "format_item env s g = (Val (Inr [plain_node env None s]), g)"
  using column_word [OF assms] column_found [OF assms]
  by (auto simp: format_item_def do_one_spec_total plain_node_def)

lemma format_items_columns:
  "\<forall>s\<in>set cols. column s \<Longrightarrow>
   format_items env cols sfn g = Val (None, sfn \<lparr> f_cooked := rev (map (plain_node env None) cols) @ f_cooked sfn \<rparr>, g)"
  by (induction cols arbitrary: sfn) (simp_all add: format_item_column)

lemma format_parse_columns:
  assumes "cols \<noteq> []" "\<forall>s\<in>set cols. column s" "sf sfn = join (CHR '','') cols"
  shows "format_parse env sfn g = Val (None, sfn \<lparr> f_cooked := rev (map (plain_node env None) cols) @ f_cooked sfn \<rparr>,
    g \<lparr> already_parsed_format := True \<rparr>)"
proof -
  have "list_items is_sep (sf sfn) = Some cols"
    using assms column_word by (auto simp: is_sep_def intro!: list_items_join)
  then show ?thesis using assms(2) by (simp add: format_parse_def format_items_columns)
qed

text \<open>A sort key is a column and whether it is reversed; \<open>-\<close> says so.\<close>

definition key_text :: "bool \<times> string \<Rightarrow> string" where
  "key_text k = (if fst k then [CHR ''-''] else []) @ snd k"

definition key_node :: "bool \<times> string \<Rightarrow> sort_node" where
  "key_node k = (let fs = the (search_format_array (snd k))
     in \<lparr> sn_sr = fsr fs, sn_reverse = fst k, sn_need = fneed fs \<rparr>)"

lemma sort_key:
  assumes "column (snd k)"
  shows "do_one_sort_spec (key_text k) = Some (key_node k)"
  using column_word [OF assms] column_found [OF assms]
  by (auto simp: do_one_sort_spec_def key_text_def key_node_def strip_sign_def Let_def)

lemma sort_items_keys:
  "\<forall>k\<in>set keys. column (snd k) \<Longrightarrow>
   sort_items (map key_text keys) sfn = (None, sfn \<lparr> s_cooked := rev (map key_node keys) @ s_cooked sfn \<rparr>)"
  by (induction keys arbitrary: sfn) (simp_all add: sort_key)

lemma long_sort_keys:
  assumes "keys \<noteq> []" "\<forall>k\<in>set keys. column (snd k)" "sf sfn = join (CHR '','') (map key_text keys)"
  shows "long_sort_parse sfn g = (None, sfn \<lparr> s_cooked := rev (map key_node keys) @ s_cooked sfn \<rparr>, g \<lparr> already_parsed_sort := True \<rparr>)"
proof -
  have "list_items is_sep (sf sfn) = Some (map key_text keys)"
    unfolding assms(3) using assms(1,2) column_word
    by (intro list_items_join) (auto simp: is_sep_def key_text_def)
  then show ?thesis using assms(2) by (simp add: long_sort_parse_def sort_items_keys)
qed

end
