(* ===== verification/PsOutputProps.thy ===== *)
theory PsOutputProps
  imports PsOutput PsSortProps
begin

text \<open>
  The lines ps prints: every column of the table of specifiers has its printing function, cells that
  fit their columns give aligned lines, and what the columns of a command print of untrusted text.
\<close>

subsection \<open>The table\<close>

definition pr_names :: "string list" where
  "pr_names =
     [''alarm'', ''args'', ''bsdstart'', ''bsdtime'', ''c'', ''cgname'', ''cgroup'', ''class'', ''comm'',
      ''context'', ''cp'', ''drs'', ''dsiz'', ''egid'', ''egroup'', ''eip'', ''esp'', ''etime'', ''etimes'',
      ''euid'', ''euser'', ''fgid'', ''fgroup'', ''flag'', ''fname'', ''fuid'', ''fuser'', ''ipcns'', ''lim'',
      ''lstart'', ''lxcname'', ''majflt'', ''minflt'', ''mntns'', ''netns'', ''nice'', ''nlwp'', ''nop'',
      ''nwchan'', ''opri'', ''pcpu'', ''pgid'', ''pidns'', ''pmem'', ''ppid'', ''pri'', ''pri_api'',
      ''pri_bar'', ''pri_baz'', ''pri_foo'', ''priority'', ''procs'', ''psr'', ''rgid'', ''rgroup'', ''rss'',
      ''rtprio'', ''ruid'', ''ruser'', ''s'', ''sched'', ''sd_machine'', ''sd_ouid'', ''sd_seat'',
      ''sd_session'', ''sd_slice'', ''sd_unit'', ''sd_uunit'', ''sess'', ''sgi_p'', ''sgid'', ''sgroup'',
      ''sig'', ''sigcatch'', ''sigignore'', ''sigmask'', ''size'', ''stackp'', ''start'', ''stat'', ''stime'',
      ''suid'', ''supgid'', ''supgrp'', ''suser'', ''swapable'', ''sz'', ''t_left'', ''t_left2'', ''t_right'',
      ''t_right2'', ''t_unlimited'', ''t_unlimited2'', ''tasks'', ''time'', ''tpgid'', ''trs'', ''tsig'',
      ''tsiz'', ''tty4'', ''tty8'', ''userns'', ''utsns'', ''vsz'', ''wchan'', ''wname'']"

definition pr_index :: "nat list" where
  "pr_index =
     [40, 43, 87, 88, 89, 90, 91, 92, 37, 37, 37, 37, 0, 37, 1, 94, 75, 37, 2, 3, 4, 73, 5, 6, 7, 7, 37, 1,
      37, 37, 8, 1, 9, 10, 37, 52, 94, 37, 37, 37, 37, 11, 12, 13, 14, 15, 37, 37, 37, 16, 17, 18, 19, 20, 23,
      21, 22, 23, 23, 24, 21, 22, 25, 26, 25, 26, 13, 14, 74, 37, 37, 39, 27, 37, 37, 37, 37, 9, 52, 28, 37,
      37, 100, 64, 29, 37, 37, 93, 30, 11, 37, 37, 37, 37, 76, 37, 96, 61, 31, 31, 32, 32, 33, 37, 37, 37, 34,
      35, 35, 37, 36, 37, 37, 37, 37, 38, 39, 37, 37, 37, 62, 37, 37, 31, 40, 72, 41, 41, 51, 42, 43, 37, 7,
      44, 45, 46, 47, 48, 49, 50, 37, 37, 37, 37, 37, 52, 37, 37, 37, 53, 54, 37, 55, 55, 55, 56, 57, 58, 59,
      60, 37, 37, 63, 68, 68, 69, 55, 70, 71, 37, 68, 72, 75, 73, 74, 72, 73, 74, 75, 85, 37, 65, 93, 77, 78,
      37, 77, 80, 79, 59, 37, 80, 81, 82, 83, 84, 70, 71, 81, 84, 37, 86, 37, 37, 51, 36, 93, 94, 37, 37, 100,
      95, 96, 96, 37, 37, 37, 97, 98, 100, 100, 99, 100, 37, 8, 8, 19, 20, 37, 20, 66, 37, 37, 20, 101, 37,
      37, 4, 37, 102, 67, 37, 37, 37, 37, 37, 103, 103, 104, 105, 37, 9, 37, 37]"

lemma pr_names_of_table: "map fst pr_table = pr_names"
  by (simp add: pr_table_def pr_names_def)

lemma pr_index_of_table: "map fpr format_array = map (\<lambda>k. pr_names ! k) pr_index" "list_all (\<lambda>k. k < length pr_names) pr_index"
  by code_simp+


subsection \<open>Lines\<close>

text \<open>A row: each cell padded to its width and a space; the last one only padded on its left.\<close>

fun row_text :: "(bool \<times> int \<times> string) list \<Rightarrow> string" where
  "row_text [] = []"
| "row_text [(r, w, t)] = (if r then pad_left (CHR '' '') (nat w) t else t) @ [LF]"
| "row_text ((r, w, t) # c # cs) =
     (if r then pad_left (CHR '' '') (nat w) t else pad_right (CHR '' '') (nat w) t) @ '' '' @ row_text (c # cs)"

text \<open>A column whose kind of justification moves no other column, and is not wide.\<close>

definition to_right :: "ps_state \<Rightarrow> format_node \<Rightarrow> bool" where
  "to_right g n \<longleftrightarrow> just n = RIGHT \<or> just n = USER \<and> user_is_number g \<or> just n = WCHAN \<and> wchan_is_number g"

definition plain_column :: "format_node \<Rightarrow> bool" where
  "plain_column n \<longleftrightarrow> just n \<in> {LEFT, RIGHT, USER, WCHAN, UNLIMITED} \<and> fn_pr n \<noteq> None \<and> 0 \<le> fn_width n \<and> fn_width n \<le> 71"

definition row_width :: "format_node list \<Rightarrow> int" where
  "row_width ns = sum_list (map (\<lambda>n. fn_width n + 1) ns)"

text \<open>The cell a column prints with a given room.\<close>

definition prints :: "out_env \<Rightarrow> ps_state \<Rightarrow> proc_t option \<Rightarrow> int \<Rightarrow> int \<Rightarrow> format_node \<Rightarrow> string \<Rightarrow> bool" where
  "prints env g p cols room n t \<longleftrightarrow>
     (\<forall>out. max_rightward out = room \<and> active_cols out = cols \<longrightarrow> cell env g out p n = Val (t, int (length t)))"

lemma spaces_add: "0 \<le> a \<Longrightarrow> 0 \<le> b \<Longrightarrow> spaces (a + b) = spaces a @ spaces b"
  by (simp add: spaces_def nat_add_distrib replicate_add)

lemma spaces_0 [simp]: "spaces 0 = []" by (simp add: spaces_def)

lemma spaces_1: "spaces 1 = '' ''" by (simp add: spaces_def)

lemma nat_minus_length: "nat w - length t = nat (w - int (length t))"
  by arith

lemma pad_left_spaces: "pad_left (CHR '' '') (nat w) t = spaces (w - int (length t)) @ t"
  by (simp only: pad_left_def spaces_def nat_minus_length)

lemma pad_right_spaces: "pad_right (CHR '' '') (nat w) t = t @ spaces (w - int (length t))"
  by (simp only: pad_right_def spaces_def nat_minus_length)

lemma plain_justify:
  assumes "plain_column n" "1 \<le> room" "room < 2 ^ 32"
  shows "justify g out n room (t, int (length t)) = (if to_right g n then max 0 (fn_width n - int (length t)) else 0, 0, t)"
  using assms by (auto simp: plain_column_def justify_def to_right_def)

lemma show_columns_step:
  assumes "cell env g (out \<lparr> max_rightward := fn_width n \<rparr>) p n = Val (t, amount)"
    "justify g (out \<lparr> max_rightward := fn_width n \<rparr>) n (active_cols out - actual) (t, amount) = (pad, 0, t)"
    "min SPACE_AMOUNT (if correct - actual + pad < 1 then dospace else correct - actual + pad) = space"
    "fn_pr n \<noteq> None" "fn_pr m \<noteq> None"
    "show_columns env g p (m # ms) (correct + fn_width n + 1) (actual + space + amount) 1
       (out \<lparr> max_rightward := fn_width n, out_buf := t \<rparr>) = Val (line, out')"
  shows "show_columns env g p (n # m # ms) correct actual dospace out = Val (spaces space @ t @ line, out')"
  using assms(4-) by (subst show_columns.simps(2)) (simp add: Let_def assms(1-3) del: show_columns.simps)

lemma show_columns_row:
  assumes "list_all2 (\<lambda>n t. plain_column n \<and> prints env g p cols (fn_width n) n t \<and> int (length t) \<le> fn_width n) ns ts"
    "plain_column l" "prints env g p cols (cols - correct - row_width ns) l u"
    "active_cols out = cols" "cols < 2 ^ 31" "row_width ns + correct < cols" "0 \<le> correct" "0 \<le> actual"
    "correct = actual \<and> dospace = 0 \<or> actual < correct \<and> dospace = 1" "correct - actual \<le> 72"
  shows "\<exists>out'. show_columns env g p (ns @ [l]) correct actual dospace out =
    Val (spaces (correct - actual) @ row_text (map2 (\<lambda>n t. (to_right g n, fn_width n, t)) (ns @ [l]) (ts @ [u])), out')"
  using assms
proof (induction ns ts arbitrary: correct actual dospace out rule: list_all2_induct)
  case Nil
  let ?o = "out \<lparr> max_rightward := cols - correct \<rparr>"
  define pad where "pad = (if to_right g l then max 0 (fn_width l - int (length u)) else 0)"
  have c: "cell env g ?o p l = Val (u, int (length u))"
    using Nil by (simp add: prints_def row_width_def)
  have j: "justify g ?o l (cols - correct) (u, int (length u)) = (pad, 0, u)"
    using Nil unfolding pad_def by (intro plain_justify) (auto simp: row_width_def)
  have pad: "0 \<le> pad" "pad \<le> 71"
    using Nil by (auto simp: plain_column_def pad_def)
  have shown: "spaces pad @ u = (if to_right g l then pad_left (CHR '' '') (nat (fn_width l)) u else u)"
    by (cases "int (length u) \<le> fn_width l") (simp_all add: pad_def pad_left_spaces spaces_def)
  have whole: "spaces (correct - actual + pad) @ u = spaces (correct - actual) @ (if to_right g l then pad_left (CHR '' '') (nat (fn_width l)) u else u)"
  proof -
    have "0 \<le> correct - actual" using Nil by auto
    then show ?thesis using pad(1) by (simp only: spaces_add append_assoc shown)
  qed
  have last: "show_columns env g p [l] correct actual dospace out =
      Val (spaces (correct - actual + pad) @ u @ [LF], ?o \<lparr> out_buf := u @ [LF] \<rparr>)"
    using Nil.prems(3,8) c j pad Nil.prems(9) by (cases "correct = actual"; cases "pad = 0") (auto simp: Let_def)
  show ?case unfolding append_Nil last using whole by (simp del: append_assoc add: append_assoc [symmetric])
next
  case (Cons n ns t ts)
  have n: "plain_column n" "prints env g p cols (fn_width n) n t" "int (length t) \<le> fn_width n"
    using Cons.hyps(1) by auto
  have w: "0 \<le> fn_width n" "fn_width n \<le> 71" "fn_pr n \<noteq> None" using n(1) by (auto simp: plain_column_def)
  have later: "0 \<le> row_width ns"
    using Cons.hyps(2) by (induction ns ts rule: list_all2_induct) (auto simp: row_width_def plain_column_def)
  have rw: "row_width (n # ns) = fn_width n + 1 + row_width ns" by (simp add: row_width_def)
  let ?o = "out \<lparr> max_rightward := fn_width n \<rparr>"
  have c: "cell env g ?o p n = Val (t, int (length t))"
    using n(2) Cons.prems(3) by (simp add: prints_def)
  let ?pad = "if to_right g n then fn_width n - int (length t) else 0"
  have j: "justify g ?o n (cols - actual) (t, int (length t)) = (?pad, 0, t)"
    using n(3) Cons.prems later w unfolding rw by (subst plain_justify [OF n(1)]) auto
  have sp: "min SPACE_AMOUNT (if correct - actual + ?pad < 1 then dospace else correct - actual + ?pad) = correct - actual + ?pad"
    using Cons.prems n(3) w by auto
  obtain m rest where nxt: "ns @ [l] = m # rest" by (cases "ns @ [l]") auto
  have m: "fn_pr m \<noteq> None"
    using nxt Cons.hyps(2) Cons.prems(1) by (cases ns) (auto simp: plain_column_def list_all2_Cons1)
  let ?c = "correct + fn_width n + 1" and ?a = "actual + (correct - actual + ?pad) + int (length t)"
  have "\<exists>out'. show_columns env g p (ns @ [l]) ?c ?a 1 (?o \<lparr> out_buf := t \<rparr>) =
      Val (spaces (?c - ?a) @ row_text (map2 (\<lambda>n t. (to_right g n, fn_width n, t)) (ns @ [l]) (ts @ [u])), out')"
    using Cons.prems n(3) w later unfolding rw
    by (intro Cons.IH) (auto simp: algebra_simps)
  then obtain out' where ih: "show_columns env g p (ns @ [l]) ?c ?a 1 (?o \<lparr> out_buf := t \<rparr>) =
      Val (spaces (?c - ?a) @ row_text (map2 (\<lambda>n t. (to_right g n, fn_width n, t)) (ns @ [l]) (ts @ [u])), out')" by blast
  have shown: "spaces (correct - actual + ?pad) @ t @ spaces (?c - ?a) @ s =
      spaces (correct - actual) @ (if to_right g n then pad_left (CHR '' '') (nat (fn_width n)) t else pad_right (CHR '' '') (nat (fn_width n)) t) @ '' '' @ s" for s
  proof -
    have "0 \<le> correct - actual" using Cons.prems by auto
    then have before: "spaces (correct - actual + ?pad) = spaces (correct - actual) @ spaces ?pad"
      using n(3) by (simp add: spaces_add)
    have gap: "?c - ?a = (if to_right g n then 0 else fn_width n - int (length t)) + 1" by simp
    have after: "spaces (?c - ?a) = spaces (if to_right g n then 0 else fn_width n - int (length t)) @ '' ''"
      using n(3) by (simp only: gap) (simp add: spaces_add spaces_1)
    show ?thesis
      unfolding before after pad_left_spaces pad_right_spaces by simp
  qed
  have line: "show_columns env g p (n # m # rest) correct actual dospace out = Val (spaces (correct - actual + ?pad) @ t @
      spaces (?c - ?a) @ row_text (map2 (\<lambda>n t. (to_right g n, fn_width n, t)) (ns @ [l]) (ts @ [u])), out')"
    using ih w m by (intro show_columns_step [OF c j [folded Cons.prems(3)] sp]) (simp_all add: nxt)
  obtain x xs where xs: "map2 (\<lambda>n t. (to_right g n, fn_width n, t)) (ns @ [l]) (ts @ [u]) = x # xs"
    using Cons.hyps(2) by (cases ns; cases ts) auto
  show ?case unfolding append_Cons nxt line shown unfolding nxt [symmetric]
    by (simp add: xs)
qed

lemma length_pads [simp]:
  "int (length t) \<le> w \<Longrightarrow> length (pad_left (CHR '' '') (nat w) t) = nat w"
  "int (length t) \<le> w \<Longrightarrow> length (pad_right (CHR '' '') (nat w) t) = nat w"
  by (auto simp: pad_left_def pad_right_def)

text \<open>What a row shows of its column \<open>k\<close>, the last one apart.\<close>

definition padded :: "ps_state \<Rightarrow> format_node \<Rightarrow> string \<Rightarrow> string" where
  "padded g n t = (if to_right g n then pad_left (CHR '' '') (nat (fn_width n)) t else pad_right (CHR '' '') (nat (fn_width n)) t)"

lemma row_text_at:
  assumes "list_all2 (\<lambda>n t. 0 \<le> fn_width n \<and> int (length t) \<le> fn_width n) ns ts" "k < length ns"
  shows "take (nat (fn_width (ns ! k))) (drop (nat (row_width (take k ns)))
      (row_text (map2 (\<lambda>n t. (to_right g n, fn_width n, t)) (ns @ [l]) (ts @ [u])))) = padded g (ns ! k) (ts ! k)"
  using assms
proof (induction ns ts arbitrary: k rule: list_all2_induct)
  case (Cons n ns t ts)
  obtain c cs where cs: "map2 (\<lambda>n t. (to_right g n, fn_width n, t)) (ns @ [l]) (ts @ [u]) = c # cs"
    using Cons.hyps(2) by (cases ns; cases ts) auto
  have row: "row_text (map2 (\<lambda>n t. (to_right g n, fn_width n, t)) ((n # ns) @ [l]) ((t # ts) @ [u])) =
      padded g n t @ '' '' @ row_text (map2 (\<lambda>n t. (to_right g n, fn_width n, t)) (ns @ [l]) (ts @ [u]))"
    by (simp add: cs padded_def)
  have len: "length (padded g n t) = nat (fn_width n)" using Cons.hyps(1) by (simp add: padded_def)
  show ?case
  proof (cases k)
    case 0
    then show ?thesis unfolding row using len by (simp add: row_width_def)
  next
    case (Suc j)
    have j: "j < length ns" using Suc Cons.prems by simp
    have pos: "0 \<le> row_width (take j ns)"
      using Cons.hyps(2) by (auto simp: row_width_def list_all2_conv_all_nth in_set_conv_nth intro!: sum_list_nonneg)
    have "nat (row_width (take k (n # ns))) = Suc (length (padded g n t) + nat (row_width (take j ns)))"
      using Suc pos Cons.hyps(1) by (simp add: row_width_def len nat_add_distrib)
    then show ?thesis unfolding row using Suc Cons.IH [OF j] by simp
  qed
qed simp


subsection \<open>Commands\<close>

lemma no_forest: "forest_prefix out = [] \<Longrightarrow> forest_helper g out = Val (out_buf out, 0)"
  by (simp add: forest_helper_def)

text \<open>
  The column of the command line prints only the first argument, whatever the others are, and prints
  it as the process wrote it, control bytes included: the vector is taken as one escaped string,
  which the reader no longer makes it.
\<close>

lemma args_not_escaped:
  assumes "p_cmdline p = Some (arg # args)" "\<not> bsd_c_option g" "\<not> bsd_e_option g" "forest_prefix out = []"
    "int (length arg) \<le> max_rightward out" "max_rightward out < OUTBUF_SIZE"
  shows "pr_args env g out p = Val (arg, int (length arg))"
proof -
  have "length arg \<le> nat (max_rightward out)" using assms(5) by linarith
  then show ?thesis
    using assms by (simp add: pr_args_def command_column_def no_forest split_buffer_def escaped_copy_def with_environ_def Let_def)
qed

end
