(* ===== verification/LibSort.thy ===== *)
theory LibSort
  imports Prelude "HOL-Library.Multiset"
begin

text \<open>
  \<open>qsort\<close> of the C library, which ps sorts its table with: the merge sort of glibc, with a comparison
  function that may run into undefined behaviour. The locale states what a comparison function must
  promise; what the sort promises in return is proved inside it, once.
\<close>

fun merge_by :: "('a \<Rightarrow> 'a \<Rightarrow> int outcome) \<Rightarrow> 'a list \<Rightarrow> 'a list \<Rightarrow> 'a list outcome" where
  "merge_by cmp [] ys = Val ys"
| "merge_by cmp (x # xs) [] = Val (x # xs)"
| "merge_by cmp (x # xs) (y # ys) =
     obind (cmp x y) (\<lambda>r.
       if r \<le> 0 then obind (merge_by cmp xs (y # ys)) (\<lambda>zs. Val (x # zs))
       else obind (merge_by cmp (x # xs) ys) (\<lambda>zs. Val (y # zs)))"

fun qsort :: "('a \<Rightarrow> 'a \<Rightarrow> int outcome) \<Rightarrow> 'a list \<Rightarrow> 'a list outcome" where
  "qsort cmp xs =
     (if length xs \<le> 1 then Val xs
      else let n1 = length xs div 2
           in obind (qsort cmp (take n1 xs)) (\<lambda>a. obind (qsort cmp (drop n1 xs)) (\<lambda>b. merge_by cmp a b)))"

declare qsort.simps [simp del]

text \<open>
  A comparison function that agrees with a total preorder on the values it is used for.
\<close>

locale comparison =
  fixes cmp :: "'a \<Rightarrow> 'a \<Rightarrow> int outcome"
    and le :: "'a \<Rightarrow> 'a \<Rightarrow> bool"
    and ok :: "'a \<Rightarrow> bool"
  assumes agrees: "ok x \<Longrightarrow> ok y \<Longrightarrow> \<exists>r. cmp x y = Val r \<and> (r \<le> 0 \<longleftrightarrow> le x y)"
    and total: "ok x \<Longrightarrow> ok y \<Longrightarrow> le x y \<or> le y x"
    and trans: "ok x \<Longrightarrow> ok y \<Longrightarrow> ok z \<Longrightarrow> le x y \<Longrightarrow> le y z \<Longrightarrow> le x z"
begin

lemma merge_sorted:
  assumes "\<forall>x\<in>set xs. ok x" "\<forall>y\<in>set ys. ok y" "sorted_wrt le xs" "sorted_wrt le ys"
  shows "\<exists>zs. merge_by cmp xs ys = Val zs \<and> mset zs = mset xs + mset ys \<and> sorted_wrt le zs"
  using assms
proof (induction xs ys rule: shuffles.induct)
  case (2 xs)
  then show ?case by (cases xs) auto
next
  case (3 x xs y ys)
  then obtain r where r: "cmp x y = Val r" "r \<le> 0 \<longleftrightarrow> le x y" using agrees [of x y] by auto
  show ?case
  proof (cases "r \<le> 0")
    case True
    with "3.IH"(1) "3.prems" obtain zs where zs: "merge_by cmp xs (y # ys) = Val zs"
        "mset zs = mset xs + mset (y # ys)" "sorted_wrt le zs" by auto
    have "\<forall>z\<in>set zs. z \<in> set xs \<or> z \<in> set (y # ys)" using mset_eq_setD [of zs "xs @ y # ys"] zs(2) by auto
    then have "\<forall>z\<in>set zs. le x z" using "3.prems" True r(2) trans [of x y] by fastforce
    then show ?thesis using zs r(1) True by simp
  next
    case False
    then have le: "le y x" using total [of x y] r(2) "3.prems" by auto
    from False "3.IH"(2) "3.prems" obtain zs where zs: "merge_by cmp (x # xs) ys = Val zs"
        "mset zs = mset (x # xs) + mset ys" "sorted_wrt le zs" by auto
    have "\<forall>z\<in>set zs. z \<in> set (x # xs) \<or> z \<in> set ys" using mset_eq_setD [of zs "(x # xs) @ ys"] zs(2) by auto
    then have "\<forall>z\<in>set zs. le y z" using "3.prems" le trans [of y x] by fastforce
    then show ?thesis using zs r(1) False by simp
  qed
qed auto

theorem qsort_sorts:
  assumes "\<forall>x\<in>set xs. ok x"
  shows "\<exists>ys. qsort cmp xs = Val ys \<and> mset ys = mset xs \<and> sorted_wrt le ys"
  using assms
proof (induction "length xs" arbitrary: xs rule: less_induct)
  case less
  show ?case
  proof (cases "length xs \<le> 1")
    case True
    then have "sorted_wrt le xs" by (cases xs) auto
    then show ?thesis using True by (simp add: qsort.simps)
  next
    case False
    let ?n = "length xs div 2"
    have n: "?n < length xs" "length xs - ?n < length xs" using False by linarith+
    have ok: "\<forall>x\<in>set (take ?n xs). ok x" "\<forall>x\<in>set (drop ?n xs). ok x"
      using less.prems by (auto dest: in_set_takeD in_set_dropD)
    obtain a where a: "qsort cmp (take ?n xs) = Val a" "mset a = mset (take ?n xs)" "sorted_wrt le a"
      using less.hyps [of "take ?n xs"] ok(1) n by auto
    obtain b where b: "qsort cmp (drop ?n xs) = Val b" "mset b = mset (drop ?n xs)" "sorted_wrt le b"
      using less.hyps [of "drop ?n xs"] ok(2) n by auto
    have "\<forall>x\<in>set a. ok x" "\<forall>y\<in>set b. ok y"
      using ok a(2) b(2) by (metis set_mset_mset)+
    then obtain zs where "merge_by cmp a b = Val zs" "mset zs = mset a + mset b" "sorted_wrt le zs"
      using merge_sorted a(3) b(3) by blast
    moreover have "mset (take ?n xs) + mset (drop ?n xs) = mset xs"
      by (metis append_take_drop_id mset_append)
    ultimately show ?thesis using False a b by (subst qsort.simps) (simp add: Let_def)
  qed
qed

end

end
