(* ===== verification/PsCompare.thy ===== *)
theory PsCompare
  imports PsOutput LibSort
begin

text \<open>
  The comparison functions of \<open>src/modules/ps/src/output.c\<close> (\<open>sr_*\<close>, made by five macros) and the
  comparison of two processes by the sort keys (\<open>compare_two_procs\<close> of \<open>display.c\<close>). For keys whose
  values are in range it is a total preorder, the lexicographic order of the values, each turned around
  where its key is reversed; so \<open>qsort\<close> sorts by it.
\<close>

subsection \<open>The functions\<close>

text \<open>
  One constructor for each macro. \<open>CMP_SMALL\<close> converts both values to \<open>int\<close> and subtracts. A string that
  was not read is a null pointer for \<open>strcmp\<close>.
\<close>

datatype sorter =
    CMP_INT "proc_t \<Rightarrow> int"
  | CMP_SMALL "proc_t \<Rightarrow> int"
  | CMP_STR "proc_t \<Rightarrow> string option"
  | SR_cgroup
  | SR_nop

definition int_of_long :: "int \<Rightarrow> int" where
  "int_of_long i = sint (word_of_int i :: u32)"

definition sr_cgroup :: "proc_t \<Rightarrow> proc_t \<Rightarrow> int outcome" where
  "sr_cgroup p q =
     (case p_cgroup p of
        None \<Rightarrow> Undef NullDeref
      | Some [] \<Rightarrow> Val 0
      | Some (a # _) \<Rightarrow> (case p_cgroup q of None \<Rightarrow> Undef NullDeref | Some [] \<Rightarrow> Val 0 | Some (b # _) \<Rightarrow> Val (strcmp a b)))"

fun run_sorter :: "sorter \<Rightarrow> proc_t \<Rightarrow> proc_t \<Rightarrow> int outcome" where
  "run_sorter (CMP_INT f) p q = Val (if f p < f q then -1 else if f q < f p then 1 else 0)"
| "run_sorter (CMP_SMALL f) p q =
     (let d = int_of_long (f p) - int_of_long (f q) in if - (2 ^ 31) \<le> d \<and> d < 2 ^ 31 then Val d else Undef IntOverflow)"
| "run_sorter (CMP_STR f) p q =
     (case (f p, f q) of (Some a, Some b) \<Rightarrow> Val (strcmp a b) | _ \<Rightarrow> Undef NullDeref)"
| "run_sorter SR_cgroup p q = sr_cgroup p q"
| "run_sorter SR_nop p q = Val 0"

text \<open>The function of each name in the table of specifiers; those no specifier names are left out.\<close>

definition sr_table :: "out_env \<Rightarrow> ps_state \<Rightarrow> (string \<times> sorter) list" where
  "sr_table env g =
     [(''nop'', SR_nop), (''cgroup'', SR_cgroup),
      (''rtprio'', CMP_INT (uint \<circ> p_rtprio)), (''sched'', CMP_SMALL (uint \<circ> p_sched)), (''cutime'', CMP_INT (uint \<circ> p_cutime)),
      (''priority'', CMP_SMALL p_priority), (''nlwp'', CMP_SMALL p_nlwp), (''nice'', CMP_SMALL p_nice),
      (''rss'', CMP_INT p_rss), (''alarm'', CMP_INT p_alarm), (''size'', CMP_INT p_size), (''resident'', CMP_INT p_resident),
      (''share'', CMP_INT p_share), (''trs'', CMP_INT p_trs), (''lrs'', CMP_INT p_lrs), (''drs'', CMP_INT p_drs),
      (''dt'', CMP_INT p_dt), (''vm_size'', CMP_INT (uint \<circ> p_vm_size)), (''vm_lock'', CMP_INT (uint \<circ> p_vm_lock)),
      (''vm_rss'', CMP_INT (uint \<circ> p_vm_rss)), (''vm_data'', CMP_INT (uint \<circ> p_vm_data)),
      (''vm_stack'', CMP_INT (uint \<circ> p_vm_stack)), (''vm_exe'', CMP_INT (uint \<circ> p_vm_exe)),
      (''vm_lib'', CMP_INT (uint \<circ> p_vm_lib)), (''vsize'', CMP_INT (uint \<circ> p_vsize)),
      (''rss_rlim'', CMP_INT (uint \<circ> p_rss_rlim)), (''flags'', CMP_SMALL (uint \<circ> p_flags)),
      (''min_flt'', CMP_INT (uint \<circ> p_min_flt)), (''maj_flt'', CMP_INT (uint \<circ> p_maj_flt)),
      (''cmin_flt'', CMP_INT (uint \<circ> p_cmin_flt)), (''cmaj_flt'', CMP_INT (uint \<circ> p_cmaj_flt)),
      (''utime'', CMP_INT (uint \<circ> p_utime)), (''stime'', CMP_INT (uint \<circ> p_stime)),
      (''start_code'', CMP_INT (uint \<circ> p_start_code)), (''end_code'', CMP_INT (uint \<circ> p_end_code)),
      (''start_stack'', CMP_INT (uint \<circ> p_start_stack)), (''kstk_esp'', CMP_INT (uint \<circ> p_kstk_esp)),
      (''kstk_eip'', CMP_INT (uint \<circ> p_kstk_eip)), (''start_time'', CMP_INT (uint \<circ> p_start_time)),
      (''wchan'', CMP_INT (uint \<circ> p_wchan)),
      (''ruser'', CMP_STR (Some \<circ> p_ruser)), (''euser'', CMP_STR (Some \<circ> p_euser)), (''suser'', CMP_STR (Some \<circ> p_suser)),
      (''fuser'', CMP_STR (Some \<circ> p_fuser)), (''rgroup'', CMP_STR (Some \<circ> p_rgroup)), (''egroup'', CMP_STR (Some \<circ> p_egroup)),
      (''sgroup'', CMP_STR (Some \<circ> p_sgroup)), (''fgroup'', CMP_STR (Some \<circ> p_fgroup)), (''cmd'', CMP_STR (Some \<circ> p_cmd)),
      (''ruid'', CMP_INT p_ruid), (''rgid'', CMP_INT p_rgid), (''euid'', CMP_INT p_euid), (''egid'', CMP_INT p_egid),
      (''suid'', CMP_INT p_suid), (''sgid'', CMP_INT p_sgid), (''fuid'', CMP_INT p_fuid), (''fgid'', CMP_INT p_fgid),
      (''procs'', CMP_SMALL p_tgid), (''tasks'', CMP_SMALL p_tid), (''ppid'', CMP_SMALL p_ppid), (''pgrp'', CMP_SMALL p_pgrp),
      (''session'', CMP_SMALL p_session), (''tty'', CMP_INT p_tty), (''tpgid'', CMP_SMALL p_tpgid),
      (''pcpu'', CMP_SMALL (uint \<circ> p_pcpu)), (''state'', CMP_SMALL (schar \<circ> p_state)),
      (''time'', CMP_INT (uint \<circ> cook_time env)), (''etime'', CMP_INT (uint \<circ> cook_etime env g)),
      (''ipcns'', CMP_INT (\<lambda>p. p_ns p ! 0)), (''mntns'', CMP_INT (\<lambda>p. p_ns p ! 1)), (''netns'', CMP_INT (\<lambda>p. p_ns p ! 2)),
      (''pidns'', CMP_INT (\<lambda>p. p_ns p ! 3)), (''userns'', CMP_INT (\<lambda>p. p_ns p ! 4)), (''utsns'', CMP_INT (\<lambda>p. p_ns p ! 5)),
      (''lxcname'', CMP_STR p_lxcname), (''cgname'', CMP_STR p_cgname),
      (''swapable'', CMP_INT (\<lambda>p. uint (p_vm_data p + p_vm_stack p)))]"

definition call_sr :: "out_env \<Rightarrow> ps_state \<Rightarrow> string \<Rightarrow> proc_t \<Rightarrow> proc_t \<Rightarrow> int outcome" where
  "call_sr env g name p q = (case map_of (sr_table env g) name of None \<Rightarrow> Undef NullDeref | Some s \<Rightarrow> run_sorter s p q)"

fun compare_two_procs :: "out_env \<Rightarrow> ps_state \<Rightarrow> sort_node list \<Rightarrow> proc_t \<Rightarrow> proc_t \<Rightarrow> int outcome" where
  "compare_two_procs env g [] p q = Val 0"
| "compare_two_procs env g (k # ks) p q =
     obind (call_sr env g (sn_sr k) p q) (\<lambda>result.
       if result \<noteq> 0 then (if sn_reverse k then (if result = - (2 ^ 31) then Undef IntOverflow else Val (- result)) else Val result)
       else compare_two_procs env g ks p q)"

text \<open>Every comparison function named in the table of specifiers is there.\<close>

lemma every_key_compares: "\<forall>f\<in>set format_array. \<exists>s. map_of (sr_table env g) (fsr f) = Some s"
proof -
  have names: "list_all (\<lambda>f. fsr f \<in> set (map fst (sr_table env g))) format_array"
    unfolding sr_table_def by code_simp
  show ?thesis using names by (auto simp: list_all_iff) (metis map_of_eq_None_iff not_None_eq image_eqI)
qed

subsection \<open>The order\<close>

text \<open>What a key compares: a number, or a text by its bytes.\<close>

datatype sort_value = Number int | Text string

instantiation sort_value :: linorder
begin

fun less_eq_sort_value :: "sort_value \<Rightarrow> sort_value \<Rightarrow> bool" where
  "less_eq_sort_value (Number a) (Number b) = (a \<le> b)"
| "less_eq_sort_value (Number a) (Text t) = True"
| "less_eq_sort_value (Text s) (Number b) = False"
| "less_eq_sort_value (Text s) (Text t) = (s \<le> t)"

definition less_sort_value :: "sort_value \<Rightarrow> sort_value \<Rightarrow> bool" where
  "less_sort_value a b \<longleftrightarrow> a \<le> b \<and> \<not> b \<le> a"

instance
proof
  fix x y z :: sort_value
  show "x < y \<longleftrightarrow> x \<le> y \<and> \<not> y \<le> x" by (rule less_sort_value_def)
  show "x \<le> x" by (cases x) auto
  show "x \<le> y \<Longrightarrow> y \<le> z \<Longrightarrow> x \<le> z" by (cases x; cases y; cases z) auto
  show "x \<le> y \<Longrightarrow> y \<le> x \<Longrightarrow> x = y" by (cases x; cases y) auto
  show "x \<le> y \<or> y \<le> x" by (cases x; cases y) auto
qed

end

lemma sort_value_less [simp]:
  "Number a < Number b \<longleftrightarrow> a < b" "Text s < Text t \<longleftrightarrow> s < t"
  by (auto simp: less_sort_value_def)

fun sorter_value :: "sorter \<Rightarrow> proc_t \<Rightarrow> sort_value" where
  "sorter_value (CMP_INT f) p = Number (f p)"
| "sorter_value (CMP_SMALL f) p = Number (int_of_long (f p))"
| "sorter_value (CMP_STR f) p = Text (the (f p))"
| "sorter_value _ p = Number 0"

text \<open>
  The values the functions compare as they should: small numbers whose difference fits, strings that
  were read. \<open>sr_cgroup\<close> takes a missing vector for equal to every other and is no order.
\<close>

fun sorter_ok :: "sorter \<Rightarrow> proc_t \<Rightarrow> bool" where
  "sorter_ok (CMP_SMALL f) p = (- (2 ^ 30) \<le> f p \<and> f p < 2 ^ 30)"
| "sorter_ok (CMP_STR f) p = (case f p of None \<Rightarrow> False | Some s \<Rightarrow> is_cstring s)"
| "sorter_ok SR_cgroup p = False"
| "sorter_ok _ p = True"

lemma int_of_long_small: "- (2 ^ 31) \<le> i \<Longrightarrow> i < 2 ^ 31 \<Longrightarrow> int_of_long i = i"
  by (simp add: int_of_long_def signed_of_int signed_take_bit_int_eq_self)

lemma strcmp_bounds: "- 256 < strcmp s t" "strcmp s t < 256"
proof -
  have byte: "int (byte c) < 256" for c using byte_less [of c] by simp
  have near: "int (byte c) < int (byte d) + 256" for c d using byte [of c] by linarith
  show "- 256 < strcmp s t" "strcmp s t < 256"
    by (induction s t rule: strcmp.induct) (auto simp: algebra_simps byte near)
qed

lemma run_sorter_value:
  assumes "sorter_ok s p" "sorter_ok s q"
  shows "\<exists>r. run_sorter s p q = Val r \<and> (r < 0 \<longleftrightarrow> sorter_value s p < sorter_value s q) \<and>
    (r = 0 \<longleftrightarrow> sorter_value s p = sorter_value s q) \<and> - (2 ^ 31) < r"
proof (cases s)
  case (CMP_SMALL f)
  then show ?thesis using assms by (auto simp: Let_def int_of_long_small)
next
  case (CMP_STR f)
  then obtain a b where "f p = Some a" "f q = Some b" "is_cstring a" "is_cstring b"
    using assms by (auto split: option.splits)
  then show ?thesis using CMP_STR strcmp_bounds(1) [of a b] by (simp add: strcmp_less strcmp_0)
qed (use assms in auto)

definition key_value :: "out_env \<Rightarrow> ps_state \<Rightarrow> sort_node \<Rightarrow> proc_t \<Rightarrow> sort_value" where
  "key_value env g k = sorter_value (the (map_of (sr_table env g) (sn_sr k)))"

fun sort_le :: "out_env \<Rightarrow> ps_state \<Rightarrow> sort_node list \<Rightarrow> proc_t \<Rightarrow> proc_t \<Rightarrow> bool" where
  "sort_le env g [] p q = True"
| "sort_le env g (k # ks) p q =
     (let a = key_value env g k p; b = key_value env g k q
      in if a = b then sort_le env g ks p q else (a < b) \<noteq> sn_reverse k)"

definition keys_ok :: "out_env \<Rightarrow> ps_state \<Rightarrow> sort_node list \<Rightarrow> proc_t \<Rightarrow> bool" where
  "keys_ok env g keys p \<longleftrightarrow> list_all (\<lambda>k. \<exists>s. map_of (sr_table env g) (sn_sr k) = Some s \<and> sorter_ok s p) keys"

lemma compare_agrees:
  "keys_ok env g keys p \<Longrightarrow> keys_ok env g keys q \<Longrightarrow>
   \<exists>r. compare_two_procs env g keys p q = Val r \<and> (r \<le> 0 \<longleftrightarrow> sort_le env g keys p q)"
proof (induction keys)
  case (Cons k ks)
  then obtain s where s: "map_of (sr_table env g) (sn_sr k) = Some s" "sorter_ok s p" "sorter_ok s q"
    by (auto simp: keys_ok_def)
  obtain r where r: "run_sorter s p q = Val r" "r < 0 \<longleftrightarrow> sorter_value s p < sorter_value s q"
      "r = 0 \<longleftrightarrow> sorter_value s p = sorter_value s q" "- (2 ^ 31) < r"
    using run_sorter_value [OF s(2,3)] by blast
  have rest: "keys_ok env g ks p" "keys_ok env g ks q" using Cons.prems by (auto simp: keys_ok_def)
  show ?case
  proof (cases "r = 0")
    case True
    then show ?thesis using Cons.IH [OF rest] s(1) r by (simp add: call_sr_def key_value_def Let_def)
  next
    case False
    then show ?thesis using s(1) r by (auto simp: call_sr_def key_value_def Let_def)
  qed
qed simp

lemma sort_le_total: "sort_le env g keys p q \<or> sort_le env g keys q p"
  by (induction keys) (auto simp: Let_def)

lemma sort_le_trans: "sort_le env g keys p q \<Longrightarrow> sort_le env g keys q r \<Longrightarrow> sort_le env g keys p r"
  by (induction keys) (auto simp: Let_def split: if_splits)

interpretation procs: comparison "compare_two_procs env g keys" "sort_le env g keys" "keys_ok env g keys" for env g keys
  by unfold_locales (use compare_agrees sort_le_total sort_le_trans in blast)+

lemma sort_le_first: "sort_le env g (k # ks) p q \<Longrightarrow>
    (if sn_reverse k then key_value env g k q \<le> key_value env g k p else key_value env g k p \<le> key_value env g k q)"
  by (auto simp: Let_def split: if_splits)

end
