(* ===== verification/PsParser.thy ===== *)
theory PsParser
  imports PsSelect PsSortFormat PsGlobal
begin

text \<open>
  \<open>src/modules/ps/src/parser.c\<close>: the command line of ps in its three syntaxes, the list arguments, the
  dimensions, and \<open>arg_parse\<close> with its second attempt as BSD options.

  \<open>flagptr\<close> is an argument: the text from the character after the option letter. \<open>thisarg\<close> and the
  vector of words are in the state. Ending the process (help, version, the failure of both attempts)
  is \<open>Undef Exits\<close>.
\<close>

subsection \<open>Arguments of options\<close>

definition next_arg :: "ps_state \<Rightarrow> string option \<times> ps_state" where
  "next_arg g =
     (if length (ps_argv g) < thisarg g + 2 then (None, g)
      else if ps_argv g ! (thisarg g + 1) = [] then (None, g)
      else (Some (ps_argv g ! (thisarg g + 1)), g \<lparr> thisarg := thisarg g + 1 \<rparr>))"

definition get_opt_arg :: "string \<Rightarrow> ps_state \<Rightarrow> string option \<times> ps_state" where
  "get_opt_arg rest g = (if rest \<noteq> [] then (Some rest, g) else next_arg g)"

definition grab_gnu_arg :: "string \<Rightarrow> ps_state \<Rightarrow> string option \<times> ps_state" where
  "grab_gnu_arg flagptr g =
     (case flagptr of
        [] \<Rightarrow> next_arg g
      | c # rest \<Rightarrow> if (c = CHR ''='' \<or> c = CHR '':'') \<and> rest \<noteq> [] then (Some rest, g) else (None, g))"

subsection \<open>Lists\<close>

type_synonym item_parser = "string \<Rightarrow> string + sel_union"

definition parse_pid :: item_parser where
  "parse_pid str =
     (case strtoul 0 str of (num, endp) \<Rightarrow>
        if endp \<noteq> [] then Inl ''process ID list syntax error''
        else if num < 1 then Inl ''process ID out of range''
        else if 0x7fffffff < num then Inl ''process ID out of range''
        else Inr (Sel_Num (int num)))"

text \<open>\<open>parse_uid\<close> and \<open>parse_gid\<close>: a number, or a name in the file; \<open>-1\<close> for an unknown name under \<open>-N\<close>.\<close>

definition parse_id :: "(string \<Rightarrow> int option) \<Rightarrow> string \<Rightarrow> string \<Rightarrow> bool \<Rightarrow> item_parser" where
  "parse_id lookup no_name no_range negated str =
     (case strtoul 0 str of (num, endp) \<Rightarrow>
        let r = (if endp = [] then Inr num
                 else case lookup str of
                        None \<Rightarrow> if negated then Inr (2 ^ 64 - 1) else Inl no_name
                      | Some i \<Rightarrow> Inr (nat i))
        in case r of
             Inl m \<Rightarrow> Inl m
           | Inr num \<Rightarrow> if \<not> negated \<and> 0xfffffffe < num then Inl no_range else Inr (Sel_Num (int (num mod 2 ^ 32))))"

definition parse_uid :: "ps_env \<Rightarrow> ps_state \<Rightarrow> item_parser" where
  "parse_uid env g = parse_id (getpwnam env) ''user name does not exist'' ''user ID out of range'' (negate_selection g)"

definition parse_gid :: "ps_env \<Rightarrow> ps_state \<Rightarrow> item_parser" where
  "parse_gid env g = parse_id (getgrnam env) ''group name does not exist'' ''group ID out of range'' (negate_selection g)"

definition parse_cmd :: item_parser where
  "parse_cmd str = Inr (Sel_Cmd (take 15 str))"

definition tty_paths :: "string \<Rightarrow> string list" where
  "tty_paths str =
     map (take 4095) [''/dev/pts/'' @ str, ''/dev/'' @ str, ''/dev/tty'' @ str, ''/dev/pty'' @ str, ''/dev/'' @ str @ ''nsole'']"

definition no_tty_found :: "string + sel_union" where
  "no_tty_found = Inl ''TTY could not be found''"

definition found_tty :: "bool \<times> int \<Rightarrow> string + sel_union" where
  "found_tty st = (if fst st then Inr (Sel_Num (snd st)) else Inl ''list member was not a TTY'')"

definition parse_tty :: "ps_env \<Rightarrow> item_parser" where
  "parse_tty env str =
     (if str \<noteq> [] \<and> hd str = CHR ''/'' then
        (case stat_file env str of Some st \<Rightarrow> found_tty st | None \<Rightarrow> no_tty_found)
      else case List.map_filter (stat_file env) (tty_paths str) of
             st # _ \<Rightarrow> found_tty st
           | [] \<Rightarrow>
               if str = ''-'' \<or> str = ''?'' \<or> length str = 1 \<and> stat_file env str \<noteq> None then Inr (Sel_Num 0)
               else no_tty_found)"

text \<open>
  \<open>parse_list\<close>: the check of the separators, then the items in order; the array is filled from its
  end. The result is the array of the new node.
\<close>

definition is_list_sep :: "char \<Rightarrow> bool" where
  "is_list_sep c \<longleftrightarrow> c = CHR '' '' \<or> c = CHR '','' \<or> c = TAB"

fun parse_items :: "item_parser \<Rightarrow> string list \<Rightarrow> sel_union list \<Rightarrow> string + sel_union list" where
  "parse_items f [] u = Inr u"
| "parse_items f (x # xs) u = (case f x of Inl m \<Rightarrow> Inl m | Inr v \<Rightarrow> parse_items f xs (v # u))"

definition parse_list :: "string \<Rightarrow> item_parser \<Rightarrow> string + sel_union list" where
  "parse_list arg f =
     (case count_items is_list_sep True arg of
        Some (n, False) \<Rightarrow> parse_items f (split_at is_list_sep arg) []
      | _ \<Rightarrow> Inl ''improper list'')"

definition push_selection :: "sel_type \<Rightarrow> sel_union list \<Rightarrow> ps_state \<Rightarrow> ps_state" where
  "push_selection t u g = g \<lparr> selection_list := \<lparr> sel_u = u, typecode = t \<rparr> # selection_list g \<rparr>"

text \<open>An option with a list: its argument, the list, the type of the new node.\<close>

definition list_option :: "string \<Rightarrow> item_parser \<Rightarrow> sel_type \<Rightarrow> string option \<times> ps_state \<Rightarrow> message \<times> ps_state" where
  "list_option missing f t ag =
     (case ag of (arg, g) \<Rightarrow>
        case arg of
          None \<Rightarrow> (Some missing, g)
        | Some arg \<Rightarrow> (case parse_list arg f of Inl m \<Rightarrow> (Some m, g) | Inr u \<Rightarrow> (None, push_selection t u g)))"

definition sf_option :: "string \<Rightarrow> sf_source \<Rightarrow> string option \<times> ps_state \<Rightarrow> message \<times> ps_state" where
  "sf_option missing source ag =
     (case ag of (arg, g) \<Rightarrow>
        case arg of None \<Rightarrow> (Some missing, g) | Some arg \<Rightarrow> (None, snd (defer_sf_option arg source g)))"

definition exclusive :: "string \<Rightarrow> ps_state \<Rightarrow> message" where
  "exclusive x g = (if length (ps_argv g) \<noteq> 2 \<or> ps_argv g ! 1 \<noteq> x then Some (''the option is exclusive: '' @ x) else None)"

text \<open>An option that prints and ends the process, unless it is not the only one.\<close>

definition exit_option :: "string \<Rightarrow> ps_state \<Rightarrow> (message \<times> ps_state) outcome" where
  "exit_option x g = (case exclusive x g of None \<Rightarrow> Undef Exits | m \<Rightarrow> Val (m, g))"

subsection \<open>SysV options\<close>

text \<open>The options without an argument.\<close>

definition sysv_flag :: "char \<Rightarrow> ps_state \<Rightarrow> ps_state option" where
  "sysv_flag c g =
     (if c = CHR ''A'' then Some (g \<lparr> all_processes := True \<rparr>)
      else if c = CHR ''F'' then
        Some (g \<lparr> format_modifiers := format_modifiers g OR FM_F, format_flags := format_flags g OR FF_Uf, unix_f_option := True \<rparr>)
      else if c = CHR ''H'' then Some (g \<lparr> forest_type := CHR ''u'' \<rparr>)
      else if c = CHR ''L'' then Some (g \<lparr> thread_flags := thread_flags g OR TF_U_L \<rparr>)
      else if c = CHR ''M'' then Some (g \<lparr> format_modifiers := format_modifiers g OR FM_M \<rparr>)
      else if c = CHR ''N'' then Some (g \<lparr> negate_selection := True \<rparr>)
      else if c = CHR ''P'' then Some (g \<lparr> format_modifiers := format_modifiers g OR FM_P \<rparr>)
      else if c = CHR ''T'' then Some (g \<lparr> thread_flags := thread_flags g OR TF_U_T \<rparr>)
      else if c = CHR ''Z'' then Some (g \<lparr> format_modifiers := format_modifiers g OR FM_M \<rparr>)
      else if c = CHR ''a'' then Some (g \<lparr> simple_select := simple_select g OR SS_U_a \<rparr>)
      else if c = CHR ''c'' then Some (g \<lparr> format_modifiers := format_modifiers g OR FM_c \<rparr>)
      else if c = CHR ''d'' then Some (g \<lparr> simple_select := simple_select g OR SS_U_d \<rparr>)
      else if c = CHR ''e'' then Some (g \<lparr> all_processes := True \<rparr>)
      else if c = CHR ''f'' then Some (g \<lparr> format_flags := format_flags g OR FF_Uf, unix_f_option := True \<rparr>)
      else if c = CHR ''j'' then
        Some (if sysv_j_format g \<noteq> None then g \<lparr> format_flags := format_flags g OR FF_Uj \<rparr>
              else g \<lparr> format_modifiers := format_modifiers g OR FM_j \<rparr>)
      else if c = CHR ''l'' then Some (g \<lparr> format_flags := format_flags g OR FF_Ul \<rparr>)
      else if c = CHR ''m'' then Some (g \<lparr> thread_flags := thread_flags g OR TF_U_m \<rparr>)
      else if c = CHR ''w'' then Some (g \<lparr> w_count := w_count g + 1 \<rparr>)
      else if c = CHR ''x'' \<and> has (personality g) PER_SVR4_x then Some (g \<lparr> format_modifiers := format_modifiers g OR FM_y \<rparr>)
      else if c = CHR ''x'' \<and> has (personality g) PER_HPUX_x then Some (g \<lparr> w_count := w_count g + 2, unix_f_option := True \<rparr>)
      else if c = CHR ''y'' then Some (g \<lparr> format_modifiers := format_modifiers g OR FM_y \<rparr>)
      else None)"

text \<open>\<open>-g\<close>: session leaders, and if that fails effective groups; then the message of its own.\<close>

definition session_or_group :: "ps_env \<Rightarrow> string option \<times> ps_state \<Rightarrow> message \<times> ps_state" where
  "session_or_group env ag =
     (case list_option ''list of session leaders OR effective group names must follow -g'' parse_pid SEL_SESS ag of
        (None, g) \<Rightarrow> (None, g)
      | (Some m, g) \<Rightarrow>
          if fst ag = None then (Some m, g)
          else (case list_option m (parse_gid env g) SEL_EGID (fst ag, g) of
                  (None, g) \<Rightarrow> (None, g)
                | (Some m, g) \<Rightarrow> (Some ''list of session leaders OR effective group IDs was invalid'', g)))"

text \<open>The options that end the word: those with an argument, and the errors.\<close>

definition sysv_end :: "ps_env \<Rightarrow> char \<Rightarrow> string \<Rightarrow> ps_state \<Rightarrow> (message \<times> ps_state) outcome" where
  "sysv_end env c rest g =
     (let arg = get_opt_arg rest g
      in if c = CHR ''C'' then Val (list_option ''list of command names must follow -C'' parse_cmd SEL_COMM arg)
         else if c = CHR ''G'' then Val (list_option ''list of real groups must follow -G'' (parse_gid env g) SEL_RGID arg)
         else if c = CHR ''O'' then Val (sf_option ''format or sort specification must follow -O'' SF_U_O arg)
         else if c = CHR ''U'' then Val (list_option ''list of real users must follow -U'' (parse_uid env g) SEL_RUID arg)
         else if c = CHR ''V'' then exit_option ''-V'' g
         else if c = CHR ''g'' then Val (session_or_group env arg)
         else if c = CHR ''o'' then Val (sf_option ''format specification must follow -o'' SF_U_o arg)
         else if c = CHR ''p'' then Val (list_option ''list of process IDs must follow -p'' parse_pid SEL_PID arg)
         else if c = CHR ''q'' then Val (list_option ''List of process IDs must follow -q.'' parse_pid SEL_PID_QUICK arg)
         else if c = CHR ''s'' then Val (list_option ''list of session IDs must follow -s'' parse_pid SEL_SESS arg)
         else if c = CHR ''t'' then Val (list_option ''list of terminals (pty, tty...) must follow -t'' (parse_tty env) SEL_TTY arg)
         else if c = CHR ''u'' then Val (list_option ''list of users must follow -u'' (parse_uid env g) SEL_EUID arg)
         else if c = CHR ''x'' then Val (Some ''must set personality to get -x option'', g)
         else if c = CHR ''-'' then Val (Some (''embedded '' @ [CHR 0x27] @ ''-'' @ [CHR 0x27] @ '' among SysV options makes no sense''), g)
         else Val (Some ''unsupported SysV option'', g))"

fun sysv_word :: "ps_env \<Rightarrow> string \<Rightarrow> ps_state \<Rightarrow> (message \<times> ps_state) outcome" where
  "sysv_word env [] g = Val (None, g)"
| "sysv_word env (c # rest) g =
     (case sysv_flag c g of Some g \<Rightarrow> sysv_word env rest g | None \<Rightarrow> sysv_end env c rest g)"

definition parse_sysv_option :: "ps_env \<Rightarrow> ps_state \<Rightarrow> (message \<times> ps_state) outcome" where
  "parse_sysv_option env g = sysv_word env (tl (ps_argv g ! thisarg g)) g"

subsection \<open>BSD options\<close>

definition own_tty :: "ps_state \<Rightarrow> ps_state" where
  "own_tty g = push_selection SEL_TTY [Sel_Num (cached_tty g)] g"

definition bsd_flag :: "char \<Rightarrow> ps_state \<Rightarrow> ps_state option" where
  "bsd_flag c g =
     (if c = CHR ''H'' then Some (g \<lparr> thread_flags := thread_flags g OR TF_B_H \<rparr>)
      else if c = CHR ''M'' then Some (g \<lparr> thread_flags := thread_flags g OR TF_B_m \<rparr>)
      else if c = CHR ''S'' then Some (g \<lparr> include_dead_children := True \<rparr>)
      else if c = CHR ''T'' then Some (own_tty g)
      else if c = CHR ''X'' then Some (g \<lparr> format_flags := format_flags g OR FF_LX \<rparr>)
      else if c = CHR ''Z'' then Some (g \<lparr> format_modifiers := format_modifiers g OR FM_M \<rparr>)
      else if c = CHR ''a'' then Some (g \<lparr> simple_select := simple_select g OR SS_B_a \<rparr>)
      else if c = CHR ''c'' then Some (g \<lparr> bsd_c_option := True \<rparr>)
      else if c = CHR ''e'' then Some (g \<lparr> bsd_e_option := True \<rparr>)
      else if c = CHR ''f'' then Some (g \<lparr> forest_type := CHR ''b'' \<rparr>)
      else if c = CHR ''g'' then Some (g \<lparr> simple_select := simple_select g OR SS_B_g \<rparr>)
      else if c = CHR ''h'' \<and> header_type g = HEAD_SINGLE then
        Some (g \<lparr> header_type := (if has (personality g) PER_BSD_h then HEAD_MULTI else HEAD_NONE) \<rparr>)
      else if c = CHR ''j'' then Some (g \<lparr> format_flags := format_flags g OR FF_Bj \<rparr>)
      else if c = CHR ''l'' then Some (g \<lparr> format_flags := format_flags g OR FF_Bl \<rparr>)
      else if c = CHR ''m'' then
        Some (if has (personality g) PER_OLD_m then g \<lparr> format_flags := format_flags g OR FF_Lm \<rparr>
              else if has (personality g) PER_BSD_m then snd (defer_sf_option ''pmem'' SF_B_m g)
              else g \<lparr> thread_flags := thread_flags g OR TF_B_m \<rparr>)
      else if c = CHR ''n'' then Some (g \<lparr> wchan_is_number := True, user_is_number := True \<rparr>)
      else if c = CHR ''r'' then Some (g \<lparr> running_only := True \<rparr>)
      else if c = CHR ''s'' then Some (g \<lparr> format_flags := format_flags g OR FF_Bs \<rparr>)
      else if c = CHR ''u'' then Some (g \<lparr> format_flags := format_flags g OR FF_Bu \<rparr>)
      else if c = CHR ''v'' then Some (g \<lparr> format_flags := format_flags g OR FF_Bv \<rparr>)
      else if c = CHR ''w'' then Some (g \<lparr> w_count := w_count g + 1 \<rparr>)
      else if c = CHR ''x'' then Some (g \<lparr> simple_select := simple_select g OR SS_B_x \<rparr>)
      else None)"

definition one_heading :: message where
  "one_heading = Some ''only one heading option may be specified''"

definition bsd_end :: "ps_env \<Rightarrow> char \<Rightarrow> string \<Rightarrow> ps_state \<Rightarrow> (message \<times> ps_state) outcome" where
  "bsd_end env c rest g =
     (let arg = get_opt_arg rest g
      in if c_isdigit c then Val (list_option [] parse_pid SEL_PID (Some (c # rest), g))
         else if c = CHR ''L'' then exit_option ''L'' g
         else if c = CHR ''O'' then Val (sf_option ''format or sort specification must follow O'' SF_B_O arg)
         else if c = CHR ''U'' then Val (list_option ''list of users must follow U'' (parse_uid env g) SEL_EUID arg)
         else if c = CHR ''V'' then exit_option ''V'' g
         else if c = CHR ''W'' then Val (Some ''obsolete W option not supported (you have a /dev/drum?)'', g)
         else if c = CHR ''h'' then Val (one_heading, g)
         else if c = CHR ''k'' then
           Val (sf_option (''long sort specification must follow '' @ [CHR 0x27] @ ''k'' @ [CHR 0x27]) SF_G_sort arg)
         else if c = CHR ''o'' then Val (sf_option ''format specification must follow o'' SF_B_o arg)
         else if c = CHR ''p'' then Val (list_option ''list of process IDs must follow p'' parse_pid SEL_PID arg)
         else if c = CHR ''q'' then Val (list_option ''List of process IDs must follow q.'' parse_pid SEL_PID_QUICK arg)
         else if c = CHR ''t'' then
           Val (case arg of (None, g) \<Rightarrow> (None, own_tty g) | (Some _, _) \<Rightarrow> list_option [] (parse_tty env) SEL_TTY arg)
         else if c = CHR ''-'' then Val (Some (''embedded '' @ [CHR 0x27] @ ''-'' @ [CHR 0x27] @ '' among BSD options makes no sense''), g)
         else Val (Some ''unsupported option (BSD syntax)'', g))"

fun bsd_word :: "ps_env \<Rightarrow> string \<Rightarrow> ps_state \<Rightarrow> (message \<times> ps_state) outcome" where
  "bsd_word env [] g = Val (None, g)"
| "bsd_word env (c # rest) g =
     (case bsd_flag c g of Some g \<Rightarrow> bsd_word env rest g | None \<Rightarrow> bsd_end env c rest g)"

definition parse_bsd_option :: "ps_env \<Rightarrow> ps_state \<Rightarrow> (message \<times> ps_state) outcome" where
  "parse_bsd_option env g =
     (let word = ps_argv g ! thisarg g; forced = has (personality g) PER_FORCE_BSD
      in if word \<noteq> [] \<and> hd word = CHR ''-'' then
           (if force_bsd g then bsd_word env (tl word) g else Val (Some ''cannot happen - problem #1'', g))
         else if forced \<and> \<not> force_bsd g then Val (Some ''cannot happen - problem #2'', g)
         else if \<not> forced \<and> force_bsd g then Val (Some ''second chance parse failed, not BSD or SysV'', g)
         else bsd_word env word g)"

subsection \<open>GNU long options\<close>

text \<open>The labels the table jumps to; labels on the same code are one constructor.\<close>

datatype gnu_case =
  Gnu_Group | Gnu_User | Gnu_cols | Gnu_context | Gnu_cumulative | Gnu_deselect | Gnu_forest | Gnu_format | Gnu_group |
  Gnu_headers | Gnu_info | Gnu_rows | Gnu_noheaders | Gnu_pid | Gnu_ppid | Gnu_quick_pid | Gnu_sid | Gnu_sort | Gnu_tty |
  Gnu_user | Gnu_version

definition gnu_table :: "(string \<times> gnu_case) list" where
  "gnu_table =
     [(''Group'', Gnu_Group), (''User'', Gnu_User), (''cols'', Gnu_cols), (''columns'', Gnu_cols), (''context'', Gnu_context),
      (''cumulative'', Gnu_cumulative), (''deselect'', Gnu_deselect), (''forest'', Gnu_forest), (''format'', Gnu_format),
      (''group'', Gnu_group), (''header'', Gnu_headers), (''headers'', Gnu_headers), (''heading'', Gnu_headers),
      (''headings'', Gnu_headers), (''info'', Gnu_info), (''lines'', Gnu_rows), (''no-header'', Gnu_noheaders),
      (''no-headers'', Gnu_noheaders), (''no-heading'', Gnu_noheaders), (''no-headings'', Gnu_noheaders),
      (''noheader'', Gnu_noheaders), (''noheaders'', Gnu_noheaders), (''noheading'', Gnu_noheaders),
      (''noheadings'', Gnu_noheaders), (''pid'', Gnu_pid), (''ppid'', Gnu_ppid), (''quick-pid'', Gnu_quick_pid),
      (''rows'', Gnu_rows), (''sid'', Gnu_sid), (''sort'', Gnu_sort), (''tty'', Gnu_tty), (''user'', Gnu_user),
      (''version'', Gnu_version), (''width'', Gnu_cols)]"

definition compare_gnu_table_structs :: "string \<Rightarrow> string \<times> gnu_case \<Rightarrow> int" where
  "compare_gnu_table_structs = by_spec fst"

text \<open>A size of the screen; the argument may have a prefix of its base.\<close>

definition size_arg :: "string option \<Rightarrow> int option" where
  "size_arg arg =
     (case arg of
        None \<Rightarrow> None
      | Some s \<Rightarrow>
          if s = [] then None
          else case strtol 0 s of (t, endptr) \<Rightarrow> if endptr = [] \<and> 0 < t \<and> t < 2000000000 then Some t else None)"

text \<open>An option without an argument sets variables, unless it has a rest.\<close>

definition no_arg :: "string \<Rightarrow> string \<Rightarrow> ps_state \<Rightarrow> ps_state \<Rightarrow> (message \<times> ps_state) outcome" where
  "no_arg name flagptr g g' =
     Val (if flagptr \<noteq> [] then (Some (''option --'' @ name @ '' does not take an argument''), g) else (None, g'))"

definition heading_option :: "string \<Rightarrow> string \<Rightarrow> header_kind \<Rightarrow> ps_state \<Rightarrow> (message \<times> ps_state) outcome" where
  "heading_option name flagptr kind g =
     (if flagptr = [] \<and> header_type g \<noteq> HEAD_SINGLE then Val (one_heading, g)
      else no_arg name flagptr g (g \<lparr> header_type := kind \<rparr>))"

definition gnu_option :: "ps_env \<Rightarrow> gnu_case \<Rightarrow> string \<Rightarrow> ps_state \<Rightarrow> (message \<times> ps_state) outcome" where
  "gnu_option env l flagptr g =
     (let arg = grab_gnu_arg flagptr g
      in case l of
           Gnu_Group \<Rightarrow> Val (list_option ''list of real groups must follow --Group'' (parse_gid env g) SEL_RGID arg)
         | Gnu_User \<Rightarrow> Val (list_option ''list of real users must follow --User'' (parse_uid env g) SEL_RUID arg)
         | Gnu_cols \<Rightarrow>
             Val (case (size_arg (fst arg), snd arg) of
                    (Some t, g) \<Rightarrow> (None, g \<lparr> screen_cols := t \<rparr>)
                  | (None, g) \<Rightarrow> (Some ''number of columns must follow --cols, --width, or --columns'', g))
         | Gnu_cumulative \<Rightarrow> no_arg ''cumulative'' flagptr g (g \<lparr> include_dead_children := True \<rparr>)
         | Gnu_deselect \<Rightarrow> no_arg ''deselect'' flagptr g (g \<lparr> negate_selection := True \<rparr>)
         | Gnu_noheaders \<Rightarrow> heading_option ''no-heading'' flagptr HEAD_NONE g
         | Gnu_headers \<Rightarrow> heading_option ''heading'' flagptr HEAD_MULTI g
         | Gnu_forest \<Rightarrow> no_arg ''forest'' flagptr g (g \<lparr> forest_type := CHR ''g'' \<rparr>)
         | Gnu_format \<Rightarrow> Val (sf_option ''format specification must follow --format'' SF_G_format arg)
         | Gnu_group \<Rightarrow> Val (list_option ''list of effective groups must follow --group'' (parse_gid env g) SEL_EGID arg)
         | Gnu_info \<Rightarrow> exit_option ''--info'' g
         | Gnu_pid \<Rightarrow> Val (list_option ''list of process IDs must follow --pid'' parse_pid SEL_PID arg)
         | Gnu_quick_pid \<Rightarrow> Val (list_option ''List of process IDs must follow --quick-pid.'' parse_pid SEL_PID_QUICK arg)
         | Gnu_ppid \<Rightarrow> Val (list_option ''list of process IDs must follow --ppid'' parse_pid SEL_PPID arg)
         | Gnu_rows \<Rightarrow>
             Val (case (size_arg (fst arg), snd arg) of
                    (Some t, g) \<Rightarrow> (None, g \<lparr> screen_rows := t \<rparr>)
                  | (None, g) \<Rightarrow> (Some ''number of rows must follow --rows or --lines'', g))
         | Gnu_sid \<Rightarrow> Val (list_option ''some sid thing(s) must follow --sid'' parse_pid SEL_SESS arg)
         | Gnu_sort \<Rightarrow> Val (sf_option ''long sort specification must follow --sort'' SF_G_sort arg)
         | Gnu_tty \<Rightarrow> Val (list_option ''list of ttys must follow --tty'' (parse_tty env) SEL_TTY arg)
         | Gnu_user \<Rightarrow> Val (list_option ''list of effective users must follow --user'' (parse_uid env g) SEL_EUID arg)
         | Gnu_version \<Rightarrow> exit_option ''--version'' g
         | Gnu_context \<Rightarrow> Val (None, g \<lparr> format_flags := format_flags g OR FF_Fc \<rparr>))"

definition parse_gnu_option :: "ps_env \<Rightarrow> ps_state \<Rightarrow> (message \<times> ps_state) outcome" where
  "parse_gnu_option env g =
     (let s = drop 2 (ps_argv g ! thisarg g); sl = strcspn s '':=''; buf = take sl s
      in if 15 < sl then Val (Some ''unknown gnu long option'', g)
         else case bsearch compare_gnu_table_structs buf gnu_table of
                None \<Rightarrow> if buf = ''help'' then Undef Exits else Val (Some ''unknown gnu long option'', g)
              | Some found \<Rightarrow> gnu_option env (snd found) (drop sl s) g)"

subsection \<open>Trailing process ids\<close>

text \<open>A word is a process id, with \<open>-\<close> a process group, with \<open>+\<close> a session; the arrays fill in order.\<close>

fun trailing_ids :: "string list \<Rightarrow> sel_union list \<Rightarrow> sel_union list \<Rightarrow> sel_union list
    \<Rightarrow> string + sel_union list \<times> sel_union list \<times> sel_union list" where
  "trailing_ids [] pids grps sids = Inr (pids, grps, sids)"
| "trailing_ids (w # ws) pids grps sids =
     (if w \<noteq> [] \<and> hd w = CHR ''-'' then
        (case parse_pid (tl w) of Inl m \<Rightarrow> Inl m | Inr u \<Rightarrow> trailing_ids ws pids (grps @ [u]) sids)
      else if w \<noteq> [] \<and> hd w = CHR ''+'' then
        (case parse_pid (tl w) of Inl m \<Rightarrow> Inl m | Inr u \<Rightarrow> trailing_ids ws pids grps (sids @ [u]))
      else (case parse_pid w of Inl m \<Rightarrow> Inl m | Inr u \<Rightarrow> trailing_ids ws (pids @ [u]) grps sids))"

definition push_nonempty :: "sel_type \<Rightarrow> sel_union list \<Rightarrow> ps_state \<Rightarrow> ps_state" where
  "push_nonempty t u g = (if u = [] then g else push_selection t u g)"

definition parse_trailing_pids :: "ps_state \<Rightarrow> message \<times> ps_state" where
  "parse_trailing_pids g =
     (let words = drop (thisarg g) (ps_argv g); g = g \<lparr> thisarg := length (ps_argv g) - 1 \<rparr>
      in case trailing_ids words [] [] [] of
           Inl m \<Rightarrow> (Some m, g)
         | Inr (pids, grps, sids) \<Rightarrow>
             (None, push_nonempty SEL_SESS sids (push_nonempty SEL_PGRP grps (push_nonempty SEL_PID pids g))))"

subsection \<open>All options\<close>

datatype arg_kind = ARG_GNU | ARG_END | ARG_PGRP | ARG_SYSV | ARG_PID | ARG_BSD | ARG_FAIL | ARG_SESS

definition c_isalpha :: "char \<Rightarrow> bool" where
  "c_isalpha c \<longleftrightarrow> c_islower c \<or> c_isupper c"

text \<open>The character at a position, the NUL after the end.\<close>

definition char_at :: "string \<Rightarrow> nat \<Rightarrow> char" where
  "char_at s i = (if i < length s then s ! i else NUL)"

definition arg_type :: "string \<Rightarrow> arg_kind" where
  "arg_type str =
     (let c = char_at str 0; d = char_at str 1; e = char_at str 2
      in if c_isalpha c then ARG_BSD
         else if c_isdigit c then ARG_PID
         else if c = CHR ''+'' then ARG_SESS
         else if c \<noteq> CHR ''-'' then ARG_FAIL
         else if c_isalpha d then ARG_SYSV
         else if c_isdigit d then ARG_PGRP
         else if d \<noteq> CHR ''-'' then ARG_FAIL
         else if c_isalpha e then ARG_GNU
         else if e = NUL then ARG_END
         else ARG_FAIL)"

text \<open>One word. Under \<open>force_bsd\<close> a SysV word falls into the case of the BSD ones, past its first line.\<close>

definition parse_word :: "ps_env \<Rightarrow> ps_state \<Rightarrow> (message \<times> ps_state) outcome" where
  "parse_word env g =
     (let bsd = parse_bsd_option env (g \<lparr> prefer_bsd_defaults := True \<rparr>)
      in case arg_type (ps_argv g ! thisarg g) of
           ARG_GNU \<Rightarrow> parse_gnu_option env g
         | ARG_SYSV \<Rightarrow>
             if \<not> force_bsd g then parse_sysv_option env g else bsd
         | ARG_BSD \<Rightarrow> if force_bsd g \<and> \<not> has (personality g) PER_FORCE_BSD then Val (Some ''way bad'', g) else bsd
         | ARG_PGRP \<Rightarrow> Val (parse_trailing_pids (g \<lparr> prefer_bsd_defaults := True \<rparr>))
         | ARG_SESS \<Rightarrow> Val (parse_trailing_pids (g \<lparr> prefer_bsd_defaults := True \<rparr>))
         | ARG_PID \<Rightarrow> Val (parse_trailing_pids (g \<lparr> prefer_bsd_defaults := True \<rparr>))
         | ARG_END \<Rightarrow> Val (Some ''garbage option'', g)
         | ARG_FAIL \<Rightarrow> Val (Some ''garbage option'', g))"

text \<open>What no option changes, and that the words are only passed over.\<close>

definition passes :: "ps_state \<Rightarrow> ps_state \<Rightarrow> bool" where
  "passes g g' \<longleftrightarrow> ps_argv g' = ps_argv g \<and> thisarg g \<le> thisarg g' \<and> force_bsd g' = force_bsd g"

named_theorems passing \<open>options that only pass over words\<close>

lemma passes_trans [trans]: "passes g g' \<Longrightarrow> passes g' g'' \<Longrightarrow> passes g g''"
  by (auto simp: passes_def)

lemma passes_args [passing]: "passes g (snd (get_opt_arg rest g))" "passes g (snd (grab_gnu_arg rest g))"
  by (auto simp: passes_def get_opt_arg_def grab_gnu_arg_def next_arg_def split: list.splits)

lemma passes_push [passing]: "passes g (push_selection t u g)" "passes g (own_tty g)" "passes g (push_nonempty t u g)"
  by (auto simp: passes_def push_selection_def own_tty_def push_nonempty_def)

lemma passes_sf [passing]: "passes g (snd (defer_sf_option a s g))"
  by (simp add: passes_def defer_sf_option_def)

lemma passes_list_option: "passes g (snd ag) \<Longrightarrow> passes g (snd (list_option m f t ag))"
  by (auto simp: list_option_def split: prod.splits option.splits sum.splits intro: passes_trans passing)

lemma passes_sf_option: "passes g (snd ag) \<Longrightarrow> passes g (snd (sf_option m s ag))"
  by (auto simp: sf_option_def split: prod.splits option.splits intro: passes_trans passing)

lemma passes_sysv_flag: "sysv_flag c g = Some g' \<Longrightarrow> passes g g'"
  by (auto simp: sysv_flag_def passes_def split: if_splits)

lemma passes_bsd_flag: "bsd_flag c g = Some g' \<Longrightarrow> passes g g'"
  using passes_push(2) passes_sf(1) by (auto simp: bsd_flag_def passes_def split: if_splits)

lemma passes_session: "passes g (snd ag) \<Longrightarrow> passes g (snd (session_or_group env ag))"
proof -
  assume ag: "passes g (snd ag)"
  let ?r = "list_option ''list of session leaders OR effective group names must follow -g'' parse_pid SEL_SESS ag"
  have 1: "passes g (snd ?r)" by (rule passes_list_option [OF ag])
  have 2: "passes g (snd (list_option m f t (a, snd ?r)))" for m f t and a :: "string option"
    by (rule passes_list_option) (simp add: 1)
  show ?thesis using 1 2
    by (auto simp: session_or_group_def split: prod.splits option.splits) (metis snd_conv)+
qed

lemma passes_refl: "passes g g"
  by (simp add: passes_def)

text \<open>The same of an outcome: wherever it returns.\<close>

definition may_advance :: "ps_state \<Rightarrow> (message \<times> ps_state) outcome \<Rightarrow> bool" where
  "may_advance g r = (case r of Val x \<Rightarrow> passes g (snd x) | Undef _ \<Rightarrow> True)"

lemma may_advance_simps [simp]:
  "may_advance g (Val r) = passes g (snd r)" "may_advance g (Undef u)" "may_advance g (exit_option x g)"
  by (simp_all add: may_advance_def exit_option_def passes_def split: option.splits)

lemma may_advance_trans: "passes g g' \<Longrightarrow> may_advance g' r \<Longrightarrow> may_advance g r"
  by (auto simp: may_advance_def split: outcome.splits intro: passes_trans)

lemmas passes_options = passes_list_option passes_sf_option passes_session passes_args passes_push passes_refl

lemma passes_sysv_end: "may_advance g (sysv_end env c rest g)"
  by (simp add: sysv_end_def Let_def passes_options split: if_split)

lemma passes_sysv_word: "may_advance g (sysv_word env w g)"
  by (induction w arbitrary: g)
    (auto simp: passes_refl passes_sysv_end split: option.splits intro: may_advance_trans passes_sysv_flag)

lemma passes_bsd_end: "may_advance g (bsd_end env c rest g)"
proof -
  have "passes g (snd (case get_opt_arg rest g of (None, g) \<Rightarrow> (None, own_tty g)
      | (Some _, _) \<Rightarrow> list_option [] (parse_tty env) SEL_TTY (get_opt_arg rest g)))"
  proof (cases "get_opt_arg rest g")
    case (Pair a g')
    have "passes g g'" using passes_args(1) [of g rest] by (simp add: Pair)
    then show ?thesis
      using passes_list_option [of g "(a, g')"] by (auto simp: Pair split: option.split intro: passes_trans passes_push)
  qed
  then show ?thesis by (simp add: bsd_end_def Let_def passes_options split: if_split)
qed

lemma passes_bsd_word: "may_advance g (bsd_word env w g)"
  by (induction w arbitrary: g)
    (auto simp: passes_refl passes_bsd_end split: option.splits intro: may_advance_trans passes_bsd_flag)

lemma passes_update:
  "passes g g' \<Longrightarrow> passes g (g' \<lparr> screen_cols := t \<rparr>)" "passes g g' \<Longrightarrow> passes g (g' \<lparr> screen_rows := t \<rparr>)"
  by (simp_all add: passes_def)

lemma passes_gnu_option: "may_advance g (gnu_option env l flagptr g)"
proof -
  have size: "passes g (snd (case (a, snd (grab_gnu_arg flagptr g)) of (Some t, g) \<Rightarrow> (None, f t g) | (None, g) \<Rightarrow> (Some m, g)))"
    if "\<And>t g'. passes g g' \<Longrightarrow> passes g (f t g')" for a and f :: "int \<Rightarrow> ps_state \<Rightarrow> ps_state" and m :: string
    using that passes_args(2) by (auto split: option.splits)
  show ?thesis
  proof (cases l)
    case Gnu_cols
    then show ?thesis using size [of "\<lambda>t g. g \<lparr> screen_cols := t \<rparr>"] passes_update by (simp add: gnu_option_def Let_def)
  next
    case Gnu_rows
    then show ?thesis using size [of "\<lambda>t g. g \<lparr> screen_rows := t \<rparr>"] passes_update by (simp add: gnu_option_def Let_def)
  qed (simp_all add: gnu_option_def passes_options no_arg_def heading_option_def, simp_all add: passes_def)
qed

lemma passes_trailing: "thisarg g < length (ps_argv g) \<Longrightarrow> passes g (snd (parse_trailing_pids g))"
  by (auto simp: parse_trailing_pids_def Let_def push_nonempty_def push_selection_def passes_def split: sum.splits)

lemma passes_word:
  assumes "thisarg g < length (ps_argv g)"
  shows "may_advance g (parse_word env g)"
proof -
  let ?b = "g \<lparr> prefer_bsd_defaults := True \<rparr>"
  have b: "passes g ?b" by (simp add: passes_def)
  have "may_advance ?b (parse_bsd_option env ?b)"
    by (simp add: parse_bsd_option_def Let_def passes_bsd_word passes_refl)
  moreover have "passes ?b (snd (parse_trailing_pids ?b))" by (rule passes_trailing) (simp add: assms)
  ultimately show ?thesis
    using b passes_gnu_option passes_sysv_word
    by (auto simp: parse_word_def Let_def parse_gnu_option_def parse_sysv_option_def passes_refl
        split: arg_kind.split option.split intro: may_advance_trans passes_trans)
qed

text \<open>\<open>parse_all_options\<close>: every word from the one after \<open>thisarg\<close>; \<open>thisarg\<close> only grows.\<close>

function parse_all_options :: "ps_env \<Rightarrow> ps_state \<Rightarrow> (message \<times> ps_state) outcome" where
  "parse_all_options env g =
     (let g = g \<lparr> thisarg := thisarg g + 1 \<rparr>
      in if thisarg g < length (ps_argv g) then
           obind (parse_word env g) (\<lambda>(m, g). if m = None then parse_all_options env g else Val (m, g))
         else Val (None, g))"
  by pat_completeness auto
termination
proof (relation "measure (\<lambda>(env, g). length (ps_argv g) - thisarg g)")
  fix env g x r m g'
  assume "x = g\<lparr>thisarg := thisarg g + 1\<rparr>" "thisarg x < length (ps_argv x)" "parse_word env x = Val r" "(m, g') = r"
  then show "((env, g'), env, g) \<in> measure (\<lambda>(env, g). length (ps_argv g) - thisarg g)"
    using passes_word [of x env] by (auto simp: passes_def)
qed simp

declare parse_all_options.simps [simp del]

subsection \<open>The command line\<close>

definition reset_parser :: "ps_state \<Rightarrow> ps_state" where
  "reset_parser g = g \<lparr> w_count := 0 \<rparr>"

definition choose_dimensions :: "ps_state \<Rightarrow> ps_state" where
  "choose_dimensions g =
     (let g = (if w_count g \<noteq> 0 \<and> screen_cols g < 132 then g \<lparr> screen_cols := 132 \<rparr> else g)
      in if 1 < w_count g then g \<lparr> screen_cols := OUTBUF_SIZE \<rparr> else g)"

definition thread_option_check :: "ps_state \<Rightarrow> message \<times> ps_state" where
  "thread_option_check g =
     (let tf = has (thread_flags g)
      in if thread_flags g = 0 then (None, g \<lparr> thread_flags := TF_show_proc \<rparr>)
         else if forest_type g \<noteq> NUL then (Some ''thread display conflicts with forest display'', g)
         else if tf TF_B_H \<and> tf (TF_B_m OR TF_U_m) then (Some (''thread flags conflict; can'' @ [CHR 0x27] @ ''t use H with m or -m''), g)
         else if tf TF_B_m \<and> tf TF_U_m then (Some (''thread flags conflict; can'' @ [CHR 0x27] @ ''t use both m and -m''), g)
         else if tf TF_U_L \<and> tf TF_U_T then (Some (''thread flags conflict; can'' @ [CHR 0x27] @ ''t use both -L and -T''), g)
         else let f = thread_flags g;
                  f = (if has f TF_B_H then f OR (TF_show_proc OR TF_loose_tasks) else f);
                  f = (if has f (TF_B_m OR TF_U_m) then f OR (TF_show_proc OR TF_show_task OR TF_show_both) else f);
                  f = (if has f (TF_U_T OR TF_U_L)
                       then (if has f (TF_B_m OR TF_U_m OR TF_B_H) then f OR TF_must_use else f OR TF_show_task)
                       else f)
              in (None, g \<lparr> thread_flags := f \<rparr>))"

text \<open>The four steps of an attempt, each only after the one before gave no message.\<close>

definition parse_attempt :: "ps_env \<Rightarrow> ps_state \<Rightarrow> (message \<times> ps_state) outcome" where
  "parse_attempt env g =
     obind (parse_all_options env g) (\<lambda>(m, g).
       if m \<noteq> None then Val (m, g)
       else case thread_option_check g of (m, g) \<Rightarrow>
         if m \<noteq> None then Val (m, g)
         else obind (process_sf_options env g) (\<lambda>(m, g).
           if m \<noteq> None then Val (m, g) else Val (select_bits_setup g)))"

definition with_argv :: "string list \<Rightarrow> ps_state \<Rightarrow> ps_state" where
  "with_argv argv g = g \<lparr> ps_argv := argv, thisarg := 0 \<rparr>"

text \<open>The second attempt, from \<open>try_bsd\<close>. When it fails too, the usage is printed and the process ends.\<close>

definition second_chance :: "ps_host \<Rightarrow> string list \<Rightarrow> ps_state \<Rightarrow> ps_state" where
  "second_chance h argv g =
     (let g = with_argv argv ((reset_sortformat (reset_parser (reset_global h g))) \<lparr> format_flags := 0 \<rparr>);
          g = g \<lparr> force_bsd := True, prefer_bsd_defaults := True \<rparr>
      in if has (personality g) (PER_OLD_m OR PER_BSD_m) then g else g \<lparr> personality := personality g OR PER_OLD_m \<rparr>)"

definition try_bsd :: "ps_host \<Rightarrow> ps_env \<Rightarrow> string list \<Rightarrow> ps_state \<Rightarrow> ps_state outcome" where
  "try_bsd h env argv g =
     obind (parse_attempt env (second_chance h argv g)) (\<lambda>(m, g).
       if m = None then Val (choose_dimensions g) else Undef Exits)"

definition arg_parse :: "ps_host \<Rightarrow> ps_env \<Rightarrow> string list \<Rightarrow> ps_state \<Rightarrow> ps_state outcome" where
  "arg_parse h env argv g =
     (let g = with_argv argv g
      in if has (personality g) PER_FORCE_BSD then try_bsd h env argv g
         else obind (parse_attempt env g) (\<lambda>(m, g). if m = None then Val (choose_dimensions g) else try_bsd h env argv g))"

end
