(* ===== verification/PsDisplay.thy ===== *)
theory PsDisplay
  imports PsCompare PsParser
begin

text \<open>
  \<open>src/modules/ps/src/display.c\<close>: which columns and files a run needs, the loops that print the
  processes as they are read, sorted, or as a forest, and \<open>ps_main\<close>.

  What the readers of \<open>readproc.c\<close> return is the argument \<open>proc_source\<close>, for the flags of \<open>openproc\<close>:
  the processes of a run of \<open>readproc\<close>, the tasks of a process from \<open>readtask\<close>, and the tables of
  \<open>readproctab2\<close> and \<open>readproctab3\<close> with the entries the callback wants, as it leaves them. The text written to \<open>out_fp\<close> is the string a function yields.
\<close>

record proc_source =
  read_procs :: "u32 \<Rightarrow> int list option \<Rightarrow> proc_t list option outcome"
  read_tasks :: "u32 \<Rightarrow> proc_t \<Rightarrow> proc_t list outcome"
  read_table :: "(proc_t \<Rightarrow> proc_t option) \<Rightarrow> u32 \<Rightarrow> proc_t list option outcome"
  read_either :: "(proc_t \<Rightarrow> proc_t option) \<Rightarrow> u32 \<Rightarrow> proc_t list option outcome"

text \<open>The static variables of the file. \<open>needs_for_threads\<close> is never reset.\<close>

record needs =
  proc_format_list :: "format_node list"
  task_format_list :: "format_node list"
  needs_for_threads :: u32
  needs_for_sort :: u32
  proc_format_needs :: u32
  task_format_needs :: u32

subsection \<open>What a run needs\<close>

definition check_headers :: "ps_state \<Rightarrow> ps_state" where
  "check_headers g =
     (case header_type g of
        HEAD_MULTI \<Rightarrow> g \<lparr> header_gap := screen_rows g - 1 \<rparr>
      | HEAD_NONE \<Rightarrow> g \<lparr> lines_to_next_header := - 1 \<rparr>
      | HEAD_SINGLE \<Rightarrow>
          if list_ex (\<lambda>n. fn_name n \<noteq> [] \<and> fn_pr n \<noteq> None) (format_list g) then g else g \<lparr> lines_to_next_header := - 1 \<rparr>)"

definition check_sort_needs :: "sort_node list \<Rightarrow> u32" where
  "check_sort_needs keys = fold (\<lambda>k needs. needs OR sn_need k) keys 0"

definition collect_format_needs :: "format_node list \<Rightarrow> u32" where
  "collect_format_needs ns = fold (\<lambda>n needs. needs OR fn_need n) ns 0"

abbreviation CF_PRINT_MASK :: u32 where "CF_PRINT_MASK \<equiv> 0xf0000000"
abbreviation PROC_LOOSE_TASKS :: u32 where "PROC_LOOSE_TASKS \<equiv> 0x2000"
abbreviation PROC_PID :: u32 where "PROC_PID \<equiv> 0x1000"
abbreviation PROC_FILLSTATUS :: u32 where "PROC_FILLSTATUS \<equiv> 0x20"
abbreviation PROC_FILLSTAT :: u32 where "PROC_FILLSTAT \<equiv> 0x40"
abbreviation PROC_FILLCGROUP :: u32 where "PROC_FILLCGROUP \<equiv> 0x200"
abbreviation PROC_EDITCMDLCVT :: u32 where "PROC_EDITCMDLCVT \<equiv> 0x20000"

definition PROC_ONLY_FLAGS :: u32 where
  "PROC_ONLY_FLAGS = NEED_ENV OR NEED_ARG OR NEED_COM OR NEED_MEM OR PROC_FILLCGROUP"

definition needs_for_select :: u32 where
  "needs_for_select = PROC_FILLSTAT OR PROC_FILLSTATUS"

text \<open>
  The columns of the lines of processes and of threads: a column that makes sense for one of them only
  is replaced in the other. Unknown flags are a bug that ends the process.
\<close>

fun both_lists :: "format_node list \<Rightarrow> (format_node list \<times> format_node list) outcome" where
  "both_lists [] = Val ([], [])"
| "both_lists (n # ns) =
     (let kind = fn_flags n AND CF_PRINT_MASK; nop = n \<lparr> fn_pr := Some ''nop'', fn_need := 0 \<rparr>
      in if kind \<notin> {TO, PO, AN, ET} then Undef Exits
         else obind (both_lists ns) (\<lambda>(ps, ts).
           if kind = TO then Val (nop # ps, n # ts) else if kind = PO then Val (n # ps, nop # ts) else Val (n # ps, n # ts)))"

text \<open>What is known after the lists: the flags of the files to read.\<close>

definition format_needs :: "ps_state \<Rightarrow> needs \<Rightarrow> needs" where
  "format_needs g d =
     (let pn = collect_format_needs (proc_format_list d); tn = collect_format_needs (task_format_list d);
          sn = check_sort_needs (sort_list g);
          pn = pn OR (tn AND NOT PROC_ONLY_FLAGS);
          tn = tn AND NOT PROC_ONLY_FLAGS;
          (pn, sn) = (if bsd_c_option g then (pn AND NOT NEED_ARG, sn AND NOT NEED_ARG) else (pn, sn));
          (pn, sn) = (if \<not> unix_f_option g then (pn AND NOT NEED_COM, sn AND NOT NEED_COM) else (pn, sn));
          pn = (if has pn NEED_ARG then (pn OR NEED_COM OR PROC_EDITCMDLCVT) AND NOT NEED_ARG else pn);
          pn = (if bsd_e_option g \<and> has pn NEED_COM then pn OR NEED_ENV else pn)
      in d \<lparr> proc_format_needs := pn, task_format_needs := tn, needs_for_sort := sn,
             needs_for_threads := (if has (thread_flags g) TF_loose_tasks then needs_for_threads d OR PROC_LOOSE_TASKS
                                   else needs_for_threads d) \<rparr>)"

definition lists_and_needs :: "ps_state \<times> needs \<Rightarrow> (ps_state \<times> needs) outcome" where
  "lists_and_needs s =
     (case s of (g, d) \<Rightarrow>
        let g = check_headers g
        in if has (thread_flags g) TF_show_both then
             obind (both_lists (format_list g)) (\<lambda>(ps, ts).
               let g = g \<lparr> format_list := ps \<rparr>; d = d \<lparr> proc_format_list := ps, task_format_list := ts \<rparr>
               in Val (g, format_needs g d))
           else Val (g, format_needs g (d \<lparr> proc_format_list := format_list g, task_format_list := format_list g \<rparr>)))"

definition open_flags :: "needs \<Rightarrow> u32" where
  "open_flags d = proc_format_needs d OR task_format_needs d OR needs_for_sort d OR needs_for_select OR needs_for_threads d"

subsection \<open>Printing in the order of reading\<close>

text \<open>A loop that prints: the texts one after the other, the state handed on.\<close>

fun each :: "('a \<Rightarrow> 's \<Rightarrow> (string \<times> 's) outcome) \<Rightarrow> 'a list \<Rightarrow> 's \<Rightarrow> (string \<times> 's) outcome" where
  "each f [] s = Val ([], s)"
| "each f (x # xs) s = obind (f x s) (\<lambda>(t, s). obind (each f xs s) (\<lambda>(u, s). Val (t @ u, s)))"

definition pidlist :: "ps_state \<Rightarrow> int list option" where
  "pidlist g =
     (case selection_list g of
        [] \<Rightarrow> None
      | sel # _ \<Rightarrow> if typecode sel = SEL_PID_QUICK then Some (map (\<lambda>u. case u of Sel_Num k \<Rightarrow> k | Sel_Cmd c \<Rightarrow> 0) (rev (sel_u sel)))
                  else None)"

text \<open>The body of the loop of \<open>simple_spew\<close> for each kind of threads; other flags print nothing.\<close>

definition spew_one :: "out_env \<Rightarrow> proc_source \<Rightarrow> u32 \<Rightarrow> needs \<Rightarrow> proc_t \<Rightarrow> ps_state \<times> out_state \<Rightarrow> (string \<times> ps_state \<times> out_state) outcome" where
  "spew_one env src flags d p s =
     (let kind = thread_flags (fst s) AND (TF_show_proc OR TF_loose_tasks OR TF_show_task);
          tasks = (\<lambda>s. obind (read_tasks src flags p) (\<lambda>ts. each (\<lambda>t. show_one_proc env t (task_format_list d)) ts s))
      in if \<not> want_this_proc (fst s) p then Val ([], s)
         else if kind = TF_show_proc then show_one_proc env p (proc_format_list d) s
         else if kind = TF_show_proc OR TF_loose_tasks then tasks s
         else if kind = TF_show_proc OR TF_show_task then
           obind (show_one_proc env p (proc_format_list d) s) (\<lambda>(t, s). obind (tasks s) (\<lambda>(u, s). Val (t @ u, s)))
         else if kind = TF_show_task then tasks s
         else Val ([], s))"

definition simple_spew :: "out_env \<Rightarrow> proc_source \<Rightarrow> needs \<Rightarrow> ps_state \<times> out_state \<Rightarrow> (string \<times> ps_state \<times> out_state) outcome" where
  "simple_spew env src d s =
     (let pids = pidlist (fst s); flags = (if pids \<noteq> None then open_flags d OR PROC_PID else open_flags d)
      in obind (read_procs src flags pids) (\<lambda>r.
           case r of None \<Rightarrow> Undef Exits | Some ps \<Rightarrow> each (spew_one env src flags d) ps s))"

subsection \<open>Sorted, and as a forest\<close>

text \<open>The share of the processor for the sort, with the wrap-around of unsigned arithmetic.\<close>

definition with_pcpu :: "out_env \<Rightarrow> ps_state \<Rightarrow> proc_t \<Rightarrow> proc_t" where
  "with_pcpu env g p =
     (let seconds = seconds_since_boot g - p_start_time p div hertz env
      in p \<lparr> p_pcpu := if seconds \<noteq> 0 then ucast (total_time g p * 1000 div hertz env div seconds) else 0 \<rparr>)"

definition want_this_proc_pcpu :: "out_env \<Rightarrow> ps_state \<Rightarrow> proc_t \<Rightarrow> proc_t option" where
  "want_this_proc_pcpu env g p = (if \<not> want_this_proc g p then None else Some (with_pcpu env g p))"

definition key_of :: "string \<Rightarrow> sort_node outcome" where
  "key_of name =
     (case search_format_array name of
        None \<Rightarrow> Undef Exits
      | Some f \<Rightarrow> Val \<lparr> sn_sr = fsr f, sn_reverse = False, sn_need = fneed f \<rparr>)"

definition prep_forest_sort :: "ps_state \<Rightarrow> ps_state outcome" where
  "prep_forest_sort g =
     obind (if sort_list g = [] then obind (key_of ''start_time'') (\<lambda>k. Val [k]) else Val (sort_list g)) (\<lambda>keys.
     obind (key_of ''ppid'') (\<lambda>k. Val (g \<lparr> sort_list := k # keys \<rparr>)))"

definition show_array_one :: "out_env \<Rightarrow> proc_source \<Rightarrow> u32 \<Rightarrow> needs \<Rightarrow> proc_t \<Rightarrow> ps_state \<times> out_state \<Rightarrow> (string \<times> ps_state \<times> out_state) outcome" where
  "show_array_one env src flags d p s =
     obind (if has (thread_flags (fst s)) TF_show_proc then show_one_proc env p (proc_format_list d) s else Val ([], s)) (\<lambda>(t, s).
     obind (if has (thread_flags (fst s)) TF_show_task
            then obind (read_tasks src flags p) (\<lambda>ts. each (\<lambda>t. show_one_proc env t (task_format_list d)) ts s)
            else Val ([], s)) (\<lambda>(u, s).
       Val (t @ u, s)))"

definition show_proc_array :: "out_env \<Rightarrow> proc_source \<Rightarrow> u32 \<Rightarrow> needs \<Rightarrow> proc_t list \<Rightarrow> ps_state \<times> out_state \<Rightarrow> (string \<times> ps_state \<times> out_state) outcome" where
  "show_proc_array env src flags d ps s = each (show_array_one env src flags d) ps s"

text \<open>
  The forest. The children of a process are the first run of entries with its id as parent; the array
  is sorted by the parent. A prefix character is set at the level of the process before it is shown
  and changed for its children. Process 1 shows its children at its own level. \<open>forest_prefix\<close> has
  131172 bytes; the fuel bounds the recursion, which need not end on an array with one id twice.
\<close>

definition children :: "proc_t list \<Rightarrow> proc_t \<Rightarrow> proc_t list" where
  "children ps p = takeWhile (\<lambda>q. p_ppid q = p_tid p) (dropWhile (\<lambda>q. p_ppid q \<noteq> p_tid p) ps)"

abbreviation FOREST_SIZE :: nat where "FOREST_SIZE \<equiv> 131172"

definition set_prefix :: "nat \<Rightarrow> char \<Rightarrow> out_state \<Rightarrow> out_state" where
  "set_prefix level c out = (if level = 0 then out else out \<lparr> forest_prefix := take (level - 1) (forest_prefix out) @ [c] \<rparr>)"

definition chop_prefix :: "nat \<Rightarrow> out_state \<Rightarrow> out_state" where
  "chop_prefix level out = out \<lparr> forest_prefix := take level (forest_prefix out) \<rparr>"

definition child_level :: "char \<Rightarrow> proc_t \<Rightarrow> nat \<Rightarrow> nat" where
  "child_level kind p level = (if p_tid p = 1 \<and> kind \<noteq> CHR ''u'' then level else level + 1)"

fun show_tree :: "nat \<Rightarrow> out_env \<Rightarrow> proc_t list \<Rightarrow> proc_t \<Rightarrow> nat \<Rightarrow> bool \<Rightarrow> ps_state \<times> out_state \<Rightarrow> (string \<times> ps_state \<times> out_state) outcome"
  and show_children :: "nat \<Rightarrow> out_env \<Rightarrow> proc_t list \<Rightarrow> proc_t \<Rightarrow> nat \<Rightarrow> proc_t list \<Rightarrow> ps_state \<times> out_state \<Rightarrow> (string \<times> ps_state \<times> out_state) outcome" where
  "show_tree 0 env ps p level sibling s = Undef Blocks"
| "show_tree (Suc fuel) env ps p level sibling (g, out) =
     (if FOREST_SIZE \<le> level then Undef OutOfBounds
      else obind (show_one_proc env p (format_list g) (g, set_prefix level (if sibling then CHR ''+'' else CHR ''L'') out)) (\<lambda>(t, g, out).
        if children ps p = [] then Val (t, g, out)
        else obind (show_children fuel env ps p (child_level (forest_type g) p level) (children ps p)
                      (g, set_prefix level (if sibling then CHR ''|'' else CHR '' '') out)) (\<lambda>(u, g, out).
          Val (t @ u, g, chop_prefix level out))))"
| "show_children fuel env ps p level [] s = Val ([], s)"
| "show_children 0 env ps p level (q # qs) s = Undef Blocks"
| "show_children (Suc fuel) env ps p level (q # qs) s =
     obind (show_tree fuel env ps q level (qs \<noteq> []) s) (\<lambda>(t, s). obind (show_children fuel env ps p level qs s) (\<lambda>(u, s). Val (t @ u, s)))"

definition is_root :: "proc_t list \<Rightarrow> proc_t \<Rightarrow> bool" where
  "is_root ps p \<longleftrightarrow> \<not> list_ex (\<lambda>q. p_tid q = p_ppid p) ps"

text \<open>The array is scanned from its end.\<close>

definition show_forest :: "nat \<Rightarrow> out_env \<Rightarrow> proc_t list \<Rightarrow> ps_state \<times> out_state \<Rightarrow> (string \<times> ps_state \<times> out_state) outcome" where
  "show_forest fuel env ps s = each (\<lambda>p. if is_root ps p then show_tree fuel env ps p 0 False else (\<lambda>s. Val ([], s))) (rev ps) s"

definition fancy_spew :: "nat \<Rightarrow> out_env \<Rightarrow> proc_source \<Rightarrow> needs \<Rightarrow> ps_state \<times> out_state \<Rightarrow> (string \<times> ps_state \<times> out_state) outcome" where
  "fancy_spew fuel env src d s =
     (case s of (g, out) \<Rightarrow>
        let flags = open_flags d
        in obind (if has (thread_flags g) TF_loose_tasks then read_either src (want_this_proc_pcpu env g) flags
                  else read_table src (want_this_proc_pcpu env g) flags) (\<lambda>r.
             case r of
               None \<Rightarrow> Undef Exits
             | Some table \<Rightarrow>
                 if table = [] then Val ([], s)
                 else obind (if forest_type g \<noteq> NUL then prep_forest_sort g else Val g) (\<lambda>g.
                         obind (qsort (compare_two_procs env g (sort_list g)) table) (\<lambda>table.
                           if forest_type g \<noteq> NUL then show_forest fuel env table (g, out)
                           else show_proc_array env src flags d table (g, out)))))"

subsection \<open>The run\<close>

definition arg_check_conflicts :: "ps_state \<Rightarrow> unit outcome" where
  "arg_check_conflicts g =
     (let quick = length (filter (\<lambda>sel. typecode sel = SEL_PID_QUICK) (selection_list g))
      in if 1 < quick then Undef Exits
         else if quick \<noteq> 0 \<and> quick < length (selection_list g) then Undef Exits
         else if quick \<noteq> 0 \<and> forest_type g \<noteq> NUL then Undef Exits
         else if quick \<noteq> 0 \<and> sort_list g \<noteq> [] then Undef Exits
         else if quick \<noteq> 0 \<and> negate_selection g then Undef Exits
         else Val ())"

record ps_run =
  run_state :: ps_state
  run_out :: out_state
  run_needs :: needs

text \<open>\<open>now\<close> is the time, \<open>opened\<close> whether \<open>fdopen\<close> gives a stream.\<close>

definition ps_main :: "nat \<Rightarrow> bool \<Rightarrow> int \<Rightarrow> ps_host \<Rightarrow> ps_env \<Rightarrow> out_env \<Rightarrow> proc_source \<Rightarrow> string list \<Rightarrow> ps_run \<Rightarrow> (string \<times> ps_run) outcome" where
  "ps_main fuel opened now h penv env src argv r =
     (if \<not> opened then Val ([], r)
      else obind (arg_parse h penv argv (reset_global h (run_state r))) (\<lambda>g.
        obind (arg_check_conflicts g) (\<lambda>_.
        obind (init_output now g (run_out r)) (\<lambda>out.
        obind (lists_and_needs (g, run_needs r)) (\<lambda>(g, d).
        obind (if forest_type g \<noteq> NUL \<or> sort_list g \<noteq> [] then fancy_spew fuel env src d (g, out)
               else simple_spew env src d (g, out)) (\<lambda>(text, g, out).
        obind (show_end out) (\<lambda>_.
          Val (text, \<lparr> run_state = reset_sortformat g, run_out = out, run_needs = d \<rparr>))))))))"

end
