(* ===== verification/PsParserProps.thy ===== *)
theory PsParserProps
  imports PsParser PsSortProps
begin

text \<open>
  What command lines of ps come to: the one the daemon uses, with a list of columns and a list of
  sort keys, and the selection by a list of process ids. The table of long options is an instance of
  the searched tables.
\<close>

subsection \<open>The long options\<close>

lemma gnu_table_sorted:
  "strictly_sorted (map fst gnu_table)" "list_all is_cstring (map fst gnu_table)"
  by code_simp+

interpretation gnu_options: sorted_table compare_gnu_table_structs gnu_table is_cstring
  unfolding compare_gnu_table_structs_def by (intro sorted_by_spec gnu_table_sorted)

lemma gnu_found: "is_cstring s \<Longrightarrow> bsearch compare_gnu_table_structs s gnu_table = find (\<lambda>e. fst e = s) gnu_table"
  by (simp add: gnu_options.bsearch_find find_by_spec [OF _ gnu_table_sorted(2), folded compare_gnu_table_structs_def])

lemma gnu_sort_found: "bsearch compare_gnu_table_structs ''sort'' gnu_table = Some (''sort'', Gnu_sort)"
  by code_simp

text \<open>Words that set no variable of the parser's own.\<close>

lemma type_e: "arg_type ''-e'' = ARG_SYSV" and type_o: "arg_type ''-o'' = ARG_SYSV" and type_p: "arg_type ''-p'' = ARG_SYSV"
  by code_simp+

lemma type_sort: "arg_type (''--sort='' @ s) = ARG_GNU"
  by (simp add: arg_type_def char_at_def c_isalpha_def c_islower_def c_isupper_def c_isdigit_def byte_def)

lemma word_e:
  assumes "ps_argv g ! thisarg g = ''-e''" "\<not> force_bsd g"
  shows "parse_word env g = Val (None, g \<lparr> all_processes := True \<rparr>)"
  using assms by (simp add: parse_word_def type_e parse_sysv_option_def sysv_flag_def)

lemma next_word:
  assumes "thisarg g + 1 < length (ps_argv g)" "ps_argv g ! (thisarg g + 1) = a" "a \<noteq> []"
  shows "get_opt_arg [] g = (Some a, g \<lparr> thisarg := thisarg g + 1 \<rparr>)"
  using assms by (simp add: get_opt_arg_def next_arg_def)

lemma word_o:
  assumes "ps_argv g ! thisarg g = ''-o''" "\<not> force_bsd g" "thisarg g + 1 < length (ps_argv g)"
    "ps_argv g ! (thisarg g + 1) = a" "a \<noteq> []"
  shows "parse_word env g = Val (None, snd (defer_sf_option a SF_U_o (g \<lparr> thisarg := thisarg g + 1 \<rparr>)))"
  using assms next_word [of g a]
  by (simp add: parse_word_def type_o parse_sysv_option_def sysv_flag_def sysv_end_def sf_option_def)

lemma word_sort:
  assumes "ps_argv g ! thisarg g = ''--sort='' @ s" "s \<noteq> []"
  shows "parse_word env g = Val (None, snd (defer_sf_option s SF_G_sort g))"
  using assms gnu_sort_found
  by (simp add: parse_word_def type_sort [simplified] parse_gnu_option_def strcspn_def gnu_option_def grab_gnu_arg_def sf_option_def)

lemma word_p:
  assumes "ps_argv g ! thisarg g = ''-p''" "\<not> force_bsd g" "thisarg g + 1 < length (ps_argv g)"
    "ps_argv g ! (thisarg g + 1) = a" "a \<noteq> []" "parse_list a parse_pid = Inr u"
  shows "parse_word env g = Val (None, push_selection SEL_PID u (g \<lparr> thisarg := thisarg g + 1 \<rparr>))"
  using assms next_word [of g a]
  by (simp add: parse_word_def type_p parse_sysv_option_def sysv_flag_def sysv_end_def list_option_def)

lemma all_options_step:
  assumes "thisarg g + 1 = n" "n < length (ps_argv g)" "parse_word env (g \<lparr> thisarg := n \<rparr>) = Val (None, g')"
  shows "parse_all_options env g = parse_all_options env g'"
  using assms by (subst parse_all_options.simps) simp

lemma all_options_end:
  "thisarg g + 1 \<ge> length (ps_argv g) \<Longrightarrow> parse_all_options env g = Val (None, g \<lparr> thisarg := thisarg g + 1 \<rparr>)"
  by (subst parse_all_options.simps) simp

subsection \<open>The line of the daemon\<close>

definition columns_arg :: "string list \<Rightarrow> string" where
  "columns_arg cols = join (CHR '','') cols"

definition keys_arg :: "(bool \<times> string) list \<Rightarrow> string" where
  "keys_arg keys = join (CHR '','') (map key_text keys)"

text \<open>The variables that \<open>reset_global\<close> leaves, as they are when no run failed before.\<close>

definition fresh_parser :: "ps_state \<Rightarrow> bool" where
  "fresh_parser g \<longleftrightarrow> sf_list g = [] \<and> \<not> have_gnu_sort g \<and> \<not> already_parsed_sort g \<and> \<not> already_parsed_format g \<and>
     \<not> force_bsd g \<and> w_count g = 0"

text \<open>After \<open>-o\<close>, and after \<open>-o\<close> and \<open>--sort\<close>, the deferred options give the two lists.\<close>

definition option_node :: "string \<Rightarrow> sf_source \<Rightarrow> sf_node" where
  "option_node a s = \<lparr> f_cooked = [], s_cooked = [], sf = a, sf_code = s \<rparr>"

lemma join_not_Nil: "cols \<noteq> [] \<Longrightarrow> \<forall>s\<in>set cols. s \<noteq> [] \<Longrightarrow> join c cols \<noteq> []"
  by (induction c cols rule: join.induct) auto

lemma parse_O_columns:
  assumes "cols \<noteq> []" "\<forall>s\<in>set cols. column s" "sf_list g = [option_node (columns_arg cols) SF_U_o]"
  shows "parse_O_option env (sf_list g) g =
    Val (None, [(option_node (columns_arg cols) SF_U_o) \<lparr> f_cooked := rev (map (plain_node env None) cols) \<rparr>],
      g \<lparr> already_parsed_format := True \<rparr>)"
  using assms format_parse_columns [OF assms(1,2), of "option_node (columns_arg cols) SF_U_o"]
  by (simp add: option_node_def columns_arg_def parse_sf_node_def)

lemma parse_O_columns_keys:
  assumes "cols \<noteq> []" "\<forall>s\<in>set cols. column s" "keys \<noteq> []" "\<forall>k\<in>set keys. column (snd k)"
    "sf_list g = [option_node (keys_arg keys) SF_G_sort, option_node (columns_arg cols) SF_U_o]" "\<not> already_parsed_sort g"
  shows "parse_O_option env (sf_list g) g =
    Val (None, [(option_node (keys_arg keys) SF_G_sort) \<lparr> s_cooked := rev (map key_node keys) \<rparr>,
                (option_node (columns_arg cols) SF_U_o) \<lparr> f_cooked := rev (map (plain_node env None) cols) \<rparr>],
      g \<lparr> already_parsed_format := True, already_parsed_sort := True \<rparr>)"
proof -
  let ?o = "option_node (columns_arg cols) SF_U_o" and ?k = "option_node (keys_arg keys) SF_G_sort"
  have "parse_O_option env [?o] g = Val (None, [?o \<lparr> f_cooked := rev (map (plain_node env None) cols) \<rparr>], g \<lparr> already_parsed_format := True \<rparr>)"
    using format_parse_columns [OF assms(1,2), of ?o] by (simp add: option_node_def columns_arg_def parse_sf_node_def)
  moreover have "parse_sf_node env ?k h = Val (None, ?k \<lparr> s_cooked := rev (map key_node keys) \<rparr>, h \<lparr> already_parsed_sort := True \<rparr>)"
    if "\<not> already_parsed_sort h" for h
    using that long_sort_keys [OF assms(3,4), of ?k] by (simp add: option_node_def keys_arg_def parse_sf_node_def)
  ultimately show ?thesis using assms(5,6) by simp
qed

text \<open>With the two lists the rest of \<open>process_sf_options\<close> adds nothing.\<close>

lemma process_columns_keys:
  assumes "cols \<noteq> []" "\<forall>s\<in>set cols. column s" "keys \<noteq> []" "\<forall>k\<in>set keys. column (snd k)"
    "sf_list g = [option_node (keys_arg keys) SF_G_sort, option_node (columns_arg cols) SF_U_o]" "\<not> already_parsed_sort g"
    "format_list g = []" "sort_list g = []" "format_flags g = 0" "format_modifiers g = 0" "thread_flags g = TF_show_proc"
  shows "process_sf_options env g = Val (None, g \<lparr> already_parsed_format := True, already_parsed_sort := True,
    format_list := map (plain_node env None) cols, sort_list := map key_node keys,
    sf_list := [option_node (keys_arg keys) SF_G_sort, option_node (columns_arg cols) SF_U_o] \<rparr>)"
  using parse_O_columns_keys [OF assms(1-6), of env] assms
  by (simp add: process_sf_options_def merge_options_def Let_def has_def format_from_env_def user_format_def option_node_def
      split: option.split)

lemma process_columns:
  assumes "cols \<noteq> []" "\<forall>s\<in>set cols. column s" "sf_list g = [option_node (columns_arg cols) SF_U_o]"
    "format_list g = []" "sort_list g = []" "format_flags g = 0" "format_modifiers g = 0" "thread_flags g = TF_show_proc"
  shows "process_sf_options env g = Val (None, g \<lparr> already_parsed_format := True,
    format_list := map (plain_node env None) cols, sf_list := [option_node (columns_arg cols) SF_U_o] \<rparr>)"
  using parse_O_columns [OF assms(1-3), of env] assms
  by (simp add: process_sf_options_def merge_options_def Let_def has_def format_from_env_def user_format_def option_node_def
      split: option.split)

lemma set_personality_case_simps [simp]:
  "sf_list (set_personality_case h c g) = sf_list g" "have_gnu_sort (set_personality_case h c g) = have_gnu_sort g"
  "already_parsed_sort (set_personality_case h c g) = already_parsed_sort g"
  "already_parsed_format (set_personality_case h c g) = already_parsed_format g"
  "force_bsd (set_personality_case h c g) = force_bsd g" "w_count (set_personality_case h c g) = w_count g"
  by (simp_all add: set_personality_case_def split: personality_case.splits option.splits)

lemma reset_global_simps [simp]:
  "sf_list (reset_global h g) = sf_list g" "have_gnu_sort (reset_global h g) = have_gnu_sort g"
  "already_parsed_sort (reset_global h g) = already_parsed_sort g"
  "already_parsed_format (reset_global h g) = already_parsed_format g"
  "force_bsd (reset_global h g) = force_bsd g" "w_count (reset_global h g) = w_count g"
  "format_list (reset_global h g) = []" "sort_list (reset_global h g) = []" "format_flags (reset_global h g) = 0"
  "format_modifiers (reset_global h g) = 0" "thread_flags (reset_global h g) = 0" "selection_list (reset_global h g) = []"
  "simple_select (reset_global h g) = 0" "negate_selection (reset_global h g) = False"
  "running_only (reset_global h g) = False" "all_processes (reset_global h g) = False" "forest_type (reset_global h g) = NUL"
  by (simp_all add: reset_global_def set_personality_def default_formats_def set_screen_size_def Let_def
      split: option.split prod.split)

text \<open>
  The selection step adds nothing to fail on when no simple selection was given; all processes or the
  listed ones are wanted.
\<close>

lemma has_zero [simp]: "\<not> has 0 m"
  by (simp add: has_def)

lemma select_bits_plain:
  assumes "simple_select g = 0"
  shows "\<exists>b. select_bits_setup g = (None, g \<lparr> select_bits := b \<rparr>)"
proof -
  consider "\<not> prefer_bsd_defaults g" | "prefer_bsd_defaults g" "has (personality g) PER_NO_DEFAULT_g"
    | "prefer_bsd_defaults g" "\<not> has (personality g) PER_NO_DEFAULT_g" by blast
  then show ?thesis
  proof cases
    case 1
    then show ?thesis using assms by (auto simp: select_bits_setup_def)
  next
    case 2
    then have "select_bits_setup g = (None, g \<lparr> select_bits := 0x0202 \<rparr>)"
      using assms by (simp add: select_bits_setup_def Let_def)
    then show ?thesis by blast
  next
    case 3
    then have "select_bits_setup g = (None, g \<lparr> select_bits := 0x0a0a \<rparr>)"
      using assms by (simp add: select_bits_setup_def)
    then show ?thesis by blast
  qed
qed

definition ps_line :: "string list \<Rightarrow> (bool \<times> string) list \<Rightarrow> string list" where
  "ps_line cols keys = [''ps'', ''-e'', ''-o'', columns_arg cols, ''--sort='' @ keys_arg keys]"

lemma columns_arg_not_Nil: "cols \<noteq> [] \<Longrightarrow> \<forall>s\<in>set cols. column s \<Longrightarrow> columns_arg cols \<noteq> []"
  unfolding columns_arg_def using column_word(1) by (intro join_not_Nil) auto

lemma keys_arg_not_Nil: "keys \<noteq> [] \<Longrightarrow> \<forall>k\<in>set keys. column (snd k) \<Longrightarrow> keys_arg keys \<noteq> []"
  unfolding keys_arg_def using column_word(1) by (intro join_not_Nil) (auto simp: key_text_def)

lemma ps_line_options:
  assumes "cols \<noteq> []" "\<forall>s\<in>set cols. column s" "keys \<noteq> []" "\<forall>k\<in>set keys. column (snd k)"
    "ps_argv g = ps_line cols keys" "thisarg g = 0" "\<not> force_bsd g" "sf_list g = []"
  shows "parse_all_options env g = Val (None, g \<lparr> all_processes := True, thisarg := 5, have_gnu_sort := True,
    sf_list := [option_node (keys_arg keys) SF_G_sort, option_node (columns_arg cols) SF_U_o] \<rparr>)"
proof -
  note nonempty = columns_arg_not_Nil [OF assms(1,2)] keys_arg_not_Nil [OF assms(3,4)]
  let ?g1 = "g \<lparr> thisarg := 1, all_processes := True \<rparr>"
  let ?g2 = "snd (defer_sf_option (columns_arg cols) SF_U_o (?g1 \<lparr> thisarg := 3 \<rparr>))"
  let ?g3 = "snd (defer_sf_option (keys_arg keys) SF_G_sort (?g2 \<lparr> thisarg := 4 \<rparr>))"
  have "parse_word env (g \<lparr> thisarg := 1 \<rparr>) = Val (None, ?g1)"
    using assms by (subst word_e) (simp_all add: ps_line_def)
  then have 1: "parse_all_options env g = parse_all_options env ?g1"
    using assms by (subst all_options_step [of g 1 env ?g1]) (simp_all add: ps_line_def)
  have "parse_word env (?g1 \<lparr> thisarg := 2 \<rparr>) = Val (None, ?g2)"
    using assms nonempty by (subst word_o [of _ "columns_arg cols"]) (simp_all add: ps_line_def)
  then have 2: "parse_all_options env ?g1 = parse_all_options env ?g2"
    using assms by (subst all_options_step [of ?g1 2 env ?g2]) (simp_all add: ps_line_def)
  have "parse_word env (?g2 \<lparr> thisarg := 4 \<rparr>) = Val (None, ?g3)"
    using assms nonempty by (subst word_sort [of _ "keys_arg keys"]) (simp_all add: ps_line_def defer_sf_option_def)
  then have 3: "parse_all_options env ?g2 = parse_all_options env ?g3"
    using assms by (subst all_options_step [of ?g2 4 env ?g3]) (simp_all add: ps_line_def defer_sf_option_def)
  show ?thesis unfolding 1 2 3 using assms
    by (subst all_options_end) (simp_all add: ps_line_def defer_sf_option_def option_node_def)
qed

text \<open>The whole state the line leads to, as far as the display reads it.\<close>

lemma ps_line_state:
  assumes "cols \<noteq> []" "\<forall>s\<in>set cols. column s" "keys \<noteq> []" "\<forall>k\<in>set keys. column (snd k)"
    "fresh_parser g" "\<not> has (personality (reset_global h g)) PER_FORCE_BSD"
  shows "\<exists>g'. arg_parse h env (ps_line cols keys) (reset_global h g) = Val g' \<and>
    format_list g' = map (plain_node env None) cols \<and> sort_list g' = map key_node keys \<and>
    (\<forall>p. want_this_proc g' p) \<and> fresh_parser (reset_sortformat g') \<and> thread_flags g' = TF_show_proc \<and>
    forest_type g' = NUL \<and> selection_list g' = [] \<and> (0 < screen_cols (reset_global h g) \<longrightarrow> 0 < screen_cols g')"
proof -
  let ?r = "with_argv (ps_line cols keys) (reset_global h g)"
  let ?s = "[option_node (keys_arg keys) SF_G_sort, option_node (columns_arg cols) SF_U_o]"
  let ?p = "?r \<lparr> all_processes := True, thisarg := 5, have_gnu_sort := True, sf_list := ?s \<rparr>"
  have fresh: "sf_list g = []" "\<not> already_parsed_sort g" "\<not> force_bsd g" "w_count g = 0"
    using assms(5) by (auto simp: fresh_parser_def)
  have options: "parse_all_options env ?r = Val (None, ?p)"
    using fresh by (intro ps_line_options assms) (simp_all add: with_argv_def)
  define q where "q = ?p \<lparr> thread_flags := TF_show_proc, already_parsed_format := True, already_parsed_sort := True,
    format_list := map (plain_node env None) cols, sort_list := map key_node keys, sf_list := ?s \<rparr>"
  have "thread_option_check ?p = (None, ?p \<lparr> thread_flags := TF_show_proc \<rparr>)"
    by (simp add: thread_option_check_def with_argv_def)
  moreover have "process_sf_options env (?p \<lparr> thread_flags := TF_show_proc \<rparr>) = Val (None, q)"
    using fresh by (subst process_columns_keys [OF assms(1-4)]) (simp_all add: q_def with_argv_def)
  moreover obtain b where "select_bits_setup q = (None, q \<lparr> select_bits := b \<rparr>)"
    using select_bits_plain [of q] by (auto simp: q_def with_argv_def)
  ultimately have "arg_parse h env (ps_line cols keys) (reset_global h g) = Val (choose_dimensions (q \<lparr> select_bits := b \<rparr>))"
    using assms(6) options by (simp add: arg_parse_def parse_attempt_def with_argv_def [of _ "reset_global h g"])
  then show ?thesis using fresh
    by (simp add: choose_dimensions_def q_def with_argv_def want_this_proc_def fresh_parser_def reset_sortformat_def)
qed

text \<open>
  C30: The command line of the daemon. ps with -e, -o and a list of column names, and --sort and a
  list of keys is accepted: the columns are those named, in their order, the keys are kept in their
  order with their directions, every process is wanted, and after the reset at the end of the run
  the parser is as before, so the next run reads the line the same way.
\<close>

theorem ps_line_parsed:
  assumes "cols \<noteq> []" "\<forall>s\<in>set cols. column s" "keys \<noteq> []" "\<forall>k\<in>set keys. column (snd k)"
    "fresh_parser g" "\<not> has (personality (reset_global h g)) PER_FORCE_BSD"
  shows "\<exists>g'. arg_parse h env (ps_line cols keys) (reset_global h g) = Val g' \<and>
    format_list g' = map (plain_node env None) cols \<and> sort_list g' = map key_node keys \<and>
    (\<forall>p. want_this_proc g' p) \<and> fresh_parser (reset_sortformat g')"
  using ps_line_state [OF assms] by blast

subsection \<open>A list of process ids\<close>

definition pids_arg :: "nat list \<Rightarrow> string" where
  "pids_arg pids = join (CHR '','') (map dec_of_nat pids)"

definition legal_pid :: "nat \<Rightarrow> bool" where
  "legal_pid n \<longleftrightarrow> 0 < n \<and> n \<le> 0x7fffffff"

lemma parse_pid_dec: "legal_pid n \<Longrightarrow> parse_pid (dec_of_nat n) = Inr (Sel_Num (int n))"
  using strtoul_dec [of "[]" 0 n] by (auto simp: parse_pid_def legal_pid_def starts_digit_def)

lemma parse_items_map: "(\<And>x. x \<in> set xs \<Longrightarrow> f (t x) = Inr (v x)) \<Longrightarrow> parse_items f (map t xs) u = Inr (rev (map v xs) @ u)"
  by (induction xs arbitrary: u) simp_all

lemma digits_no_sep: "\<forall>c\<in>set (dec_of_nat n). \<not> is_list_sep c"
  using dec_of_nat_digits [of n] by (auto simp: is_list_sep_def c_isdigit_def byte_def)

lemma parse_pids:
  assumes "pids \<noteq> []" "\<forall>n\<in>set pids. legal_pid n"
  shows "parse_list (pids_arg pids) parse_pid = Inr (rev (map (\<lambda>n. Sel_Num (int n)) pids))"
proof -
  have words: "\<forall>x\<in>set (map dec_of_nat pids). x \<noteq> [] \<and> (\<forall>c\<in>set x. \<not> is_list_sep c)"
    using digits_no_sep by auto
  have "parse_items parse_pid (map dec_of_nat pids) [] = Inr (rev (map (\<lambda>n. Sel_Num (int n)) pids))"
    using assms(2) by (subst parse_items_map [where v = "\<lambda>n. Sel_Num (int n)"]) (simp_all add: parse_pid_dec)
  then show ?thesis
    using count_items_join [OF _ words, of "CHR '',''"] assms(1) is_list_sep_def [of "CHR '',''"]
    by (simp add: parse_list_def pids_arg_def)
qed

lemma same_pid: "legal_pid n \<Longrightarrow> 0 \<le> m \<Longrightarrow> m < 2 ^ 31 \<Longrightarrow> same_number m (Sel_Num (int n)) \<longleftrightarrow> m = int n"
proof -
  assume h: "legal_pid n" "0 \<le> m" "m < 2 ^ 31"
  have "(word_of_int m :: u32) = word_of_int (int n) \<longleftrightarrow> take_bit 32 m = take_bit 32 (int n)"
    by (simp only: word_of_int_eq_iff) simp
  moreover have "take_bit 32 m = m" "take_bit 32 (int n) = int n"
    using h by (simp_all add: take_bit_int_eq_self legal_pid_def)
  ultimately show ?thesis by (simp add: same_number_def)
qed

definition pid_line :: "string list \<Rightarrow> nat list \<Rightarrow> string list" where
  "pid_line cols pids = [''ps'', ''-o'', columns_arg cols, ''-p'', pids_arg pids]"

lemma pids_arg_not_Nil: "pids \<noteq> [] \<Longrightarrow> pids_arg pids \<noteq> []"
  unfolding pids_arg_def by (intro join_not_Nil) auto

lemma pid_line_options:
  assumes "cols \<noteq> []" "\<forall>s\<in>set cols. column s" "pids \<noteq> []" "\<forall>n\<in>set pids. legal_pid n"
    "ps_argv g = pid_line cols pids" "thisarg g = 0" "\<not> force_bsd g" "sf_list g = []" "selection_list g = []" "\<not> have_gnu_sort g"
  shows "parse_all_options env g = Val (None, g \<lparr> thisarg := 5, sf_list := [option_node (columns_arg cols) SF_U_o],
    selection_list := [\<lparr> sel_u = rev (map (\<lambda>n. Sel_Num (int n)) pids), typecode = SEL_PID \<rparr>] \<rparr>)"
proof -
  note nonempty = columns_arg_not_Nil [OF assms(1,2)] pids_arg_not_Nil [OF assms(3)]
  let ?u = "rev (map (\<lambda>n. Sel_Num (int n)) pids)"
  let ?g1 = "snd (defer_sf_option (columns_arg cols) SF_U_o (g \<lparr> thisarg := 2 \<rparr>))"
  let ?g2 = "push_selection SEL_PID ?u (?g1 \<lparr> thisarg := 4 \<rparr>)"
  have "parse_word env (g \<lparr> thisarg := 1 \<rparr>) = Val (None, ?g1)"
    using assms nonempty by (subst word_o [of _ "columns_arg cols"]) (simp_all add: pid_line_def numeral_2_eq_2)
  then have 1: "parse_all_options env g = parse_all_options env ?g1"
    using assms by (subst all_options_step [of g 1 env ?g1]) (simp_all add: pid_line_def)
  have "parse_word env (?g1 \<lparr> thisarg := 3 \<rparr>) = Val (None, ?g2)"
    using assms nonempty parse_pids [OF assms(3,4)]
    by (subst word_p [of _ "pids_arg pids" ?u]) (simp_all add: pid_line_def defer_sf_option_def)
  then have 2: "parse_all_options env ?g1 = parse_all_options env ?g2"
    using assms by (subst all_options_step [of ?g1 3 env ?g2]) (simp_all add: pid_line_def defer_sf_option_def)
  show ?thesis unfolding 1 2 using assms
    by (subst all_options_end) (simp_all add: pid_line_def defer_sf_option_def option_node_def push_selection_def)
qed

text \<open>
  A list of process ids after -p selects exactly the processes with those ids, and the columns of -o
  are kept.
\<close>

lemma pid_line_selects:
  assumes "cols \<noteq> []" "\<forall>s\<in>set cols. column s" "pids \<noteq> []" "\<forall>n\<in>set pids. legal_pid n"
    "fresh_parser g" "\<not> has (personality (reset_global h g)) PER_FORCE_BSD"
  shows "\<exists>g'. arg_parse h env (pid_line cols pids) (reset_global h g) = Val g' \<and>
    format_list g' = map (plain_node env None) cols \<and> sort_list g' = [] \<and>
    (\<forall>p. 0 \<le> p_tgid p \<and> p_tgid p < 2 ^ 31 \<longrightarrow> (want_this_proc g' p \<longleftrightarrow> p_tgid p \<in> int ` set pids))"
proof -
  let ?r = "with_argv (pid_line cols pids) (reset_global h g)"
  let ?s = "[option_node (columns_arg cols) SF_U_o]"
  let ?n = "[\<lparr> sel_u = rev (map (\<lambda>n. Sel_Num (int n)) pids), typecode = SEL_PID \<rparr>]"
  let ?p = "?r \<lparr> thisarg := 5, sf_list := ?s, selection_list := ?n \<rparr>"
  have fresh: "sf_list g = []" "\<not> have_gnu_sort g" "\<not> force_bsd g" "w_count g = 0"
    using assms(5) by (auto simp: fresh_parser_def)
  have options: "parse_all_options env ?r = Val (None, ?p)"
    using fresh by (intro pid_line_options assms) (simp_all add: with_argv_def)
  define q where "q = ?p \<lparr> thread_flags := TF_show_proc, already_parsed_format := True,
    format_list := map (plain_node env None) cols, sf_list := ?s \<rparr>"
  have "thread_option_check ?p = (None, ?p \<lparr> thread_flags := TF_show_proc \<rparr>)"
    by (simp add: thread_option_check_def with_argv_def)
  moreover have "process_sf_options env (?p \<lparr> thread_flags := TF_show_proc \<rparr>) = Val (None, q)"
    using fresh by (subst process_columns [OF assms(1,2)]) (simp_all add: q_def with_argv_def)
  moreover obtain b where "select_bits_setup q = (None, q \<lparr> select_bits := b \<rparr>)"
    using select_bits_plain [of q] by (auto simp: q_def with_argv_def)
  ultimately have "arg_parse h env (pid_line cols pids) (reset_global h g) = Val (choose_dimensions (q \<lparr> select_bits := b \<rparr>))"
    using assms(6) options by (simp add: arg_parse_def parse_attempt_def with_argv_def [of _ "reset_global h g"])
  moreover have "list_ex (same_number (p_tgid p)) (rev (map (\<lambda>n. Sel_Num (int n)) pids)) \<longleftrightarrow> p_tgid p \<in> int ` set pids"
    if "0 \<le> p_tgid p \<and> p_tgid p < 2 ^ 31" for p
    using that assms(4) same_pid by (auto simp: list_ex_iff)
  ultimately show ?thesis using fresh
    by (auto simp: choose_dimensions_def q_def with_argv_def want_this_proc_def proc_was_listed_def node_matches_def)
qed

subsection \<open>A word that is no option\<close>

definition unknown_name :: "string \<Rightarrow> bool" where
  "unknown_name s \<longleftrightarrow> s \<noteq> [] \<and> c_isalpha (hd s) \<and> is_cstring s \<and> CHR '':'' \<notin> set s \<and> CHR ''='' \<notin> set s \<and>
     s \<notin> set (map fst gnu_table)"

lemma type_long:
  assumes "unknown_name s"
  shows "arg_type (CHR ''-'' # CHR ''-'' # s) = ARG_GNU"
proof -
  have "\<not> c_isalpha (CHR ''-'')" "\<not> c_isdigit (CHR ''-'')"
    by (simp_all add: c_isalpha_def c_islower_def c_isupper_def c_isdigit_def byte_def)
  then show ?thesis using assms by (cases s) (simp_all add: unknown_name_def arg_type_def char_at_def)
qed

lemma unknown_not_found: "unknown_name s \<Longrightarrow> bsearch compare_gnu_table_structs s gnu_table = None"
  by (force simp: gnu_found unknown_name_def find_None_iff)

lemma word_unknown:
  assumes "unknown_name s" "ps_argv g ! thisarg g = CHR ''-'' # CHR ''-'' # s"
  shows "parse_word env g = (if s = ''help'' then Undef Exits else Val (Some ''unknown gnu long option'', g))"
proof -
  have all: "strcspn s '':='' = length s"
    using assms(1) unfolding strcspn_def by (subst takeWhile_eq_all_conv [THEN iffD2]) (auto simp: unknown_name_def)
  have "parse_gnu_option env g = (if s = ''help'' then Undef Exits else Val (Some ''unknown gnu long option'', g))"
  proof (cases "15 < length s")
    case True
    moreover from True have "s \<noteq> ''help''" by auto
    ultimately show ?thesis by (simp add: parse_gnu_option_def Let_def assms(2) all)
  next
    case False
    then show ?thesis
      by (simp only: parse_gnu_option_def Let_def assms(2) drop_Suc_Cons drop_0 numeral_2_eq_2 all take_all order_refl
          unknown_not_found [OF assms(1)] option.case if_False)
  qed
  then show ?thesis using assms by (simp add: parse_word_def type_long)
qed

lemma attempt_unknown:
  assumes "unknown_name s" "ps_argv g = [''ps'', CHR ''-'' # CHR ''-'' # s]" "thisarg g = 0"
  shows "parse_attempt env g = Undef Exits \<or> (\<exists>m g'. parse_attempt env g = Val (Some m, g'))"
proof -
  have "parse_all_options env g =
      (if s = ''help'' then Undef Exits else Val (Some ''unknown gnu long option'', g \<lparr> thisarg := 1 \<rparr>))"
    using assms word_unknown [OF assms(1), of "g \<lparr> thisarg := 1 \<rparr>" env]
    by (subst parse_all_options.simps) simp
  then show ?thesis by (auto simp: parse_attempt_def)
qed

text \<open>
  A long option that is not in the table, as the only option, fails both attempts and ends the
  process, which is the daemon.
\<close>

lemma unknown_option_exits:
  assumes "unknown_name s"
  shows "arg_parse h env [''ps'', ''--'' @ s] g = Undef Exits"
proof -
  have second: "ps_argv (second_chance h argv k) = argv" "thisarg (second_chance h argv k) = 0" for argv k
    by (simp_all add: second_chance_def with_argv_def Let_def)
  have bsd: "try_bsd h env [''ps'', CHR ''-'' # CHR ''-'' # s] k = Undef Exits" for k
    using attempt_unknown [OF assms second [of "[''ps'', CHR ''-'' # CHR ''-'' # s]" k], of env] by (auto simp: try_bsd_def)
  moreover have "arg_parse h env [''ps'', CHR ''-'' # CHR ''-'' # s] g = Undef Exits"
    using attempt_unknown [OF assms, of "with_argv [''ps'', CHR ''-'' # CHR ''-'' # s] g" env] bsd
    by (auto simp: arg_parse_def with_argv_def Let_def)
  ultimately show ?thesis by simp
qed

end
