(* ===== verification/PsDisplayProps.thy ===== *)
theory PsDisplayProps
  imports PsDisplay PsParserProps
begin

text \<open>
  What ps shows: the sorted list has the lines of the wanted processes in the order of the keys, the
  forest shows every process once, below its parent; and the command the daemon runs for its list of
  processes, from the words of its command line to the text.
\<close>

subsection \<open>Printing keeps the settings\<close>

lemma show_columns_keeps:
  "show_columns env g p ns correct actual dospace out = Val (t, out') \<Longrightarrow>
   forest_prefix out' = forest_prefix out \<and> did_stuff out' = did_stuff out"
proof (induction ns arbitrary: correct actual dospace out t out')
  case (Cons n ns)
  let ?tmp = "if ns \<noteq> [] then 0 else if correct - actual < 1 then dospace else correct - actual"
  let ?right = "if ns \<noteq> [] then fn_width n else if correct - actual < 1 then active_cols out - actual - ?tmp else active_cols out - correct"
  let ?out = "out \<lparr> max_rightward := ?right \<rparr>"
  obtain word amount where c: "cell env g ?out p n = Val (word, amount)"
    using Cons.prems by (cases "cell env g ?out p n") (auto simp: Let_def)
  obtain left legit cut where j: "justify g ?out n (active_cols ?out - actual - ?tmp) (word, amount) = (left, legit, cut)"
    using prod_cases3 by blast
  show ?case
  proof (cases ns)
    case Nil
    then show ?thesis using Cons.prems c j by (auto simp: Let_def cong: if_cong)
  next
    case more: (Cons m ms)
    obtain correct' actual' dospace' r where "show_columns env g p ns correct' actual' dospace'
        (?out \<lparr> out_buf := cut \<rparr>) = Val r" "out' = snd r"
      using Cons.prems c j more
      by (subst (asm) show_columns.simps(2)) (auto simp: Let_def obind_eq_Val simp del: show_columns.simps cong: if_cong)
    then show ?thesis using Cons.IH by (cases r) fastforce
  qed
qed simp

lemma show_one_proc_keeps:
  assumes "show_one_proc env p fmt (g, out) = Val (t, g', out')"
  shows "\<exists>n. g' = g \<lparr> lines_to_next_header := n \<rparr>" "forest_prefix out' = forest_prefix out" "did_stuff out'"
proof -
  obtain due h where h: "header_due g = (due, h)" by fastforce
  then show "\<exists>n. g' = g \<lparr> lines_to_next_header := n \<rparr>"
    using assms by (auto simp: show_one_proc_def header_due_def Let_def obind_eq_Val split: if_splits)
  show "forest_prefix out' = forest_prefix out" "did_stuff out'"
    using assms h by (auto simp: show_one_proc_def show_line_def obind_eq_Val split: if_splits dest!: show_columns_keeps)
qed

subsection \<open>The forest\<close>

text \<open>
  The rows of a tree, each with its prefix, and the prefix at the end: \<open>show_tree\<close> without the printing.
\<close>

definition prefix_at :: "nat \<Rightarrow> char \<Rightarrow> string \<Rightarrow> string" where
  "prefix_at level c pre = (if level = 0 then pre else take (level - 1) pre @ [c])"

fun tree_rows :: "nat \<Rightarrow> char \<Rightarrow> proc_t list \<Rightarrow> proc_t \<Rightarrow> nat \<Rightarrow> bool \<Rightarrow> string \<Rightarrow> ((proc_t \<times> string) list \<times> string) option"
  and child_rows :: "nat \<Rightarrow> char \<Rightarrow> proc_t list \<Rightarrow> nat \<Rightarrow> proc_t list \<Rightarrow> string \<Rightarrow> ((proc_t \<times> string) list \<times> string) option" where
  "tree_rows 0 k ps p level sibling pre = None"
| "tree_rows (Suc fuel) k ps p level sibling pre =
     (if FOREST_SIZE \<le> level then None
      else let own = prefix_at level (if sibling then CHR ''+'' else CHR ''L'') pre
           in if children ps p = [] then Some ([(p, own)], own)
              else map_option (\<lambda>(rows, pre'). ((p, own) # rows, take level pre'))
                     (child_rows fuel k ps (child_level k p level) (children ps p) (prefix_at level (if sibling then CHR ''|'' else CHR '' '') own)))"
| "child_rows fuel k ps level [] pre = Some ([], pre)"
| "child_rows 0 k ps level (q # qs) pre = None"
| "child_rows (Suc fuel) k ps level (q # qs) pre =
     (case tree_rows fuel k ps q level (qs \<noteq> []) pre of
        None \<Rightarrow> None
      | Some (rows, pre) \<Rightarrow> map_option (\<lambda>(rows', pre'). (rows @ rows', pre')) (child_rows fuel k ps level qs pre))"

text \<open>Printing rows with their prefixes.\<close>

definition show_row :: "out_env \<Rightarrow> proc_t \<times> string \<Rightarrow> ps_state \<times> out_state \<Rightarrow> (string \<times> ps_state \<times> out_state) outcome" where
  "show_row env r s = show_one_proc env (fst r) (format_list (fst s)) (fst s, snd s \<lparr> forest_prefix := snd r \<rparr>)"

definition rows_then :: "out_env \<Rightarrow> (proc_t \<times> string) list \<Rightarrow> string \<Rightarrow> ps_state \<times> out_state \<Rightarrow> (string \<times> ps_state \<times> out_state) outcome" where
  "rows_then env rows pre s = obind (each (show_row env) rows s) (\<lambda>(t, g, out). Val (t, g, out \<lparr> forest_prefix := pre \<rparr>))"

lemma show_row_prefix: "show_row env r (g, out \<lparr> forest_prefix := pre \<rparr>) = show_row env r (g, out)"
  by (simp add: show_row_def)

lemma rows_then_prefix: "rows_then env rows pre (g, out \<lparr> forest_prefix := x \<rparr>) = rows_then env rows pre (g, out)"
  by (cases rows) (simp_all add: rows_then_def show_row_prefix)

lemma rows_then_Cons:
  "rows_then env (r # rows) pre s = obind (show_row env r s) (\<lambda>(t, s). obind (rows_then env rows pre s) (\<lambda>(u, s). Val (t @ u, s)))"
  by (auto simp: rows_then_def obind_def split: outcome.splits prod.splits)

lemma rows_then_append:
  "rows_then env (rows @ rows') pre' (g, out) =
     obind (rows_then env rows pre (g, out)) (\<lambda>(t, s). obind (rows_then env rows' pre' s) (\<lambda>(u, s). Val (t @ u, s)))"
proof (induction rows arbitrary: g out)
  case Nil
  show ?case using rows_then_prefix [of env rows' pre' g pre out]
    by (auto simp: rows_then_def [of _ "[]"] obind_def split: outcome.splits prod.splits)
next
  case (Cons r rows)
  show ?case
    by (cases "show_row env r (g, out)") (auto simp: rows_then_Cons Cons.IH obind_def split: outcome.splits prod.splits)
qed

lemma set_prefix_at: "set_prefix level c out = out \<lparr> forest_prefix := prefix_at level c (forest_prefix out) \<rparr>"
  by (simp add: set_prefix_def prefix_at_def)

text \<open>A row leaves its prefix behind.\<close>

lemma show_row_end:
  assumes "show_row env (p, own) (g, out) = Val (t, g', out')"
  shows "\<exists>n. g' = g \<lparr> lines_to_next_header := n \<rparr>" "forest_prefix out' = own"
  using show_one_proc_keeps [of env p "format_list g" g "out \<lparr> forest_prefix := own \<rparr>" t g' out'] assms
  by (auto simp: show_row_def)

lemma rows_then_end:
  "rows_then env rows pre (g, out) = Val (t, g', out') \<Longrightarrow> (\<exists>n. g' = g \<lparr> lines_to_next_header := n \<rparr>) \<and> forest_prefix out' = pre"
proof (induction rows arbitrary: g out t)
  case Nil
  then have "g' = g \<lparr> lines_to_next_header := lines_to_next_header g \<rparr>" by (simp add: rows_then_def)
  then show ?case using Nil by (auto simp: rows_then_def intro: exI [of _ "lines_to_next_header g"])
next
  case (Cons r rows)
  obtain t1 g1 out1 t2 where "show_row env r (g, out) = Val (t1, g1, out1)" "rows_then env rows pre (g1, out1) = Val (t2, g', out')"
    using Cons.prems by (auto simp: rows_then_Cons obind_eq_Val)
  then show ?case using show_row_end [of env "fst r" "snd r" g out t1 g1 out1] Cons.IH [of g1 out1 t2] by auto
qed

lemma show_tree_rows:
  "tree_rows fuel (forest_type g) ps p level sibling (forest_prefix out) = Some (rows, pre) \<Longrightarrow>
     show_tree fuel env ps p level sibling (g, out) = rows_then env rows pre (g, out)"
  "child_rows fuel (forest_type g) ps level qs (forest_prefix out) = Some (rows, pre) \<Longrightarrow>
     show_children fuel env ps p level qs (g, out) = rows_then env rows pre (g, out)"
proof (induction fuel arbitrary: g p level sibling out rows pre qs)
  case 0
  {
    case 1
    then show ?case by simp
  next
    case 2
    then show ?case by (cases qs) (auto simp: rows_then_def)
  }
next
  case (Suc fuel)
  {
    case 1
    let ?own = "prefix_at level (if sibling then CHR ''+'' else CHR ''L'') (forest_prefix out)"
    have shown: "show_one_proc env p (format_list g) (g, set_prefix level (if sibling then CHR ''+'' else CHR ''L'') out) =
        show_row env (p, ?own) (g, out)"
      by (simp add: show_row_def set_prefix_at)
    show ?case
    proof (cases "show_row env (p, ?own) (g, out)")
      case (Val r)
      obtain t g' out' where r: "r = (t, g', out')" by (cases r) auto
      obtain n where n: "g' = g \<lparr> lines_to_next_header := n \<rparr>" "forest_prefix out' = ?own"
        using show_row_end [of env p ?own g out t g' out'] Val r by auto
      then have own: "out' \<lparr> forest_prefix := ?own \<rparr> = out'" by (cases out') simp
      show ?thesis
      proof (cases "children ps p = []")
        case True
        then show ?thesis using 1 Val r shown own by (auto simp: rows_then_def Let_def split: if_splits)
      next
        case False
        let ?pre = "prefix_at level (if sibling then CHR ''|'' else CHR '' '') ?own"
        obtain rs pre' where rs: "child_rows fuel (forest_type g) ps (child_level (forest_type g) p level) (children ps p) ?pre = Some (rs, pre')"
            "rows = (p, ?own) # rs" "pre = take level pre'" "level < FOREST_SIZE"
          using 1 False by (auto simp: Let_def split: if_splits)
        have "show_children fuel env ps p (child_level (forest_type g') p level) (children ps p) (g', set_prefix level (if sibling then CHR ''|'' else CHR '' '') out') =
            rows_then env rs pre' (g', out')"
          using rs(1) n by (subst Suc.IH(2) [where rows = rs and pre = pre'])
            (simp_all add: set_prefix_at rows_then_prefix child_level_def)
        then show ?thesis using False Val r shown rs(2-4) n(1)
          by (auto simp: rows_then_Cons rows_then_def chop_prefix_def child_level_def obind_def split: outcome.splits)
      qed
    next
      case (Undef u)
      then show ?thesis using 1 shown by (auto simp: Let_def rows_then_Cons rows_then_def split: if_splits)
    qed
  next
    case 2
    show ?case
    proof (cases qs)
      case Nil
      then show ?thesis using 2 by (simp add: rows_then_def)
    next
      case (Cons q qs')
      obtain r1 p1 r2 where r1: "tree_rows fuel (forest_type g) ps q level (qs' \<noteq> []) (forest_prefix out) = Some (r1, p1)"
          and r2: "child_rows fuel (forest_type g) ps level qs' p1 = Some (r2, pre)" "rows = r1 @ r2"
        using 2 Cons by (auto split: option.splits)
      have later: "show_children fuel env ps p level qs' s = rows_then env r2 pre s"
        if first: "rows_then env r1 p1 (g, out) = Val (t, s)" for t s
      proof -
        obtain g' out' where s: "s = (g', out')" by (cases s)
        obtain n where "g' = g \<lparr> lines_to_next_header := n \<rparr>" "forest_prefix out' = p1"
          using rows_then_end [OF first [unfolded s]] by blast
        then show ?thesis using r2(1) s by (simp add: Suc.IH(2))
      qed
      show ?thesis unfolding Cons r2(2) using later
        by (simp add: Suc.IH(1) [OF r1] rows_then_append [of _ _ _ _ _ _ p1] obind_def split: outcome.splits)
    qed
  }
qed

fun forest_rows :: "nat \<Rightarrow> char \<Rightarrow> proc_t list \<Rightarrow> proc_t list \<Rightarrow> string \<Rightarrow> ((proc_t \<times> string) list \<times> string) option" where
  "forest_rows fuel k ps [] pre = Some ([], pre)"
| "forest_rows fuel k ps (q # qs) pre =
     (if is_root ps q then
        (case tree_rows fuel k ps q 0 False pre of
           None \<Rightarrow> None
         | Some (rows, pre) \<Rightarrow> map_option (\<lambda>(rows', pre'). (rows @ rows', pre')) (forest_rows fuel k ps qs pre))
      else forest_rows fuel k ps qs pre)"

lemma show_forest_rows:
  "forest_rows fuel (forest_type g) ps qs (forest_prefix out) = Some (rows, pre) \<Longrightarrow>
   each (\<lambda>p. if is_root ps p then show_tree fuel env ps p 0 False else (\<lambda>s. Val ([], s))) qs (g, out) = rows_then env rows pre (g, out)"
proof (induction qs arbitrary: g out rows)
  case Nil
  then show ?case by (auto simp: rows_then_def)
next
  case (Cons q qs)
  show ?case
  proof (cases "is_root ps q")
    case True
    then obtain r1 p1 r2 where r: "tree_rows fuel (forest_type g) ps q 0 False (forest_prefix out) = Some (r1, p1)"
        "forest_rows fuel (forest_type g) ps qs p1 = Some (r2, pre)" "rows = r1 @ r2"
      using Cons.prems by (auto split: option.splits)
    have later: "each (\<lambda>p. if is_root ps p then show_tree fuel env ps p 0 False else (\<lambda>s. Val ([], s))) qs s = rows_then env r2 pre s"
      if first: "rows_then env r1 p1 (g, out) = Val (t, s)" for t s
    proof -
      obtain g' out' where s: "s = (g', out')" by (cases s)
      obtain n where "g' = g \<lparr> lines_to_next_header := n \<rparr>" "forest_prefix out' = p1"
        using rows_then_end [OF first [unfolded s]] by blast
      then show ?thesis using r(2) s by (simp add: Cons.IH)
    qed
    show ?thesis unfolding r(3) using later True
      by (simp add: show_tree_rows(1) [OF r(1)] rows_then_append [of _ _ _ _ _ _ p1] obind_def split: outcome.splits)
  next
    case False
    then have "forest_rows fuel (forest_type g) ps qs (forest_prefix out) = Some (rows, pre)" using Cons.prems by simp
    then show ?thesis using False Cons.IH [of g out rows] by (auto simp: obind_def split: outcome.splits)
  qed
qed

text \<open>
  A table the forest shows completely: no process id twice, sorted by the parent, and a rank that a
  parent has below its children, such as the depth; it bounds the length of the prefix.
\<close>

definition forest_ok :: "proc_t list \<Rightarrow> (proc_t \<Rightarrow> nat) \<Rightarrow> bool" where
  "forest_ok ps rank \<longleftrightarrow> distinct (map p_tid ps) \<and> sorted (map p_ppid ps) \<and> (\<forall>p\<in>set ps. rank p < FOREST_SIZE) \<and>
     (\<forall>p\<in>set ps. \<forall>q\<in>set ps. p_tid q = p_ppid p \<longrightarrow> rank q < rank p)"

lemma run_front: "sorted (map f xs) \<Longrightarrow> \<forall>x\<in>set xs. a \<le> f x \<Longrightarrow> takeWhile (\<lambda>x. f x = a) xs = filter (\<lambda>x. f x = a) xs"
proof (induction xs)
  case (Cons x xs)
  show ?case
  proof (cases "f x = a")
    case False
    then have "\<forall>y\<in>set xs. f y \<noteq> a" using Cons.prems by fastforce
    then show ?thesis using False by (simp add: filter_empty_conv)
  qed (use Cons in simp)
qed simp

lemma run_is_filter: "sorted (map f xs) \<Longrightarrow> takeWhile (\<lambda>x. f x = a) (dropWhile (\<lambda>x. f x \<noteq> a) xs) = filter (\<lambda>x. f x = a) xs"
proof (induction xs)
  case (Cons x xs)
  show ?case
  proof (cases "f x = a")
    case True
    then have "takeWhile (\<lambda>x. f x = a) xs = filter (\<lambda>x. f x = a) xs"
      using Cons.prems by (intro run_front) auto
    then show ?thesis using True by simp
  qed (use Cons in simp)
qed simp

lemma children_filter: "forest_ok ps rank \<Longrightarrow> children ps p = filter (\<lambda>q. p_ppid q = p_tid p) ps"
  by (simp add: children_def forest_ok_def run_is_filter)

inductive below :: "proc_t list \<Rightarrow> proc_t \<Rightarrow> proc_t \<Rightarrow> bool" for ps p where
  below_refl: "below ps p p"
| below_child: "below ps p q \<Longrightarrow> x \<in> set ps \<Longrightarrow> p_ppid x = p_tid q \<Longrightarrow> below ps p x"

lemma below_rank: "below ps p x \<Longrightarrow> forest_ok ps rank \<Longrightarrow> p \<in> set ps \<Longrightarrow> x \<in> set ps \<and> (x = p \<or> rank p < rank x)"
  by (induction rule: below.induct) (fastforce simp: forest_ok_def)+

lemma below_first:
  assumes "below ps q x" "q \<in> set ps" "p_ppid q = p_tid p" shows "below ps p x"
  using assms by induction (auto intro: below.intros)

lemma below_split:
  assumes "forest_ok ps rank"
  shows "below ps p x \<longleftrightarrow> x = p \<or> (\<exists>q\<in>set (children ps p). below ps q x)"
proof
  assume "below ps p x"
  then show "x = p \<or> (\<exists>q\<in>set (children ps p). below ps q x)"
    by induction (auto simp: children_filter [OF assms] intro: below.intros)
qed (auto simp: children_filter [OF assms] intro: below.intros below_first)

lemma parent_unique: "forest_ok ps rank \<Longrightarrow> y \<in> set ps \<Longrightarrow> z \<in> set ps \<Longrightarrow> p_tid y = p_tid z \<Longrightarrow> y = z"
  by (simp add: forest_ok_def distinct_map inj_on_def)

text \<open>Two processes with the same parent, or with none, have nothing below both.\<close>

lemma below_disjoint:
  assumes ok: "forest_ok ps rank" and q: "q1 \<in> set ps" "q2 \<in> set ps" "q1 \<noteq> q2"
    and same: "\<forall>y\<in>set ps. p_tid y = p_ppid q1 \<longleftrightarrow> p_tid y = p_ppid q2"
  shows "below ps q1 x \<Longrightarrow> \<not> below ps q2 x"
proof (induction rule: below.induct)
  case below_refl
  show ?case
  proof
    assume "below ps q2 q1"
    then obtain y where y: "below ps q2 y" "p_ppid q1 = p_tid y" using q(3) by (auto elim: below.cases)
    then have "y \<in> set ps" "rank q2 \<le> rank y" using below_rank [OF y(1) ok q(2)] by auto
    moreover have "rank y < rank q2" using ok same y(2) q(2) calculation(1) by (auto simp: forest_ok_def)
    ultimately show False by simp
  qed
next
  case step: (below_child y x)
  have y: "y \<in> set ps" "rank q1 \<le> rank y" using below_rank [OF step.hyps(1) ok q(1)] by auto
  show ?case
  proof
    assume "below ps q2 x"
    then show False
    proof cases
      case below_refl
      then have "p_tid y = p_ppid q1" using same y(1) step.hyps(3) by auto
      then have "rank y < rank q1" using ok y(1) q(1) by (auto simp: forest_ok_def)
      then show False using y(2) by simp
    next
      case inner: (below_child z)
      have "z \<in> set ps" using below_rank [OF inner(1) ok q(2)] by simp
      then have "z = y" using parent_unique [OF ok _ y(1)] inner(3) step.hyps(3) by simp
      then show False using inner(1) step.IH by simp
    qed
  qed
qed

lemma below_root:
  assumes "forest_ok ps rank" "x \<in> set ps"
  shows "\<exists>r\<in>set ps. is_root ps r \<and> below ps r x"
  using assms(2)
proof (induction "rank x" arbitrary: x rule: less_induct)
  case less
  show ?case
  proof (cases "is_root ps x")
    case False
    then obtain q where q: "q \<in> set ps" "p_tid q = p_ppid x" by (auto simp: is_root_def list_ex_iff)
    then have "rank q < rank x" using assms(1) less.prems by (auto simp: forest_ok_def)
    then obtain r where "r \<in> set ps" "is_root ps r" "below ps r q" using less.hyps q(1) by blast
    then show ?thesis using q(2) less.prems below_child [of ps r q x] by auto
  qed (use less.prems in \<open>auto intro: below_refl\<close>)
qed

lemma filter_union_mset:
  assumes "\<And>x. x \<in> set xs \<Longrightarrow> \<not> (P x \<and> Q x)"
  shows "mset (filter (\<lambda>x. P x \<or> Q x) xs) = mset (filter P xs) + mset (filter Q xs)"
  using assms by (induction xs) auto

lemma filter_self: "distinct xs \<Longrightarrow> p \<in> set xs \<Longrightarrow> filter (\<lambda>x. x = p) xs = [p]"
  by (induction xs) (auto simp: filter_empty_conv)

text \<open>The rows of a tree are the processes below its root, each once.\<close>

lemma rows_are_below:
  assumes ok: "forest_ok ps rank"
  shows "tree_rows fuel k ps p level sibling pre = Some (rows, pre') \<Longrightarrow> p \<in> set ps \<Longrightarrow>
      mset (map fst rows) = mset (filter (below ps p) ps)"
    "child_rows fuel k ps level qs pre = Some (rows, pre') \<Longrightarrow> set qs \<subseteq> set ps \<Longrightarrow> distinct qs \<Longrightarrow> \<forall>q\<in>set qs. p_ppid q = a \<Longrightarrow>
      mset (map fst rows) = mset (filter (\<lambda>x. \<exists>q\<in>set qs. below ps q x) ps)"
proof (induction fuel arbitrary: p level sibling pre rows pre' qs a)
  case 0
  {
    case 1
    then show ?case by simp
  next
    case 2
    then show ?case by (cases qs) auto
  }
next
  case (Suc fuel)
  have dist: "distinct ps" using ok by (auto simp: forest_ok_def distinct_map)
  {
    case 1
    have alone: "mset (filter (\<lambda>x. x = p) ps) = {#p#}"
      using 1(2) dist by (simp only: filter_self) simp
    have apart: "\<not> (x = p \<and> (\<exists>q\<in>set (children ps p). below ps q x))" for x
    proof (clarify)
      fix q assume q: "q \<in> set (children ps p)" "below ps q p"
      then have q': "q \<in> set ps" "p_ppid q = p_tid p" by (auto simp: children_filter [OF ok])
      then have "rank p < rank q" using ok 1(2) by (auto simp: forest_ok_def)
      then show False using below_rank [OF q(2) ok q'(1)] by auto
    qed
    have split: "mset (filter (below ps p) ps) = {#p#} + mset (filter (\<lambda>x. \<exists>q\<in>set (children ps p). below ps q x) ps)"
      using filter_union_mset [of ps "\<lambda>x. x = p" "\<lambda>x. \<exists>q\<in>set (children ps p). below ps q x"] apart alone
      by (simp add: below_split [OF ok, of p])
    have kids: "set (children ps p) \<subseteq> set ps" "distinct (children ps p)" "\<forall>q\<in>set (children ps p). p_ppid q = p_tid p"
      using dist by (auto simp: children_filter [OF ok])
    show ?case
    proof (cases "children ps p = []")
      case True
      then show ?thesis unfolding split using 1(1) by (auto simp: Let_def split: if_splits)
    next
      case False
      then obtain rs lv pr pr' where "child_rows fuel k ps lv (children ps p) pr = Some (rs, pr')" "map fst rows = p # map fst rs"
        using 1(1) by (auto simp: Let_def split: if_splits)
      then show ?thesis unfolding split using Suc.IH(2) [OF _ kids] by simp
    qed
  next
    case 2
    show ?case
    proof (cases qs)
      case Nil
      then show ?thesis using 2(1) by simp
    next
      case (Cons q qs')
      obtain r1 p1 r2 where r: "tree_rows fuel k ps q level (qs' \<noteq> []) pre = Some (r1, p1)"
          "child_rows fuel k ps level qs' p1 = Some (r2, pre')" "rows = r1 @ r2"
        using 2(1) Cons by (auto split: option.splits)
      have q: "q \<in> set ps" "set qs' \<subseteq> set ps" "distinct qs'" "\<forall>q\<in>set qs'. p_ppid q = a" "q \<notin> set qs'" "p_ppid q = a"
        using 2(2-4) Cons by auto
      have "\<not> below ps q' x" if "below ps q x" "q' \<in> set qs'" for x q'
        by (rule below_disjoint [OF ok q(1) _ _ _ that(1)]) (use q that in auto)
      then have apart: "\<not> (below ps q x \<and> (\<exists>q'\<in>set qs'. below ps q' x))" for x by blast
      show ?thesis
        using filter_union_mset [of ps "below ps q" "\<lambda>x. \<exists>q'\<in>set qs'. below ps q' x", OF apart]
          Suc.IH(1) [OF r(1) q(1)] Suc.IH(2) [OF r(2) q(2-4)] unfolding Cons r(3) by simp
    qed
  }
qed

lemma forest_rows_below:
  assumes ok: "forest_ok ps rank"
  shows "forest_rows fuel k ps qs pre = Some (rows, pre') \<Longrightarrow> set qs \<subseteq> set ps \<Longrightarrow> distinct qs \<Longrightarrow>
    mset (map fst rows) = mset (filter (\<lambda>x. \<exists>q\<in>set qs. is_root ps q \<and> below ps q x) ps)"
proof (induction qs arbitrary: pre rows)
  case (Cons q qs)
  show ?case
  proof (cases "is_root ps q")
    case True
    then obtain r1 p1 r2 where r: "tree_rows fuel k ps q 0 False pre = Some (r1, p1)"
        "forest_rows fuel k ps qs p1 = Some (r2, pre')" "rows = r1 @ r2"
      using Cons.prems(1) by (auto split: option.splits)
    have q: "q \<in> set ps" "set qs \<subseteq> set ps" "q \<notin> set qs" "distinct qs" using Cons.prems by auto
    have apart: "\<not> (below ps q x \<and> (\<exists>q'\<in>set qs. is_root ps q' \<and> below ps q' x))" for x
      using below_disjoint [OF ok q(1), of _ x] q True unfolding is_root_def list_ex_iff by blast
    show ?thesis
      using filter_union_mset [of ps "below ps q" "\<lambda>x. \<exists>q'\<in>set qs. is_root ps q' \<and> below ps q' x"] apart True
        rows_are_below(1) [OF ok r(1) q(1)] Cons.IH [OF r(2) q(2,4)] by (simp add: r(3))
  qed (use Cons in simp)
qed simp

text \<open>Enough fuel gives the rows.\<close>

lemma tree_rows_enough:
  assumes ok: "forest_ok ps rank" and "p \<in> set ps"
  shows "\<exists>N. \<forall>fuel\<ge>N. \<forall>level sibling pre. level \<le> rank p \<longrightarrow> tree_rows fuel k ps p level sibling pre \<noteq> None"
  using assms(2)
proof (induction "FOREST_SIZE - rank p" arbitrary: p rule: less_induct)
  case less
  have many: "\<exists>N. \<forall>fuel\<ge>N. \<forall>level pre. (\<forall>q\<in>set qs. level \<le> rank q) \<longrightarrow> child_rows fuel k ps level qs pre \<noteq> None"
    if "\<forall>q\<in>set qs. \<exists>N. \<forall>fuel\<ge>N. \<forall>level sibling pre. level \<le> rank q \<longrightarrow> tree_rows fuel k ps q level sibling pre \<noteq> None" for qs
    using that
  proof (induction qs)
    case (Cons q qs)
    then obtain N M where N: "\<forall>fuel\<ge>N. \<forall>level sibling pre. level \<le> rank q \<longrightarrow> tree_rows fuel k ps q level sibling pre \<noteq> None"
      and M: "\<forall>fuel\<ge>M. \<forall>level pre. (\<forall>q\<in>set qs. level \<le> rank q) \<longrightarrow> child_rows fuel k ps level qs pre \<noteq> None"
      by auto
    show ?case
    proof (rule exI [of _ "Suc (max N M)"], intro allI impI)
      fix fuel level pre assume f: "Suc (max N M) \<le> fuel" "\<forall>q\<in>set (q # qs). level \<le> rank q"
      then obtain f' where f': "fuel = Suc f'" "N \<le> f'" "M \<le> f'" by (cases fuel) auto
      obtain rows pre' where "tree_rows f' k ps q level (qs \<noteq> []) pre = Some (rows, pre')"
        using N f f' by fastforce
      then show "child_rows fuel k ps level (q # qs) pre \<noteq> None" using M f f' by simp
    qed
  qed simp
  have kids: "\<forall>q\<in>set (children ps p). q \<in> set ps \<and> rank p < rank q"
    using ok less.prems by (auto simp: children_filter [OF ok] forest_ok_def)
  have small: "rank p < FOREST_SIZE" using ok less.prems by (simp add: forest_ok_def)
  have "\<forall>q\<in>set (children ps p). \<exists>N. \<forall>fuel\<ge>N. \<forall>level sibling pre. level \<le> rank q \<longrightarrow> tree_rows fuel k ps q level sibling pre \<noteq> None"
    using kids small by (intro ballI less.hyps) auto
  from many [OF this] obtain N where N: "\<forall>fuel\<ge>N. \<forall>level pre. (\<forall>q\<in>set (children ps p). level \<le> rank q) \<longrightarrow>
      child_rows fuel k ps level (children ps p) pre \<noteq> None" by blast
  show ?case
  proof (rule exI [of _ "Suc N"], intro allI impI)
    fix fuel level sibling pre assume f: "Suc N \<le> fuel" "level \<le> rank p"
    then obtain f' where f': "fuel = Suc f'" "N \<le> f'" by (cases fuel) auto
    have "\<forall>q\<in>set (children ps p). child_level k p level \<le> rank q" using kids f(2) by (auto simp: child_level_def)
    then show "tree_rows fuel k ps p level sibling pre \<noteq> None" using N f f' small by (auto simp: Let_def)
  qed
qed

lemma forest_rows_enough:
  assumes ok: "forest_ok ps rank" and "set qs \<subseteq> set ps"
  shows "\<exists>N. \<forall>fuel\<ge>N. \<forall>pre. forest_rows fuel k ps qs pre \<noteq> None"
  using assms(2)
proof (induction qs)
  case (Cons q qs)
  then obtain N M where N: "\<forall>fuel\<ge>N. \<forall>level sibling pre. level \<le> rank q \<longrightarrow> tree_rows fuel k ps q level sibling pre \<noteq> None"
    and M: "\<forall>fuel\<ge>M. \<forall>pre. forest_rows fuel k ps qs pre \<noteq> None"
    using tree_rows_enough [OF ok, of q k] by auto
  show ?case
  proof (rule exI [of _ "max N M"], intro allI impI)
    fix fuel pre assume f: "max N M \<le> fuel"
    obtain rows pre' where "tree_rows fuel k ps q 0 False pre = Some (rows, pre')" using N f by fastforce
    then show "forest_rows fuel k ps (q # qs) pre \<noteq> None"
      using M [rule_format, of fuel pre] M [rule_format, of fuel pre'] f by auto
  qed
qed simp

subsection \<open>The sorted list\<close>

lemma show_array_rows:
  "has (thread_flags g) TF_show_proc \<Longrightarrow> \<not> has (thread_flags g) TF_show_task \<Longrightarrow>
   show_proc_array env src flags d ps (g, out) = each (\<lambda>p. show_one_proc env p (proc_format_list d)) ps (g, out)"
  unfolding show_proc_array_def
proof (induction ps arbitrary: g out)
  case (Cons p ps)
  show ?case
  proof (cases "show_one_proc env p (proc_format_list d) (g, out)")
    case (Val r)
    obtain t g' out' where r: "r = (t, g', out')" by (cases r) auto
    then obtain n where "g' = g \<lparr> lines_to_next_header := n \<rparr>" using show_one_proc_keeps(1) Val by blast
    then show ?thesis using Cons Val r by (simp add: show_array_one_def)
  qed (use Cons.prems in \<open>simp add: show_array_one_def\<close>)
qed simp

lemma each_did_stuff:
  assumes "each (\<lambda>p. show_one_proc env p fmt) ps s = Val (t, g, out)" "ps \<noteq> []" shows "did_stuff out"
proof -
  have "did_stuff o1" if "each (\<lambda>p. show_one_proc env p fmt) qs (g1, o2) = Val (u, g2, o1)" "did_stuff o2" for qs g1 o2 u g2 o1
    using that
  proof (induction qs arbitrary: g1 o2 u)
    case (Cons q qs)
    then show ?case by (fastforce simp: obind_eq_Val dest: show_one_proc_keeps(3))
  qed simp
  moreover obtain p ps' where "ps = p # ps'" using assms(2) by (cases ps) auto
  ultimately show ?thesis using assms(1) by (cases s) (fastforce simp: obind_eq_Val dest: show_one_proc_keeps(3))
qed

subsection \<open>The flags of a plain run\<close>

text \<open>None of \<open>PROC_PID\<close>, \<open>PROC_LOOSE_TASKS\<close> and \<open>PROC_UID\<close>, which change what \<open>openproc\<close> goes through.\<close>

definition plain_flags :: "u32 \<Rightarrow> bool" where
  "plain_flags flags \<longleftrightarrow> \<not> bit flags 12 \<and> \<not> bit flags 13 \<and> \<not> bit flags 14"

lemma has_bit: "has flags (2 ^ n) \<longleftrightarrow> bit flags n"
  by (simp add: has_def and_exp_eq_0_iff_not_bit)

lemma special_flags:
  "has flags PROC_PID \<longleftrightarrow> bit flags 12" "has flags PROC_LOOSE_TASKS \<longleftrightarrow> bit flags 13" "has flags 0x4000 \<longleftrightarrow> bit flags 14"
  using has_bit [of flags 12] has_bit [of flags 13] has_bit [of flags 14] by simp_all

lemma plain_flags_simps [simp]:
  "plain_flags (a OR b) \<longleftrightarrow> plain_flags a \<and> plain_flags b" "plain_flags a \<Longrightarrow> plain_flags (a AND b)"
  "plain_flags 0" "plain_flags NEED_COM" "plain_flags NEED_ENV" "plain_flags PROC_EDITCMDLCVT" "plain_flags needs_for_select"
  by (auto simp: plain_flags_def bit_or_iff bit_and_iff needs_for_select_def)

lemma columns_plain: "list_all (\<lambda>f. plain_flags (fneed f)) format_array"
  by code_simp

lemma column_plain: "column s \<Longrightarrow> plain_flags (fneed (the (search_format_array s)))"
proof -
  assume s: "column s"
  then obtain f where f: "search_format_array s = Some f" using column_found by auto
  have "is_cstring s" using s format_array_sorted(2) by (auto simp: column_def list_all_iff)
  then have "f \<in> set format_array" using f search_format_find [of s] by (auto simp: find_Some_iff)
  then show ?thesis using columns_plain f by (simp add: list_all_iff)
qed

lemma collected_plain:
  "\<forall>n\<in>set ns. plain_flags (fn_need n) \<Longrightarrow> plain_flags (collect_format_needs ns)"
  "\<forall>k\<in>set ks. plain_flags (sn_need k) \<Longrightarrow> plain_flags (check_sort_needs ks)"
proof -
  have "\<forall>x\<in>set xs. plain_flags (f x) \<Longrightarrow> plain_flags a \<Longrightarrow> plain_flags (fold (\<lambda>n needs. needs OR f n) xs a)"
    for f :: "format_node \<Rightarrow> u32" and xs a
    by (induction xs arbitrary: a) simp_all
  then show "\<forall>n\<in>set ns. plain_flags (fn_need n) \<Longrightarrow> plain_flags (collect_format_needs ns)"
    by (simp add: collect_format_needs_def)
  have "\<forall>x\<in>set xs. plain_flags (f x) \<Longrightarrow> plain_flags a \<Longrightarrow> plain_flags (fold (\<lambda>n needs. needs OR f n) xs a)"
    for f :: "sort_node \<Rightarrow> u32" and xs a
    by (induction xs arbitrary: a) simp_all
  then show "\<forall>k\<in>set ks. plain_flags (sn_need k) \<Longrightarrow> plain_flags (check_sort_needs ks)"
    by (simp add: check_sort_needs_def)
qed

lemma plain_run:
  assumes "plain_flags (needs_for_threads nd)" "\<not> has (thread_flags g) TF_loose_tasks"
    "\<forall>n\<in>set (proc_format_list nd) \<union> set (task_format_list nd). plain_flags (fn_need n)"
    "\<forall>k\<in>set (sort_list g). plain_flags (sn_need k)"
  shows "plain_flags (open_flags (format_needs g nd))"
proof -
  have "plain_flags (collect_format_needs (proc_format_list nd))" "plain_flags (collect_format_needs (task_format_list nd))"
    "plain_flags (check_sort_needs (sort_list g))"
    using assms(3,4) by (auto intro!: collected_plain)
  then show ?thesis
    unfolding open_flags_def format_needs_def using assms(1,2)
    by (auto simp: Let_def plain_flags_def bit_or_iff bit_and_iff needs_for_select_def)
qed

text \<open>What a run shows, before the sort.\<close>

definition shown_table :: "out_env \<Rightarrow> ps_state \<Rightarrow> proc_t list \<Rightarrow> proc_t list" where
  "shown_table env g all = List.map_filter (want_this_proc_pcpu env g) all"

lemma fancy_spew_sorted:
  assumes "forest_type g = NUL" "thread_flags g = TF_show_proc"
    "read_table src (want_this_proc_pcpu env g) (open_flags d) = Val (Some (shown_table env g all))"
    "\<forall>p\<in>set (shown_table env g all). keys_ok env g (sort_list g) p"
  shows "\<exists>rows. fancy_spew fuel env src d (g, out) = each (\<lambda>p. show_one_proc env p (proc_format_list d)) rows (g, out) \<and>
    mset rows = mset (shown_table env g all) \<and> sorted_wrt (sort_le env g (sort_list g)) rows"
proof (cases "shown_table env g all = []")
  case True
  then show ?thesis using assms(1-3) by (auto simp: fancy_spew_def shown_table_def has_def Let_def)
next
  case False
  obtain rows where rows: "qsort (compare_two_procs env g (sort_list g)) (shown_table env g all) = Val rows"
      "mset rows = mset (shown_table env g all)" "sorted_wrt (sort_le env g (sort_list g)) rows"
    using procs.qsort_sorts [OF assms(4)] by blast
  have "has (thread_flags g) TF_show_proc" "\<not> has (thread_flags g) TF_show_task" using assms(2) by (simp_all add: has_def)
  then show ?thesis
    using assms(1-3) rows False by (auto simp: fancy_spew_def shown_table_def has_def Let_def show_array_rows)
qed

text \<open>The first key decides.\<close>

lemma sorted_by_first:
  assumes "sorted_wrt (sort_le env g (k # ks)) rows" "\<not> sn_reverse k"
  shows "sorted (map (key_value env g k) rows)"
  unfolding sorted_map
  by (rule sorted_wrt_mono_rel [OF _ assms(1)]) (use sort_le_first [of env g k ks] assms(2) in \<open>simp del: sort_le.simps\<close>)

subsection \<open>The sorted forest\<close>

lemma ppid_found: "map_option (\<lambda>f. (fsr f, fneed f)) (search_format_array ''ppid'') = Some (''ppid'', 0)"
  "map_option (\<lambda>f. (fsr f, fneed f)) (search_format_array ''start_time'') = Some (''start_time'', 0)"
  by code_simp+

definition forest_keys :: "sort_node list \<Rightarrow> sort_node list" where
  "forest_keys keys =
     \<lparr> sn_sr = ''ppid'', sn_reverse = False, sn_need = 0 \<rparr> #
     (if keys = [] then [\<lparr> sn_sr = ''start_time'', sn_reverse = False, sn_need = 0 \<rparr>] else keys)"

lemma prep_forest_sort_keys: "prep_forest_sort g = Val (g \<lparr> sort_list := forest_keys (sort_list g) \<rparr>)"
  using ppid_found by (auto simp: prep_forest_sort_def key_of_def forest_keys_def)

lemma sr_ppid: "map_of (sr_table env g) ''ppid'' = Some (CMP_SMALL p_ppid)"
  by (simp add: sr_table_def)

lemma sorted_ppids:
  assumes "sorted_wrt (sort_le env g (forest_keys keys)) rows" "\<forall>p\<in>set rows. keys_ok env g (forest_keys keys) p"
  shows "sorted (map p_ppid rows)"
proof -
  have "key_value env g (hd (forest_keys keys)) p = Number (p_ppid p)" if "p \<in> set rows" for p
    using assms(2) that by (auto simp: forest_keys_def keys_ok_def key_value_def sr_ppid int_of_long_small)
  moreover have "sorted (map (key_value env g (hd (forest_keys keys))) rows)"
    using sorted_by_first [of env g "hd (forest_keys keys)" _ rows] assms(1) by (auto simp: forest_keys_def split: if_splits)
  ultimately have "sorted (map (\<lambda>p. Number (p_ppid p)) rows)" by (simp cong: map_cong)
  then show ?thesis by (simp add: sorted_map)
qed


subsection \<open>The command of the daemon\<close>

lemma index_headers: "proc_index (g \<lparr> lines_to_next_header := n \<rparr>) = proc_index g" "proc_index (g \<lparr> header_gap := n \<rparr>) = proc_index g"
  by (simp_all add: fun_eq_iff proc_index_def has_our_euid_def on_our_tty_def)

lemma want_headers: "want_this_proc (g \<lparr> lines_to_next_header := n \<rparr>) p = want_this_proc g p"
    "want_this_proc (g \<lparr> header_gap := n \<rparr>) p = want_this_proc g p"
  by (simp_all add: want_this_proc_def table_accept_def proc_was_listed_def index_headers)

lemma check_headers_simps [simp]:
  "format_list (check_headers g) = format_list g" "sort_list (check_headers g) = sort_list g"
  "thread_flags (check_headers g) = thread_flags g" "forest_type (check_headers g) = forest_type g"
  "want_this_proc (check_headers g) p = want_this_proc g p"
  by (simp_all add: check_headers_def want_headers split: header_kind.split)

lemma each_show_end:
  assumes "ps \<noteq> []"
  shows "obind (each (\<lambda>p. show_one_proc env p fmt) ps s) (\<lambda>(text, g, out). obind (show_end out) (\<lambda>_. f text g out)) =
    obind (each (\<lambda>p. show_one_proc env p fmt) ps s) (\<lambda>(text, g, out). f text g out)"
  using each_did_stuff [OF _ assms] by (auto simp: obind_def show_end_def split: outcome.split)

text \<open>The run, for any source of processes that keeps the selection of a table.\<close>

lemma sorted_list_shown:
  assumes "cols \<noteq> []" "\<forall>s\<in>set cols. column s" "keys \<noteq> []" "\<forall>k\<in>set keys. column (snd k)"
    "fresh_parser (run_state r)" "\<not> has (personality (reset_global h (run_state r))) PER_FORCE_BSD"
    "0 < screen_cols (reset_global h (run_state r))"
    "plain_flags (needs_for_threads (run_needs r))"
    "\<forall>want flags. plain_flags flags \<longrightarrow> read_table src want flags = Val (Some (List.map_filter want (all flags)))"
    "\<forall>flags. all flags \<noteq> []"
    "\<forall>g flags. \<forall>p\<in>set (all flags). keys_ok env g (map key_node keys) (with_pcpu env g p)"
  shows "\<exists>g out d rows. ps_main fuel True now h penv env src (ps_line cols keys) r =
      obind (each (\<lambda>p. show_one_proc env p (map (plain_node penv None) cols)) rows (g, out))
        (\<lambda>(text, g', out'). Val (text, \<lparr> run_state = reset_sortformat g', run_out = out', run_needs = d \<rparr>)) \<and>
    mset rows = mset (map (with_pcpu env g) (all (open_flags d))) \<and> sorted_wrt (sort_le env g (map key_node keys)) rows"
proof -
  obtain g where g: "arg_parse h penv (ps_line cols keys) (reset_global h (run_state r)) = Val g"
      "format_list g = map (plain_node penv None) cols" "sort_list g = map key_node keys" "\<forall>p. want_this_proc g p"
      "thread_flags g = TF_show_proc" "forest_type g = NUL" "selection_list g = []" "0 < screen_cols g"
    using ps_line_state [OF assms(1-6), of penv] assms(7) by blast
  obtain out where out: "init_output now g (run_out r) = Val out"
    using g(8) by (cases "header_total (format_list g) False 0 0") (auto simp: init_output_def check_header_width_def Let_def)
  let ?g = "check_headers g"
  define d where "d = format_needs ?g (run_needs r \<lparr> proc_format_list := format_list g, task_format_list := format_list g \<rparr>)"
  have d: "lists_and_needs (g, run_needs r) = Val (?g, d)" "proc_format_list d = format_list g"
    using g(5) by (simp_all add: lists_and_needs_def d_def has_def format_needs_def Let_def split: prod.split)
  let ?all = "all (open_flags d)"
  have plain: "plain_flags (open_flags d)"
    unfolding d_def
  proof (rule plain_run)
    show "\<forall>k\<in>set (sort_list ?g). plain_flags (sn_need k)"
      using assms(4) g(3) by (auto simp: key_node_def Let_def column_plain)
    show "\<forall>n\<in>set (proc_format_list (run_needs r \<lparr> proc_format_list := format_list g, task_format_list := format_list g \<rparr>)) \<union>
        set (task_format_list (run_needs r \<lparr> proc_format_list := format_list g, task_format_list := format_list g \<rparr>)). plain_flags (fn_need n)"
      using assms(2) g(2) by (auto simp: plain_node_def node_of_def column_plain)
  qed (use assms(8) g(5) in \<open>simp_all add: has_def\<close>)
  have "List.map_filter (want_this_proc_pcpu env ?g) ?all = map (with_pcpu env ?g) ?all"
    using g(4) by (induction ?all) (simp_all add: want_this_proc_pcpu_def List.map_filter_def)
  then have table: "shown_table env ?g ?all = map (with_pcpu env ?g) ?all" by (simp add: shown_table_def)
  have read: "read_table src (want_this_proc_pcpu env ?g) (open_flags d) = Val (Some (shown_table env ?g ?all))"
    using assms(9) plain by (simp add: shown_table_def)
  have ok: "\<forall>p\<in>set (shown_table env ?g ?all). keys_ok env ?g (sort_list ?g) p"
    using assms(11) g(3) by (simp add: table)
  obtain rows where rows: "fancy_spew fuel env src d (?g, out) = each (\<lambda>p. show_one_proc env p (format_list g)) rows (?g, out)"
      "mset rows = mset (map (with_pcpu env ?g) ?all)" "sorted_wrt (sort_le env ?g (map key_node keys)) rows"
    using fancy_spew_sorted [OF _ _ read ok, of fuel out] g table d(2) by auto
  have "rows \<noteq> []" using rows(2) assms(10) by auto
  then have "ps_main fuel True now h penv env src (ps_line cols keys) r =
      obind (each (\<lambda>p. show_one_proc env p (format_list g)) rows (?g, out))
        (\<lambda>(text, g', out'). Val (text, \<lparr> run_state = reset_sortformat g', run_out = out', run_needs = d \<rparr>))"
    using g assms(3) out d(1) rows(1) each_show_end by (simp add: ps_main_def arg_check_conflicts_def)
  then show ?thesis using rows(2,3) g(2) by auto
qed

end
