(* ===== verification/PsStat.thy ===== *)
theory PsStat
  imports PsProc Strto
begin

text \<open>
  The parsers of \<open>src/modules/ps/src/readproc.c\<close> for the files of one process: \<open>stat2proc\<close>,
  \<open>statm2proc\<close>, \<open>status2proc\<close> with its perfect hash, \<open>file2strvec\<close> and the small ones. A file is the
  string of its bytes.
\<close>

subsection \<open>Formats with more than unsigned numbers\<close>

text \<open>
  The directives of the formats of this file: \<open>%c\<close>, \<open>%d\<close>, \<open>%ld\<close>, \<open>%lu\<close> or \<open>%llu\<close>, the two that store
  nothing, and white space. The first one that fails ends the scan.
\<close>

datatype 'r directive =
    Scan_c "char \<Rightarrow> 'r \<Rightarrow> 'r"
  | Scan_d "int \<Rightarrow> 'r \<Rightarrow> 'r"
  | Scan_ld "int \<Rightarrow> 'r \<Rightarrow> 'r"
  | Scan_lu "u64 \<Rightarrow> 'r \<Rightarrow> 'r"
  | Skip_s
  | Skip_u
  | Blank

definition scan_long :: "string \<Rightarrow> (int \<times> string) option" where
  "scan_long s = (case strto 10 s of None \<Rightarrow> None | Some _ \<Rightarrow> Some (strtol 10 s))"

definition scan_word :: "string \<Rightarrow> string option" where
  "scan_word s =
     (let s = dropWhile c_isspace s in if s = [] then None else Some (dropWhile (\<lambda>c. \<not> c_isspace c) s))"

fun scan_format :: "'r directive list \<Rightarrow> string \<Rightarrow> 'r \<Rightarrow> 'r" where
  "scan_format [] s r = r"
| "scan_format (Scan_c f # ds) s r = (case s of [] \<Rightarrow> r | c # s \<Rightarrow> scan_format ds s (f c r))"
| "scan_format (Scan_d f # ds) s r = (case scan_int s of None \<Rightarrow> r | Some (v, s) \<Rightarrow> scan_format ds s (f v r))"
| "scan_format (Scan_ld f # ds) s r = (case scan_long s of None \<Rightarrow> r | Some (v, s) \<Rightarrow> scan_format ds s (f v r))"
| "scan_format (Scan_lu f # ds) s r = (case scan_uint s of None \<Rightarrow> r | Some (v, s) \<Rightarrow> scan_format ds s (f v r))"
| "scan_format (Skip_s # ds) s r = (case scan_word s of None \<Rightarrow> r | Some s \<Rightarrow> scan_format ds s r)"
| "scan_format (Skip_u # ds) s r = (case scan_uint s of None \<Rightarrow> r | Some (v, s) \<Rightarrow> scan_format ds s r)"
| "scan_format (Blank # ds) s r = scan_format ds (dropWhile c_isspace s) r"

subsection \<open>/proc/<pid>/stat\<close>

definition stat_format :: "proc_t directive list" where
  "stat_format =
     [Scan_c (\<lambda>c. p_state_update (\<lambda>_. c)), Blank,
      Scan_d (\<lambda>v. p_ppid_update (\<lambda>_. v)), Blank, Scan_d (\<lambda>v. p_pgrp_update (\<lambda>_. v)), Blank,
      Scan_d (\<lambda>v. p_session_update (\<lambda>_. v)), Blank, Scan_d (\<lambda>v. p_tty_update (\<lambda>_. v)), Blank,
      Scan_d (\<lambda>v. p_tpgid_update (\<lambda>_. v)), Blank,
      Scan_lu (\<lambda>v. p_flags_update (\<lambda>_. v)), Blank, Scan_lu (\<lambda>v. p_min_flt_update (\<lambda>_. v)), Blank,
      Scan_lu (\<lambda>v. p_cmin_flt_update (\<lambda>_. v)), Blank, Scan_lu (\<lambda>v. p_maj_flt_update (\<lambda>_. v)), Blank,
      Scan_lu (\<lambda>v. p_cmaj_flt_update (\<lambda>_. v)), Blank,
      Scan_lu (\<lambda>v. p_utime_update (\<lambda>_. v)), Blank, Scan_lu (\<lambda>v. p_stime_update (\<lambda>_. v)), Blank,
      Scan_lu (\<lambda>v. p_cutime_update (\<lambda>_. v)), Blank, Scan_lu (\<lambda>v. p_cstime_update (\<lambda>_. v)), Blank,
      Scan_ld (\<lambda>v. p_priority_update (\<lambda>_. v)), Blank, Scan_ld (\<lambda>v. p_nice_update (\<lambda>_. v)), Blank,
      Scan_d (\<lambda>v. p_nlwp_update (\<lambda>_. v)), Blank,
      Scan_ld (\<lambda>v. p_alarm_update (\<lambda>_. v)), Blank,
      Scan_lu (\<lambda>v. p_start_time_update (\<lambda>_. v)), Blank,
      Scan_lu (\<lambda>v. p_vsize_update (\<lambda>_. v)), Blank,
      Scan_ld (\<lambda>v. p_rss_update (\<lambda>_. v)), Blank,
      Scan_lu (\<lambda>v. p_rss_rlim_update (\<lambda>_. v)), Blank, Scan_lu (\<lambda>v. p_start_code_update (\<lambda>_. v)), Blank,
      Scan_lu (\<lambda>v. p_end_code_update (\<lambda>_. v)), Blank, Scan_lu (\<lambda>v. p_start_stack_update (\<lambda>_. v)), Blank,
      Scan_lu (\<lambda>v. p_kstk_esp_update (\<lambda>_. v)), Blank, Scan_lu (\<lambda>v. p_kstk_eip_update (\<lambda>_. v)), Blank,
      Skip_s, Blank, Skip_s, Blank, Skip_s, Blank, Skip_s, Blank,
      Scan_lu (\<lambda>v. p_wchan_update (\<lambda>_. v)), Blank, Skip_u, Blank, Skip_u, Blank,
      Scan_d (\<lambda>v. p_exit_signal_update (\<lambda>_. v)), Blank, Scan_d (\<lambda>v. p_processor_update (\<lambda>_. v)), Blank,
      Scan_lu (\<lambda>v. p_rtprio_update (\<lambda>_. v)), Blank, Scan_lu (\<lambda>v. p_sched_update (\<lambda>_. v))]"

text \<open>
  The name of the command stands in parentheses and may hold some itself: from the first \<open>(\<close> to the last
  \<open>)\<close>, at most 15 bytes. The two bytes \<open>") "\<close> are skipped unseen.
\<close>

definition stat2proc :: "string \<Rightarrow> proc_t \<Rightarrow> proc_t outcome" where
  "stat2proc s p =
     (let p = p \<lparr> p_processor := 0, p_rtprio := -1, p_sched := -1, p_nlwp := 0 \<rparr>
      in case strchr s (CHR ''('') of
           None \<Rightarrow> Undef NullDeref
         | Some t \<Rightarrow>
             (case dropWhile (\<lambda>c. c \<noteq> CHR '')'') (rev (tl t)) of
                [] \<Rightarrow> Undef NullDeref
              | _ # before \<Rightarrow>
                  let name = rev before; after = drop (length name + 1) (tl t);
                      p = p \<lparr> p_cmd := take 15 name \<rparr>
                  in if after = [] then Undef OutOfBounds
                     else let p = scan_format stat_format (tl after) p
                          in Val (if p_nlwp p = 0 then p \<lparr> p_nlwp := 1 \<rparr> else p)))"

subsection \<open>/proc/<pid>/statm\<close>

definition statm_format :: "proc_t directive list" where
  "statm_format =
     [Scan_ld (\<lambda>v. p_size_update (\<lambda>_. v)), Blank, Scan_ld (\<lambda>v. p_resident_update (\<lambda>_. v)), Blank,
      Scan_ld (\<lambda>v. p_share_update (\<lambda>_. v)), Blank, Scan_ld (\<lambda>v. p_trs_update (\<lambda>_. v)), Blank,
      Scan_ld (\<lambda>v. p_lrs_update (\<lambda>_. v)), Blank, Scan_ld (\<lambda>v. p_drs_update (\<lambda>_. v)), Blank,
      Scan_ld (\<lambda>v. p_dt_update (\<lambda>_. v))]"

definition statm2proc :: "string \<Rightarrow> proc_t \<Rightarrow> proc_t" where
  "statm2proc s p = scan_format statm_format s p"

definition oomscore2proc :: "string \<Rightarrow> proc_t \<Rightarrow> proc_t" where
  "oomscore2proc s p = scan_format [Scan_d (\<lambda>v. p_oom_score_update (\<lambda>_. v))] s p"

definition oomadj2proc :: "string \<Rightarrow> proc_t \<Rightarrow> proc_t" where
  "oomadj2proc s p = scan_format [Scan_d (\<lambda>v. p_oom_adj_update (\<lambda>_. v))] s p"

subsection \<open>What is written is read\<close>

text \<open>
  The directives that store, each with the text of its value; the values of a line are separated by
  one blank.
\<close>

definition show_long :: "int \<Rightarrow> string" where
  "show_long i = dec_of_int i"

lemma space_facts [simp]: "c_isspace (CHR '' '')" "\<not> c_isspace (CHR ''-'')" "\<not> c_isdigit (CHR ''-'')"
  by (simp_all add: c_isspace_def c_isdigit_def byte_def)

lemma digits_no_space [simp]: "dropWhile c_isspace (dec_of_nat n @ rest) = dec_of_nat n @ rest"
proof -
  obtain c ds where ds: "dec_of_nat n = c # ds" by (cases "dec_of_nat n") simp_all
  have "c_isdigit c" using dec_of_nat_digits [of n] ds by simp
  then show ?thesis using c_isdigit_not_space [of c] by (simp add: ds)
qed

lemma dec_of_int_no_space [simp]: "dropWhile c_isspace (dec_of_int i @ rest) = dec_of_int i @ rest"
  by (simp add: dec_of_int_def)

lemma strto_int:
  assumes "\<not> starts_digit rest"
  shows "strto 10 (dec_of_int i @ rest) = Some (i < 0, nat \<bar>i\<bar>, rest)"
proof (cases "i < 0")
  case True
  have v: "base_value 10 0 (dec_of_nat n) = n" for n
    using base_value_digits [OF dec_of_nat_digits, of 0] by simp
  show ?thesis
    using True digits_front(2,3) [OF assms, of "nat (- i)"]
    by (simp add: strto_def strip_sign_def base_of_def alnum_value_digit v dec_of_int_def Let_def)
next
  case False
  then show ?thesis using strto_dec [OF assms, of 10 "nat i"] by (simp add: dec_of_int_def)
qed

lemma scan_long_int [simp]:
  "\<not> starts_digit rest \<Longrightarrow> - (2 ^ 63) \<le> i \<Longrightarrow> i < 2 ^ 63 \<Longrightarrow> scan_long (dec_of_int i @ rest) = Some (i, rest)"
  unfolding scan_long_def strtol_def by (subst strto_int, simp)+ auto

lemma scan_int_int [simp]:
  assumes "\<not> starts_digit rest" "- (2 ^ 31) \<le> i" "i < 2 ^ 31"
  shows "scan_int (dec_of_int i @ rest) = Some (i, rest)"
proof (cases "i < 0")
  case True
  have "sint (of_int (- int (nat (- i))) :: 32 word) = i"
    using True assms(2,3) by (simp add: signed_of_int signed_take_bit_int_eq_self_iff)
  moreover have "max (- (2 ^ 63)) (- int (nat (- i))) = - int (nat (- i))" using True assms(2) by simp
  ultimately show ?thesis
    using True digits_front(2,3) [OF assms(1), of "nat (- i)"]
    by (simp add: scan_int_def dec_of_int_def Let_def strtol_value_def)
next
  case False
  then show ?thesis using scan_int_dec [OF assms(1), of "nat i"] assms(3) by (simp add: dec_of_int_def)
qed

lemma show_u64_no_space [simp]: "dropWhile c_isspace (show_u64 w @ rest) = show_u64 w @ rest"
  by (simp add: show_u64_def)

definition word :: "string \<Rightarrow> bool" where
  "word w \<longleftrightarrow> w \<noteq> [] \<and> (\<forall>c\<in>set w. \<not> c_isspace c \<and> c \<noteq> CHR '')'')"

lemma word_no_space [simp]: "word w \<Longrightarrow> dropWhile c_isspace (w @ rest) = w @ rest"
  by (cases w) (simp_all add: word_def)

lemma scan_word_word [simp]: "word w \<Longrightarrow> scan_word (w @ CHR '' '' # rest) = Some (CHR '' '' # rest)"
proof -
  assume w: "word w"
  then have "dropWhile (\<lambda>c. \<not> c_isspace c) (w @ CHR '' '' # rest) = CHR '' '' # rest"
    by (auto simp: word_def dropWhile_append)
  then show ?thesis using w by (auto simp: scan_word_def Let_def word_def)
qed

lemma numbers_no_paren [simp]: "CHR '')'' \<notin> set (dec_of_int i)" "CHR '')'' \<notin> set (show_u64 w)" "word v \<Longrightarrow> CHR '')'' \<notin> set v"
proof -
  have "CHR '')'' \<notin> set (dec_of_nat n)" for n
    using dec_of_nat_digits [of n] by (auto simp: c_isdigit_def byte_def)
  then show "CHR '')'' \<notin> set (dec_of_int i)" "CHR '')'' \<notin> set (show_u64 w)" by (simp_all add: dec_of_int_def show_u64_def)
qed (auto simp: word_def)

text \<open>The line the kernel writes for the values of \<open>q\<close>; \<open>v\<close> are the fields that are skipped.\<close>

definition stat_fields :: "proc_t \<Rightarrow> string list \<Rightarrow> u64 \<Rightarrow> u64 \<Rightarrow> string list" where
  "stat_fields q v n m =
     [dec_of_int (p_ppid q), dec_of_int (p_pgrp q), dec_of_int (p_session q), dec_of_int (p_tty q), dec_of_int (p_tpgid q),
      show_u64 (p_flags q), show_u64 (p_min_flt q), show_u64 (p_cmin_flt q), show_u64 (p_maj_flt q), show_u64 (p_cmaj_flt q),
      show_u64 (p_utime q), show_u64 (p_stime q), show_u64 (p_cutime q), show_u64 (p_cstime q),
      dec_of_int (p_priority q), dec_of_int (p_nice q), dec_of_int (p_nlwp q), dec_of_int (p_alarm q),
      show_u64 (p_start_time q), show_u64 (p_vsize q), dec_of_int (p_rss q), show_u64 (p_rss_rlim q),
      show_u64 (p_start_code q), show_u64 (p_end_code q), show_u64 (p_start_stack q), show_u64 (p_kstk_esp q),
      show_u64 (p_kstk_eip q), v ! 0, v ! 1, v ! 2, v ! 3, show_u64 (p_wchan q), show_u64 n, show_u64 m,
      dec_of_int (p_exit_signal q), dec_of_int (p_processor q), show_u64 (p_rtprio q), show_u64 (p_sched q)]"

definition stat_line :: "proc_t \<Rightarrow> string list \<Rightarrow> u64 \<Rightarrow> u64 \<Rightarrow> string \<Rightarrow> string" where
  "stat_line q v n m rest =
     dec_of_int (p_tid q) @ '' ('' @ p_cmd q @ '') '' @ [p_state q] @ concat (map (\<lambda>w. '' '' @ w) (stat_fields q v n m)) @ rest"

definition fits_int :: "int \<Rightarrow> bool" where
  "fits_int i \<longleftrightarrow> - (2 ^ 31) \<le> i \<and> i < 2 ^ 31"

definition fits_long :: "int \<Rightarrow> bool" where
  "fits_long i \<longleftrightarrow> - (2 ^ 63) \<le> i \<and> i < 2 ^ 63"

definition stat_ok :: "proc_t \<Rightarrow> bool" where
  "stat_ok q \<longleftrightarrow> fits_int (p_ppid q) \<and> fits_int (p_pgrp q) \<and> fits_int (p_session q) \<and> fits_int (p_tty q) \<and> fits_int (p_tpgid q) \<and>
     fits_int (p_nlwp q) \<and> fits_int (p_exit_signal q) \<and> fits_int (p_processor q) \<and> fits_long (p_priority q) \<and> fits_long (p_nice q) \<and>
     fits_long (p_alarm q) \<and> fits_long (p_rss q) \<and> p_nlwp q \<noteq> 0 \<and> p_state q \<noteq> CHR '')'' \<and> length (p_cmd q) \<le> 15"

text \<open>A process with the fields of \<open>stat\<close> taken from another one.\<close>

definition with_stat :: "proc_t \<Rightarrow> proc_t \<Rightarrow> proc_t" where
  "with_stat q p =
     p \<lparr> p_state := p_state q, p_ppid := p_ppid q, p_pgrp := p_pgrp q, p_session := p_session q, p_tty := p_tty q,
         p_tpgid := p_tpgid q, p_flags := p_flags q, p_min_flt := p_min_flt q, p_cmin_flt := p_cmin_flt q,
         p_maj_flt := p_maj_flt q, p_cmaj_flt := p_cmaj_flt q, p_utime := p_utime q, p_stime := p_stime q,
         p_cutime := p_cutime q, p_cstime := p_cstime q, p_priority := p_priority q, p_nice := p_nice q, p_nlwp := p_nlwp q,
         p_alarm := p_alarm q, p_start_time := p_start_time q, p_vsize := p_vsize q, p_rss := p_rss q,
         p_rss_rlim := p_rss_rlim q, p_start_code := p_start_code q, p_end_code := p_end_code q,
         p_start_stack := p_start_stack q, p_kstk_esp := p_kstk_esp q, p_kstk_eip := p_kstk_eip q, p_wchan := p_wchan q,
         p_exit_signal := p_exit_signal q, p_processor := p_processor q, p_rtprio := p_rtprio q, p_sched := p_sched q,
         p_cmd := p_cmd q \<rparr>"

lemma scan_stat:
  assumes "stat_ok q" "\<not> starts_digit rest" "word a" "word b" "word c" "word d"
  shows "scan_format stat_format (p_state q # concat (map (\<lambda>w. '' '' @ w) (stat_fields q [a, b, c, d] n m)) @ rest) p =
    (with_stat q p) \<lparr> p_cmd := p_cmd p \<rparr>"
  using assms by (simp add: stat_format_def stat_fields_def stat_ok_def fits_int_def fits_long_def with_stat_def)

lemma paren_split: "x \<notin> set after \<Longrightarrow> dropWhile (\<lambda>c. c \<noteq> x) (rev (name @ x # after)) = x # rev name"
  by (simp add: dropWhile_append)

lemma strchr_after: "c \<notin> set a \<Longrightarrow> strchr (a @ c # t) c = Some (c # t)"
  by (induction a) auto

lemma stat_fields_no_paren:
  "word a \<Longrightarrow> word b \<Longrightarrow> word c \<Longrightarrow> word d \<Longrightarrow> w \<in> set (stat_fields q [a, b, c, d] n m) \<Longrightarrow> CHR '')'' \<notin> set w"
  by (auto simp: stat_fields_def)

lemma paren_not_in_int: "CHR ''('' \<notin> set (dec_of_int i)"
  using dec_of_nat_digits [of "nat i"] dec_of_nat_digits [of "nat (- i)"] by (auto simp: dec_of_int_def c_isdigit_def byte_def)

lemma stat_line_read:
  assumes "stat_ok q" "\<not> starts_digit rest" "CHR '')'' \<notin> set rest" "word a" "word b" "word c" "word d"
  shows "stat2proc (stat_line q [a, b, c, d] n m rest) p = Val (with_stat q p)"
proof -
  let ?after = "CHR '' '' # p_state q # concat (map (\<lambda>w. '' '' @ w) (stat_fields q [a, b, c, d] n m)) @ rest"
  have line: "stat_line q [a, b, c, d] n m rest = (dec_of_int (p_tid q) @ '' '') @ CHR ''('' # p_cmd q @ CHR '')'' # ?after"
    by (simp add: stat_line_def)
  have open_paren: "strchr (stat_line q [a, b, c, d] n m rest) (CHR ''('') = Some (CHR ''('' # p_cmd q @ CHR '')'' # ?after)"
    unfolding line by (rule strchr_after) (simp add: paren_not_in_int)
  have "CHR '')'' \<notin> set ?after"
    using assms stat_fields_no_paren [OF assms(4-7)] by (auto simp: stat_ok_def)
  then have close_paren: "dropWhile (\<lambda>c. c \<noteq> CHR '')'') (rev (p_cmd q @ CHR '')'' # ?after)) = CHR '')'' # rev (p_cmd q)"
    by (rule paren_split)
  have cmd: "take 15 (p_cmd q) = p_cmd q" and nlwp: "p_nlwp q \<noteq> 0" using assms(1) by (simp_all add: stat_ok_def)
  have scan: "scan_format stat_format (p_state q # concat (map (\<lambda>w. '' '' @ w) (stat_fields q [a, b, c, d] n m)) @ rest) p' =
      (with_stat q p') \<lparr> p_cmd := p_cmd p' \<rparr>" for p'
    by (rule scan_stat [OF assms(1,2,4-7)])
  show ?thesis
    unfolding stat2proc_def Let_def open_paren option.case list.sel close_paren list.case
    by (simp add: scan cmd nlwp) (simp add: with_stat_def nlwp)
qed

text \<open>The file \<open>statm\<close>: seven numbers.\<close>

definition statm_line :: "proc_t \<Rightarrow> string" where
  "statm_line q = dec_of_int (p_size q) @ concat (map (\<lambda>i. '' '' @ dec_of_int i)
     [p_resident q, p_share q, p_trs q, p_lrs q, p_drs q, p_dt q])"

lemma statm_line_read:
  assumes "list_all fits_long [p_size q, p_resident q, p_share q, p_trs q, p_lrs q, p_drs q, p_dt q]" "\<not> starts_digit rest"
  shows "statm2proc (statm_line q @ rest) p =
    p \<lparr> p_size := p_size q, p_resident := p_resident q, p_share := p_share q, p_trs := p_trs q, p_lrs := p_lrs q,
        p_drs := p_drs q, p_dt := p_dt q \<rparr>"
  using assms by (simp add: statm2proc_def statm_format_def statm_line_def fits_long_def)

end
