(* ===== verification/PsStatus.thy ===== *)
theory PsStatus
  imports PsStat
begin

text \<open>
  \<open>status2proc\<close> of \<open>src/modules/ps/src/readproc.c\<close>: the lines of \<open>/proc/<pid>/status\<close>, found with a
  perfect hash over three letters of their names, and the file the kernel writes read back.
\<close>

subsection \<open>The hash\<close>

definition asso :: "nat list" where
  "asso =
     [101, 101, 101, 101, 101, 101, 101, 101, 101, 101,
      101, 101, 101, 101, 101, 101, 101, 101, 101, 101,
      101, 101, 101, 101, 101, 101, 101, 101, 101, 101,
      101, 101, 101, 101, 101, 101, 101, 101, 101, 101,
      101, 101, 101, 101, 101, 101, 101, 101, 101, 101,
      101, 101, 101, 101, 101, 101, 101, 101, 6, 101,
      101, 101, 101, 101, 101, 45, 55, 25, 31, 50,
      50, 10, 0, 35, 101, 101, 21, 101, 30, 101,
      20, 36, 0, 5, 0, 40, 0, 0, 101, 101,
      101, 101, 101, 101, 101, 101, 101, 30, 101, 15,
      0, 1, 101, 10, 101, 10, 101, 101, 101, 25,
      101, 40, 0, 101, 0, 50, 6, 40, 101, 1,
      35, 101, 101, 101, 101, 101, 101, 101]"

definition status_table :: "string list" where
  "status_table =
     [''VmHWM'', ''Threads'', [], [], [], ''VmRSS'', ''VmSwap'', [], [], [], ''Tgid'', ''VmStk'', [], [], [],
      ''VmSize'', ''Gid'', [], [], [], ''VmPTE'', ''VmPeak'', [], [], [], ''ShdPnd'', ''Pid'', [], [], [],
      ''PPid'', ''VmLib'', [], [], [], ''SigPnd'', ''VmLck'', [], [], [], ''SigCgt'', ''State'', [], [], [],
      ''CapPrm'', ''Uid'', [], [], [], ''SigIgn'', ''SigQ'', [], [], [], ''RssShmem'', ''Name'', [], [], [],
      ''CapInh'', ''VmData'', [], [], [], ''FDSize'', [], [], [], [], ''SigBlk'', [], [], [], [], ''CapEff'',
      [], [], [], [], ''CapBnd'', [], [], [], [], ''VmExe'', [], [], [], [], ''Groups'', [], [], [], [],
      ''RssAnon'', [], [], [], [], ''RssFile'', [], [], [], [], [], [], [], [], [], [], [], [], [], [], [],
      [], [], [], [], [], [], [], [], [], [], [], []]"

text \<open>
  The entry that the first, third and fourth byte of a line select: \<open>S[3]\<close> may be the end of the
  string, but not more. A byte above 127 is a negative index.
\<close>

definition status_entry :: "string \<Rightarrow> string outcome" where
  "status_entry S =
     (if length S < 3 then Undef Uninitialised
      else let c = S ! 0; d = S ! 2; e = (S @ [NUL]) ! 3
           in if 128 \<le> byte c \<or> 128 \<le> byte d \<or> 128 \<le> byte e then Undef OutOfBounds
              else Val (status_table ! ((asso ! byte e + asso ! byte d + asso ! byte c) mod 128)))"

subsection \<open>The fields\<close>

record status_vars =
  v_Threads :: int
  v_Tgid :: int
  v_Pid :: int

text \<open>
  \<open>case_Name\<close>: at most 15 characters, of which \<open>\n\<close> and \<open>\\\<close> stand for two special ones. The
  pointer is left at the last byte that was read, \<open>back\<close>.
\<close>

fun case_Name :: "nat \<Rightarrow> string \<Rightarrow> string \<Rightarrow> string \<times> string" where
  "case_Name 0 back S = ([], back)"
| "case_Name (Suc u) back S =
     (case S of [] \<Rightarrow> ([], []) | c # T \<Rightarrow>
        if c = LF then ([], S)
        else if c = BSLASH then
          (case T of [] \<Rightarrow> ([], []) | d # U \<Rightarrow>
             if d = LF then ([], T)
             else let (w, S) = case_Name u T U in ((if d = CHR ''n'' then LF else d) # w, S))
        else let (w, S) = case_Name u S T in (c # w, S))"

text \<open>The cases that store one number; the types of the fields truncate it.\<close>

definition to_int :: "int \<Rightarrow> int" where
  "to_int i = sint (of_int i :: 32 word)"

definition numbers :: "(string \<times> (int \<Rightarrow> proc_t \<times> status_vars \<Rightarrow> proc_t \<times> status_vars)) list" where
  "numbers =
     [(''Tgid'', \<lambda>i (p, v). (p, v \<lparr> v_Tgid := i \<rparr>)), (''Pid'', \<lambda>i (p, v). (p, v \<lparr> v_Pid := i \<rparr>)),
      (''PPid'', \<lambda>i (p, v). (p \<lparr> p_ppid := to_int i \<rparr>, v)),
      (''Threads'', \<lambda>i (p, v). (p, v \<lparr> v_Threads := i \<rparr>)),
      (''VmData'', \<lambda>i (p, v). (p \<lparr> p_vm_data := of_int i \<rparr>, v)),
      (''VmExe'', \<lambda>i (p, v). (p \<lparr> p_vm_exe := of_int i \<rparr>, v)),
      (''VmLck'', \<lambda>i (p, v). (p \<lparr> p_vm_lock := of_int i \<rparr>, v)),
      (''VmLib'', \<lambda>i (p, v). (p \<lparr> p_vm_lib := of_int i \<rparr>, v)),
      (''VmRSS'', \<lambda>i (p, v). (p \<lparr> p_vm_rss := of_int i \<rparr>, v)),
      (''RssAnon'', \<lambda>i (p, v). (p \<lparr> p_vm_rss_anon := of_int i \<rparr>, v)),
      (''RssFile'', \<lambda>i (p, v). (p \<lparr> p_vm_rss_file := of_int i \<rparr>, v)),
      (''RssShmem'', \<lambda>i (p, v). (p \<lparr> p_vm_rss_shared := of_int i \<rparr>, v)),
      (''VmSize'', \<lambda>i (p, v). (p \<lparr> p_vm_size := of_int i \<rparr>, v)),
      (''VmStk'', \<lambda>i (p, v). (p \<lparr> p_vm_stack := of_int i \<rparr>, v)),
      (''VmSwap'', \<lambda>i (p, v). (p \<lparr> p_vm_swap := of_int i \<rparr>, v))]"

text \<open>Four numbers in a row, for \<open>Uid\<close> and \<open>Gid\<close>.\<close>

definition four_ids :: "string \<Rightarrow> (int \<times> int \<times> int \<times> int) \<times> string" where
  "four_ids S =
     (let (a, S) = strtol 10 S; (b, S) = strtol 10 S; (c, S) = strtol 10 S; (d, S) = strtol 10 S
      in ((to_int a, to_int b, to_int c, to_int d), S))"

text \<open>The masks of signals: sixteen bytes, copied as they are.\<close>

definition masks :: "(string \<times> (string \<Rightarrow> proc_t \<Rightarrow> proc_t)) list" where
  "masks =
     [(''ShdPnd'', \<lambda>m. p_signal_update (\<lambda>_. m)), (''SigBlk'', \<lambda>m. p_blocked_update (\<lambda>_. m)),
      (''SigCgt'', \<lambda>m. p_sigcatch_update (\<lambda>_. m)), (''SigIgn'', \<lambda>m. p_sigignore_update (\<lambda>_. m)),
      (''SigPnd'', \<lambda>m. p_sigpnd_update (\<lambda>_. m))]"

text \<open>
  \<open>case_Groups\<close>: the rest of the line without one trailing blank, every blank but a first one turned
  into a comma.
\<close>

definition case_Groups :: "string \<Rightarrow> proc_t \<Rightarrow> proc_t" where
  "case_Groups S p =
     (let t = takeWhile (\<lambda>c. c \<noteq> LF) S
      in if t = [] then p
         else let t = (if last t = CHR '' '' then butlast t else t);
                  comma = (\<lambda>c. if c = CHR '' '' then CHR '','' else c)
              in p \<lparr> p_supgid := Some (case t of [] \<Rightarrow> [] | c # t \<Rightarrow> c # map comma t) \<rparr>)"

definition status_case :: "string \<Rightarrow> string \<Rightarrow> proc_t \<times> status_vars \<Rightarrow> string \<times> proc_t \<times> status_vars" where
  "status_case name S pv =
     (let (p, v) = pv
      in case map_of numbers name of Some store \<Rightarrow> (let (i, S) = strtol 10 S in (S, store i pv))
         | None \<Rightarrow>
        (case map_of masks name of Some store \<Rightarrow> (S, store (take 16 S) p, v)
         | None \<Rightarrow>
           if name = ''Name'' then (let (w, S) = case_Name 15 [] S in (S, p \<lparr> p_cmd := w \<rparr>, v))
           else if name = ''State'' then (S, p \<lparr> p_state := (S @ [NUL]) ! 0 \<rparr>, v)
           else if name = ''Uid'' then
             (let ((a, b, c, d), S) = four_ids S
              in (S, p \<lparr> p_ruid := a, p_euid := b, p_suid := c, p_fuid := d \<rparr>, v))
           else if name = ''Gid'' then
             (let ((a, b, c, d), S) = four_ids S
              in (S, p \<lparr> p_rgid := a, p_egid := b, p_sgid := c, p_fgid := d \<rparr>, v))
           else if name = ''Groups'' then (S, case_Groups S p, v)
           else (S, p, v)))"

subsection \<open>The loop over the lines\<close>

lemma length_dropWhile_le [simp]: "length (dropWhile P s) \<le> length s"
  by (metis length_append le_add2 takeWhile_dropWhile_id)

lemma base_of_shorter: "length (snd (base_of b s)) \<le> length s"
  by (simp add: base_of_def)

lemma strip_sign_shorter: "length (strip_sign s) \<le> length s"
  by (simp add: strip_sign_def)

lemma strtol_shorter: "length (snd (strtol b s)) \<le> length s"
proof -
  have "length (dropWhile P (snd (base_of b (strip_sign (dropWhile c_isspace s))))) \<le> length s" for P
    by (rule order_trans [OF length_dropWhile_le order_trans [OF base_of_shorter order_trans [OF strip_sign_shorter length_dropWhile_le]]])
  then show ?thesis by (auto simp: strtol_def strto_def Let_def split: prod.split option.split)
qed

lemma strtol_progress: "snd (strtol b s) \<noteq> s \<Longrightarrow> length (snd (strtol b s)) < length s"
proof -
  assume moved: "snd (strtol b s) \<noteq> s"
  let ?s = "snd (base_of b (strip_sign (dropWhile c_isspace s)))" and ?d = "\<lambda>c. alnum_value c < fst (base_of b (strip_sign (dropWhile c_isspace s)))"
  have le: "length ?s \<le> length s"
    by (rule order_trans [OF base_of_shorter order_trans [OF strip_sign_shorter length_dropWhile_le]])
  have ne: "takeWhile ?d ?s \<noteq> []" and eq: "snd (strtol b s) = dropWhile ?d ?s"
    using moved by (auto simp: strtol_def strto_def Let_def split: prod.splits option.splits if_splits)
  have "length (takeWhile ?d ?s) + length (dropWhile ?d ?s) = length ?s"
    by (metis length_append takeWhile_dropWhile_id)
  moreover have "0 < length (takeWhile ?d ?s)" using ne by simp
  ultimately show ?thesis unfolding eq using le by linarith
qed

lemma case_Name_shorter: "length (snd (case_Name u b S)) \<le> max (length b) (length S)"
  by (induction u b S rule: case_Name.induct)
    (auto split: list.split prod.split simp: Let_def case_prod_unfold le_max_iff_disj le_SucI)

lemma four_ids_shorter: "length (snd (four_ids S)) \<le> length S"
proof -
  have "length (snd (strtol 10 (snd (strtol 10 (snd (strtol 10 (snd (strtol 10 S)))))))) \<le> length S"
    by (meson order_trans strtol_shorter)
  then show ?thesis by (simp add: four_ids_def Let_def case_prod_unfold)
qed

lemma status_case_shorter: "length (fst (status_case name S pv)) \<le> length S"
proof (cases "map_of numbers name")
  case None
  then show ?thesis
    by (cases "map_of masks name")
      (simp_all add: status_case_def Let_def case_prod_unfold four_ids_shorter case_Name_shorter [of 15 "[]", simplified])
next
  case (Some store)
  then show ?thesis by (simp add: status_case_def Let_def case_prod_unfold strtol_shorter)
qed

lemma after_newline: "strchr s c = Some t \<Longrightarrow> length (tl t) < length s"
  using strchr_Some [of s c t] by auto

text \<open>
  \<open>colon\<close> is the first colon of the rest of the file. An unused entry of the table has the length 0 and
  no address to go to.
\<close>

function status_loop :: "string \<Rightarrow> proc_t \<times> status_vars \<Rightarrow> (proc_t \<times> status_vars) outcome" where
  "status_loop S pv =
     (if S = [] then Val pv
      else obind (status_entry S) (\<lambda>entry.
        case strchr S (CHR '':'') of None \<Rightarrow> Val pv
        | Some colon \<Rightarrow>
            if (colon @ [NUL]) ! 1 \<noteq> TAB then Val pv
            else let n = length S - length colon
                 in if n \<noteq> length entry \<or> take n S \<noteq> entry then
                      (case strchr S LF of None \<Rightarrow> Val pv | Some nl \<Rightarrow> status_loop (tl nl) pv)
                    else if n = 0 then Undef NullDeref
                    else let r = status_case entry (drop 2 colon) pv
                         in (case strchr (fst r) LF of None \<Rightarrow> Val (snd r)
                             | Some nl \<Rightarrow> status_loop (tl nl) (snd r))))"
  by pat_completeness auto

termination
proof (relation "measure (\<lambda>(S, pv). length S)")
  show "wf (measure (\<lambda>(S :: string, pv :: proc_t \<times> status_vars). length S))" by (rule wf_measure)
next
  fix S :: string and pv :: "proc_t \<times> status_vars" and nl
  assume "strchr S LF = Some nl"
  then show "((tl nl, pv), S, pv) \<in> measure (\<lambda>(S, pv). length S)" by (simp add: after_newline del: length_tl)
next
  fix S :: string and pv :: "proc_t \<times> status_vars" and entry colon r nl
  assume colon: "strchr S (CHR '':'') = Some colon"
    and r: "r = status_case entry (drop 2 colon) pv" and nl: "strchr (fst r) LF = Some nl"
  have "length (tl nl) < length (fst r)" using nl by (rule after_newline)
  also have "\<dots> \<le> length (drop 2 colon)" unfolding r by (rule status_case_shorter)
  also have "\<dots> \<le> length S" using strchr_Some [OF colon] by auto
  finally show "((tl nl, snd r), S, pv) \<in> measure (\<lambda>(S, pv). length S)" by simp
qed

declare status_loop.simps [simp del]

definition status_end :: "bool \<Rightarrow> proc_t \<times> status_vars \<Rightarrow> proc_t" where
  "status_end is_proc pv =
     (let (p, v) = pv;
          p = (if \<not> is_proc \<or> p_signal p = [] then p \<lparr> p_signal := p_sigpnd p \<rparr> else p);
          p = (if v_Threads v \<noteq> 0 then p \<lparr> p_nlwp := to_int (v_Threads v), p_tgid := to_int (v_Tgid v), p_tid := to_int (v_Pid v) \<rparr>
               else p \<lparr> p_nlwp := 1, p_tgid := to_int (v_Pid v), p_tid := to_int (v_Pid v) \<rparr>)
      in if p_supgid p = None then p \<lparr> p_supgid := Some ''-'' \<rparr> else p)"

definition status2proc :: "string \<Rightarrow> proc_t \<Rightarrow> bool \<Rightarrow> proc_t outcome" where
  "status2proc S p is_proc =
     obind (status_loop S (p, \<lparr> v_Threads = 0, v_Tgid = 0, v_Pid = 0 \<rparr>)) (\<lambda>pv. Val (status_end is_proc pv))"

subsection \<open>The names of the supplementary groups\<close>

text \<open>
  The loop of \<open>supgrps_from_supgids\<close>; \<open>get_group\<close> is \<open>pwcache_get_group\<close>, whose names fit the buffer.
  It does not end when \<open>strtol\<close> stands still.
\<close>

function group_names :: "(u32 \<Rightarrow> string) \<Rightarrow> string \<Rightarrow> string \<Rightarrow> string outcome" where
  "group_names get_group supgrp s =
     (let (gid, rest) = strtol 10 (if s \<noteq> [] \<and> hd s = CHR '','' then tl s else s);
          supgrp = supgrp @ (if supgrp = [] then [] else '','') @ get_group (of_int gid)
      in if rest = [] then Val supgrp
         else if rest = s then Undef Blocks
         else group_names get_group supgrp rest)"
  by pat_completeness auto

termination
proof (relation "measure (\<lambda>(g, supgrp, s). length s)")
  show "wf (measure (\<lambda>(g :: u32 \<Rightarrow> string, supgrp :: string, s :: string). length s))" by (rule wf_measure)
next
  fix g :: "u32 \<Rightarrow> string" and supgrp s rest :: string and r gid supgrp'
  assume r: "r = strtol 10 (if s \<noteq> [] \<and> hd s = CHR '','' then tl s else s)" "(gid, rest) = r" and "rest \<noteq> s"
  then have rest: "rest = snd (strtol 10 (if s \<noteq> [] \<and> hd s = CHR '','' then tl s else s))" by (metis snd_conv)
  have "length rest < length s"
  proof (cases "s \<noteq> [] \<and> hd s = CHR '',''")
    case True
    then show ?thesis using rest strtol_shorter [of 10 "tl s"] by (cases s) auto
  next
    case False
    then show ?thesis using rest \<open>rest \<noteq> s\<close> strtol_progress [of 10 s] by auto
  qed
  then show "((g, supgrp', rest), g, supgrp, s) \<in> measure (\<lambda>(g, supgrp, s). length s)" by simp
qed

definition supgrps_from_supgids :: "(u32 \<Rightarrow> string) \<Rightarrow> proc_t \<Rightarrow> proc_t outcome" where
  "supgrps_from_supgids get_group p =
     (case p_supgid p of
        None \<Rightarrow> Val (p \<lparr> p_supgrp := Some ''-'' \<rparr>)
      | Some s \<Rightarrow>
          if s \<noteq> [] \<and> hd s = CHR ''-'' then Val (p \<lparr> p_supgrp := Some ''-'' \<rparr>)
          else obind (group_names get_group [] s) (\<lambda>w. Val (p \<lparr> p_supgrp := Some w \<rparr>)))"

end
