(* ===== verification/PsFile.thy ===== *)
theory PsFile
  imports PsStatus PsEscape
begin

text \<open>
  How \<open>src/modules/ps/src/readproc.c\<close> gets at the files of a process: \<open>file2str\<close> with its growing
  buffer, \<open>file2strvec\<close>, \<open>read_unvectored\<close> and what is made of the texts.

  The file system is an argument: the content of a file that can be opened, with whether the read
  after the last byte fails, what \<open>stat\<close> says (owner, group and inode), and the names in a directory. A
  read delivers as many bytes as were asked for, as long as there are some.
\<close>

record proc_fs =
  fs_file :: "string \<Rightarrow> (string \<times> bool) option"
  fs_stat :: "string \<Rightarrow> (u32 \<times> u32 \<times> int) option"
  fs_dir :: "string \<Rightarrow> string list option"

subsection \<open>A file as one string\<close>

text \<open>
  The loop of \<open>file2str\<close>: \<open>siz\<close> is the size of the buffer, \<open>tot\<close> what was read, \<open>rest\<close> what the file still
  holds. Result: the bytes read, and the size of the buffer then.
\<close>

function read_grow :: "nat \<Rightarrow> nat \<Rightarrow> string \<Rightarrow> string \<times> nat" where
  "read_grow siz tot rest =
     (let num = min (siz - tot) (length rest)
      in if num = 0 then ([], siz)
         else if tot + num < siz then (take num rest, siz)
         else let (bytes, siz) = read_grow (siz + 1024) (tot + num) (drop num rest) in (take num rest @ bytes, siz))"
  by pat_completeness auto

termination by (relation "measure (\<lambda>(siz, tot, rest). length rest)") auto

declare read_grow.simps [simp del]

text \<open>A size of 0 stands for the buffer that is not there yet.\<close>

definition file2str :: "proc_fs \<Rightarrow> string \<Rightarrow> string \<Rightarrow> nat \<Rightarrow> string option \<times> nat" where
  "file2str fs dir what siz =
     (let siz = (if siz = 0 then 1024 else siz)
      in case fs_file fs (dir @ CHR ''/'' # what) of
           None \<Rightarrow> (None, siz)
         | Some (content, err) \<Rightarrow>
             (let (bytes, siz) = read_grow siz 0 content in (if length bytes < 1 then None else Some bytes, siz)))"

lemma read_grow_all:
  "tot < siz \<Longrightarrow> fst (read_grow siz tot rest) = rest \<and> tot + length rest < snd (read_grow siz tot rest)"
proof (induction siz tot rest rule: read_grow.induct)
  case (1 siz tot rest)
  let ?num = "min (siz - tot) (length rest)"
  show ?case
  proof (cases "tot + length rest < siz")
    case True
    then show ?thesis by (subst (1 2) read_grow.simps) (auto simp: Let_def min_def)
  next
    case False
    then have n: "?num = siz - tot" "?num \<noteq> 0" "\<not> tot + ?num < siz" using 1(2) by simp_all
    have "fst (read_grow (siz + 1024) (tot + ?num) (drop ?num rest)) = drop ?num rest \<and>
        tot + ?num + length (drop ?num rest) < snd (read_grow (siz + 1024) (tot + ?num) (drop ?num rest))"
      by (rule 1(1) [OF refl n(2,3)]) (simp add: n(1), use 1(2) in simp)
    moreover have "tot + ?num + length (drop ?num rest) = tot + length rest" using False 1(2) by simp
    ultimately show ?thesis
      using n by (subst (1 2) read_grow.simps) (simp add: Let_def case_prod_unfold)
  qed
qed

text \<open>The text that the callers look at ends at its first zero byte.\<close>

definition file_text :: "proc_fs \<Rightarrow> string \<Rightarrow> string \<Rightarrow> string option" where
  "file_text fs dir what = map_option cstr (fst (file2str fs dir what 0))"

lemma file2str_whole:
  "fst (file2str fs dir what siz) =
     (case fs_file fs (dir @ CHR ''/'' # what) of None \<Rightarrow> None | Some (s, err) \<Rightarrow> if s = [] then None else Some s)"
proof -
  have all: "fst (read_grow (if siz = 0 then 1024 else siz) 0 s) = s" for s
    using read_grow_all [of 0 "if siz = 0 then 1024 else siz" s] by (cases "siz = 0") simp_all
  show ?thesis
  proof (cases "fs_file fs (dir @ CHR ''/'' # what)")
    case (Some c)
    then obtain content err where opened: "fs_file fs (dir @ CHR ''/'' # what) = Some (content, err)" by (cases c) auto
    show ?thesis
      unfolding file2str_def Let_def opened option.case prod.case case_prod_unfold fst_conv all by (cases content) simp_all
  qed (simp add: file2str_def Let_def)
qed

lemma file2str_buffer_holds:
  assumes found: "fst (file2str fs dir what siz) = Some s"
  shows "length s < snd (file2str fs dir what siz)"
proof -
  let ?siz = "if siz = 0 then 1024 else siz"
  obtain content err where opened: "fs_file fs (dir @ CHR ''/'' # what) = Some (content, err)"
    using found by (auto simp: file2str_def Let_def split: option.splits)
  obtain n where n: "read_grow ?siz 0 content = (content, n)" "length content < n"
    using read_grow_all [of 0 ?siz content] by (cases "read_grow ?siz 0 content") (auto split: if_splits)
  have "file2str fs dir what siz = (if length content < 1 then None else Some content, n)"
    unfolding file2str_def Let_def opened option.case prod.case n(1) ..
  then show ?thesis using found n(2) by (cases content) simp_all
qed

subsection \<open>A file as a vector of strings\<close>

text \<open>
  Reads of 2047 bytes; a shorter one ends the file, and a zero byte is put after the last byte unless it
  is one. The first chunk and every read can fail.
\<close>

function read_chunks :: "string \<Rightarrow> bool \<Rightarrow> string \<Rightarrow> string option" where
  "read_chunks rest err rbuf =
     (let chunk = take 2047 rest
      in if chunk = [] \<and> err then None
         else if chunk = [] \<and> rbuf = [] then None
         else if length chunk < 2047 then Some (rbuf @ (if chunk = [] \<or> last chunk \<noteq> NUL then chunk @ [NUL] else chunk))
         else read_chunks (drop 2047 rest) err (rbuf @ chunk))"
  by pat_completeness auto

termination by (relation "measure (\<lambda>(rest, err, rbuf). length rest)") auto

declare read_chunks.simps [simp del]

text \<open>
  A newline becomes a zero byte; a string starts at the buffer and after every zero byte but the
  first and the last byte of the buffer.
\<close>

definition strvec :: "mem \<Rightarrow> string list" where
  "strvec rbuf =
     (let rbuf = map (\<lambda>c. if c = LF then NUL else c) rbuf
      in cstr rbuf # map (\<lambda>i. cstr (drop (i + 1) rbuf)) (filter (\<lambda>i. rbuf ! i = NUL) [1..<length rbuf - 1]))"

definition file2strvec :: "proc_fs \<Rightarrow> string \<Rightarrow> string \<Rightarrow> string list option" where
  "file2strvec fs dir what =
     (case fs_file fs (dir @ CHR ''/'' # what) of
        None \<Rightarrow> None
      | Some (content, err) \<Rightarrow> map_option strvec (read_chunks content err []))"

text \<open>The bytes for the pointers: one for each zero byte or newline, and one for the null at the end.\<close>

definition vector_room :: "mem \<Rightarrow> nat" where
  "vector_room rbuf = length (filter (\<lambda>c. c = NUL \<or> c = LF) rbuf) + 1"

subsection \<open>Vectors are read back\<close>

definition terminated :: "string \<Rightarrow> mem" where
  "terminated s = (if s = [] \<or> last s \<noteq> NUL then s @ [NUL] else s)"

lemma read_chunks_short:
  assumes "length rest mod 2047 \<noteq> 0"
  shows "read_chunks rest err rbuf = Some (rbuf @ terminated rest)"
  using assms
proof (induction rest err rbuf rule: read_chunks.induct)
  case (1 rest err rbuf)
  have ne: "rest \<noteq> []" using 1(2) by auto
  show ?case
  proof (cases "length rest < 2047")
    case True
    then show ?thesis using ne by (subst read_chunks.simps) (simp add: Let_def terminated_def)
  next
    case False
    have m: "length (drop 2047 rest) mod 2047 \<noteq> 0" using 1(2) False by (simp add: le_mod_geq)
    then have ne': "drop 2047 rest \<noteq> []" by auto
    have "read_chunks rest err rbuf = read_chunks (drop 2047 rest) err (rbuf @ take 2047 rest)"
      using False ne by (subst read_chunks.simps) (simp add: Let_def)
    also have "\<dots> = Some ((rbuf @ take 2047 rest) @ terminated (drop 2047 rest))"
      by (rule 1(1) [OF refl]) (use False ne m in simp_all)
    also have "(rbuf @ take 2047 rest) @ terminated (drop 2047 rest) = rbuf @ terminated rest"
      using ne ne' by (simp add: terminated_def)
    finally show ?thesis .
  qed
qed

lemma read_chunks_full:
  assumes "length rest mod 2047 = 0" "rest @ rbuf \<noteq> []"
  shows "read_chunks rest False rbuf = Some (rbuf @ rest @ [NUL])"
  using assms
proof (induction rest False rbuf rule: read_chunks.induct)
  case (1 rest rbuf)
  show ?case
  proof (cases "rest = []")
    case True
    then show ?thesis using 1(3) by (subst read_chunks.simps) simp
  next
    case False
    then have long: "\<not> length rest < 2047" using 1(2) by (metis length_0_conv mod_less)
    have "read_chunks rest False rbuf = read_chunks (drop 2047 rest) False (rbuf @ take 2047 rest)"
      using False long by (subst read_chunks.simps) (simp add: Let_def)
    also have "\<dots> = Some ((rbuf @ take 2047 rest) @ drop 2047 rest @ [NUL])"
      by (rule 1(1) [OF refl]) (use False long 1(2) in \<open>simp_all add: le_mod_geq\<close>)
    finally show ?thesis by simp
  qed
qed

definition after_NULs :: "mem \<Rightarrow> string list" where
  "after_NULs b = map (\<lambda>i. cstr (drop (i + 1) b)) (filter (\<lambda>i. b ! i = NUL) [0..<length b - 1])"

lemma after_NULs_step:
  assumes "NUL \<notin> set w"
  shows "after_NULs (w @ [NUL]) = []" "c \<noteq> [] \<Longrightarrow> after_NULs (w @ NUL # c) = cstr c # after_NULs c"
proof -
  have w: "filter (\<lambda>i. (w @ t) ! i = NUL) [0..<length w] = []" for t
    using assms by (auto simp: filter_empty_conv nth_append) (metis nth_mem)
  then show "after_NULs (w @ [NUL]) = []" by (simp add: after_NULs_def)
  assume "c \<noteq> []"
  then obtain k where k: "length c = Suc k" by (cases c) auto
  have split: "[0..<length w + Suc k] = [0..<length w] @ length w # map (\<lambda>i. length w + Suc i) [0..<k]"
    by (rule nth_equalityI) (auto simp: nth_append nth_Cons' simp del: upt_Suc)
  have "after_NULs (w @ NUL # c) =
      map (\<lambda>i. cstr (drop (i + 1) (w @ NUL # c))) (filter (\<lambda>i. (w @ NUL # c) ! i = NUL) [0..<length w + Suc k])"
    by (simp add: after_NULs_def k)
  also have "\<dots> = cstr c # map (\<lambda>i. cstr (drop (i + 1) c)) (filter (\<lambda>i. c ! i = NUL) [0..<k])"
    by (simp only: split filter_append map_append w list.map append_Nil)
      (simp add: nth_append filter_map comp_def)
  finally show "after_NULs (w @ NUL # c) = cstr c # after_NULs c" by (simp add: after_NULs_def k)
qed

definition joined :: "string list \<Rightarrow> mem" where
  "joined ws = concat (map (\<lambda>w. w @ [NUL]) ws)"

lemma after_NULs_joined: "list_all is_cstring ws \<Longrightarrow> after_NULs (joined ws) = tl ws"
proof (induction ws)
  case Nil
  then show ?case by (simp add: after_NULs_def joined_def)
next
  case (Cons w ws)
  have w: "NUL \<notin> set w" using Cons.prems by (simp add: is_cstring_def)
  show ?case
  proof (cases ws)
    case Nil
    then show ?thesis using after_NULs_step(1) [OF w] by (simp add: joined_def)
  next
    case (Cons v vs)
    have "after_NULs (w @ NUL # joined ws) = cstr (joined ws) # after_NULs (joined ws)"
      by (rule after_NULs_step(2) [OF w]) (simp add: joined_def Cons)
    then show ?thesis using Cons.IH Cons.prems Cons by (simp add: joined_def)
  qed
qed

lemma strvec_after_NULs:
  assumes "LF \<notin> set b" "2 \<le> length b"
  shows "strvec b = cstr b # (if b ! 0 = NUL then tl (after_NULs b) else after_NULs b)"
proof -
  have "map (\<lambda>c. if c = LF then NUL else c) b = b" using assms(1) by (induction b) auto
  moreover have "[0..<length b - 1] = 0 # [1..<length b - 1]" using assms(2) by (simp add: upt_conv_Cons)
  ultimately show ?thesis by (simp add: strvec_def after_NULs_def Let_def)
qed

lemma joined_facts:
  "list_all (\<lambda>w. is_cstring w \<and> LF \<notin> set w) ws \<Longrightarrow> LF \<notin> set (joined ws)"
  "ws \<noteq> [] \<Longrightarrow> terminated (joined ws) = joined ws" "joined (ws @ [[]]) = joined ws @ [NUL]"
  "ws \<noteq> [] \<Longrightarrow> hd ws \<noteq> [] \<Longrightarrow> joined ws ! 0 = hd (hd ws)"
  "ws \<noteq> [] \<Longrightarrow> list_all is_cstring ws \<Longrightarrow> cstr (joined ws) = hd ws"
proof -
  show "ws \<noteq> [] \<Longrightarrow> terminated (joined ws) = joined ws"
    by (cases ws rule: rev_cases) (simp_all add: terminated_def joined_def)
  show "ws \<noteq> [] \<Longrightarrow> hd ws \<noteq> [] \<Longrightarrow> joined ws ! 0 = hd (hd ws)"
    by (cases ws) (auto simp: joined_def nth_append hd_conv_nth)
  show "ws \<noteq> [] \<Longrightarrow> list_all is_cstring ws \<Longrightarrow> cstr (joined ws) = hd ws"
    by (cases ws) (simp_all add: joined_def)
qed (auto simp: joined_def list_all_iff)

text \<open>The arguments of a process, each ended by a zero byte, come back one by one.\<close>

lemma strvec_joined:
  assumes "list_all (\<lambda>w. is_cstring w \<and> LF \<notin> set w) ws" "ws \<noteq> []" "hd ws \<noteq> []"
  shows "strvec (joined ws) = ws"
proof -
  have c: "list_all is_cstring ws" using assms(1) by (simp add: list_all_iff)
  then have "joined ws ! 0 \<noteq> NUL"
    using assms(2,3) joined_facts(4) [OF assms(2,3)] by (cases ws; cases "hd ws") (auto simp: is_cstring_def)
  moreover have "2 \<le> length (joined ws)" using assms(2,3) by (cases ws; cases "hd ws") (auto simp: joined_def)
  ultimately show ?thesis
    using strvec_after_NULs [OF joined_facts(1) [OF assms(1)]] after_NULs_joined [OF c] joined_facts(5) [OF assms(2) c] assms(2)
    by simp
qed

lemma strvec_read:
  assumes "fs_file fs (dir @ CHR ''/'' # what) = Some (joined ws, err)"
    "list_all (\<lambda>w. is_cstring w \<and> LF \<notin> set w) ws" "ws \<noteq> []" "hd ws \<noteq> []" "length (joined ws) mod 2047 \<noteq> 0"
  shows "file2strvec fs dir what = Some ws"
  using strvec_joined [OF assms(2-4)] by (simp add: file2strvec_def assms(1) read_chunks_short [OF assms(5)] joined_facts(2) [OF assms(3)])

text \<open>A file that fills its last chunk is given one string too many.\<close>

lemma strvec_read_full:
  assumes "fs_file fs (dir @ CHR ''/'' # what) = Some (joined ws, False)"
    "list_all (\<lambda>w. is_cstring w \<and> LF \<notin> set w) ws" "ws \<noteq> []" "hd ws \<noteq> []" "length (joined ws) mod 2047 = 0"
  shows "file2strvec fs dir what = Some (ws @ [[]])"
proof -
  have "joined ws \<noteq> []" using assms(3) by (cases ws) (simp_all add: joined_def)
  moreover have "strvec (joined (ws @ [[]])) = ws @ [[]]" by (rule strvec_joined) (use assms in simp_all)
  ultimately show ?thesis
    by (simp add: file2strvec_def assms(1) read_chunks_full [OF assms(5)] joined_facts(3) [symmetric])
qed

text \<open>
  The arguments of a process come back one by one from the file that ends each with a zero byte,
  whatever the chunks they are read in; only a file that fills its last chunk of 2047 bytes exactly
  yields an empty string after them.
\<close>

lemma vector_read:
  assumes "fs_file fs (dir @ CHR ''/'' # what) = Some (joined ws, False)"
    "list_all (\<lambda>w. is_cstring w \<and> LF \<notin> set w) ws" "ws \<noteq> []" "hd ws \<noteq> []"
  shows "file2strvec fs dir what = Some (if length (joined ws) mod 2047 = 0 then ws @ [[]] else ws)"
  using strvec_read [OF assms] strvec_read_full [OF assms] by simp

text \<open>An empty first string hides the second one.\<close>

lemma strvec_empty_first:
  assumes "list_all (\<lambda>w. is_cstring w \<and> LF \<notin> set w) (w # ws)"
  shows "strvec (joined ([] # w # ws)) = [] # ws"
proof -
  have all: "list_all (\<lambda>w. is_cstring w \<and> LF \<notin> set w) ([] # w # ws)" using assms by simp
  have "list_all is_cstring ([] # w # ws)" using assms by (simp add: list_all_iff)
  from after_NULs_joined [OF this] have a: "after_NULs (joined ([] # w # ws)) = w # ws" by simp
  have b: "joined ([] # w # ws) ! 0 = NUL" "2 \<le> length (joined ([] # w # ws))" "cstr (joined ([] # w # ws)) = []"
    by (simp_all add: joined_def cstr_def)
  show ?thesis by (simp only: strvec_after_NULs [OF joined_facts(1) [OF all] b(2)] a b simp_thms if_True list.sel)
qed

text \<open>The pointers and the null after them fit in the space counted for them.\<close>

lemma strvec_fits:
  assumes "rbuf \<noteq> []" "last rbuf = NUL"
  shows "length (strvec rbuf) + 1 \<le> vector_room rbuf"
proof -
  let ?b = "map (\<lambda>c. if c = LF then NUL else c) rbuf" and ?n = "length rbuf - 1"
  let ?inner = "{i. i < length [1..<?n] \<and> ?b ! ([1..<?n] ! i) = NUL}"
  have last: "rbuf ! ?n = NUL" "?n < length rbuf" using assms by (simp_all add: last_conv_nth)
  have all: "length (filter (\<lambda>c. c = NUL \<or> c = LF) rbuf) = card {i. i < length rbuf \<and> (rbuf ! i = NUL \<or> rbuf ! i = LF)}"
    by (rule length_filter_conv_card)
  have "card (insert ?n (Suc ` ?inner)) \<le> card {i. i < length rbuf \<and> (rbuf ! i = NUL \<or> rbuf ! i = LF)}"
  proof (rule card_mono)
    show "insert ?n (Suc ` ?inner) \<subseteq> {i. i < length rbuf \<and> (rbuf ! i = NUL \<or> rbuf ! i = LF)}"
      using last by (auto split: if_splits)
  qed simp
  moreover have "card (insert ?n (Suc ` ?inner)) = card ?inner + 1"
    by (subst card_insert_disjoint) (auto simp: card_image)
  moreover have "length (filter (\<lambda>i. ?b ! i = NUL) [1..<?n]) = card ?inner" by (rule length_filter_conv_card)
  ultimately show ?thesis by (simp add: strvec_def Let_def vector_room_def all)
qed

end
