(* ===== verification/PsRead.thy ===== *)
theory PsRead
  imports PsFile PsDisplay
begin

text \<open>
  The readers of \<open>src/modules/ps/src/readproc.c\<close>: one process or one thread from its directory, the
  entries of \<open>/proc\<close> one after the other, and the tables of \<open>readproctab2\<close> and \<open>readproctab3\<close>.
\<close>

subsection \<open>Files as one edited string\<close>

abbreviation MAX_BUFSZ :: nat where "MAX_BUFSZ \<equiv> 131072"

text \<open>
  The bytes of \<open>dst\<close> that \<open>read_unvectored\<close> counts, none when the file cannot be opened. Separators
  replace the zero bytes and newlines before the trailing zero bytes; a last blank becomes a zero byte.
\<close>

definition read_unvectored :: "proc_fs \<Rightarrow> nat \<Rightarrow> string \<Rightarrow> string \<Rightarrow> char \<Rightarrow> mem" where
  "read_unvectored fs sz whom what sep =
     (case fs_file fs (whom @ CHR ''/'' # what) of
        None \<Rightarrow> []
      | Some (content, err) \<Rightarrow>
          let dst = take (if sz \<le> length content then sz - 1 else sz) content;
              zeros = takeWhile (\<lambda>c. c = NUL) (rev dst);
              dst = map (\<lambda>c. if c = LF \<or> c = NUL then sep else c) (take (length dst - length zeros) dst) @ zeros
          in if dst \<noteq> [] \<and> last dst = CHR '' '' then butlast dst @ [NUL] else dst)"

definition vectorize_this_str :: "string \<Rightarrow> string list" where
  "vectorize_this_str src = [src]"

lemma cstr_not_Nil: "src \<noteq> [] \<Longrightarrow> hd src \<noteq> NUL \<Longrightarrow> cstr src \<noteq> []"
  by (cases src) (simp_all add: cstr_def)

text \<open>The loop of \<open>fill_cgroup_cvt\<close>: empty root groups are left out, the others joined with commas.\<close>

function cgroup_loop :: "clib \<Rightarrow> mem \<Rightarrow> string \<Rightarrow> int \<Rightarrow> string" where
  "cgroup_loop lc src dst cells =
     (if src = [] then dst
      else if hd src = NUL then cgroup_loop lc (tl src) dst cells
      else let grp = cstr src; src = drop (length grp) src
           in if last grp = CHR ''/'' then cgroup_loop lc src dst cells
              else let dst = dst @ (if dst = [] then [] else '','');
                       (t, cells) = escape_str lc grp (int MAX_BUFSZ - int (length dst)) cells
                   in cgroup_loop lc src (dst @ t) cells)"
  by pat_completeness auto

termination
  by (relation "measure (\<lambda>(lc, src, dst, cells). length src)") (auto simp: cstr_not_Nil)

declare cgroup_loop.simps [simp del]

definition fill_cgroup_cvt :: "clib \<Rightarrow> proc_fs \<Rightarrow> string \<Rightarrow> proc_t \<Rightarrow> proc_t" where
  "fill_cgroup_cvt lc fs dir p =
     (let dst = cgroup_loop lc (read_unvectored fs MAX_BUFSZ dir ''cgroup'' NUL) [] (int MAX_BUFSZ);
          text = (if dst = [] then ''-'' else dst)
      in p \<lparr> p_cgroup := Some (vectorize_this_str text),
             p_cgname := Some (case strstr text '':name='' of
                 None \<Rightarrow> text
               | Some name \<Rightarrow> if drop 6 name \<noteq> [] then drop 6 name else text) \<rparr>)"

definition fill_cmdline_cvt :: "clib \<Rightarrow> proc_fs \<Rightarrow> string \<Rightarrow> proc_t \<Rightarrow> proc_t outcome" where
  "fill_cmdline_cvt lc fs dir p =
     (let src = read_unvectored fs MAX_BUFSZ dir ''cmdline'' (CHR '' '')
      in obind (if src \<noteq> [] then Val (escape_str lc (cstr src) (int MAX_BUFSZ) (int MAX_BUFSZ))
                else escape_command lc [] p (int MAX_BUFSZ) (int MAX_BUFSZ) (ESC_BRACKETS OR ESC_DEFUNCT)) (\<lambda>(dst, cells).
           Val (p \<lparr> p_cmdline := Some (vectorize_this_str dst) \<rparr>)))"

definition fill_environ_cvt :: "clib \<Rightarrow> proc_fs \<Rightarrow> string \<Rightarrow> proc_t \<Rightarrow> proc_t" where
  "fill_environ_cvt lc fs dir p =
     (let src = read_unvectored fs MAX_BUFSZ dir ''environ'' (CHR '' '');
          dst = (if src = [] then [] else fst (escape_str lc (cstr src) (int MAX_BUFSZ) (int MAX_BUFSZ)))
      in p \<lparr> p_environ := Some (vectorize_this_str (if dst = [] then ''-'' else dst)) \<rparr>)"

text \<open>The name of a container: what follows the last \<open>/lxc/\<close> of the first line with one.\<close>

function last_lxc :: "string \<Rightarrow> string" where
  "last_lxc p1 = (let p2 = drop 5 p1 in case strstr p2 ''/lxc/'' of None \<Rightarrow> p2 | Some p1' \<Rightarrow> last_lxc p1')"
  by pat_completeness auto

termination
proof (relation "measure length")
  fix p1 p2 t :: string
  assume "p2 = drop 5 p1" "strstr p2 ''/lxc/'' = Some t"
  then show "(t, p1) \<in> measure length"
    using strstr_shorter [of p2 "''/lxc/''" t] by (cases t) (auto simp: has_prefix_def)
qed simp

declare last_lxc.simps [simp del]

definition lxc_containers :: "proc_fs \<Rightarrow> string \<Rightarrow> string" where
  "lxc_containers fs path =
     (case file_text fs path ''cgroup'' of None \<Rightarrow> ''-''
      | Some buf \<Rightarrow>
          (case strstr buf ''/lxc/'' of None \<Rightarrow> ''-''
           | Some p1 \<Rightarrow> takeWhile (\<lambda>c. c \<noteq> CHR ''/'') (last_lxc (takeWhile (\<lambda>c. c \<noteq> LF) p1))))"

subsection \<open>One process\<close>

text \<open>
  What the readers look at: the files, the C library, the names of users and groups (\<open>pwcache.c\<close>) and
  whether the kernel has no \<open>/proc/self/task\<close>, which the first \<open>openproc\<close> finds out.
\<close>

record proc_reader =
  rd_fs :: proc_fs
  rd_lib :: clib
  rd_user :: "u32 \<Rightarrow> string"
  rd_group :: "u32 \<Rightarrow> string"
  task_dir_missing :: bool

text \<open>
  An open scan (\<open>PROCTAB\<close>). \<open>procfs\<close> and \<open>taskdir\<close> hold the entries not read yet, \<open>pids\<close> the rest of the
  list, up to and with its terminating 0.
\<close>

record proctab =
  pt_flags :: u32
  procfs :: "string list"
  pids :: "int list"
  uids :: "u32 list"
  taskdir :: "string list option"
  taskdir_user :: int
  did_fake :: bool
  pt_path :: string

abbreviation PROC_FILLUSR :: u32 where "PROC_FILLUSR \<equiv> 0x8"
abbreviation PROC_FILLGRP :: u32 where "PROC_FILLGRP \<equiv> 0x10"
abbreviation PROC_FILLSUPGRP :: u32 where "PROC_FILLSUPGRP \<equiv> 0x400"
abbreviation PROC_FILLOOM :: u32 where "PROC_FILLOOM \<equiv> 0x800"
abbreviation PROC_UID :: u32 where "PROC_UID \<equiv> 0x4000"
abbreviation PROC_FILLNS :: u32 where "PROC_FILLNS \<equiv> 0x8000"
abbreviation PROC_EDITCGRPCVT :: u32 where "PROC_EDITCGRPCVT \<equiv> 0x10000"
abbreviation PROC_EDITENVRCVT :: u32 where "PROC_EDITENVRCVT \<equiv> 0x40000"
abbreviation PROC_FILLSYSTEMD :: u32 where "PROC_FILLSYSTEMD \<equiv> 0x80000"
abbreviation PROC_FILL_LXC :: u32 where "PROC_FILL_LXC \<equiv> 0x800000"

definition ns_names :: "string list" where
  "ns_names = [''ipc'', ''mnt'', ''net'', ''pid'', ''user'', ''uts'']"

definition get_ns_name :: "int \<Rightarrow> string option outcome" where
  "get_ns_name i = (if 6 \<le> i then Val None else if i < 0 then Undef OutOfBounds else Val (Some (ns_names ! nat i)))"

definition get_ns_id :: "string \<Rightarrow> int" where
  "get_ns_id name = (case find (\<lambda>i. ns_names ! i = name) [0..<6] of None \<Rightarrow> -1 | Some i \<Rightarrow> int i)"

definition ns2proc :: "proc_fs \<Rightarrow> string \<Rightarrow> proc_t \<Rightarrow> proc_t" where
  "ns2proc fs directory p =
     p \<lparr> p_ns := map (\<lambda>i. case fs_stat fs (take 63 (directory @ ''/ns/'' @ ns_names ! i)) of
           None \<Rightarrow> p_ns p ! i | Some (uid, gid, ino) \<Rightarrow> ino) [0..<6] \<rparr>"

definition sd2proc :: "proc_t \<Rightarrow> proc_t" where
  "sd2proc p = p \<lparr> p_sd_mach := Some ''?'', p_sd_ouid := Some ''?'', p_sd_seat := Some ''?'', p_sd_sess := Some ''?'',
     p_sd_slice := Some ''?'', p_sd_unit := Some ''?'', p_sd_uunit := Some ''?'' \<rparr>"

definition fill_users :: "proc_reader \<Rightarrow> u32 \<Rightarrow> proc_t \<Rightarrow> proc_t" where
  "fill_users rd flags p =
     (let user = (\<lambda>uid. rd_user rd (of_int uid))
      in if \<not> has flags PROC_FILLUSR then p
         else let p = p \<lparr> p_euser := user (p_euid p) \<rparr>
              in if has flags PROC_FILLSTATUS
                 then p \<lparr> p_ruser := user (p_ruid p), p_suser := user (p_suid p), p_fuser := user (p_fuid p) \<rparr> else p)"

definition fill_groups :: "proc_reader \<Rightarrow> u32 \<Rightarrow> proc_t \<Rightarrow> proc_t" where
  "fill_groups rd flags p =
     (let group = (\<lambda>gid. rd_group rd (of_int gid))
      in if \<not> has flags PROC_FILLGRP then p
         else let p = p \<lparr> p_egroup := group (p_egid p) \<rparr>
              in if has flags PROC_FILLSTATUS
                 then p \<lparr> p_rgroup := group (p_rgid p), p_sgroup := group (p_sgid p), p_fgroup := group (p_fgid p) \<rparr> else p)"

text \<open>\<open>/proc/<pid>/status\<close> and the names of the groups in it; a missing file is passed over.\<close>

definition fill_status :: "proc_reader \<Rightarrow> u32 \<Rightarrow> string \<Rightarrow> bool \<Rightarrow> proc_t \<Rightarrow> proc_t outcome" where
  "fill_status rd flags path is_proc p =
     (if \<not> has flags PROC_FILLSTATUS then Val p
      else case file_text (rd_fs rd) path ''status'' of
             None \<Rightarrow> Val p
           | Some s \<Rightarrow> obind (status2proc s p is_proc) (\<lambda>p.
               if has flags PROC_FILLSUPGRP then supgrps_from_supgids (rd_group rd) p else Val p))"

definition fill_statm :: "proc_reader \<Rightarrow> u32 \<Rightarrow> string \<Rightarrow> proc_t \<Rightarrow> proc_t" where
  "fill_statm rd flags path p =
     (if \<not> has flags NEED_MEM then p
      else case file_text (rd_fs rd) path ''statm'' of None \<Rightarrow> p | Some s \<Rightarrow> statm2proc s p)"

definition fill_oom :: "proc_reader \<Rightarrow> u32 \<Rightarrow> string \<Rightarrow> proc_t \<Rightarrow> proc_t" where
  "fill_oom rd flags path p =
     (if \<not> has flags PROC_FILLOOM then p
      else let p = (case file_text (rd_fs rd) path ''oom_score'' of None \<Rightarrow> p | Some s \<Rightarrow> oomscore2proc s p)
           in case file_text (rd_fs rd) path ''oom_adj'' of None \<Rightarrow> p | Some s \<Rightarrow> oomadj2proc s p)"

text \<open>The files of one process, for the flags; whether it was read: it is gone when there is no \<open>stat\<close>.\<close>

definition read_files :: "proc_reader \<Rightarrow> u32 \<Rightarrow> string \<Rightarrow> proc_t \<Rightarrow> (proc_t \<times> bool) outcome" where
  "read_files rd flags path p =
     (let fs = rd_fs rd
      in if has flags PROC_FILLSTAT \<and> file_text fs path ''stat'' = None then Val (p, False)
         else obind (if has flags PROC_FILLSTAT then stat2proc (the (file_text fs path ''stat'')) p else Val p) (\<lambda>p.
           obind (fill_status rd flags path True (fill_statm rd flags path p)) (\<lambda>p.
             let p = (if 1 < p_nlwp p then p \<lparr> p_wchan := - 1 \<rparr> else p);
                 p = fill_groups rd flags (fill_users rd flags p);
                 p = (if has flags NEED_ENV then p \<lparr> p_environ := file2strvec fs path ''environ'' \<rparr> else p);
                 p = (if has flags (NEED_COM OR NEED_ARG) then p \<lparr> p_cmdline := file2strvec fs path ''cmdline'' \<rparr> else p);
                 p = (if has flags PROC_FILLCGROUP then p \<lparr> p_cgroup := file2strvec fs path ''cgroup'' \<rparr> else p);
                 p = fill_oom rd flags path p;
                 p = (if has flags PROC_FILLNS then ns2proc fs path p else p);
                 p = (if has flags PROC_FILLSYSTEMD then sd2proc p else p);
                 p = (if has flags PROC_FILL_LXC then p \<lparr> p_lxcname := Some (lxc_containers fs path) \<rparr> else p)
             in Val (p, True))))"

text \<open>
  The process and whether it was read; one that is gone, or not of the users asked for, keeps what was
  stored before.
\<close>

definition simple_readproc :: "proc_reader \<Rightarrow> proctab \<Rightarrow> proc_t \<Rightarrow> (proc_t \<times> bool) outcome" where
  "simple_readproc rd PT p =
     (case fs_stat (rd_fs rd) (pt_path PT) of
        None \<Rightarrow> Val (p, False)
      | Some (uid, gid, ino) \<Rightarrow>
          if has (pt_flags PT) PROC_UID \<and> uid \<notin> set (uids PT) then Val (p, False)
          else read_files rd (pt_flags PT) (pt_path PT) (p \<lparr> p_euid := sint uid, p_egid := sint gid \<rparr>))"

text \<open>A thread, from the directory \<open>path\<close>; here the flags for edited strings count.\<close>

definition simple_readtask :: "proc_reader \<Rightarrow> u32 \<Rightarrow> string \<Rightarrow> proc_t \<Rightarrow> (proc_t \<times> bool) outcome" where
  "simple_readtask rd flags path t =
     (let fs = rd_fs rd; lc = rd_lib rd
      in case fs_stat fs path of
           None \<Rightarrow> Val (t, False)
         | Some (uid, gid, ino) \<Rightarrow>
             let t = t \<lparr> p_euid := sint uid, p_egid := sint gid \<rparr>
             in if has flags PROC_FILLSTAT \<and> file_text fs path ''stat'' = None then Val (t, False)
                else obind (if has flags PROC_FILLSTAT then stat2proc (the (file_text fs path ''stat'')) t else Val t) (\<lambda>t.
                  obind (fill_status rd flags path False (fill_statm rd flags path t)) (\<lambda>t.
                    let t = fill_groups rd flags (fill_users rd flags t);
                        t = (if \<not> has flags NEED_ENV then t
                             else if has flags PROC_EDITENVRCVT then fill_environ_cvt lc fs path t
                             else t \<lparr> p_environ := file2strvec fs path ''environ'' \<rparr>)
                    in obind (if \<not> has flags (NEED_COM OR NEED_ARG) then Val t
                              else if has flags PROC_EDITCMDLCVT then fill_cmdline_cvt lc fs path t
                              else Val (t \<lparr> p_cmdline := file2strvec fs path ''cmdline'' \<rparr>)) (\<lambda>t.
                         let t = (if \<not> has flags PROC_FILLCGROUP then t
                                  else if has flags PROC_EDITCGRPCVT then fill_cgroup_cvt lc fs path t
                                  else t \<lparr> p_cgroup := file2strvec fs path ''cgroup'' \<rparr>);
                             t = (if has flags PROC_FILLSYSTEMD then sd2proc t else t);
                             t = (if has flags PROC_FILL_LXC then t \<lparr> p_lxcname := Some (lxc_containers fs path) \<rparr> else t);
                             t = fill_oom rd flags path t;
                             t = (if has flags PROC_FILLNS then ns2proc fs path t else t)
                         in Val (t, True)))))"

end
