(* ===== verification/PsScan.thy ===== *)
theory PsScan
  imports PsRead
begin

text \<open>
  The scans of \<open>src/modules/ps/src/readproc.c\<close>: the finders that go through \<open>/proc\<close> and \<open>/proc/<pid>/task\<close>,
  \<open>readproc\<close>, \<open>readtask\<close> and \<open>readeither\<close>, the tables built with them, and the \<open>proc_source\<close> they are
  for the display.
\<close>

subsection \<open>The next entry\<close>

text \<open>Names that do not start with a digit from 1 to 9 are passed over.\<close>

fun next_entry :: "string list \<Rightarrow> (string \<times> string list) option" where
  "next_entry [] = None"
| "next_entry (e # es) =
     (if e = [] then None else if 48 < byte (hd e) \<and> byte (hd e) \<le> 57 then Some (e, es) else next_entry es)"

definition name_number :: "string \<Rightarrow> int" where
  "name_number e = to_int (int (fst (strtoul 10 e)))"

text \<open>\<open>path\<close> has 64 bytes, and nothing checks the length of a name in \<open>/proc\<close>.\<close>

definition simple_nextpid :: "proctab \<Rightarrow> proc_t \<Rightarrow> (proctab \<times> proc_t \<times> bool) outcome" where
  "simple_nextpid PT p =
     (case next_entry (procfs PT) of
        None \<Rightarrow> Val (PT \<lparr> procfs := [] \<rparr>, p, False)
      | Some (e, es) \<Rightarrow>
          if 58 \<le> length e then Undef OutOfBounds
          else Val (PT \<lparr> procfs := es, pt_path := ''/proc/'' @ e \<rparr>, p \<lparr> p_tgid := name_number e, p_tid := name_number e \<rparr>, True))"

definition listed_nextpid :: "proctab \<Rightarrow> proc_t \<Rightarrow> (proctab \<times> proc_t \<times> bool) outcome" where
  "listed_nextpid PT p =
     (case pids PT of
        [] \<Rightarrow> Undef OutOfBounds
      | tgid # rest \<Rightarrow>
          if tgid \<noteq> 0
          then Val (PT \<lparr> pids := rest, pt_path := ''/proc/'' @ dec_of_int tgid \<rparr>, p \<lparr> p_tgid := tgid, p_tid := tgid \<rparr>, True)
          else Val (PT \<lparr> pids := rest \<rparr>, p, False))"

definition finder :: "proctab \<Rightarrow> proc_t \<Rightarrow> (proctab \<times> proc_t \<times> bool) outcome" where
  "finder PT p = (if has (pt_flags PT) PROC_PID then listed_nextpid PT p else simple_nextpid PT p)"

definition open_taskdir :: "proc_fs \<Rightarrow> proctab \<Rightarrow> proc_t \<Rightarrow> string list option" where
  "open_taskdir fs PT p =
     (if taskdir_user PT \<noteq> p_tgid p then fs_dir fs (''/proc/'' @ dec_of_int (p_tgid p) @ ''/task'') else taskdir PT)"

text \<open>The thread, the path to it, and whether there is one. A directory that was never opened is read.\<close>

definition simple_nexttid :: "proc_fs \<Rightarrow> proctab \<Rightarrow> proc_t \<Rightarrow> proc_t \<Rightarrow> (proctab \<times> proc_t \<times> string \<times> bool) outcome" where
  "simple_nexttid fs PT p t =
     (case open_taskdir fs PT p of
        None \<Rightarrow> if taskdir_user PT \<noteq> p_tgid p then Val (PT \<lparr> taskdir := None \<rparr>, t, [], False) else Undef NullDeref
      | Some entries \<Rightarrow>
          let PT = PT \<lparr> taskdir_user := p_tgid p \<rparr>
          in (case next_entry entries of
                None \<Rightarrow> Val (PT \<lparr> taskdir := Some [] \<rparr>, t, [], False)
              | Some (e, es) \<Rightarrow>
                  Val (PT \<lparr> taskdir := Some es \<rparr>, t \<lparr> p_tid := name_number e, p_tgid := p_tgid p \<rparr>,
                       take 63 (''/proc/'' @ dec_of_int (p_tgid p) @ ''/task/'' @ e), True)))"

lemma next_entry_shorter: "next_entry es = Some (e, r) \<Longrightarrow> length r < length es"
  by (induction es) (auto split: if_splits)

definition entries_left :: "proctab \<Rightarrow> nat" where
  "entries_left PT = length (procfs PT) + length (pids PT)"

lemma finder_progress: "finder PT p = Val (PT', p', True) \<Longrightarrow> entries_left PT' < entries_left PT"
  using next_entry_shorter [of "procfs PT"]
  by (auto simp: finder_def listed_nextpid_def simple_nextpid_def entries_left_def split: if_splits list.splits option.splits)

definition tasks_left :: "proc_fs \<Rightarrow> proctab \<Rightarrow> proc_t \<Rightarrow> nat" where
  "tasks_left fs PT p = (case open_taskdir fs PT p of None \<Rightarrow> 0 | Some es \<Rightarrow> length es)"

lemma nexttid_progress: "simple_nexttid fs PT p t = Val (PT', t', path, True) \<Longrightarrow> tasks_left fs PT' p < tasks_left fs PT p"
proof -
  assume found: "simple_nexttid fs PT p t = Val (PT', t', path, True)"
  then obtain es e r where es: "open_taskdir fs PT p = Some es" "next_entry es = Some (e, r)"
    and PT: "PT' = PT \<lparr> taskdir_user := p_tgid p, taskdir := Some r \<rparr>"
    by (auto simp: simple_nexttid_def Let_def split: if_splits option.splits)
  have "open_taskdir fs PT' p = Some r" by (simp add: open_taskdir_def PT)
  then show ?thesis using next_entry_shorter [OF es(2)] by (simp add: tasks_left_def es(1))
qed

subsection \<open>The readers\<close>

text \<open>The loop of \<open>readproc\<close>: a process that cannot be read leaves what it stored in \<open>p\<close>.\<close>

function readproc_loop :: "proc_reader \<Rightarrow> proctab \<Rightarrow> proc_t \<Rightarrow> (proctab \<times> proc_t option) outcome" where
  "readproc_loop rd PT p =
     obind (finder PT p) (\<lambda>r.
       if \<not> snd (snd r) then Val (fst r, None)
       else obind (simple_readproc rd (fst r) (fst (snd r))) (\<lambda>q.
         if snd q then Val (fst r, Some (fst q)) else readproc_loop rd (fst r) (fst q)))"
  by pat_completeness auto

termination
proof (relation "measure (\<lambda>(rd, PT, p). entries_left PT)")
  fix rd :: proc_reader and PT :: proctab and p :: proc_t and r q
  assume "finder PT p = Val r" "\<not> \<not> snd (snd r)"
  then show "((rd, fst r, fst q), rd, PT, p) \<in> measure (\<lambda>(rd, PT, p). entries_left PT)"
    using finder_progress [of PT p "fst r" "fst (snd r)"] by (cases r) auto
qed simp

declare readproc_loop.simps [simp del]

definition readproc :: "proc_reader \<Rightarrow> proctab \<Rightarrow> (proctab \<times> proc_t option) outcome" where
  "readproc rd PT = readproc_loop rd (PT \<lparr> did_fake := False \<rparr>) blank_proc"

function readtask_loop :: "proc_reader \<Rightarrow> proctab \<Rightarrow> proc_t \<Rightarrow> proc_t \<Rightarrow> (proctab \<times> proc_t option) outcome" where
  "readtask_loop rd PT p t =
     obind (simple_nexttid (rd_fs rd) PT p t) (\<lambda>r.
       if \<not> snd (snd (snd r)) then Val (fst r, None)
       else obind (simple_readtask rd (pt_flags (fst r)) (fst (snd (snd r))) (fst (snd r))) (\<lambda>q.
         if snd q then Val (fst r, Some (fst q)) else readtask_loop rd (fst r) p (fst q)))"
  by pat_completeness auto

termination
proof (relation "measure (\<lambda>(rd, PT, p, t). tasks_left (rd_fs rd) PT p)")
  fix rd :: proc_reader and PT :: proctab and p t :: proc_t and r q
  assume "simple_nexttid (rd_fs rd) PT p t = Val r" "\<not> \<not> snd (snd (snd r))"
  then show "((rd, fst r, p, fst q), rd, PT, p, t) \<in> measure (\<lambda>(rd, PT, p, t). tasks_left (rd_fs rd) PT p)"
    using nexttid_progress [of "rd_fs rd" PT p t "fst r" "fst (snd r)" "fst (snd (snd r))"] by (cases r) auto
qed simp

declare readtask_loop.simps [simp del]

text \<open>Without \<open>/proc/self/task\<close> every process has one thread that is a copy of it.\<close>

definition readtask :: "proc_reader \<Rightarrow> proctab \<Rightarrow> proc_t \<Rightarrow> (proctab \<times> proc_t option) outcome" where
  "readtask rd PT p =
     (if task_dir_missing rd then
        if did_fake PT then Val (PT, None)
        else Val (PT \<lparr> did_fake := True \<rparr>,
                  Some (p \<lparr> p_signal := p_sigpnd p, p_environ := None, p_cmdline := Some (vectorize_this_str ''n/a''),
                            p_cgroup := None, p_supgid := None, p_supgrp := None \<rparr>))
      else readtask_loop rd PT p blank_proc)"

lemma nexttid_entries: "simple_nexttid fs PT p t = Val (PT', t', path, found) \<Longrightarrow> entries_left PT' = entries_left PT"
  by (auto simp: simple_nexttid_def entries_left_def Let_def split: if_splits option.splits)

text \<open>
  \<open>readeither\<close>: the threads of all processes in a row. \<open>skel_p\<close> and \<open>new_p\<close> are static; of \<open>new_p\<close> only counts
  whether there is one. A thread that cannot be read ends its process.
\<close>

function either_loop :: "proc_reader \<Rightarrow> proctab \<Rightarrow> proc_t \<Rightarrow> proc_t \<Rightarrow> bool \<Rightarrow> ((proctab \<times> proc_t \<times> bool) \<times> proc_t option) outcome" where
  "either_loop rd PT skel x new_p =
     (if new_p then
        obind (simple_nexttid (rd_fs rd) PT skel x) (\<lambda>r.
          if \<not> snd (snd (snd r)) then either_loop rd (fst r) skel (fst (snd r)) False
          else obind (simple_readtask rd (pt_flags (fst r)) (fst (snd (snd r))) (fst (snd r))) (\<lambda>q.
            if snd q then Val ((fst r, skel, True), Some (fst q)) else either_loop rd (fst r) skel (fst q) False))
      else
        obind (finder PT skel) (\<lambda>r.
          if \<not> snd (snd r) then Val ((fst r, fst (snd r), False), None)
          else if \<not> task_dir_missing rd then either_loop rd (fst r) (fst (snd r)) x True
          else obind (simple_readproc rd (fst r) x) (\<lambda>q.
            if snd q then Val ((fst r, fst (snd r), False), Some (fst q)) else either_loop rd (fst r) (fst (snd r)) (fst q) False)))"
  by pat_completeness auto

termination
proof (relation "measures [\<lambda>(rd, PT, skel, x, new_p). entries_left PT, \<lambda>(rd, PT, skel, x, new_p). if new_p then 1 else 0]")
  fix rd :: proc_reader and PT :: proctab and skel x :: proc_t and new_p :: bool and r
  assume r: "simple_nexttid (rd_fs rd) PT skel x = Val r" and "new_p"
  have "entries_left (fst r) = entries_left PT" using nexttid_entries r by (cases r) auto
  then show "((rd, fst r, skel, fst (snd r), False), rd, PT, skel, x, new_p) \<in>
      measures [\<lambda>(rd, PT, skel, x, new_p). entries_left PT, \<lambda>(rd, PT, skel, x, new_p). if new_p then 1 else 0]"
    "((rd, fst r, skel, fst q, False), rd, PT, skel, x, new_p) \<in>
      measures [\<lambda>(rd, PT, skel, x, new_p). entries_left PT, \<lambda>(rd, PT, skel, x, new_p). if new_p then 1 else 0]" for q :: "proc_t \<times> bool"
    using \<open>new_p\<close> by simp_all
next
  fix rd :: proc_reader and PT :: proctab and skel x :: proc_t and new_p :: bool and r
  assume r: "finder PT skel = Val r" and "\<not> \<not> snd (snd r)"
  then have "entries_left (fst r) < entries_left PT" using finder_progress [of PT skel "fst r" "fst (snd r)"] by (cases r) auto
  then show "((rd, fst r, fst (snd r), x, True), rd, PT, skel, x, new_p) \<in>
      measures [\<lambda>(rd, PT, skel, x, new_p). entries_left PT, \<lambda>(rd, PT, skel, x, new_p). if new_p then 1 else 0]"
    "((rd, fst r, fst (snd r), fst q, False), rd, PT, skel, x, new_p) \<in>
      measures [\<lambda>(rd, PT, skel, x, new_p). entries_left PT, \<lambda>(rd, PT, skel, x, new_p). if new_p then 1 else 0]" for q :: "proc_t \<times> bool"
    by simp_all
qed simp

declare either_loop.simps [simp del]

definition readeither :: "proc_reader \<Rightarrow> proctab \<times> proc_t \<times> bool \<Rightarrow> ((proctab \<times> proc_t \<times> bool) \<times> proc_t option) outcome" where
  "readeither rd s = (case s of (PT, skel, new_p) \<Rightarrow> either_loop rd PT skel blank_proc new_p)"

subsection \<open>Opening a scan\<close>

definition openproc :: "proc_fs \<Rightarrow> u32 \<Rightarrow> int list \<Rightarrow> u32 list \<Rightarrow> proctab option" where
  "openproc fs flags pid_list uid_list =
     (let PT = \<lparr> pt_flags = flags, procfs = [], pids = [], uids = [], taskdir = None, taskdir_user = -1, did_fake = False,
                  pt_path = [] \<rparr>
      in if has flags PROC_PID then Some (PT \<lparr> pids := pid_list \<rparr>)
         else case fs_dir fs ''/proc'' of
                None \<Rightarrow> None
              | Some entries \<Rightarrow> Some (PT \<lparr> procfs := entries, uids := if has flags PROC_UID then uid_list else [] \<rparr>))"

definition look_up_our_self :: "proc_fs \<Rightarrow> proc_t \<Rightarrow> proc_t outcome" where
  "look_up_our_self fs p =
     (case file_text fs ''/proc/self'' ''stat'' of None \<Rightarrow> Undef Exits | Some s \<Rightarrow> stat2proc s p)"

definition get_proc_stats :: "proc_fs \<Rightarrow> int \<Rightarrow> proc_t \<Rightarrow> proc_t option outcome" where
  "get_proc_stats fs pid p =
     (let path = ''/proc/'' @ dec_of_int pid
      in if fs_stat fs path = None then Val None
         else obind (case file_text fs path ''stat'' of None \<Rightarrow> Val p | Some s \<Rightarrow> stat2proc s p) (\<lambda>p.
           let p = (case file_text fs path ''statm'' of None \<Rightarrow> p | Some s \<Rightarrow> statm2proc s p)
           in obind (case file_text fs path ''status'' of None \<Rightarrow> Val p | Some s \<Rightarrow> status2proc s p False) (\<lambda>p. Val (Some p))))"

subsection \<open>Tables\<close>

text \<open>All that \<open>readproc\<close> returns one after the other, as \<open>readproctab\<close> and the loop of the display see it.\<close>

lemma readproc_loop_progress: "readproc_loop rd PT p = Val (PT', Some q) \<Longrightarrow> entries_left PT' < entries_left PT"
proof (induction rd PT p rule: readproc_loop.induct)
  case (1 rd PT p)
  obtain PT1 p1 where r: "finder PT p = Val (PT1, p1, True)"
    using 1(2) by (subst (asm) readproc_loop.simps) (auto simp: obind_eq_Val split: if_splits)
  have less: "entries_left PT1 < entries_left PT" by (rule finder_progress [OF r])
  obtain p2 ok where q: "simple_readproc rd PT1 p1 = Val (p2, ok)"
    using 1(2) r by (subst (asm) readproc_loop.simps) (auto simp: obind_eq_Val)
  show ?case
  proof (cases ok)
    case True
    then show ?thesis using 1(2) r q less by (subst (asm) readproc_loop.simps) auto
  next
    case False
    then have "readproc_loop rd PT1 p2 = Val (PT', Some q)" using 1(2) r q by (subst (asm) readproc_loop.simps) auto
    then show ?thesis using 1(1) [OF r _ _ ] q False less by fastforce
  qed
qed

function readproctab :: "proc_reader \<Rightarrow> proctab \<Rightarrow> proc_t list outcome" where
  "readproctab rd PT =
     obind (readproc rd PT) (\<lambda>r. case snd r of None \<Rightarrow> Val [] | Some p \<Rightarrow> obind (readproctab rd (fst r)) (\<lambda>ps. Val (p # ps)))"
  by pat_completeness auto

termination
proof (relation "measure (\<lambda>(rd, PT). entries_left PT)")
  fix rd :: proc_reader and PT :: proctab and r p
  assume r: "readproc rd PT = Val r" and p: "snd r = Some p"
  then have "readproc_loop rd (PT \<lparr> did_fake := False \<rparr>) blank_proc = Val (fst r, Some p)" by (cases r) (simp add: readproc_def)
  from readproc_loop_progress [OF this] show "((rd, fst r), rd, PT) \<in> measure (\<lambda>(rd, PT). entries_left PT)"
    by (simp add: entries_left_def)
qed simp

declare readproctab.simps [simp del]

text \<open>All that \<open>readtask\<close> returns for one process.\<close>

definition fakes_left :: "proctab \<Rightarrow> nat" where
  "fakes_left PT = (if did_fake PT then 0 else 1)"

lemma readtask_loop_progress:
  "readtask_loop rd PT p t = Val (PT', Some q) \<Longrightarrow> tasks_left (rd_fs rd) PT' p < tasks_left (rd_fs rd) PT p \<and> fakes_left PT' = fakes_left PT"
proof (induction rd PT p t rule: readtask_loop.induct)
  case (1 rd PT p t)
  obtain PT1 t1 path where r: "simple_nexttid (rd_fs rd) PT p t = Val (PT1, t1, path, True)"
    using 1(2) by (subst (asm) readtask_loop.simps) (auto simp: obind_eq_Val split: if_splits)
  have less: "tasks_left (rd_fs rd) PT1 p < tasks_left (rd_fs rd) PT p" by (rule nexttid_progress [OF r])
  have fake: "fakes_left PT1 = fakes_left PT"
    using r by (auto simp: simple_nexttid_def fakes_left_def Let_def split: if_splits option.splits)
  obtain t2 ok where q: "simple_readtask rd (pt_flags PT1) path t1 = Val (t2, ok)"
    using 1(2) r by (subst (asm) readtask_loop.simps) (auto simp: obind_eq_Val)
  show ?case
  proof (cases ok)
    case True
    then show ?thesis using 1(2) r q less fake by (subst (asm) readtask_loop.simps) auto
  next
    case False
    then have "readtask_loop rd PT1 p t2 = Val (PT', Some q)" using 1(2) r q by (subst (asm) readtask_loop.simps) auto
    then show ?thesis using 1(1) [OF r _ _ ] q False less fake by fastforce
  qed
qed

lemma readtask_progress:
  assumes "readtask rd PT p = Val (PT', Some q)"
  shows "tasks_left (rd_fs rd) PT' p + fakes_left PT' < tasks_left (rd_fs rd) PT p + fakes_left PT"
proof (cases "task_dir_missing rd")
  case True
  then have "PT' = PT \<lparr> did_fake := True \<rparr>" "\<not> did_fake PT" using assms by (auto simp: readtask_def split: if_splits)
  then show ?thesis by (simp add: tasks_left_def open_taskdir_def fakes_left_def)
next
  case False
  then have "readtask_loop rd PT p blank_proc = Val (PT', Some q)" using assms by (simp add: readtask_def)
  then show ?thesis using readtask_loop_progress [of rd PT p blank_proc PT' q] by simp
qed

function all_tasks :: "proc_reader \<Rightarrow> proctab \<Rightarrow> proc_t \<Rightarrow> (proctab \<times> proc_t list) outcome" where
  "all_tasks rd PT p =
     obind (readtask rd PT p) (\<lambda>r.
       case snd r of None \<Rightarrow> Val (fst r, [])
       | Some t \<Rightarrow> obind (all_tasks rd (fst r) p) (\<lambda>s. Val (fst s, t # snd s)))"
  by pat_completeness auto

termination
proof (relation "measure (\<lambda>(rd, PT, p). tasks_left (rd_fs rd) PT p + fakes_left PT)")
  fix rd :: proc_reader and PT :: proctab and p :: proc_t and r t
  assume "readtask rd PT p = Val r" "snd r = Some t"
  then show "((rd, fst r, p), rd, PT, p) \<in> measure (\<lambda>(rd, PT, p). tasks_left (rd_fs rd) PT p + fakes_left PT)"
    using readtask_progress [of rd PT p "fst r" t] by (cases r) auto
qed simp

declare all_tasks.simps [simp del]

text \<open>
  \<open>readproctab2\<close>. The callbacks get the structure and leave it changed, or do not want it. \<open>n_alloc\<close> and
  \<open>n_used\<close> count the structures of \<open>data\<close>. When it is full before a thread is read, the first new structure is
  not set to zero, and \<open>readtask\<close> frees the pointers it happens to hold.
\<close>

definition grown :: "nat \<Rightarrow> nat" where
  "grown n_alloc = n_alloc * 5 div 4 + 30"

function table_tasks :: "proc_reader \<Rightarrow> (proc_t \<Rightarrow> proc_t option outcome) \<Rightarrow> proctab \<Rightarrow> proc_t \<Rightarrow> nat \<Rightarrow> nat \<Rightarrow>
    (proctab \<times> nat \<times> nat \<times> proc_t list) outcome" where
  "table_tasks rd want_task PT p n_alloc n_used =
     (if n_alloc = n_used then Undef Uninitialised
      else obind (readtask rd PT p) (\<lambda>r.
        case snd r of None \<Rightarrow> Val (fst r, n_alloc, n_used, [])
        | Some t \<Rightarrow>
            obind (want_task t) (\<lambda>w.
              obind (table_tasks rd want_task (fst r) p n_alloc (if w = None then n_used else n_used + 1)) (\<lambda>s.
                case s of (PT, n_alloc, n_used, ts) \<Rightarrow>
                  Val (PT, n_alloc, n_used, (case w of None \<Rightarrow> ts | Some t \<Rightarrow> t # ts))))))"
  by pat_completeness auto

termination
proof (relation "measure (\<lambda>(rd, w, PT, p, a, u). tasks_left (rd_fs rd) PT p + fakes_left PT)")
  fix rd :: proc_reader and PT :: proctab and p :: proc_t and w :: "proc_t \<Rightarrow> proc_t option outcome" and a u v :: nat and r t
  assume "readtask rd PT p = Val r" "snd r = Some t"
  then show "((rd, w, fst r, p, a, if x = None then u else u + 1), rd, w, PT, p, a, u) \<in>
      measure (\<lambda>(rd, w, PT, p, a, u). tasks_left (rd_fs rd) PT p + fakes_left PT)" for x :: "proc_t option"
    using readtask_progress [of rd PT p "fst r" t] by (cases r) auto
qed simp

declare table_tasks.simps [simp del]

lemma finder_flags: "finder PT p = Val (PT', r) \<Longrightarrow> pt_flags PT' = pt_flags PT"
  by (auto simp: finder_def listed_nextpid_def simple_nextpid_def split: if_splits list.splits option.splits)

lemma nexttid_flags: "simple_nexttid fs PT p t = Val (PT', r) \<Longrightarrow> pt_flags PT' = pt_flags PT"
  by (auto simp: simple_nexttid_def Let_def split: if_splits option.splits)

lemma readproc_loop_flags: "readproc_loop rd PT p = Val (PT', r) \<Longrightarrow> pt_flags PT' = pt_flags PT"
proof (induction rd PT p rule: readproc_loop.induct)
  case (1 rd PT p)
  note run = 1(2) [unfolded readproc_loop.simps [of rd PT p]]
  obtain s where s: "finder PT p = Val s" using run by (auto simp: obind_eq_Val)
  have PT1: "pt_flags (fst s) = pt_flags PT" using s finder_flags by (cases s) auto
  show ?case
  proof (cases "snd (snd s)")
    case False
    then show ?thesis using run s PT1 by simp
  next
    case True
    then obtain q where q: "simple_readproc rd (fst s) (fst (snd s)) = Val q" using run s by (auto simp: obind_eq_Val)
    show ?thesis
    proof (cases "snd q")
      case False
      then show ?thesis using 1(1) [OF s _ q] run s q True PT1 by simp
    qed (use run s q True PT1 in simp)
  qed
qed

lemma readtask_loop_keeps:
  "readtask_loop rd PT p t = Val (PT', r) \<Longrightarrow> pt_flags PT' = pt_flags PT \<and> entries_left PT' = entries_left PT"
proof (induction rd PT p t rule: readtask_loop.induct)
  case (1 rd PT p t)
  note run = 1(2) [unfolded readtask_loop.simps [of rd PT p t]]
  obtain s where s: "simple_nexttid (rd_fs rd) PT p t = Val s" using run by (auto simp: obind_eq_Val)
  have PT1: "pt_flags (fst s) = pt_flags PT" "entries_left (fst s) = entries_left PT"
    using s nexttid_flags nexttid_entries by (cases s; force)+
  show ?case
  proof (cases "snd (snd (snd s))")
    case False
    then show ?thesis using run s PT1 by simp
  next
    case True
    then obtain q where q: "simple_readtask rd (pt_flags (fst s)) (fst (snd (snd s))) (fst (snd s)) = Val q"
      using run s by (auto simp: obind_eq_Val)
    show ?thesis
    proof (cases "snd q")
      case False
      then show ?thesis using 1(1) [OF s _ q] run s q True PT1 by simp
    qed (use run s q True PT1 in simp)
  qed
qed

lemma readtask_keeps: "readtask rd PT p = Val (PT', r) \<Longrightarrow> pt_flags PT' = pt_flags PT \<and> entries_left PT' = entries_left PT"
  using readtask_loop_keeps by (auto simp: readtask_def entries_left_def split: if_splits)

lemma table_tasks_keeps:
  "table_tasks rd w PT p a u = Val (PT', r) \<Longrightarrow> pt_flags PT' = pt_flags PT \<and> entries_left PT' = entries_left PT"
proof (induction rd w PT p a u arbitrary: r rule: table_tasks.induct)
  case (1 rd w PT p a u)
  note run = 1(2) [unfolded table_tasks.simps [of rd w PT p a u]]
  obtain s where s: "a \<noteq> u" "readtask rd PT p = Val s" using run by (auto simp: obind_eq_Val split: if_splits)
  have PT1: "pt_flags (fst s) = pt_flags PT" "entries_left (fst s) = entries_left PT"
    using s readtask_keeps by (cases s; force)+
  show ?case
  proof (cases "snd s")
    case None
    then show ?thesis using run s PT1 by simp
  next
    case (Some t)
    then obtain x v where x: "w t = Val x" "table_tasks rd w (fst s) p a (if x = None then u else u + 1) = Val v" "fst v = PT'"
      using run s by (fastforce simp: obind_eq_Val split: prod.splits)
    then show ?thesis using 1(1) [OF s(1,2) Some x(1)] PT1 by (cases v) simp
  qed
qed

lemma readproc_progress:
  assumes "readproc rd PT = Val r" "snd r = Some p"
  shows "entries_left (fst r) < entries_left PT"
proof -
  have "readproc_loop rd (PT \<lparr> did_fake := False \<rparr>) blank_proc = Val (fst r, Some p)" using assms by (cases r) (simp add: readproc_def)
  from readproc_loop_progress [OF this] show ?thesis by (simp add: entries_left_def)
qed

lemma tasks_progress:
  assumes "readproc rd PT = Val r" "snd r = Some p" "table_tasks rd wt (fst r) p' a u = Val q"
  shows "entries_left (fst q) < entries_left PT"
  using readproc_progress [OF assms(1,2)] table_tasks_keeps [of rd wt "fst r" p' a u "fst q" "snd q"] assms(3) by simp

function table_procs :: "proc_reader \<Rightarrow> (proc_t \<Rightarrow> proc_t option) \<Rightarrow> (proc_t \<Rightarrow> proc_t option outcome) \<Rightarrow> proctab \<Rightarrow> nat \<Rightarrow> nat \<Rightarrow>
    (proc_t list \<times> proc_t list) outcome" where
  "table_procs rd want_proc want_task PT n_alloc n_used =
     (let n_alloc = (if n_alloc = n_used then grown n_alloc else n_alloc)
      in obind (readproc rd PT) (\<lambda>r.
           case snd r of None \<Rightarrow> Val ([], [])
           | Some p \<Rightarrow>
               (case want_proc p of
                  None \<Rightarrow> table_procs rd want_proc want_task (fst r) n_alloc n_used
                | Some p \<Rightarrow>
                    if \<not> has (pt_flags PT) PROC_LOOSE_TASKS then
                      obind (table_procs rd want_proc want_task (fst r) n_alloc (n_used + 1)) (\<lambda>s. Val (p # fst s, snd s))
                    else
                      obind (table_tasks rd want_task (fst r) p n_alloc (n_used + 1)) (\<lambda>q.
                        obind (table_procs rd want_proc want_task (fst q) (fst (snd q)) (fst (snd (snd q)))) (\<lambda>s.
                          Val (p # fst s, snd (snd (snd q)) @ snd s))))))"
  by pat_completeness auto

termination
  by (relation "measure (\<lambda>(rd, wp, wt, PT, a, u). entries_left PT)") (simp_all add: readproc_progress tasks_progress)

declare table_procs.simps [simp del]

definition readproctab2 :: "proc_reader \<Rightarrow> (proc_t \<Rightarrow> proc_t option) \<Rightarrow> (proc_t \<Rightarrow> proc_t option outcome) \<Rightarrow> proctab \<Rightarrow> proc_t list outcome" where
  "readproctab2 rd want_proc want_task PT =
     obind (table_procs rd want_proc want_task PT 0 0) (\<lambda>(ps, ts). Val (if has (pt_flags PT) PROC_LOOSE_TASKS then ts else ps))"

lemma either_loop_progress:
  "either_loop rd PT skel x n = Val ((PT', skel', n'), Some t) \<Longrightarrow>
   entries_left PT' < entries_left PT \<or>
   entries_left PT' = entries_left PT \<and> n \<and> n' \<and> skel' = skel \<and> tasks_left (rd_fs rd) PT' skel < tasks_left (rd_fs rd) PT skel"
proof (induction rd PT skel x n rule: either_loop.induct)
  case (1 rd PT skel x n)
  note run = 1(5) [unfolded either_loop.simps [of rd PT skel x n]]
  show ?case
  proof (cases n)
    case True
    then obtain s where s: "simple_nexttid (rd_fs rd) PT skel x = Val s" using run by (auto simp: obind_eq_Val)
    have same: "entries_left (fst s) = entries_left PT" using s nexttid_entries by (cases s) auto
    show ?thesis
    proof (cases "snd (snd (snd s))")
      case False
      then show ?thesis using 1(1) [OF True s] run True s same by simp
    next
      case found: True
      then obtain q where q: "simple_readtask rd (pt_flags (fst s)) (fst (snd (snd s))) (fst (snd s)) = Val q"
        using run s True by (auto simp: obind_eq_Val)
      have less: "tasks_left (rd_fs rd) (fst s) skel < tasks_left (rd_fs rd) PT skel"
        using nexttid_progress [of "rd_fs rd" PT skel x "fst s" "fst (snd s)" "fst (snd (snd s))"] s found by (cases s) auto
      show ?thesis
      proof (cases "snd q")
        case False
        then show ?thesis using 1(2) [OF True s _ q] found run True s q same by simp
      qed (use run True s q found same less in auto)
    qed
  next
    case False
    then obtain s where s: "finder PT skel = Val s" using run by (auto simp: obind_eq_Val)
    show ?thesis
    proof (cases "snd (snd s)")
      case found: True
      have less: "entries_left (fst s) < entries_left PT" using finder_progress [of PT skel "fst s" "fst (snd s)"] s found by (cases s) auto
      show ?thesis
      proof (cases "task_dir_missing rd")
        case False
        then show ?thesis using 1(3) [OF \<open>\<not> n\<close> s] found run \<open>\<not> n\<close> s less by auto
      next
        case missing: True
        then obtain q where q: "simple_readproc rd (fst s) x = Val q" using run s found False by (auto simp: obind_eq_Val)
        show ?thesis
        proof (cases "snd q")
          case False
          then show ?thesis using 1(4) [OF \<open>\<not> n\<close> s _ _ q] found missing run \<open>\<not> n\<close> s q less by auto
        qed (use run False s q found missing less in auto)
      qed
    qed (use run False s in simp)
  qed
qed

text \<open>All that \<open>readeither\<close> returns one after the other; \<open>readproctab3\<close> keeps those that are wanted.\<close>

function all_either :: "proc_reader \<Rightarrow> proctab \<times> proc_t \<times> bool \<Rightarrow> proc_t list outcome" where
  "all_either rd s =
     obind (readeither rd s) (\<lambda>r. case snd r of None \<Rightarrow> Val [] | Some t \<Rightarrow> obind (all_either rd (fst r)) (\<lambda>ts. Val (t # ts)))"
  by pat_completeness auto

termination
proof (relation "measures [\<lambda>(rd, PT, skel, n). entries_left PT, \<lambda>(rd, PT, skel, n). if n then Suc (tasks_left (rd_fs rd) PT skel) else 0]")
  fix rd :: proc_reader and s :: "proctab \<times> proc_t \<times> bool" and r t
  assume "readeither rd s = Val r" "snd r = Some t"
  then show "((rd, fst r), rd, s) \<in> measures [\<lambda>(rd, PT, skel, n). entries_left PT,
      \<lambda>(rd, PT, skel, n). if n then Suc (tasks_left (rd_fs rd) PT skel) else 0]"
    by (cases s; cases r) (auto simp: readeither_def dest!: either_loop_progress)
qed simp

declare all_either.simps [simp del]

definition readproctab3 :: "proc_reader \<Rightarrow> (proc_t \<Rightarrow> proc_t option) \<Rightarrow> proctab \<Rightarrow> proc_t list outcome" where
  "readproctab3 rd want_task PT =
     obind (all_either rd (PT, blank_proc, False)) (\<lambda>ts. Val (List.map_filter want_task ts))"

subsection \<open>The source of the processes\<close>

text \<open>
  What the display reads from. The callback for threads that \<open>fancy_spew\<close> hands to \<open>readproctab2\<close> is an
  address without code. The threads of a process are read in a scan of their own; in the code the
  scan of the process is used, so an id listed twice has its threads once.
\<close>

definition proc_dir :: "proc_reader \<Rightarrow> proc_source" where
  "proc_dir rd =
     \<lparr> read_procs = (\<lambda>flags pid_list.
         case openproc (rd_fs rd) flags (case pid_list of None \<Rightarrow> [] | Some l \<Rightarrow> l) [] of
           None \<Rightarrow> Val None | Some PT \<Rightarrow> obind (readproctab rd PT) (\<lambda>ps. Val (Some ps))),
       read_tasks = (\<lambda>flags p.
         case openproc (rd_fs rd) flags [] [] of
           None \<Rightarrow> Val [] | Some PT \<Rightarrow> obind (all_tasks rd PT p) (\<lambda>r. Val (snd r))),
       read_table = (\<lambda>want flags.
         case openproc (rd_fs rd) flags [] [] of
           None \<Rightarrow> Val None
         | Some PT \<Rightarrow> obind (readproctab2 rd want (\<lambda>_. Undef NullDeref) PT) (\<lambda>ps. Val (Some ps))),
       read_either = (\<lambda>want flags.
         case openproc (rd_fs rd) flags [] [] of
           None \<Rightarrow> Val None | Some PT \<Rightarrow> obind (readproctab3 rd want PT) (\<lambda>ts. Val (Some ts))) \<rparr>"

end
