(* ===== verification/PsStatusProps.thy ===== *)
theory PsStatusProps
  imports PsStatus
begin

text \<open>
  What \<open>status2proc\<close> makes of the file the kernel writes: the hash finds the field of every line, and
  every line is read back.
\<close>

subsection \<open>The hash is perfect\<close>

definition status_names :: "string list" where
  "status_names = filter (\<lambda>n. n \<noteq> []) status_table"

lemma status_entry_take: "3 < length S \<Longrightarrow> status_entry S = status_entry (take 4 S)"
  by (simp add: status_entry_def Let_def nth_append)

lemma names_hashed:
  "list_all (\<lambda>n. 3 \<le> length n \<and> CHR '':'' \<notin> set n \<and> LF \<notin> set n \<and> status_entry (take 4 (n @ '':'')) = Val n) status_names"
  by code_simp

lemma status_names_facts:
  assumes "n \<in> set status_names"
  shows "3 \<le> length n" "CHR '':'' \<notin> set n" "LF \<notin> set n" "n \<noteq> []" "status_entry (n @ CHR '':'' # t) = Val n"
proof -
  have all: "3 \<le> length n \<and> CHR '':'' \<notin> set n \<and> LF \<notin> set n \<and> status_entry (take 4 (n @ '':'')) = Val n"
    using names_hashed assms by (simp add: list_all_iff)
  then show "3 \<le> length n" "CHR '':'' \<notin> set n" "LF \<notin> set n" "n \<noteq> []" by auto
  have "take 4 (n @ CHR '':'' # t) = take 4 (n @ '':'')" using all by (simp add: take_Cons')
  then show "status_entry (n @ CHR '':'' # t) = Val n"
    using all status_entry_take [of "n @ CHR '':'' # t"] by simp
qed

lemma strchr_split: "c \<notin> set a \<Longrightarrow> strchr (a @ c # t) c = Some (c # t)"
  by (induction a) auto

lemma strchr_front: "strchr s c = Some t \<Longrightarrow> \<exists>a. s = a @ t \<and> c \<notin> set a"
  by (induction s) (auto split: if_splits intro: exI [of _ "_ # _"])

lemma status_entry_in: "status_entry S = Val n \<Longrightarrow> n \<in> set status_table"
proof -
  assume "status_entry S = Val n"
  moreover have "length status_table = 128" by (simp add: status_table_def)
  ultimately show ?thesis by (auto simp: status_entry_def Let_def split: if_splits)
qed

lemma take_front:
  assumes "strchr S c = Some t"
  shows "take (length S - length t) S @ t = S" "c \<notin> set (take (length S - length t) S)"
  using strchr_front [OF assms] by auto

text \<open>
  C27: The hash of status2proc is perfect. When the three letters of a line lead to an entry, the
  line's name is the one of that entry exactly if it is a name of the table at all; no name of the
  table is sent elsewhere and no other name is taken for a field.
\<close>

theorem hash_perfect:
  assumes "strchr S (CHR '':'') = Some colon" "status_entry S = Val entry"
  shows "take (length S - length colon) S = entry \<and> entry \<noteq> [] \<longleftrightarrow> take (length S - length colon) S \<in> set status_names"
proof
  assume "take (length S - length colon) S = entry \<and> entry \<noteq> []"
  then show "take (length S - length colon) S \<in> set status_names"
    using status_entry_in [OF assms(2)] by (simp add: status_names_def)
next
  let ?n = "take (length S - length colon) S"
  assume n: "?n \<in> set status_names"
  obtain t where t: "colon = CHR '':'' # t" using strchr_Some [OF assms(1)] by auto
  have "status_entry (?n @ CHR '':'' # t) = Val ?n" by (rule status_names_facts(5) [OF n])
  then have "entry = ?n" using take_front(1) [OF assms(1)] assms(2) t by simp
  then show "?n = entry \<and> entry \<noteq> []" using status_names_facts(4) [OF n] by simp
qed

lemma asso_entry:
  assumes "3 \<le> length S" "\<forall>c\<in>set (take 4 S). byte c < 128"
  shows "\<exists>n. status_entry S = Val n"
proof -
  have b: "byte (S ! i) < 128" if "i < length S" "i < 4" for i
    using assms(2) that by (metis in_set_conv_nth length_take min_less_iff_conj nth_take)
  have "byte (S ! 0) < 128" "byte (S ! 2) < 128" using b [of 0] b [of 2] assms(1) by linarith+
  moreover have "byte ((S @ [NUL]) ! 3) < 128"
    using b [of 3] assms(1) by (cases "3 < length S") (simp_all add: nth_append, simp add: byte_def)
  ultimately show ?thesis using assms(1) by (simp add: status_entry_def Let_def not_le)
qed

subsection \<open>The lines of the kernel\<close>

text \<open>
  A line by what it says. The kernel writes \<open>\n\<close> and \<open>\\\<close> in the name of the command, a blank after every
  group, and \<open> kB\<close> after some numbers.
\<close>

datatype status_line =
    Name_line string
  | Mask_line string string
  | State_line char string
  | Number_line string nat int string
  | Ids_line bool int int int int
  | Groups_line "nat list"
  | Other_line string string

fun escape_name :: "string \<Rightarrow> string" where
  "escape_name [] = []"
| "escape_name (c # w) =
     (if c = LF then [BSLASH, CHR ''n''] else if c = BSLASH then [BSLASH, BSLASH] else [c]) @ escape_name w"

definition ids_text :: "int \<Rightarrow> int \<Rightarrow> int \<Rightarrow> int \<Rightarrow> string" where
  "ids_text a b c d = dec_of_int a @ TAB # dec_of_int b @ TAB # dec_of_int c @ TAB # dec_of_int d"

fun status_line_name :: "status_line \<Rightarrow> string" where
  "status_line_name (Name_line w) = ''Name''"
| "status_line_name (Mask_line n m) = n"
| "status_line_name (State_line c t) = ''State''"
| "status_line_name (Number_line n k i t) = n"
| "status_line_name (Ids_line u a b c d) = (if u then ''Uid'' else ''Gid'')"
| "status_line_name (Groups_line gs) = ''Groups''"
| "status_line_name (Other_line n v) = n"

fun groups_text :: "nat list \<Rightarrow> string" where
  "groups_text [] = []"
| "groups_text [g] = dec_of_nat g"
| "groups_text (g # gs) = dec_of_nat g @ CHR '' '' # groups_text gs"

fun line_value :: "status_line \<Rightarrow> string" where
  "line_value (Name_line w) = escape_name w"
| "line_value (Mask_line n m) = m"
| "line_value (State_line c t) = c # t"
| "line_value (Number_line n k i t) = replicate k (CHR '' '') @ dec_of_int i @ t"
| "line_value (Ids_line u a b c d) = ids_text a b c d"
| "line_value (Groups_line gs) = groups_text gs @ '' ''"
| "line_value (Other_line n v) = v"

definition status_text :: "status_line list \<Rightarrow> string" where
  "status_text ls = concat (map (\<lambda>l. status_line_name l @ [CHR '':'', TAB] @ line_value l @ [LF]) ls)"

text \<open>The names of the fields that are stored; a line of another name may have any value.\<close>

definition stored_names :: "string list" where
  "stored_names = map fst numbers @ map fst masks @ [''Name'', ''State'', ''Uid'', ''Gid'', ''Groups'']"

fun line_ok :: "status_line \<Rightarrow> bool" where
  "line_ok (Name_line w) = is_cstring w"
| "line_ok (Mask_line n m) = (n \<in> set (map fst masks) \<and> length m = 16 \<and> is_cstring m \<and> LF \<notin> set m)"
| "line_ok (State_line c t) = (c \<noteq> LF \<and> c \<noteq> NUL \<and> is_cstring t \<and> LF \<notin> set t)"
| "line_ok (Number_line n k i t) =
     (n \<in> set (map fst numbers) \<and> fits_long i \<and> \<not> starts_digit t \<and> is_cstring t \<and> LF \<notin> set t)"
| "line_ok (Ids_line u a b c d) = (fits_int a \<and> fits_int b \<and> fits_int c \<and> fits_int d)"
| "line_ok (Groups_line gs) = True"
| "line_ok (Other_line n v) =
     (n \<notin> set stored_names \<and> 3 \<le> length n \<and> CHR '':'' \<notin> set n \<and> LF \<notin> set n \<and> is_cstring n \<and>
      list_all (\<lambda>c. byte c < 128) n \<and> is_cstring v \<and> LF \<notin> set v)"

text \<open>What a line says about the process.\<close>

definition groups_list :: "nat list \<Rightarrow> string" where
  "groups_list gs = map (\<lambda>c. if c = CHR '' '' then CHR '','' else c) (groups_text gs)"

fun line_effect :: "status_line \<Rightarrow> proc_t \<times> status_vars \<Rightarrow> proc_t \<times> status_vars" where
  "line_effect (Name_line w) (p, v) = (p \<lparr> p_cmd := take 15 w \<rparr>, v)"
| "line_effect (Mask_line n m) (p, v) = (the (map_of masks n) m p, v)"
| "line_effect (State_line c t) (p, v) = (p \<lparr> p_state := c \<rparr>, v)"
| "line_effect (Number_line n k i t) (p, v) = the (map_of numbers n) i (p, v)"
| "line_effect (Ids_line u a b c d) (p, v) =
     ((if u then p \<lparr> p_ruid := a, p_euid := b, p_suid := c, p_fuid := d \<rparr>
       else p \<lparr> p_rgid := a, p_egid := b, p_sgid := c, p_fgid := d \<rparr>), v)"
| "line_effect (Groups_line gs) (p, v) = (p \<lparr> p_supgid := Some (groups_list gs) \<rparr>, v)"
| "line_effect (Other_line n x) (p, v) = (p, v)"

lemma stored_in_table: "list_all (\<lambda>n. n \<in> set status_names) stored_names"
  by code_simp

subsection \<open>One line at a time\<close>

lemma status_loop_line:
  assumes "CHR '':'' \<notin> set n" "LF \<notin> set n" "LF \<notin> set v" "status_entry (n @ CHR '':'' # TAB # v @ LF # rest) = Val e"
    "n = e \<Longrightarrow> e \<noteq> []"
  shows "status_loop (n @ CHR '':'' # TAB # v @ LF # rest) pv =
    (if n = e then
       (let r = status_case n (v @ LF # rest) pv
        in case strchr (fst r) LF of None \<Rightarrow> Val (snd r) | Some nl \<Rightarrow> status_loop (tl nl) (snd r))
     else status_loop rest pv)"
proof -
  have c: "strchr (n @ CHR '':'' # TAB # v @ LF # rest) (CHR '':'') = Some (CHR '':'' # TAB # v @ LF # rest)"
    using assms(1) by (rule strchr_split)
  have l: "strchr (n @ CHR '':'' # TAB # v @ LF # rest) LF = Some (LF # rest)"
    using strchr_split [of LF "n @ CHR '':'' # TAB # v" rest] assms(2,3) by simp
  show ?thesis using assms(5) by (subst status_loop.simps) (auto simp: assms(4) c l Let_def)
qed

text \<open>The loop goes on after a line of the table when its case has left the pointer in that line.\<close>

lemma status_loop_known:
  assumes "n \<in> set status_names" "LF \<notin> set v" "status_case n (v @ LF # rest) pv = (S, pv')"
    "strchr S LF = Some (LF # rest)"
  shows "status_loop (n @ CHR '':'' # TAB # v @ LF # rest) pv = status_loop rest pv'"
  using status_loop_line [OF status_names_facts(2,3) [OF assms(1)] assms(2) status_names_facts(5) [OF assms(1)]]
    status_names_facts(4) [OF assms(1)]
  by (simp add: assms(3,4))

lemma status_loop_other:
  assumes "line_ok (Other_line n v)"
  shows "status_loop (n @ CHR '':'' # TAB # v @ LF # rest) pv = status_loop rest pv"
proof -
  have "take 4 (n @ CHR '':'' # TAB # v @ LF # rest) = take 4 (n @ [CHR '':''])"
    using assms by (simp add: take_Cons')
  moreover have "byte c < 128" if "c \<in> set (take 4 (n @ [CHR '':'']))" for c
  proof -
    have "c \<in> set n \<or> c = CHR '':''" using in_set_takeD [OF that] by auto
    then show ?thesis
    proof
      assume "c \<in> set n"
      then show ?thesis using assms by (simp add: list_all_iff)
    qed (simp add: byte_def)
  qed
  ultimately obtain e where e: "status_entry (n @ CHR '':'' # TAB # v @ LF # rest) = Val e"
    using asso_entry [of "n @ CHR '':'' # TAB # v @ LF # rest"] assms by auto
  show ?thesis
  proof (cases "n = e")
    case False
    then show ?thesis using assms by (subst status_loop_line [OF _ _ _ e]) auto
  next
    case True
    have "status_case n (v @ LF # rest) pv = (v @ LF # rest, pv)"
      using assms by (simp add: status_case_def stored_names_def map_of_eq_None_iff [THEN iffD2] split: prod.split)
    then show ?thesis
      using assms True by (subst status_loop_line [OF _ _ _ e]) (auto simp: strchr_split)
  qed
qed

lemma case_Name_escaped:
  "u \<noteq> 0 \<or> strchr b LF = Some (LF # rest) \<Longrightarrow>
   \<exists>S. case_Name u b (escape_name w @ LF # rest) = (take u w, S) \<and> strchr S LF = Some (LF # rest)"
proof (induction w arbitrary: u b)
  case Nil
  then show ?case by (cases u) auto
next
  case (Cons c w)
  have nl: "LF \<notin> set (escape_name w)" for w by (induction w) auto
  show ?case
  proof (cases u)
    case 0
    then show ?thesis using Cons.prems by simp
  next
    case (Suc k)
    have skip: "strchr (x @ escape_name w @ LF # rest) LF = Some (LF # rest)" if "LF \<notin> set x" for x
      using strchr_split [of LF "x @ escape_name w" rest] nl that by simp
    have step: "\<exists>S. case_Name k (x @ escape_name w @ LF # rest) (escape_name w @ LF # rest) = (take k w, S) \<and> strchr S LF = Some (LF # rest)"
      if "LF \<notin> set x" for x
      by (rule Cons.IH) (simp add: skip that)
    consider "c = LF" | "c = BSLASH" | "c \<noteq> LF" "c \<noteq> BSLASH" by auto
    then show ?thesis
    proof cases
      case 1
      then show ?thesis using Suc step [of "''n''"] by auto
    next
      case 2
      then show ?thesis using Suc step [of "[BSLASH]"] by auto
    next
      case 3
      then show ?thesis using Suc step [of "[c]"] by auto
    qed
  qed
qed

lemma strto_space: "c_isspace c \<Longrightarrow> strto b (c # s) = strto b s"
  by (simp add: strto_def)

lemma strto_blanks: "strto b (replicate k (CHR '' '') @ s) = strto b s"
  by (induction k) (simp_all add: strto_space)

lemma strtol_dec_int:
  assumes "\<not> starts_digit rest" "fits_long i"
  shows "strtol 10 (dec_of_int i @ rest) = (i, rest)"
    "strtol 10 (replicate k (CHR '' '') @ dec_of_int i @ rest) = (i, rest)"
    "strtol 10 (TAB # dec_of_int i @ rest) = (i, rest)"
proof -
  have "c_isspace TAB" by (simp add: c_isspace_def byte_def)
  then show "strtol 10 (dec_of_int i @ rest) = (i, rest)"
    "strtol 10 (replicate k (CHR '' '') @ dec_of_int i @ rest) = (i, rest)"
    "strtol 10 (TAB # dec_of_int i @ rest) = (i, rest)"
    using assms(2) by (auto simp: strtol_def strto_blanks strto_space strto_int [OF assms(1)] fits_long_def)
qed

lemma to_int_fits: "fits_int i \<Longrightarrow> to_int i = i"
  by (simp add: to_int_def fits_int_def signed_of_int signed_take_bit_int_eq_self_iff)

lemma tab_not_digit [simp]: "\<not> c_isdigit TAB"
  by (simp add: c_isdigit_def byte_def)

lemma not_digit_append: "\<not> starts_digit t \<Longrightarrow> \<not> starts_digit (t @ LF # s)"
  by (cases t) (simp_all add: starts_digit_def)

lemma four_ids_text:
  assumes "fits_int a" "fits_int b" "fits_int c" "fits_int d"
  shows "four_ids (ids_text a b c d @ LF # rest) = ((a, b, c, d), LF # rest)"
proof -
  have fits: "fits_long a" "fits_long b" "fits_long c" "fits_long d" using assms by (simp_all add: fits_int_def fits_long_def)
  show ?thesis
    by (simp add: four_ids_def ids_text_def strtol_dec_int fits to_int_fits assms)
qed

lemma no_newline:
  "LF \<notin> set (dec_of_nat n)" "LF \<notin> set (dec_of_int i)" "LF \<notin> set (groups_text gs)" "LF \<notin> set (escape_name w)"
    "LF \<notin> set (ids_text a b c d)"
proof -
  show n: "LF \<notin> set (dec_of_nat n)" for n using dec_of_nat_digits [of n] by (auto simp: c_isdigit_def byte_def)
  then show i: "LF \<notin> set (dec_of_int i)" for i by (simp add: dec_of_int_def)
  show "LF \<notin> set (groups_text gs)" by (induction gs rule: groups_text.induct) (simp_all add: n)
  show "LF \<notin> set (escape_name w)" by (induction w) auto
  show "LF \<notin> set (ids_text a b c d)" by (simp add: ids_text_def i)
qed

lemma takeWhile_line: "LF \<notin> set t \<Longrightarrow> takeWhile (\<lambda>c. c \<noteq> LF) (t @ LF # rest) = t"
  by (induction t) auto

lemma case_Groups_line:
  "case_Groups (groups_text gs @ CHR '' '' # LF # rest) p = p \<lparr> p_supgid := Some (groups_list gs) \<rparr>"
proof -
  have line: "takeWhile (\<lambda>c. c \<noteq> LF) (groups_text gs @ CHR '' '' # LF # rest) = groups_text gs @ '' ''"
    using takeWhile_line [of "groups_text gs @ '' ''" rest] no_newline(3) [of gs] by simp
  have "(case groups_text gs of [] \<Rightarrow> [] | c # t \<Rightarrow> c # map (\<lambda>c. if c = CHR '' '' then CHR '','' else c) t) = groups_list gs"
  proof (cases gs)
    case Nil
    then show ?thesis by (simp add: groups_list_def)
  next
    case (Cons g gs')
    obtain c t where ct: "groups_text gs = c # t" "c_isdigit c"
      using dec_of_nat_digits [of g] by (cases "dec_of_nat g"; cases gs') (auto simp: Cons)
    then have "c \<noteq> CHR '' ''" by (auto simp: c_isdigit_def byte_def)
    then show ?thesis by (simp add: groups_list_def ct)
  qed
  then show ?thesis by (simp add: case_Groups_def line)
qed

lemma special_lines [simp]:
  "map_of numbers ''Name'' = None" "map_of numbers ''State'' = None" "map_of numbers ''Uid'' = None"
  "map_of numbers ''Gid'' = None" "map_of numbers ''Groups'' = None"
  "map_of masks ''Name'' = None" "map_of masks ''State'' = None" "map_of masks ''Uid'' = None"
  "map_of masks ''Gid'' = None" "map_of masks ''Groups'' = None"
  by (simp_all add: numbers_def masks_def)

lemma mask_not_number: "n \<in> set (map fst masks) \<Longrightarrow> map_of numbers n = None"
  by (simp add: masks_def numbers_def) (elim disjE; simp)

lemma stored_hashed: "n \<in> set stored_names \<Longrightarrow> n \<in> set status_names"
  using stored_in_table by (simp add: list_all_iff)

lemma status_loop_one:
  assumes "line_ok l"
  shows "status_loop (status_line_name l @ CHR '':'' # TAB # line_value l @ LF # rest) pv = status_loop rest (line_effect l pv)"
proof (cases pv)
  case pv: (Pair p v)
  show ?thesis
  proof (cases l)
    case (Name_line w)
    obtain S where "case_Name 15 [] (escape_name w @ LF # rest) = (take 15 w, S)" "strchr S LF = Some (LF # rest)"
      using case_Name_escaped [of 15 "[]" rest w] by auto
    then show ?thesis
      unfolding Name_line status_line_name.simps line_value.simps pv line_effect.simps
      by (intro status_loop_known [where S = S] stored_hashed)
        (simp_all add: stored_names_def no_newline status_case_def)
  next
    case (Mask_line n m)
    moreover obtain f where "map_of masks n = Some f"
      using assms Mask_line by (metis line_ok.simps(2) not_None_eq map_of_eq_None_iff set_map)
    ultimately show ?thesis
      using assms unfolding Mask_line status_line_name.simps line_value.simps pv line_effect.simps
      by (intro status_loop_known [where S = "m @ LF # rest"] stored_hashed)
        (simp_all add: stored_names_def status_case_def mask_not_number strchr_split)
  next
    case (State_line c t)
    then show ?thesis
      using assms unfolding State_line status_line_name.simps line_value.simps pv line_effect.simps
      by (intro status_loop_known [where S = "c # t @ LF # rest"] stored_hashed)
        (simp_all add: stored_names_def status_case_def strchr_split eq_commute [of LF])
  next
    case (Number_line n k i t)
    moreover obtain f where "map_of numbers n = Some f"
      using assms Number_line by (metis line_ok.simps(4) not_None_eq map_of_eq_None_iff set_map)
    ultimately show ?thesis
      using assms unfolding Number_line status_line_name.simps line_value.simps pv line_effect.simps
      by (intro status_loop_known [where S = "t @ LF # rest"] stored_hashed)
        (simp_all add: stored_names_def status_case_def strtol_dec_int not_digit_append no_newline strchr_split)
  next
    case (Ids_line u a b c d)
    have "status_loop (n @ CHR '':'' # TAB # ids_text a b c d @ LF # rest) pv = status_loop rest (line_effect l pv)"
      if "n = (if u then ''Uid'' else ''Gid'')" for n
      using that assms Ids_line by (intro status_loop_known [where S = "LF # rest"] stored_hashed)
        (auto simp: stored_names_def status_case_def four_ids_text no_newline pv)
    then show ?thesis unfolding Ids_line status_line_name.simps line_value.simps by blast
  next
    case (Groups_line gs)
    then show ?thesis
      unfolding Groups_line status_line_name.simps line_value.simps pv line_effect.simps
      by (intro status_loop_known [where S = "groups_text gs @ CHR '' '' # LF # rest"] stored_hashed)
        (simp_all add: stored_names_def status_case_def case_Groups_line no_newline
          strchr_split [of _ "groups_text gs @ '' ''", simplified])
  next
    case (Other_line n x)
    then show ?thesis using assms status_loop_other by (simp add: pv)
  qed
qed

theorem status_file:
  "list_all line_ok ls \<Longrightarrow> status_loop (status_text ls) pv = Val (fold line_effect ls pv)"
proof (induction ls arbitrary: pv)
  case Nil
  show ?case by (subst status_loop.simps) (simp add: status_text_def)
next
  case (Cons l ls)
  then show ?case using status_loop_one [of l "status_text ls" pv] by (simp add: status_text_def)
qed

end
