(* ===== verification/PsScanProps.thy ===== *)
theory PsScanProps
  imports PsScan PsStatusProps PsDisplayProps
begin

text \<open>
  What a scan of \<open>/proc\<close> delivers: every process by itself, as the kernel describes it, whatever was read
  before; the selection of \<open>readproctab2\<close>; and the two uses of the scans that go wrong.
\<close>

subsection \<open>Nothing is left of a process that is gone\<close>

text \<open>What a failed read can have changed.\<close>

definition stale :: "proc_t \<Rightarrow> proc_t \<Rightarrow> bool" where
  "stale p q \<longleftrightarrow> (\<exists>a b. p = q \<lparr> p_euid := a, p_egid := b \<rparr>)"

lemma stale_refl: "stale p p"
  unfolding stale_def by (rule exI [of _ "p_euid p"], rule exI [of _ "p_egid p"]) simp

lemma stale_ids: "stale p q \<Longrightarrow> stale (p \<lparr> p_tgid := n, p_tid := m \<rparr>) (q \<lparr> p_tgid := n, p_tid := m \<rparr>)"
proof -
  assume "stale p q"
  then obtain a b where p: "p = q \<lparr> p_euid := a, p_egid := b \<rparr>" by (auto simp: stale_def)
  show ?thesis unfolding stale_def p
    by (rule exI [of _ a], rule exI [of _ b], rule proc_t.equality) simp_all
qed

lemma read_files_failed: "read_files rd flags path p = Val (p', False) \<Longrightarrow> p' = p"
  by (auto simp: read_files_def Let_def obind_eq_Val split: if_splits)

lemma simple_readproc_failed: "simple_readproc rd PT p = Val (p', False) \<Longrightarrow> stale p' p"
  by (auto simp: simple_readproc_def stale_refl split: option.splits if_splits dest!: read_files_failed)
    (auto simp: stale_def)

lemma simple_readproc_stale:
  assumes "stale p q"
  shows "(\<exists>e. simple_readproc rd PT p = Undef e \<and> simple_readproc rd PT q = Undef e) \<or>
    (\<exists>r. simple_readproc rd PT p = Val (r, True) \<and> simple_readproc rd PT q = Val (r, True)) \<or>
    (\<exists>p' q'. simple_readproc rd PT p = Val (p', False) \<and> simple_readproc rd PT q = Val (q', False) \<and> stale p' q)"
proof -
  obtain a b where p: "p = q \<lparr> p_euid := a, p_egid := b \<rparr>" using assms by (auto simp: stale_def)
  have twice: "q \<lparr> p_euid := a, p_egid := b, p_euid := x, p_egid := y \<rparr> = q \<lparr> p_euid := x, p_egid := y \<rparr>" for a b x y
    by simp
  show ?thesis
  proof (cases "fs_stat (rd_fs rd) (pt_path PT)")
    case None
    then show ?thesis using assms by (simp add: simple_readproc_def)
  next
    case (Some ids)
    obtain uid gid ino where ids: "ids = (uid, gid, ino)" by (cases ids)
    let ?p = "q \<lparr> p_euid := sint uid, p_egid := sint gid \<rparr>"
    show ?thesis
    proof (cases "has (pt_flags PT) PROC_UID \<and> uid \<notin> set (uids PT)")
      case True
      then show ?thesis using Some ids assms by (simp add: simple_readproc_def)
    next
      case False
      have same: "simple_readproc rd PT p = simple_readproc rd PT ?p" "simple_readproc rd PT q = simple_readproc rd PT ?p"
        unfolding simple_readproc_def Some ids option.case prod.case p by (simp_all only: False if_False twice)
      then show ?thesis
      proof (cases "simple_readproc rd PT ?p")
        case (Val r)
        obtain p' ok where r: "r = (p', ok)" by (cases r)
        show ?thesis
        proof (cases ok)
          case True
          then have "simple_readproc rd PT p = Val (p', True) \<and> simple_readproc rd PT q = Val (p', True)" using same Val r by simp
          then show ?thesis by blast
        next
          case False
          then have fail: "simple_readproc rd PT p = Val (p', False) \<and> simple_readproc rd PT q = Val (p', False)" using same Val r by simp
          have "stale p' ?p" by (rule simple_readproc_failed [of rd PT]) (use Val r False in simp)
          then obtain a' b' where "p' = ?p \<lparr> p_euid := a', p_egid := b' \<rparr>" by (auto simp: stale_def)
          then have "stale p' q" unfolding stale_def by (intro exI [of _ a'] exI [of _ b']) simp
          then show ?thesis using fail by blast
        qed
      next
        case (Undef e)
        then have "simple_readproc rd PT p = Undef e \<and> simple_readproc rd PT q = Undef e" using same by simp
        then show ?thesis by blast
      qed
    qed
  qed
qed

text \<open>Each process of the directory read into a clean structure; the names passed over by \<open>next_entry\<close> left out.\<close>

fun scan_all :: "proc_reader \<Rightarrow> proctab \<Rightarrow> string list \<Rightarrow> proc_t list outcome" where
  "scan_all rd PT [] = Val []"
| "scan_all rd PT (e # es) =
     (if 48 < byte (hd e) \<and> byte (hd e) \<le> 57 then
        obind (simple_readproc rd (PT \<lparr> pt_path := ''/proc/'' @ e \<rparr>) (blank_proc \<lparr> p_tgid := name_number e, p_tid := name_number e \<rparr>)) (\<lambda>(p, ok).
          obind (scan_all rd PT es) (\<lambda>ps. Val (if ok then p # ps else ps)))
      else scan_all rd PT es)"

lemma readproc_uses:
  assumes "pt_flags PT = pt_flags PT'" "pt_path PT = pt_path PT'" "uids PT = uids PT'"
  shows "simple_readproc rd PT p = simple_readproc rd PT' p"
  unfolding simple_readproc_def assms ..

definition names_ok :: "string list \<Rightarrow> bool" where
  "names_ok es \<longleftrightarrow> list_all (\<lambda>e. e \<noteq> [] \<and> length e < 58) es"

lemma scan_all_uses: "pt_flags PT = pt_flags PT' \<Longrightarrow> uids PT = uids PT' \<Longrightarrow> scan_all rd PT es = scan_all rd PT' es"
  by (induction es) (simp_all add: readproc_uses [of "PT \<lparr> pt_path := x \<rparr>" "PT' \<lparr> pt_path := x \<rparr>" for x] cong: obind_cong)

text \<open>The structure of a new scan, and what it can be after processes that could not be read.\<close>

definition leftover :: "proc_t \<Rightarrow> bool" where
  "leftover p \<longleftrightarrow> (\<exists>n m. stale p (blank_proc \<lparr> p_tgid := n, p_tid := m \<rparr>))"

lemma leftover_blank: "leftover blank_proc"
  unfolding leftover_def by (rule exI [of _ "p_tgid blank_proc"], rule exI [of _ "p_tid blank_proc"]) (simp add: stale_refl)

lemma leftover_ids: "leftover p \<Longrightarrow> stale (p \<lparr> p_tgid := n, p_tid := m \<rparr>) (blank_proc \<lparr> p_tgid := n, p_tid := m \<rparr>)"
proof -
  assume "leftover p"
  then obtain i j where "stale p (blank_proc \<lparr> p_tgid := i, p_tid := j \<rparr>)" by (auto simp: leftover_def)
  from stale_ids [OF this, of m n] show ?thesis by simp
qed

definition rest_of_scan :: "proc_reader \<Rightarrow> proctab \<Rightarrow> proc_t \<Rightarrow> proc_t list outcome" where
  "rest_of_scan rd PT p = obind (readproc_loop rd PT p) (\<lambda>r.
     case snd r of None \<Rightarrow> Val [] | Some q \<Rightarrow> obind (readproctab rd (fst r)) (\<lambda>ps. Val (q # ps)))"

lemma readproctab_rest: "readproctab rd PT = rest_of_scan rd (PT \<lparr> did_fake := False \<rparr>) blank_proc"
  by (subst readproctab.simps) (simp add: rest_of_scan_def readproc_def)

lemma rest_of_scan_step:
  "rest_of_scan rd PT p =
     obind (finder PT p) (\<lambda>r. if \<not> snd (snd r) then Val []
       else obind (simple_readproc rd (fst r) (fst (snd r))) (\<lambda>q.
         if snd q then obind (readproctab rd (fst r)) (\<lambda>ps. Val (fst q # ps)) else rest_of_scan rd (fst r) (fst q)))"
  unfolding rest_of_scan_def by (subst readproc_loop.simps) (auto simp: obind_def split: outcome.split)

lemma rest_of_scan_all:
  assumes "\<not> has (pt_flags PT) PROC_PID" "names_ok (procfs PT)" "leftover p"
  shows "rest_of_scan rd PT p = scan_all rd PT (procfs PT)"
  using assms
proof (induction "procfs PT" arbitrary: PT p)
  case Nil
  then show ?case by (subst rest_of_scan_step) (simp add: finder_def simple_nextpid_def)
next
  case (Cons e es)
  let ?PT = "PT \<lparr> procfs := es \<rparr>"
  have e: "e \<noteq> []" "length e < 58" and es: "names_ok es" using Cons.prems(2) Cons.hyps(2) [symmetric] by (simp_all add: names_ok_def)
  show ?case
  proof (cases "48 < byte (hd e) \<and> byte (hd e) \<le> 57")
    case False
    then have "finder PT p = finder ?PT p"
      using Cons.prems(1) Cons.hyps(2) [symmetric] e by (auto simp: finder_def simple_nextpid_def split: option.split)
    then have "rest_of_scan rd PT p = rest_of_scan rd ?PT p" by (subst (1 2) rest_of_scan_step) simp
    also have "\<dots> = scan_all rd ?PT es" using Cons.hyps(1) [of ?PT p] Cons.prems es by simp
    also have "\<dots> = scan_all rd PT es" by (rule scan_all_uses) simp_all
    finally show ?thesis using False Cons.hyps(2) [symmetric] by auto
  next
    case True
    define path where "path = ''/proc/'' @ e"
    let ?PT1 = "?PT \<lparr> pt_path := path \<rparr>" and ?n = "name_number e"
    let ?p = "p \<lparr> p_tgid := ?n, p_tid := ?n \<rparr>" and ?b = "blank_proc \<lparr> p_tgid := ?n, p_tid := ?n \<rparr>"
    have found: "finder PT p = Val (?PT1, ?p, True)"
      using Cons.prems(1) Cons.hyps(2) [symmetric] e True by (simp add: finder_def simple_nextpid_def path_def)
    have step: "rest_of_scan rd PT p = obind (simple_readproc rd ?PT1 ?p) (\<lambda>q.
        if snd q then obind (readproctab rd ?PT1) (\<lambda>ps. Val (fst q # ps)) else rest_of_scan rd ?PT1 (fst q))"
      by (subst rest_of_scan_step) (simp add: found cong: if_cong)
    have rest: "rest_of_scan rd ?PT1 q = scan_all rd PT es" if "leftover q" for q
      using Cons.hyps(1) [of ?PT1 q] Cons.prems(1) es that scan_all_uses [of ?PT1 PT rd es] by simp
    have tab: "readproctab rd ?PT1 = scan_all rd PT es"
      using Cons.hyps(1) [of "?PT1 \<lparr> did_fake := False \<rparr>" blank_proc] Cons.prems(1) es leftover_blank
        scan_all_uses [of "?PT1 \<lparr> did_fake := False \<rparr>" PT rd es] by (simp add: readproctab_rest)
    have one: "simple_readproc rd ?PT1 ?b = simple_readproc rd (PT \<lparr> pt_path := path \<rparr>) ?b"
      by (rule readproc_uses) simp_all
    have all: "scan_all rd PT (procfs PT) = obind (simple_readproc rd (PT \<lparr> pt_path := path \<rparr>) ?b) (\<lambda>(p, ok).
        obind (scan_all rd PT es) (\<lambda>ps. Val (if ok then p # ps else ps)))"
      using True Cons.hyps(2) [symmetric] by (simp add: path_def)
    have keep: "obind x Val = x" for x :: "proc_t list outcome" by (cases x) simp_all
    have "leftover q" if "stale q ?b" for q using that by (auto simp: leftover_def)
    then show ?thesis
      using simple_readproc_stale [OF leftover_ids [OF Cons.prems(3)], of rd ?PT1 ?n ?n] one
      by (auto simp: step tab rest all keep)
  qed
qed

text \<open>Reading a directory is reading its processes one by one.\<close>

lemma readproctab_scan:
  assumes "\<not> has (pt_flags PT) PROC_PID" "names_ok (procfs PT)"
  shows "readproctab rd PT = scan_all rd PT (procfs PT)"
  using rest_of_scan_all [of "PT \<lparr> did_fake := False \<rparr>" blank_proc rd] leftover_blank assms
    scan_all_uses [of "PT \<lparr> did_fake := False \<rparr>" PT rd "procfs PT"] by (simp add: readproctab_rest)

text \<open>
  C25: Every process is read apart. A scan of a directory that reuses its structure yields the
  processes that reading each numeric entry into a clean structure yields, in the order of the
  directory: nothing of a process that went away, or belongs to another user, is left in the next.
\<close>

theorem processes_read_apart:
  assumes "\<not> has (pt_flags PT) PROC_PID" "names_ok (procfs PT)"
  shows "readproctab rd PT = scan_all rd PT (procfs PT)"
  by (rule readproctab_scan [OF assms])

subsection \<open>A process as the kernel describes it\<close>

definition no_vars :: status_vars where
  "no_vars = \<lparr> v_Threads = 0, v_Tgid = 0, v_Pid = 0 \<rparr>"

definition described :: "proc_t \<Rightarrow> status_line list \<Rightarrow> proc_t \<Rightarrow> proc_t" where
  "described q ls p =
     (let r = status_end True (fold line_effect ls (with_stat q p, no_vars))
      in if 1 < p_nlwp r then r \<lparr> p_wchan := - 1 \<rparr> else r)"


subsection \<open>The table of the processes that are wanted\<close>

lemma table_procs_plain:
  "\<not> has (pt_flags PT) PROC_LOOSE_TASKS \<Longrightarrow>
   table_procs rd want wt PT a u = obind (readproctab rd PT) (\<lambda>ps. Val (List.map_filter want ps, []))"
proof (induction rd want wt PT a u rule: table_procs.induct)
  case (1 rd want wt PT a u)
  show ?case
  proof (cases "readproc rd PT")
    case (Val r)
    have flags: "pt_flags (fst r) = pt_flags PT"
      using Val readproc_loop_flags [of rd "PT \<lparr> did_fake := False \<rparr>" blank_proc "fst r" "snd r"] by (simp add: readproc_def)
    show ?thesis
    proof (cases "snd r")
      case None
      then show ?thesis by (subst table_procs.simps, subst readproctab.simps) (simp add: Val)
    next
      case (Some p)
      have tab: "readproctab rd PT = obind (readproctab rd (fst r)) (\<lambda>ps. Val (p # ps))"
        by (subst readproctab.simps) (simp add: Val Some)
      show ?thesis
      proof (cases "want p")
        case None
        have "table_procs rd want wt PT a u = table_procs rd want wt (fst r) (if a = u then grown a else a) u"
          by (subst table_procs.simps) (simp add: Val Some None)
        then show ?thesis
          using 1(1) [OF refl Val Some None] 1(4) flags
          by (cases "readproctab rd (fst r)") (simp_all add: tab None)
      next
        case want: (Some q)
        have "table_procs rd want wt PT a u =
            obind (table_procs rd want wt (fst r) (if a = u then grown a else a) (u + 1)) (\<lambda>s. Val (q # fst s, snd s))"
          by (subst table_procs.simps) (simp add: Val Some want 1(4))
        then show ?thesis
          using 1(2) [OF refl Val Some want 1(4)] 1(4) flags
          by (cases "readproctab rd (fst r)") (simp_all add: tab want)
      qed
    qed
  qed (subst table_procs.simps, subst readproctab.simps, simp)
qed

lemma table_selects:
  assumes "\<not> has (pt_flags PT) PROC_LOOSE_TASKS"
  shows "readproctab2 rd want wt PT = obind (readproctab rd PT) (\<lambda>ps. Val (List.map_filter want ps))"
  unfolding readproctab2_def table_procs_plain [OF assms] using assms by (cases "readproctab rd PT") simp_all

text \<open>The scan of \<open>/proc\<close> as the display starts it.\<close>

definition scan_of :: "u32 \<Rightarrow> string list \<Rightarrow> proctab" where
  "scan_of flags entries = \<lparr> pt_flags = flags, procfs = entries, pids = [], uids = [], taskdir = None, taskdir_user = -1,
     did_fake = False, pt_path = [] \<rparr>"

lemma openproc_plain:
  assumes "plain_flags flags" "fs_dir fs ''/proc'' = Some entries"
  shows "openproc fs flags [] [] = Some (scan_of flags entries)"
  using assms by (simp add: openproc_def scan_of_def plain_flags_def special_flags)

lemma proc_dir_table:
  assumes "plain_flags flags" "fs_dir (rd_fs rd) ''/proc'' = Some entries" "names_ok entries"
    "scan_all rd (scan_of flags entries) entries = Val all"
  shows "read_table (proc_dir rd) want flags = Val (Some (List.map_filter want all))"
proof -
  have f: "\<not> has (pt_flags (scan_of flags entries)) PROC_PID" "\<not> has (pt_flags (scan_of flags entries)) PROC_LOOSE_TASKS"
    using assms(1) by (simp_all add: scan_of_def plain_flags_def special_flags)
  have p: "procfs (scan_of flags entries) = entries" by (simp add: scan_of_def)
  have "readproctab rd (scan_of flags entries) = Val all"
    using readproctab_scan [OF f(1), of rd] assms(3,4) by (simp add: p)
  then show ?thesis
    by (simp add: proc_dir_def openproc_plain [OF assms(1,2)] table_selects [OF f(2)])
qed


subsection \<open>A list of ids without its end\<close>

lemma listed_needs_end: "has (pt_flags PT) PROC_PID \<Longrightarrow> rest_of_scan rd PT p = Val ps \<Longrightarrow> 0 \<in> set (pids PT)"
proof (induction "pids PT" arbitrary: PT p ps)
  case Nil
  then show ?case by (subst (asm) rest_of_scan_step) (simp add: finder_def listed_nextpid_def)
next
  case (Cons i ids)
  show ?case
  proof (cases "i = 0")
    case False
    let ?PT = "PT \<lparr> pids := ids, pt_path := ''/proc/'' @ dec_of_int i \<rparr>"
    have found: "finder PT p = Val (?PT, p \<lparr> p_tgid := i, p_tid := i \<rparr>, True)"
      using Cons.prems(1) Cons.hyps(2) [symmetric] False by (simp add: finder_def listed_nextpid_def)
    obtain q where q: "simple_readproc rd ?PT (p \<lparr> p_tgid := i, p_tid := i \<rparr>) = Val q"
        "(if snd q then obind (readproctab rd ?PT) (\<lambda>ps. Val (fst q # ps)) else rest_of_scan rd ?PT (fst q)) = Val ps"
      using Cons.prems(2) by (subst (asm) rest_of_scan_step) (auto simp: found obind_eq_Val cong: if_cong)
    have "0 \<in> set ids"
    proof (cases "snd q")
      case True
      then obtain ps' where "rest_of_scan rd (?PT \<lparr> did_fake := False \<rparr>) blank_proc = Val ps'"
        using q(2) by (auto simp: readproctab_rest obind_eq_Val)
      then show ?thesis using Cons.hyps(1) [of "?PT \<lparr> did_fake := False \<rparr>"] Cons.prems(1) by simp
    next
      case False
      then show ?thesis using q(2) Cons.hyps(1) [of ?PT] Cons.prems(1) by simp
    qed
    then show ?thesis using Cons.hyps(2) [symmetric] by simp
  qed (use Cons.hyps(2) [symmetric] in simp)
qed

text \<open>
  The list of -q has no end. A run of ps with -q and ids other than 0 never returns properly over
  /proc: the finder reads past the end of the list.
\<close>

lemma quick_list_overrun:
  assumes "selection_list g = sel # sels" "typecode sel = SEL_PID_QUICK" "Sel_Num 0 \<notin> set (sel_u sel)" "\<forall>c. Sel_Cmd c \<notin> set (sel_u sel)"
  shows "simple_spew env (proc_dir rd) d (g, out) \<noteq> Val r"
proof
  assume "simple_spew env (proc_dir rd) d (g, out) = Val r"
  let ?l = "map (\<lambda>u. case u of Sel_Num k \<Rightarrow> k | Sel_Cmd c \<Rightarrow> 0) (rev (sel_u sel))" and ?flags = "open_flags d OR PROC_PID"
  have "0 \<notin> set ?l" using assms(3,4) by (auto split: sel_union.splits)
  have has: "has ?flags PROC_PID" by (simp add: special_flags bit_or_iff)
  obtain all where "read_procs (proc_dir rd) ?flags (Some ?l) = Val all"
    using \<open>simple_spew env (proc_dir rd) d (g, out) = Val r\<close> assms(1,2) by (auto simp: simple_spew_def pidlist_def obind_eq_Val Let_def)
  then obtain ps where "readproctab rd (scan_of ?flags [] \<lparr> pids := ?l \<rparr>) = Val ps"
    using has by (auto simp: proc_dir_def openproc_def scan_of_def obind_eq_Val)
  then have "0 \<in> set ?l"
    using listed_needs_end [of "scan_of ?flags [] \<lparr> pids := ?l, did_fake := False \<rparr>" rd blank_proc ps] has
    by (simp add: readproctab_rest scan_of_def)
  then show False using \<open>0 \<notin> set ?l\<close> by blast
qed

subsection \<open>A run after one with H\<close>

lemma table_tasks_invalid:
  assumes "table_tasks rd (\<lambda>_. Undef e) PT p a u = Val q"
  shows "snd (snd (snd q)) = []"
  using assms by (subst (asm) table_tasks.simps) (auto simp: obind_eq_Val split: if_splits option.splits)

lemma table_procs_invalid:
  "has (pt_flags PT) PROC_LOOSE_TASKS \<Longrightarrow> table_procs rd want wt PT a u = Val s \<Longrightarrow> wt = (\<lambda>_. Undef e) \<Longrightarrow> snd s = []"
proof (induction rd want wt PT a u arbitrary: s rule: table_procs.induct)
  case (1 rd want wt PT a u)
  note run = 1(5) [unfolded table_procs.simps [of rd want wt PT a u] Let_def]
  obtain r where r: "readproc rd PT = Val r" using run by (auto simp: obind_eq_Val)
  have flags: "pt_flags (fst r) = pt_flags PT"
    using r readproc_loop_flags [of rd "PT \<lparr> did_fake := False \<rparr>" blank_proc "fst r" "snd r"] by (simp add: readproc_def)
  show ?case
  proof (cases "snd r")
    case None
    then show ?thesis using run r by auto
  next
    case (Some p)
    show ?thesis
    proof (cases "want p")
      case None
      then show ?thesis using 1(1) [OF refl r Some None] run r Some 1(4,6) flags by simp
    next
      case want: (Some p')
      obtain q s' where q: "table_tasks rd wt (fst r) p' (if a = u then grown a else a) (u + 1) = Val q"
          and s': "table_procs rd want wt (fst q) (fst (snd q)) (fst (snd (snd q))) = Val s'" "s = (p' # fst s', snd (snd (snd q)) @ snd s')"
        using run r Some want 1(4) by (auto simp: obind_eq_Val)
      have "pt_flags (fst q) = pt_flags PT" using table_tasks_keeps [of rd wt "fst r" p' _ "u + 1" "fst q" "snd q"] q flags by simp
      then have "snd s' = []" using 1(3) [OF refl r Some want _ q _ s'(1) 1(6)] 1(4) by simp
      moreover have "snd (snd (snd q)) = []" using table_tasks_invalid q 1(6) by blast
      ultimately show ?thesis using s'(2) by simp
    qed
  qed
qed

text \<open>
  A sorted list after a run with H. The flag for threads stays set in the daemon, so a later sorted
  list or forest, if it returns at all, prints nothing: for the first thread of a wanted process an
  address without code is called.
\<close>

lemma after_loose_run:
  assumes "has (needs_for_threads d) PROC_LOOSE_TASKS" "\<not> has (thread_flags g) TF_loose_tasks"
    "fancy_spew fuel env (proc_dir rd) d (g, out) = Val (t, s)"
  shows "t = [] \<and> s = (g, out)"
proof -
  have loose: "has (open_flags d) PROC_LOOSE_TASKS" using assms(1) by (simp add: special_flags open_flags_def bit_or_iff)
  obtain table where table: "read_table (proc_dir rd) (want_this_proc_pcpu env g) (open_flags d) = Val (Some table)"
    using assms(2,3) by (auto simp: fancy_spew_def Let_def obind_eq_Val split: option.splits)
  then obtain PT where PT: "openproc (rd_fs rd) (open_flags d) [] [] = Some PT"
      "readproctab2 rd (want_this_proc_pcpu env g) (\<lambda>_. Undef NullDeref) PT = Val table"
    by (auto simp: proc_dir_def obind_eq_Val split: option.splits)
  have "pt_flags PT = open_flags d" using PT(1) by (auto simp: openproc_def Let_def split: if_splits option.splits)
  then have "table = []"
    using PT(2) loose table_procs_invalid [of PT rd "want_this_proc_pcpu env g" "\<lambda>_. Undef NullDeref" 0 0 _ NullDeref]
    by (auto simp: readproctab2_def obind_eq_Val)
  then show ?thesis using assms(2,3) table by (simp add: fancy_spew_def Let_def)
qed

end
