(* ===== verification/PwCache.thy ===== *)
theory PwCache
  imports Scan
begin

text \<open>
  \<open>src/modules/ps/src/pwcache.c\<close>: the names of users and groups, kept in a table of 64 lists. \<open>getpwuid\<close> and
  \<open>getgrgid\<close> are an argument: the name for an id, if there is one. Entries are never dropped.
\<close>

unbundle bit_operations_syntax

abbreviation P_G_SZ :: nat where "P_G_SZ \<equiv> 33"

type_synonym pwhash = "nat \<Rightarrow> (u32 \<times> string) list"

definition HASH :: "u32 \<Rightarrow> nat" where
  "HASH x = unat (x AND 63)"

definition empty_hash :: pwhash where
  "empty_hash = (\<lambda>_. [])"

text \<open>The name that is stored: the number when there is none or it has no room.\<close>

definition id_name :: "(u32 \<Rightarrow> string option) \<Rightarrow> u32 \<Rightarrow> string" where
  "id_name getpw uid =
     (case getpw uid of
        None \<Rightarrow> dec_of_nat (unat uid)
      | Some pw_name \<Rightarrow> if P_G_SZ \<le> length pw_name then dec_of_nat (unat uid) else pw_name)"

definition pwcache_get :: "(u32 \<Rightarrow> string option) \<Rightarrow> u32 \<Rightarrow> pwhash \<Rightarrow> string \<times> pwhash" where
  "pwcache_get getpw uid pwhash =
     (case map_of (pwhash (HASH uid)) uid of
        Some name \<Rightarrow> (name, pwhash)
      | None \<Rightarrow> (id_name getpw uid, pwhash (HASH uid := pwhash (HASH uid) @ [(uid, id_name getpw uid)])))"

text \<open>The two tables.\<close>

record pw_caches =
  pwhash_users :: pwhash
  grphash :: pwhash

definition pwcache_get_user :: "(u32 \<Rightarrow> string option) \<Rightarrow> u32 \<Rightarrow> pw_caches \<Rightarrow> string \<times> pw_caches" where
  "pwcache_get_user getpwuid uid c =
     (let (name, h) = pwcache_get getpwuid uid (pwhash_users c) in (name, c \<lparr> pwhash_users := h \<rparr>))"

definition pwcache_get_group :: "(u32 \<Rightarrow> string option) \<Rightarrow> u32 \<Rightarrow> pw_caches \<Rightarrow> string \<times> pw_caches" where
  "pwcache_get_group getgrgid gid c =
     (let (name, h) = pwcache_get getgrgid gid (grphash c) in (name, c \<lparr> grphash := h \<rparr>))"

subsection \<open>The cache does not show\<close>

text \<open>The abstract view of a table: what is known of an id.\<close>

definition known :: "pwhash \<Rightarrow> u32 \<Rightarrow> string option" where
  "known h uid = map_of (h (HASH uid)) uid"

definition cache_ok :: "(u32 \<Rightarrow> string option) \<Rightarrow> pwhash \<Rightarrow> bool" where
  "cache_ok getpw h \<longleftrightarrow> (\<forall>uid name. known h uid = Some name \<longrightarrow> name = id_name getpw uid)"

lemma pwcache_get_known:
  "pwcache_get getpw uid h = (case known h uid of Some name \<Rightarrow> (name, h) | None \<Rightarrow> (id_name getpw uid, snd (pwcache_get getpw uid h)))"
  "known (snd (pwcache_get getpw uid h)) = (known h) (uid := Some (case known h uid of Some name \<Rightarrow> name | None \<Rightarrow> id_name getpw uid))"
  by (auto simp: pwcache_get_def known_def fun_eq_iff map_add_def split: option.splits)

lemma cache_ok_empty: "cache_ok getpw empty_hash"
  by (simp add: cache_ok_def known_def empty_hash_def)

lemma pwcache_get_ok:
  assumes "cache_ok getpw h"
  shows "fst (pwcache_get getpw uid h) = id_name getpw uid" "cache_ok getpw (snd (pwcache_get getpw uid h))"
proof -
  show "fst (pwcache_get getpw uid h) = id_name getpw uid"
    using assms by (subst pwcache_get_known(1)) (auto simp: cache_ok_def split: option.split)
  show "cache_ok getpw (snd (pwcache_get getpw uid h))"
    using assms by (auto simp: cache_ok_def pwcache_get_known(2) split: option.splits if_splits)
qed

text \<open>The calls of a run, of either kind, in any order.\<close>

fun lookups :: "(u32 \<Rightarrow> string option) \<Rightarrow> (u32 \<Rightarrow> string option) \<Rightarrow> (bool \<times> u32) list \<Rightarrow> pw_caches \<Rightarrow> string list" where
  "lookups getpwuid getgrgid [] c = []"
| "lookups getpwuid getgrgid ((user, i) # ids) c =
     (let (name, c) = (if user then pwcache_get_user getpwuid i c else pwcache_get_group getgrgid i c)
      in name # lookups getpwuid getgrgid ids c)"

lemma lookups_names:
  "cache_ok getpwuid (pwhash_users c) \<Longrightarrow> cache_ok getgrgid (grphash c) \<Longrightarrow>
   lookups getpwuid getgrgid ids c = map (\<lambda>(user, i). id_name (if user then getpwuid else getgrgid) i) ids"
proof (induction ids arbitrary: c)
  case (Cons x ids)
  obtain user i where x: "x = (user, i)" by (cases x)
  have step: "\<exists>h'. pwcache_get getpw i h = (id_name getpw i, h') \<and> cache_ok getpw h'" if "cache_ok getpw h" for getpw h
    using pwcache_get_ok [OF that, of i] by (cases "pwcache_get getpw i h") auto
  show ?case
  proof (cases user)
    case True
    obtain h' where "pwcache_get getpwuid i (pwhash_users c) = (id_name getpwuid i, h')" "cache_ok getpwuid h'"
      using step [OF Cons.prems(1)] by blast
    then show ?thesis using Cons True by (simp add: x pwcache_get_user_def)
  next
    case False
    obtain h' where "pwcache_get getgrgid i (grphash c) = (id_name getgrgid i, h')" "cache_ok getgrgid h'"
      using step [OF Cons.prems(2)] by blast
    then show ?thesis using Cons False by (simp add: x pwcache_get_group_def)
  qed
qed simp

text \<open>
  C28: The cache of names does not show. Any sequence of lookups of users and groups, from empty
  tables, returns the name the system has for each id, or the number when there is none or it is too
  long for the column.
\<close>

theorem names_cached:
  "lookups getpwuid getgrgid ids \<lparr> pwhash_users = empty_hash, grphash = empty_hash \<rparr> =
   map (\<lambda>(user, i). id_name (if user then getpwuid else getgrgid) i) ids"
  by (rule lookups_names) (simp_all add: cache_ok_empty)

lemma id_name_fits: "length (id_name getpw uid) < P_G_SZ"
proof -
  have "unat uid < 2 ^ LENGTH(32)" by (rule unsigned_less)
  then have "unat uid < 10 ^ 10" by simp
  then have "length (dec_of_nat (unat uid)) \<le> 10" by (rule length_dec_of_nat) simp
  then show ?thesis by (auto simp: id_name_def split: option.split)
qed

text \<open>A name, once looked up, is not looked up again, whatever has become of the user.\<close>

lemma renamed_user_unseen:
  "fst (pwcache_get getpw' uid (snd (pwcache_get getpw uid h))) = fst (pwcache_get getpw uid h)"
  by (subst (1) pwcache_get_known(1), simp add: pwcache_get_known(2)) (subst pwcache_get_known(1), simp split: option.split)

end
