(* ===== verification/Witnesses.thy ===== *)
theory Witnesses
  imports Connection Server ConnQueue MpstatProps
begin

text \<open>
  Each property that has hypotheses, applied to a concrete input where they hold. The function
  \<open>pow\<close> of the C library is instantiated with \<open>ten_to\<close>, the exact power of ten rounded once.
\<close>

definition ten_to :: "dbl \<Rightarrow> dbl" where
  "ten_to x = (case x of Fin s m \<Rightarrow> dbl_of_rat (pow10 (if s then - \<lfloor>m\<rfloor> else \<lfloor>m\<rfloor>)) | _ \<Rightarrow> NaN)"

lemma ten_to_zero [simp]: "ten_to dbl_zero = Fin False 1"
  using dbl_of_int_exact [of 1] by (simp add: ten_to_def pow10_def dbl_of_int_def)

subsection \<open>JSON\<close>

theorem print_parse_witness:
  "cJSON_Parse_Stream ten_to (print_value 0 True (CJson [] CJ_Number False None 7 (dbl_of_int 7) None) @ [LF]) =
     Ok (canon None (CJson [] CJ_Number False None 7 (dbl_of_int 7) None)) [LF]"
  by (rule print_parse) (simp_all add: delimited_def c_isdigit_def byte_def)

theorem utf8_bytes_ref_witness: "map byte (utf8_bytes 0x20AC) = utf8_ref (unat (0x20AC :: 32 word))"
  by (rule utf8_bytes_ref) simp

theorem object_update_witness:
  "cJSON_GetObjectItem (cJSON_ReplaceItemInObject
     (cJSON_AddItemToObject cJSON_CreateObject ''k'' (Some cJSON_CreateTrue)) ''k'' cJSON_CreateNull) ''k'' =
   Some (set_name (Some ''k'') cJSON_CreateNull)"
proof -
  let ?o = "cJSON_AddItemToObject cJSON_CreateObject ''k'' (Some cJSON_CreateTrue)"
  have "cJSON_GetObjectItem ?o ''k'' = Some (set_name (Some ''k'') cJSON_CreateTrue)"
    by (simp add: cJSON_AddItemToObject_def cJSON_AddItemToArray_def cJSON_GetObjectItem_def cJSON_CreateObject_def
        cJSON_CreateTrue_def cJSON_New_Item_def cJSON_strcasecmp_def)
  from object_update [OF this, of cJSON_CreateNull] show ?thesis by auto
qed

theorem surrogate_pair_witness:
  "\<exists>cp. unescape_low 0xD83D None (''DE00'' @ [DQUOTE]) = Val (put_utf8 cp (Some 0xDE00) [DQUOTE]) \<and>
     unat cp = 0x10000 + 0x3D * 0x400 + 0x200"
proof -
  have "scan_into None (''DE00'' @ [DQUOTE]) = Val 0xDE00"
    by (simp add: scan_into_def sscanf_4x_def c_isxdigit_def c_isspace_def c_isdigit_def byte_def hex_value_def hex_val_def
        c_tolower_def c_isupper_def)
  from surrogate_pair [OF this, of "0xD83D"] show ?thesis by simp
qed

theorem short_escape_overflow_witness:
  "cJSON_Parse ten_to (DQUOTE # BSLASH # ''u00'' @ DQUOTE # CHR ''x'' # ''abcd'' @ DQUOTE # [NUL]) = Undef OutOfBounds"
  by (rule short_escape_overflow) simp_all

theorem big_integer_undefined_witness:
  "cJSON_Parse ten_to (dec_of_nat 2147483648 @ [NUL]) = Undef IntOverflow"
  by (rule big_integer_undefined) (simp_all add: c_isdigit_def byte_def)

subsection \<open>Requests\<close>

definition no_server :: "unit jrpc_server" where
  "no_server = jrpc_server_init 12307"

definition ping :: cjson where
  "ping = cJSON_AddItemToObject cJSON_CreateObject ''method'' (Some (cJSON_CreateString ''ping''))"

definition pong :: "unit jrpc_function" where
  "pong d params i w = Val (\<lparr> returned = Some (cJSON_CreateString ''pong''), error_code = 0, error_message = None \<rparr>, w)"

definition ping_server :: "unit jrpc_server" where
  "ping_server = snd (jrpc_register_procedure no_server pong ''ping'' None)"

lemma object_defs:
  "cJSON_CreateObject = leaf CJ_Object None" "cJSON_CreateString s = set_valuestring (Some s) (leaf CJ_String None)"
  by (simp_all add: cJSON_CreateObject_def cJSON_CreateString_def cJSON_New_Item_def leaf_def)

lemma ping_eq:
  "ping = CJson [CJson [] CJ_String False (Some ''ping'') 0 dbl_zero (Some ''method'')] CJ_Object False None 0 dbl_zero None"
  by (simp add: ping_def object_defs cJSON_AddItemToObject_def cJSON_AddItemToArray_def leaf_def)

lemma ping_canon: "canon None ping = ping"
  by (simp add: ping_eq leaf_def)

lemma ping_request: "request ping ''ping'' None None"
proof -
  have "cJSON_GetObjectItem ping ''method'' = Some (CJson [] CJ_String False (Some ''ping'') 0 dbl_zero (Some ''method''))"
    by (simp add: ping_eq cJSON_GetObjectItem_def cJSON_strcasecmp_def)
  moreover have "cJSON_GetObjectItem ping ''params'' = None" "cJSON_GetObjectItem ping ''id'' = None"
    by (simp_all add: ping_eq cJSON_GetObjectItem_def strcaseeq_def c_tolower_def c_isupper_def byte_def)
  ultimately show ?thesis by (simp add: request_def params_ok_def valid_id_def)
qed

lemma ping_printed: "print_value 0 False ping = ''{'' @ quoted ''method'' @ '':'' @ quoted ''ping'' @ ''}''"
  by code_simp

lemma ping_printable: "printable ping" "ctype ping = CJ_Object"
  by (simp_all add: ping_eq)

lemma empty_malformed: "malformed (leaf CJ_Object None)"
  by (simp add: malformed_def cJSON_GetObjectItem_def leaf_def)


theorem unknown_method_answer_witness:
  "\<exists>bs. eval_request no_server ping () = Val (0, bs, ()) \<and> reads_error ten_to bs (-32601) ''Method not found.'' None"
  by (rule unknown_method_answer [of ten_to, OF ten_to_zero ping_request]) (simp add: find_procedure_def no_server_def jrpc_server_init_def)

theorem deregister_removes_oldest_witness:
  "jrpc_deregister_procedure ping_server ''ping'' = (0, no_server) \<and>
   find_procedure (snd (jrpc_deregister_procedure ping_server ''ping'')) ''ping'' = None"
proof -
  let ?p = "\<lparr> pname = ''ping'', pfunction = pong, pdata = None \<rparr>"
  have "procedures ping_server = [] @ ?p # []" "ping_server \<lparr> procedures := [] @ [] \<rparr> = no_server"
    by (simp_all add: ping_server_def no_server_def jrpc_server_init_def jrpc_register_procedure_def)
  with deregister_removes_oldest [of ping_server "[]" ?p "[]" "''ping''"] show ?thesis
    by (simp add: find_procedure_def no_server_def jrpc_server_init_def)
qed

subsection \<open>Connections\<close>

lemma braces_parsed: "cJSON_Parse_Stream ten_to (''{}'' @ rest) = Ok (leaf CJ_Object None) rest"
proof -
  have "print_value 0 False (leaf CJ_Object None) = ''{}''" by (simp add: leaf_def object_text_def)
  with parse_stream_print [of ten_to "leaf CJ_Object None" rest False] show ?thesis
    by (simp add: delimited_def leaf_def)
qed

lemma braces_arrive:
  assumes "is_cstring rest" "length rest < 1498"
  shows "arrives ten_to (new_connection 3) (''{}'' @ rest) (leaf CJ_Object None) ''{}'' rest"
  using assms braces_parsed by (simp add: arrives_def new_connection_def buffer_size_def)

lemma braces_answer:
  obtains s where "eval_request no_server (leaf CJ_Object None) () = Val (-1, s, ())"
  using eval_request_malformed [where pw = ten_to and srv = no_server and w = "()", OF ten_to_zero empty_malformed] by blast

theorem callback_invariant_witness:
  "\<exists>c' s. connection_cb ten_to no_server (ReadData (''{}'' @ [LF])) (new_connection 3) () = Val (Open c', s, ()) \<and>
     conn_ok c' \<and> 1500 \<le> buffer_size c'"
proof -
  obtain s where s: "eval_request no_server (leaf CJ_Object None) () = Val (-1, s, ())" by (rule braces_answer)
  have "arrives ten_to (new_connection 3) (''{}'' @ [LF]) (leaf CJ_Object None) ''{}'' [LF]"
    by (rule braces_arrive) simp_all
  from callback_request [OF conn_ok_new this _ _ s] obtain c' where
    c': "connection_cb ten_to no_server (ReadData (''{}'' @ [LF])) (new_connection 3) () = Val (Open c', s, ())"
    by (simp add: leaf_def new_connection_def buffer_size_def)
  have "length (''{}'' @ [LF]) \<le> max_read_size c0" if "grow (new_connection 3) = Val c0" for c0
    using that by (auto simp: grow_def new_connection_def buffer_size_def max_read_size_def)
  from callback_invariant [OF conn_ok_new c' this] c' show ?thesis
    by (auto simp: new_connection_def buffer_size_def)
qed


theorem pipelined_request_truncated_witness:
  "\<exists>c' s. connection_cb ten_to no_server (ReadData (''{}'' @ ''{}'' @ [LF])) (new_connection 3) () = Val (Open c', s, ()) \<and>
     pos c' = 1 \<and> buffer c' = CHR ''{'' # replicate 1499 NUL"
proof -
  obtain s where s: "eval_request no_server (leaf CJ_Object None) () = Val (-1, s, ())" by (rule braces_answer)
  have a: "arrives ten_to (new_connection 3) (''{}'' @ ''{}'' @ [LF]) (leaf CJ_Object None) ''{}'' (''{}'' @ [LF])"
    by (rule braces_arrive) simp_all
  from pipelined_request_truncated [OF conn_ok_new a _ _ _ s] show ?thesis
    by (auto simp: leaf_def new_connection_def buffer_size_def)
qed

lemma brace_fails: "cJSON_Parse_Stream ten_to (''{'' @ NUL # m) = Fail (NUL # m)"
  by (simp add: cJSON_Parse_Stream_def parse_fuel_def parse_value_other parse_object_def parse_member_def parse_key_def
      parse_string_def c_isdigit_def c_isspace_def byte_def spaces del: parse_value.simps)

lemma x_fails: "cJSON_Parse_Stream ten_to (CHR ''x'' # m) = Fail (CHR ''x'' # m)"
  by (simp add: cJSON_Parse_Stream_def parse_fuel_def parse_value_other c_isspace_def byte_def c_isdigit_def del: parse_value.simps)




subsection \<open>Worker threads\<close>

theorem connections_in_order_witness:
  "\<exists>xs. cq_holds (queue (workers sys_init) 2) xs \<and> handled sys_init 2 @ xs = assigned 2 (accepted sys_init)"
  using connections_in_order [OF init, of 2] by auto


theorem accept_error_dispatched_witness:
  "\<exists>p' it. accept_callback2 (replicate 2 EAgain @ AcceptError # []) ((127, 0, 0, 1), 80) 7 (workers sys_init) = Val p' \<and>
     sfd it = -1 \<and> cq_holds (queue p' 0) [it] \<and> notified p' 0"
proof -
  let ?p = "workers sys_init"
  have "init_count ?p = 5" "round_robin ?p = 0" "nat (robin_of ?p) = 0" by (simp_all add: sys_init_def robin_of_def)
  moreover have "queue ?p 0 = cq_init" by (simp add: sys_init_def)
  moreover have "cq_fresh cq_init 7" by (simp add: cq_fresh_def cq_init_def)
  ultimately show ?thesis
    using accept_error_dispatched [where p = ?p and xs = "[]" and a = 7 and n = 2 and rs = "[]" and stack = "((127, 0, 0, 1), 80)"]
      cqs.holds_void by (simp only:) simp
qed

subsection \<open>Methods\<close>

definition w0 :: world where
  "w0 = \<lparr> proc_file = (\<lambda>p. if p = ''/proc/loadavg'' then Some ''0.00 0.01 0.05'' else None),
     popen_output = (\<lambda>_ _. None), builtin = (\<lambda>f n args. (''CPU'', True)), pipe_capacity = 65536, pipe_ok = True,
     history = [], locked = {} \<rparr>"


theorem builtin_command_answer_witness:
  "\<exists>f. lookup_procedure my_server ''GetCpuInfo'' = Some (f, Some ''cpuinfo'') \<and>
     f (Some ''cpuinfo'') None None w0 = Val (text_reply ''CPU'', w0)"
proof -
  have "(RunBuiltin, ''GetCpuInfo'', Some ''cpuinfo'') \<in> set main_methods"
    by (simp add: main_methods_def cmd_methods_def)
  from builtin_command_answer [OF this, of w0 "''CPU''" True None None] show ?thesis
    by (simp add: w0_def cstr_def)
qed

definition hello_request :: cjson where
  "hello_request = cJSON_AddItemToObject cJSON_CreateObject ''method'' (Some (cJSON_CreateString ''GetProcLoadavg''))"

lemma hello_request_ok: "request hello_request ''GetProcLoadavg'' None None"
proof -
  have eq: "hello_request =
      CJson [CJson [] CJ_String False (Some ''GetProcLoadavg'') 0 dbl_zero (Some ''method'')] CJ_Object False None 0 dbl_zero None"
    by (simp add: hello_request_def object_defs cJSON_AddItemToObject_def cJSON_AddItemToArray_def leaf_def)
  have "cJSON_GetObjectItem hello_request ''params'' = None" "cJSON_GetObjectItem hello_request ''id'' = None"
    by (simp_all add: eq cJSON_GetObjectItem_def strcaseeq_def c_tolower_def c_isupper_def byte_def)
  moreover have "\<exists>m. cJSON_GetObjectItem hello_request ''method'' = Some m \<and> ctype m = CJ_String \<and>
      valuestring m = Some ''GetProcLoadavg''"
    by (simp add: eq cJSON_GetObjectItem_def cJSON_strcasecmp_def)
  ultimately show ?thesis by (simp add: request_def params_ok_def valid_id_def)
qed


theorem handlers_release_locks_witness:
  "\<exists>r w'. handler_function method_names SayHello None None None w0 = Val (r, w') \<and> locked w' = locked w0 \<and> error_code r = 0"
proof -
  obtain r w' where r: "handler_function method_names SayHello None None None w0 = Val (r, w')"
    by (simp add: handler_function_def say_hello_def)
  with handlers_release_locks [OF r] show ?thesis by blast
qed

subsection \<open>System statistics\<close>

definition some_cpu :: stats_cpu where
  "some_cpu = zero_cpu \<lparr> cpu_user := 7, cpu_idle := 3 \<rparr>"

theorem stat_cpu_roundtrip_witness:
  "read_stat_cpu (Some (cpu_all_line some_cpu # map (\<lambda>(n, c). cpu_line n c) (enumerate 0 [some_cpu]) @ [''ctxt 5'']))
     [zero_cpu, zero_cpu] (int (length [some_cpu]) + 1) 0 0 =
   Some (Val ([some_cpu, some_cpu], cpu_uptime some_cpu, cpu_uptime some_cpu))"
  using stat_cpu_roundtrip [of "[some_cpu]" "[zero_cpu, zero_cpu]" "[''ctxt 5'']" some_cpu 0 0] by simp

definition by_uuid :: sysfs where
  "by_uuid = \<lparr> dir_entries = (\<lambda>_. None), readable = (\<lambda>p. p = ''/dev/disk/by-uuid''), file_exists = (\<lambda>_. True),
     link_target = (\<lambda>p. if p = ''/dev/disk/by-uuid/1-2'' then Some ''../../sda1'' else None),
     real_path = (\<lambda>_. None), sorted_dir = (\<lambda>_. Some [''.'', ''..'', ''0-1'', ''1-2'']) \<rparr>"

theorem persistent_name_found_witness:
  "get_persistent_name_from_pretty by_uuid ''uuid'' ''sda1'' = Val (Some ''1-2'')"
proof -
  have "get_persistent_type_dir by_uuid ''uuid'' = Some ''/dev/disk/by-uuid''"
    by (simp add: get_persistent_type_dir_def by_uuid_def Let_def)
  from persistent_name_found [OF this, of "[''.'', ''..'', ''0-1'', ''1-2'']" "''sda1''"] show ?thesis
    by (simp add: by_uuid_def device_of_def base_name_def strip_slashes_def)
qed

lemma default_colors_fit: "colors_fit default_colors"
  by (simp add: colors_fit_def color_list_def default_colors_def is_sgr_def ESC_def)

theorem colors_stay_sequences_witness:
  "colors_fit (init_colors (Some ''always'') (Some ''H=31;1:Z=x'') False default_colors)"
  by (rule colors_stay_sequences [OF default_colors_fit])

definition later_cpu :: stats_cpu where
  "later_cpu = zero_cpu \<lparr> cpu_user := 10, cpu_idle := 9 \<rparr>"

theorem cpu_row_adds_up_witness:
  "cpu_columns later_cpu some_cpu 9 = map (\<lambda>d. percent d 9) [3, 0, 0, 0, 0, 0, 0, 0, 0, 6]"
proof -
  have "counters_grow some_cpu later_cpu" "get_per_cpu_interval later_cpu some_cpu \<noteq> 0"
    by (simp_all add: counters_grow_def some_cpu_def later_cpu_def zero_cpu_def get_per_cpu_interval_def)
  from cpu_row_adds_up [OF this] show ?thesis
    by (simp add: row_parts_def clamped_diff_def some_cpu_def later_cpu_def zero_cpu_def get_per_cpu_interval_def)
qed

definition one_cpu :: mp_conf where
  "one_cpu = \<lparr> c_colors = default_colors, c_actflags = M_D_CPU, c_flags = 0, c_interval = 1, c_bitmap = [CHR 0x03],
     c_cpu_nr = 1, c_irqcpu_nr = 0, c_softirqcpu_nr = 0, c_hz = 100 \<rparr>"

definition a_reading :: reading where
  "a_reading = \<lparr> r_stat = Some [cpu_all_line some_cpu, cpu_line 0 some_cpu], r_uptime = None, r_interrupts = None,
     r_softirqs = None, r_time = ''10:00:00'' \<rparr>"

lemma one_cpu_sample:
  assumes "length (s_cpu s) = 2"
  shows "take_sample one_cpu a_reading s =
    Some (Val (s \<lparr> s_cpu := [some_cpu, some_cpu], s_uptime := 10,
      s_uptime0 := (if s_uptime0 s = 0 then 10 else s_uptime0 s), s_time := ''10:00:00'' \<rparr>))"
proof -
  obtain x y where "s_cpu s = [x, y]"
    using assms by (auto simp: numeral_2_eq_2 length_Suc_conv)
  moreover have "cpu_uptime some_cpu = 10" by (simp add: cpu_uptime_def some_cpu_def zero_cpu_def)
  ultimately show ?thesis
    by (cases s) (simp add: take_sample_def one_cpu_def a_reading_def read_stat_cpu_def read_all_line read_cpu_line store_cpu_def
        Let_def flag_set_def)
qed

theorem one_report_without_waiting_witness:
  "\<exists>s s'. rw_mpstat_loop one_cpu True 23 1 a_reading ((a_reading, False) # []) =
      Some (Val (plain_report one_cpu True s s' ''10:00:00'' ''10:00:00'' @
                 plain_report one_cpu True s (offline_fixed one_cpu s s') ''Average:'' ''Average:'')) \<and>
     s_cpu s' = [some_cpu, some_cpu] \<and> s_cpu s = [some_cpu, some_cpu]"
proof -
  have 1: "length (s_cpu (first_buffers one_cpu)) = 2" "length (s_cpu (clear_cpus (c_cpu_nr one_cpu) (first_buffers one_cpu))) = 2"
    by (simp_all add: first_buffers_def salloc_mp_struct_def one_cpu_def clear_cpus_def)
  have "c_interval one_cpu \<noteq> 0" "c_actflags one_cpu = M_D_CPU" "\<not> flag_set (c_flags one_cpu) F_JSON_OUTPUT" "0 < (23 :: nat)"
    by (simp_all add: one_cpu_def flag_set_def)
  note plain = this
  obtain s where s: "take_sample one_cpu a_reading (first_buffers one_cpu) = Some (Val s)"
    "s_cpu s = [some_cpu, some_cpu]" "s_time s = ''10:00:00''"
    using one_cpu_sample [OF 1(1)] by simp
  obtain s' where s': "take_sample one_cpu a_reading (clear_cpus (c_cpu_nr one_cpu) (first_buffers one_cpu)) = Some (Val s')"
    "s_cpu s' = [some_cpu, some_cpu]" "s_time s' = ''10:00:00''"
    using one_cpu_sample [OF 1(2)] by simp
  have "s_cpu s' = s_cpu s" using s(2) s'(2) by simp
  from one_report_without_waiting [OF plain s(1) s'(1) this, of True False "[]"] s s' show ?thesis
    by (intro exI [of _ s] exI [of _ s']) (simp only: simp_thms)
qed

theorem offline_cpu_keeps_counters_witness:
  "\<exists>out s. write_stats_core one_cpu (first_buffers one_cpu \<lparr> s_cpu := [some_cpu, some_cpu] \<rparr>) (first_buffers one_cpu) True [] [] =
      Val (out, s) \<and> s_cpu s ! 1 = some_cpu"
proof -
  have "c_actflags one_cpu = M_D_CPU" "\<not> flag_set (c_flags one_cpu) F_JSON_OUTPUT"
    by (simp_all add: one_cpu_def flag_set_def)
  note w = write_stats_core_cpu [OF this, of "first_buffers one_cpu \<lparr> s_cpu := [some_cpu, some_cpu] \<rparr>" "first_buffers one_cpu" True "[]" "[]"]
  from offline_cpu_keeps_counters [OF w] w show ?thesis
    by (auto simp: first_buffers_def salloc_mp_struct_def one_cpu_def cpu_total_def zero_cpu_def)
qed

theorem cpu_list_selected_witness:
  "\<exists>st. parse_options 4 [''-P'', ''0,2''] (initial_opts 4) = Inr st \<and> cpu_wanted (o_bitmap st) 3 \<and> \<not> cpu_wanted (o_bitmap st) 2"
proof -
  have "strtok_all (CHR '','') [] ''0,2'' = map dec_of_nat [0, 2]"
    by code_simp
  from cpu_list_selected [OF this, of 4] show ?thesis by auto
qed

definition two_cpus :: sample where
  "two_cpus = \<lparr> s_cpu = [some_cpu, some_cpu, zero_cpu], s_irq = [0, 0, 0], s_irqcpu = [], s_softirq = [],
     s_uptime = 10, s_uptime0 = 10, s_time = [] \<rparr>"

lemma bitmaps:
  "cpu_wanted [CHR 0x03] 0" "cpu_wanted [CHR 0x03] 1" "\<not> cpu_wanted [CHR 0x03] 2"
  "cpu_wanted [CHR 0xFF] 0" "cpu_wanted [CHR 0xFF] 2"
  by code_simp+

theorem json_all_entries_witness:
  "\<exists>rows. write_json_cpu_stats True [CHR 0x03] 2 5 10 two_cpus two_cpus = json_list 5 ''cpu-load'' rows \<and> length rows = 2"
proof -
  have cpus: "{1..2} = {1, 2 :: nat}" "[0..<Suc 2] = [0, 1, 2 :: nat]" by (auto simp: upt_rec)
  have "cpu_total (s_cpu two_cpus ! 1) \<noteq> 0" by (simp add: two_cpus_def cpu_total_def some_cpu_def zero_cpu_def)
  then have "\<forall>cpu\<in>{1..2}. cpu_wanted [CHR 0x03] cpu \<and> True \<longrightarrow> cpu_total (s_cpu two_cpus ! cpu) \<noteq> 0"
    unfolding cpus(1) using bitmaps(3) by simp
  from json_all_entries [OF this, of 5 10 two_cpus] bitmaps(1-3) show ?thesis
    unfolding cpus(2) by auto
qed

definition some_machine :: machine where
  "some_machine = \<lparr> m_s_colors = None, m_s_sgr = None, m_tty = False, m_ticks = 100, m_sys_cpus = None, m_stat = None,
     m_interrupts = Some (replicate 1022 ''IRQ:''), m_softirqs = None, m_win_height = 24, m_header = [] \<rparr>"

definition sums_and_softirqs :: mp_conf where
  "sums_and_softirqs = one_cpu \<lparr> c_actflags := M_D_IRQ_SUM OR M_D_SOFTIRQS \<rparr>"

lemma cpu_lines_not_intr:
  "read_stat_irq_line n (cpu_all_line c) st = Val st" "read_stat_irq_line n (cpu_line k c) st = Val st"
  by (simp_all add: read_stat_irq_line_def cpu_all_line_def cpu_line_def)

end
