(* ===== verification/PsSig.thy ===== *)
theory PsSig
  imports PsTable Strto
begin

text \<open>
  \<open>src/modules/ps/src/sig.c\<close>: names and numbers of signals, on Linux for x86 with glibc (no
  \<open>SIGEMT\<close>, \<open>SIGRTMIN\<close> 34). \<open>stderr\<close> messages are left out; a line printed is an element of a list.
\<close>

datatype mapstruct = Mapstruct (ms_name: string) (ms_num: int)

definition SIGRTMIN :: int where
  "SIGRTMIN = 34"

definition sigtable :: "mapstruct list" where
  "sigtable =
     [Mapstruct ''ABRT'' 6, Mapstruct ''ALRM'' 14, Mapstruct ''BUS'' 7, Mapstruct ''CHLD'' 17, Mapstruct ''CONT'' 18,
      Mapstruct ''FPE'' 8, Mapstruct ''HUP'' 1, Mapstruct ''ILL'' 4, Mapstruct ''INT'' 2, Mapstruct ''KILL'' 9,
      Mapstruct ''PIPE'' 13, Mapstruct ''POLL'' 29, Mapstruct ''PROF'' 27, Mapstruct ''PWR'' 30, Mapstruct ''QUIT'' 3,
      Mapstruct ''SEGV'' 11, Mapstruct ''STKFLT'' 16, Mapstruct ''STOP'' 19, Mapstruct ''SYS'' 31, Mapstruct ''TERM'' 15,
      Mapstruct ''TRAP'' 5, Mapstruct ''TSTP'' 20, Mapstruct ''TTIN'' 21, Mapstruct ''TTOU'' 22, Mapstruct ''URG'' 23,
      Mapstruct ''USR1'' 10, Mapstruct ''USR2'' 12, Mapstruct ''VTALRM'' 26, Mapstruct ''WINCH'' 28, Mapstruct ''XCPU'' 24,
      Mapstruct ''XFSZ'' 25]"

definition compare_signal_names :: "string \<Rightarrow> mapstruct \<Rightarrow> int" where
  "compare_signal_names k m = strcasecmp k (ms_name m)"

definition has_case_prefix :: "string \<Rightarrow> string \<Rightarrow> bool" where
  "has_case_prefix p s \<longleftrightarrow> map c_tolower (take (length p) s) = map c_tolower p"

definition signal_name_to_number :: "string \<Rightarrow> int" where
  "signal_name_to_number name =
     (let name = (if has_case_prefix ''SIG'' name then drop 3 name else name)
      in if strcaseeq name ''CLD'' then 17
         else if strcaseeq name ''IO'' then 29
         else if strcaseeq name ''IOT'' then 6
         else case bsearch compare_signal_names name sigtable of
           Some ms \<Rightarrow> ms_num ms
         | None \<Rightarrow>
             if strcaseeq name ''RTMIN'' then SIGRTMIN
             else if strcaseeq name ''EXIT'' \<or> strcaseeq name ''NULL'' then 0
             else let rt = has_case_prefix ''RTMIN+'' name;
                      offset = (if rt then SIGRTMIN else 0);
                      name = (if rt then drop 6 name else name)
                  in case strtol 10 name of (val, endp) \<Rightarrow>
                       if endp \<noteq> [] \<or> endp = name then -1
                       else if 127 < val + SIGRTMIN then -1
                       else val + offset)"

fun last_named :: "int \<Rightarrow> mapstruct list \<Rightarrow> string option" where
  "last_named n [] = None"
| "last_named n (m # ms) = (case last_named n ms of Some s \<Rightarrow> Some s | None \<Rightarrow> if ms_num m = n then Some (ms_name m) else None)"

definition signal_number_to_name :: "int \<Rightarrow> string" where
  "signal_number_to_name signo =
     (let signo = signo mod 128
      in case last_named signo sigtable of
           Some s \<Rightarrow> s
         | None \<Rightarrow>
             if signo = SIGRTMIN then ''RTMIN''
             else if signo \<noteq> 0 then ''RTMIN+'' @ dec_of_int (signo - SIGRTMIN)
             else ''0'')"

text \<open>The lines \<open>print_given_signals\<close> prints and its return value; \<open>buf\<close> is the line being filled.\<close>

definition given_signal :: "string \<Rightarrow> string option" where
  "given_signal txt =
     (if txt \<noteq> [] \<and> c_isdigit (hd txt)
      then (case strtol 10 txt of (val, endp) \<Rightarrow> if endp \<noteq> [] then None else Some (signal_number_to_name val))
      else (let sno = signal_name_to_number txt in if sno = -1 then None else Some (dec_of_int sno)))"

fun given_signals :: "nat \<Rightarrow> string list \<Rightarrow> string \<Rightarrow> int \<Rightarrow> string list \<times> int" where
  "given_signals max_line [] buf ret = (if buf = [] then [] else [buf], ret)"
| "given_signals max_line (txt # argv) buf ret =
     (case given_signal txt of
        None \<Rightarrow> given_signals max_line argv buf 1
      | Some t \<Rightarrow>
          if buf = [] then given_signals max_line argv t ret
          else if max_line < length t + length buf + 1
          then (case given_signals max_line argv t ret of (ls, r) \<Rightarrow> (buf # ls, r))
          else given_signals max_line argv (buf @ '' '' @ t) ret)"

definition print_given_signals :: "nat \<Rightarrow> string list \<Rightarrow> string list \<times> int" where
  "print_given_signals max_line argv =
     (if 128 < length argv then ([], 1) else given_signals max_line argv [] 0)"

text \<open>\<open>strtosig\<close>: the conversion in the other direction; a number that is 0 is taken for a name.\<close>

definition strtosig :: "string \<Rightarrow> string option" where
  "strtosig s =
     (let p = map c_toupper s;
          p = (if has_prefix ''SIG'' p then drop 3 p else p);
          digits = (p \<noteq> [] \<and> c_isdigit (hd p));
          (val, endp) = strtol 10 s;
          numsignal = sint (word_of_int val :: u32)
      in if digits \<and> (endp \<noteq> [] \<or> endp = s) then None
         else if digits \<and> numsignal \<noteq> 0 then map_option ms_name (find (\<lambda>m. numsignal = ms_num m) sigtable)
         else map_option (\<lambda>m. take 6 (dec_of_int (ms_num m))) (find (\<lambda>m. p = ms_name m) sigtable))"

subsection \<open>The table\<close>

lemma compare_signal_names_spec: "compare_signal_names k = by_spec (\<lambda>m. map c_tolower (ms_name m)) (map c_tolower k)"
  by (rule ext) (simp add: compare_signal_names_def by_spec_def strcasecmp_def)

lemma sigtable_sorted:
  "strictly_sorted (map (\<lambda>m. map c_tolower (ms_name m)) sigtable)"
  "list_all is_cstring (map (\<lambda>m. map c_tolower (ms_name m)) sigtable)"
  by code_simp+

interpretation signals: sorted_table "by_spec (\<lambda>m. map c_tolower (ms_name m))" sigtable is_cstring
  by (intro sorted_by_spec sigtable_sorted)

lemma lower_cstring: "is_cstring s \<Longrightarrow> is_cstring (map c_tolower s)"
  by (auto simp: is_cstring_def)

text \<open>The search by name is a scan that ignores case.\<close>

lemma bsearch_cong: "(\<And>e. cmp k e = cmp' k' e) \<Longrightarrow> bsearch_between cmp k t l u = bsearch_between cmp' k' t l u"
proof (induction cmp k t l u rule: bsearch_between.induct)
  case (1 cmp k t l u)
  show ?case
    using 1 by (subst (1 2) bsearch_between.simps) (simp add: Let_def)
qed

lemma search_signal:
  assumes "is_cstring k"
  shows "bsearch compare_signal_names k sigtable = find (\<lambda>m. strcaseeq (ms_name m) k) sigtable"
proof -
  let ?f = "\<lambda>m. map c_tolower (ms_name m)"
  have "bsearch compare_signal_names k sigtable = bsearch (by_spec ?f) (map c_tolower k) sigtable"
    unfolding bsearch_def by (rule bsearch_cong) (simp add: compare_signal_names_spec)
  also have "\<dots> = find (\<lambda>m. ?f m = map c_tolower k) sigtable"
    using assms by (simp add: signals.bsearch_find lower_cstring find_by_spec sigtable_sorted)
  finally show ?thesis by (simp add: strcaseeq_def)
qed

lemma lower_letters:
  "c_tolower (CHR ''A'') = CHR ''a''" "c_tolower (CHR ''B'') = CHR ''b''" "c_tolower (CHR ''C'') = CHR ''c''"
  "c_tolower (CHR ''D'') = CHR ''d''" "c_tolower (CHR ''E'') = CHR ''e''" "c_tolower (CHR ''F'') = CHR ''f''"
  "c_tolower (CHR ''G'') = CHR ''g''" "c_tolower (CHR ''H'') = CHR ''h''" "c_tolower (CHR ''I'') = CHR ''i''"
  "c_tolower (CHR ''K'') = CHR ''k''" "c_tolower (CHR ''L'') = CHR ''l''" "c_tolower (CHR ''M'') = CHR ''m''"
  "c_tolower (CHR ''N'') = CHR ''n''" "c_tolower (CHR ''O'') = CHR ''o''" "c_tolower (CHR ''P'') = CHR ''p''"
  "c_tolower (CHR ''Q'') = CHR ''q''" "c_tolower (CHR ''R'') = CHR ''r''" "c_tolower (CHR ''S'') = CHR ''s''"
  "c_tolower (CHR ''T'') = CHR ''t''" "c_tolower (CHR ''U'') = CHR ''u''" "c_tolower (CHR ''V'') = CHR ''v''"
  "c_tolower (CHR ''W'') = CHR ''w''" "c_tolower (CHR ''X'') = CHR ''x''" "c_tolower (CHR ''Y'') = CHR ''y''"
  "c_tolower (CHR ''Z'') = CHR ''z''"
  "c_tolower (CHR ''1'') = CHR ''1''" "c_tolower (CHR ''2'') = CHR ''2''"
  by (simp_all add: c_tolower_def c_isupper_def byte_def char_of_def bit_0)

lemma named_roundtrip:
  "list_all (\<lambda>m. last_named (ms_num m) sigtable = Some (ms_name m)) sigtable"
  "list_all (\<lambda>m. signal_name_to_number (ms_name m) = ms_num m) sigtable"
proof -
  show "list_all (\<lambda>m. last_named (ms_num m) sigtable = Some (ms_name m)) sigtable"
    by (simp add: sigtable_def)
  have "list_all (\<lambda>m. \<not> has_case_prefix ''SIG'' (ms_name m) \<and> \<not> strcaseeq (ms_name m) ''CLD'' \<and> \<not> strcaseeq (ms_name m) ''IO'' \<and>
      \<not> strcaseeq (ms_name m) ''IOT'' \<and> is_cstring (ms_name m)) sigtable"
    by (simp add: sigtable_def has_case_prefix_def strcaseeq_def lower_letters)
  moreover have "list_all (\<lambda>m. find (\<lambda>m'. strcaseeq (ms_name m') (ms_name m)) sigtable = Some m) sigtable"
    by (simp add: sigtable_def strcaseeq_def lower_letters)
  ultimately show "list_all (\<lambda>m. signal_name_to_number (ms_name m) = ms_num m) sigtable"
    by (simp add: list_all_iff signal_name_to_number_def search_signal)
qed

lemma named_numbers: "last_named n ms = Some s \<Longrightarrow> \<exists>m\<in>set ms. ms_num m = n \<and> ms_name m = s"
  by (induction ms) (auto split: option.splits if_splits)

text \<open>A name \<open>RTMIN+k\<close> is none of the table.\<close>

lemma rtmin_name:
  assumes "is_cstring t"
  shows "signal_name_to_number (''RTMIN+'' @ t) =
    (case strtol 10 t of (val, endp) \<Rightarrow>
       if endp \<noteq> [] \<or> endp = t then -1 else if 127 < val + SIGRTMIN then -1 else val + SIGRTMIN)"
proof -
  have no: "\<not> list_ex (\<lambda>m. c_tolower (hd (ms_name m)) = CHR ''r'' \<or> ms_name m = []) sigtable" by code_simp
  have "\<not> strcaseeq (ms_name m) (''RTMIN+'' @ t)" if "m \<in> set sigtable" for m
    using no that lower_letters by (cases "ms_name m") (auto simp: strcaseeq_def list_ex_iff)
  then have "find (\<lambda>m. strcaseeq (ms_name m) (''RTMIN+'' @ t)) sigtable = None"
    by (simp add: find_None_iff)
  then have "bsearch compare_signal_names (''RTMIN+'' @ t) sigtable = None"
    using assms by (simp add: search_signal)
  then show ?thesis
    by (simp add: signal_name_to_number_def Let_def has_case_prefix_def strcaseeq_def lower_letters)
qed

lemma rtmin_roundtrip:
  assumes "0 < n" "n < 128"
  shows "signal_name_to_number (''RTMIN+'' @ dec_of_int (n - SIGRTMIN)) = n"
proof (cases "SIGRTMIN \<le> n")
  case True
  have "strtol 10 (dec_of_nat (nat (n - SIGRTMIN)) @ []) = (int (nat (n - SIGRTMIN)), [])"
    using assms by (intro strtol_dec) (auto simp: SIGRTMIN_def)
  then show ?thesis
    using True assms unfolding dec_of_int_def by (subst rtmin_name) (simp_all add: dec_of_nat_not_Nil [symmetric] del: dec_of_nat_not_Nil)
next
  case False
  have "strtol 10 (CHR ''-'' # dec_of_nat (nat (SIGRTMIN - n))) = (- int (nat (SIGRTMIN - n)), [])"
    using assms by (intro strtol_neg_dec) (auto simp: SIGRTMIN_def)
  then show ?thesis
    using False assms unfolding dec_of_int_def by (subst rtmin_name) simp_all
qed

lemma special_names: "signal_name_to_number ''RTMIN'' = SIGRTMIN" "signal_name_to_number ''0'' = 0"
  by code_simp+

text \<open>
  The name of a signal number is read back as the number, modulo the bit that marks a core dump.
\<close>

lemma signal_roundtrip:
  "signal_name_to_number (signal_number_to_name signo) = signo mod 128"
proof (cases "last_named (signo mod 128) sigtable")
  case (Some s)
  then obtain m where "m \<in> set sigtable" "ms_num m = signo mod 128" "ms_name m = s"
    using named_numbers by blast
  with Some named_roundtrip show ?thesis by (auto simp: signal_number_to_name_def list_all_iff)
next
  case None
  then show ?thesis
    using rtmin_roundtrip [of "signo mod 128"] special_names pos_mod_bound [of 128 signo] pos_mod_sign [of 128 signo]
    by (auto simp: signal_number_to_name_def Let_def)
qed

end
