(* ===== verification/PsWitnesses.thy ===== *)
theory PsWitnesses
  imports PsParserProps PsEscape PsSig PsOutputProps PsDisplayProps
begin

text \<open>
  The properties of ps that have hypotheses, applied to concrete inputs where they hold: the command
  line the daemon registers for \<open>GetCmdTop\<close>, a list of process ids, an unknown option.
\<close>

definition some_env :: ps_env where
  "some_env = \<lparr> pid_digits = 5, ps_format = None, getpwnam = (\<lambda>_. None), getgrnam = (\<lambda>_. None), stat_file = (\<lambda>_. None) \<rparr>"

definition some_host :: ps_host where
  "some_host = \<lparr> host_getenv = (\<lambda>_. None), host_winsize = [], host_isatty = False, host_euid = 0, host_tty = 0,
     host_page_size = 4096, host_uptime = 100 \<rparr>"

definition some_proc :: proc_t where
  "some_proc = blank_proc \<lparr> p_tid := 7, p_tgid := 7, p_ppid := 1, p_pgrp := 7, p_session := 7, p_nlwp := 1,
     p_state := CHR ''S'', p_cmdline := Some [''a'' @ [TAB] @ ''b'', ''c''], p_euser := ''root'', p_ruser := ''root'', p_cmd := ''ab'' \<rparr>"

text \<open>The globals as the program starts with them, as far as they are read before they are set.\<close>

definition start_state :: ps_state where
  "start_state = \<lparr> all_processes = True, bsd_j_format = [], bsd_l_format = [], bsd_s_format = [], bsd_u_format = [],
     bsd_v_format = [], bsd_c_option = True, bsd_e_option = True, cached_euid = -1, cached_tty = -1, forest_type = CHR 0xFF,
     format_flags = 0xffffffff, format_list = [], format_modifiers = 0xffffffff, header_gap = -1, header_type = HEAD_SINGLE,
     include_dead_children = True, lines_to_next_header = -1, negate_selection = True, page_size = -1,
     personality = 0xffffffff, prefer_bsd_defaults = True, running_only = True, screen_cols = -1, screen_rows = -1,
     seconds_since_boot = -1, selection_list = [], simple_select = 0xffffffff, sort_list = [], sysv_f_format = None,
     sysv_fl_format = None, sysv_j_format = None, sysv_l_format = None, thread_flags = 0xffffffff, unix_f_option = True,
     user_is_number = True, wchan_is_number = True, select_bits = 0, sf_list = [], have_gnu_sort = False,
     already_parsed_sort = False, already_parsed_format = False, errbuf = [], w_count = 0, force_bsd = False, ps_argv = [],
     thisarg = 0 \<rparr>"

definition daemon_columns :: "string list" where
  "daemon_columns = [''pid'', ''user'', ''pri'', ''ni'', ''vsize'', ''rss'', ''s'', ''%cpu'', ''%mem'', ''time'', ''cmd'']"

definition daemon_keys :: "(bool \<times> string) list" where
  "daemon_keys = [(True, ''%cpu'')]"

text \<open>That is the text in the registration, cut at the blanks.\<close>

lemma daemon_line:
  "ps_line daemon_columns daemon_keys =
    [''ps'', ''-e'', ''-o'', ''pid,user,pri,ni,vsize,rss,s,%cpu,%mem,time,cmd'', ''--sort=-%cpu'']"
  by code_simp

lemma daemon_columns_ok: "\<forall>s\<in>set daemon_columns. column s" "\<forall>k\<in>set daemon_keys. column (snd k)"
proof -
  have "in_order [''%cpu'', ''%mem'', ''cmd'', ''ni'', ''pid'', ''pri'', ''rss'', ''s'', ''time'', ''user'', ''vsize'']
      (map fspec format_array)" by code_simp
  from in_order_subset [OF this] show "\<forall>s\<in>set daemon_columns. column s" "\<forall>k\<in>set daemon_keys. column (snd k)"
    by (auto simp: column_def daemon_columns_def daemon_keys_def)
qed

lemma daemon_columns_not_Nil: "daemon_columns \<noteq> []" "daemon_keys \<noteq> []"
  by (simp_all add: daemon_columns_def daemon_keys_def)

lemma unknown_found: "bsearch compare_personality ''unknown'' personality_table = Some (''unknown'', Case_plain)"
  by code_simp

lemma start_ok: "fresh_parser start_state" "\<not> has (personality (reset_global some_host start_state)) PER_FORCE_BSD"
  by (simp_all add: fresh_parser_def start_state_def reset_global_def set_personality_def personality_text_def some_host_def
      unknown_found set_personality_case_def default_formats_def has_def Let_def)

theorem ps_line_parsed_witness:
  "\<exists>g'. arg_parse some_host some_env
      [''ps'', ''-e'', ''-o'', ''pid,user,pri,ni,vsize,rss,s,%cpu,%mem,time,cmd'', ''--sort=-%cpu'']
      (reset_global some_host start_state) = Val g' \<and>
    format_list g' = map (plain_node some_env None) daemon_columns \<and> sort_list g' = map key_node daemon_keys \<and>
    (\<forall>p. want_this_proc g' p) \<and> fresh_parser (reset_sortformat g')"
  using ps_line_parsed [OF daemon_columns_not_Nil(1) daemon_columns_ok(1) daemon_columns_not_Nil(2) daemon_columns_ok(2) start_ok]
  by (simp only: daemon_line)

theorem pid_line_selects_witness:
  "\<exists>g'. arg_parse some_host some_env (pid_line daemon_columns [1, 4711]) (reset_global some_host start_state) = Val g' \<and>
    sort_list g' = [] \<and> want_this_proc g' (some_proc \<lparr> p_tgid := 4711 \<rparr>) \<and> \<not> want_this_proc g' some_proc"
proof -
  obtain g' where g': "arg_parse some_host some_env (pid_line daemon_columns [1, 4711]) (reset_global some_host start_state) = Val g'"
      "sort_list g' = []"
    and sel: "\<forall>p. 0 \<le> p_tgid p \<and> p_tgid p < 2 ^ 31 \<longrightarrow> (want_this_proc g' p \<longleftrightarrow> p_tgid p \<in> int ` set [1, 4711])"
    using pid_line_selects [OF daemon_columns_not_Nil(1) daemon_columns_ok(1) _ _ start_ok, of "[1, 4711]" some_env]
    by (auto simp: legal_pid_def)
  show ?thesis
    using g' sel [rule_format, of "some_proc \<lparr> p_tgid := 4711 \<rparr>"] sel [rule_format, of some_proc] by (auto simp: some_proc_def blank_proc_def)
qed

theorem unknown_option_exits_witness:
  "arg_parse some_host some_env [''ps'', ''--color''] start_state = Undef Exits"
proof -
  have "unknown_name ''color''" by code_simp
  from unknown_option_exits [OF this] show ?thesis by simp
qed

text \<open>Without options the processes of the user on the terminal.\<close>

definition reset_state :: ps_state where
  "reset_state = start_state \<lparr> all_processes := False, simple_select := 0, prefer_bsd_defaults := False \<rparr>"

theorem table_is_documented_witness:
  "(all_processes (reset_state \<lparr> select_bits := 0xaa00 \<rparr>) \<or> table_accept (reset_state \<lparr> select_bits := 0xaa00 \<rparr>) some_proc) \<longleftrightarrow>
   documented_selection reset_state some_proc"
  by (rule table_is_documented) (simp_all add: select_bits_setup_def reset_state_def)

definition c_locale :: clib where
  "c_locale = \<lparr> utf8 = False, mbrtowc = (\<lambda>s. (1, 0)), c_isprint = (\<lambda>c. 32 \<le> byte c \<and> byte c < 127), iswprint = (\<lambda>_. False),
     wcwidth = (\<lambda>_. 1) \<rparr>"


text \<open>A machine, the columns \<open>pid\<close>, \<open>user\<close> and \<open>time\<close>, and the row of \<open>some_proc\<close>.\<close>

definition some_out_env :: out_env where
  "some_out_env = \<lparr> hertz = 100, kb_main_total = 1000000, getbtime = 1700000000, ctime = (\<lambda>_. ''Wed Nov 15 03:13:20 2023'' @ [LF]),
     year_yday = (\<lambda>_. (123, 318)), strftime = (\<lambda>_ _. ''03:13''), locale_lib = c_locale, tty_name = (\<lambda>_ _. None),
     wchan_file = (\<lambda>_. None), attr_current = (\<lambda>_. None) \<rparr>"

definition some_out :: out_state where
  "some_out = \<lparr> max_rightward = 0, active_cols = 80, wide_signals = False, seconds_since_1970 = 1700000100, page_shift = 12,
     out_buf = [], did_stuff = False, forest_prefix = [] \<rparr>"

definition row_columns :: "format_node list" where
  "row_columns = map (plain_node some_env None) [''pid'', ''user'']"

lemma row_columns_eq: "map (\<lambda>n. (fn_name n, fn_width n, fn_pr n, just n)) (row_columns @ [plain_node some_env None ''time'']) =
    [(''PID'', 5, Some ''procs'', RIGHT), (''USER'', 8, Some ''euser'', USER), (''TIME'', 8, Some ''time'', RIGHT)]"
  by code_simp

lemma pr_found: "map_of pr_table ''procs'' = Some pr_procs" "map_of pr_table ''euser'' = Some pr_euser" "map_of pr_table ''time'' = Some pr_time"
  by (simp_all add: pr_table_def)

lemma user_text: "escape_str c_locale ''root'' OUTBUF_SIZE OUTBUF_SIZE = (''root'', OUTBUF_SIZE - 4)"
  by (simp add: escape_str_def c_locale_def escape_code_def byte_def)

lemma shown_numbers: "dec_of_nat 7 = ''7''" "dec_of_nat 0 = ''0''"
  by code_simp+

lemma row_cells:
  assumes "\<not> user_is_number g"
  shows "prints some_out_env g (Some some_proc) 80 5 (plain_node some_env None ''pid'') ''7''"
    "prints some_out_env g (Some some_proc) 80 8 (plain_node some_env None ''user'') ''root''"
    "prints some_out_env g (Some some_proc) 80 65 (plain_node some_env None ''time'') ''00:00:00''"
  using assms row_columns_eq
  by (simp_all add: prints_def cell_def call_pr_def pr_found pr_procs_def pr_euser_def pr_time_def do_pr_name_def row_columns_def
      some_proc_def blank_proc_def sn_def show_unsigned_def user_text some_out_env_def cook_time_def two_digits_def pad_left_def shown_numbers)


theorem args_not_escaped_witness:
  "pr_args some_out_env (reset_state \<lparr> bsd_c_option := False, bsd_e_option := False \<rparr>) (some_out \<lparr> max_rightward := 20 \<rparr>) some_proc =
   Val (''a'' @ [TAB] @ ''b'', 3)"
  by (subst args_not_escaped [of _ "''a'' @ [TAB] @ ''b''" "[''c'']"]) (simp_all add: some_proc_def some_out_def)


text \<open>Two processes, the second a child of the first, and a run of ps over them.\<close>

definition init_proc :: proc_t where
  "init_proc = blank_proc \<lparr> p_tid := 1, p_tgid := 1, p_state := CHR ''S'', p_cmd := ''init'' \<rparr>"

definition two_procs :: proc_source where
  "two_procs = \<lparr> read_procs = (\<lambda>_ _. Val (Some [some_proc, init_proc])), read_tasks = (\<lambda>_ _. Val []),
     read_table = (\<lambda>want _. Val (Some (List.map_filter want [some_proc, init_proc]))), read_either = (\<lambda>_ _. Val None) \<rparr>"

definition no_needs :: needs where
  "no_needs = \<lparr> proc_format_list = [], task_format_list = [], needs_for_threads = 0, needs_for_sort = 0, proc_format_needs = 0,
     task_format_needs = 0 \<rparr>"

definition show_all :: "ps_state" where
  "show_all = start_state \<lparr> running_only := False, negate_selection := False, thread_flags := TF_show_proc, forest_type := NUL \<rparr>"

lemma sr_found: "map_of (sr_table env g) ''pcpu'' = Some (CMP_SMALL (uint \<circ> p_pcpu))"
    "map_of (sr_table env g) ''start_time'' = Some (CMP_INT (uint \<circ> p_start_time))"
  by (simp_all add: sr_table_def)

lemma cpu_key: "map (\<lambda>k. sn_sr k) (map key_node daemon_keys) = [''pcpu'']"
  by code_simp

lemma idle_pcpu: "p_utime p = 0 \<Longrightarrow> p_stime p = 0 \<Longrightarrow> p_cutime p = 0 \<Longrightarrow> p_cstime p = 0 \<Longrightarrow> p_pcpu (with_pcpu env g p) = 0"
  by (simp add: with_pcpu_def total_time_def Let_def)

lemma pcpu_ids: "p_tid (with_pcpu env g p) = p_tid p" "p_ppid (with_pcpu env g p) = p_ppid p"
  by (simp_all add: with_pcpu_def Let_def)

lemma wide_screen: "0 < screen_cols (reset_global some_host start_state)"
  by (simp add: start_state_def reset_global_def set_personality_def personality_text_def some_host_def set_screen_size_def
      unknown_found set_personality_case_def default_formats_def has_def Let_def env_size_def)

definition forest_state :: ps_state where
  "forest_state = show_all \<lparr> forest_type := CHR ''f'' \<rparr>"

lemma forest_table: "shown_table some_out_env forest_state [some_proc, init_proc] =
    [with_pcpu some_out_env forest_state some_proc, with_pcpu some_out_env forest_state init_proc]"
  by (simp add: shown_table_def List.map_filter_def want_this_proc_pcpu_def want_this_proc_def forest_state_def show_all_def start_state_def)

lemma forest_read: "read_table two_procs (want_this_proc_pcpu some_out_env forest_state) flags =
    Val (Some [with_pcpu some_out_env forest_state some_proc, with_pcpu some_out_env forest_state init_proc])"
  using forest_table by (simp add: two_procs_def shown_table_def)


end
