(* ===== verification/PsReadWitnesses.thy ===== *)
theory PsReadWitnesses
  imports PsScanProps PwCache PsWitnesses
begin

text \<open>
  The properties of the readers of \<open>/proc\<close>, applied to a directory with one process, one that is gone, and
  names that are no processes.
\<close>

definition demo_proc :: proc_t where
  "demo_proc = blank_proc \<lparr> p_tid := 7, p_state := CHR ''S'', p_cmd := ''a) (b'', p_nlwp := 1 \<rparr>"

definition demo_stat :: string where
  "demo_stat = stat_line demo_proc [''0'', ''0'', ''0'', ''0''] 0 0 [LF]"

definition demo_lines :: "status_line list" where
  "demo_lines = [Name_line ''a) (b'', State_line (CHR ''S'') '' (sleeping)'', Number_line ''Tgid'' 0 7 [],
     Number_line ''Pid'' 0 7 [], Number_line ''PPid'' 0 1 [], Ids_line True 0 0 0 0, Groups_line [4, 24],
     Number_line ''VmSize'' 4 1234 '' kB'', Number_line ''Threads'' 0 1 [], Mask_line ''SigIgn'' ''0000000000001000'',
     Other_line ''Speculation_Store_Bypass'' ''vulnerable'']"

definition demo_fs :: "string option \<Rightarrow> proc_fs" where
  "demo_fs status =
     \<lparr> fs_file = (\<lambda>f. if f = ''/proc/7/stat'' then Some (demo_stat, False)
         else if f = ''/proc/7/status'' then map_option (\<lambda>s. (s, False)) status else None),
       fs_stat = (\<lambda>f. if f = ''/proc/7'' then Some (0, 0, 1) else None),
       fs_dir = (\<lambda>d. if d = ''/proc'' then Some [''.'', ''..'', ''7'', ''8'', ''self''] else None) \<rparr>"

definition demo_reader :: "string option \<Rightarrow> proc_reader" where
  "demo_reader status = \<lparr> rd_fs = demo_fs status, rd_lib = locale_lib some_out_env, rd_user = (\<lambda>_. ''root''), rd_group = (\<lambda>_. ''root''),
     task_dir_missing = False \<rparr>"

lemma demo_stat_ok: "stat_ok demo_proc"
  by (simp add: stat_ok_def demo_proc_def blank_proc_def fits_int_def fits_long_def)

lemma demo_words: "word ''0''"
  by (simp add: word_def c_isspace_def byte_def)

lemma demo_lines_ok: "list_all line_ok demo_lines"
  by (simp add: demo_lines_def numbers_def masks_def stored_names_def fits_long_def fits_int_def is_cstring_def byte_def
      c_isdigit_def)

lemma demo_status_cstring: "is_cstring (status_text demo_lines)" "status_text demo_lines \<noteq> []"
  by code_simp+

lemma demo_stat_cstring: "is_cstring demo_stat" "demo_stat \<noteq> []"
  by code_simp+

lemma demo_files:
  "file_text (demo_fs s) ''/proc/7'' ''stat'' = Some demo_stat"
  "file_text (demo_fs (Some (status_text demo_lines))) ''/proc/7'' ''status'' = Some (status_text demo_lines)"
  "file_text (demo_fs None) ''/proc/7'' ''status'' = None"
  using demo_status_cstring demo_stat_cstring by (simp_all add: file_text_def file2str_whole demo_fs_def)


subsection \<open>The list over the directory\<close>

definition no_time :: "proc_t \<Rightarrow> bool" where
  "no_time p \<longleftrightarrow> p_utime p = 0 \<and> p_stime p = 0 \<and> p_cutime p = 0 \<and> p_cstime p = 0"

lemma idle_fill:
  "no_time p \<Longrightarrow> no_time (fill_users rd flags p)" "no_time p \<Longrightarrow> no_time (fill_groups rd flags p)"
  "no_time p \<Longrightarrow> no_time (sd2proc p)" "no_time p \<Longrightarrow> no_time (ns2proc fs path p)"
  by (simp_all add: no_time_def fill_users_def fill_groups_def sd2proc_def ns2proc_def Let_def)

lemma idle_update:
  "no_time p \<Longrightarrow> no_time (p \<lparr> p_wchan := w \<rparr>)" "no_time p \<Longrightarrow> no_time (p \<lparr> p_environ := v \<rparr>)" "no_time p \<Longrightarrow> no_time (p \<lparr> p_cmdline := v \<rparr>)"
  "no_time p \<Longrightarrow> no_time (p \<lparr> p_cgroup := v \<rparr>)" "no_time p \<Longrightarrow> no_time (p \<lparr> p_lxcname := x \<rparr>)"
  by (simp_all add: no_time_def)

lemma idle_if: "(b \<Longrightarrow> no_time p) \<Longrightarrow> (\<not> b \<Longrightarrow> no_time q) \<Longrightarrow> no_time (if b then p else q)"
  by simp

lemma idle_let: "(\<And>x. x = p \<Longrightarrow> \<exists>q. f x = Val (q, True) \<and> no_time q) \<Longrightarrow> \<exists>q. Let p f = Val (q, True) \<and> no_time q"
  by simp

lemma demo_files_idle:
  assumes "no_time p"
  shows "\<exists>q. read_files (demo_reader None) flags ''/proc/7'' p = Val (q, True) \<and> no_time q"
proof -
  have missing: "file_text (demo_fs None) ''/proc/7'' w = None" if "w \<noteq> ''stat''" for w
    using that by (auto simp: file_text_def file2str_whole demo_fs_def)
  let ?rd = "demo_reader None"
  have rd: "rd_fs ?rd = demo_fs None" by (simp add: demo_reader_def)
  have stat: "stat2proc demo_stat p = Val (with_stat demo_proc p)"
    unfolding demo_stat_def
    by (rule stat_line_read) (use demo_stat_ok demo_words in \<open>simp_all add: starts_digit_def\<close>)
  have st: "no_time (with_stat demo_proc p)" by (simp add: no_time_def with_stat_def demo_proc_def blank_proc_def)
  have same: "fill_statm ?rd flags ''/proc/7'' q = q" "fill_oom ?rd flags ''/proc/7'' q = q"
    "fill_status ?rd flags ''/proc/7'' b q = Val q" for q b
    by (simp_all add: fill_statm_def fill_oom_def fill_status_def rd missing)
  show ?thesis
    unfolding read_files_def rd demo_files(1) same Let_def [of "demo_fs None"] option.sel
    by (auto simp: stat obind_def simp del: Let_def split: if_split intro!: idle_let idle_if idle_fill idle_update assms st)
qed

abbreviation demo_entries :: "string list" where
  "demo_entries \<equiv> [''.'', ''..'', ''7'', ''8'', ''self'']"

lemma demo_scan:
  assumes "plain_flags flags"
  shows "\<exists>q. scan_all (demo_reader None) (scan_of flags demo_entries) demo_entries = Val [q] \<and> no_time q"
proof -
  let ?b = "\<lambda>e. blank_proc \<lparr> p_tgid := name_number e, p_tid := name_number e \<rparr>"
  have "no_time (?b ''7'' \<lparr> p_euid := sint (0 :: u32), p_egid := sint (0 :: u32) \<rparr>)" by (simp add: no_time_def blank_proc_def)
  from demo_files_idle [OF this, of flags] obtain q where q: "no_time q"
      "read_files (demo_reader None) flags ''/proc/7'' (?b ''7'' \<lparr> p_euid := sint (0 :: u32), p_egid := sint (0 :: u32) \<rparr>) = Val (q, True)"
    by blast
  have "simple_readproc (demo_reader None) (scan_of flags demo_entries \<lparr> pt_path := ''/proc/'' @ ''7'' \<rparr>) (?b ''7'') = Val (q, True)"
    using q(2) assms by (simp add: simple_readproc_def scan_of_def plain_flags_def) (simp add: demo_reader_def demo_fs_def special_flags)
  moreover have "simple_readproc (demo_reader None) (scan_of flags demo_entries \<lparr> pt_path := ''/proc/'' @ ''8'' \<rparr>) (?b ''8'') = Val (?b ''8'', False)"
    by (simp add: simple_readproc_def scan_of_def demo_reader_def demo_fs_def)
  ultimately show ?thesis using q(1) by (simp add: byte_def)
qed

definition demo_all :: "u32 \<Rightarrow> proc_t list" where
  "demo_all flags =
     (if plain_flags flags then
        (case scan_all (demo_reader None) (scan_of flags demo_entries) demo_entries of Val ps \<Rightarrow> ps | Undef e \<Rightarrow> [])
      else [blank_proc])"

lemma demo_all_facts:
  "plain_flags flags \<Longrightarrow> scan_all (demo_reader None) (scan_of flags demo_entries) demo_entries = Val (demo_all flags)"
  "demo_all flags \<noteq> []" "\<forall>p\<in>set (demo_all flags). no_time p"
proof -
  have "(plain_flags flags \<longrightarrow> scan_all (demo_reader None) (scan_of flags demo_entries) demo_entries = Val (demo_all flags)) \<and>
      demo_all flags \<noteq> [] \<and> (\<forall>p\<in>set (demo_all flags). no_time p)"
  proof (cases "plain_flags flags")
    case True
    obtain q where q: "scan_all (demo_reader None) (scan_of flags demo_entries) demo_entries = Val [q]" "no_time q"
      using demo_scan [OF True] by blast
    then have "demo_all flags = [q]" using True by (simp only: demo_all_def if_True outcome.case)
    then show ?thesis using q by (simp del: scan_all.simps)
  qed (simp add: demo_all_def no_time_def blank_proc_def)
  then show "plain_flags flags \<Longrightarrow> scan_all (demo_reader None) (scan_of flags demo_entries) demo_entries = Val (demo_all flags)"
    "demo_all flags \<noteq> []" "\<forall>p\<in>set (demo_all flags). no_time p" by blast+
qed

lemma demo_dir: "fs_dir (rd_fs (demo_reader s)) ''/proc'' = Some demo_entries"
  by (simp add: demo_reader_def demo_fs_def)

lemma idle_keys: "no_time p \<Longrightarrow> keys_ok env g (map key_node daemon_keys) (with_pcpu env g p)"
  using cpu_key by (simp add: keys_ok_def daemon_keys_def sr_found no_time_def idle_pcpu)


subsection \<open>The other properties\<close>

theorem processes_read_apart_witness:
  "readproctab (demo_reader None) (scan_of 0x60 demo_entries) = scan_all (demo_reader None) (scan_of 0x60 demo_entries) demo_entries"
  using processes_read_apart [of "scan_of 0x60 demo_entries" "demo_reader None"]
  by (simp add: scan_of_def names_ok_def has_def del: scan_all.simps)

theorem quick_list_overrun_witness:
  "simple_spew some_out_env (proc_dir (demo_reader None)) no_needs
     (show_all \<lparr> selection_list := [\<lparr> sel_u = [Sel_Num 7], typecode = SEL_PID_QUICK \<rparr>] \<rparr>, some_out) \<noteq> Val ([], show_all, some_out)"
  using quick_list_overrun [of "show_all \<lparr> selection_list := [\<lparr> sel_u = [Sel_Num 7], typecode = SEL_PID_QUICK \<rparr>] \<rparr>"
      "\<lparr> sel_u = [Sel_Num 7], typecode = SEL_PID_QUICK \<rparr>" "[]" some_out_env "demo_reader None" no_needs some_out "([], show_all, some_out)"]
  by simp

definition empty_reader :: proc_reader where
  "empty_reader = (demo_reader None) \<lparr> rd_fs := (demo_fs None) \<lparr> fs_dir := (\<lambda>d. if d = ''/proc'' then Some [] else None) \<rparr> \<rparr>"

theorem after_loose_run_witness:
  "\<exists>t s. fancy_spew 0 some_out_env (proc_dir empty_reader) (no_needs \<lparr> needs_for_threads := PROC_LOOSE_TASKS \<rparr>) (show_all, some_out) =
     Val (t, s) \<and> t = [] \<and> s = (show_all, some_out)"
proof -
  let ?d = "no_needs \<lparr> needs_for_threads := PROC_LOOSE_TASKS \<rparr>"
  have flags: "has (needs_for_threads ?d) PROC_LOOSE_TASKS" "\<not> has (thread_flags show_all) TF_loose_tasks"
    by (simp_all add: has_def show_all_def)
  have open_none: "openproc (rd_fs empty_reader) (open_flags ?d) [] [] = Some (scan_of (open_flags ?d) [])"
    by (simp add: openproc_def scan_of_def empty_reader_def open_flags_def no_needs_def needs_for_select_def has_def)
  have "readproc_loop empty_reader (scan_of (open_flags ?d) []) blank_proc = Val (scan_of (open_flags ?d) [], None)"
    by (subst readproc_loop.simps)
      (simp add: finder_def scan_of_def simple_nextpid_def open_flags_def no_needs_def needs_for_select_def has_def)
  then have "table_procs empty_reader want wt (scan_of (open_flags ?d) []) 0 0 = Val ([], [])" for want wt
    by (subst table_procs.simps) (simp add: readproc_def scan_of_def)
  then have "fancy_spew 0 some_out_env (proc_dir empty_reader) ?d (show_all, some_out) = Val ([], show_all, some_out)"
    using flags(2) by (simp add: fancy_spew_def proc_dir_def open_none readproctab2_def Let_def)
  then show ?thesis using after_loose_run [OF flags] by blast
qed

theorem hash_perfect_witness:
  "take 3 (''Pid:'' @ [TAB, CHR ''7'']) = ''Pid'' \<and> ''Pid'' \<noteq> [] \<longleftrightarrow> take 3 (''Pid:'' @ [TAB, CHR ''7'']) \<in> set status_names"
proof -
  have "status_entry (''Pid:'' @ [TAB, CHR ''7'']) = Val ''Pid''" by code_simp
  from hash_perfect [OF _ this] show ?thesis by simp
qed

theorem vector_read_witness:
  "file2strvec \<lparr> fs_file = (\<lambda>f. Some (joined [''sh'', ''-c''], False)), fs_stat = (\<lambda>f. None), fs_dir = (\<lambda>d. None) \<rparr>
     ''/proc/7'' ''cmdline'' = Some [''sh'', ''-c'']"
  using vector_read [of "\<lparr> fs_file = (\<lambda>f. Some (joined [''sh'', ''-c''], False)), fs_stat = (\<lambda>f. None), fs_dir = (\<lambda>d. None) \<rparr>"
      "''/proc/7''" "''cmdline''" "[''sh'', ''-c'']"]
  by (simp add: joined_def is_cstring_def)

end
