(* ===== verification/Ioconf.thy ===== *)
theory Ioconf
  imports Sysstat
begin

text \<open>
  The \<open>sysstat-lite\<close> module, names of block devices: \<open>ioconf.c\<close>. \<open>ioc_init\<close> reads a table of major
  numbers from a file and cooks format strings, \<open>ioc_name\<close> makes the name of a device of its numbers.
  The static tables are the record \<open>ioc_state\<close>; the \<open>blk_config\<close>s that entries share through a pointer
  are in a store, an entry has the index. What goes to \<open>stderr\<close> is not modelled, nor is a failing
  \<open>malloc\<close> (\<open>ioc_free\<close>).
\<close>

unbundle bit_operations_syntax

subsection \<open>Numbers as strings\<close>

function conv_loop :: "nat \<Rightarrow> bool \<Rightarrow> string \<Rightarrow> nat \<Rightarrow> string" where
  "conv_loop radix nozero syms val =
     (if val = 0 \<or> radix < 2 then []
      else (let j = val mod radix; q = val div radix
            in conv_loop radix nozero syms (if nozero \<and> j = 0 then q - 1 else q) @ [syms ! j]))"
  by pat_completeness auto
termination
proof (relation "measure (\<lambda>(r, z, s, v). v)")
  fix radix val j q :: nat and nozero :: bool and syms :: string
  assume v: "\<not> (val = 0 \<or> radix < 2)" "q = val div radix"
  then have "val div radix < val" by simp
  with v show "((radix, nozero, syms, if nozero \<and> j = 0 then q - 1 else q), radix, nozero, syms, val)
    \<in> measure (\<lambda>(r, z, s, v). v)" by auto
qed simp

declare conv_loop.simps [simp del]

text \<open>\<open>val += nozero\<close> is an \<open>unsigned int\<close> addition.\<close>

definition ioc_conv :: "nat \<Rightarrow> bool \<Rightarrow> string \<Rightarrow> u32 \<Rightarrow> string" where
  "ioc_conv radix nozero syms val =
     (let v = val + (if nozero then 1 else 0)
      in if v = 0 then (if nozero then [] else ''0'') else conv_loop radix nozero syms (unat v))"

definition ioc_ito10 :: "u32 \<Rightarrow> string" where
  "ioc_ito10 n = ioc_conv 10 False ''0123456789'' n"

definition ioc_ito26 :: "u32 \<Rightarrow> string" where
  "ioc_ito26 n = ioc_conv 26 True ''zabcdefghijklmnopqrstuvwxy'' n"

subsection \<open>The table\<close>

text \<open>The function pointer \<open>cconv\<close>.\<close>

datatype unit_conv = NoConv | Ito10 | Ito26

record blk_config =
  bk_name :: string
  bk_cfmt :: string
  bk_dfmt :: string
  bk_pfmt :: string
  bk_ctrl_explicit :: bool
  bk_dcount :: u32
  bk_pcount :: u32
  bk_desc :: string
  bk_cconv :: unit_conv
  bk_ext_name :: string
  bk_ext :: bool
  bk_ext_minor :: u32

record ioc_entry =
  ie_live :: bool
  ie_ctrlno :: u32
  ie_basemajor :: nat
  ie_desc :: "string option"
  ie_blkp :: nat

record ioc_state =
  ioc_parsed :: bool
  ioconf :: "nat \<Rightarrow> ioc_entry option"
  ioc_refnr :: "nat \<Rightarrow> u32"
  ioc_blks :: "blk_config list"

definition ioc_start :: ioc_state where
  "ioc_start = \<lparr> ioc_parsed = False, ioconf = (\<lambda>_. None), ioc_refnr = (\<lambda>_. 0), ioc_blks = [] \<rparr>"

definition MAX_BLKDEV :: nat where
  "MAX_BLKDEV = 255"

subsection \<open>Lines\<close>

definition lit :: "char \<Rightarrow> string \<Rightarrow> string option" where
  "lit c s = (if s \<noteq> [] \<and> hd s = c then Some (tl s) else None)"

text \<open>\<open>%s\<close> and \<open>%[^:]\<close> into an array of \<open>n\<close> bytes.\<close>

definition scan_str :: "nat \<Rightarrow> string \<Rightarrow> (string \<times> string) option outcome" where
  "scan_str n s =
     (let s = dropWhile c_isspace s; w = takeWhile (\<lambda>c. \<not> c_isspace c) s
      in if w = [] then Val None
         else if n \<le> length w then Undef OutOfBounds
         else Val (Some (w, dropWhile (\<lambda>c. \<not> c_isspace c) s)))"

definition scan_field :: "nat \<Rightarrow> string \<Rightarrow> (string \<times> string) option outcome" where
  "scan_field n s =
     (let w = takeWhile (\<lambda>c. c \<noteq> CHR '':'') s
      in if w = [] then Val None
         else if n \<le> length w then Undef OutOfBounds
         else Val (Some (w, dropWhile (\<lambda>c. c \<noteq> CHR '':'') s)))"

definition scan_u32 :: "string \<Rightarrow> (u32 \<times> string) option" where
  "scan_u32 s = map_option (\<lambda>(v, r). (ucast v, r)) (scan_uint s)"

text \<open>The next directive of a format, when the one before it succeeded.\<close>

definition scbind :: "'a option outcome \<Rightarrow> ('a \<Rightarrow> 'b option outcome) \<Rightarrow> 'b option outcome" where
  "scbind m f = obind m (\<lambda>x. case x of None \<Rightarrow> Val None | Some y \<Rightarrow> f y)"

lemma scbind_simps [simp]:
  "scbind (Val None) f = Val None" "scbind (Val (Some x)) f = f x" "scbind (Undef u) f = Undef u"
  by (simp_all add: scbind_def)

text \<open>\<open>"%u:%u:%u:%s"\<close>, and without the last field when the first scan fails; \<open>desc\<close> has 64 bytes.\<close>

definition indirect_record :: "string \<Rightarrow> (u32 \<times> u32 \<times> u32 \<times> string option) option outcome" where
  "indirect_record buf =
     scbind (Val (scan_u32 buf)) (\<lambda>(major, r). scbind (Val (lit (CHR '':'') r)) (\<lambda>r.
     scbind (Val (scan_u32 r)) (\<lambda>(indirect, r). scbind (Val (lit (CHR '':'') r)) (\<lambda>r.
     scbind (Val (scan_u32 r)) (\<lambda>(ctrlno, r).
       case lit (CHR '':'') r of
         None \<Rightarrow> Val (Some (major, indirect, ctrlno, None))
       | Some r \<Rightarrow> obind (scan_str 64 r) (\<lambda>d. Val (Some (major, indirect, ctrlno, map_option fst d))))))))"

record full_rec =
  fr_major :: u32
  fr_name :: string
  fr_cfmt :: string
  fr_ctrlno :: u32
  fr_dfmt :: string
  fr_dcount :: u32
  fr_pfmt :: string
  fr_pcount :: u32
  fr_desc :: string

text \<open>\<open>"%u:%[^:]:%[^:]:%u:%[^:]:%u:%[^:]:%u:%s"\<close>\<close>

definition full_record :: "string \<Rightarrow> full_rec option outcome" where
  "full_record buf =
     (let colon = (\<lambda>r. Val (lit (CHR '':'') r)) in
     scbind (Val (scan_u32 buf)) (\<lambda>(major, r). scbind (colon r) (\<lambda>r.
     scbind (scan_field 32 r) (\<lambda>(name, r). scbind (colon r) (\<lambda>r.
     scbind (scan_field 16 r) (\<lambda>(cfmt, r). scbind (colon r) (\<lambda>r.
     scbind (Val (scan_u32 r)) (\<lambda>(ctrlno, r). scbind (colon r) (\<lambda>r.
     scbind (scan_field 16 r) (\<lambda>(dfmt, r). scbind (colon r) (\<lambda>r.
     scbind (Val (scan_u32 r)) (\<lambda>(dcount, r). scbind (colon r) (\<lambda>r.
     scbind (scan_field 16 r) (\<lambda>(pfmt, r). scbind (colon r) (\<lambda>r.
     scbind (Val (scan_u32 r)) (\<lambda>(pcount, r). scbind (colon r) (\<lambda>r.
     scbind (scan_str 64 r) (\<lambda>(desc, r).
       Val (Some \<lparr> fr_major = major, fr_name = name, fr_cfmt = cfmt, fr_ctrlno = ctrlno, fr_dfmt = dfmt,
                   fr_dcount = dcount, fr_pfmt = pfmt, fr_pcount = pcount, fr_desc = desc \<rparr>)))))))))))))))))))"

definition add_indirect :: "u32 \<times> u32 \<times> u32 \<times> string option \<Rightarrow> ioc_state \<Rightarrow> ioc_state" where
  "add_indirect r st =
     (case r of (major, indirect, ctrlno, desc) \<Rightarrow>
        if indirect = 0 \<or> MAX_BLKDEV < unat indirect \<or> MAX_BLKDEV < unat major then st
        else (case ioconf st (unat indirect) of
                None \<Rightarrow> st
              | Some e \<Rightarrow>
                  st \<lparr> ioc_refnr := (ioc_refnr st)(unat indirect := ioc_refnr st (unat indirect) + 1),
                       ioconf := (ioconf st)(unat major := Some
                         \<lparr> ie_live = False, ie_ctrlno = ctrlno, ie_basemajor = unat indirect,
                           ie_desc = (case desc of None \<Rightarrow> Some (bk_desc (ioc_blks st ! ie_blkp e)) | Some d \<Rightarrow> Some d),
                           ie_blkp = ie_blkp e \<rparr>) \<rparr>))"

text \<open>A record of type \<open>x\<close> decorates the \<open>blk_config\<close> of its major number, once.\<close>

definition add_exception :: "full_rec \<Rightarrow> ioc_state \<Rightarrow> ioc_state" where
  "add_exception r st =
     (case ioconf st (unat (fr_major r)) of
        None \<Rightarrow> st
      | Some e \<Rightarrow>
          (let b = ioc_blks st ! ie_blkp e
           in if bk_ext b then st
              else st \<lparr> ioc_blks := (ioc_blks st)[ie_blkp e :=
                     b \<lparr> bk_ext_minor := fr_ctrlno r, bk_ext_name := fr_name r, bk_ext := True \<rparr>] \<rparr>))"

text \<open>The format strings, each in an array of 16 bytes.\<close>

definition fits16 :: "string \<Rightarrow> string outcome" where
  "fits16 s = (if 16 \<le> length s then Undef OutOfBounds else Val s)"

definition cook :: "full_rec \<Rightarrow> blk_config outcome" where
  "cook r =
     (let star = (hd (fr_cfmt r) = CHR ''*''); d = hd (fr_dfmt r)
      in obind (if star then Val (take 15 (fr_name r)) else fits16 (fr_name r @ fr_cfmt r @ ''%d'')) (\<lambda>cfmt.
         obind (if d = CHR ''a'' then Val (''%s'', Ito26)
                else if d = CHR ''%'' then obind (fits16 (take 15 (tl (fr_dfmt r)) @ ''%s'')) (\<lambda>s. Val (s, Ito10))
                else if d = CHR ''d'' then Val (''%s'', Ito10)
                else Val ([], NoConv)) (\<lambda>(dfmt, cconv).
         obind (fits16 ((if hd (fr_pfmt r) = CHR ''*'' then [] else fr_pfmt r) @ ''%d'')) (\<lambda>pfmt.
           Val \<lparr> bk_name = fr_name r, bk_cfmt = cfmt, bk_dfmt = dfmt, bk_pfmt = pfmt, bk_ctrl_explicit = (\<not> star),
                 bk_dcount = fr_dcount r, bk_pcount = fr_pcount r, bk_desc = fr_desc r, bk_cconv = cconv,
                 bk_ext_name = [], bk_ext = False, bk_ext_minor = 0 \<rparr>))))"

definition add_direct :: "full_rec \<Rightarrow> ioc_state \<Rightarrow> ioc_state outcome" where
  "add_direct r st =
     obind (cook r) (\<lambda>b.
       Val (st \<lparr> ioconf := (ioconf st)(unat (fr_major r) := Some
                   \<lparr> ie_live = True, ie_ctrlno = fr_ctrlno r, ie_basemajor = unat (fr_major r), ie_desc = None,
                     ie_blkp = length (ioc_blks st) \<rparr>),
                 ioc_blks := ioc_blks st @ [b] \<rparr>))"

definition ioc_line :: "string \<Rightarrow> ioc_state \<times> nat \<Rightarrow> (ioc_state \<times> nat) outcome" where
  "ioc_line buf s =
     (case s of (st, count) \<Rightarrow>
        if buf \<noteq> [] \<and> (hd buf = CHR ''#'' \<or> hd buf = LF) then Val (st, count)
        else obind (indirect_record buf) (\<lambda>i.
          case i of
            Some r \<Rightarrow> Val (add_indirect r st, count)
          | None \<Rightarrow>
              obind (full_record buf) (\<lambda>f.
                case f of
                  None \<Rightarrow> Val (st, count)
                | Some r \<Rightarrow>
                    if fr_major r = 0 \<or> MAX_BLKDEV \<le> unat (fr_major r) then Val (st, count)
                    else if hd (fr_cfmt r) = CHR ''x'' then Val (add_exception r st, count)
                    else obind (add_direct r st) (\<lambda>st. Val (st, Suc count)))))"

fun ioc_lines :: "string list \<Rightarrow> ioc_state \<times> nat \<Rightarrow> (ioc_state \<times> nat) outcome" where
  "ioc_lines [] s = Val s"
| "ioc_lines (l # ls) s = obind (ioc_line l s) (ioc_lines ls)"

text \<open>The argument is the first of the two files that can be opened; the second result is the count returned.\<close>

definition ioc_init :: "string option \<Rightarrow> ioc_state \<Rightarrow> (ioc_state \<times> nat) outcome" where
  "ioc_init conf_file st =
     (case conf_file of
        None \<Rightarrow> Val (st, 0)
      | Some s \<Rightarrow> obind (ioc_lines (fgets_lines 255 s) (st \<lparr> ioc_refnr := (\<lambda>_. 0) \<rparr>, 0)) (\<lambda>(st, count).
          Val (st \<lparr> ioc_parsed := True \<rparr>, count)))"

subsection \<open>Names\<close>

text \<open>
  \<open>sprintf\<close> with a format that was read from the file: each argument is given with the directive it is
  for; a directive without its argument uses an indeterminate value.
\<close>

fun c_printf :: "(char \<times> string) list \<Rightarrow> string \<Rightarrow> string outcome" where
  "c_printf args [] = Val []"
| "c_printf args (c # fmt) =
     (if c \<noteq> CHR ''%'' then obind (c_printf args fmt) (\<lambda>s. Val (c # s))
      else case fmt of
             [] \<Rightarrow> Undef Uninitialised
           | d # fmt' \<Rightarrow>
               if d = CHR ''%'' then obind (c_printf args fmt') (\<lambda>s. Val (CHR ''%'' # s))
               else (case args of
                       [] \<Rightarrow> Undef Uninitialised
                     | (k, a) # args' \<Rightarrow>
                         if k = d then obind (c_printf args' fmt') (\<lambda>s. Val (a @ s)) else Undef Uninitialised))"

definition K_NODEV :: string where
  "K_NODEV = ''nodev''"

definition ioc_parse :: "string option \<Rightarrow> ioc_state \<Rightarrow> (ioc_state \<times> bool) outcome" where
  "ioc_parse conf_file st =
     (if ioc_parsed st then Val (st, True) else obind (ioc_init conf_file st) (\<lambda>(st, n). Val (st, n \<noteq> 0)))"

definition show_d :: "u32 \<Rightarrow> string" where
  "show_d w = dec_of_int (sint w)"

definition unit_name :: "unit_conv \<Rightarrow> u32 \<Rightarrow> string outcome" where
  "unit_name k n = (case k of NoConv \<Rightarrow> Undef NullDeref | Ito10 \<Rightarrow> Val (ioc_ito10 n) | Ito26 \<Rightarrow> Val (ioc_ito26 n))"

text \<open>\<open>base\<close> and \<open>offset\<close> are \<open>int\<close>s; the name is assembled in 48 bytes.\<close>

definition disk_offset :: "ioc_state \<Rightarrow> ioc_entry \<Rightarrow> blk_config \<Rightarrow> u32 \<Rightarrow> u32 outcome" where
  "disk_offset st p b minor =
     (let base = ie_ctrlno p * bk_dcount b;
          base = (if 256 \<le> minor
                  then base + bk_dcount b * (ioc_refnr st (ie_basemajor p) + 1) * drop_bit 8 minor else base);
          offset = (minor AND 0xff) div bk_pcount b
      in if bk_ctrl_explicit b then Val offset
         else if sint offset + sint base \<notin> {- (2 ^ 31)..<2 ^ 31} then Undef IntOverflow
         else Val (offset + base))"

definition device_text :: "ioc_state \<Rightarrow> ioc_entry \<Rightarrow> blk_config \<Rightarrow> u32 \<Rightarrow> string outcome" where
  "device_text st p b minor =
     obind (disk_offset st p b minor) (\<lambda>offset.
     obind (c_printf [(CHR ''d'', show_d (ie_ctrlno p))] (bk_cfmt b)) (\<lambda>n1.
     obind (unit_name (bk_cconv b) offset) (\<lambda>u.
     obind (c_printf [(CHR ''s'', u)] (bk_dfmt b)) (\<lambda>n2.
     obind (if minor mod bk_pcount b = 0 then Val []
            else c_printf [(CHR ''d'', show_d (minor mod bk_pcount b))] (bk_pfmt b)) (\<lambda>n3.
       if 48 \<le> length (n1 @ n2 @ n3) then Undef OutOfBounds else Val (n1 @ n2 @ n3))))))"

definition ioc_name :: "string option \<Rightarrow> u32 \<Rightarrow> u32 \<Rightarrow> ioc_state \<Rightarrow> (string option \<times> ioc_state) outcome" where
  "ioc_name conf_file major minor st =
     (if MAX_BLKDEV \<le> unat major \<or> 2047 \<le> minor then Val (None, st)
      else obind (ioc_parse conf_file st) (\<lambda>(st, ok).
        if \<not> ok then Val (None, st)
        else case ioconf st (unat major) of
               None \<Rightarrow> Val (Some K_NODEV, st)
             | Some p \<Rightarrow>
                 (let b = ioc_blks st ! ie_blkp p
                  in if bk_dcount b * bk_pcount b \<le> minor AND 0xff then Val (Some K_NODEV, st)
                     else if bk_ext b \<and> bk_ext_minor b = minor then Val (Some (bk_ext_name b), st)
                     else obind (device_text st p b minor) (\<lambda>s. Val (Some s, st)))))"

text \<open>\<open>IS_WHOLE\<close> divides by the number of partitions, which the file may give as 0.\<close>

definition ioc_iswhole :: "string option \<Rightarrow> u32 \<Rightarrow> u32 \<Rightarrow> ioc_state \<Rightarrow> (bool \<times> ioc_state) outcome" where
  "ioc_iswhole conf_file major minor st =
     obind (ioc_parse conf_file st) (\<lambda>(st, ok).
       if \<not> ok \<or> MAX_BLKDEV \<le> unat major then Val (False, st)
       else case ioconf st (unat major) of
              None \<Rightarrow> Val (False, st)
            | Some p \<Rightarrow>
                if bk_pcount (ioc_blks st ! ie_blkp p) = 0 then Undef IntOverflow
                else Val (minor mod bk_pcount (ioc_blks st ! ie_blkp p) = 0, st))"

text \<open>
  \<open>transform_devmapname\<close>: the entries of \<open>/dev/mapper\<close>, and the device numbers \<open>stat\<close> finds at a path.
  A directory that cannot be opened ends the process.
\<close>

definition transform_devmapname ::
  "string list option \<Rightarrow> (string \<Rightarrow> (u32 \<times> u32) option) \<Rightarrow> u32 \<Rightarrow> u32 \<Rightarrow> string option outcome" where
  "transform_devmapname dir stat_dev major minor =
     (case dir of
        None \<Rightarrow> Undef Exits
      | Some es \<Rightarrow> Val (map_option (take 127)
          (List.find (\<lambda>e. stat_dev (take 255 (''/dev/mapper'' @ ''/'' @ e)) = Some (major, minor)) es)))"

subsection \<open>Names of units\<close>

lemma conv_loop_dec: "0 < v \<Longrightarrow> conv_loop 10 False ''0123456789'' v = dec_of_nat v"
proof (induction v rule: less_induct)
  case (less v)
  have "\<forall>i\<in>set [0..<10]. byte (''0123456789'' ! i) = 48 + i" by (simp add: upt_rec byte_def)
  then have "byte (''0123456789'' ! (v mod 10)) = 48 + v mod 10" by simp
  then have d: "''0123456789'' ! (v mod 10) = dec_digit (v mod 10)"
    unfolding dec_digit_def by (metis char_of_byte)
  show ?case
  proof (cases "v < 10")
    case True
    with less.prems d show ?thesis
      by (subst conv_loop.simps) (simp add: conv_loop.simps [of _ _ _ 0] dec_of_nat.simps [of v])
  next
    case False
    then have "conv_loop 10 False ''0123456789'' v =
        conv_loop 10 False ''0123456789'' (v div 10) @ [''0123456789'' ! (v mod 10)]"
      by (subst conv_loop.simps) (simp add: Let_def del: nth_Cons_numeral)
    moreover have "conv_loop 10 False ''0123456789'' (v div 10) = dec_of_nat (v div 10)"
      using False by (intro less.IH) auto
    ultimately show ?thesis using False d by (simp only: dec_of_nat.simps [of v]) simp
  qed
qed

text \<open>The value of a string of letters in the system without a zero: \<open>a\<close> is 1, \<open>z\<close> is 26, \<open>aa\<close> is 27.\<close>

definition letters_value :: "string \<Rightarrow> nat" where
  "letters_value s = foldl (\<lambda>n c. 26 * n + (byte c - 96)) 0 s"

definition lower :: "char \<Rightarrow> bool" where
  "lower c \<longleftrightarrow> 97 \<le> byte c \<and> byte c \<le> 122"

lemma letters_value_snoc: "letters_value (s @ [c]) = 26 * letters_value s + (byte c - 96)"
  by (simp add: letters_value_def)

abbreviation letter_syms :: string where
  "letter_syms \<equiv> ''zabcdefghijklmnopqrstuvwxy''"

lemma letter_sym:
  assumes "i < 26"
  shows "byte (letter_syms ! i) - 96 = (if i = 0 then 26 else i) \<and> lower (letter_syms ! i)"
proof -
  have "\<forall>i\<in>set [0..<26]. byte (letter_syms ! i) - 96 = (if i = 0 then 26 else i) \<and> lower (letter_syms ! i)"
    by (simp add: upt_rec byte_def lower_def)
  with assms show ?thesis by simp
qed

lemma conv_loop_26:
  "letters_value (conv_loop 26 True letter_syms v) = v \<and> list_all lower (conv_loop 26 True letter_syms v)"
proof (induction v rule: less_induct)
  case (less v)
  define syms where "syms = letter_syms"
  show ?case
  proof (cases "v = 0")
    case False
    define q where "q = (if v mod 26 = 0 then v div 26 - 1 else v div 26)"
    have q: "q < v" using False by (auto simp: q_def)
    have c: "byte (syms ! (v mod 26)) - 96 = (if v mod 26 = 0 then 26 else v mod 26)" "lower (syms ! (v mod 26))"
      using letter_sym [of "v mod 26"] by (simp_all only: syms_def mod_less_divisor zero_less_numeral simp_thms)
    have "conv_loop 26 True syms v = conv_loop 26 True syms q @ [syms ! (v mod 26)]"
      using False by (subst conv_loop.simps) (simp add: Let_def q_def)
    moreover have "26 * q + (if v mod 26 = 0 then 26 else v mod 26) = v"
      using False by (auto simp: q_def)
    ultimately show ?thesis using less.IH [OF q] c
      by (simp only: syms_def [symmetric]) (simp add: letters_value_snoc)
  qed (simp add: conv_loop.simps letters_value_def)
qed

lemma dec_0 [simp]: "dec_of_nat 0 = ''0''"
proof -
  have "dec_digit 0 = CHR ''0''" using char_of_byte [of "CHR ''0''"] unfolding dec_digit_def by (simp add: byte_def)
  then show ?thesis by (subst dec_of_nat.simps) simp
qed

lemma ioc_ito10_dec: "ioc_ito10 n = dec_of_nat (unat n)"
proof (cases "n = 0")
  case False
  then have "0 < unat n" by (simp add: unat_gt_0)
  with False show ?thesis by (simp add: ioc_ito10_def ioc_conv_def conv_loop_dec)
next
  case True
  with True show ?thesis by (simp add: ioc_ito10_def ioc_conv_def)
qed

definition letters :: "nat \<Rightarrow> string" where
  "letters n = conv_loop 26 True letter_syms (Suc n)"

lemma ioc_ito26_letters:
  assumes "n < 2 ^ 32 - 1"
  shows "ioc_ito26 (of_nat n) = letters n"
proof -
  have "unat (of_nat (Suc n) :: u32) = Suc n" using assms by (simp only: unsigned_of_nat of_nat_id) (simp add: take_bit_nat_eq_self)
  then have "unat (of_nat n + 1 :: u32) = Suc n" by (simp add: add.commute)
  moreover from this have "(of_nat n + 1 :: u32) \<noteq> 0" by (metis unat_0 nat.simps(3))
  ultimately show ?thesis by (simp only: ioc_ito26_def ioc_conv_def letters_def Let_def if_True if_False)
qed

lemma letters_props: "letters_value (letters n) = Suc n" "c \<in> set (letters n) \<Longrightarrow> lower c"
  using conv_loop_26 [of "Suc n"] by (simp_all add: letters_def list_all_iff)

text \<open>The name of a disk is letters, that of a partition has its number too.\<close>

definition disk_name :: "string \<Rightarrow> nat \<Rightarrow> nat \<Rightarrow> string" where
  "disk_name nm unit part = nm @ letters unit @ (if part = 0 then [] else dec_of_nat part)"

lemma disk_name_inject:
  assumes "disk_name nm u p = disk_name nm u' p'"
  shows "u = u' \<and> p = p'"
proof -
  define tail where "tail = (\<lambda>p. if p = 0 then [] else dec_of_nat p)"
  have eq: "letters u @ tail p = letters u' @ tail p'" using assms by (simp add: disk_name_def tail_def)
  have digit: "c_isdigit c \<Longrightarrow> \<not> lower c" for c by (simp add: c_isdigit_def lower_def)
  have t: "\<forall>c\<in>set (tail p). \<not> lower c" for p
    using digit dec_of_nat_digits [of p] by (auto simp: tail_def)
  have split: "takeWhile lower (letters u @ tail p) = letters u \<and> dropWhile lower (letters u @ tail p) = tail p" for u p
  proof -
    have "list_all lower (letters u)" using letters_props(2) by (auto simp: list_all_iff)
    moreover have "takeWhile lower (tail p) = []" "dropWhile lower (tail p) = tail p"
      using t [of p] by (cases "tail p"; simp)+
    ultimately show ?thesis by (simp add: list_all_iff takeWhile_append dropWhile_append)
  qed
  have lt: "letters u = letters u'"
    using conjunct1 [OF split [of u p]] unfolding eq conjunct1 [OF split [of u' p']] by (rule sym)
  have tl: "tail p = tail p'"
    using conjunct2 [OF split [of u p]] unfolding eq conjunct2 [OF split [of u' p']] by (rule sym)
  have "Suc u = Suc u'"
    using letters_props(1) [of u, symmetric] letters_props(1) [of u'] unfolding lt by (rule trans)
  then have "u = u'" by (rule Suc_inject)
  moreover have "p = p'"
  proof -
    have "tail p \<noteq> []" if "p \<noteq> 0" for p using that by (simp add: tail_def)
    moreover have "dec_value 0 (tail p) = p" for p by (simp add: tail_def)
    ultimately show ?thesis using tl by metis
  qed
  ultimately show ?thesis by simp
qed

subsection \<open>A family of majors\<close>

text \<open>
  The lines of the file for a driver with several major numbers: a record for the first, of \<open>units\<close>
  disks with \<open>parts\<close> minors each, and records that refer to it for the others.
\<close>

definition direct_line :: "nat \<Rightarrow> string \<Rightarrow> nat \<Rightarrow> nat \<Rightarrow> string \<Rightarrow> string" where
  "direct_line major nm units parts desc =
     dec_of_nat major @ '':'' @ nm @ '':*:0:a:'' @ dec_of_nat units @ '':*:'' @ dec_of_nat parts @ '':'' @ desc"

definition indirect_line :: "nat \<Rightarrow> nat \<times> nat \<Rightarrow> string" where
  "indirect_line base mk = (case mk of (major, k) \<Rightarrow>
     dec_of_nat major @ '':'' @ dec_of_nat base @ '':'' @ dec_of_nat k)"

definition family_file :: "nat list \<Rightarrow> string \<Rightarrow> nat \<Rightarrow> nat \<Rightarrow> string \<Rightarrow> string" where
  "family_file majors nm units parts desc =
     concat (map (\<lambda>l. l @ [LF]) (direct_line (hd majors) nm units parts desc #
       map (indirect_line (hd majors)) (zip (tl majors) [1..<length majors])))"

text \<open>A name or a description as one field of a line.\<close>

definition field_ok :: "nat \<Rightarrow> string \<Rightarrow> bool" where
  "field_ok n s \<longleftrightarrow> s \<noteq> [] \<and> length s \<le> n \<and>
     list_all (\<lambda>c. \<not> c_isspace c \<and> c \<noteq> CHR '':'' \<and> c \<noteq> CHR ''%'' \<and> c \<noteq> NUL) s"

definition family_ok :: "nat list \<Rightarrow> string \<Rightarrow> nat \<Rightarrow> nat \<Rightarrow> string \<Rightarrow> bool" where
  "family_ok majors nm units parts desc \<longleftrightarrow>
     majors \<noteq> [] \<and> distinct majors \<and> list_all (\<lambda>m. 0 < m \<and> m < 255) majors \<and>
     field_ok 15 nm \<and> \<not> starts_digit nm \<and> hd nm \<noteq> CHR ''-'' \<and> hd nm \<noteq> CHR ''+'' \<and> field_ok 63 desc \<and>
     0 < units \<and> 0 < parts \<and> units * parts \<le> 256"

lemma scan_u32_dec [simp]: "\<not> starts_digit rest \<Longrightarrow> n < 2 ^ 64 \<Longrightarrow> scan_u32 (dec_of_nat n @ rest) = Some (of_nat n, rest)"
  by (simp add: scan_u32_def unsigned_of_nat take_bit_nat_eq_self)

lemma lit_simps [simp]: "lit c (d # s) = (if c = d then Some s else None)" "lit c [] = None"
  by (auto simp: lit_def)

lemma scan_field_ok [simp]:
  assumes "field_ok k s" "k < n"
  shows "scan_field n (s @ CHR '':'' # rest) = Val (Some (s, CHR '':'' # rest))"
proof -
  have "takeWhile (\<lambda>c. c \<noteq> CHR '':'') (s @ CHR '':'' # rest) = s"
    "dropWhile (\<lambda>c. c \<noteq> CHR '':'') (s @ CHR '':'' # rest) = CHR '':'' # rest"
    using assms by (intro takeWhile_append_stop dropWhile_append_stop; auto simp: field_ok_def list_all_iff)+
  with assms show ?thesis by (auto simp: scan_field_def field_ok_def)
qed

lemma scan_str_ok [simp]:
  assumes "field_ok k s" "k < n"
  shows "scan_str n (s @ [LF]) = Val (Some (s, [LF]))"
proof -
  have sp: "c_isspace LF" by (simp add: c_isspace_def byte_def)
  have "takeWhile (\<lambda>c. \<not> c_isspace c) (s @ [LF]) = s" "dropWhile (\<lambda>c. \<not> c_isspace c) (s @ [LF]) = [LF]"
    using assms sp by (intro takeWhile_append_stop dropWhile_append_stop; auto simp: field_ok_def list_all_iff)+
  moreover have "dropWhile c_isspace (s @ [LF]) = s @ [LF]"
    using assms by (cases s) (auto simp: field_ok_def)
  ultimately show ?thesis using assms by (auto simp: scan_str_def field_ok_def)
qed

lemma scan_u32_0 [simp]: "\<not> starts_digit r \<Longrightarrow> scan_u32 (CHR ''0'' # r) = Some (0, r)"
  using scan_u32_dec [of r 0] by simp

lemma scan_u32_name:
  assumes "field_ok k s" "\<not> starts_digit s" "hd s \<noteq> CHR ''-''" "hd s \<noteq> CHR ''+''"
  shows "scan_u32 (s @ r) = None"
  using assms by (cases s) (auto simp: scan_u32_def scan_uint_def field_ok_def)

lemma colon_not_digit [simp]: "\<not> c_isdigit (CHR '':'')"
  by (simp add: c_isdigit_def byte_def)

lemma indirect_line_read:
  assumes "m < 255" "b < 255" "k < 255"
  shows "indirect_record (indirect_line b (m, k) @ [LF]) = Val (Some (of_nat m, of_nat b, of_nat k, None))"
  using assms by (simp add: indirect_record_def indirect_line_def)

lemma family_bounds:
  assumes "family_ok majors nm units parts desc"
  shows "units \<le> 256" "parts \<le> 256" "length majors < 255"
proof -
  have le: "units * parts \<le> 256" "units \<le> units * parts" "parts \<le> units * parts"
    using assms by (auto simp: family_ok_def)
  show "units \<le> 256" "parts \<le> 256" using le(1) le(2,3) by linarith+
  have "set majors \<subseteq> {1..<255}" "distinct majors" using assms by (auto simp: family_ok_def list_all_iff)
  then have "card (set majors) \<le> card {1..<255::nat}" by (intro card_mono) auto
  then show "length majors < 255" using \<open>distinct majors\<close> by (simp add: distinct_card)
qed

lemma direct_line_read:
  assumes "family_ok majors nm units parts desc"
  shows "indirect_record (direct_line (hd majors) nm units parts desc @ [LF]) = Val None"
    "full_record (direct_line (hd majors) nm units parts desc @ [LF]) =
       Val (Some \<lparr> fr_major = of_nat (hd majors), fr_name = nm, fr_cfmt = ''*'', fr_ctrlno = 0, fr_dfmt = ''a'',
         fr_dcount = of_nat units, fr_pfmt = ''*'', fr_pcount = of_nat parts, fr_desc = desc \<rparr>)"
proof -
  have m: "hd majors < 2 ^ 64" using assms by (cases majors) (auto simp: family_ok_def)
  have up: "units < 2 ^ 64" "parts < 2 ^ 64" using family_bounds [OF assms] by simp_all
  have nm: "field_ok 15 nm" "scan_u32 (nm @ r) = None" for r
    using assms scan_u32_name by (auto simp: family_ok_def)
  have desc: "field_ok 63 desc" using assms by (simp add: family_ok_def)
  have a: "field_ok 1 ''*''" "field_ok 1 ''a''" by (simp_all add: field_ok_def c_isspace_def byte_def)
  have star: "scan_field 16 (CHR ''*'' # CHR '':'' # r) = Val (Some (''*'', CHR '':'' # r))"
    "scan_field 16 (CHR ''a'' # CHR '':'' # r) = Val (Some (''a'', CHR '':'' # r))" for r
    using scan_field_ok [OF a(1), of 16 r] scan_field_ok [OF a(2), of 16 r] by simp_all
  show "indirect_record (direct_line (hd majors) nm units parts desc @ [LF]) = Val None"
    using m nm by (simp add: indirect_record_def direct_line_def)
  have "scan_str 64 (desc @ [LF]) = Val (Some (desc, [LF]))"
    using desc by (rule scan_str_ok) simp
  moreover have "scan_field 32 (nm @ CHR '':'' # r) = Val (Some (nm, CHR '':'' # r))" for r
    using nm(1) by (rule scan_field_ok) simp
  ultimately show "full_record (direct_line (hd majors) nm units parts desc @ [LF]) =
       Val (Some \<lparr> fr_major = of_nat (hd majors), fr_name = nm, fr_cfmt = ''*'', fr_ctrlno = 0, fr_dfmt = ''a'',
         fr_dcount = of_nat units, fr_pfmt = ''*'', fr_pcount = of_nat parts, fr_desc = desc \<rparr>)"
    using m up star by (simp add: full_record_def direct_line_def)
qed

text \<open>What the records of the family make of the table.\<close>

definition family_blk :: "string \<Rightarrow> nat \<Rightarrow> nat \<Rightarrow> string \<Rightarrow> blk_config" where
  "family_blk nm units parts desc =
     \<lparr> bk_name = nm, bk_cfmt = nm, bk_dfmt = ''%s'', bk_pfmt = ''%d'', bk_ctrl_explicit = False,
       bk_dcount = of_nat units, bk_pcount = of_nat parts, bk_desc = desc, bk_cconv = Ito26,
       bk_ext_name = [], bk_ext = False, bk_ext_minor = 0 \<rparr>"

definition member_of :: "nat \<Rightarrow> nat \<Rightarrow> ioc_entry option \<Rightarrow> bool" where
  "member_of b k e \<longleftrightarrow> (\<exists>p. e = Some p \<and> ie_ctrlno p = of_nat k \<and> ie_basemajor p = b \<and> ie_blkp p = 0)"

lemma hd_dec_digit: "c_isdigit (hd (dec_of_nat n))"
  using dec_of_nat_digits [of n] by simp

lemma direct_line_step:
  assumes "family_ok majors nm units parts desc"
  shows "\<exists>st. ioc_line (direct_line (hd majors) nm units parts desc @ [LF]) (ioc_start, 0) = Val (st, 1) \<and>
    ioc_blks st = [family_blk nm units parts desc] \<and> ioc_refnr st = (\<lambda>_. 0) \<and>
    member_of (hd majors) 0 (ioconf st (hd majors))"
proof -
  have m: "hd majors < 255" "0 < hd majors" using assms by (cases majors; auto simp: family_ok_def)+
  then have u: "unat (of_nat (hd majors) :: u32) = hd majors" by (simp add: unsigned_of_nat take_bit_nat_eq_self)
  then have z: "(of_nat (hd majors) :: u32) \<noteq> 0" using m by (metis unat_0 less_irrefl)
  have l: "direct_line (hd majors) nm units parts desc \<noteq> []" by (simp add: direct_line_def)
  have "c_isdigit (hd (dec_of_nat (hd majors)))" by (rule hd_dec_digit)
  then have "hd (direct_line (hd majors) nm units parts desc) \<notin> {CHR ''#'', LF}"
    by (auto simp: direct_line_def c_isdigit_def byte_def)
  moreover have "take 15 nm = nm" using assms by (simp add: family_ok_def field_ok_def)
  ultimately show ?thesis using direct_line_read [OF assms] m u z l
    by (simp add: ioc_line_def MAX_BLKDEV_def add_direct_def cook_def fits16_def ioc_start_def family_blk_def member_of_def)
qed

lemma indirect_lines:
  assumes "ioconf st b = Some e" "ie_blkp e = 0" "0 < b" "b < 255"
    "\<forall>(m, k)\<in>set mks. m < 255 \<and> k < 255 \<and> m \<noteq> b" "distinct (map fst mks)"
  shows "\<exists>st'. ioc_lines (map (\<lambda>l. l @ [LF]) (map (indirect_line b) mks)) (st, n) = Val (st', n) \<and>
    ioc_blks st' = ioc_blks st \<and> ioc_refnr st' b = ioc_refnr st b + of_nat (length mks) \<and>
    (\<forall>m. m \<notin> fst ` set mks \<longrightarrow> ioconf st' m = ioconf st m) \<and>
    (\<forall>(m, k)\<in>set mks. member_of b k (ioconf st' m))"
  using assms
proof (induction mks arbitrary: st)
  case (Cons mk mks)
  obtain m k where mk: "mk = (m, k)" "m < 255" "k < 255" "m \<noteq> b" "m \<notin> fst ` set mks"
    using Cons.prems by (cases mk) auto
  define st1 where "st1 = add_indirect (of_nat m, of_nat b, of_nat k, None) st"
  have u: "unat (of_nat i :: u32) = i" if "i < 255" for i using that by (simp add: unsigned_of_nat take_bit_nat_eq_self)
  have z: "(of_nat b :: u32) \<noteq> 0" using u [of b] Cons.prems(3,4) by (metis unat_0 less_irrefl)
  have st1: "ioc_blks st1 = ioc_blks st" "ioc_refnr st1 b = ioc_refnr st b + 1" "ioconf st1 b = Some e"
    "member_of b k (ioconf st1 m)" "\<And>i. i \<noteq> m \<Longrightarrow> ioconf st1 i = ioconf st i"
    using Cons.prems(1-4) mk u [of m] u [of b] z
    by (simp_all add: st1_def add_indirect_def MAX_BLKDEV_def member_of_def)
  have "c_isdigit (hd (dec_of_nat m))" by (rule hd_dec_digit)
  then have "hd (indirect_line b mk) \<notin> {CHR ''#'', LF}" "indirect_line b mk \<noteq> []"
    by (auto simp: indirect_line_def mk c_isdigit_def byte_def)
  then have "ioc_line (indirect_line b mk @ [LF]) (st, n) = Val (st1, n)"
    using indirect_line_read [OF mk(2) Cons.prems(4) mk(3)] by (simp add: ioc_line_def mk(1) st1_def)
  moreover obtain st' where "ioc_lines (map (\<lambda>l. l @ [LF]) (map (indirect_line b) mks)) (st1, n) = Val (st', n)"
    "ioc_blks st' = ioc_blks st1" "ioc_refnr st' b = ioc_refnr st1 b + of_nat (length mks)"
    "\<forall>m. m \<notin> fst ` set mks \<longrightarrow> ioconf st' m = ioconf st1 m" "\<forall>(m, k)\<in>set mks. member_of b k (ioconf st' m)"
    using Cons.IH [of st1] Cons.prems st1(3) by auto
  ultimately show ?case using st1 mk by auto
qed simp

lemma family_lines_ok:
  assumes "family_ok majors nm units parts desc"
  shows "\<forall>l\<in>set (direct_line (hd majors) nm units parts desc # map (indirect_line (hd majors)) (zip (tl majors) [1..<length majors])).
    LF \<notin> set l \<and> is_cstring l \<and> length l + 2 \<le> 255"
proof -
  have field: "LF \<notin> set s \<and> is_cstring s" if "field_ok k s" for k s
  proof -
    have "c_isspace LF" by (simp add: c_isspace_def byte_def)
    then show ?thesis using that by (auto simp: field_ok_def list_all_iff is_cstring_def)
  qed
  have dig: "LF \<notin> set (dec_of_nat n)" for n using dec_of_nat_digits [of n] by auto
  have len: "length (dec_of_nat n) \<le> 3" if "n < 1000" for n using that by (intro length_dec_of_nat) simp_all
  have hd: "hd majors < 255" using assms by (cases majors) (auto simp: family_ok_def)
  have "length nm \<le> 15" "length desc \<le> 63" using assms by (simp_all add: family_ok_def field_ok_def)
  moreover have "length (dec_of_nat (hd majors)) \<le> 3" "length (dec_of_nat units) \<le> 3" "length (dec_of_nat parts) \<le> 3"
    using hd family_bounds [OF assms] by (auto intro!: len)
  ultimately have "LF \<notin> set (direct_line (hd majors) nm units parts desc) \<and>
      is_cstring (direct_line (hd majors) nm units parts desc) \<and>
      length (direct_line (hd majors) nm units parts desc) + 2 \<le> 255"
    using assms field [of 15 nm] field [of 63 desc] dig by (simp add: direct_line_def family_ok_def)
  moreover have "LF \<notin> set (indirect_line (hd majors) (m, k)) \<and> is_cstring (indirect_line (hd majors) (m, k)) \<and>
      length (indirect_line (hd majors) (m, k)) + 2 \<le> 255"
    if "(m, k) \<in> set (zip (tl majors) [1..<length majors])" for m k
  proof -
    have "m \<in> set (tl majors)" "k < length majors" using set_zip_leftD [OF that] set_zip_rightD [OF that] by auto
    then have "m < 255" "k < 255" using assms family_bounds [OF assms] by (cases majors; auto simp: family_ok_def list_all_iff)+
    then have "length (dec_of_nat m) \<le> 3" "length (dec_of_nat k) \<le> 3" by (auto intro!: len)
    then show ?thesis using dig hd len [of "hd majors"] by (simp add: indirect_line_def)
  qed
  ultimately show ?thesis by auto
qed

lemma family_parsed:
  assumes "family_ok majors nm units parts desc"
  shows "\<exists>st. ioc_init (Some (family_file majors nm units parts desc)) ioc_start = Val (st, 1) \<and> ioc_parsed st \<and>
    ioc_blks st = [family_blk nm units parts desc] \<and>
    ioc_refnr st (hd majors) = of_nat (length majors - 1) \<and>
    (\<forall>k<length majors. member_of (hd majors) k (ioconf st (majors ! k)))"
proof -
  let ?mks = "zip (tl majors) [1..<length majors]"
  obtain b ms where ms: "majors = b # ms" using assms by (cases majors) (auto simp: family_ok_def)
  have len: "length ?mks = length ms" "map fst ?mks = ms" by (simp_all only: ms list.sel length_zip map_fst_zip_take length_upt list.size) simp_all
  obtain st where st: "ioc_line (direct_line b nm units parts desc @ [LF]) (ioc_start, 0) = Val (st, 1)"
    "ioc_blks st = [family_blk nm units parts desc]" "ioc_refnr st = (\<lambda>_. 0)" "member_of b 0 (ioconf st b)"
    using direct_line_step [OF assms] by (auto simp: ms)
  then obtain e where e: "ioconf st b = Some e" "ie_blkp e = 0" by (auto simp: member_of_def)
  have "m < 255 \<and> k < 255 \<and> m \<noteq> b" if "(m, k) \<in> set ?mks" for m k
  proof -
    have "m \<in> set ms" "k < length majors" using set_zip_leftD [OF that] set_zip_rightD [OF that] by (auto simp: ms)
    then show ?thesis using assms family_bounds(3) [OF assms] by (auto simp: family_ok_def ms list_all_iff)
  qed
  then have "\<forall>(m, k)\<in>set ?mks. m < 255 \<and> k < 255 \<and> m \<noteq> b" by blast
  moreover have "0 < b" "b < 255" "distinct (map fst ?mks)" using assms len(2) by (auto simp: family_ok_def ms)
  ultimately obtain st' where st': "ioc_lines (map (\<lambda>l. l @ [LF]) (map (indirect_line b) ?mks)) (st, 1) = Val (st', 1)"
    "ioc_blks st' = ioc_blks st" "ioc_refnr st' b = ioc_refnr st b + of_nat (length ?mks)"
    "\<forall>m. m \<notin> fst ` set ?mks \<longrightarrow> ioconf st' m = ioconf st m" "\<forall>(m, k)\<in>set ?mks. member_of b k (ioconf st' m)"
    using indirect_lines [OF e] by blast
  have "fgets_lines 255 (family_file majors nm units parts desc) =
      map (\<lambda>l. l @ [LF]) (direct_line b nm units parts desc # map (indirect_line b) ?mks)"
    unfolding family_file_def using fgets_lines_all [OF family_lines_ok [OF assms]] by (simp add: ms)
  moreover have "ioc_start \<lparr> ioc_refnr := \<lambda>_. 0 \<rparr> = ioc_start" by (simp add: ioc_start_def)
  ultimately have "ioc_init (Some (family_file majors nm units parts desc)) ioc_start =
      Val (st' \<lparr> ioc_parsed := True \<rparr>, 1)"
    using st(1) st'(1) by (simp add: ioc_init_def)
  moreover have "member_of b k (ioconf st' (majors ! k))" if "k < length majors" for k
  proof (cases k)
    case 0
    have "b \<notin> set (map fst ?mks)" using assms unfolding len(2) by (simp add: family_ok_def ms)
    then show ?thesis using st(4) st'(4) 0 by (simp add: ms)
  next
    case (Suc j)
    then have "?mks ! j = (ms ! j, k)" "j < length ?mks" using that by (simp_all add: ms nth_zip del: upt_Suc)
    then have "(ms ! j, k) \<in> set ?mks" by (metis nth_mem)
    then show ?thesis using st'(5) Suc by (auto simp: ms)
  qed
  ultimately show ?thesis using st'(2,3) st(2,3) len(1) by (simp add: ms)
qed

lemma c_printf_plain: "CHR ''%'' \<notin> set s \<Longrightarrow> c_printf args (s @ fmt) = obind (c_printf args fmt) (\<lambda>r. Val (s @ r))"
  by (induction s) (auto simp: obind_def split: outcome.splits)

lemma of_nat_small:
  assumes "n < 2 ^ 31"
  shows "unat (of_nat n :: u32) = n" "sint (of_nat n :: u32) = int n"
  using assms by (simp_all add: unsigned_of_nat take_bit_nat_eq_self signed_of_nat signed_take_bit_int_eq_self_iff)

lemma of_nat_div_mod:
  assumes "a < 2 ^ 31" "b < 2 ^ 31"
  shows "(of_nat a :: u32) div of_nat b = of_nat (a div b)" "(of_nat a :: u32) mod of_nat b = of_nat (a mod b)"
proof -
  have "a div b < 2 ^ 31" "a mod b < 2 ^ 31"
    using assms by (meson div_le_dividend le_less_trans mod_less_eq_dividend)+
  then show "(of_nat a :: u32) div of_nat b = of_nat (a div b)" "(of_nat a :: u32) mod of_nat b = of_nat (a mod b)"
    using assms by (simp_all add: word_unat_eq_iff unat_div unat_mod of_nat_small)
qed

lemma minor_parts:
  assumes "m < 2047"
  shows "(of_nat m :: u32) AND 0xff = of_nat (m mod 256)" "drop_bit 8 (of_nat m :: u32) = of_nat (m div 256)"
proof -
  have "(0xff :: u32) = mask 8" by (simp add: mask_eq_exp_minus_1)
  then have "(of_nat m :: u32) AND 0xff = take_bit 8 (of_nat m)" by (simp add: take_bit_eq_mask)
  also have "\<dots> = of_nat (m mod 256)" using of_nat_div_mod(2) [of m 256] assms by (simp add: take_bit_eq_mod)
  finally show "(of_nat m :: u32) AND 0xff = of_nat (m mod 256)" .
  have "drop_bit 8 (of_nat m :: u32) = of_nat m div of_nat 256" by (simp add: drop_bit_eq_div)
  also have "\<dots> = of_nat (m div 256)" using assms by (intro of_nat_div_mod) simp_all
  finally show "drop_bit 8 (of_nat m :: u32) = of_nat (m div 256)" .
qed

text \<open>The number of a disk among those of the family.\<close>

definition disk_unit :: "nat \<Rightarrow> nat \<Rightarrow> nat \<Rightarrow> nat \<Rightarrow> nat \<Rightarrow> nat" where
  "disk_unit n units parts k m = units * (k + n * (m div 256)) + m mod 256 div parts"

lemma disk_unit_bound:
  assumes "k < n" "n < 255" "units \<le> 256" "m < 2047"
  shows "disk_unit n units parts k m < 2 ^ 21"
proof -
  have "m div 256 \<le> 7" using assms by simp
  then have "n * (m div 256) \<le> 254 * 7" using assms by (intro mult_le_mono) auto
  then have "units * (k + n * (m div 256)) \<le> 256 * (254 + 254 * 7)" using assms by (intro mult_le_mono) auto
  moreover have "m mod 256 div parts \<le> 255" by (rule order_trans [OF div_le_dividend]) simp
  ultimately show ?thesis unfolding disk_unit_def by simp
qed

lemma mod_cancel: "((a :: nat) + x) mod p = (a + y) mod p \<Longrightarrow> x mod p = y mod p"
proof -
  assume "(a + x) mod p = (a + y) mod p"
  then have "(int a + int x) mod int p = (int a + int y) mod int p" by (metis of_nat_add of_nat_mod)
  then have "int x mod int p = int y mod int p" by (simp add: mod_eq_dvd_iff)
  then show "x mod p = y mod p" by (metis of_nat_eq_iff of_nat_mod)
qed

lemma disk_unit_inject:
  assumes "disk_unit n units parts k m = disk_unit n units parts k' m'" "k < n" "k' < n"
    "m mod 256 div parts < units" "m' mod 256 div parts < units" "m mod parts = m' mod parts" "0 < parts"
  shows "k = k' \<and> m = m'"
proof -
  have u: "0 < units" using assms(4) by simp
  have du: "disk_unit n units parts i j div units = i + n * (j div 256) \<and> disk_unit n units parts i j mod units = j mod 256 div parts"
    if "j mod 256 div parts < units" for i j
    using that u by (simp add: disk_unit_def)
  have e: "k + n * (m div 256) = k' + n * (m' div 256)" "m mod 256 div parts = m' mod 256 div parts"
    using du [OF assms(4), of k] du [OF assms(5), of k'] assms(1) by simp_all
  have "k = (k + n * (m div 256)) mod n" "k' = (k' + n * (m' div 256)) mod n" using assms by simp_all
  then have k: "k = k'" using e(1) by simp
  have h: "m div 256 = m' div 256" using e(1) k assms(2) by simp
  have "m = 256 * (m div 256) + m mod 256" "m' = 256 * (m div 256) + m' mod 256" by (simp, unfold h, simp)
  with assms(6) have "(256 * (m div 256) + m mod 256) mod parts = (256 * (m div 256) + m' mod 256) mod parts" by metis
  then have "m mod 256 mod parts = m' mod 256 mod parts" by (rule mod_cancel)
  with e(2) have "m mod 256 = m' mod 256" by (metis div_mult_mod_eq)
  with h have "m = m'" by (metis div_mult_mod_eq)
  with k show ?thesis by simp
qed

lemma dec_of_nat_no_percent: "CHR ''%'' \<notin> set (dec_of_nat n)"
  using dec_of_nat_digits [of n] by (auto simp: c_isdigit_def byte_def)

lemma letters_length:
  assumes "n < 2 ^ 21"
  shows "length (letters n) \<le> 5"
proof (rule ccontr)
  assume "\<not> length (letters n) \<le> 5"
  have pos: "26 ^ (length s - 1) \<le> letters_value s" if "list_all lower s" "s \<noteq> []" for s
    using that
  proof (induction s rule: rev_induct)
    case (snoc c s)
    then show ?case by (cases s rule: rev_cases) (auto simp: letters_value_snoc lower_def letters_value_def)
  qed simp
  have ne: "letters n \<noteq> []" using \<open>\<not> length (letters n) \<le> 5\<close> by auto
  have "26 ^ 5 \<le> (26 :: nat) ^ (length (letters n) - 1)"
    using \<open>\<not> length (letters n) \<le> 5\<close> by (intro power_increasing) auto
  also have "\<dots> \<le> Suc n"
    using pos [of "letters n"] letters_props(1) [of n] letters_props(2) [of _ n] ne by (simp add: list_all_iff)
  finally show False using assms by simp
qed

lemma family_device_text:
  assumes "family_ok majors nm units parts desc" "k < length majors" "m < 2047" "m mod 256 < units * parts"
    and "ie_ctrlno p = of_nat k" "ie_basemajor p = b" "ioc_refnr st b = of_nat (length majors - 1)"
  shows "device_text st p (family_blk nm units parts desc) (of_nat m) =
    Val (disk_name nm (disk_unit (length majors) units parts k m) (m mod parts))"
proof -
  let ?u = "disk_unit (length majors) units parts k m" and ?b = "family_blk nm units parts desc"
  note up = family_bounds [OF assms(1)]
  have b: "?u < 2 ^ 21" using disk_unit_bound [OF assms(2) up(3,1) assms(3)] .
  have md: "(of_nat m :: u32) AND 0xff = of_nat (m mod 256)" "drop_bit 8 (of_nat m :: u32) = of_nat (m div 256)"
    using minor_parts [OF assms(3)] .
  let ?off = "m mod 256 div parts"
  define base where "base = units * (k + length majors * (m div 256))"
  have sum: "?u = ?off + base" by (simp add: disk_unit_def base_def)
  have "(256 \<le> (of_nat m :: u32)) = (256 \<le> m)"
    using assms(3) of_nat_small(1) [of m] of_nat_small(1) [of 256] by (simp add: word_le_nat_alt)
  moreover have "(of_nat (length majors - 1) + 1 :: u32) = of_nat (length majors)"
    using assms(2) by (metis One_nat_def Suc_pred gr_implies_not0 length_greater_0_conv list.size(3) of_nat_Suc add.commute)
  ultimately have bs: "(if 256 \<le> (of_nat m :: u32)
      then ie_ctrlno p * of_nat units + of_nat units * (ioc_refnr st (ie_basemajor p) + 1) * drop_bit 8 (of_nat m)
      else ie_ctrlno p * of_nat units) = of_nat base"
    using assms(5-7) md by (cases "256 \<le> m") (simp_all add: base_def algebra_simps)
  have off: "(of_nat m AND 0xff) div of_nat parts = (of_nat ?off :: u32)"
    using of_nat_div_mod(1) [of "m mod 256" parts] up md by simp
  have "?off \<le> ?u" "base \<le> ?u" by (simp_all add: sum)
  then have "?off < 2 ^ 31" "base < 2 ^ 31" using b by simp_all
  then have si: "sint (of_nat ?off :: u32) = int ?off" "sint (of_nat base :: u32) = int base"
    by (intro of_nat_small; simp)+
  have "int ?off + int base = int ?u" by (simp add: sum)
  then have "sint (of_nat ?off :: u32) + sint (of_nat base :: u32) \<in> {- (2 ^ 31)..<2 ^ 31}" using b by (simp add: si)
  then have d: "disk_offset st p ?b (of_nat m) = Val (of_nat ?u)"
    unfolding disk_offset_def family_blk_def sum Let_def blk_config.select_convs off bs by simp
  have part: "(of_nat m :: u32) mod bk_pcount ?b = of_nat (m mod parts)"
    using of_nat_div_mod(2) [of m parts] up assms(3) by (simp add: family_blk_def)
  have mp: "m mod parts < 256"
    using up(2) assms(1) by (metis family_ok_def less_le_trans mod_less_divisor)
  then have small: "unat (of_nat (m mod parts) :: u32) = m mod parts" "sint (of_nat (m mod parts) :: u32) = int (m mod parts)"
    by (intro of_nat_small; simp)+
  have pz: "((of_nat (m mod parts) :: u32) = 0) = (m mod parts = 0)"
    by (simp only: word_unat_eq_iff small unat_0)
  have "field_ok 15 nm" using assms(1) by (simp only: family_ok_def)
  then have pct: "CHR ''%'' \<notin> set nm" "length nm \<le> 15" by (auto simp: field_ok_def list_all_iff)
  have cfmt: "c_printf args nm = Val nm" for args using c_printf_plain [OF pct(1), of args "[]"] by simp
  have unit: "ioc_ito26 (of_nat ?u) = letters ?u" using b by (intro ioc_ito26_letters) simp
  have "length (letters ?u) \<le> 5" using b by (rule letters_length)
  moreover have "length (dec_of_nat (m mod parts)) \<le> 3" using mp by (intro length_dec_of_nat) simp_all
  ultimately have len: "\<not> 48 \<le> length (nm @ letters ?u @ dec_of_nat (m mod parts))" "\<not> 48 \<le> length (nm @ letters ?u)"
    using pct(2) by simp_all
  show ?thesis
    using d part pz small cfmt unit len
    by (simp add: device_text_def disk_name_def family_blk_def unit_name_def show_d_def dec_of_int_def)
qed

lemma family_named:
  assumes "family_ok majors nm units parts desc" "k < length majors" "m < 2047" "m mod 256 < units * parts"
  shows "\<exists>st. ioc_name (Some (family_file majors nm units parts desc)) (of_nat (majors ! k)) (of_nat m) ioc_start =
    Val (Some (disk_name nm (disk_unit (length majors) units parts k m) (m mod parts)), st)"
proof -
  obtain st where st: "ioc_init (Some (family_file majors nm units parts desc)) ioc_start = Val (st, 1)"
    "ioc_blks st = [family_blk nm units parts desc]" "ioc_refnr st (hd majors) = of_nat (length majors - 1)"
    "member_of (hd majors) k (ioconf st (majors ! k))"
    using family_parsed [OF assms(1)] assms(2) by blast
  then obtain p where p: "ioconf st (majors ! k) = Some p" "ie_ctrlno p = of_nat k" "ie_basemajor p = hd majors" "ie_blkp p = 0"
    by (auto simp: member_of_def)
  have maj: "majors ! k < 255" using assms(1,2) by (simp add: family_ok_def list_all_length)
  have small: "unat (of_nat (majors ! k) :: u32) = majors ! k" "unat (of_nat m :: u32) = m"
    using maj assms(3) by (intro of_nat_small; simp)+
  have "\<not> 2047 \<le> (of_nat m :: u32)" using small(2) assms(3) by (simp add: word_le_nat_alt)
  moreover have "unat (of_nat units * of_nat parts :: u32) = units * parts"
    using of_nat_small(1) [of "units * parts"] assms(1) by (simp add: family_ok_def)
  then have "\<not> of_nat units * of_nat parts \<le> (of_nat m :: u32) AND 0xff"
    using minor_parts(1) [OF assms(3)] of_nat_small(1) [of "m mod 256"] assms(4) by (simp add: word_le_nat_alt)
  moreover have "ioc_parsed ioc_start = False" by (simp add: ioc_start_def)
  ultimately show ?thesis
    using family_device_text [OF assms p(2,3) st(3)] st(1,2) p small(1) maj
    by (simp add: ioc_name_def ioc_parse_def MAX_BLKDEV_def) (simp add: family_blk_def)
qed


end
