(* ===== verification/Iostat.thy ===== *)
theory Iostat
  imports MpstatOpt Ioconf
begin

text \<open>
  The \<open>iostat\<close> command, what it reads: the tables of \<open>iostat.c\<close> that hold the counters of the devices
  for two samples, and the readers of \<open>/proc/diskstats\<close> and \<open>/sys/block\<close> that fill them. The array
  \<open>st_iodev_iostat\<close> is a pair of lists, the current sample and the other one; \<open>curr ^= 1\<close> swaps them.
  A local structure that a reader leaves partly unset is an argument, with what its memory held.
\<close>

subsection \<open>Flags\<close>

definition I_D_CPU :: u32 where "I_D_CPU = 0x00001"
definition I_D_DISK :: u32 where "I_D_DISK = 0x00002"
definition I_D_TIMESTAMP :: u32 where "I_D_TIMESTAMP = 0x00004"
definition I_D_EXTENDED :: u32 where "I_D_EXTENDED = 0x00008"
definition I_D_PART_ALL :: u32 where "I_D_PART_ALL = 0x00010"
definition I_D_KILOBYTES :: u32 where "I_D_KILOBYTES = 0x00020"
definition I_F_HAS_SYSFS :: u32 where "I_F_HAS_SYSFS = 0x00040"
definition I_D_UNFILTERED :: u32 where "I_D_UNFILTERED = 0x00100"
definition I_D_MEGABYTES :: u32 where "I_D_MEGABYTES = 0x00200"
definition I_D_PARTITIONS :: u32 where "I_D_PARTITIONS = 0x00400"
definition I_F_HAS_DISKSTATS :: u32 where "I_F_HAS_DISKSTATS = 0x00800"
definition I_D_HUMAN_READ :: u32 where "I_D_HUMAN_READ = 0x01000"
definition I_D_PERSIST_NAME :: u32 where "I_D_PERSIST_NAME = 0x02000"
definition I_D_OMIT_SINCE_BOOT :: u32 where "I_D_OMIT_SINCE_BOOT = 0x04000"
definition I_D_JSON_OUTPUT :: u32 where "I_D_JSON_OUTPUT = 0x08000"
definition I_D_DEVMAP_NAME :: u32 where "I_D_DEVMAP_NAME = 0x10000"
definition I_D_ISO :: u32 where "I_D_ISO = 0x20000"
definition I_D_GROUP_TOTAL_ONLY :: u32 where "I_D_GROUP_TOTAL_ONLY = 0x40000"
definition I_D_ZERO_OMIT :: u32 where "I_D_ZERO_OMIT = 0x80000"

lemmas io_flag_defs = I_D_CPU_def I_D_DISK_def I_D_TIMESTAMP_def I_D_EXTENDED_def I_D_PART_ALL_def
  I_D_KILOBYTES_def I_F_HAS_SYSFS_def I_D_UNFILTERED_def I_D_MEGABYTES_def I_D_PARTITIONS_def
  I_F_HAS_DISKSTATS_def I_D_HUMAN_READ_def I_D_PERSIST_NAME_def I_D_OMIT_SINCE_BOOT_def
  I_D_JSON_OUTPUT_def I_D_DEVMAP_NAME_def I_D_ISO_def I_D_GROUP_TOTAL_ONLY_def I_D_ZERO_OMIT_def

subsection \<open>Tables\<close>

record io_stats =
  io_rd_sectors :: u64
  io_wr_sectors :: u64
  io_rd_ios :: u64
  io_rd_merges :: u64
  io_wr_ios :: u64
  io_wr_merges :: u64
  io_rd_ticks :: u32
  io_wr_ticks :: u32
  io_ios_pgr :: u32
  io_tot_ticks :: u32
  io_rq_ticks :: u32

definition zero_io :: io_stats where
  "zero_io = \<lparr> io_rd_sectors = 0, io_wr_sectors = 0, io_rd_ios = 0, io_rd_merges = 0, io_wr_ios = 0,
     io_wr_merges = 0, io_rd_ticks = 0, io_wr_ticks = 0, io_ios_pgr = 0, io_tot_ticks = 0, io_rq_ticks = 0 \<rparr>"

datatype disk_status = DISK_UNREGISTERED | DISK_REGISTERED | DISK_GROUP

text \<open>\<open>used\<close> is 0, or 1, or the number of disks of a group.\<close>

record io_hdr_stats =
  hd_status :: disk_status
  hd_used :: nat
  hd_name :: string

record io_table =
  t_hdr :: "io_hdr_stats list"
  t_prev :: "io_stats list"
  t_cur :: "io_stats list"

definition salloc_device :: "nat \<Rightarrow> io_table" where
  "salloc_device dev_nr =
     \<lparr> t_hdr = replicate dev_nr \<lparr> hd_status = DISK_UNREGISTERED, hd_used = 0, hd_name = [] \<rparr>,
       t_prev = replicate dev_nr zero_io, t_cur = replicate dev_nr zero_io \<rparr>"

definition swap_samples :: "io_table \<Rightarrow> io_table" where
  "swap_samples t = t \<lparr> t_prev := t_cur t, t_cur := t_prev t \<rparr>"

definition set_entries_unregistered :: "io_table \<Rightarrow> io_table" where
  "set_entries_unregistered t =
     t \<lparr> t_hdr := map (\<lambda>h. if hd_status h = DISK_REGISTERED then h \<lparr> hd_status := DISK_UNREGISTERED \<rparr> else h) (t_hdr t) \<rparr>"

definition free_unregistered_entries :: "io_table \<Rightarrow> io_table" where
  "free_unregistered_entries t =
     t \<lparr> t_hdr := map (\<lambda>h. if hd_status h = DISK_UNREGISTERED then h \<lparr> hd_used := 0 \<rparr> else h) (t_hdr t) \<rparr>"

text \<open>The first index of an element with a property, or the length.\<close>

definition first_index :: "('a \<Rightarrow> bool) \<Rightarrow> 'a list \<Rightarrow> nat" where
  "first_index P xs = length (takeWhile (\<lambda>x. \<not> P x) xs)"

definition store_stats :: "nat \<Rightarrow> io_stats \<Rightarrow> io_table \<Rightarrow> io_table" where
  "store_stats i st t =
     (let h = t_hdr t ! i
      in t \<lparr> t_hdr := (t_hdr t)[i := if hd_status h = DISK_UNREGISTERED then h \<lparr> hd_status := DISK_REGISTERED \<rparr> else h],
             t_cur := (t_cur t)[i := st] \<rparr>)"

text \<open>The name of a new device is kept in 128 bytes, the last one NUL.\<close>

definition save_stats :: "string \<Rightarrow> io_stats \<Rightarrow> io_table \<Rightarrow> io_table" where
  "save_stats name st t =
     (let n = length (t_hdr t); i = first_index (\<lambda>h. hd_name h = name) (t_hdr t);
          j = first_index (\<lambda>h. hd_used h = 0) (t_hdr t)
      in if i < n then store_stats i st t
         else if j < n
         then store_stats j st
                (t \<lparr> t_hdr := (t_hdr t)[j := (t_hdr t ! j) \<lparr> hd_used := 1, hd_name := take 127 name \<rparr>],
                     t_prev := (t_prev t)[j := zero_io] \<rparr>)
         else t)"

subsection \<open>The devices of the command line\<close>

record io_dlist =
  dl_disp_part :: bool
  dl_name :: string

text \<open>The array has the length it was allocated with, the number is \<open>dlist_idx_iostat\<close>.\<close>

type_synonym dev_list = "io_dlist list \<times> nat"

definition salloc_dev_list :: "nat \<Rightarrow> io_dlist list" where
  "salloc_dev_list list_len = replicate list_len \<lparr> dl_disp_part = False, dl_name = [] \<rparr>"

definition update_dev_list :: "string \<Rightarrow> dev_list \<Rightarrow> (nat \<times> dev_list) outcome" where
  "update_dev_list name l =
     (case l of (arr, idx) \<Rightarrow>
        let i = first_index (\<lambda>d. dl_name d = name) (take idx arr)
        in if i < length (take idx arr) then Val (i, arr, idx)
           else if length arr \<le> idx then Undef OutOfBounds
           else Val (idx, arr[idx := (arr ! idx) \<lparr> dl_name := take 127 name \<rparr>], Suc idx))"

definition listed :: "dev_list \<Rightarrow> io_dlist list" where
  "listed l = take (snd l) (fst l)"

subsection \<open>What a sample is read from\<close>

text \<open>
  \<open>ir_stack\<close> says what the uninitialised structure of a reader holds, for each file it reads;
  \<open>ir_time\<close> is the time as \<open>strftime\<close> prints it.
\<close>

record io_reading =
  ir_stat :: "string list option"
  ir_uptime :: "string list option"
  ir_diskstats :: "string option"
  ir_fs :: sysfs
  ir_file :: "string \<Rightarrow> string option"
  ir_devmap :: "string list option"
  ir_stat_dev :: "string \<Rightarrow> (u32 \<times> u32) option"
  ir_stack :: "string \<Rightarrow> io_stats"
  ir_time :: string

record io_conf =
  i_flags :: u32
  i_hz :: u32
  i_colors :: colors
  i_persist :: string
  i_interval :: int
  i_cpu_nr :: int
  i_group_nr :: nat
  i_dm_major :: u32
  i_ioconf :: "string option"

abbreviation io_has :: "io_conf \<Rightarrow> u32 \<Rightarrow> bool" where
  "io_has cf f \<equiv> flag_set (i_flags cf) f"

text \<open>The values of consecutive \<open>%lu\<close> and \<open>%u\<close>, at most \<open>n\<close> of them.\<close>

fun scan_uints :: "nat \<Rightarrow> string \<Rightarrow> u64 list" where
  "scan_uints 0 s = []"
| "scan_uints (Suc n) s = (case scan_uint s of None \<Rightarrow> [] | Some (v, r) \<Rightarrow> v # scan_uints n r)"

text \<open>The counters of a device, and of a partition without extended statistics.\<close>

definition device_stats :: "u64 list \<Rightarrow> io_stats" where
  "device_stats v =
     \<lparr> io_rd_sectors = v ! 2, io_wr_sectors = v ! 6, io_rd_ios = v ! 0, io_rd_merges = v ! 1, io_wr_ios = v ! 4,
       io_wr_merges = v ! 5, io_rd_ticks = ucast (v ! 3), io_wr_ticks = ucast (v ! 7), io_ios_pgr = ucast (v ! 8),
       io_tot_ticks = ucast (v ! 9), io_rq_ticks = ucast (v ! 10) \<rparr>"

definition partition_stats :: "u64 list \<Rightarrow> io_stats \<Rightarrow> io_stats" where
  "partition_stats v sdev =
     sdev \<lparr> io_rd_ios := v ! 0, io_rd_sectors := v ! 1, io_wr_ios := v ! 2, io_wr_sectors := v ! 3 \<rparr>"

subsection \<open>The sysfs file system\<close>

definition read_sysfs_file_stat :: "io_conf \<Rightarrow> io_reading \<Rightarrow> string \<Rightarrow> string \<Rightarrow> io_table \<Rightarrow> bool \<times> io_table" where
  "read_sysfs_file_stat cf rd filename dev_name t =
     (case ir_file rd filename of
        None \<Rightarrow> (False, t)
      | Some s \<Rightarrow>
          (let v = scan_uints 11 s;
               sdev = (if length v = 11 then device_stats v
                       else if length v = 4 then partition_stats v (ir_stack rd filename)
                       else ir_stack rd filename)
           in (True, if length v = 11 \<or> \<not> io_has cf I_D_EXTENDED then save_stats dev_name sdev t else t)))"

definition stat_path :: "string \<Rightarrow> string \<Rightarrow> string" where
  "stat_path dir e = take 1023 (dir @ ''/'' @ e @ ''/stat'')"

definition not_dots :: "string list \<Rightarrow> string list" where
  "not_dots es = filter (\<lambda>e. e \<noteq> ''.'' \<and> e \<noteq> ''..'') es"

definition read_sysfs_dlist_part_stat :: "io_conf \<Rightarrow> io_reading \<Rightarrow> string \<Rightarrow> io_table \<Rightarrow> io_table" where
  "read_sysfs_dlist_part_stat cf rd dev_name t =
     (let dfile = take 1023 (SYSFS_BLOCK @ ''/'' @ dev_name)
      in case dir_entries (ir_fs rd) dfile of
           None \<Rightarrow> t
         | Some es \<Rightarrow> fold (\<lambda>e t. snd (read_sysfs_file_stat cf rd (stat_path dfile e) e t)) (not_dots es) t)"

definition read_sysfs_device :: "io_conf \<Rightarrow> io_reading \<Rightarrow> string \<times> bool \<Rightarrow> io_table \<Rightarrow> io_table" where
  "read_sysfs_device cf rd d t =
     (case read_sysfs_file_stat cf rd (stat_path SYSFS_BLOCK (fst d)) (fst d) t of
        (ok, t) \<Rightarrow> if ok \<and> snd d then read_sysfs_dlist_part_stat cf rd (fst d) t else t)"

text \<open>The slashes of the names in the list of devices are replaced in place.\<close>

definition bang_names :: "dev_list \<Rightarrow> dev_list" where
  "bang_names l =
     (case l of (arr, idx) \<Rightarrow>
        (map (\<lambda>d. d \<lparr> dl_name := map (\<lambda>c. if c = CHR ''/'' then CHR ''!'' else c) (dl_name d) \<rparr>) (take idx arr) @
         drop idx arr, idx))"

definition read_sysfs_dlist_stat :: "io_conf \<Rightarrow> io_reading \<Rightarrow> dev_list \<Rightarrow> io_table \<Rightarrow> dev_list \<times> io_table" where
  "read_sysfs_dlist_stat cf rd l t =
     (let l = bang_names l
      in (l, free_unregistered_entries
               (fold (read_sysfs_device cf rd) (map (\<lambda>d. (dl_name d, dl_disp_part d)) (listed l))
                  (set_entries_unregistered t))))"

definition read_sysfs_stat :: "io_conf \<Rightarrow> io_reading \<Rightarrow> io_table \<Rightarrow> io_table" where
  "read_sysfs_stat cf rd t =
     free_unregistered_entries
       (case dir_entries (ir_fs rd) SYSFS_BLOCK of
          None \<Rightarrow> set_entries_unregistered t
        | Some es \<Rightarrow> fold (read_sysfs_device cf rd) (map (\<lambda>e. (e, io_has cf I_D_PART_ALL)) (not_dots es))
            (set_entries_unregistered t))"

subsection \<open>The file diskstats\<close>

text \<open>The first three fields of a line, \<open>dev_name\<close> in 128 bytes, and the numbers behind them.\<close>

definition diskstats_fields :: "string \<Rightarrow> (u32 \<times> u32 \<times> string \<times> u64 list) option outcome" where
  "diskstats_fields line =
     scbind (Val (scan_u32 line)) (\<lambda>(major, r). scbind (Val (scan_u32 r)) (\<lambda>(minor, r).
     scbind (scan_str 128 r) (\<lambda>(name, r). Val (Some (major, minor, name, scan_uints 11 r)))))"

text \<open>The name under which the device is saved.\<close>

definition ioc_rename :: "string option \<Rightarrow> string \<Rightarrow> string" where
  "ioc_rename d name =
     (case d of None \<Rightarrow> name | Some n \<Rightarrow> if name \<noteq> n \<and> n \<noteq> K_NODEV then take 127 n else name)"

definition saved_name ::
  "io_conf \<Rightarrow> io_reading \<Rightarrow> u32 \<Rightarrow> u32 \<Rightarrow> string \<Rightarrow> ioc_state \<Rightarrow> (string \<times> ioc_state) outcome" where
  "saved_name cf rd major minor name ioc =
     obind (ioc_name (i_ioconf cf) major minor ioc) (\<lambda>(d, ioc).
       if io_has cf I_D_DEVMAP_NAME \<and> major = i_dm_major cf
       then obind (transform_devmapname (ir_devmap rd) (ir_stat_dev rd) major minor) (\<lambda>dm.
              Val (case dm of None \<Rightarrow> ioc_rename d name | Some n \<Rightarrow> take 127 n, ioc))
       else Val (ioc_rename d name, ioc))"

text \<open>What is to be saved of a line, \<open>None\<close> when it is skipped; \<open>is_device\<close> changes the name in place.\<close>

definition line_stats ::
  "io_conf \<Rightarrow> io_reading \<Rightarrow> bool \<Rightarrow> string \<Rightarrow> u64 list \<Rightarrow> io_stats \<Rightarrow> (string \<times> io_stats) option" where
  "line_stats cf rd no_list name v sdev =
     (let devices_only = (no_list \<and> \<not> io_has cf I_D_PARTITIONS)
      in if length v = 11
         then (if devices_only
               then (case is_device (ir_fs rd) name True of (ok, name) \<Rightarrow> if ok then Some (name, device_stats v) else None)
               else Some (name, device_stats v))
         else if length v = 4
         then (if io_has cf I_D_EXTENDED \<or> devices_only then None else Some (name, partition_stats v sdev))
         else None)"

type_synonym disk_state = "io_stats \<times> ioc_state \<times> io_table"

definition read_diskstats_line ::
  "io_conf \<Rightarrow> io_reading \<Rightarrow> bool \<Rightarrow> string \<Rightarrow> disk_state \<Rightarrow> disk_state outcome" where
  "read_diskstats_line cf rd no_list line s =
     (case s of (sdev, ioc, t) \<Rightarrow>
        obind (diskstats_fields line) (\<lambda>f.
          case f of
            None \<Rightarrow> Val s
          | Some (major, minor, name, v) \<Rightarrow>
              (case line_stats cf rd no_list name v sdev of
                 None \<Rightarrow> Val s
               | Some (name, sdev) \<Rightarrow>
                   obind (saved_name cf rd major minor name ioc) (\<lambda>(name, ioc).
                     Val (sdev, ioc, save_stats name sdev t)))))"

fun read_diskstats_lines ::
  "io_conf \<Rightarrow> io_reading \<Rightarrow> bool \<Rightarrow> string list \<Rightarrow> disk_state \<Rightarrow> disk_state outcome" where
  "read_diskstats_lines cf rd no_list [] s = Val s"
| "read_diskstats_lines cf rd no_list (l # ls) s =
     obind (read_diskstats_line cf rd no_list l s) (read_diskstats_lines cf rd no_list ls)"

text \<open>A file that cannot be opened leaves the entries unregistered, and none is freed.\<close>

definition read_diskstats_stat ::
  "io_conf \<Rightarrow> io_reading \<Rightarrow> bool \<Rightarrow> ioc_state \<Rightarrow> io_table \<Rightarrow> (ioc_state \<times> io_table) outcome" where
  "read_diskstats_stat cf rd no_list ioc t =
     (let t = set_entries_unregistered t
      in case ir_diskstats rd of
           None \<Rightarrow> Val (ioc, t)
         | Some s \<Rightarrow>
             obind (read_diskstats_lines cf rd no_list (fgets_lines 256 s) (ir_stack rd ''/proc/diskstats'', ioc, t))
               (\<lambda>(_, ioc, t). Val (ioc, free_unregistered_entries t)))"

subsection \<open>Groups of devices\<close>

definition add_io :: "io_stats \<Rightarrow> io_stats \<Rightarrow> io_stats" where
  "add_io g d =
     \<lparr> io_rd_sectors = io_rd_sectors g + io_rd_sectors d, io_wr_sectors = io_wr_sectors g + io_wr_sectors d,
       io_rd_ios = io_rd_ios g + io_rd_ios d, io_rd_merges = io_rd_merges g + io_rd_merges d,
       io_wr_ios = io_wr_ios g + io_wr_ios d, io_wr_merges = io_wr_merges g + io_wr_merges d,
       io_rd_ticks = io_rd_ticks g + io_rd_ticks d, io_wr_ticks = io_wr_ticks g + io_wr_ticks d,
       io_ios_pgr = io_ios_pgr g + io_ios_pgr d, io_tot_ticks = io_tot_ticks g + io_tot_ticks d,
       io_rq_ticks = io_rq_ticks g + io_rq_ticks d \<rparr>"

definition idle :: "io_stats \<Rightarrow> bool" where
  "idle s \<longleftrightarrow> io_rd_ios s = 0 \<and> io_wr_ios s = 0"

fun group_loop :: "io_conf \<Rightarrow> nat list \<Rightarrow> io_stats \<Rightarrow> nat \<Rightarrow> io_table \<Rightarrow> io_table" where
  "group_loop cf [] gdev nr t = t"
| "group_loop cf (i # is) gdev nr t =
     (let h = t_hdr t ! i; ioi = t_cur t ! i
      in if hd_used h \<noteq> 0 \<and> hd_status h = DISK_REGISTERED
         then (if \<not> io_has cf I_D_UNFILTERED \<and> idle ioi then group_loop cf is gdev nr t
               else group_loop cf is (add_io gdev ioi) (Suc nr) t)
         else if hd_status h = DISK_GROUP
         then (let t = save_stats (hd_name h) gdev t;
                   t = t \<lparr> t_hdr := (t_hdr t)[i := (t_hdr t ! i) \<lparr> hd_used := nr \<rparr>] \<rparr>
               in group_loop cf is zero_io 0 t)
         else group_loop cf is gdev nr t)"

definition compute_device_groups_stats :: "io_conf \<Rightarrow> io_table \<Rightarrow> io_table" where
  "compute_device_groups_stats cf t = group_loop cf [0..<length (t_hdr t)] zero_io 0 t"

text \<open>The groups of the command line are put into the table before anything is read.\<close>

definition preset :: "io_dlist \<Rightarrow> io_hdr_stats" where
  "preset d =
     \<lparr> hd_status = (if dl_name d \<noteq> [] \<and> hd (dl_name d) = CHR '' '' then DISK_GROUP else DISK_REGISTERED),
       hd_used = 1, hd_name = dl_name d \<rparr>"

definition presave_device_list :: "string \<Rightarrow> dev_list \<Rightarrow> io_table \<Rightarrow> (dev_list \<times> io_table) outcome" where
  "presave_device_list group_name l t =
     (if 0 < snd l
      then obind (update_dev_list group_name l) (\<lambda>(_, l).
             let n = min (snd l) (length (t_hdr t))
             in if length (fst l) < n then Undef OutOfBounds
                else Val (l, t \<lparr> t_hdr := map preset (take n (fst l)) @ drop n (t_hdr t) \<rparr>))
      else Val (l, t \<lparr> t_hdr := (t_hdr t)[length (t_hdr t) - 1 :=
             \<lparr> hd_status = DISK_GROUP, hd_used = 1, hd_name = group_name \<rparr>] \<rparr>))"

end
