(* ===== verification/IostatWrite.thy ===== *)
theory IostatWrite
  imports Iostat
begin

text \<open>
  The \<open>iostat\<close> command, what it writes: the report of one sample in \<open>iostat.c\<close>, in plain and in JSON
  form, from the current sample and the one before it.
\<close>

record io_run =
  rn_table :: io_table
  rn_dlist :: dev_list
  rn_ioc :: ioc_state
  rn_cpu_prev :: "stats_cpu list"
  rn_cpu_cur :: "stats_cpu list"
  rn_up_prev :: u64
  rn_up_cur :: u64
  rn_up0_prev :: u64
  rn_up0_cur :: u64
  rn_curr :: nat

subsection \<open>Processors\<close>

definition write_sample_timestamp :: "io_conf \<Rightarrow> nat \<Rightarrow> string \<Rightarrow> pieces" where
  "write_sample_timestamp cf tab timestamp =
     (if io_has cf I_D_JSON_OUTPUT then xprintf tab (quoted ''timestamp_iostat'' @ '': '' @ quoted timestamp @ '','')
      else [(File, timestamp @ [LF])])"

definition cpu_shares :: "stats_cpu \<Rightarrow> stats_cpu \<Rightarrow> u64 \<Rightarrow> dbl list" where
  "cpu_shares p c itv =
     [ll_sp_value (cpu_user p) (cpu_user c) itv, ll_sp_value (cpu_nice p) (cpu_nice c) itv,
      ll_sp_value (cpu_sys p + cpu_softirq p + cpu_hardirq p) (cpu_sys c + cpu_softirq c + cpu_hardirq c) itv,
      ll_sp_value (cpu_iowait p) (cpu_iowait c) itv, ll_sp_value (cpu_steal p) (cpu_steal c) itv,
      if cpu_idle c < cpu_idle p then dbl_zero else ll_sp_value (cpu_idle p) (cpu_idle c) itv]"

definition write_plain_cpu_stat :: "io_conf \<Rightarrow> stats_cpu \<Rightarrow> stats_cpu \<Rightarrow> u64 \<Rightarrow> pieces" where
  "write_plain_cpu_stat cf p c itv =
     (File, ''avg-cpu:  %user   %nice %system %iowait  %steal   %idle'' @ [LF]) # (File, ''       '') #
     cprintf_pc (i_colors cf) 7 2 (cpu_shares p c itv) @ [(File, [LF, LF])]"

text \<open>Fields of a JSON object, \<open>"name": value\<close>.\<close>

fun json_fields :: "string list \<Rightarrow> string list \<Rightarrow> string" where
  "json_fields (k # ks) (v # vs) =
     quoted k @ '': '' @ v @ (if ks = [] then [] else '', '' @ json_fields ks vs)"
| "json_fields _ _ = []"

definition write_json_cpu_stat :: "nat \<Rightarrow> stats_cpu \<Rightarrow> stats_cpu \<Rightarrow> u64 \<Rightarrow> pieces" where
  "write_json_cpu_stat tab p c itv =
     xprintf0 tab (quoted ''avg-cpu'' @ '':  {'' @
       json_fields [''user'', ''nice'', ''system'', ''iowait'', ''steal'', ''idle'']
         (map (fmt_f 2) (cpu_shares p c itv)) @ ''}'')"

definition write_cpu_stat :: "io_conf \<Rightarrow> stats_cpu \<Rightarrow> stats_cpu \<Rightarrow> u64 \<Rightarrow> nat \<Rightarrow> pieces" where
  "write_cpu_stat cf p c itv tab =
     (if io_has cf I_D_JSON_OUTPUT then write_json_cpu_stat tab p c itv else write_plain_cpu_stat cf p c itv)"

subsection \<open>Disks\<close>

definition disk_fctr :: "io_conf \<Rightarrow> int" where
  "disk_fctr cf = (if io_has cf I_D_KILOBYTES then 2 else if io_has cf I_D_MEGABYTES then 2048 else 1)"

definition ext_heading :: "io_conf \<Rightarrow> string" where
  "ext_heading cf =
     ''Device:         rrqm/s   wrqm/s     r/s     w/s'' @
     (if io_has cf I_D_MEGABYTES then ''    rMB/s    wMB/s''
      else if io_has cf I_D_KILOBYTES then ''    rkB/s    wkB/s''
      else ''   rsec/s   wsec/s'') @
     '' avgrq-sz avgqu-sz   await r_await w_await  svctm  %util'' @ [LF]"

definition basic_heading :: "io_conf \<Rightarrow> string" where
  "basic_heading cf =
     ''Device:            tps'' @
     (if io_has cf I_D_KILOBYTES then ''    kB_read/s    kB_wrtn/s    kB_read    kB_wrtn''
      else if io_has cf I_D_MEGABYTES then ''    MB_read/s    MB_wrtn/s    MB_read    MB_wrtn''
      else ''   Blk_read/s   Blk_wrtn/s   Blk_read   Blk_wrtn'') @ [LF]"

definition write_disk_stat_header :: "io_conf \<Rightarrow> nat \<Rightarrow> pieces" where
  "write_disk_stat_header cf tab =
     (if io_has cf I_D_JSON_OUTPUT then xprintf tab (quoted ''disk'' @ '': ['')
      else [(File, if io_has cf I_D_EXTENDED then ext_heading cf else basic_heading cf)])"

text \<open>The name in front of a line: on a line of its own with option \<open>-h\<close>.\<close>

definition device_label :: "io_conf \<Rightarrow> string \<Rightarrow> pieces" where
  "device_label cf devname =
     (if io_has cf I_D_HUMAN_READ
      then cprintf_in (i_colors cf) (devname @ [LF]) @ [(File, replicate 13 (CHR '' ''))]
      else cprintf_in (i_colors cf) (pad_right (CHR '' '') 13 devname))"

definition io_rate :: "io_conf \<Rightarrow> u64 \<Rightarrow> u64 \<Rightarrow> u64 \<Rightarrow> dbl" where
  "io_rate cf itv m n = S_VALUE (i_hz cf) m n itv"

text \<open>The macro \<open>S_VALUE\<close> on 32 bit counters subtracts them in 32 bits.\<close>

definition tick_rate :: "io_conf \<Rightarrow> u64 \<Rightarrow> u32 \<Rightarrow> u32 \<Rightarrow> dbl" where
  "tick_rate cf itv m n = dbl_mul (dbl_div (dbl_of_u32 (n - m)) (dbl_of_u64 itv)) (dbl_of_u32 (i_hz cf))"

definition to_disk :: "io_stats \<Rightarrow> stats_disk" where
  "to_disk d =
     \<lparr> nr_ios = io_rd_ios d + io_wr_ios d, rd_sect = io_rd_sectors d, wr_sect = io_wr_sectors d,
       rd_ticks = io_rd_ticks d, wr_ticks = io_wr_ticks d, tot_ticks = io_tot_ticks d \<rparr>"

text \<open>The mean time of the requests of one kind, 0 when there was none.\<close>

definition mean_wait :: "u64 \<Rightarrow> u32 \<Rightarrow> dbl" where
  "mean_wait ios ticks = (if ios \<noteq> 0 then dbl_div (dbl_of_u32 ticks) (dbl_of_u64 ios) else dbl_zero)"

definition disk_util :: "dbl \<Rightarrow> nat \<Rightarrow> dbl" where
  "disk_util u used =
     (let v = dbl_div u (dbl_of_int 10) in if used \<noteq> 0 then dbl_div v (dbl_of_int (int used)) else v)"

text \<open>The thirteen columns of the extended statistics, \<open>ioi\<close> the current and \<open>ioj\<close> the previous sample.\<close>

definition ext_columns :: "io_conf \<Rightarrow> u64 \<Rightarrow> io_hdr_stats \<Rightarrow> io_stats \<Rightarrow> io_stats \<Rightarrow> dbl list" where
  "ext_columns cf itv shi ioi ioj =
     (let xds = compute_ext_disk_stats (i_hz cf) (to_disk ioi) (to_disk ioj) itv; r = io_rate cf itv;
          f = dbl_of_int (disk_fctr cf)
      in [r (io_rd_merges ioj) (io_rd_merges ioi), r (io_wr_merges ioj) (io_wr_merges ioi),
          r (io_rd_ios ioj) (io_rd_ios ioi), r (io_wr_ios ioj) (io_wr_ios ioi),
          dbl_div (r (io_rd_sectors ioj) (io_rd_sectors ioi)) f, dbl_div (r (io_wr_sectors ioj) (io_wr_sectors ioi)) f,
          arqsz xds,
          dbl_div (tick_rate cf itv (io_rq_ticks ioj) (io_rq_ticks ioi)) (dbl_of_int 1000),
          await xds,
          mean_wait (io_rd_ios ioi - io_rd_ios ioj) (io_rd_ticks ioi - io_rd_ticks ioj),
          mean_wait (io_wr_ios ioi - io_wr_ios ioj) (io_wr_ticks ioi - io_wr_ticks ioj),
          svctm xds, disk_util (util xds) (hd_used shi)])"

definition write_plain_ext_stat :: "io_conf \<Rightarrow> dbl list \<Rightarrow> string \<Rightarrow> pieces" where
  "write_plain_ext_stat cf v devname =
     (let c = i_colors cf
      in device_label cf devname @ cprintf_f c 8 2 (take 2 v) @ cprintf_f c 7 2 (take 2 (drop 2 v)) @
         cprintf_f c 8 2 (take 4 (drop 4 v)) @ cprintf_f c 7 2 (take 3 (drop 8 v)) @ cprintf_f c 6 2 [v ! 11] @
         cprintf_pc c 6 2 [v ! 12] @ [(File, [LF])])"

definition write_json_ext_stat :: "nat \<Rightarrow> dbl list \<Rightarrow> string \<Rightarrow> pieces" where
  "write_json_ext_stat tab v devname =
     xprintf0 tab (''{'' @ json_fields
       [''disk_device'', ''rrqm'', ''wrqm'', ''r'', ''w'', ''rkB'', ''wkB'', ''avgrq-sz'', ''avgqu-sz'', ''await'',
        ''r_await'', ''w_await'', ''svctm'', ''util'']
       (quoted devname # map (fmt_f 2) v) @ ''}'')"

text \<open>The name of a device with option \<open>-j\<close>, its own name when it has no persistent one.\<close>

definition display_name :: "io_conf \<Rightarrow> sysfs \<Rightarrow> string \<Rightarrow> string outcome" where
  "display_name cf fs name =
     (if io_has cf I_D_PERSIST_NAME
      then obind (get_persistent_name_from_pretty fs (i_persist cf) name) (\<lambda>p.
             Val (case p of None \<Rightarrow> name | Some n \<Rightarrow> n))
      else Val name)"

definition write_ext_stat ::
  "io_conf \<Rightarrow> sysfs \<Rightarrow> u64 \<Rightarrow> io_hdr_stats \<Rightarrow> io_stats \<Rightarrow> io_stats \<Rightarrow> nat \<Rightarrow> pieces outcome" where
  "write_ext_stat cf fs itv shi ioi ioj tab =
     obind (display_name cf fs (hd_name shi)) (\<lambda>devname.
       let v = ext_columns cf itv shi ioi ioj
       in Val (if io_has cf I_D_JSON_OUTPUT then write_json_ext_stat tab v devname
               else write_plain_ext_stat cf v devname))"

text \<open>The sectors since the sample before: a counter below its old value that had 32 bits has wrapped in 32 bits.\<close>

definition sector_diff :: "u64 \<Rightarrow> u64 \<Rightarrow> u64" where
  "sector_diff cur prev = (if cur < prev \<and> prev \<le> 0xffffffff then (cur - prev) AND 0xffffffff else cur - prev)"

definition basic_rates :: "io_conf \<Rightarrow> u64 \<Rightarrow> io_stats \<Rightarrow> io_stats \<Rightarrow> dbl list" where
  "basic_rates cf itv ioi ioj =
     (let r = io_rate cf itv; f = dbl_of_int (disk_fctr cf)
      in [r (io_rd_ios ioj + io_wr_ios ioj) (io_rd_ios ioi + io_wr_ios ioi),
          dbl_div (r (io_rd_sectors ioj) (io_rd_sectors ioi)) f, dbl_div (r (io_wr_sectors ioj) (io_wr_sectors ioi)) f])"

definition basic_totals :: "io_conf \<Rightarrow> io_stats \<Rightarrow> io_stats \<Rightarrow> u64 list" where
  "basic_totals cf ioi ioj =
     [sector_diff (io_rd_sectors ioi) (io_rd_sectors ioj) div of_int (disk_fctr cf),
      sector_diff (io_wr_sectors ioi) (io_wr_sectors ioj) div of_int (disk_fctr cf)]"

definition write_plain_basic_stat :: "io_conf \<Rightarrow> dbl list \<Rightarrow> u64 list \<Rightarrow> string \<Rightarrow> pieces" where
  "write_plain_basic_stat cf v tot devname =
     device_label cf devname @ cprintf_f (i_colors cf) 8 2 (take 1 v) @ cprintf_f (i_colors cf) 12 2 (drop 1 v) @
     cprintf_u64 (i_colors cf) 10 tot @ [(File, [LF])]"

definition write_json_basic_stat :: "nat \<Rightarrow> dbl list \<Rightarrow> u64 list \<Rightarrow> string \<Rightarrow> pieces" where
  "write_json_basic_stat tab v tot devname =
     xprintf0 tab (''{'' @ json_fields
       [''disk_device'', ''tps'', ''kB_read_per_sec'', ''kB_wrtn_per_sec'', ''kB_read'', ''kB_wrtn'']
       (quoted devname # map (fmt_f 2) v @ map show_u64 tot) @ ''}'')"

definition write_basic_stat ::
  "io_conf \<Rightarrow> sysfs \<Rightarrow> u64 \<Rightarrow> io_hdr_stats \<Rightarrow> io_stats \<Rightarrow> io_stats \<Rightarrow> nat \<Rightarrow> pieces outcome" where
  "write_basic_stat cf fs itv shi ioi ioj tab =
     obind (display_name cf fs (hd_name shi)) (\<lambda>devname.
       let v = basic_rates cf itv ioi ioj; tot = basic_totals cf ioi ioj
       in Val (if io_has cf I_D_JSON_OUTPUT then write_json_basic_stat tab v tot devname
               else write_plain_basic_stat cf v tot devname))"

subsection \<open>One report\<close>

text \<open>
  Whether the entry \<open>i\<close> of the table is displayed: with \<open>/proc/diskstats\<close> and names on the command line
  only these; not an unused device, unless asked for; with \<open>-z\<close> none without activity; with \<open>-H\<close>
  groups only.
\<close>

definition displayed :: "io_conf \<Rightarrow> io_run \<Rightarrow> nat \<Rightarrow> bool" where
  "displayed cf rn i =
     (let t = rn_table rn; h = t_hdr t ! i; ioi = t_cur t ! i; ioj = t_prev t ! i; l = listed (rn_dlist rn)
      in hd_used h \<noteq> 0 \<and>
         (snd (rn_dlist rn) = 0 \<or> io_has cf I_F_HAS_SYSFS \<or> hd_name h \<in> set (map dl_name l)) \<and>
         (io_has cf I_D_UNFILTERED \<or> \<not> idle ioi) \<and>
         (\<not> io_has cf I_D_ZERO_OMIT \<or> io_rd_ios ioi \<noteq> io_rd_ios ioj \<or> io_wr_ios ioi \<noteq> io_wr_ios ioj) \<and>
         (\<not> io_has cf I_D_GROUP_TOTAL_ONLY \<or> hd_status h = DISK_GROUP))"

definition write_device :: "io_conf \<Rightarrow> sysfs \<Rightarrow> u64 \<Rightarrow> io_run \<Rightarrow> nat \<Rightarrow> nat \<Rightarrow> pieces outcome" where
  "write_device cf fs itv rn tab i =
     (let t = rn_table rn
      in if io_has cf I_D_EXTENDED then write_ext_stat cf fs itv (t_hdr t ! i) (t_cur t ! i) (t_prev t ! i) tab
         else write_basic_stat cf fs itv (t_hdr t ! i) (t_cur t ! i) (t_prev t ! i) tab)"

text \<open>The flag \<open>next\<close> says that a device was written before.\<close>

fun write_devices :: "io_conf \<Rightarrow> sysfs \<Rightarrow> u64 \<Rightarrow> io_run \<Rightarrow> nat \<Rightarrow> bool \<Rightarrow> nat list \<Rightarrow> pieces outcome" where
  "write_devices cf fs itv rn tab nxt [] = Val []"
| "write_devices cf fs itv rn tab nxt (i # is) =
     (if displayed cf rn i
      then obind (write_device cf fs itv rn tab i) (\<lambda>o1.
           obind (write_devices cf fs itv rn tab True is) (\<lambda>o2.
             Val ((if io_has cf I_D_JSON_OUTPUT \<and> nxt then [(Stdout, '','' @ [LF])] else []) @ o1 @ o2)))
      else write_devices cf fs itv rn tab nxt is)"

definition write_disks :: "io_conf \<Rightarrow> sysfs \<Rightarrow> u64 \<Rightarrow> io_run \<Rightarrow> nat \<Rightarrow> pieces outcome" where
  "write_disks cf fs itv rn tab =
     obind (write_devices cf fs itv rn (Suc tab) False [0..<length (t_hdr (rn_table rn))]) (\<lambda>out.
       Val (write_disk_stat_header cf tab @ out @
            (if io_has cf I_D_JSON_OUTPUT then (Stdout, [LF]) # xprintf tab '']'' else [])))"

text \<open>
  A list of devices shorter than its index, which an earlier run of the command in the same process can
  leave, is taken as read past its end.
\<close>

definition write_stats_iostat :: "io_conf \<Rightarrow> io_reading \<Rightarrow> io_run \<Rightarrow> pieces outcome" where
  "write_stats_iostat cf rd rn =
     (let js = io_has cf I_D_JSON_OUTPUT; tab = (if js then 5 else 4);
          g_itv = get_interval (rn_up_prev rn) (rn_up_cur rn);
          itv = (if 1 < i_cpu_nr cf then get_interval (rn_up0_prev rn) (rn_up0_cur rn) else g_itv)
      in if io_has cf I_D_DISK \<and> \<not> io_has cf I_F_HAS_SYSFS \<and> length (fst (rn_dlist rn)) < snd (rn_dlist rn)
         then Undef OutOfBounds
         else obind (if io_has cf I_D_DISK then write_disks cf (ir_fs rd) itv rn tab else Val []) (\<lambda>disks.
           Val ((if js then xprintf 4 ''{'' else []) @
                (if io_has cf I_D_TIMESTAMP then write_sample_timestamp cf tab (ir_time rd) else []) @
                (if io_has cf I_D_CPU
                 then write_cpu_stat cf (rn_cpu_prev rn ! 0) (rn_cpu_cur rn ! 0) g_itv tab @
                      (if js then (if io_has cf I_D_DISK then [(Stdout, '','')] else []) @ [(Stdout, [LF])] else [])
                 else []) @
                disks @
                (if js then xprintf0 4 ''}'' else [(File, [LF])]))))"

subsection \<open>The loop\<close>

text \<open>\<open>None\<close> from \<open>read_stat_cpu\<close> is its exit.\<close>

definition read_cpu :: "io_conf \<Rightarrow> io_reading \<Rightarrow> io_run \<Rightarrow> io_run outcome" where
  "read_cpu cf rd rn =
     obind (if 1 < i_cpu_nr cf then read_uptime (ucast (i_hz cf)) (ir_uptime rd) 0 else Val (rn_up0_cur rn)) (\<lambda>up0.
       case read_stat_cpu (ir_stat rd) (rn_cpu_cur rn) 2 (rn_up_cur rn) up0 of
         None \<Rightarrow> Undef Exits
       | Some r \<Rightarrow> obind r (\<lambda>(cpus, up, up0).
           Val (rn \<lparr> rn_cpu_cur := cpus, rn_up_cur := up, rn_up0_cur := up0 \<rparr>)))"

definition read_disks :: "io_conf \<Rightarrow> io_reading \<Rightarrow> io_run \<Rightarrow> io_run outcome" where
  "read_disks cf rd rn =
     (let no_list = (snd (rn_dlist rn) = 0); t = rn_table rn;
          diskstats = obind (read_diskstats_stat cf rd no_list (rn_ioc rn) t) (\<lambda>(ioc, t).
                        Val (rn \<lparr> rn_ioc := ioc, rn_table := t \<rparr>))
      in if \<not> no_list
         then (if io_has cf I_F_HAS_DISKSTATS \<and> \<not> io_has cf I_D_PARTITIONS then diskstats
               else if io_has cf I_F_HAS_SYSFS
               then (if length (fst (rn_dlist rn)) < snd (rn_dlist rn) then Undef OutOfBounds
                     else (case read_sysfs_dlist_stat cf rd (rn_dlist rn) t of
                             (l, t) \<Rightarrow> Val (rn \<lparr> rn_dlist := l, rn_table := t \<rparr>)))
               else Val rn)
         else if io_has cf I_F_HAS_DISKSTATS then diskstats
         else if io_has cf I_F_HAS_SYSFS then Val (rn \<lparr> rn_table := read_sysfs_stat cf rd t \<rparr>)
         else Val rn)"

definition take_io_sample :: "io_conf \<Rightarrow> io_reading \<Rightarrow> io_run \<Rightarrow> io_run outcome" where
  "take_io_sample cf rd rn =
     obind (read_cpu cf rd rn) (\<lambda>rn.
     obind (read_disks cf rd rn) (\<lambda>rn.
       Val (if 0 < i_group_nr cf then rn \<lparr> rn_table := compute_device_groups_stats cf (rn_table rn) \<rparr> else rn)))"

definition swap_run :: "io_run \<Rightarrow> io_run" where
  "swap_run rn =
     rn \<lparr> rn_table := swap_samples (rn_table rn), rn_cpu_prev := rn_cpu_cur rn, rn_cpu_cur := rn_cpu_prev rn,
          rn_up_prev := rn_up_cur rn, rn_up_cur := rn_up_prev rn,
          rn_up0_prev := rn_up0_cur rn, rn_up0_cur := rn_up0_prev rn, rn_curr := 1 - rn_curr rn \<rparr>"

definition json_trailer_iostat :: pieces where
  "json_trailer_iostat =
     [(Stdout, replicate 3 TAB @ '']'' @ LF # replicate 2 TAB @ ''}'' @ LF # TAB # '']'' @ LF # ''}}'' @ [LF])]"

text \<open>
  Each element of the last argument is what is read in one turn, the first at once, the others after a
  signal has ended the \<open>pause\<close> of the turn before. The result has the text, what the variables hold
  and whether the loop has ended; when the list is used up the process waits in \<open>pause\<close>.
\<close>

fun io_loop :: "io_conf \<Rightarrow> bool \<Rightarrow> int \<Rightarrow> io_run \<Rightarrow> io_reading list \<Rightarrow> (pieces \<times> io_run \<times> bool) outcome" where
  "io_loop cf skip count rn [] = Val ([], rn, False)"
| "io_loop cf skip count rn (rd # rds) =
     obind (take_io_sample cf rd rn) (\<lambda>rn.
     obind (if skip then Val [] else write_stats_iostat cf rd rn) (\<lambda>o1.
       let count = (if \<not> skip \<and> 0 < count then count - 1 else count);
           sep = (if io_has cf I_D_JSON_OUTPUT
                  then (if count \<noteq> 0 then [(Stdout, '','')] else []) @ [(Stdout, [LF])] else [])
       in if count = 0 then Val (o1 @ sep @ (if io_has cf I_D_JSON_OUTPUT then json_trailer_iostat else []), rn, True)
          else obind (io_loop cf False count (swap_run rn) rds) (\<lambda>(o2, r). Val (o1 @ sep @ o2, r))))"

definition rw_io_stat_loop :: "io_conf \<Rightarrow> int \<Rightarrow> io_run \<Rightarrow> io_reading list \<Rightarrow> (pieces \<times> io_run \<times> bool) outcome" where
  "rw_io_stat_loop cf count rn rds =
     io_loop cf (io_has cf I_D_OMIT_SINCE_BOOT \<and> 0 < i_interval cf) count rn rds"

end
