(* ===== verification/IostatMain.thy ===== *)
theory IostatMain
  imports IostatWrite
begin

text \<open>
  The \<open>iostat\<close> command (\<open>iostat_main\<close>): its options, the devices and groups of its command line, the
  tables it sets up and one run. The command runs in threads of the daemon, so the variables of the file
  keep their values from one run to the next: \<open>io_statics\<close> is what a run finds and leaves.
\<close>

subsection \<open>Counting the disks\<close>

text \<open>
  \<open>get_diskstats_dev_nr\<close>: the locals that a failing \<open>sscanf\<close> leaves as they were are optional values;
  \<open>"%*d %*d %s %lu %*u %*u %*u %lu"\<close> sets the name and the two counters.
\<close>

type_synonym dev_locals = "string option \<times> u64 option \<times> u64 option"

definition scan_dev_line :: "string \<Rightarrow> dev_locals \<Rightarrow> (nat \<times> dev_locals) outcome" where
  "scan_dev_line line v =
     (case v of (nm, rd, wr) \<Rightarrow>
        case scan_int line of None \<Rightarrow> Val (0, v) | Some (_, r) \<Rightarrow>
        case scan_int r of None \<Rightarrow> Val (0, v) | Some (_, r) \<Rightarrow>
        obind (scan_str 128 r) (\<lambda>x. case x of None \<Rightarrow> Val (0, v) | Some (n, r) \<Rightarrow>
          let u = scan_uints 5 r
          in Val (if u = [] then (1, Some n, rd, wr)
                  else if length u < 5 then (2, Some n, Some (u ! 0), wr)
                  else (3, Some n, Some (u ! 0), Some (u ! 4)))))"

definition count_dev_line :: "sysfs \<Rightarrow> bool \<Rightarrow> string \<Rightarrow> nat \<times> dev_locals \<Rightarrow> (nat \<times> dev_locals) outcome" where
  "count_dev_line fs only_used line s =
     (case s of (dev, v) \<Rightarrow>
        obind (scan_dev_line line v) (\<lambda>(i, nm, rd, wr).
          if i = 2 then Val (dev, nm, rd, wr)
          else case nm of
                 None \<Rightarrow> Undef Uninitialised
               | Some n \<Rightarrow>
                   (case is_device fs n True of (ok, n) \<Rightarrow>
                      if \<not> ok then Val (dev, Some n, rd, wr)
                      else if \<not> only_used then Val (Suc dev, Some n, rd, wr)
                      else case (rd, wr) of
                             (Some a, Some b) \<Rightarrow> Val (if a = 0 \<and> b = 0 then dev else Suc dev, Some n, rd, wr)
                           | (Some a, None) \<Rightarrow> if a \<noteq> 0 then Val (Suc dev, Some n, rd, wr) else Undef Uninitialised
                           | _ \<Rightarrow> Undef Uninitialised)))"

fun count_dev_lines :: "sysfs \<Rightarrow> bool \<Rightarrow> string list \<Rightarrow> nat \<times> dev_locals \<Rightarrow> (nat \<times> dev_locals) outcome" where
  "count_dev_lines fs only_used [] s = Val s"
| "count_dev_lines fs only_used (l # ls) s =
     obind (count_dev_line fs only_used l s) (count_dev_lines fs only_used ls)"

definition get_diskstats_dev_nr :: "sysfs \<Rightarrow> bool \<Rightarrow> bool \<Rightarrow> string option \<Rightarrow> nat outcome" where
  "get_diskstats_dev_nr fs count_part only_used file =
     (case file of
        None \<Rightarrow> Val 0
      | Some s \<Rightarrow>
          if count_part then Val (length (fgets_lines 256 s))
          else obind (count_dev_lines fs only_used (fgets_lines 256 s) (0, None, None, None)) (\<lambda>(dev, _). Val dev))"

subsection \<open>The banner\<close>

record uts =
  u_sysname :: string
  u_release :: string
  u_nodename :: string
  u_machine :: string

definition print_gal_header :: "string \<Rightarrow> uts \<Rightarrow> int \<Rightarrow> bool \<Rightarrow> pieces" where
  "print_gal_header cur_date u cpu_nr json =
     (if \<not> json
      then [(File, u_sysname u @ '' '' @ u_release u @ '' ('' @ u_nodename u @ '') '' @ TAB # cur_date @ '' '' @ TAB # ''_'' @
               u_machine u @ ''_'' @ TAB # ''('' @ dec_of_int cpu_nr @ '' CPU)'' @ [LF])]
      else xprintf 0 (''{'' @ quoted ''sysstat'' @ '': {'') @ xprintf 1 (quoted ''hosts'' @ '': ['') @ xprintf 2 ''{'' @
           xprintf 3 (quoted ''nodename'' @ '': '' @ quoted (u_nodename u) @ '','') @
           xprintf 3 (quoted ''sysname'' @ '': '' @ quoted (u_sysname u) @ '','') @
           xprintf 3 (quoted ''release'' @ '': '' @ quoted (u_release u) @ '','') @
           xprintf 3 (quoted ''machine'' @ '': '' @ quoted (u_machine u) @ '','') @
           xprintf 3 (quoted ''number-of-cpus'' @ '': '' @ dec_of_int cpu_nr @ '','') @
           xprintf 3 (quoted ''date'' @ '': '' @ quoted cur_date @ '','') @
           xprintf 3 (quoted ''statistics'' @ '': [''))"

subsection \<open>Options\<close>

record io_opts =
  q_flags :: u32
  q_dlist :: dev_list
  q_group_nr :: nat
  q_group_name :: string
  q_persist :: string
  q_interval :: int
  q_it :: int
  q_count :: int
  q_report :: bool

text \<open>How the command ends before its loop.\<close>

datatype io_stop = IoUsage | IoBadName | IoVersion | IoNoDisks | IoFault ub

definition fault :: "'a outcome \<Rightarrow> io_stop + 'a" where
  "fault m = (case m of Val x \<Rightarrow> Inr x | Undef u \<Rightarrow> Inl (IoFault u))"

lemma fault_simps [simp]: "fault (Val x) = Inr x" "fault (Undef u) = Inl (IoFault u)"
  by (simp_all add: fault_def)

definition set_io :: "u32 \<Rightarrow> io_opts \<Rightarrow> io_opts" where
  "set_io f st = st \<lparr> q_flags := q_flags st OR f \<rparr>"

text \<open>
  The name of a device of the command line. With \<open>-j\<close> it is looked up as a persistent name, and the
  pointer that comes back is used although its array is gone.
\<close>

definition cmd_device :: "sysfs \<Rightarrow> io_opts \<Rightarrow> string \<Rightarrow> string outcome" where
  "cmd_device fs st name =
     (let d = device_name fs name
      in if flag_set (q_flags st) I_D_PERSIST_NAME
         then obind (get_pretty_name_from_persistent fs (q_persist st) d) (\<lambda>p.
                case p of Null \<Rightarrow> Val d | Dangling \<Rightarrow> Undef OutOfBounds)
         else Val d)"

definition add_name :: "string \<Rightarrow> io_opts \<Rightarrow> io_stop + io_opts" where
  "add_name name st = sbind (fault (update_dev_list name (q_dlist st))) (\<lambda>(_, l). Inr (st \<lparr> q_dlist := l \<rparr>))"

definition part_option :: "sysfs \<Rightarrow> string \<Rightarrow> io_opts \<Rightarrow> io_stop + io_opts" where
  "part_option fs t st =
     (if t = ''ALL'' then Inr (set_io I_D_PART_ALL st)
      else sbind (fault (cmd_device fs st t)) (\<lambda>d.
           sbind (fault (update_dev_list d (q_dlist st))) (\<lambda>(i, arr, idx).
             Inr (st \<lparr> q_dlist := (arr[i := (arr ! i) \<lparr> dl_disp_part := True \<rparr>], idx) \<rparr>))))"

definition io_letter :: "char \<Rightarrow> io_opts \<Rightarrow> io_stop + io_opts" where
  "io_letter c st =
     (if c = CHR ''c'' then Inr (set_io I_D_CPU st \<lparr> q_report := True \<rparr>)
      else if c = CHR ''d'' then Inr (set_io I_D_DISK st \<lparr> q_report := True \<rparr>)
      else if c = CHR ''H'' then Inr (set_io I_D_GROUP_TOTAL_ONLY st)
      else if c = CHR ''h'' then Inr (set_io I_D_HUMAN_READ st)
      else if c = CHR ''k'' then (if flag_set (q_flags st) I_D_MEGABYTES then Inl IoUsage else Inr (set_io I_D_KILOBYTES st))
      else if c = CHR ''m'' then (if flag_set (q_flags st) I_D_KILOBYTES then Inl IoUsage else Inr (set_io I_D_MEGABYTES st))
      else if c = CHR ''N'' then Inr (set_io I_D_DEVMAP_NAME st)
      else if c = CHR ''p'' then Inr (set_io (I_D_PARTITIONS + I_D_PART_ALL) st)
      else if c = CHR ''t'' then Inr (set_io I_D_TIMESTAMP st)
      else if c = CHR ''x'' then Inr (set_io I_D_EXTENDED st)
      else if c = CHR ''y'' then Inr (set_io I_D_OMIT_SINCE_BOOT st)
      else if c = CHR ''z'' then Inr (set_io I_D_ZERO_OMIT st)
      else if c = CHR ''V'' then Inl IoVersion
      else Inl IoUsage)"

definition group_option :: "string \<Rightarrow> io_opts \<Rightarrow> io_opts" where
  "group_option name st =
     st \<lparr> q_group_name := take 127 (CHR '' '' # take 126 name), q_group_nr := Suc (q_group_nr st) \<rparr>"

definition name_option :: "sysfs \<Rightarrow> string \<Rightarrow> io_opts \<Rightarrow> io_stop + io_opts" where
  "name_option fs name st =
     (if 255 \<le> length name then Inl IoUsage
      else let type = strtolower name; st = st \<lparr> q_persist := type \<rparr>
           in if get_persistent_type_dir fs type = None then Inl IoBadName
              else Inr (set_io (I_D_PERSIST_NAME + I_D_HUMAN_READ) st))"

text \<open>\<open>atol\<close> of an argument that begins with a digit.\<close>

definition number_option :: "string \<Rightarrow> io_opts \<Rightarrow> io_stop + io_opts" where
  "number_option a st =
     (let v = atol (takeWhile c_isdigit a)
      in if q_it st = 0
         then (if v < 0 then Inl IoUsage else Inr (st \<lparr> q_interval := v, q_count := -1, q_it := 1 \<rparr>))
         else if 0 < q_it st
         then (if v < 1 \<or> q_interval st = 0 then Inl IoUsage else Inr (st \<lparr> q_count := v, q_it := -1 \<rparr>))
         else Inl IoUsage)"

fun io_parse :: "sysfs \<Rightarrow> string list \<Rightarrow> io_opts \<Rightarrow> io_stop + io_opts" where
  "io_parse fs [] st = Inr st"
| "io_parse fs (a # args) st =
     (if a = ''-p''
      then (let st = set_io I_D_PARTITIONS st
            in case args of
                 [] \<Rightarrow> io_parse fs args (set_io I_D_PART_ALL st)
               | v # rest \<Rightarrow>
                   if \<not> only_digits v \<and> \<not> has_prefix ''-'' v
                   then sbind (sfold (part_option fs) (strtok_all (CHR '','') [] v) (set_io I_D_UNFILTERED st)) (io_parse fs rest)
                   else io_parse fs args (set_io I_D_PART_ALL st))
      else if a = ''-g''
      then sbind (if 0 < q_group_nr st then add_name (q_group_name st) st else Inr st) (\<lambda>st.
             case args of [] \<Rightarrow> Inl IoUsage | v # rest \<Rightarrow> io_parse fs rest (group_option v st))
      else if a = ''-j''
      then (case args of [] \<Rightarrow> Inl IoUsage | v # rest \<Rightarrow> sbind (name_option fs v st) (io_parse fs rest))
      else if a = ''-o''
      then (case args of
              [] \<Rightarrow> Inl IoUsage
            | v # rest \<Rightarrow> if v = ''JSON'' then io_parse fs rest (set_io I_D_JSON_OUTPUT st) else Inl IoUsage)
      else if has_prefix ''-'' a
      then sbind (sfold io_letter (tl a) st) (io_parse fs args)
      else if \<not> starts_digit a
      then (let st = set_io I_D_UNFILTERED st
            in if a \<noteq> ''ALL''
               then sbind (fault (cmd_device fs st a)) (\<lambda>d. sbind (add_name d st) (io_parse fs args))
               else io_parse fs args st)
      else sbind (number_option a st) (io_parse fs args))"

subsection \<open>One run\<close>

record io_statics =
  st_flags :: u32
  st_dlist_idx :: nat
  st_group_nr :: nat
  st_group_name :: string
  st_persist :: string
  st_interval :: int
  st_dm_major :: u32
  st_uptime :: "u64 \<times> u64"
  st_uptime0 :: "u64 \<times> u64"
  st_ioc :: ioc_state

definition first_statics :: io_statics where
  "first_statics =
     \<lparr> st_flags = 0, st_dlist_idx = 0, st_group_nr = 0, st_group_name = [], st_persist = [], st_interval = 0,
       st_dm_major = 0, st_uptime = (0, 0), st_uptime0 = (0, 0), st_ioc = ioc_start \<rparr>"

text \<open>What the command finds when it starts; \<open>e_posix\<close> and \<open>e_iso\<close> say what two environment variables ask for.\<close>

record io_env =
  e_s_colors :: "string option"
  e_s_sgr :: "string option"
  e_tty :: bool
  e_ticks :: int
  e_posix :: bool
  e_iso :: bool
  e_date :: "bool \<Rightarrow> string"
  e_sys_cpus :: "(string \<times> bool) list option"
  e_stat :: "string list option"
  e_diskstats :: "string option"
  e_fs :: sysfs
  e_devices :: "string option"
  e_ioconf :: "string option"
  e_uts :: uts

text \<open>The array for the list of devices is allocated anew, its index is not reset.\<close>

definition start_opts :: "string list \<Rightarrow> io_statics \<Rightarrow> io_opts" where
  "start_opts argv s =
     \<lparr> q_flags = st_flags s,
       q_dlist = (if length argv > 1 then salloc_dev_list (length argv - 1 + count_csvalues argv) else [], st_dlist_idx s),
       q_group_nr = st_group_nr s, q_group_name = st_group_name s, q_persist = st_persist s,
       q_interval = st_interval s, q_it = 0, q_count = 1, q_report = False \<rparr>"

definition set_disk_output_unit :: "bool \<Rightarrow> io_opts \<Rightarrow> io_opts" where
  "set_disk_output_unit posix st =
     (if flag_set (q_flags st) I_D_KILOBYTES \<or> flag_set (q_flags st) I_D_MEGABYTES \<or> posix then st
      else set_io I_D_KILOBYTES st)"

definition io_defaults :: "bool \<Rightarrow> io_opts \<Rightarrow> io_stop + io_opts" where
  "io_defaults posix st =
     (let st = (if q_interval st = 0 then st \<lparr> q_count := 1 \<rparr> else st);
          st = (if q_report st then st else set_io (I_D_CPU + I_D_DISK) st);
          st = (if flag_set (q_flags st) I_D_PARTITIONS \<or> flag_set (q_flags st) I_D_EXTENDED \<or>
                   flag_set (q_flags st) I_D_UNFILTERED then set_io I_D_DISK st else st)
      in if flag_set (q_flags st) I_D_GROUP_TOTAL_ONLY \<and> q_group_nr st = 0 then Inl IoUsage
         else let st = set_disk_output_unit posix st
              in Inr (if flag_set (q_flags st) I_D_PART_ALL then st \<lparr> q_dlist := (fst (q_dlist st), 0) \<rparr> else st))"

text \<open>\<open>io_sys_init\<close>: where the counters are, and how many structures are allocated.\<close>

definition NR_DEV_PREALLOC :: nat where
  "NR_DEV_PREALLOC = 4"

definition io_sys_init :: "io_env \<Rightarrow> io_opts \<Rightarrow> io_stop + (io_opts \<times> int \<times> nat)" where
  "io_sys_init env st =
     (case get_cpu_nr False (e_sys_cpus env) (e_stat env) of
        None \<Rightarrow> Inl (IoFault Exits)
      | Some c \<Rightarrow>
          sbind (fault c) (\<lambda>cpu_nr.
          sbind (fault (get_diskstats_dev_nr (e_fs env) True False (e_diskstats env))) (\<lambda>n.
            let st = (if 0 < n then set_io I_F_HAS_DISKSTATS st else st);
                f = q_flags st
            in if \<not> flag_set f I_F_HAS_DISKSTATS \<or> (flag_set f I_D_PARTITIONS \<and> \<not> flag_set f I_D_PART_ALL)
               then (let n = get_sysfs_dev_nr (e_fs env) (flag_set f I_D_PARTITIONS)
                     in if 0 < n then Inr (set_io I_F_HAS_SYSFS st, cpu_nr, n + NR_DEV_PREALLOC + q_group_nr st)
                        else Inl IoNoDisks)
               else Inr (st, cpu_nr, (if 0 < n then n + NR_DEV_PREALLOC else 0) + q_group_nr st))))"

definition iostat_conf :: "io_env \<Rightarrow> io_opts \<Rightarrow> int \<Rightarrow> u32 \<Rightarrow> io_conf" where
  "iostat_conf env st cpu_nr dm_major =
     \<lparr> i_flags = q_flags st, i_hz = get_HZ (e_ticks env),
       i_colors = init_colors (e_s_colors env) (e_s_sgr env) (e_tty env) default_colors,
       i_persist = q_persist st, i_interval = q_interval st, i_cpu_nr = cpu_nr, i_group_nr = q_group_nr st,
       i_dm_major = dm_major, i_ioconf = e_ioconf env \<rparr>"

definition start_run :: "io_statics \<Rightarrow> dev_list \<Rightarrow> io_table \<Rightarrow> io_run" where
  "start_run s l t =
     \<lparr> rn_table = t, rn_dlist = l, rn_ioc = st_ioc s,
       rn_cpu_prev = [zero_cpu, zero_cpu], rn_cpu_cur = [zero_cpu, zero_cpu],
       rn_up_prev = fst (st_uptime s), rn_up_cur = snd (st_uptime s),
       rn_up0_prev = fst (st_uptime0 s), rn_up0_cur = snd (st_uptime0 s), rn_curr = 1 \<rparr>"

text \<open>The variables of the file after the run.\<close>

definition end_statics :: "io_opts \<Rightarrow> u32 \<Rightarrow> io_run \<Rightarrow> io_statics" where
  "end_statics st dm rn =
     (let pair = (\<lambda>p c. if rn_curr rn = 1 then (p, c) else (c, p))
      in \<lparr> st_flags = q_flags st, st_dlist_idx = snd (rn_dlist rn), st_group_nr = q_group_nr st,
           st_group_name = q_group_name st, st_persist = q_persist st, st_interval = q_interval st, st_dm_major = dm,
           st_uptime = pair (rn_up_prev rn) (rn_up_cur rn), st_uptime0 = pair (rn_up0_prev rn) (rn_up0_cur rn),
           st_ioc = rn_ioc rn \<rparr>)"

text \<open>The result has the text, the variables the run leaves, and whether it has ended.\<close>

definition iostat_main ::
  "io_env \<Rightarrow> io_statics \<Rightarrow> string list \<Rightarrow> io_reading list \<Rightarrow> io_stop + (pieces \<times> io_statics \<times> bool)" where
  "iostat_main env s argv rds =
     sbind (io_parse (e_fs env) (tl argv) (start_opts argv s)) (\<lambda>st.
     sbind (io_defaults (e_posix env) st) (\<lambda>st.
       let dm = (if flag_set (q_flags st) I_D_DEVMAP_NAME then get_devmap_major (e_devices env) else st_dm_major s)
       in sbind (io_sys_init env st) (\<lambda>(st, cpu_nr, dev_nr).
          sbind (fault (if 0 < q_group_nr st then presave_device_list (q_group_name st) (q_dlist st) (salloc_device dev_nr)
                        else Val (q_dlist st, salloc_device dev_nr))) (\<lambda>(l, t).
            let js = flag_set (q_flags st) I_D_JSON_OUTPUT;
                header = print_gal_header (e_date env (e_iso env)) (e_uts env) cpu_nr js @ (if js then [] else [(File, [LF])]);
                st = (if e_iso env then set_io I_D_ISO st else st);
                cf = iostat_conf env st cpu_nr dm
            in sbind (fault (rw_io_stat_loop cf (q_count st) (start_run s l t) rds)) (\<lambda>(out, rn, done).
                 Inr (header @ out, end_statics st dm rn, done))))))"

end
