(* ===== verification/IostatProps.thy ===== *)
theory IostatProps
  imports IostatMain
begin

text \<open>
  What holds of \<open>iostat\<close>: the table of devices over the samples, the reading of \<open>/proc/diskstats\<close> as
  the kernel writes it, the sums of groups, the differences of counters that wrap, and the report of
  the run the daemon makes, which leaves the variables of the file as the next run needs them.
\<close>

subsection \<open>Searching the table\<close>

lemma first_index_simps [simp]:
  "first_index P [] = 0" "first_index P (x # xs) = (if P x then 0 else Suc (first_index P xs))"
  by (simp_all add: first_index_def)

lemma first_index_less: "first_index P xs < length xs \<longleftrightarrow> (\<exists>x\<in>set xs. P x)"
  by (induction xs) auto

lemma first_index_nth: "first_index P xs < length xs \<Longrightarrow> P (xs ! first_index P xs)"
  by (induction xs) auto

lemma first_index_none: "\<forall>x\<in>set xs. \<not> P x \<Longrightarrow> first_index P xs = length xs"
  by (induction xs) auto

lemma first_index_append: "\<forall>x\<in>set xs. \<not> P x \<Longrightarrow> first_index P (xs @ ys) = length xs + first_index P ys"
  by (induction xs) auto

subsection \<open>A fresh table\<close>

definition io_entry :: "string \<Rightarrow> io_hdr_stats" where
  "io_entry nm = \<lparr> hd_status = DISK_REGISTERED, hd_used = 1, hd_name = nm \<rparr>"

definition no_entry :: io_hdr_stats where
  "no_entry = \<lparr> hd_status = DISK_UNREGISTERED, hd_used = 0, hd_name = [] \<rparr>"

text \<open>The table that holds the devices \<open>ds\<close>, in order, of \<open>n\<close> entries.\<close>

definition disk_table :: "nat \<Rightarrow> (string \<times> io_stats) list \<Rightarrow> io_table" where
  "disk_table n ds =
     \<lparr> t_hdr = map (io_entry \<circ> fst) ds @ replicate (n - length ds) no_entry,
       t_prev = replicate n zero_io,
       t_cur = map snd ds @ replicate (n - length ds) zero_io \<rparr>"

lemma disk_table_Nil: "salloc_device n = disk_table n []"
  by (simp add: salloc_device_def disk_table_def no_entry_def)

lemma save_fresh:
  assumes "length ds < n" "nm \<noteq> []" "length nm < 128" "nm \<notin> fst ` set ds"
  shows "save_stats nm st (disk_table n ds) = disk_table n (ds @ [(nm, st)])"
proof -
  obtain k where k: "n - length ds = Suc k" using assms(1) by (cases "n - length ds") auto
  let ?es = "map (io_entry \<circ> fst) ds"
  have n: "n = Suc (length ds + k)" using k assms(1) by simp
  have "first_index (\<lambda>h. hd_name h = nm) (?es @ replicate (Suc k) no_entry) = length (?es @ replicate (Suc k) no_entry)"
    using assms(2,4) by (intro first_index_none) (auto simp: io_entry_def no_entry_def image_iff)
  moreover have "first_index (\<lambda>h. hd_used h = 0) (?es @ replicate (Suc k) no_entry) = length ds"
    by (subst first_index_append) (auto simp: io_entry_def no_entry_def replicate.simps)
  moreover have "replicate n zero_io = replicate (length ds) zero_io @ zero_io # replicate k zero_io"
    using n by (simp add: replicate_add [symmetric] replicate_app_Cons_same)
  ultimately show ?thesis using k assms(3)
    by (simp add: save_stats_def store_stats_def disk_table_def Let_def list_update_append nth_append)
       (simp add: io_entry_def no_entry_def n)
qed

lemma save_all_fresh:
  assumes "length ds \<le> n" "distinct (map fst ds)" "\<forall>nm\<in>fst ` set ds. nm \<noteq> [] \<and> length nm < 128"
  shows "fold (\<lambda>d. save_stats (fst d) (snd d)) ds (disk_table n []) = disk_table n ds"
  using assms
proof (induction ds rule: rev_induct)
  case (snoc d ds)
  obtain nm st where d: "d = (nm, st)" by (cases d)
  have "save_stats nm st (disk_table n ds) = disk_table n (ds @ [(nm, st)])"
    using snoc.prems by (intro save_fresh) (auto simp: d)
  with snoc d show ?case by simp
qed simp

lemma disk_table_marks:
  "set_entries_unregistered (disk_table n []) = disk_table n []"
  "free_unregistered_entries (disk_table n ds) = disk_table n ds"
  by (simp_all add: set_entries_unregistered_def free_unregistered_entries_def disk_table_def no_entry_def io_entry_def)

subsection \<open>Reading diskstats\<close>

text \<open>A line of \<open>/proc/diskstats\<close> as the kernel writes it; later kernels put more fields behind.\<close>

record disk_dev =
  dd_major :: u32
  dd_minor :: u32
  dd_name :: string
  dd_stats :: io_stats
  dd_more :: string

definition show_u32 :: "u32 \<Rightarrow> string" where
  "show_u32 w = dec_of_nat (unat w)"

definition io_values :: "io_stats \<Rightarrow> u64 list" where
  "io_values d =
     [io_rd_ios d, io_rd_merges d, io_rd_sectors d, ucast (io_rd_ticks d), io_wr_ios d, io_wr_merges d,
      io_wr_sectors d, ucast (io_wr_ticks d), ucast (io_ios_pgr d), ucast (io_tot_ticks d), ucast (io_rq_ticks d)]"

definition dev_line :: "disk_dev \<Rightarrow> string" where
  "dev_line d =
     pad_left (CHR '' '') 4 (show_u32 (dd_major d)) @ '' '' @ pad_left (CHR '' '') 7 (show_u32 (dd_minor d)) @ '' '' @
     dd_name d @ concat (map (\<lambda>v. '' '' @ show_u64 v) (io_values (dd_stats d))) @ dd_more d"

definition dev_ok :: "disk_dev \<Rightarrow> bool" where
  "dev_ok d \<longleftrightarrow> dd_name d \<noteq> [] \<and> length (dd_name d) < 128 \<and>
     list_all (\<lambda>c. \<not> c_isspace c \<and> c \<noteq> CHR ''/'') (dd_name d) \<and>
     (dd_more d = [] \<or> hd (dd_more d) = CHR '' '') \<and>
     LF \<notin> set (dev_line d) \<and> is_cstring (dev_line d) \<and> length (dev_line d) + 2 \<le> 256"

lemma u32_less: "unat (w :: u32) < 2 ^ 64"
  using unsigned_less [of w, where 'a = nat] by simp

lemma ucast_32_64 [simp]: "ucast (ucast (w :: u32) :: u64) = w"
  by (rule bit_word_eqI) (auto simp: bit_simps)

lemma scan_u32_show [simp]:
  "\<not> starts_digit r \<Longrightarrow> scan_u32 (pad_left (CHR '' '') n (show_u32 w) @ r) = Some (w, r)"
  "\<not> starts_digit r \<Longrightarrow> scan_u32 (CHR '' '' # pad_left (CHR '' '') n (show_u32 w) @ r) = Some (w, r)"
  using u32_less [of w] by (simp_all add: pad_left_def show_u32_def scan_u32_def)

lemma space_is_space [simp]: "c_isspace (CHR '' '')"
  by (simp add: c_isspace_def byte_def)

lemma scan_str_name:
  assumes "nm \<noteq> []" "length nm < n" "list_all (\<lambda>c. \<not> c_isspace c) nm"
  shows "scan_str n (CHR '' '' # nm @ CHR '' '' # r) = Val (Some (nm, CHR '' '' # r))"
proof -
  have "takeWhile (\<lambda>c. \<not> c_isspace c) (nm @ CHR '' '' # r) = nm"
    "dropWhile (\<lambda>c. \<not> c_isspace c) (nm @ CHR '' '' # r) = CHR '' '' # r"
    using assms(3) by (intro takeWhile_append_stop dropWhile_append_stop; simp add: list_all_iff)+
  moreover have "dropWhile c_isspace (nm @ CHR '' '' # r) = nm @ CHR '' '' # r"
    using assms(1,3) by (cases nm) auto
  ultimately show ?thesis using assms(1,2) by (simp add: scan_str_def)
qed

lemma scan_uints_values:
  assumes "\<not> starts_digit r"
  shows "scan_uints (length vs) (concat (map (\<lambda>v. '' '' @ show_u64 v) vs) @ r) = vs"
  using assms
proof (induction vs)
  case (Cons v vs)
  have "\<not> starts_digit (concat (map (\<lambda>v. '' '' @ show_u64 v) vs) @ r)"
    using Cons.prems by (cases vs) simp_all
  with Cons show ?case by simp
qed simp

lemma device_stats_values [simp]: "device_stats (io_values d) = d"
  by (simp add: device_stats_def io_values_def)

lemma io_values_length [simp]: "length (io_values d) = 11"
  by (simp add: io_values_def)

lemma dev_line_fields:
  assumes "dev_ok d"
  shows "diskstats_fields (dev_line d @ [LF]) = Val (Some (dd_major d, dd_minor d, dd_name d, io_values (dd_stats d)))"
proof -
  let ?nums = "concat (map (\<lambda>v. '' '' @ show_u64 v) (io_values (dd_stats d))) @ dd_more d @ [LF]"
  have "\<not> starts_digit (dd_more d @ [LF])"
    using assms by (cases "dd_more d") (auto simp: dev_ok_def)
  then have v: "scan_uints 11 ?nums = io_values (dd_stats d)"
    using scan_uints_values [of "dd_more d @ [LF]" "io_values (dd_stats d)"] by (simp only: io_values_length simp_thms)
  obtain r where r: "?nums = CHR '' '' # r" by (simp add: io_values_def)
  have "scan_str 128 (CHR '' '' # dd_name d @ ?nums) = Val (Some (dd_name d, ?nums))"
    unfolding r using assms by (intro scan_str_name) (auto simp: dev_ok_def list_all_iff)
  moreover have "dev_line d @ [LF] = pad_left (CHR '' '') 4 (show_u32 (dd_major d)) @ CHR '' '' #
      pad_left (CHR '' '') 7 (show_u32 (dd_minor d)) @ CHR '' '' # dd_name d @ ?nums"
    by (simp add: dev_line_def)
  ultimately show ?thesis using v by (simp add: diskstats_fields_def)
qed

text \<open>The flags that keep the reader to whole devices under their own names.\<close>

definition whole :: "sysfs \<Rightarrow> string \<Rightarrow> bool" where
  "whole fs nm = file_exists fs (take 4095 (SYSFS_BLOCK @ ''/'' @ nm))"

definition plain_reader :: "io_conf \<Rightarrow> bool" where
  "plain_reader cf \<longleftrightarrow> \<not> io_has cf I_D_PARTITIONS \<and> \<not> io_has cf I_D_DEVMAP_NAME \<and> i_ioconf cf = None"

definition disks :: "sysfs \<Rightarrow> disk_dev list \<Rightarrow> (string \<times> io_stats) list" where
  "disks fs ds = map (\<lambda>d. (dd_name d, dd_stats d)) (filter (\<lambda>d. whole fs (dd_name d)) ds)"

lemma map_slash_id: "list_all (\<lambda>c. \<not> c_isspace c \<and> c \<noteq> CHR ''/'') nm \<Longrightarrow> map (\<lambda>c. if c = CHR ''/'' then CHR ''!'' else c) nm = nm"
  by (induction nm) auto

lemma dev_line_read:
  assumes "dev_ok d" "plain_reader cf" "\<not> ioc_parsed ioc"
  shows "\<exists>sdev'. read_diskstats_line cf rd True (dev_line d @ [LF]) (sdev, ioc, t) =
    Val (sdev', ioc, if whole (ir_fs rd) (dd_name d) then save_stats (dd_name d) (dd_stats d) t else t)"
proof -
  have "is_device (ir_fs rd) (dd_name d) True = (whole (ir_fs rd) (dd_name d), dd_name d)"
    using assms(1) map_slash_id [of "dd_name d"] by (simp add: is_device_def whole_def dev_ok_def Let_def)
  then have "line_stats cf rd True (dd_name d) (io_values (dd_stats d)) sdev =
      (if whole (ir_fs rd) (dd_name d) then Some (dd_name d, dd_stats d) else None)"
    using assms(2) by (simp add: line_stats_def plain_reader_def)
  moreover have "saved_name cf rd (dd_major d) (dd_minor d) (dd_name d) ioc = Val (dd_name d, ioc)"
    using assms(2,3)
    by (simp add: saved_name_def plain_reader_def ioc_name_def ioc_parse_def ioc_init_def ioc_rename_def)
  ultimately show ?thesis
    using dev_line_fields [OF assms(1)] by (simp add: read_diskstats_line_def)
qed

lemma dev_lines_read:
  assumes "\<forall>d\<in>set ds. dev_ok d" "plain_reader cf" "\<not> ioc_parsed ioc"
  shows "\<exists>sdev'. read_diskstats_lines cf rd True (map (\<lambda>l. l @ [LF]) (map dev_line ds)) (sdev, ioc, t) =
    Val (sdev', ioc, fold (\<lambda>d. save_stats (fst d) (snd d)) (disks (ir_fs rd) ds) t)"
  using assms(1)
proof (induction ds arbitrary: sdev t)
  case (Cons d ds)
  obtain s1 where s1: "read_diskstats_line cf rd True (dev_line d @ [LF]) (sdev, ioc, t) =
      Val (s1, ioc, if whole (ir_fs rd) (dd_name d) then save_stats (dd_name d) (dd_stats d) t else t)"
    using dev_line_read [OF _ assms(2,3)] Cons.prems by fastforce
  then show ?case
    using Cons.IH [of s1 "if whole (ir_fs rd) (dd_name d) then save_stats (dd_name d) (dd_stats d) t else t"] Cons.prems
    by (cases "whole (ir_fs rd) (dd_name d)") (simp_all add: disks_def)
qed (simp add: disks_def)

definition diskstats_file :: "disk_dev list \<Rightarrow> string" where
  "diskstats_file ds = concat (map (\<lambda>l. l @ [LF]) (map dev_line ds))"

lemma diskstats_lines:
  assumes "\<forall>d\<in>set ds. dev_ok d"
  shows "fgets_lines 256 (diskstats_file ds) = map (\<lambda>l. l @ [LF]) (map dev_line ds)"
  unfolding diskstats_file_def using assms by (intro fgets_lines_all) (auto simp: dev_ok_def)

lemma disks_fit:
  assumes "\<forall>d\<in>set ds. dev_ok d" "distinct (map dd_name ds)"
  shows "distinct (map fst (disks fs ds))" "\<forall>nm\<in>fst ` set (disks fs ds). nm \<noteq> [] \<and> length nm < 128"
proof -
  have "map fst (disks fs ds) = map dd_name (filter (\<lambda>d. whole fs (dd_name d)) ds)" by (simp add: disks_def)
  then show "distinct (map fst (disks fs ds))" using assms(2) by (simp add: distinct_map_filter)
  show "\<forall>nm\<in>fst ` set (disks fs ds). nm \<noteq> [] \<and> length nm < 128"
    using assms(1) by (auto simp: disks_def dev_ok_def)
qed

lemma diskstats_read:
  assumes "\<forall>d\<in>set ds. dev_ok d" "distinct (map dd_name ds)" "length (disks (ir_fs rd) ds) \<le> n"
    "plain_reader cf" "\<not> ioc_parsed ioc" "ir_diskstats rd = Some (diskstats_file ds)"
  shows "read_diskstats_stat cf rd True ioc (salloc_device n) = Val (ioc, disk_table n (disks (ir_fs rd) ds))"
proof -
  let ?d = "disks (ir_fs rd) ds"
  obtain sdev' where "read_diskstats_lines cf rd True (map (\<lambda>l. l @ [LF]) (map dev_line ds))
      (ir_stack rd ''/proc/diskstats'', ioc, disk_table n []) =
    Val (sdev', ioc, fold (\<lambda>d. save_stats (fst d) (snd d)) ?d (disk_table n []))"
    using dev_lines_read [OF assms(1,4,5)] by blast
  moreover have "fold (\<lambda>d. save_stats (fst d) (snd d)) ?d (disk_table n []) = disk_table n ?d"
    using disks_fit [OF assms(1,2)] assms(3) by (intro save_all_fresh) auto
  ultimately show ?thesis
    using assms(6) diskstats_lines [OF assms(1)]
    by (simp add: read_diskstats_stat_def disk_table_Nil disk_table_marks Let_def)
qed

subsection \<open>The run of the daemon\<close>

definition proc_stat :: "stats_cpu \<Rightarrow> stats_cpu list \<Rightarrow> string list \<Rightarrow> string list" where
  "proc_stat tot cs others = cpu_all_line tot # map (\<lambda>(n, c). cpu_line n c) (enumerate 0 cs) @ others"

lemma other_cpus_skipped:
  assumes "0 < k" "k + length cs < 2 ^ 31"
  shows "\<exists>p. read_stat_cpu_lines 2 (map (\<lambda>(n, c). cpu_line n c) (enumerate k cs)) s = Val (s \<lparr> proc_nb := p \<rparr>)"
  using assms
proof (induction cs arbitrary: k s)
  case Nil
  have "s = s \<lparr> proc_nb := proc_nb s \<rparr>" by simp
  then show ?case by (metis enumerate_simps(1) list.simps(8) read_stat_cpu_lines.simps(1))
next
  case (Cons c cs)
  have "read_stat_cpu_line 2 (cpu_line k c) s = Val (s \<lparr> proc_nb := Some (int k) \<rparr>)"
    using Cons.prems by (simp add: read_cpu_line store_cpu_def)
  moreover obtain p where
    "read_stat_cpu_lines 2 (map (\<lambda>(n, c). cpu_line n c) (enumerate (Suc k) cs)) (s \<lparr> proc_nb := Some (int k) \<rparr>) =
      Val (s \<lparr> proc_nb := Some (int k), proc_nb := p \<rparr>)"
    using Cons.IH [of "Suc k" "s \<lparr> proc_nb := Some (int k) \<rparr>"] Cons.prems by auto
  ultimately show ?case by auto
qed

lemma two_cpus_read:
  assumes "cs \<noteq> []" "length cs < 2 ^ 31" "length st = 2" "\<forall>l\<in>set others. \<not> has_prefix ''cpu'' l"
  shows "read_stat_cpu (Some (proc_stat tot cs others)) st 2 up up0 =
    Some (Val ([tot, hd cs], cpu_uptime tot, if up0 = 0 then cpu_uptime (hd cs) else up0))"
proof -
  obtain c cs' where cs: "cs = c # cs'" using assms(1) by (cases cs) auto
  obtain a b where st: "st = [a, b]" using assms(3) by (cases st; cases "tl st") auto
  let ?s = "\<lparr> st_cpu = [tot, c], proc_nb = Some 0, uptime = cpu_uptime tot,
    uptime0 = (if up0 = 0 then cpu_uptime c else up0) \<rparr>"
  have "read_stat_cpu_line 2 (cpu_line 0 c) \<lparr> st_cpu = [tot, b], proc_nb = None, uptime = cpu_uptime tot, uptime0 = up0 \<rparr> = Val ?s"
    using read_cpu_line [of 2 0 c] by (simp add: store_cpu_def Let_def)
  moreover obtain p where "read_stat_cpu_lines 2 (map (\<lambda>(n, c). cpu_line n c) (enumerate 1 cs')) ?s = Val (?s \<lparr> proc_nb := p \<rparr>)"
    using other_cpus_skipped [of 1 cs' ?s] assms(2) by (auto simp: cs)
  ultimately show ?thesis
    using assms(4) by (simp add: read_stat_cpu_def proc_stat_def cs st read_all_line read_stat_cpu_append read_other_lines)
qed

definition daemon_flags :: "io_env \<Rightarrow> u32" where
  "daemon_flags env = (if e_iso env then 0x2082A else 0x0082A)"

definition daemon_argv :: "string list" where
  "daemon_argv = [''iostat'', ''-d'', ''-x'', ''-k'']"

text \<open>What the daemon's first run finds, and what its runs leave.\<close>

definition ready :: "io_env \<Rightarrow> io_statics \<Rightarrow> bool" where
  "ready env s \<longleftrightarrow> st_flags s \<in> {0, daemon_flags env} \<and> st_dlist_idx s = 0 \<and> st_group_nr s = 0 \<and> st_persist s = [] \<and>
     st_interval s = 0 \<and> st_dm_major s = 0 \<and> fst (st_uptime s) = 0 \<and> fst (st_uptime0 s) = 0 \<and> \<not> ioc_parsed (st_ioc s)"

lemma first_ready: "ready env first_statics"
  by (simp add: ready_def first_statics_def ioc_start_def)

definition daemon_conf :: "io_env \<Rightarrow> int \<Rightarrow> io_conf" where
  "daemon_conf env cpu_nr =
     \<lparr> i_flags = daemon_flags env, i_hz = get_HZ (e_ticks env),
       i_colors = init_colors (e_s_colors env) (e_s_sgr env) (e_tty env) default_colors,
       i_persist = [], i_interval = 0, i_cpu_nr = cpu_nr, i_group_nr = 0, i_dm_major = 0, i_ioconf = None \<rparr>"

lemma daemon_has [simp]:
  "io_has (daemon_conf env n) I_D_DISK" "io_has (daemon_conf env n) I_D_EXTENDED"
  "io_has (daemon_conf env n) I_D_KILOBYTES" "io_has (daemon_conf env n) I_F_HAS_DISKSTATS"
  "\<not> io_has (daemon_conf env n) I_D_CPU" "\<not> io_has (daemon_conf env n) I_D_TIMESTAMP"
  "\<not> io_has (daemon_conf env n) I_F_HAS_SYSFS" "\<not> io_has (daemon_conf env n) I_D_UNFILTERED"
  "\<not> io_has (daemon_conf env n) I_D_PARTITIONS" "\<not> io_has (daemon_conf env n) I_D_HUMAN_READ"
  "\<not> io_has (daemon_conf env n) I_D_PERSIST_NAME" "\<not> io_has (daemon_conf env n) I_D_OMIT_SINCE_BOOT"
  "\<not> io_has (daemon_conf env n) I_D_JSON_OUTPUT" "\<not> io_has (daemon_conf env n) I_D_DEVMAP_NAME"
  "\<not> io_has (daemon_conf env n) I_D_GROUP_TOTAL_ONLY" "\<not> io_has (daemon_conf env n) I_D_ZERO_OMIT"
  "\<not> io_has (daemon_conf env n) I_D_MEGABYTES"
  by (simp_all add: daemon_conf_def daemon_flags_def flag_set_def io_flag_defs)

lemma daemon_fields [simp]:
  "i_cpu_nr (daemon_conf env n) = n" "i_group_nr (daemon_conf env n) = 0" "i_interval (daemon_conf env n) = 0"
  "i_ioconf (daemon_conf env n) = None"
  by (simp_all add: daemon_conf_def)

definition daemon_opts :: "io_env \<Rightarrow> io_statics \<Rightarrow> io_opts" where
  "daemon_opts env s = start_opts daemon_argv s \<lparr> q_flags := st_flags s OR 0x2A, q_report := True \<rparr>"

lemma daemon_parse:
  assumes "ready env s"
  shows "io_parse fs (tl daemon_argv) (start_opts daemon_argv s) = Inr (daemon_opts env s)"
    "io_defaults posix (daemon_opts env s) = Inr (daemon_opts env s)"
proof -
  have f: "st_flags s = 0 \<or> st_flags s = 0x2082A \<or> st_flags s = 0x0082A"
    using assms by (auto simp: ready_def daemon_flags_def split: if_splits)
  then show "io_parse fs (tl daemon_argv) (start_opts daemon_argv s) = Inr (daemon_opts env s)"
    by (elim disjE) (simp_all add: daemon_argv_def daemon_opts_def start_opts_def io_letter_def set_io_def flag_set_def io_flag_defs)
  show "io_defaults posix (daemon_opts env s) = Inr (daemon_opts env s)"
    using f assms
    by (elim disjE) (simp_all add: io_defaults_def set_disk_output_unit_def daemon_opts_def start_opts_def set_io_def
      flag_set_def io_flag_defs ready_def Let_def)
qed

lemma daemon_init:
  assumes "ready env s" "get_cpu_nr False (e_sys_cpus env) (e_stat env) = Some (Val cpu_nr)"
    "e_diskstats env = Some file" "file \<noteq> []"
  shows "\<exists>st. io_sys_init env (daemon_opts env s) = Inr (st, cpu_nr, length (fgets_lines 256 file) + 4) \<and>
    (if e_iso env then set_io I_D_ISO st else st) = daemon_opts env s \<lparr> q_flags := daemon_flags env \<rparr> \<and>
    st = daemon_opts env s \<lparr> q_flags := q_flags st \<rparr> \<and> \<not> flag_set (q_flags st) I_D_JSON_OUTPUT"
proof -
  have n: "0 < length (fgets_lines 256 file)"
    using assms(4) by (subst fgets_lines.simps) (simp add: fgets_def Let_def)
  have f: "e_iso env \<and> (st_flags s = 0 \<or> st_flags s = 0x2082A) \<or> \<not> e_iso env \<and> (st_flags s = 0 \<or> st_flags s = 0x0082A)"
    using assms(1) by (auto simp: ready_def daemon_flags_def split: if_splits)
  have g: "q_group_nr (daemon_opts env s) = 0" using assms(1) by (simp add: ready_def daemon_opts_def start_opts_def)
  define st where "st = set_io I_F_HAS_DISKSTATS (daemon_opts env s)"
  have fl: "flag_set (q_flags st) I_F_HAS_DISKSTATS" "\<not> flag_set (q_flags st) I_D_PARTITIONS"
    "\<not> flag_set (q_flags st) I_D_JSON_OUTPUT"
    using f by (auto simp: st_def set_io_def daemon_opts_def flag_set_def io_flag_defs)
  have "io_sys_init env (daemon_opts env s) = Inr (st, cpu_nr, length (fgets_lines 256 file) + 4)"
    using assms(2,3) n g fl
    by (simp add: io_sys_init_def get_diskstats_dev_nr_def Let_def NR_DEV_PREALLOC_def flip: st_def)
       (simp add: st_def set_io_def)
  moreover have "(if e_iso env then set_io I_D_ISO st else st) = daemon_opts env s \<lparr> q_flags := daemon_flags env \<rparr>"
    using f by (auto simp: st_def set_io_def daemon_opts_def daemon_flags_def io_flag_defs)
  moreover have "st = daemon_opts env s \<lparr> q_flags := q_flags st \<rparr>" by (simp add: st_def set_io_def)
  ultimately show ?thesis using fl(3) by blast
qed

text \<open>The line of a disk, since the start of the machine.\<close>

definition disk_row :: "io_conf \<Rightarrow> u64 \<Rightarrow> string \<times> io_stats \<Rightarrow> pieces" where
  "disk_row cf itv d = write_plain_ext_stat cf (ext_columns cf itv (io_entry (fst d)) (snd d) zero_io) (fst d)"

lemma table_entries:
  assumes "i < length ds" "length ds \<le> n"
  shows "t_hdr (disk_table n ds) ! i = io_entry (fst (ds ! i))" "t_cur (disk_table n ds) ! i = snd (ds ! i)"
    "t_prev (disk_table n ds) ! i = zero_io"
  using assms by (simp_all add: disk_table_def nth_append)

lemma free_entries:
  assumes "length ds \<le> i" "i < n"
  shows "t_hdr (disk_table n ds) ! i = no_entry"
  using assms by (simp add: disk_table_def nth_append)

lemma table_length [simp]: "length ds \<le> n \<Longrightarrow> length (t_hdr (disk_table n ds)) = n"
  by (simp add: disk_table_def)

lemma write_devices_append:
  "write_devices cf fs itv rn tab nxt (is @ js) =
     obind (write_devices cf fs itv rn tab nxt is) (\<lambda>o1.
       obind (write_devices cf fs itv rn tab (nxt \<or> (\<exists>i\<in>set is. displayed cf rn i)) js) (\<lambda>o2. Val (o1 @ o2)))"
  by (induction "is" arbitrary: nxt) (auto simp: obind_def split: outcome.splits)

lemma no_devices: "\<forall>i\<in>set is. \<not> displayed cf rn i \<Longrightarrow> write_devices cf fs itv rn tab nxt is = Val []"
  by (induction "is") auto

lemma rows_written:
  assumes "rn_table rn = disk_table n ds" "length ds \<le> n" "rn_dlist rn = (arr, 0)" "m \<le> length ds"
  shows "write_devices (daemon_conf env c) fs itv rn tab nxt [0..<m] =
    Val (concat (map (disk_row (daemon_conf env c) itv) (filter (\<lambda>d. \<not> idle (snd d)) (take m ds))))"
  using assms(4)
proof (induction m)
  case (Suc m)
  let ?cf = "daemon_conf env c"
  have m: "m < length ds" using Suc.prems by simp
  note e = table_entries [OF m assms(2)]
  have d: "displayed ?cf rn m \<longleftrightarrow> \<not> idle (snd (ds ! m))"
    using assms(1,3) e by (simp add: displayed_def Let_def listed_def io_entry_def)
  have w: "write_device ?cf fs itv rn tab m = Val (disk_row ?cf itv (ds ! m))"
    using assms(1) e by (simp add: write_device_def write_ext_stat_def display_name_def disk_row_def Let_def io_entry_def)
  show ?case
    using Suc d w by (simp add: write_devices_append take_Suc_conv_app_nth)
qed simp

lemma report_written:
  assumes "rn_table rn = disk_table n ds" "length ds \<le> n" "rn_dlist rn = (arr, 0)"
  shows "write_stats_iostat (daemon_conf env c) rd rn =
    Val ((File, ext_heading (daemon_conf env c)) #
      concat (map (disk_row (daemon_conf env c)
        (if 1 < c then get_interval (rn_up0_prev rn) (rn_up0_cur rn) else get_interval (rn_up_prev rn) (rn_up_cur rn)))
        (filter (\<lambda>d. \<not> idle (snd d)) ds)) @ [(File, [LF])])"
proof -
  let ?cf = "daemon_conf env c"
  have "\<not> displayed ?cf rn i" if "i \<in> set [length ds..<n]" for i
    using assms(1) free_entries [of ds i n] that by (simp add: displayed_def Let_def no_entry_def)
  then have "write_devices ?cf fs itv rn tab nxt [length ds..<n] = Val []" for fs itv tab nxt
    by (intro no_devices) blast
  moreover have "[0..<n] = [0..<length ds] @ [length ds..<n]" using upt_add_eq_append [of 0 "length ds" "n - length ds"] assms(2) by simp
  ultimately show ?thesis
    using rows_written [OF assms order_refl] assms
    by (simp add: write_stats_iostat_def write_disks_def write_devices_append write_disk_stat_header_def Let_def)
qed

definition daemon_interval :: "int \<Rightarrow> u64 \<Rightarrow> stats_cpu \<Rightarrow> stats_cpu list \<Rightarrow> u64" where
  "daemon_interval cpu_nr up tot cs =
     get_interval 0 (if 1 < cpu_nr then (if up = 0 then cpu_uptime (hd cs) else up) else cpu_uptime tot)"

text \<open>
  C19: The disk report of the daemon. Whatever earlier runs of the same command left in the
  variables of the file, iostat -d -x -k on a /proc/diskstats as the kernel writes it prints the
  banner, the heading and one line for each whole disk that has seen a request, in the order of the
  file, with the rates since the machine was started; it ends after this one report and leaves the
  variables as the next run needs them. Up to four disks may have appeared since they were counted.
\<close>

theorem daemon_disk_report:
  assumes "ready env s" "get_cpu_nr False (e_sys_cpus env) (e_stat env) = Some (Val cpu_nr)"
    "e_diskstats env = Some file" "file \<noteq> []" "e_ioconf env = None"
    "\<forall>d\<in>set ds. dev_ok d" "distinct (map dd_name ds)"
    "length (disks (ir_fs rd) ds) \<le> length (fgets_lines 256 file) + 4"
    "ir_diskstats rd = Some (diskstats_file ds)" "ir_stat rd = Some (proc_stat tot cs others)"
    "cs \<noteq> []" "length cs < 2 ^ 31" "\<forall>l\<in>set others. \<not> has_prefix ''cpu'' l"
    "read_uptime (ucast (get_HZ (e_ticks env))) (ir_uptime rd) 0 = Val up"
  shows "\<exists>s'. iostat_main env s daemon_argv [rd] =
      Inr (print_gal_header (e_date env (e_iso env)) (e_uts env) cpu_nr False @ [(File, [LF])] @
           [(File, ext_heading (daemon_conf env cpu_nr))] @
           concat (map (disk_row (daemon_conf env cpu_nr) (daemon_interval cpu_nr up tot cs))
             (filter (\<lambda>d. \<not> idle (snd d)) (disks (ir_fs rd) ds))) @ [(File, [LF])], s', True) \<and>
    ready env s'"
proof -
  let ?cf = "daemon_conf env cpu_nr" and ?n = "length (fgets_lines 256 file) + 4"
    and ?disks = "disks (ir_fs rd) ds"
  obtain st where st: "io_sys_init env (daemon_opts env s) = Inr (st, cpu_nr, ?n)"
    "(if e_iso env then set_io I_D_ISO st else st) = daemon_opts env s \<lparr> q_flags := daemon_flags env \<rparr>"
    "st = daemon_opts env s \<lparr> q_flags := q_flags st \<rparr>" "\<not> flag_set (q_flags st) I_D_JSON_OUTPUT"
    using daemon_init [OF assms(1-4)] by blast
  define arr where "arr = salloc_dev_list (length daemon_argv - 1 + count_csvalues daemon_argv)"
  have o: "q_group_nr (daemon_opts env s) = 0" "q_dlist (daemon_opts env s) = (arr, 0)"
    "q_count (daemon_opts env s) = 1" "q_interval (daemon_opts env s) = 0" "q_persist (daemon_opts env s) = []"
    using assms(1) by (simp_all add: daemon_opts_def start_opts_def ready_def arr_def daemon_argv_def)
  have g: "q_group_nr st = 0" "q_dlist st = (arr, 0)" using o by (subst st(3), simp)+
  have nodm: "\<not> flag_set (q_flags (daemon_opts env s)) I_D_DEVMAP_NAME"
    using assms(1) by (auto simp: ready_def daemon_opts_def daemon_flags_def flag_set_def io_flag_defs split: if_splits)
  have dm: "st_dm_major s = 0" using assms(1) by (simp add: ready_def)
  define rn0 where "rn0 = start_run s (arr, 0) (salloc_device ?n)"
  define up0 where "up0 = (if 1 < cpu_nr then up else rn_up0_cur rn0)"
  define rn where "rn = rn0 \<lparr> rn_cpu_cur := [tot, hd cs], rn_up_cur := cpu_uptime tot,
    rn_up0_cur := (if up0 = 0 then cpu_uptime (hd cs) else up0), rn_table := disk_table ?n ?disks \<rparr>"
  have u: "(if 1 < i_cpu_nr ?cf then read_uptime (ucast (i_hz ?cf)) (ir_uptime rd) 0 else Val (rn_up0_cur rn0)) = Val up0"
    using assms(14) by (simp add: up0_def daemon_conf_def)
  have "length (rn_cpu_cur rn0) = 2" by (simp add: rn0_def start_run_def)
  note two = two_cpus_read [OF assms(11,12) this assms(13), of tot "rn_up_cur rn0" up0]
  have cpu: "read_cpu ?cf rd rn0 = Val (rn0 \<lparr> rn_cpu_cur := [tot, hd cs], rn_up_cur := cpu_uptime tot,
      rn_up0_cur := (if up0 = 0 then cpu_uptime (hd cs) else up0) \<rparr>)"
    unfolding read_cpu_def u obind_simps assms(10) two by simp
  have "plain_reader ?cf" by (simp add: plain_reader_def)
  then have "read_diskstats_stat ?cf rd True (st_ioc s) (salloc_device ?n) = Val (st_ioc s, disk_table ?n ?disks)"
    using assms(1,6-9) by (intro diskstats_read) (simp_all add: ready_def)
  then have smp: "take_io_sample ?cf rd rn0 = Val rn"
    using cpu by (simp add: take_io_sample_def read_disks_def rn_def rn0_def start_run_def Let_def)
  have rn: "rn_table rn = disk_table ?n ?disks" "rn_dlist rn = (arr, 0)" "rn_up_prev rn = 0" "rn_up0_prev rn = 0"
    "rn_up_cur rn = cpu_uptime tot" "rn_up0_cur rn = (if up0 = 0 then cpu_uptime (hd cs) else up0)" "rn_curr rn = 1"
    "rn_ioc rn = st_ioc s"
    using assms(1) by (simp_all add: rn_def rn0_def start_run_def ready_def)
  let ?rep = "(File, ext_heading ?cf) # concat (map (disk_row ?cf (daemon_interval cpu_nr up tot cs))
    (filter (\<lambda>d. \<not> idle (snd d)) ?disks)) @ [(File, [LF])]"
  have "write_stats_iostat ?cf rd rn = Val ?rep"
    using report_written [OF rn(1) assms(8) rn(2), of env cpu_nr rd] rn
    by (auto simp: daemon_interval_def up0_def)
  then have loop: "rw_io_stat_loop ?cf 1 rn0 [rd] = Val (?rep, rn, True)"
    using smp by (simp add: rw_io_stat_loop_def)
  have cf: "iostat_conf env (daemon_opts env s \<lparr> q_flags := daemon_flags env \<rparr>) cpu_nr 0 = ?cf"
    using o assms(5) by (simp add: iostat_conf_def daemon_conf_def)
  let ?s' = "end_statics (daemon_opts env s \<lparr> q_flags := daemon_flags env \<rparr>) 0 rn"
  have "ready env ?s'"
    using assms(1) o rn by (simp add: ready_def end_statics_def Let_def)
  moreover have "iostat_main env s daemon_argv [rd] =
      Inr (print_gal_header (e_date env (e_iso env)) (e_uts env) cpu_nr False @ [(File, [LF])] @ ?rep, ?s', True)"
    using daemon_parse [OF assms(1)] st g o nodm dm loop cf
    by (simp add: iostat_main_def Let_def rn0_def)
  ultimately show ?thesis by (intro exI [of _ ?s']) simp
qed

end
