(* ===== verification/IostatTable.thy ===== *)
theory IostatTable
  imports IostatProps
begin

text \<open>
  The table of devices of \<open>iostat\<close> over its samples: what a sample changes, seen as a finite map from
  names to counters, what happens to a device that goes and comes back, the sums of groups, and what
  the variables of the file do to a second run.
\<close>

subsection \<open>The table as a map\<close>

definition slot :: "io_table \<Rightarrow> string \<Rightarrow> nat" where
  "slot t nm = first_index (\<lambda>h. hd_name h = nm) (t_hdr t)"

definition table_inv :: "io_table \<Rightarrow> bool" where
  "table_inv t \<longleftrightarrow> length (t_prev t) = length (t_hdr t) \<and> length (t_cur t) = length (t_hdr t) \<and>
     (\<forall>i<length (t_hdr t). \<forall>j<length (t_hdr t).
        hd_name (t_hdr t ! i) = hd_name (t_hdr t ! j) \<and> hd_name (t_hdr t ! i) \<noteq> [] \<longrightarrow> i = j) \<and>
     (\<forall>i<length (t_hdr t). hd_name (t_hdr t ! i) = [] \<longrightarrow> hd_used (t_hdr t ! i) = 0)"

text \<open>The counters of a device in the two samples.\<close>

definition entry_of :: "io_table \<Rightarrow> string \<Rightarrow> (io_stats \<times> io_stats) option" where
  "entry_of t nm =
     (let i = slot t nm
      in if i < length (t_hdr t) \<and> hd_used (t_hdr t ! i) \<noteq> 0 then Some (t_prev t ! i, t_cur t ! i) else None)"

definition name_ok :: "string \<Rightarrow> bool" where
  "name_ok nm \<longleftrightarrow> nm \<noteq> [] \<and> length nm < 128"

lemma slot_name: "slot t nm < length (t_hdr t) \<Longrightarrow> hd_name (t_hdr t ! slot t nm) = nm"
  unfolding slot_def by (rule first_index_nth)

lemma slot_less: "i < length (t_hdr t) \<Longrightarrow> hd_name (t_hdr t ! i) = nm \<Longrightarrow> slot t nm < length (t_hdr t)"
  unfolding slot_def first_index_less by (metis nth_mem)

lemma slot_le: "slot t nm \<le> length (t_hdr t)"
  unfolding slot_def first_index_def by (rule length_takeWhile_le)

lemma slot_eq:
  assumes "table_inv t" "i < length (t_hdr t)" "hd_name (t_hdr t ! i) = nm" "nm \<noteq> []"
  shows "slot t nm = i"
  using assms slot_less [OF assms(2,3)] slot_name [of t nm] unfolding table_inv_def by metis

lemma slot_none: "\<forall>i<length (t_hdr t). hd_name (t_hdr t ! i) \<noteq> nm \<Longrightarrow> slot t nm = length (t_hdr t)"
  using slot_name slot_le by (metis le_neq_implies_less)

text \<open>The two steps of \<open>save_stats\<close>: an unused entry is claimed, the counters are stored.\<close>

definition claim :: "nat \<Rightarrow> string \<Rightarrow> io_table \<Rightarrow> io_table" where
  "claim j nm t =
     t \<lparr> t_hdr := (t_hdr t)[j := (t_hdr t ! j) \<lparr> hd_used := 1, hd_name := take 127 nm \<rparr>],
         t_prev := (t_prev t)[j := zero_io] \<rparr>"

definition unused :: "io_table \<Rightarrow> nat" where
  "unused t = first_index (\<lambda>h. hd_used h = 0) (t_hdr t)"

lemma save_stats_steps:
  "save_stats nm st t =
     (if slot t nm < length (t_hdr t) then store_stats (slot t nm) st t
      else if unused t < length (t_hdr t) then store_stats (unused t) st (claim (unused t) nm t) else t)"
  by (simp add: save_stats_def slot_def unused_def claim_def Let_def)

lemma store_hdr [simp]:
  "length (t_hdr (store_stats i st t)) = length (t_hdr t)" "t_prev (store_stats i st t) = t_prev t"
  "t_cur (store_stats i st t) = (t_cur t)[i := st]"
  by (simp_all add: store_stats_def Let_def)

lemma store_nth:
  "t_hdr (store_stats i st t) ! k =
     (if k = i \<and> i < length (t_hdr t) \<and> hd_status (t_hdr t ! i) = DISK_UNREGISTERED
      then (t_hdr t ! i) \<lparr> hd_status := DISK_REGISTERED \<rparr> else t_hdr t ! k)"
proof -
  have "t_hdr (store_stats i st t) = (t_hdr t)[i :=
      (if hd_status (t_hdr t ! i) = DISK_UNREGISTERED then (t_hdr t ! i) \<lparr> hd_status := DISK_REGISTERED \<rparr> else t_hdr t ! i)]"
    by (simp add: store_stats_def Let_def)
  then show ?thesis by (cases "k = i"; cases "i < length (t_hdr t)") (simp_all add: not_less list_update_beyond)
qed

lemma store_entry:
  "hd_name (t_hdr (store_stats i st t) ! k) = hd_name (t_hdr t ! k)"
  "hd_used (t_hdr (store_stats i st t) ! k) = hd_used (t_hdr t ! k)"
  "k < length (t_hdr t) \<Longrightarrow> hd_status (t_hdr (store_stats i st t) ! k) =
     (if k = i \<and> hd_status (t_hdr t ! i) = DISK_UNREGISTERED then DISK_REGISTERED else hd_status (t_hdr t ! k))"
  by (simp_all add: store_nth)

lemma slot_cong:
  assumes "length (t_hdr t') = length (t_hdr t)" "\<And>k. k < length (t_hdr t) \<Longrightarrow> hd_name (t_hdr t' ! k) = hd_name (t_hdr t ! k)"
  shows "slot t' nm = slot t nm"
proof -
  have "map hd_name (t_hdr t') = map hd_name (t_hdr t)" using assms by (intro nth_equalityI) simp_all
  moreover have "slot t nm = first_index (\<lambda>x. x = nm) (map hd_name (t_hdr t))" for t
    by (simp add: slot_def first_index_def takeWhile_map comp_def)
  ultimately show ?thesis by simp
qed

lemma store_slot [simp]: "slot (store_stats i st t) nm = slot t nm"
  by (rule slot_cong) (simp_all add: store_entry)

lemma store_inv: "table_inv t \<Longrightarrow> table_inv (store_stats i st t)"
  unfolding table_inv_def store_hdr store_entry length_list_update by (elim conjE) (intro conjI; assumption)

lemma store_map:
  assumes "table_inv t" "i < length (t_hdr t)"
  shows "entry_of (store_stats i st t) nm =
    (if slot t nm = i then map_option (\<lambda>(p, _). (p, st)) (entry_of t nm) else entry_of t nm)"
  using assms by (auto simp: entry_of_def Let_def store_entry table_inv_def)

lemma claim_entry:
  assumes "j < length (t_hdr t)" "name_ok nm"
  shows "length (t_hdr (claim j nm t)) = length (t_hdr t)"
    "t_hdr (claim j nm t) ! k = (if k = j then (t_hdr t ! j) \<lparr> hd_used := 1, hd_name := nm \<rparr> else t_hdr t ! k)"
    "t_prev (claim j nm t) = (t_prev t)[j := zero_io]" "t_cur (claim j nm t) = t_cur t"
  using assms by (auto simp: claim_def name_ok_def)

lemma claim_inv:
  assumes "table_inv t" "j < length (t_hdr t)" "name_ok nm" "slot t nm = length (t_hdr t)"
  shows "table_inv (claim j nm t)"
proof -
  have "hd_name (t_hdr t ! i) \<noteq> nm" if "i < length (t_hdr t)" for i using slot_less [OF that] assms(4) by auto
  then show ?thesis using assms(1-3)
    unfolding table_inv_def claim_entry [OF assms(2,3)] by (auto simp: name_ok_def)
qed

lemma claim_slot:
  assumes "table_inv t" "j < length (t_hdr t)" "name_ok nm" "slot t nm = length (t_hdr t)" "x \<noteq> []"
  shows "slot (claim j nm t) x = (if x = nm then j else if slot t x = j then length (t_hdr t) else slot t x)"
proof -
  note e = claim_entry [OF assms(2,3)] and inv = claim_inv [OF assms(1-4)]
  show ?thesis
  proof (cases "x = nm")
    case True
    then show ?thesis using slot_eq [OF inv, of j x] assms(2,5) e by simp
  next
    case False
    show ?thesis
    proof (cases "slot t x < length (t_hdr t) \<and> slot t x \<noteq> j")
      case True
      then show ?thesis using slot_eq [OF inv, of "slot t x" x] slot_name [of t x] e assms(5) \<open>x \<noteq> nm\<close> by simp
    next
      case none: False
      have "hd_name (t_hdr (claim j nm t) ! i) \<noteq> x" if "i < length (t_hdr t)" for i
        using slot_eq [OF assms(1) that _ assms(5)] that none \<open>x \<noteq> nm\<close> by (auto simp: e)
      then have "slot (claim j nm t) x = length (t_hdr t)" using slot_none [of "claim j nm t" x] e(1) by simp
      then show ?thesis using none \<open>x \<noteq> nm\<close> slot_le [of t x] by auto
    qed
  qed
qed

lemma claim_map:
  assumes "table_inv t" "j < length (t_hdr t)" "hd_used (t_hdr t ! j) = 0" "name_ok nm" "slot t nm = length (t_hdr t)" "x \<noteq> []"
  shows "entry_of (claim j nm t) x = (if x = nm then Some (zero_io, t_cur t ! j) else entry_of t x)"
  using assms claim_slot [OF assms(1,2,4,5,6)] claim_entry [OF assms(2,4)]
  by (auto simp: entry_of_def Let_def table_inv_def)

text \<open>Whether the entry of a name is marked as seen in this sample.\<close>

definition seen :: "io_table \<Rightarrow> string \<Rightarrow> bool" where
  "seen t nm \<longleftrightarrow> slot t nm < length (t_hdr t) \<and> hd_status (t_hdr t ! slot t nm) \<noteq> DISK_UNREGISTERED"

definition spare :: "io_table \<Rightarrow> nat" where
  "spare t = length (filter (\<lambda>h. hd_used h = 0) (t_hdr t))"

definition known_name :: "io_table \<Rightarrow> string \<Rightarrow> bool" where
  "known_name t nm \<longleftrightarrow> slot t nm < length (t_hdr t)"

lemma unused_less: "0 < spare t \<longleftrightarrow> unused t < length (t_hdr t)"
  unfolding unused_def first_index_less spare_def by (simp add: filter_empty_conv)

lemma unused_free: "unused t < length (t_hdr t) \<Longrightarrow> hd_used (t_hdr t ! unused t) = 0"
  unfolding unused_def by (rule first_index_nth)

lemma store_seen:
  assumes "slot t nm < length (t_hdr t)" "x \<noteq> nm"
  shows "seen (store_stats (slot t nm) st t) x = seen t x" "seen (store_stats (slot t nm) st t) nm"
proof -
  have "slot t x \<noteq> slot t nm" if "slot t x < length (t_hdr t)" using slot_name that assms by metis
  then show "seen (store_stats (slot t nm) st t) x = seen t x" by (auto simp: seen_def store_entry)
  show "seen (store_stats (slot t nm) st t) nm" using assms by (simp add: seen_def store_entry)
qed

lemma save_known:
  assumes "table_inv t" "name_ok nm" "known_name t nm"
  shows "table_inv (save_stats nm st t)" "length (t_hdr (save_stats nm st t)) = length (t_hdr t)"
    "entry_of (save_stats nm st t) nm = map_option (\<lambda>(p, _). (p, st)) (entry_of t nm)"
    "x \<noteq> nm \<Longrightarrow> entry_of (save_stats nm st t) x = entry_of t x"
    "seen (save_stats nm st t) nm" "x \<noteq> nm \<Longrightarrow> seen (save_stats nm st t) x = seen t x"
    "known_name (save_stats nm st t) x = known_name t x" "spare (save_stats nm st t) = spare t"
proof -
  have s: "save_stats nm st t = store_stats (slot t nm) st t" "slot t nm < length (t_hdr t)"
    using assms(3) by (simp_all add: save_stats_steps known_name_def)
  have ne: "slot t x \<noteq> slot t nm" if "x \<noteq> nm"
    using slot_name [of t x] slot_name [of t nm] s(2) that by metis
  show "table_inv (save_stats nm st t)" using assms(1) s by (simp add: store_inv)
  show "length (t_hdr (save_stats nm st t)) = length (t_hdr t)" by (simp add: s)
  show "entry_of (save_stats nm st t) nm = map_option (\<lambda>(p, _). (p, st)) (entry_of t nm)"
    unfolding s(1) store_map [OF assms(1) s(2)] by simp
  show "x \<noteq> nm \<Longrightarrow> entry_of (save_stats nm st t) x = entry_of t x"
    unfolding s(1) store_map [OF assms(1) s(2)] using ne by simp
  show "seen (save_stats nm st t) nm" unfolding s(1) using s(2) by (simp add: seen_def store_entry)
  show "x \<noteq> nm \<Longrightarrow> seen (save_stats nm st t) x = seen t x" unfolding s(1) using store_seen [OF s(2)] by simp
  show "known_name (save_stats nm st t) x = known_name t x" by (simp add: s known_name_def)
  have "map hd_used (t_hdr (save_stats nm st t)) = map hd_used (t_hdr t)"
    by (intro nth_equalityI) (simp_all add: s store_entry)
  moreover have "spare t = length (filter (\<lambda>u. u = 0) (map hd_used (t_hdr t)))" for t
    by (simp add: spare_def filter_map comp_def)
  ultimately show "spare (save_stats nm st t) = spare t" by (simp only:)
qed

lemma spare_claim:
  assumes "j < length (t_hdr t)" "hd_used (t_hdr t ! j) = 0" "name_ok nm"
  shows "Suc (spare (claim j nm t)) = spare t"
proof -
  obtain xs h ys where t: "t_hdr t = xs @ h # ys" "length xs = j" using id_take_nth_drop [OF assms(1)] assms(1) by (metis length_take min.absorb4)
  then have "hd_used h = 0" using assms(2) by (metis nth_append_length)
  with t show ?thesis by (simp add: spare_def claim_def list_update_append)
qed

lemma save_new:
  assumes "table_inv t" "name_ok nm" "\<not> known_name t nm" "0 < spare t"
  shows "table_inv (save_stats nm st t)" "length (t_hdr (save_stats nm st t)) = length (t_hdr t)"
    "entry_of (save_stats nm st t) nm = Some (zero_io, st)"
    "x \<noteq> [] \<Longrightarrow> x \<noteq> nm \<Longrightarrow> entry_of (save_stats nm st t) x = entry_of t x"
    "seen (save_stats nm st t) nm"
    "x \<noteq> [] \<Longrightarrow> x \<noteq> nm \<Longrightarrow> seen (save_stats nm st t) x \<Longrightarrow> seen t x"
    "x \<noteq> [] \<Longrightarrow> x \<noteq> nm \<Longrightarrow> entry_of t x \<noteq> None \<Longrightarrow> seen (save_stats nm st t) x = seen t x"
    "x \<noteq> [] \<Longrightarrow> x \<noteq> nm \<Longrightarrow> known_name (save_stats nm st t) x \<Longrightarrow> known_name t x"
    "Suc (spare (save_stats nm st t)) = spare t"
proof -
  let ?j = "unused t" and ?t = "claim (unused t) nm t"
  have j: "?j < length (t_hdr t)" "hd_used (t_hdr t ! ?j) = 0" using assms(4) unused_less unused_free by blast+
  have none: "slot t nm = length (t_hdr t)" using assms(3) slot_le [of t nm] by (simp add: known_name_def)
  note e = claim_entry [OF j(1) assms(2)] and inv = claim_inv [OF assms(1) j(1) assms(2) none]
    and sl = claim_slot [OF assms(1) j(1) assms(2) none] and mp = claim_map [OF assms(1) j assms(2) none]
  have nm: "nm \<noteq> []" using assms(2) by (simp add: name_ok_def)
  have s: "save_stats nm st t = store_stats ?j st ?t" using none j(1) by (simp add: save_stats_steps)
  have sj: "slot ?t nm = ?j" using sl [OF nm] by simp
  have k: "known_name ?t nm" using sj e(1) j(1) by (simp add: known_name_def)
  have ss: "save_stats nm st t = save_stats nm st ?t" using k sj s by (simp add: save_stats_steps known_name_def)
  note kn = save_known [OF inv assms(2) k, where st = st, folded ss]
  show "table_inv (save_stats nm st t)" by (rule kn)
  show "length (t_hdr (save_stats nm st t)) = length (t_hdr t)" using kn(2) e(1) by simp
  show "entry_of (save_stats nm st t) nm = Some (zero_io, st)" using kn(3) mp [OF nm] by simp
  show "x \<noteq> [] \<Longrightarrow> x \<noteq> nm \<Longrightarrow> entry_of (save_stats nm st t) x = entry_of t x" using kn(4) [of x] mp by simp
  show "seen (save_stats nm st t) nm" by (rule kn)
  have seen: "seen ?t x \<Longrightarrow> seen t x" "entry_of t x \<noteq> None \<Longrightarrow> seen ?t x = seen t x" if "x \<noteq> []" "x \<noteq> nm" for x
    using sl [OF that(1)] that(2) e j by (auto simp: seen_def entry_of_def Let_def split: if_splits)
  show "x \<noteq> [] \<Longrightarrow> x \<noteq> nm \<Longrightarrow> seen (save_stats nm st t) x \<Longrightarrow> seen t x" using kn(6) [of x] seen(1) by simp
  show "x \<noteq> [] \<Longrightarrow> x \<noteq> nm \<Longrightarrow> entry_of t x \<noteq> None \<Longrightarrow> seen (save_stats nm st t) x = seen t x"
    using kn(6) [of x] seen(2) by simp
  show "x \<noteq> [] \<Longrightarrow> x \<noteq> nm \<Longrightarrow> known_name (save_stats nm st t) x \<Longrightarrow> known_name t x"
    using kn(7) [of x] sl [of x] e(1) by (auto simp: known_name_def split: if_splits)
  show "Suc (spare (save_stats nm st t)) = spare t" using kn(8) spare_claim [OF j assms(2)] by simp
qed

subsection \<open>One sample\<close>

text \<open>What a sample of the counters \<open>ds\<close> makes of the table.\<close>

definition sampled :: "(string \<times> io_stats) list \<Rightarrow> io_table \<Rightarrow> io_table" where
  "sampled ds t =
     free_unregistered_entries (fold (\<lambda>d. save_stats (fst d) (snd d)) ds (set_entries_unregistered t))"

text \<open>There is room for the new devices, and none of the devices has a freed entry under its name.\<close>

definition no_ghosts :: "(string \<times> io_stats) list \<Rightarrow> io_table \<Rightarrow> bool" where
  "no_ghosts ds t \<longleftrightarrow> (\<forall>d\<in>set ds. known_name t (fst d) \<longrightarrow> entry_of t (fst d) \<noteq> None)"

definition room :: "(string \<times> io_stats) list \<Rightarrow> io_table \<Rightarrow> bool" where
  "room ds t \<longleftrightarrow> length (filter (\<lambda>d. \<not> known_name t (fst d)) ds) \<le> spare t"

definition merged :: "(string \<times> io_stats) list \<Rightarrow> io_table \<Rightarrow> string \<Rightarrow> (io_stats \<times> io_stats) option" where
  "merged ds t x =
     (case map_of ds x of
        None \<Rightarrow> entry_of t x
      | Some st \<Rightarrow> Some (case entry_of t x of None \<Rightarrow> zero_io | Some (p, _) \<Rightarrow> p, st))"

lemma entry_known: "entry_of t x \<noteq> None \<Longrightarrow> known_name t x"
  by (auto simp: entry_of_def known_name_def Let_def split: if_splits)

lemma save_step:
  assumes "table_inv t" "name_ok nm" "known_name t nm \<longrightarrow> entry_of t nm \<noteq> None" "known_name t nm \<or> 0 < spare t"
  shows "table_inv (save_stats nm st t)"
    "x \<noteq> [] \<Longrightarrow> entry_of (save_stats nm st t) x = merged [(nm, st)] t x"
    "seen (save_stats nm st t) nm"
    "x \<noteq> [] \<Longrightarrow> x \<noteq> nm \<Longrightarrow> entry_of t x \<noteq> None \<Longrightarrow> seen (save_stats nm st t) x = seen t x"
    "(if known_name t nm then spare (save_stats nm st t) else Suc (spare (save_stats nm st t))) = spare t"
    "x \<noteq> [] \<Longrightarrow> known_name (save_stats nm st t) x \<Longrightarrow> known_name t x \<or> x = nm"
proof -
  note k = save_known [OF assms(1,2)] and n = save_new [OF assms(1,2)]
  show "table_inv (save_stats nm st t)" "seen (save_stats nm st t) nm" using assms(4) k(1,5) n(1,5) by blast+
  show "x \<noteq> [] \<Longrightarrow> entry_of (save_stats nm st t) x = merged [(nm, st)] t x"
  proof (cases "known_name t nm")
    case True
    then show ?thesis using k(3,4) [OF True] assms(3) by (auto simp: merged_def)
  next
    case False
    then have "entry_of t nm = None" using entry_known by blast
    then show "x \<noteq> [] \<Longrightarrow> ?thesis" using n(3,4) [OF False] False assms(4) by (auto simp: merged_def)
  qed
  show "x \<noteq> [] \<Longrightarrow> x \<noteq> nm \<Longrightarrow> entry_of t x \<noteq> None \<Longrightarrow> seen (save_stats nm st t) x = seen t x"
    using assms(4) k(6) n(7) by blast
  show "(if known_name t nm then spare (save_stats nm st t) else Suc (spare (save_stats nm st t))) = spare t"
    using assms(4) k(8) n(9) by auto
  show "x \<noteq> [] \<Longrightarrow> known_name (save_stats nm st t) x \<Longrightarrow> known_name t x \<or> x = nm"
    using assms(4) k(7) n(8) by blast
qed

lemma save_all:
  assumes "table_inv t" "\<forall>d\<in>set ds. name_ok (fst d)" "distinct (map fst ds)" "no_ghosts ds t" "room ds t"
  defines "t' \<equiv> fold (\<lambda>d. save_stats (fst d) (snd d)) ds t"
  shows "table_inv t'" "x \<noteq> [] \<Longrightarrow> entry_of t' x = merged ds t x"
    "x \<noteq> [] \<Longrightarrow> x \<in> fst ` set ds \<Longrightarrow> seen t' x"
    "x \<noteq> [] \<Longrightarrow> x \<notin> fst ` set ds \<Longrightarrow> entry_of t x \<noteq> None \<Longrightarrow> seen t' x = seen t x"
proof -
  have "table_inv t' \<and> (\<forall>x. x \<noteq> [] \<longrightarrow> entry_of t' x = merged ds t x \<and> (x \<in> fst ` set ds \<longrightarrow> seen t' x) \<and>
      (x \<notin> fst ` set ds \<longrightarrow> entry_of t x \<noteq> None \<longrightarrow> seen t' x = seen t x))"
    using assms(1-5) unfolding t'_def
  proof (induction ds arbitrary: t)
    case Nil
    then show ?case by (simp add: merged_def)
  next
    case (Cons d ds)
    obtain nm st where d: "d = (nm, st)" by (cases d)
    have nm: "name_ok nm" "nm \<noteq> []" using Cons.prems(2) by (auto simp: d name_ok_def)
    have c: "known_name t nm \<longrightarrow> entry_of t nm \<noteq> None" "known_name t nm \<or> 0 < spare t"
      using Cons.prems(4,5) by (auto simp: d no_ghosts_def room_def split: if_splits)
    note step = save_step [OF Cons.prems(1) nm(1) c, where st = st]
    let ?t = "save_stats nm st t"
    have fresh: "x \<noteq> nm \<and> x \<noteq> []" if "(x, s) \<in> set ds" for x s
      using Cons.prems(2,3) that by (force simp: d name_ok_def)
    have e: "entry_of ?t x = entry_of t x" if "(x, s) \<in> set ds" for x s
      using step(2) [of x] fresh [OF that] by (simp add: merged_def)
    have kn: "known_name ?t x = known_name t x" if "(x, s) \<in> set ds" for x s
      using step(6) [of x] fresh [OF that] e [OF that] Cons.prems(4) that entry_known by (fastforce simp: no_ghosts_def)
    have g: "no_ghosts ds ?t" using Cons.prems(4) e kn by (fastforce simp: no_ghosts_def)
    have "filter (\<lambda>d. \<not> known_name ?t (fst d)) ds = filter (\<lambda>d. \<not> known_name t (fst d)) ds"
      using kn by (intro filter_cong) auto
    then have r: "room ds ?t" using Cons.prems(5) step(5) by (simp add: room_def d split: if_splits)
    have IH: "table_inv (fold (\<lambda>d. save_stats (fst d) (snd d)) ds ?t) \<and> (\<forall>x. x \<noteq> [] \<longrightarrow>
        entry_of (fold (\<lambda>d. save_stats (fst d) (snd d)) ds ?t) x = merged ds ?t x \<and>
        (x \<in> fst ` set ds \<longrightarrow> seen (fold (\<lambda>d. save_stats (fst d) (snd d)) ds ?t) x) \<and>
        (x \<notin> fst ` set ds \<longrightarrow> entry_of ?t x \<noteq> None \<longrightarrow> seen (fold (\<lambda>d. save_stats (fst d) (snd d)) ds ?t) x = seen ?t x))"
      using Cons.prems(2,3) g r step(1) by (intro Cons.IH) auto
    have m: "merged ds ?t x = merged (d # ds) t x" if "x \<noteq> []" for x
    proof (cases "x = nm")
      case True
      then have "map_of ds x = None" using Cons.prems(3) by (simp add: d map_of_eq_None_iff)
      then show ?thesis using True step(2) [OF that] by (simp add: d merged_def)
    next
      case False
      then have "entry_of ?t x = entry_of t x" using step(2) [OF that] by (simp add: merged_def)
      with False show ?thesis by (simp add: d merged_def split: option.split)
    qed
    have n: "nm \<notin> fst ` set ds" using Cons.prems(3) by (auto simp: d)
    have "seen (fold (\<lambda>d. save_stats (fst d) (snd d)) ds ?t) nm"
      using IH n nm(2) step(2) [OF nm(2)] step(3) by (simp add: merged_def)
    moreover have "seen (fold (\<lambda>d. save_stats (fst d) (snd d)) ds ?t) x = seen t x"
      if "x \<noteq> []" "x \<notin> fst ` set (d # ds)" "entry_of t x \<noteq> None" for x
      using IH that step(2) [OF that(1)] step(4) [of x] by (simp add: d merged_def)
    ultimately show ?case using IH m by (auto simp: d)
  qed
  then show "table_inv t'" "x \<noteq> [] \<Longrightarrow> entry_of t' x = merged ds t x"
    "x \<noteq> [] \<Longrightarrow> x \<in> fst ` set ds \<Longrightarrow> seen t' x"
    "x \<noteq> [] \<Longrightarrow> x \<notin> fst ` set ds \<Longrightarrow> entry_of t x \<noteq> None \<Longrightarrow> seen t' x = seen t x"
    by blast+
qed

lemma unregister_hdr:
  "length (t_hdr (set_entries_unregistered t)) = length (t_hdr t)"
  "k < length (t_hdr t) \<Longrightarrow> t_hdr (set_entries_unregistered t) ! k =
     (if hd_status (t_hdr t ! k) = DISK_REGISTERED then (t_hdr t ! k) \<lparr> hd_status := DISK_UNREGISTERED \<rparr> else t_hdr t ! k)"
  "t_prev (set_entries_unregistered t) = t_prev t" "t_cur (set_entries_unregistered t) = t_cur t"
  by (simp_all add: set_entries_unregistered_def)

lemma free_hdr:
  "length (t_hdr (free_unregistered_entries t)) = length (t_hdr t)"
  "k < length (t_hdr t) \<Longrightarrow> t_hdr (free_unregistered_entries t) ! k =
     (if hd_status (t_hdr t ! k) = DISK_UNREGISTERED then (t_hdr t ! k) \<lparr> hd_used := 0 \<rparr> else t_hdr t ! k)"
  "t_prev (free_unregistered_entries t) = t_prev t" "t_cur (free_unregistered_entries t) = t_cur t"
  by (simp_all add: free_unregistered_entries_def)

lemma unregister_entries:
  "slot (set_entries_unregistered t) x = slot t x" "entry_of (set_entries_unregistered t) x = entry_of t x"
  "known_name (set_entries_unregistered t) x = known_name t x" "spare (set_entries_unregistered t) = spare t"
proof -
  show s: "slot (set_entries_unregistered t) x = slot t x" for x
    by (rule slot_cong) (simp_all add: unregister_hdr)
  show "entry_of (set_entries_unregistered t) x = entry_of t x"
    by (auto simp: entry_of_def s unregister_hdr Let_def split: if_splits)
  show "known_name (set_entries_unregistered t) x = known_name t x" by (simp add: known_name_def s unregister_hdr)
  have "hd_used (if hd_status h = DISK_REGISTERED then h \<lparr> hd_status := DISK_UNREGISTERED \<rparr> else h) = hd_used h" for h :: io_hdr_stats
    by simp
  then show "spare (set_entries_unregistered t) = spare t"
    by (simp add: spare_def set_entries_unregistered_def filter_map comp_def)
qed

lemma unregister_inv: "table_inv t \<Longrightarrow> table_inv (set_entries_unregistered t)"
proof -
  assume i: "table_inv t"
  have "hd_name (t_hdr (set_entries_unregistered t) ! k) = hd_name (t_hdr t ! k)"
    "hd_used (t_hdr (set_entries_unregistered t) ! k) = hd_used (t_hdr t ! k)" if "k < length (t_hdr t)" for k
    using that by (simp_all add: unregister_hdr)
  with i show ?thesis unfolding table_inv_def unregister_hdr by metis
qed

lemma free_slot [simp]: "slot (free_unregistered_entries t) x = slot t x"
  by (rule slot_cong) (simp_all add: free_hdr)

lemma free_inv: "table_inv t \<Longrightarrow> table_inv (free_unregistered_entries t)"
proof -
  assume i: "table_inv t"
  have "hd_name (t_hdr (free_unregistered_entries t) ! k) = hd_name (t_hdr t ! k)"
    "hd_used (t_hdr t ! k) = 0 \<longrightarrow> hd_used (t_hdr (free_unregistered_entries t) ! k) = 0" if "k < length (t_hdr t)" for k
    using that by (simp_all add: free_hdr)
  with i show ?thesis unfolding table_inv_def free_hdr by metis
qed

lemma free_map: "entry_of (free_unregistered_entries t) x = (if seen t x then entry_of t x else None)"
  by (auto simp: entry_of_def seen_def free_hdr Let_def)

definition no_groups :: "io_table \<Rightarrow> bool" where
  "no_groups t \<longleftrightarrow> (\<forall>h\<in>set (t_hdr t). hd_status h \<noteq> DISK_GROUP)"

lemma unregister_seen: "no_groups t \<Longrightarrow> \<not> seen (set_entries_unregistered t) x"
proof -
  assume g: "no_groups t"
  have "hd_status (t_hdr t ! k) \<noteq> DISK_GROUP" if "k < length (t_hdr t)" for k
    using g that by (simp add: no_groups_def)
  then have "hd_status (t_hdr (set_entries_unregistered t) ! k) = DISK_UNREGISTERED" if "k < length (t_hdr t)" for k
    using that by (cases "hd_status (t_hdr t ! k)") (simp_all add: unregister_hdr)
  then show ?thesis by (simp add: seen_def unregister_entries unregister_hdr)
qed

lemma sample_map:
  assumes "table_inv t" "no_groups t" "\<forall>d\<in>set ds. name_ok (fst d)" "distinct (map fst ds)" "no_ghosts ds t" "room ds t"
    "x \<noteq> []"
  shows "table_inv (sampled ds t) \<and>
    entry_of (sampled ds t) x =
      (case map_of ds x of
         None \<Rightarrow> None
       | Some st \<Rightarrow> Some (case entry_of t x of None \<Rightarrow> zero_io | Some (prev, _) \<Rightarrow> prev, st))"
proof -
  let ?u = "set_entries_unregistered t"
  have u: "table_inv ?u" "no_ghosts ds ?u" "room ds ?u"
    using assms(1,5,6) by (simp_all add: unregister_inv no_ghosts_def room_def unregister_entries)
  note s = save_all [OF u(1) assms(3,4) u(2,3)]
  let ?t = "fold (\<lambda>d. save_stats (fst d) (snd d)) ds ?u"
  have "merged ds ?u x = merged ds t x" by (simp only: merged_def unregister_entries)
  then have "entry_of (sampled ds t) x = (if seen ?t x then merged ds t x else None)"
    using s(2) [OF assms(7)] by (simp only: sampled_def free_map)
  moreover have "seen ?t x" if "map_of ds x \<noteq> None"
  proof -
    have "x \<in> fst ` set ds" using that by (simp add: map_of_eq_None_iff)
    then show ?thesis by (rule s(3) [OF assms(7)])
  qed
  moreover have "\<not> seen ?t x \<or> merged ds t x = None" if "map_of ds x = None"
  proof (cases "entry_of t x")
    case (Some e)
    have "x \<notin> fst ` set ds" using that by (simp add: map_of_eq_None_iff)
    then have "seen ?t x = seen ?u x" using s(4) [OF assms(7)] Some by (simp add: unregister_entries)
    then show ?thesis using unregister_seen [OF assms(2)] by simp
  next
    case None
    then show ?thesis using that by (simp add: merged_def)
  qed
  ultimately have "entry_of (sampled ds t) x =
      (case map_of ds x of None \<Rightarrow> None | Some st \<Rightarrow> Some (case entry_of t x of None \<Rightarrow> zero_io | Some (prev, _) \<Rightarrow> prev, st))"
    by (cases "map_of ds x") (auto simp: merged_def)
  moreover have "table_inv (sampled ds t)" unfolding sampled_def using s(1) by (rule free_inv)
  ultimately show ?thesis by blast
qed

text \<open>
  C20: The table of devices is a map from names to the counters of two samples. A sample replaces
  the current counters of every device it read, keeps those of the sample before, takes zero for a
  device that is new, and drops every device it did not read, as long as there is room for the new
  ones and none of the devices was dropped before under the same name.
\<close>

theorem sample_refines_map:
  assumes "table_inv t" "no_groups t" "\<forall>d\<in>set ds. name_ok (fst d)" "distinct (map fst ds)" "no_ghosts ds t" "room ds t"
    "x \<noteq> []"
  shows "table_inv (sampled ds t) \<and>
    entry_of (sampled ds t) x =
      (case map_of ds x of
         None \<Rightarrow> None
       | Some st \<Rightarrow> Some (case entry_of t x of None \<Rightarrow> zero_io | Some (prev, _) \<Rightarrow> prev, st))"
  by (rule sample_map [OF assms])

lemma reader_samples:
  assumes "\<forall>d\<in>set ds. dev_ok d" "plain_reader cf" "\<not> ioc_parsed ioc" "ir_diskstats rd = Some (diskstats_file ds)"
  shows "read_diskstats_stat cf rd True ioc t = Val (ioc, sampled (disks (ir_fs rd) ds) t)"
proof -
  obtain sdev' where "read_diskstats_lines cf rd True (map (\<lambda>l. l @ [LF]) (map dev_line ds))
      (ir_stack rd ''/proc/diskstats'', ioc, set_entries_unregistered t) =
    Val (sdev', ioc, fold (\<lambda>d. save_stats (fst d) (snd d)) (disks (ir_fs rd) ds) (set_entries_unregistered t))"
    using dev_lines_read [OF assms(1-3)] by blast
  then show ?thesis
    using assms(4) diskstats_lines [OF assms(1)] by (simp add: read_diskstats_stat_def sampled_def)
qed

subsection \<open>A device that comes back\<close>

text \<open>As long as no new device appears no entry changes its name, and none becomes used.\<close>

lemma save_known_used:
  assumes "known_name t nm"
  shows "length (t_hdr (save_stats nm st t)) = length (t_hdr t)"
    "hd_name (t_hdr (save_stats nm st t) ! k) = hd_name (t_hdr t ! k)"
    "hd_used (t_hdr (save_stats nm st t) ! k) = hd_used (t_hdr t ! k)"
    "known_name (save_stats nm st t) x = known_name t x"
  using assms by (simp_all add: save_stats_steps known_name_def store_entry)

lemma saves_known_used:
  assumes "\<forall>d\<in>set ds. known_name t (fst d)"
  shows "length (t_hdr (fold (\<lambda>d. save_stats (fst d) (snd d)) ds t)) = length (t_hdr t) \<and>
    (\<forall>k. hd_name (t_hdr (fold (\<lambda>d. save_stats (fst d) (snd d)) ds t) ! k) = hd_name (t_hdr t ! k) \<and>
         hd_used (t_hdr (fold (\<lambda>d. save_stats (fst d) (snd d)) ds t) ! k) = hd_used (t_hdr t ! k))"
  using assms by (induction ds arbitrary: t) (simp_all add: save_known_used)

lemma sample_known_used:
  assumes "\<forall>d\<in>set ds. known_name t (fst d)" "k < length (t_hdr t)"
  shows "length (t_hdr (sampled ds t)) = length (t_hdr t)" "hd_name (t_hdr (sampled ds t) ! k) = hd_name (t_hdr t ! k)"
    "hd_used (t_hdr t ! k) = 0 \<Longrightarrow> hd_used (t_hdr (sampled ds t) ! k) = 0"
proof -
  let ?u = "set_entries_unregistered t"
  have "\<forall>d\<in>set ds. known_name ?u (fst d)" using assms(1) by (simp add: unregister_entries)
  note u = saves_known_used [OF this]
  show "length (t_hdr (sampled ds t)) = length (t_hdr t)"
    using u by (simp add: sampled_def free_hdr unregister_hdr)
  show "hd_name (t_hdr (sampled ds t) ! k) = hd_name (t_hdr t ! k)"
    "hd_used (t_hdr t ! k) = 0 \<Longrightarrow> hd_used (t_hdr (sampled ds t) ! k) = 0"
    using u assms(2) by (auto simp: sampled_def free_hdr unregister_hdr)
qed

lemma swap_hdr [simp]: "t_hdr (swap_samples t) = t_hdr t"
  by (simp add: swap_samples_def)


subsection \<open>Counters that wrap\<close>

text \<open>
  The sectors since the sample before are counted right when a counter wraps, on a kernel that
  counts in 32 bits as on one that counts in 64, as long as fewer than 2 to the 32 sectors went by.
\<close>

lemma sectors_counted:
  assumes "a \<le> b" "b - a < 2 ^ 32"
  shows "sector_diff (of_nat (b mod 2 ^ 32)) (of_nat (a mod 2 ^ 32)) = of_nat (b - a) \<and>
    (b < 2 ^ 64 \<longrightarrow> sector_diff (of_nat b) (of_nat a) = of_nat (b - a))"
proof -
  define d where "d = b - a"
  have b: "b = a + d" and d: "d < 2 ^ 32" using assms by (simp_all add: d_def)
  define y where "y = a mod 2 ^ 32"
  have y: "y < 2 ^ 32" by (simp add: y_def)
  have x: "b mod 2 ^ 32 = (if y + d < 2 ^ 32 then y + d else y + d - 2 ^ 32)"
  proof -
    have "b mod 2 ^ 32 = (y + d) mod 2 ^ 32" by (simp add: b y_def mod_add_left_eq)
    then show ?thesis using y d by (simp add: mod_if)
  qed
  have less: "(of_nat m < (of_nat n :: u64)) = (m < n)" "(of_nat m \<le> (0xffffffff :: u64)) = (m \<le> 0xffffffff)"
    if "m < 2 ^ 64" "n < 2 ^ 64" for m n
    using that by (simp_all add: word_less_nat_alt word_le_nat_alt unsigned_of_nat take_bit_nat_eq_self)
  have msk: "(0xffffffff :: u64) = mask 32" by (simp add: mask_eq_exp_minus_1)
  have "sector_diff (of_nat (b mod 2 ^ 32)) (of_nat y) = of_nat d"
  proof (cases "y + d < 2 ^ 32")
    case True
    then have "b mod 2 ^ 32 = y + d" by (simp only: x if_True)
    then show ?thesis using True y less [of "y + d" y] unfolding sector_diff_def by (simp only:) simp
  next
    case False
    then have xd: "b mod 2 ^ 32 = y + d - 2 ^ 32" by (simp only: x if_False)
    have lt: "(of_nat (y + d - 2 ^ 32) :: u64) < of_nat y" using False y d less [of "y + d - 2 ^ 32" y] by simp
    have "(of_nat (y + d - 2 ^ 32) :: u64) = of_nat y + of_nat d - 2 ^ 32"
      using False by (simp add: of_nat_diff)
    then have "(of_nat (y + d - 2 ^ 32) :: u64) - of_nat y = of_nat d - 2 ^ 32" by simp
    moreover have "take_bit 32 (of_nat d - 2 ^ 32 :: u64) = of_nat d"
    proof -
      have "of_nat d - 2 ^ 32 = (of_nat (d + 2 ^ 32 * (2 ^ 32 - 1)) :: u64)" by simp
      also have "take_bit 32 \<dots> = of_nat (take_bit 32 (d + 2 ^ 32 * (2 ^ 32 - 1)))" by (rule take_bit_of_nat)
      also have "take_bit 32 (d + 2 ^ 32 * (2 ^ 32 - 1)) = d" using d by (simp only: take_bit_eq_mod mod_mult_self2 mod_less)
      finally show ?thesis .
    qed
    moreover have "of_nat y \<le> (0xffffffff :: u64)" using y less(2) [of y y] by simp
    ultimately show ?thesis using lt
      unfolding sector_diff_def xd by (simp only: msk take_bit_eq_mask [symmetric] if_True conj_absorb simp_thms)
  qed
  moreover have "sector_diff (of_nat b) (of_nat a) = of_nat d" if "b < 2 ^ 64"
    using that less(1) [of b a] by (simp add: sector_diff_def b)
  ultimately show ?thesis by (simp add: y_def d_def)
qed

subsection \<open>Sums of groups\<close>

type_synonym group_state = "io_stats \<times> nat \<times> io_table"

definition group_step :: "io_conf \<Rightarrow> nat \<Rightarrow> group_state \<Rightarrow> group_state" where
  "group_step cf i s =
     (case s of (g, nr, t) \<Rightarrow>
        let h = t_hdr t ! i; ioi = t_cur t ! i
        in if hd_used h \<noteq> 0 \<and> hd_status h = DISK_REGISTERED
           then (if \<not> io_has cf I_D_UNFILTERED \<and> idle ioi then (g, nr, t) else (add_io g ioi, Suc nr, t))
           else if hd_status h = DISK_GROUP
           then (let t = save_stats (hd_name h) g t
                 in (zero_io, 0, t \<lparr> t_hdr := (t_hdr t)[i := (t_hdr t ! i) \<lparr> hd_used := nr \<rparr>] \<rparr>))
           else (g, nr, t))"

lemma group_loop_fold: "group_loop cf is g nr t = snd (snd (fold (group_step cf) is (g, nr, t)))"
  by (induction cf "is" g nr t rule: group_loop.induct) (auto simp: group_step_def Let_def)

definition is_group :: "io_table \<Rightarrow> nat \<Rightarrow> bool" where
  "is_group t i \<longleftrightarrow> hd_status (t_hdr t ! i) = DISK_GROUP"

definition is_disk :: "io_table \<Rightarrow> nat \<Rightarrow> bool" where
  "is_disk t i \<longleftrightarrow> hd_used (t_hdr t ! i) \<noteq> 0 \<and> hd_status (t_hdr t ! i) = DISK_REGISTERED"

text \<open>The disks of the indices that count for their group.\<close>

definition counted :: "io_conf \<Rightarrow> io_table \<Rightarrow> nat list \<Rightarrow> io_stats list" where
  "counted cf t is =
     filter (\<lambda>d. io_has cf I_D_UNFILTERED \<or> \<not> idle d) (map (\<lambda>i. t_cur t ! i) (filter (is_disk t) is))"

lemma disks_summed:
  "\<forall>i\<in>set is. \<not> is_group t i \<Longrightarrow>
   fold (group_step cf) is (g, nr, t) = (fold (\<lambda>d g. add_io g d) (counted cf t is) g, nr + length (counted cf t is), t)"
proof (induction "is" arbitrary: g nr)
  case (Cons i "is")
  have "group_step cf i (g, nr, t) =
      (if is_disk t i \<and> (io_has cf I_D_UNFILTERED \<or> \<not> idle (t_cur t ! i))
       then (add_io g (t_cur t ! i), Suc nr, t) else (g, nr, t))"
    using Cons.prems by (auto simp: group_step_def is_group_def is_disk_def Let_def)
  then show ?case using Cons by (auto simp: counted_def)
qed (simp add: counted_def)

text \<open>What the step of another entry leaves of an entry.\<close>

definition same_entry :: "nat \<Rightarrow> io_table \<Rightarrow> io_table \<Rightarrow> bool" where
  "same_entry k t t' \<longleftrightarrow> t_hdr t' ! k = t_hdr t ! k \<and> t_cur t' ! k = t_cur t ! k"

definition same_frame :: "io_table \<Rightarrow> io_table \<Rightarrow> bool" where
  "same_frame t t' \<longleftrightarrow> length (t_hdr t') = length (t_hdr t) \<and> length (t_cur t') = length (t_cur t) \<and>
     length (t_prev t') = length (t_prev t) \<and>
     (\<forall>k<length (t_hdr t). hd_name (t_hdr t' ! k) = hd_name (t_hdr t ! k) \<and>
        hd_status (t_hdr t' ! k) = hd_status (t_hdr t ! k))"

lemma group_entry_step:
  assumes "table_inv t" "i < length (t_hdr t)" "is_group t i" "hd_name (t_hdr t ! i) \<noteq> []"
  shows "\<exists>t'. group_step cf i (g, nr, t) = (zero_io, 0, t') \<and> same_frame t t' \<and>
    (\<forall>k<length (t_hdr t). k \<noteq> i \<longrightarrow> same_entry k t t') \<and> t_cur t' ! i = g \<and> hd_used (t_hdr t' ! i) = nr"
proof -
  have s: "slot t (hd_name (t_hdr t ! i)) = i" using assms by (intro slot_eq) auto
  have sv: "save_stats (hd_name (t_hdr t ! i)) g t = store_stats i g t" using s assms(2) by (simp add: save_stats_steps)
  have len: "length (t_cur t) = length (t_hdr t)" using assms(1) by (simp add: table_inv_def)
  let ?u = "store_stats i g t"
  let ?t = "?u \<lparr> t_hdr := (t_hdr ?u)[i := (t_hdr ?u ! i) \<lparr> hd_used := nr \<rparr>] \<rparr>"
  have h: "t_hdr ?u ! k = t_hdr t ! k" for k using assms(3) by (auto simp: store_nth is_group_def)
  have "group_step cf i (g, nr, t) = (zero_io, 0, ?t)"
    using assms(3) sv by (simp add: group_step_def is_group_def Let_def)
  moreover have "same_frame t ?t" using assms(2) h by (auto simp: same_frame_def nth_list_update)
  moreover have "\<forall>k<length (t_hdr t). k \<noteq> i \<longrightarrow> same_entry k t ?t" using h by (simp add: same_entry_def)
  moreover have "t_cur ?t ! i = g" "hd_used (t_hdr ?t ! i) = nr" using assms(2) len by simp_all
  ultimately show ?thesis by blast
qed

lemma frame_inv:
  assumes "table_inv t" "same_frame t t'" "\<forall>k<length (t_hdr t). hd_name (t_hdr t ! k) = [] \<longrightarrow> hd_used (t_hdr t' ! k) = 0"
  shows "table_inv t'"
  using assms unfolding table_inv_def same_frame_def by metis

definition groups_named :: "io_table \<Rightarrow> bool" where
  "groups_named t \<longleftrightarrow> (\<forall>i<length (t_hdr t). is_group t i \<longrightarrow> hd_name (t_hdr t ! i) \<noteq> [])"

lemma group_steps_frame:
  assumes "table_inv t" "groups_named t" "\<forall>i\<in>set is. i < length (t_hdr t)"
  shows "\<exists>g' nr' t'. fold (group_step cf) is (g, nr, t) = (g', nr', t') \<and> table_inv t' \<and> same_frame t t' \<and>
    (\<forall>k<length (t_hdr t). k \<notin> set is \<or> \<not> is_group t k \<longrightarrow> same_entry k t t') \<and>
    (is \<noteq> [] \<and> is_group t (last is) \<longrightarrow> g' = zero_io \<and> nr' = 0)"
  using assms
proof (induction "is" rule: rev_induct)
  case Nil
  then show ?case by (simp add: same_frame_def same_entry_def)
next
  case (snoc i "is")
  then obtain g' nr' t' where IH: "fold (group_step cf) is (g, nr, t) = (g', nr', t')" "table_inv t'" "same_frame t t'"
    "\<forall>k<length (t_hdr t). k \<notin> set is \<or> \<not> is_group t k \<longrightarrow> same_entry k t t'" by auto
  have i: "i < length (t_hdr t)" "i < length (t_hdr t')" "is_group t' i = is_group t i"
    "hd_name (t_hdr t' ! i) = hd_name (t_hdr t ! i)"
    using snoc.prems(3) IH(3) by (auto simp: same_frame_def is_group_def)
  show ?case
  proof (cases "is_group t i")
    case True
    obtain t2 where t2: "group_step cf i (g', nr', t') = (zero_io, 0, t2)" "same_frame t' t2"
      "\<forall>k<length (t_hdr t'). k \<noteq> i \<longrightarrow> same_entry k t' t2"
      using group_entry_step [OF IH(2) i(2)] i True snoc.prems(2) unfolding groups_named_def by metis
    have "\<forall>k<length (t_hdr t'). hd_name (t_hdr t' ! k) = [] \<longrightarrow> hd_used (t_hdr t2 ! k) = 0"
    proof (intro allI impI)
      fix k assume k: "k < length (t_hdr t')" "hd_name (t_hdr t' ! k) = []"
      then have "k \<noteq> i" using i True snoc.prems(2) by (auto simp: groups_named_def)
      then have "t_hdr t2 ! k = t_hdr t' ! k" using t2(3) k(1) by (simp add: same_entry_def)
      then show "hd_used (t_hdr t2 ! k) = 0" using IH(2) k by (simp add: table_inv_def)
    qed
    then have "table_inv t2" by (rule frame_inv [OF IH(2) t2(2)])
    moreover have "same_frame t t2" using IH(3) t2(2) by (simp add: same_frame_def)
    moreover have "same_entry k t t2" if "k < length (t_hdr t)" "k \<notin> set (is @ [i]) \<or> \<not> is_group t k" for k
      using IH(3,4) t2(3) that True by (auto simp: same_entry_def same_frame_def)
    ultimately show ?thesis using IH(1) t2(1) by simp
  next
    case False
    then have "\<exists>g2 nr2. group_step cf i (g', nr', t') = (g2, nr2, t')"
      using i(3) by (auto simp: group_step_def is_group_def Let_def)
    then show ?thesis using IH False by auto
  qed
qed

text \<open>
  The counters of a group are the sums, each at its width, of those of the disks between the group
  before it and the group itself, of the disks that have seen a request unless idle disks are
  displayed too; the entry of the group has the number of these disks, and the disks keep their
  counters.
\<close>

lemma group_totals:
  assumes "table_inv t" "groups_named t" "i < length (t_hdr t)" "is_group t i" "k \<le> i"
    "k = 0 \<or> is_group t (k - 1)" "\<forall>j\<in>{k..<i}. \<not> is_group t j"
  shows "t_cur (compute_device_groups_stats cf t) ! i = fold (\<lambda>d g. add_io g d) (counted cf t [k..<i]) zero_io \<and>
    hd_used (t_hdr (compute_device_groups_stats cf t) ! i) = length (counted cf t [k..<i]) \<and>
    (\<forall>j\<in>{k..<i}. t_cur (compute_device_groups_stats cf t) ! j = t_cur t ! j)"
proof -
  let ?n = "length (t_hdr t)" and ?step = "fold (group_step cf)"
  have k: "\<forall>j\<in>set [0..<k]. j < ?n" using assms(3,5) by auto
  obtain g1 nr1 t1 where t1: "?step [0..<k] (zero_io, 0, t) = (g1, nr1, t1)" "table_inv t1" "same_frame t t1"
    "\<forall>j<?n. j \<notin> set [0..<k] \<or> \<not> is_group t j \<longrightarrow> same_entry j t t1"
    "[0..<k] \<noteq> [] \<and> is_group t (last [0..<k]) \<longrightarrow> g1 = zero_io \<and> nr1 = 0"
    using group_steps_frame [OF assms(1,2) k, of cf zero_io 0] by blast
  have z: "g1 = zero_io" "nr1 = 0"
    using t1(1,5) assms(6) by (cases "k = 0"; simp add: last_conv_nth)+
  have same: "same_entry j t t1" if "k \<le> j" "j < ?n" for j using t1(4) that by simp
  have len1: "length (t_hdr t1) = ?n" using t1(3) by (simp add: same_frame_def)
  have e: "t_hdr t1 ! j = t_hdr t ! j" "t_cur t1 ! j = t_cur t ! j" if "j \<in> {k..i}" for j
    using same that assms(3) by (auto simp: same_entry_def)
  have c: "counted cf t1 [k..<i] = counted cf t [k..<i]"
  proof -
    have "filter (is_disk t1) [k..<i] = filter (is_disk t) [k..<i]" using e by (intro filter_cong) (auto simp: is_disk_def)
    moreover have "map (\<lambda>j. t_cur t1 ! j) (filter (is_disk t) [k..<i]) = map (\<lambda>j. t_cur t ! j) (filter (is_disk t) [k..<i])"
      using e by (intro map_cong) auto
    ultimately show ?thesis by (simp only: counted_def)
  qed
  let ?g = "fold (\<lambda>d g. add_io g d) (counted cf t [k..<i]) zero_io" and ?nr = "length (counted cf t [k..<i])"
  have "\<forall>j\<in>set [k..<i]. \<not> is_group t1 j" using assms(7) e by (simp add: is_group_def)
  then have s2: "?step [k..<i] (zero_io, 0, t1) = (?g, ?nr, t1)" by (simp add: disks_summed c)
  have gi: "is_group t1 i" "hd_name (t_hdr t1 ! i) \<noteq> []" "i < length (t_hdr t1)"
    using assms(2-5) e [of i] len1 by (simp_all add: is_group_def groups_named_def)
  obtain t2 where t2: "group_step cf i (?g, ?nr, t1) = (zero_io, 0, t2)" "same_frame t1 t2"
    "\<forall>j<length (t_hdr t1). j \<noteq> i \<longrightarrow> same_entry j t1 t2" "t_cur t2 ! i = ?g" "hd_used (t_hdr t2 ! i) = ?nr"
    using group_entry_step [OF t1(2) gi(3,1,2)] by blast
  have fr: "same_frame t t2" using t1(3) t2(2) by (simp add: same_frame_def)
  have gn: "groups_named t2" using assms(2) fr by (simp add: groups_named_def same_frame_def is_group_def)
  have "\<forall>j<length (t_hdr t1). hd_name (t_hdr t1 ! j) = [] \<longrightarrow> hd_used (t_hdr t2 ! j) = 0"
    using t1(2) t2(3) gi(2) by (auto simp: table_inv_def same_entry_def)
  then have inv2: "table_inv t2" by (rule frame_inv [OF t1(2) t2(2)])
  have k2: "\<forall>j\<in>set [Suc i..<?n]. j < length (t_hdr t2)" using fr by (simp add: same_frame_def)
  obtain g3 nr3 t3 where t3: "?step [Suc i..<?n] (zero_io, 0, t2) = (g3, nr3, t3)"
    "\<forall>j<length (t_hdr t2). j \<notin> set [Suc i..<?n] \<or> \<not> is_group t2 j \<longrightarrow> same_entry j t2 t3"
    using group_steps_frame [OF inv2 gn k2, of cf zero_io 0] by blast
  have "[0..<?n] = [0..<k] @ [k..<i] @ i # [Suc i..<?n]"
    using assms(3,5) by (metis le0 upt_add_eq_append le_add_diff_inverse upt_conv_Cons append_assoc less_imp_le)
  then have "compute_device_groups_stats cf t = t3"
    using t1(1) s2 t2(1) t3(1) z by (simp add: compute_device_groups_stats_def group_loop_fold)
  moreover have "same_entry j t2 t3" if "j \<le> i" for j using t3(2) that assms(3) fr by (simp add: same_frame_def)
  moreover have "t_cur t2 ! j = t_cur t ! j" if "j \<in> {k..<i}" for j
    using t2(3) e [of j] that len1 assms(3) by (simp add: same_entry_def)
  ultimately show ?thesis using t2(4,5) by (simp add: same_entry_def)
qed

subsection \<open>A second run\<close>

lemma sbind_Inr: "sbind m f = Inr y \<longleftrightarrow> (\<exists>x. m = Inr x \<and> f x = Inr y)"
  by (cases m) simp_all

lemma fault_Inr: "fault m = Inr x \<longleftrightarrow> m = Val x"
  by (cases m) simp_all

lemma read_disks_idx: "read_disks cf rd rn = Val rn' \<Longrightarrow> snd (rn_dlist rn') = snd (rn_dlist rn)"
  by (auto simp: read_disks_def Let_def obind_eq_Val read_sysfs_dlist_stat_def bang_names_def split: if_splits prod.splits)

lemma take_io_sample_idx: "take_io_sample cf rd rn = Val rn' \<Longrightarrow> snd (rn_dlist rn') = snd (rn_dlist rn)"
proof -
  assume "take_io_sample cf rd rn = Val rn'"
  then obtain r1 r2 where r: "read_cpu cf rd rn = Val r1" "read_disks cf rd r1 = Val r2" "rn_dlist rn' = rn_dlist r2"
    by (auto simp: take_io_sample_def obind_eq_Val)
  have "rn_dlist r1 = rn_dlist rn"
    using r(1) by (auto simp: read_cpu_def obind_eq_Val split: option.splits)
  with r show ?thesis using read_disks_idx by metis
qed

lemma io_loop_idx: "io_loop cf skip count rn rds = Val (out, rn', fin) \<Longrightarrow> snd (rn_dlist rn') = snd (rn_dlist rn)"
proof (induction rds arbitrary: skip count rn out)
  case (Cons rd rds)
  from Cons.prems obtain r1 o1 where r1: "take_io_sample cf rd rn = Val r1" and
    rest: "rn' = r1 \<or> (\<exists>c o2. io_loop cf False c (swap_run r1) rds = Val (o2, rn', fin))"
    by (auto simp: obind_eq_Val Let_def split: if_splits)
  have "snd (rn_dlist (swap_run r1)) = snd (rn_dlist r1)" by (simp add: swap_run_def)
  then show ?case using rest Cons.IH take_io_sample_idx [OF r1] by metis
qed simp

definition dev_arg :: "string \<Rightarrow> bool" where
  "dev_arg a \<longleftrightarrow> a \<noteq> [] \<and> hd a \<noteq> CHR ''-'' \<and> \<not> starts_digit a \<and> CHR '','' \<notin> set a \<and> a \<noteq> ''ALL''"

lemma flag_bit: "k < 32 \<Longrightarrow> flag_set m (2 ^ k) = bit m k"
proof
  assume k: "k < 32" "flag_set m (2 ^ k)"
  then have "bit (m AND 2 ^ k) k = bit (2 ^ k :: u32) k" by (simp add: flag_set_def)
  with k(1) show "bit m k" by (simp add: bit_and_iff bit_exp_iff)
next
  assume "k < 32" "bit m k"
  then have "m AND 2 ^ k = 2 ^ k" by (intro bit_word_eqI) (auto simp: bit_and_iff bit_exp_iff)
  then show "flag_set m (2 ^ k)" by (simp add: flag_set_def)
qed

lemma persist_bit: "flag_set m I_D_PERSIST_NAME = bit m 13"
  using flag_bit [of 13 m] by (simp add: I_D_PERSIST_NAME_def)

lemma part_all_bit: "flag_set m I_D_PART_ALL = bit m 4"
  using flag_bit [of 4 m] by (simp add: I_D_PART_ALL_def)

lemma set_io_flags [simp]: "q_flags (set_io f st) = q_flags st OR f" "q_dlist (set_io f st) = q_dlist st"
  "q_group_nr (set_io f st) = q_group_nr st" "q_count (set_io f st) = q_count st"
  by (simp_all add: set_io_def)

lemma device_parsed:
  assumes "dev_arg a" "\<not> bit (q_flags st) 13"
  shows "io_parse fs [a] st = add_name (device_name fs a) (set_io I_D_UNFILTERED st)"
proof -
  have "a \<noteq> ''-p''" "a \<noteq> ''-g''" "a \<noteq> ''-j''" "a \<noteq> ''-o''" "\<not> has_prefix ''-'' a"
    using assms(1) by (cases a; auto simp: dev_arg_def)+
  moreover have "\<not> bit (q_flags (set_io I_D_UNFILTERED st)) 13"
    using assms(2) by (simp add: bit_or_iff I_D_UNFILTERED_def)
  then have "cmd_device fs (set_io I_D_UNFILTERED st) a = Val (device_name fs a)"
    by (simp add: cmd_device_def persist_bit)
  moreover have "sbind (add_name d st) Inr = add_name d st" for d and st :: io_opts by (cases "add_name d st") simp_all
  moreover have "io_parse fs [] = Inr" by (rule ext) simp
  ultimately show ?thesis using assms(1) by (simp add: dev_arg_def)
qed

lemma one_argument:
  assumes "dev_arg a"
  shows "q_dlist (start_opts [''iostat'', a] s) = ([\<lparr> dl_disp_part = False, dl_name = [] \<rparr>], st_dlist_idx s)"
  using assms by (simp add: start_opts_def csvalues_counted dev_arg_def salloc_dev_list_def)

lemma defaults_keep:
  assumes "io_defaults posix st = Inr st'" "\<not> flag_set (q_flags st) I_D_PART_ALL" "\<not> bit (q_flags st) 13"
  shows "q_dlist st' = q_dlist st \<and> \<not> bit (q_flags st') 13 \<and> q_group_nr st' = q_group_nr st"
proof -
  have nb: "\<not> bit f 4 \<and> \<not> bit f 13" if "f \<in> {I_D_CPU + I_D_DISK, I_D_DISK, I_D_KILOBYTES}" for f :: u32
    using that by (auto simp: I_D_CPU_def I_D_DISK_def I_D_KILOBYTES_def)
  define P where "P = (\<lambda>u :: io_opts. q_dlist u = q_dlist st \<and> \<not> bit (q_flags u) 13 \<and> q_group_nr u = q_group_nr st \<and>
    \<not> bit (q_flags u) 4)"
  have P: "P (set_io f u)" if "P u" "f \<in> {I_D_CPU + I_D_DISK, I_D_DISK, I_D_KILOBYTES}" for f u
    using that(1) nb [OF that(2)] by (simp add: P_def bit_or_iff)
  define s1 where "s1 = (if q_interval st = 0 then st \<lparr> q_count := 1 \<rparr> else st)"
  define s2 where "s2 = (if q_report s1 then s1 else set_io (I_D_CPU + I_D_DISK) s1)"
  define s3 where "s3 = (if flag_set (q_flags s2) I_D_PARTITIONS \<or> flag_set (q_flags s2) I_D_EXTENDED \<or>
    flag_set (q_flags s2) I_D_UNFILTERED then set_io I_D_DISK s2 else s2)"
  define s4 where "s4 = set_disk_output_unit posix s3"
  have "P s1" using assms(2,3) by (simp add: P_def s1_def part_all_bit)
  then have "P s2" using P by (simp add: s2_def)
  then have "P s3" using P by (simp add: s3_def)
  then have "P s4" using P by (simp add: s4_def set_disk_output_unit_def)
  moreover have "st' = s4 \<or> st' = s4 \<lparr> q_dlist := (fst (q_dlist s4), 0) \<rparr> \<and> flag_set (q_flags s4) I_D_PART_ALL"
    using assms(1) unfolding io_defaults_def Let_def s1_def [symmetric] s2_def [symmetric] s3_def [symmetric] s4_def [symmetric]
    by (simp split: if_splits)
  ultimately show ?thesis by (auto simp: P_def part_all_bit)
qed

lemma init_keeps:
  assumes "io_sys_init env st = Inr (st', c, n)" "\<not> bit (q_flags st) 13"
  shows "q_dlist st' = q_dlist st \<and> \<not> bit (q_flags st') 13 \<and> q_group_nr st' = q_group_nr st"
proof -
  have pb: "bit (x OR f) 13 = bit x 13" if "f \<in> {I_F_HAS_SYSFS, I_F_HAS_DISKSTATS}" for x and f :: u32
    using that by (auto simp: bit_or_iff io_flag_defs)
  show ?thesis using assms
    by (auto simp: io_sys_init_def Let_def sbind_Inr fault_Inr pb split: option.splits if_splits)
qed

lemma first_run_leaves:
  assumes "dev_arg a" "iostat_main env first_statics [''iostat'', a] rds = Inr (out, s', fin)"
  shows "st_dlist_idx s' = 1 \<and> \<not> bit (st_flags s') 13"
proof -
  let ?o = "start_opts [''iostat'', a] first_statics"
  let ?arr = "[\<lparr> dl_disp_part = False, dl_name = take 127 (device_name (e_fs env) a) \<rparr>]"
  have o: "q_dlist ?o = ([\<lparr> dl_disp_part = False, dl_name = [] \<rparr>], 0)" "q_flags ?o = 0" "q_group_nr ?o = 0"
    using one_argument [OF assms(1), of first_statics] by (simp_all add: first_statics_def start_opts_def)
  define st0 where "st0 = set_io I_D_UNFILTERED ?o \<lparr> q_dlist := (?arr, 1) \<rparr>"
  have "io_parse (e_fs env) [a] ?o = Inr st0"
    using device_parsed [OF assms(1), of ?o] o by (simp add: add_name_def update_dev_list_def st0_def Let_def)
  moreover have f0: "\<not> flag_set (q_flags st0) I_D_PART_ALL" "\<not> bit (q_flags st0) 13" "q_group_nr st0 = 0"
    using o by (simp_all add: st0_def flag_set_def io_flag_defs)
  ultimately obtain st1 where st1: "io_defaults (e_posix env) st0 = Inr st1"
    using assms(2) by (auto simp: iostat_main_def sbind_Inr simp del: io_parse.simps)
  note d1 = defaults_keep [OF st1 f0(1,2)]
  obtain st2 c n where st2: "io_sys_init env st1 = Inr (st2, c, n)"
    using assms(2) st1 \<open>io_parse (e_fs env) [a] ?o = Inr st0\<close> by (auto simp: iostat_main_def sbind_Inr Let_def simp del: io_parse.simps)
  note d2 = init_keeps [OF st2]
  have q: "q_dlist st2 = (?arr, 1)" "\<not> bit (q_flags st2) 13" "q_group_nr st2 = 0"
    using d1 d2 f0(3) by (simp_all add: st0_def)
  have iso: "\<not> bit (x OR I_D_ISO) 13" if "\<not> bit x 13" for x using that by (simp add: bit_or_iff I_D_ISO_def)
  obtain cf dm out' rn l where run: "rw_io_stat_loop cf (q_count st2) (start_run first_statics (?arr, 1) l) rds = Val (out', rn, fin)"
    "s' = end_statics (if e_iso env then set_io I_D_ISO st2 else st2) dm rn"
    using assms(2) st1 st2 \<open>io_parse (e_fs env) [a] ?o = Inr st0\<close> q
    by (auto simp: iostat_main_def sbind_Inr fault_Inr Let_def simp del: io_parse.simps split: if_splits)
  have "snd (rn_dlist rn) = 1"
    using io_loop_idx run(1) by (fastforce simp: rw_io_stat_loop_def start_run_def)
  then show ?thesis using run(2) q(2) iso by (simp add: end_statics_def Let_def)
qed

text \<open>
  C22: A device on the command line is remembered by the process but its place is not. After one run
  with a device as its only argument, a second run in the same process with a device as its only
  argument writes its name one entry past the end of the list it has allocated.
\<close>

theorem second_run_overruns:
  assumes "dev_arg a" "iostat_main env first_statics [''iostat'', a] rds = Inr (out, s', fin)"
    "dev_arg b" "device_name (e_fs env') b \<noteq> []"
  shows "iostat_main env' s' [''iostat'', b] rds' = Inl (IoFault OutOfBounds)"
proof -
  let ?o = "start_opts [''iostat'', b] s'"
  have s: "st_dlist_idx s' = 1" "\<not> bit (st_flags s') 13" using first_run_leaves [OF assms(1,2)] by simp_all
  then have "q_dlist ?o = ([\<lparr> dl_disp_part = False, dl_name = [] \<rparr>], 1)" "\<not> bit (q_flags ?o) 13"
    using one_argument [OF assms(3), of s'] by (simp_all add: start_opts_def)
  then have "io_parse (e_fs env') [b] ?o = Inl (IoFault OutOfBounds)"
    using device_parsed [OF assms(3), of ?o] assms(4) by (simp add: add_name_def update_dev_list_def Let_def)
  then show ?thesis by (simp add: iostat_main_def)
qed

end
