(* ===== verification/IostatWitnesses.thy ===== *)
theory IostatWitnesses
  imports IostatTable
begin

text \<open>The properties of \<open>iostat\<close> and of the names of disks at concrete inputs.\<close>

subsection \<open>Names\<close>

lemma sd_family_ok: "family_ok [8, 65] ''sd'' 16 16 ''scsi''"
  by (simp add: family_ok_def field_ok_def c_isspace_def c_isdigit_def byte_def starts_digit_def)


subsection \<open>The daemon's report\<close>

definition wd_stats :: io_stats where
  "wd_stats = \<lparr> io_rd_sectors = 8, io_wr_sectors = 0, io_rd_ios = 1, io_rd_merges = 0, io_wr_ios = 0, io_wr_merges = 0,
     io_rd_ticks = 4, io_wr_ticks = 0, io_ios_pgr = 0, io_tot_ticks = 4, io_rq_ticks = 4 \<rparr>"

definition wd_dev :: disk_dev where
  "wd_dev = \<lparr> dd_major = 8, dd_minor = 0, dd_name = ''sda'', dd_stats = wd_stats, dd_more = [] \<rparr>"

definition wd_fs :: sysfs where
  "wd_fs = \<lparr> dir_entries = (\<lambda>_. None), readable = (\<lambda>_. False), file_exists = (\<lambda>_. True), link_target = (\<lambda>_. None),
     real_path = (\<lambda>_. None), sorted_dir = (\<lambda>_. None) \<rparr>"

definition wd_env :: io_env where
  "wd_env = \<lparr> e_s_colors = None, e_s_sgr = None, e_tty = False, e_ticks = 100, e_posix = False, e_iso = False,
     e_date = (\<lambda>_. ''11/19/26''), e_sys_cpus = Some [(''cpu0'', True)], e_stat = None, e_diskstats = Some [LF],
     e_fs = wd_fs, e_devices = None, e_ioconf = None,
     e_uts = \<lparr> u_sysname = ''Linux'', u_release = ''4.9'', u_nodename = ''pi'', u_machine = ''armv7'' \<rparr> \<rparr>"

definition wd_cpu :: stats_cpu where
  "wd_cpu = zero_cpu \<lparr> cpu_user := 500, cpu_idle := 500 \<rparr>"

definition wd_reading :: io_reading where
  "wd_reading = \<lparr> ir_stat = Some (proc_stat wd_cpu [wd_cpu] []), ir_uptime = None,
     ir_diskstats = Some (diskstats_file [wd_dev]), ir_fs = wd_fs, ir_file = (\<lambda>_. None), ir_devmap = None,
     ir_stat_dev = (\<lambda>_. None), ir_stack = (\<lambda>_. zero_io), ir_time = [] \<rparr>"

lemma small_dec: "n < 10 \<Longrightarrow> dec_of_nat n = [dec_digit n]"
  by (subst dec_of_nat.simps) simp

lemma wd_line: "dev_line wd_dev = ''   8       0 sda 1 0 8 4 0 0 0 0 0 4 4''"
proof -
  have d: "dec_of_nat (Suc 0) = ''1''" "dec_of_nat 4 = ''4''" "dec_of_nat 8 = ''8''"
    using char_of_byte [of "CHR ''1''"] char_of_byte [of "CHR ''4''"] char_of_byte [of "CHR ''8''"]
    by (simp_all add: small_dec dec_digit_def byte_def)
  have r: "replicate 3 c = [c, c, c]" "replicate 6 c = [c, c, c, c, c, c]" for c :: char
    by (simp_all add: numeral_eq_Suc)
  show ?thesis
    by (simp add: dev_line_def wd_dev_def wd_stats_def io_values_def show_u32_def show_u64_def pad_left_def d r)
qed

lemma wd_dev_ok: "dev_ok wd_dev"
  unfolding dev_ok_def wd_line by (simp add: wd_dev_def c_isspace_def byte_def is_cstring_def)

lemma daemon_disk_report_witness:
  "\<exists>s'. iostat_main wd_env first_statics daemon_argv [wd_reading] =
      Inr (print_gal_header (e_date wd_env (e_iso wd_env)) (e_uts wd_env) 1 False @ [(File, [LF])] @
           [(File, ext_heading (daemon_conf wd_env 1))] @
           concat (map (disk_row (daemon_conf wd_env 1) (daemon_interval 1 0 wd_cpu [wd_cpu]))
             (filter (\<lambda>d. \<not> idle (snd d)) (disks (ir_fs wd_reading) [wd_dev]))) @ [(File, [LF])], s', True) \<and>
    ready wd_env s'"
proof (rule daemon_disk_report [OF first_ready, where others = "[]"])
  show "get_cpu_nr False (e_sys_cpus wd_env) (e_stat wd_env) = Some (Val 1)"
    by (simp add: wd_env_def get_cpu_nr_def get_sys_cpu_nr_def sys_cpu_entry_def c_isdigit_def byte_def)
  show "e_diskstats wd_env = Some [LF]" by (simp add: wd_env_def)
  show "length (disks (ir_fs wd_reading) [wd_dev]) \<le> length (fgets_lines 256 [LF]) + 4"
    by (simp add: disks_def)
qed (simp_all add: wd_env_def wd_reading_def wd_dev_ok read_uptime_def)

subsection \<open>The table\<close>

definition wd_table :: io_table where
  "wd_table = disk_table 3 [(''sda'', wd_stats), (''sdb'', wd_stats)]"

lemma below_three: "(\<forall>i<(3::nat). P i) \<longleftrightarrow> P 0 \<and> P (Suc 0) \<and> P (Suc (Suc 0))"
    "(\<forall>i<Suc (Suc (Suc 0)). P i) \<longleftrightarrow> P 0 \<and> P (Suc 0) \<and> P (Suc (Suc 0))"
  by (auto simp: numeral_3_eq_3 less_Suc_eq)

lemma wd_table_simps:
  "t_hdr wd_table = [io_entry ''sda'', io_entry ''sdb'', no_entry]" "t_prev wd_table = [zero_io, zero_io, zero_io]"
  "t_cur wd_table = [wd_stats, wd_stats, zero_io]"
  by (simp_all add: wd_table_def disk_table_def numeral_3_eq_3)

lemma wd_table_ok: "table_inv wd_table" "no_groups wd_table"
proof -
  have "length (t_hdr wd_table) = 3" by (simp add: wd_table_simps)
  then show "table_inv wd_table" unfolding table_inv_def below_three wd_table_simps
    by (simp add: io_entry_def no_entry_def below_three)
  show "no_groups wd_table" by (simp add: no_groups_def wd_table_simps io_entry_def no_entry_def)
qed

lemma wd_slots: "slot wd_table ''sda'' = 0" "slot wd_table ''sdb'' = 1" "slot wd_table ''sdc'' = 3"
  by (simp_all add: slot_def wd_table_simps io_entry_def no_entry_def)

lemma wd_names: "known_name wd_table ''sda''" "known_name wd_table ''sdb''" "\<not> known_name wd_table ''sdc''"
  "entry_of wd_table ''sda'' = Some (zero_io, wd_stats)" "entry_of wd_table ''sdb'' = Some (zero_io, wd_stats)"
  "spare wd_table = 1"
  by (simp_all add: known_name_def entry_of_def wd_slots wd_table_simps spare_def Let_def io_entry_def no_entry_def)

lemma sample_refines_map_witness:
  "table_inv (sampled [(''sda'', zero_io), (''sdc'', wd_stats)] wd_table) \<and>
   entry_of (sampled [(''sda'', zero_io), (''sdc'', wd_stats)] wd_table) ''sdc'' =
     (case map_of [(''sda'', zero_io), (''sdc'', wd_stats)] ''sdc'' of
        None \<Rightarrow> None
      | Some st \<Rightarrow> Some (case entry_of wd_table ''sdc'' of None \<Rightarrow> zero_io | Some (prev, _) \<Rightarrow> prev, st))"
  by (rule sample_refines_map [OF wd_table_ok])
    (simp_all add: name_ok_def no_ghosts_def room_def wd_names)

definition wd_run :: io_run where
  "wd_run = start_run first_statics ([], 0)
     (sampled [(''sda'', wd_stats), (''sdb'', wd_stats)] (swap_samples (sampled [(''sda'', wd_stats)] wd_table)))"


lemma sectors_counted_witness:
  "sector_diff (of_nat (4294967300 mod 2 ^ 32)) (of_nat (4294967290 mod 2 ^ 32)) = of_nat (4294967300 - 4294967290) \<and>
   sector_diff (of_nat 4294967300) (of_nat 4294967290) = of_nat (4294967300 - 4294967290)"
  using sectors_counted [of 4294967290 4294967300] by simp

subsection \<open>Groups\<close>

definition wg_table :: io_table where
  "wg_table = \<lparr> t_hdr = [io_entry ''sda'', io_entry ''sdb'', \<lparr> hd_status = DISK_GROUP, hd_used = 1, hd_name = '' all'' \<rparr>],
     t_prev = [zero_io, zero_io, zero_io], t_cur = [wd_stats, wd_stats, zero_io] \<rparr>"

lemma wg_table_ok: "table_inv wg_table" "groups_named wg_table"
proof -
  have "length (t_hdr wg_table) = 3" by (simp add: wg_table_def)
  then show "table_inv wg_table" "groups_named wg_table" unfolding table_inv_def groups_named_def below_three wg_table_def
    by (simp_all add: io_entry_def below_three is_group_def)
qed

lemma group_totals_witness:
  "t_cur (compute_device_groups_stats (daemon_conf wd_env 1) wg_table) ! 2 =
      fold (\<lambda>d g. add_io g d) (counted (daemon_conf wd_env 1) wg_table [0..<2]) zero_io \<and>
   hd_used (t_hdr (compute_device_groups_stats (daemon_conf wd_env 1) wg_table) ! 2) =
      length (counted (daemon_conf wd_env 1) wg_table [0..<2])"
proof -
  have j: "\<forall>j\<in>{0..<2}. \<not> is_group wg_table j"
    by (auto simp: is_group_def wg_table_def io_entry_def numeral_2_eq_2 less_Suc_eq)
  show ?thesis using group_totals [OF wg_table_ok _ _ _ _ j, where cf = "daemon_conf wd_env 1"]
    by (simp add: wg_table_def is_group_def)
qed

subsection \<open>A run with a device, twice\<close>

definition we_reading :: io_reading where
  "we_reading = wd_reading \<lparr> ir_stat := Some [], ir_diskstats := Some [] \<rparr>"

lemma empty_table_hides: "rn_table rn = salloc_device n \<Longrightarrow> i < n \<Longrightarrow> \<not> displayed cf rn i"
  by (simp add: displayed_def salloc_device_def Let_def)

lemma hidden_not_written: "\<forall>i\<in>set xs. \<not> displayed cf rn i \<Longrightarrow> write_devices cf fs itv rn tab nxt xs = Val []"
  by (induction xs) simp_all

lemma unregister_empty: "set_entries_unregistered (salloc_device n) = salloc_device n" "free_unregistered_entries (salloc_device n) = salloc_device n"
  by (simp_all add: set_entries_unregistered_def free_unregistered_entries_def salloc_device_def)

lemma quiet_run:
  assumes "i_cpu_nr cf = 1" "i_group_nr cf = 0" "i_interval cf = 0" "io_has cf I_F_HAS_DISKSTATS" "\<not> io_has cf I_D_PARTITIONS"
    "snd l \<le> length (fst l)"
  shows "\<exists>out rn. rw_io_stat_loop cf 1 (start_run first_statics l (salloc_device n)) [we_reading] = Val (out, rn, True)"
proof -
  let ?rn = "start_run first_statics l (salloc_device n)"
  have rd: "read_diskstats_stat cf we_reading b ioc (salloc_device n) = Val (ioc, salloc_device n)" for b ioc
    by (simp add: read_diskstats_stat_def we_reading_def fgets_lines.simps [of _ "[]"] unregister_empty)
  have w: "ir_stat we_reading = Some []" by (simp add: we_reading_def)
  have s: "take_io_sample cf we_reading ?rn = Val ?rn" using assms
    by (simp add: take_io_sample_def read_cpu_def read_stat_cpu_def read_disks_def w Let_def start_run_def rd)
  have "write_devices cf fs itv ?rn tab nxt [0..<length (t_hdr (rn_table ?rn))] = Val []" for fs itv tab nxt
    by (intro hidden_not_written ballI empty_table_hides [of _ n]) (simp_all add: start_run_def salloc_device_def)
  then have "\<exists>out. write_stats_iostat cf we_reading ?rn = Val out" using assms(6)
    by (auto simp: write_stats_iostat_def write_disks_def Let_def start_run_def)
  then show ?thesis using s assms(3) by (auto simp: rw_io_stat_loop_def Let_def)
qed

lemma we_first_run: "\<exists>out s'. iostat_main wd_env first_statics [''iostat'', ''sda''] [we_reading] = Inr (out, s', True)"
proof -
  let ?o = "start_opts [''iostat'', ''sda''] first_statics"
  let ?l = "([\<lparr> dl_disp_part = False, dl_name = ''sda'' \<rparr>], 1)"
  let ?st = "?o \<lparr> q_flags := 0x923, q_dlist := ?l \<rparr>"
  have a: "dev_arg ''sda''" by (simp add: dev_arg_def starts_digit_def c_isdigit_def byte_def)
  have o: "q_flags ?o = 0" "q_group_nr ?o = 0" "q_interval ?o = 0" "q_report ?o = False" "q_count ?o = 1"
    "q_dlist ?o = ([\<lparr> dl_disp_part = False, dl_name = [] \<rparr>], 0)"
    using one_argument [OF a, of first_statics] by (simp_all add: first_statics_def start_opts_def)
  have 1: "io_parse (e_fs wd_env) [''sda''] ?o = Inr (?o \<lparr> q_flags := 0x100, q_dlist := ?l \<rparr>)"
    using device_parsed [OF a, of ?o] o
    by (simp add: add_name_def update_dev_list_def Let_def set_io_def I_D_UNFILTERED_def device_name_def wd_env_def wd_fs_def)
  have 2: "io_defaults False (?o \<lparr> q_flags := 0x100, q_dlist := ?l \<rparr>) = Inr (?o \<lparr> q_flags := 0x123, q_dlist := ?l \<rparr>)"
    using o by (simp add: io_defaults_def set_disk_output_unit_def Let_def set_io_def flag_set_def io_flag_defs)
  have "fgets_lines 256 [LF] = [[LF]]"
    by (subst fgets_lines.simps) (simp add: fgets_def Let_def fgets_lines.simps [of _ "[]"])
  then have 3: "io_sys_init wd_env (?o \<lparr> q_flags := 0x123, q_dlist := ?l \<rparr>) = Inr (?st, 1, 5)" using o
    by (simp add: io_sys_init_def wd_env_def get_cpu_nr_def get_sys_cpu_nr_def sys_cpu_entry_def starts_digit_def c_isdigit_def byte_def
        get_diskstats_dev_nr_def Let_def NR_DEV_PREALLOC_def set_io_def flag_set_def io_flag_defs)
  have "\<exists>out rn. rw_io_stat_loop (iostat_conf wd_env ?st 1 0) 1 (start_run first_statics ?l (salloc_device 5)) [we_reading] = Val (out, rn, True)"
    by (rule quiet_run) (use o in \<open>simp_all add: iostat_conf_def flag_set_def io_flag_defs\<close>)
  then show ?thesis using 1 2 3 o
    by (auto simp: iostat_main_def Let_def wd_env_def flag_set_def io_flag_defs first_statics_def simp del: io_parse.simps)
qed

lemma second_run_overruns_witness:
  "\<exists>out s'. iostat_main wd_env first_statics [''iostat'', ''sda''] [we_reading] = Inr (out, s', True) \<and>
    iostat_main wd_env s' [''iostat'', ''sdb''] [we_reading] = Inl (IoFault OutOfBounds)"
proof -
  have a: "dev_arg ''sda''" "dev_arg ''sdb''" "device_name (e_fs wd_env) ''sdb'' \<noteq> []"
    by (simp_all add: dev_arg_def starts_digit_def c_isdigit_def byte_def device_name_def wd_env_def wd_fs_def)
  then show ?thesis using we_first_run second_run_overruns [OF a(1) _ a(2,3)] by blast
qed

end
