(* ===== verification/Getopt32.thy ===== *)
theory Getopt32
  imports Strto
begin

text \<open>
  The option parser of the busybox applets, \<open>getopt32.c\<close>, with the numbers of \<open>xatonum.c\<close>. An applet
  describes its options by a string for the C library and, in \<open>opt_complementary\<close>, how they depend on
  each other: what an option switches on and off, excludes and requires. \<open>getopt_long\<close> of the C library
  is a parameter: the options it returns one after the other, with their arguments, and the arguments
  that are left. No applet of the daemon sets \<open>applet_long_options\<close>.
\<close>

unbundle bit_operations_syntax

subsection \<open>Numbers\<close>

text \<open>\<open>xatou_range\<close> at any width: what does not fit the type is outside the range too. A bad number ends the process.\<close>

definition xatou_range :: "string \<Rightarrow> nat \<Rightarrow> nat \<Rightarrow> nat outcome" where
  "xatou_range s lower upper =
     (if s \<noteq> [] \<and> (hd s = CHR ''-'' \<or> hd s = CHR ''+'' \<or> c_isspace (hd s)) then Undef Exits
      else case strto 10 s of
        None \<Rightarrow> Undef Exits
      | Some (_, v, rest) \<Rightarrow> if rest \<noteq> [] \<or> 2 ^ 64 \<le> v \<or> v < lower \<or> upper < v then Undef Exits else Val v)"

definition xatoi_positive :: "string \<Rightarrow> nat outcome" where
  "xatoi_positive s = xatou_range s 0 (2 ^ 31 - 1)"

subsection \<open>The table of options\<close>

datatype param_type = PARAM_STRING | PARAM_LIST | PARAM_INT

record t_complementary =
  opt_char :: char
  opt_type :: param_type
  switch_on :: "32 word"
  switch_off :: "32 word"
  incongruously :: "32 word"
  needs_one :: "32 word"
  has_optarg :: bool
  has_counter :: bool

definition new_option :: "char \<Rightarrow> nat \<Rightarrow> bool \<Rightarrow> t_complementary" where
  "new_option ch c arg =
     \<lparr> opt_char = ch, opt_type = PARAM_STRING, switch_on = push_bit c 1, switch_off = 0, incongruously = 0,
       needs_one = 0, has_optarg = arg, has_counter = False \<rparr>"

text \<open>One entry for each option of the string, at most 32; the argument is the number of the option.\<close>

function option_table :: "nat \<Rightarrow> string \<Rightarrow> t_complementary list" where
  "option_table c s =
     (if s = [] \<or> 32 \<le> c then []
      else new_option (hd s) c (tl s \<noteq> [] \<and> hd (tl s) = CHR '':'') #
           option_table (Suc c) (dropWhile (\<lambda>x. x = CHR '':'') (tl s)))"
  by pat_completeness auto
termination
  by (relation "measure (\<lambda>(c, s). length s)") (auto simp: less_Suc_eq_le neq_Nil_conv)

declare option_table.simps [simp del]

text \<open>The first entry of an option.\<close>

definition option_index :: "char \<Rightarrow> t_complementary list \<Rightarrow> nat option" where
  "option_index ch t =
     (let i = length (takeWhile (\<lambda>e. opt_char e \<noteq> ch) t) in if i < length t then Some i else None)"

subsection \<open>Dependencies\<close>

record getopt_state =
  g_table :: "t_complementary list"
  g_flags :: "32 word"
  g_requires :: "32 word"
  g_min_arg :: int
  g_max_arg :: int
  g_all_opts :: bool
  g_first_opt :: bool

datatype pair_field = Switch_on | Switch_off | Incongruously | Requires

fun add_switch :: "pair_field \<Rightarrow> 32 word \<Rightarrow> t_complementary \<Rightarrow> t_complementary" where
  "add_switch Switch_on w e = e \<lparr> switch_on := switch_on e OR w \<rparr>"
| "add_switch Switch_off w e = e \<lparr> switch_off := switch_off e OR w \<rparr>"
| "add_switch Incongruously w e = e \<lparr> incongruously := incongruously e OR w \<rparr>"
| "add_switch Requires w e = e \<lparr> needs_one := needs_one e OR w \<rparr>"

text \<open>The options behind the one of entry \<open>i\<close>, up to a colon; what is left of the string is returned.\<close>

fun pair_loop :: "nat \<Rightarrow> pair_field \<Rightarrow> string \<Rightarrow> t_complementary list \<Rightarrow> t_complementary list \<times> string" where
  "pair_loop i f [] t = (t, [])"
| "pair_loop i f (c # s) t =
     (if c = CHR '':'' then (t, c # s)
      else if c = CHR ''?'' then pair_loop i Requires s t
      else if c = CHR ''-'' then pair_loop i (if f = Switch_off then Incongruously else Switch_off) s t
      else pair_loop i f s
             (case option_index c t of None \<Rightarrow> t | Some j \<Rightarrow> t[i := add_switch f (switch_on (t ! j)) (t ! i)]))"

lemma pair_loop_shorter: "length (snd (pair_loop i f s t)) \<le> length s"
  by (induction i f s t rule: pair_loop.induct) (auto intro: le_SucI)

lemma pair_loop_tl: "length (snd (pair_loop i f (tl s) t)) \<le> length s"
  using pair_loop_shorter [of i f "tl s" t] by simp

text \<open>The byte at a place of the string, NUL at its end.\<close>

definition byte_at :: "string \<Rightarrow> nat \<Rightarrow> char" where
  "byte_at s k = (if k < length s then s ! k else NUL)"

definition digit_of :: "char \<Rightarrow> int" where
  "digit_of c = int (byte c) - 48"

function complement_loop :: "string \<Rightarrow> getopt_state \<Rightarrow> getopt_state outcome" where
  "complement_loop [] g = Val g"
| "complement_loop (o1 # r) g =
     (let c = byte_at r 0; c2 = byte_at r 1; ends = (c2 = CHR '':'' \<or> c2 = NUL)
      in if o1 = CHR '':'' then complement_loop r g
         else if o1 = CHR ''?''
         then (if c_isdigit c then complement_loop (tl r) (g \<lparr> g_max_arg := digit_of c \<rparr>) else complement_loop r g)
         else if o1 = CHR ''-''
         then (if c_isdigit c then complement_loop (tl r) (g \<lparr> g_min_arg := digit_of c \<rparr>)
               else if c = CHR ''-'' then complement_loop (tl r) (g \<lparr> g_first_opt := True \<rparr>)
               else complement_loop r (g \<lparr> g_all_opts := True \<rparr>))
         else if o1 = CHR ''=''
         then (if r = [] then Undef OutOfBounds
               else complement_loop (tl r) (g \<lparr> g_min_arg := digit_of c, g_max_arg := digit_of c \<rparr>))
         else case option_index o1 (g_table g) of
           None \<Rightarrow> Undef Exits
         | Some i \<Rightarrow>
             (let e = g_table g ! i; set = (\<lambda>e. g \<lparr> g_table := (g_table g)[i := e] \<rparr>)
              in if c = CHR '':'' \<and> c2 = CHR '':'' then complement_loop r (set (e \<lparr> opt_type := PARAM_LIST \<rparr>))
                 else if c = CHR ''+'' \<and> ends then complement_loop (tl r) (set (e \<lparr> opt_type := PARAM_INT \<rparr>))
                 else if c = CHR '':'' \<or> c = NUL
                 then complement_loop r (g \<lparr> g_requires := g_requires g OR switch_on e \<rparr>)
                 else if c = CHR ''-'' \<and> ends
                 then complement_loop (tl r)
                        (set (e \<lparr> incongruously := incongruously e OR switch_on e \<rparr>) \<lparr> g_flags := g_flags g OR switch_on e \<rparr>)
                 else (let counted = (c = o1); g = (if counted then set (e \<lparr> has_counter := True \<rparr>) else g);
                           p = pair_loop i Switch_on (if counted then tl r else r) (g_table g)
                       in complement_loop (snd p) (g \<lparr> g_table := fst p \<rparr>))))"
  by pat_completeness auto
termination
proof (relation "measure (\<lambda>(s, g). length s)", goal_cases)
  case 1
  show ?case by simp
qed (auto simp: less_Suc_eq_le intro: pair_loop_shorter pair_loop_tl)

declare complement_loop.simps(2) [simp del]

subsection \<open>The command line\<close>

text \<open>With a dash in \<open>opt_complementary\<close> words without one are options too: it is put before them.\<close>

fun dash_args :: "bool \<Rightarrow> string list \<Rightarrow> string list" where
  "dash_args all [] = []"
| "dash_args all (a # args) =
     (if a \<noteq> [] \<and> hd a \<noteq> CHR ''-'' then CHR ''-'' # a else a) # (if all then dash_args all args else args)"

datatype opt_value = Opt_string string | Opt_list string | Opt_int nat

text \<open>What the options found store, in their order, with the characters of the options.\<close>

definition option_value :: "t_complementary \<Rightarrow> string option \<Rightarrow> (char \<times> opt_value) list outcome" where
  "option_value e arg =
     (case arg of
        None \<Rightarrow> Val []
      | Some a \<Rightarrow>
          (case opt_type e of
             PARAM_LIST \<Rightarrow> Val [(opt_char e, Opt_list a)]
           | PARAM_INT \<Rightarrow> obind (xatoi_positive a) (\<lambda>n. Val [(opt_char e, Opt_int n)])
           | PARAM_STRING \<Rightarrow> Val (if has_optarg e then [(opt_char e, Opt_string a)] else [])))"

definition switch :: "t_complementary \<Rightarrow> 32 word \<Rightarrow> 32 word" where
  "switch e flags =
     (let trigger = switch_on e AND switch_off e;
          flags = flags AND NOT (switch_off e XOR trigger);
          flags = flags OR (switch_on e XOR trigger)
      in flags XOR trigger)"

text \<open>\<open>None\<close>: the jump to \<open>error\<close>. The count of an option is how often it occurs.\<close>

fun getopt_loop ::
  "t_complementary list \<Rightarrow> (char \<times> string option) list \<Rightarrow> 32 word \<Rightarrow> (32 word \<times> (char \<times> opt_value) list) option outcome" where
  "getopt_loop t [] flags = Val (Some (flags, []))"
| "getopt_loop t ((c, arg) # os) flags =
     (case option_index c t of
        None \<Rightarrow> Val None
      | Some i \<Rightarrow>
          (let e = t ! i
           in if flags AND incongruously e \<noteq> 0 then Val None
              else obind (option_value e arg) (\<lambda>v.
                   obind (getopt_loop t os (switch e flags)) (\<lambda>r.
                     Val (map_option (\<lambda>(flags, vs). (flags, v @ vs)) r)))))"

definition getopt_checks :: "getopt_state \<Rightarrow> 32 word \<Rightarrow> nat \<Rightarrow> bool" where
  "getopt_checks g flags nargs \<longleftrightarrow>
     (\<forall>e\<in>set (g_table g). needs_one e = 0 \<or> flags AND switch_on e = 0 \<or> flags AND needs_one e \<noteq> 0) \<and>
     (g_requires g = 0 \<or> flags AND g_requires g \<noteq> 0) \<and>
     g_min_arg g \<le> int nargs \<and> (g_max_arg g < 0 \<or> int nargs \<le> g_max_arg g)"

type_synonym getopt_lib = "string list \<Rightarrow> string \<Rightarrow> (char \<times> string option) list \<times> string list"

text \<open>
  The flags, what the options stored, and the arguments left. After an error an applet whose string
  starts with an exclamation mark gets all bits; for the others the usage text ends the process.
\<close>

definition getopt32 ::
  "getopt_lib \<Rightarrow> string \<Rightarrow> string option \<Rightarrow> string list \<Rightarrow> (32 word \<times> (char \<times> opt_value) list \<times> string list) outcome" where
  "getopt32 lib applet_opts complementary argv =
     (let quiet = (applet_opts \<noteq> [] \<and> hd applet_opts = CHR ''!'');
          opts = (if quiet then tl applet_opts else applet_opts);
          names = (if opts \<noteq> [] \<and> (hd opts = CHR ''+'' \<or> hd opts = CHR ''-'') then tl opts else opts);
          err = (\<lambda>args. if quiet then Val (- 1, [], args) else Undef Exits);
          g = \<lparr> g_table = option_table 0 names, g_flags = 0, g_requires = 0, g_min_arg = 0, g_max_arg = -1,
                g_all_opts = False, g_first_opt = False \<rparr>
      in obind (complement_loop (case complementary of None \<Rightarrow> [] | Some s \<Rightarrow> s) g) (\<lambda>g.
           case lib (if (g_all_opts g \<or> g_first_opt g) \<and> argv \<noteq> [] then hd argv # dash_args (g_all_opts g) (tl argv) else argv) opts of
             (os, args) \<Rightarrow>
               obind (getopt_loop (g_table g) os (g_flags g)) (\<lambda>r.
                 case r of
                   None \<Rightarrow> err args
                 | Some (flags, vs) \<Rightarrow>
                     if getopt_checks g flags (length args) then Val (flags, vs, args) else err args)))"

end
