(* ===== verification/Applets.thy ===== *)
theory Applets
  imports Getopt32
begin

text \<open>
  The busybox applets behind the methods GetCmdFree, GetCmdDf and GetCmdDmesg: \<open>free.c\<close>, \<open>df.c\<close> with
  \<open>human_readable.c\<close> and \<open>find_mount_point.c\<close>, \<open>dmesg.c\<close>. What the kernel says of memory, file systems
  and its log are arguments, as are the table of mounts and the options \<open>getopt_long\<close> finds. A result
  has the text on the pipe; messages to standard error are left out.
\<close>

subsection \<open>Sizes\<close>

definition unit_chars :: string where
  "unit_chars = [NUL] @ ''KMGTPEZY''"

text \<open>The loop of \<open>make_human_readable_str\<close>: the value, the index of its unit and the last fractional digit.\<close>

fun human_loop :: "nat \<Rightarrow> nat \<Rightarrow> nat \<Rightarrow> nat \<times> nat \<times> nat" where
  "human_loop val u frac =
     (if 1024 \<le> val then human_loop (val div 1024) (Suc u) ((val mod 1024 * 10 + 512) div 1024) else (val, u, frac))"

declare human_loop.simps [simp del]

text \<open>
  A byte NUL as unit ends the string. The width of \<open>%*c\<close> is the fraction, which is 1 there, and
  \<open>sprintf\<close> ignores the arguments its format does not use.
\<close>

definition make_human_readable_str :: "u64 \<Rightarrow> u64 \<Rightarrow> u64 \<Rightarrow> string" where
  "make_human_readable_str val block_size display_unit =
     (if val = 0 then ''0''
      else let val = (if 1 < block_size then val * block_size else val)
           in if display_unit \<noteq> 0 then show_u64 ((val + display_unit div 2) div display_unit)
              else (case human_loop (unat val) 0 0 of (v, u, frac) \<Rightarrow>
                let (v, frac) = (if 10 \<le> frac then (v + 1, 0) else (v, frac))
                in if block_size = 0
                   then cstr (dec_of_nat (if 5 \<le> frac then v + 1 else v) @ [unit_chars ! u])
                   else if u = 0 then dec_of_nat v
                   else dec_of_nat v @ ''.'' @ dec_of_nat frac @ [unit_chars ! u]))"

subsection \<open>free\<close>

record sysinfo =
  totalram :: u64
  freeram :: u64
  sharedram :: u64
  bufferram :: u64
  totalswap :: u64
  freeswap :: u64
  mem_unit :: "32 word"

text \<open>\<open>atoi\<close> truncates to \<open>int\<close>.\<close>

definition int_of_text :: "string \<Rightarrow> int" where
  "int_of_text s = sint (of_int (fst (strtol 10 s)) :: 32 word)"

text \<open>
  \<open>get_cache_from_meminfo\<close>: without the line the loop never ends, since \<open>fgets\<close> leaves the last line
  where it is. A file without a line leaves the buffer uninitialised.
\<close>

definition get_cache_from_meminfo :: "string option \<Rightarrow> u64 outcome" where
  "get_cache_from_meminfo file =
     (case file of
        None \<Rightarrow> Undef Exits
      | Some s \<Rightarrow>
          (let ls = fgets_lines 256 s
           in case filter (has_prefix ''Cached:'') ls of
                l # _ \<Rightarrow> Val (of_int (int_of_text (drop 7 l)))
              | [] \<Rightarrow> Undef (if ls = [] then Uninitialised else Blocks)))"

definition scale :: "32 word \<Rightarrow> nat \<Rightarrow> u64 \<Rightarrow> u64" where
  "scale unit steps d = drop_bit steps (d * ucast unit)"

definition unit_steps :: "string list \<Rightarrow> nat" where
  "unit_steps argv =
     (case argv of
        _ # a # _ \<Rightarrow>
          if byte_at a 0 = CHR ''-''
          then (let c = byte_at a 1 in if c = CHR ''b'' then 0 else if c = CHR ''m'' then 20 else if c = CHR ''g'' then 30 else 10)
          else 10
      | _ \<Rightarrow> 10)"

definition fmt_13 :: "u64 list \<Rightarrow> string" where
  "fmt_13 vs = concat (map (\<lambda>v. pad_left CHR '' '' 13 (show_u64 v)) vs) @ [LF]"

definition free_main :: "string list \<Rightarrow> sysinfo \<Rightarrow> string option \<Rightarrow> string outcome" where
  "free_main argv info meminfo =
     obind (get_cache_from_meminfo meminfo) (\<lambda>cached.
       let sc = scale (if mem_unit info = 0 then 1 else mem_unit info) (unit_steps argv)
       in Val (replicate 11 CHR '' '' @
               concat (map (pad_left CHR '' '' 13) [''total'', ''used'', ''free'', ''shared'', ''buffers'', ''cached'']) @ [LF] @
               ''Mem:       '' @
               fmt_13 [sc (totalram info), sc (totalram info - freeram info), sc (freeram info),
                       sc (sharedram info), sc (bufferram info), cached] @
               ''-/+ buffers/cache:      '' @
               fmt_13 [sc (totalram info - freeram info - bufferram info) - cached,
                       sc (freeram info + bufferram info) + cached] @
               ''Swap:     '' @
               fmt_13 [sc (totalswap info), sc (totalswap info - freeswap info), sc (freeswap info)]))"

subsection \<open>The table of mounts\<close>

record mntent =
  mnt_fsname :: string
  mnt_dir :: string

text \<open>What \<open>stat\<close> says of a file: the device it is on, the device it is, and whether it is one.\<close>

record file_stat =
  st_dev :: u64
  st_rdev :: u64
  st_device :: bool

definition mounts_name :: "(string \<Rightarrow> file_stat option) \<Rightarrow> string \<Rightarrow> bool \<Rightarrow> u64 \<Rightarrow> bool \<Rightarrow> mntent \<Rightarrow> bool" where
  "mounts_name stat_of name subdir_too devno block_dev m \<longleftrightarrow>
     mnt_fsname m \<noteq> ''rootfs'' \<and>
     (name = mnt_dir m \<or> name = mnt_fsname m \<or>
      (subdir_too \<or> block_dev) \<and>
        ((case stat_of (mnt_fsname m) of None \<Rightarrow> False | Some s \<Rightarrow> st_rdev s = devno) \<or>
         (case stat_of (mnt_dir m) of None \<Rightarrow> False | Some s \<Rightarrow> st_dev s = devno)))"

definition find_mount_point ::
  "(string \<Rightarrow> file_stat option) \<Rightarrow> mntent list option \<Rightarrow> string \<Rightarrow> bool \<Rightarrow> mntent option" where
  "find_mount_point stat_of mtab name subdir_too =
     (case stat_of name of
        None \<Rightarrow> None
      | Some s \<Rightarrow>
          (case mtab of
             None \<Rightarrow> None
           | Some ms \<Rightarrow>
               find (mounts_name stat_of name subdir_too (if st_device s then st_rdev s else st_dev s) (st_device s)) ms))"

subsection \<open>df\<close>

record statfs =
  f_blocks :: u64
  f_bfree :: u64
  f_bavail :: u64
  f_files :: u64
  f_ffree :: u64
  f_bsize :: u64

definition OPT_POSIX :: nat where "OPT_POSIX = 1"
definition OPT_ALL :: nat where "OPT_ALL = 2"
definition OPT_INODE :: nat where "OPT_INODE = 3"
definition OPT_BSIZE :: nat where "OPT_BSIZE = 4"
definition OPT_HUMAN :: nat where "OPT_HUMAN = 5"
definition OPT_MEGA :: nat where "OPT_MEGA = 6"

definition df_opts :: string where
  "df_opts = ''kPaiB:hm''"

definition df_complementary :: string where
  "df_complementary = ''k-mB:m-Bk:B-km''"

text \<open>The size of the displayed blocks, 0 for sizes with a unit each; \<open>-B\<close> has its number in what the options stored.\<close>

definition df_disp :: "32 word \<Rightarrow> (char \<times> opt_value) list \<Rightarrow> bool \<Rightarrow> u64 outcome" where
  "df_disp opt vs posixly =
     obind (if bit opt OPT_BSIZE
            then (case [s. (c, Opt_string s) \<leftarrow> vs, c = CHR ''B''] of
                    [] \<Rightarrow> Undef Uninitialised
                  | ss \<Rightarrow> obind (xatou_range (last ss) 1 (2 ^ 64 - 1)) (\<lambda>n. Val (of_nat n)))
            else Val (if bit opt OPT_MEGA then 1024 * 1024 else 1024)) (\<lambda>hr.
       Val (if bit opt OPT_HUMAN then 0 else if posixly then 512 else hr))"

definition df_heading :: "32 word \<Rightarrow> u64 \<Rightarrow> string" where
  "df_heading opt hr =
     (let hdr = (if bit opt OPT_INODE then ''   Inodes'' else if bit opt OPT_HUMAN then ''     Size''
                 else make_human_readable_str hr 0 (if bit opt OPT_POSIX then 1 else 0) @ ''-blocks'')
      in ''Filesystem           '' @ pad_right CHR '' '' 15 hdr @ ''Used Available '' @
         (if bit opt OPT_POSIX then ''Capacity'' else ''Use%'') @ '' Mounted on'' @ [LF])"

text \<open>With \<open>-i\<close> the counts of inodes take the place of those of blocks.\<close>

definition inode_view :: "32 word \<Rightarrow> statfs \<Rightarrow> statfs" where
  "inode_view opt s =
     (if bit opt OPT_INODE
      then s \<lparr> f_blocks := f_files s, f_bavail := f_ffree s, f_bfree := f_ffree s, f_bsize := 1 \<rparr> else s)"

definition percent_used :: "statfs \<Rightarrow> 32 word" where
  "percent_used s =
     (let used = f_blocks s - f_bfree s; all = used + f_bavail s
      in if all = 0 then 0 else ucast ((used * 100 + all div 2) div all))"

text \<open>A row; the size of the blocks stays changed to 1 for all later rows when \<open>-i\<close> has set it.\<close>

definition df_row :: "32 word \<Rightarrow> u64 \<Rightarrow> string \<Rightarrow> string \<Rightarrow> statfs \<Rightarrow> string" where
  "df_row opt hr device mount_point s =
     (let size = (\<lambda>v. pad_left CHR '' '' 9 (make_human_readable_str v (f_bsize s) hr))
      in pad_right CHR '' '' 20 device @
         (if 20 < length device \<and> \<not> bit opt OPT_POSIX then LF # replicate 20 CHR '' '' else []) @
         '' '' @ size (f_blocks s) @ '' '' @ size (f_blocks s - f_bfree s) @ '' '' @ size (f_bavail s) @ '' '' @
         pad_left CHR '' '' 3 (dec_of_nat (unat (percent_used s))) @ ''% '' @ mount_point @ [LF])"

text \<open>
  The rows, and whether an error is reported. An entry is \<open>None\<close> when there is no mount for a name of
  the command line.
\<close>

fun df_rows :: "32 word \<Rightarrow> bool \<Rightarrow> (string \<Rightarrow> statfs option) \<Rightarrow> u64 \<Rightarrow> mntent option list \<Rightarrow> string \<times> bool" where
  "df_rows opt listed fs hr [] = ([], False)"
| "df_rows opt listed fs hr (m # ms) =
     (case m of
        None \<Rightarrow> (fst (df_rows opt listed fs hr ms), True)
      | Some m \<Rightarrow>
          (case fs (mnt_dir m) of
             None \<Rightarrow> (fst (df_rows opt listed fs hr ms), True)
           | Some s \<Rightarrow>
               if 0 < f_blocks s \<or> listed \<or> bit opt OPT_ALL
               then (let hr = (if bit opt OPT_INODE \<and> hr \<noteq> 0 then 1 else hr); (txt, err) = df_rows opt listed fs hr ms
                     in (if mnt_fsname m = ''rootfs'' then txt
                         else df_row opt hr (mnt_fsname m) (mnt_dir m) (inode_view opt s) @ txt, err))
               else df_rows opt listed fs hr ms))"

definition df_main ::
  "getopt_lib \<Rightarrow> bool \<Rightarrow> (string \<Rightarrow> file_stat option) \<Rightarrow> mntent list option \<Rightarrow> (string \<Rightarrow> statfs option) \<Rightarrow> string list \<Rightarrow>
    (string \<times> bool) outcome" where
  "df_main lib posixly stat_of mtab fs argv =
     obind (getopt32 lib df_opts (Some df_complementary) argv) (\<lambda>(opt, vs, args).
     obind (df_disp opt vs posixly) (\<lambda>hr.
       if args = []
       then (case mtab of
               None \<Rightarrow> Undef Exits
             | Some ms \<Rightarrow> (case df_rows opt False fs hr (map Some ms) of (txt, err) \<Rightarrow> Val (df_heading opt hr @ txt, err)))
       else (case df_rows opt True fs hr (map (\<lambda>a. find_mount_point stat_of mtab a True) args) of
               (txt, err) \<Rightarrow> Val (df_heading opt hr @ txt, err))))"

subsection \<open>dmesg\<close>

text \<open>
  \<open>klog\<close> stands for \<open>klogctl\<close>: the kind of the call and the size give a status and, for a reading, as
  many bytes of the log. \<open>heap\<close> is what the buffer holds behind them. The text printed is a string, so
  a buffer without NUL is read past its end.
\<close>

definition dmesg_main ::
  "getopt_lib \<Rightarrow> (nat \<Rightarrow> nat \<Rightarrow> int \<times> string) \<Rightarrow> (nat \<Rightarrow> string) \<Rightarrow> string list \<Rightarrow> string outcome" where
  "dmesg_main lib klog heap argv =
     obind (getopt32 lib ''cs:n:'' (Some ''s+:n+'') argv) (\<lambda>(opts, vs, args).
       let ints = (\<lambda>o1. [n. (c, Opt_int n) \<leftarrow> vs, c = o1])
       in if bit opts 2 then (if fst (klog 8 (last (ints CHR ''n''))) \<noteq> 0 then Undef Exits else Val [])
          else (let size = (if ints CHR ''s'' = [] then 2048 else last (ints CHR ''s''));
                    (len, log) = klog (if bit opts 0 then 4 else 3) size
                in if len \<le> 0 then Val []
                   else (let buf = take size (take (nat len) log @ heap size)
                         in if NUL \<in> set buf then Val (cstr buf @ [LF]) else Undef OutOfBounds)))"

end
