(* ===== verification/AppletProps.thy ===== *)
theory AppletProps
  imports Applets
begin

text \<open>
  What holds of the applets: the sizes of \<open>df -h\<close> are right up to the rounding of their digit, the options
  of \<open>df\<close> for its unit, of which the last one wins, and the log printed by \<open>dmesg\<close>.
\<close>

subsection \<open>Sizes\<close>

lemma human_loop_small: "v < 1024 \<Longrightarrow> human_loop v u f = (v, u, f)"
  by (simp add: human_loop.simps)

lemma human_loop_big:
  "1024 \<le> v \<Longrightarrow> human_loop v u f = (n, k, d) \<Longrightarrow>
    \<exists>j. k = Suc (u + j) \<and> 1024 \<le> v div 1024 ^ j \<and> n = v div 1024 ^ j div 1024 \<and> n < 1024 \<and>
      d = (v div 1024 ^ j mod 1024 * 10 + 512) div 1024"
proof (induction v u f rule: human_loop.induct)
  case (1 v u f)
  let ?w = "v div 1024"
  have step: "human_loop ?w (Suc u) ((v mod 1024 * 10 + 512) div 1024) = (n, k, d)"
    using "1.prems" by (simp add: human_loop.simps [of v])
  show ?case
  proof (cases "1024 \<le> ?w")
    case True
    obtain j where "k = Suc (Suc u + j)" "1024 \<le> ?w div 1024 ^ j" "n = ?w div 1024 ^ j div 1024" "n < 1024"
      "d = (?w div 1024 ^ j mod 1024 * 10 + 512) div 1024"
      using "1.IH" [OF "1.prems"(1) True step] by blast
    then show ?thesis by (intro exI [of _ "Suc j"]) (simp add: div_mult2_eq)
  next
    case False
    then show ?thesis using step "1.prems"(1) by (intro exI [of _ 0]) (simp add: human_loop_small)
  qed
qed

text \<open>The digits of one loop step, and what the steps before have dropped.\<close>

lemma tenths_close:
  fixes x P :: nat
  assumes "w = x div P" "t = 10 * (w div 1024) + (w mod 1024 * 10 + 512) div 1024" "0 < P"
  shows "\<bar>10 * int x - int t * int (1024 * P)\<bar> \<le> 522 * int P"
proof -
  define r n d where "r = w mod 1024" "n = w div 1024" "d = (r * 10 + 512) div 1024"
  have w: "w = 1024 * n + r" by (simp add: r_n_d_def)
  have d: "1024 * d \<le> r * 10 + 512" "r * 10 + 512 < 1024 * d + 1024"
    unfolding r_n_d_def(3)
    using div_times_less_eq_dividend [of "r * 10 + 512" 1024] dividend_less_div_times [of 1024 "r * 10 + 512"] by simp_all
  have t: "1024 * t \<le> 10 * w + 512" "10 * w < 1024 * t + 512"
  proof -
    have "t = 10 * n + d" by (simp add: assms(2) r_n_d_def)
    then show "1024 * t \<le> 10 * w + 512" "10 * w < 1024 * t + 512" using d w by linarith+
  qed
  obtain y where x: "x = w * P + y" "y < P" using assms(1,3) by (metis mod_less_divisor mult.commute mult_div_mod_eq)
  have "10 * int w - 1024 * int t \<le> 512" "- 512 \<le> 10 * int w - 1024 * int t" using t by linarith+
  then have "(10 * int w - 1024 * int t) * int P \<le> 512 * int P" "- 512 * int P \<le> (10 * int w - 1024 * int t) * int P"
    using assms(3) by (auto intro: mult_right_mono simp del: mult_minus_left)
  moreover have "10 * int x - int t * int (1024 * P) = (10 * int w - 1024 * int t) * int P + 10 * int y"
    by (simp add: x algebra_simps)
  ultimately show ?thesis using x(2) by linarith
qed


subsection \<open>The unit of \<open>df\<close>\<close>

definition df_names :: string where
  "df_names = ''kPaiBhm''"

definition df_unit :: "char \<Rightarrow> bool" where
  "df_unit c \<longleftrightarrow> c \<in> set ''kmB''"

definition df_entry :: "nat \<Rightarrow> bool \<Rightarrow> 32 word \<Rightarrow> t_complementary" where
  "df_entry i arg off = new_option (df_names ! i) i arg \<lparr> switch_off := off \<rparr>"

definition df_table :: "t_complementary list" where
  "df_table = [df_entry 0 False 80, df_entry 1 False 0, df_entry 2 False 0, df_entry 3 False 0, df_entry 4 True 65,
     df_entry 5 False 0, df_entry 6 False 17]"

lemma option_table_step:
  "c < 32 \<Longrightarrow> option_table c (x # s) =
    new_option x c (s \<noteq> [] \<and> hd s = CHR '':'') # option_table (Suc c) (dropWhile (\<lambda>x. x = CHR '':'') s)"
  "option_table c [] = []"
  by (simp_all add: option_table.simps [of c])

lemma df_option_table:
  "option_table 0 df_opts = map (\<lambda>i. new_option (df_names ! i) i (i = 4)) [0..<7]"
  by (simp add: df_opts_def df_names_def option_table_step upt_rec numeral_eq_Suc)

definition df_start :: getopt_state where
  "df_start = \<lparr> g_table = option_table 0 df_opts, g_flags = 0, g_requires = 0, g_min_arg = 0, g_max_arg = -1,
     g_all_opts = False, g_first_opt = False \<rparr>"

lemma df_complement: "complement_loop df_complementary df_start = Val (df_start \<lparr> g_table := df_table \<rparr>)"
  unfolding df_start_def df_option_table
  by (simp add: df_complementary_def complement_loop.simps(2) byte_at_def Let_def option_index_def df_names_def new_option_def
      upt_rec numeral_eq_Suc df_table_def df_entry_def)

lemma switch_bit:
  "switch_on e AND switch_off e = 0 \<Longrightarrow> bit (switch e flags) i \<longleftrightarrow> bit (switch_on e) i \<or> bit flags i \<and> \<not> bit (switch_off e) i"
  by (auto simp: switch_def Let_def bit_simps dest: bit_imp_possible_bit)

lemma below_seven: "j < 7 \<Longrightarrow> j = 0 \<or> j = 1 \<or> j = 2 \<or> j = 3 \<or> j = 4 \<or> j = 5 \<or> j = (6 :: nat)"
  by arith

lemma df_index: "c \<in> set df_names \<Longrightarrow> \<exists>j<7. c = df_names ! j \<and> option_index c df_table = Some j"
  by (auto simp: df_names_def option_index_def df_table_def df_entry_def new_option_def Let_def
      intro: exI [of _ 0] exI [of _ 1] exI [of _ 2] exI [of _ 3] exI [of _ 4] exI [of _ 5] exI [of _ 6])

lemma df_entry_plain: "j < 7 \<Longrightarrow> incongruously (df_table ! j) = 0 \<and> opt_type (df_table ! j) = PARAM_STRING"
  by (drule below_seven) (auto simp: df_table_def df_entry_def new_option_def)

lemma df_switch:
  assumes "i < 7" "j < 7"
  shows "bit (switch (df_table ! j) fl) i \<longleftrightarrow> i = j \<or> bit fl i \<and> \<not> (df_unit (df_names ! i) \<and> df_unit (df_names ! j))"
proof -
  have "switch_on (df_table ! j) AND switch_off (df_table ! j) = 0"
    using below_seven [OF assms(2)] by (auto simp: df_table_def df_entry_def new_option_def push_bit_eq_mult)
  then show ?thesis
    using below_seven [OF assms(1)] below_seven [OF assms(2)]
    by (simp add: switch_bit) (elim disjE; simp add: df_table_def df_entry_def new_option_def df_unit_def df_names_def push_bit_eq_mult)
qed

lemma df_loop:
  "\<forall>o1\<in>set os. fst o1 \<in> set df_names \<Longrightarrow>
    \<exists>f vs. getopt_loop df_table os fl = Val (Some (f, vs)) \<and>
      f = fold (\<lambda>c. switch (df_table ! the (option_index c df_table))) (map fst os) fl"
proof (induction os arbitrary: fl)
  case (Cons o1 os)
  obtain c arg where o: "o1 = (c, arg)" by (cases o1) auto
  obtain j where j: "j < 7" "option_index c df_table = Some j" using df_index [of c] Cons.prems o by auto
  obtain v where v: "option_value (df_table ! j) arg = Val v"
    using df_entry_plain [OF j(1)] by (cases arg) (simp_all add: option_value_def)
  show ?case using Cons.IH [of "switch (df_table ! j) fl"] Cons.prems j v df_entry_plain [OF j(1)] o by auto
qed simp

text \<open>Whether an option counts: of the three that choose a unit only the last one.\<close>

definition df_counts :: "string \<Rightarrow> char \<Rightarrow> bool" where
  "df_counts cs c \<longleftrightarrow> (if df_unit c then filter df_unit cs \<noteq> [] \<and> last (filter df_unit cs) = c else c \<in> set cs)"

lemma df_fold:
  "\<forall>c\<in>set cs. c \<in> set df_names \<Longrightarrow> i < 7 \<Longrightarrow>
    bit (fold (\<lambda>c. switch (df_table ! the (option_index c df_table))) cs 0) i \<longleftrightarrow> df_counts cs (df_names ! i)"
proof (induction cs rule: rev_induct)
  case (snoc c cs)
  obtain j where j: "j < 7" "c = df_names ! j" "option_index c df_table = Some j" using df_index [of c] snoc.prems by auto
  have "df_names ! i = df_names ! j \<longleftrightarrow> i = j" using below_seven [OF snoc.prems(2)] below_seven [OF j(1)]
    by (elim disjE; simp add: df_names_def)
  then show ?case using snoc df_switch [OF snoc.prems(2) j(1)] j by (auto simp: df_counts_def)
qed (simp add: df_counts_def)

text \<open>
  C36: Of the options of df that choose the size of the blocks, k, m and B, the last one on the
  command line counts and the others are switched off; every other option counts wherever it stands,
  and no combination is refused.
\<close>

theorem df_last_unit_wins:
  assumes "lib argv df_opts = (os, args)" "\<forall>o1\<in>set os. fst o1 \<in> set df_names"
  shows "\<exists>f vs. getopt32 lib df_opts (Some df_complementary) argv = Val (f, vs, args) \<and>
    (\<forall>i<7. bit f i \<longleftrightarrow> df_counts (map fst os) (df_names ! i))"
proof -
  obtain f vs where f: "getopt_loop df_table os 0 = Val (Some (f, vs))"
    "f = fold (\<lambda>c. switch (df_table ! the (option_index c df_table))) (map fst os) 0"
    using df_loop [OF assms(2), of 0] by auto
  have c: "getopt_checks (df_start \<lparr> g_table := df_table \<rparr>) f n" for n
    by (simp add: getopt_checks_def df_start_def df_table_def df_entry_def new_option_def)
  have "getopt32 lib df_opts (Some df_complementary) argv = Val (f, vs, args)"
    using df_complement f(1) c assms(1) unfolding getopt32_def df_start_def
    by (simp add: df_opts_def Let_def)
  moreover have "\<forall>i<7. bit f i \<longleftrightarrow> df_counts (map fst os) (df_names ! i)"
    unfolding f(2) using df_fold [of "map fst os"] assms(2) by auto
  ultimately show ?thesis by blast
qed

subsection \<open>The log\<close>

text \<open>
  The log of the kernel. The daemon's dmesg, without options, prints the log and whatever the heap
  holds behind it up to a byte NUL. A log that fills the buffer of 2048 bytes, and a shorter one
  with no NUL behind it in the buffer, makes it read past the end of its buffer.
\<close>

lemma dmesg_reads_on:
  assumes "lib [''dmesg''] ''cs:n:'' = ([], [])" "klog 3 2048 = (int (length log), log)" "log \<noteq> []" "NUL \<notin> set log"
    "length log \<le> 2048"
  shows "dmesg_main lib klog heap [''dmesg''] =
    (let behind = take (2048 - length log) (heap 2048)
     in if NUL \<in> set behind then Val (log @ cstr behind @ [LF]) else Undef OutOfBounds)"
proof -
  have "getopt32 lib ''cs:n:'' (Some ''s+:n+'') [''dmesg''] = Val (0, [], [])"
    using assms(1)
    by (simp add: getopt32_def Let_def option_table_step complement_loop.simps(2) byte_at_def option_index_def
        new_option_def getopt_checks_def numeral_eq_Suc)
  moreover have "cstr (log @ b) = log @ cstr b" for b
    using assms(4) unfolding cstr_def by (intro takeWhile_append2) auto
  ultimately show ?thesis using assms(2-5) by (simp add: dmesg_main_def Let_def)
qed

end
