(* ===== verification/Custom.thy ===== *)
theory Custom
  imports SysstatCalc Strto
begin

text \<open>
  The commands of \<open>src/modules/customization\<close>: \<open>irq_info.c\<close>, the rates of interrupts and soft interrupts,
  and \<open>cgtop.c\<close>, the use of control groups. Files are arguments, \<open>None\<close> one that cannot be opened.
\<close>

subsection \<open>Rates of interrupts\<close>

definition BUFFSIZE :: nat where
  "BUFFSIZE = 64 * 1024"

text \<open>\<open>read\<close> puts the bytes of the file over the front of the buffer; what was there behind them stays.\<close>

definition read_over :: "string option \<Rightarrow> mem \<Rightarrow> mem" where
  "read_over file buf =
     (case file of None \<Rightarrow> buf | Some s \<Rightarrow> (let d = take (BUFFSIZE - 1) s in d @ drop (length d) buf))"

text \<open>
  The number behind a word of the buffer. The variable keeps its value when there is none. A buffer full
  of the file has no NUL, and the search leaves it.
\<close>

definition number_behind :: "string \<Rightarrow> mem \<Rightarrow> u64 \<Rightarrow> u64 outcome" where
  "number_behind w buf v =
     (if NUL \<notin> set buf then Undef OutOfBounds
      else case strstr (cstr buf) w of
        None \<Rightarrow> Val v
      | Some b \<Rightarrow> Val (case scan_uint (drop (length w) b) of None \<Rightarrow> v | Some (n, _) \<Rightarrow> n))"

text \<open>\<open>%d\<close> prints the lower half of the difference as a signed number.\<close>

definition low_int :: "u64 \<Rightarrow> int" where
  "low_int v = sint (ucast v :: 32 word)"

definition irq_info_main :: "string option \<Rightarrow> string option \<Rightarrow> string outcome" where
  "irq_info_main stat1 stat2 =
     (let b1 = read_over stat1 (replicate (BUFFSIZE - 1) NUL); b2 = read_over stat2 b1
      in obind (number_behind ''intr'' b1 0) (\<lambda>irq1.
         obind (number_behind ''softirq'' b1 irq1) (\<lambda>soft1.
         obind (number_behind ''intr'' b2 soft1) (\<lambda>irq2.
         obind (number_behind ''softirq'' b2 irq2) (\<lambda>soft2.
           Val (''irq:'' @ dec_of_int (low_int (irq2 - irq1)) @ ''/s softirq:'' @ dec_of_int (low_int (soft2 - soft1)) @
                ''/s '' @ [LF]))))))"

subsection \<open>Paths of control groups\<close>

text \<open>
  \<open>strjoin\<close> clears a new block up to its first NUL by \<open>strlen\<close>. \<open>junk n\<close> is what a new block of \<open>n\<close> bytes
  holds; without a NUL there the block is read past its end.
\<close>

definition strjoin :: "(nat \<Rightarrow> string) \<Rightarrow> string list \<Rightarrow> string outcome" where
  "strjoin junk xs =
     (let r = concat xs; n = length r + 1 in if NUL \<in> set (take n (junk n)) then Val r else Undef OutOfBounds)"

definition poke :: "mem \<Rightarrow> nat \<Rightarrow> char \<Rightarrow> mem outcome" where
  "poke f i c = (if i < length f then Val (f[i := c]) else Undef OutOfBounds)"

definition peek_at :: "mem \<Rightarrow> nat \<Rightarrow> char outcome" where
  "peek_at f i = (if i < length f then Val (f ! i) else Undef OutOfBounds)"

text \<open>One turn of the loop for a byte and the one behind it: the block, the last index written, the slashes dropped.\<close>

definition kill_step :: "char \<Rightarrow> char \<Rightarrow> mem \<times> nat \<times> int \<Rightarrow> (mem \<times> nat \<times> int) outcome" where
  "kill_step c d s =
     (case s of (f, i, x) \<Rightarrow>
        obind (if c = CHR ''/'' \<and> d = NUL then obind (poke f (i + 1) NUL) (\<lambda>f. Val (f, i + 1, x + 1)) else Val (f, i, x)) (\<lambda>(f, i, x).
        if c \<noteq> CHR ''/'' then obind (poke f (i + 1) c) (\<lambda>f. Val (f, i + 1, x))
        else obind (peek_at f i) (\<lambda>e.
             if e = CHR ''/'' \<or> d = CHR ''/'' then Val (f, i, x + 1)
             else obind (poke f (i + 1) c) (\<lambda>f. Val (f, i + 1, x)))))"

fun kill_loop :: "string \<Rightarrow> mem \<times> nat \<times> int \<Rightarrow> (mem \<times> nat \<times> int) outcome" where
  "kill_loop [] s = Val s"
| "kill_loop (c # r) s = obind (kill_step c (if r = [] then NUL else hd r) s) (kill_loop r)"

text \<open>
  The block has one byte for each byte of the path and none for the end of the string. The byte behind
  the last one kept is cleared, if it is in the block.
\<close>

definition path_kill_slashes :: "string \<Rightarrow> mem outcome" where
  "path_kill_slashes path =
     (let j = length path
      in obind (poke (replicate j NUL) 0 (if path = [] then NUL else hd path)) (\<lambda>f.
         obind (kill_loop path (f, 0, 0)) (\<lambda>(f, i, x).
           let y = int j - x + 1
           in if y < 0 then Undef OutOfBounds else poke f (nat y) NUL)))"

text \<open>A block used as a string has to have an end.\<close>

definition as_string :: "mem \<Rightarrow> string outcome" where
  "as_string f = (if NUL \<in> set f then Val (cstr f) else Undef OutOfBounds)"

definition join_path :: "(nat \<Rightarrow> string) \<Rightarrow> string \<Rightarrow> string \<Rightarrow> string \<Rightarrow> string outcome" where
  "join_path junk controller path suffix =
     obind (strjoin junk [''/sys/fs/cgroup/'', controller, ''/'', path, ''/'', suffix]) (\<lambda>t.
     obind (path_kill_slashes t) as_string)"

subsection \<open>Figures of control groups\<close>

definition ws :: string where
  "ws = '' '' @ [TAB, LF, CR]"

definition strstrip :: "string \<Rightarrow> string" where
  "strstrip s = rev (dropWhile (\<lambda>c. c \<in> set ws) (rev (dropWhile (\<lambda>c. c \<in> set ws) s)))"

definition first_word :: "string \<Rightarrow> string \<Rightarrow> bool" where
  "first_word s word \<longleftrightarrow>
     has_prefix word s \<and> (word = [] \<or> drop (length word) s = [] \<or> hd (drop (length word) s) \<in> set ws)"

text \<open>A line of \<open>blkio.io_service_bytes\<close>, added to the bytes read and written.\<close>

definition blkio_line :: "string \<Rightarrow> u64 \<times> u64 \<Rightarrow> u64 \<times> u64" where
  "blkio_line line s =
     (let skip = dropWhile (\<lambda>c. c \<in> set ws); l = skip (dropWhile (\<lambda>c. c \<notin> set ws) (strstrip line));
          number = (\<lambda>n. of_nat (fst (strtoul 0 (skip (drop n l)))))
      in case s of (rd, wr) \<Rightarrow>
         if first_word l ''Read'' then (rd + number 4, wr)
         else if first_word l ''Write'' then (rd, wr + number 5) else (rd, wr))"

definition blkio_sums :: "string \<Rightarrow> u64 \<times> u64" where
  "blkio_sums file = fold blkio_line (fgets_lines 1024 file) (0, 0)"

text \<open>
  The figures at the start. \<open>read_from_cpuacct\<close> gives \<open>fgets\<close> a null pointer when the file cannot be
  opened; \<open>None\<close> is its result \<open>-1\<close>. \<open>read_from_blkio\<close> never stores its sums.
\<close>

definition read_from_cpuacct :: "string option \<Rightarrow> u64 option outcome" where
  "read_from_cpuacct file =
     (case file of
        None \<Rightarrow> Undef NullDeref
      | Some s \<Rightarrow> Val (case fgets_lines 1024 s of [] \<Rightarrow> None | l # _ \<Rightarrow> Some (of_nat (fst (strtoul 0 (takeWhile (\<lambda>c. c \<noteq> LF \<and> c \<noteq> CR) l))))))"

definition read_from_blkio :: "string option \<Rightarrow> pieces" where
  "read_from_blkio file = (case file of None \<Rightarrow> [(Stdout, ''wrong'' @ [LF])] | Some s \<Rightarrow> [])"

subsection \<open>The tree of groups\<close>

text \<open>
  How many numbers \<open>cg_read_pid\<close> reads. A word that is no number is never passed: \<open>fscanf\<close> reads nothing
  and the file is not at its end.
\<close>

fun count_pids :: "nat \<Rightarrow> string \<Rightarrow> nat outcome" where
  "count_pids 0 s = Undef Blocks"
| "count_pids (Suc fuel) s =
     (if dropWhile c_isspace s = [] then Val 0
      else case scan_uint s of
        None \<Rightarrow> Undef Blocks
      | Some (_, r) \<Rightarrow> obind (count_pids fuel r) (\<lambda>n. Val (Suc n)))"

text \<open>
  \<open>process\<close> returns \<open>-1\<close> when a file is missing. Otherwise it counts the processes, reads the figures of
  the controller and links the group into the list, but then ends without a \<open>return\<close>, and its caller
  uses the value.
\<close>

definition controller_file :: "string \<Rightarrow> string option" where
  "controller_file controller =
     (if controller = ''cpuacct'' then Some ''cpuacct.usage''
      else if controller = ''memory'' then Some ''memory.usage_in_bytes''
      else if controller = ''blkio'' then Some ''blkio.io_service_bytes'' else None)"

definition process :: "(nat \<Rightarrow> string) \<Rightarrow> (string \<Rightarrow> string option) \<Rightarrow> string \<Rightarrow> string \<Rightarrow> int outcome" where
  "process junk file controller path =
     obind (join_path junk controller path ''cgroup.procs'') (\<lambda>p.
       case file p of
         None \<Rightarrow> Val (-1)
       | Some t \<Rightarrow>
           obind (count_pids (length t + 1) t) (\<lambda>n.
             case controller_file controller of
               None \<Rightarrow> Undef Uninitialised
             | Some suffix \<Rightarrow>
                 obind (join_path junk controller path suffix) (\<lambda>q.
                   case file q of
                     None \<Rightarrow> Val (-1)
                   | Some u \<Rightarrow> if controller \<noteq> ''blkio'' \<and> u = [] then Val (-1) else Undef Uninitialised)))"

text \<open>
  \<open>refresh_one\<close> reads the subgroups only after a \<open>process\<close> that did not fail, and none returns without
  failing; the four controllers are tried until one fails.
\<close>

definition refresh_one :: "(nat \<Rightarrow> string) \<Rightarrow> (string \<Rightarrow> string option) \<Rightarrow> string \<Rightarrow> string \<Rightarrow> nat \<Rightarrow> int outcome" where
  "refresh_one junk file controller path depth =
     (if 3 < depth then Val 0
      else obind (process junk file controller path) (\<lambda>r. if r < 0 then Val (-1) else Undef Uninitialised))"

fun refresh :: "(nat \<Rightarrow> string) \<Rightarrow> (string \<Rightarrow> string option) \<Rightarrow> string list \<Rightarrow> int outcome" where
  "refresh junk file [] = Val 0"
| "refresh junk file (c # cs) =
     obind (refresh_one junk file c ''/'' 0) (\<lambda>r. if r < 0 then Val (-1) else refresh junk file cs)"

subsection \<open>The report\<close>

record Cgroup =
  cg_path :: string
  cg_tasks :: int
  cg_cpu :: dbl
  cg_memory :: u64
  cg_in_bps :: u64
  cg_out_bps :: u64

definition cgtop_heading :: string where
  "cgtop_heading = ''-----------------------path----------------------'' @ TAB # ''-task-'' @ TAB # ''  ----cpu(%)----'' @ TAB #
     ''-memory(MB)-'' @ TAB # ''-input(bp/s)-'' @ TAB # ''-output(bp/s)-'' @ [LF]"

text \<open>A figure of 0 is a dash. The first two columns go to standard output, the others into the pipe.\<close>

definition cg_figure :: "string \<Rightarrow> u64 \<Rightarrow> string" where
  "cg_figure sep v =
     sep @ (if v = 0 then pad_left CHR '' '' 8 ''-'' else pad_left CHR '' '' 5 (dec_of_int (sint v)))"

definition display_group :: "Cgroup \<Rightarrow> pieces" where
  "display_group p =
     (if cg_tasks p = 0 then []
      else [(Stdout, pad_right CHR '' '' 50 (cg_path p) @ TAB # pad_left CHR '' '' 4 (dec_of_int (cg_tasks p))),
            (File, TAB # (if cg_cpu p = Fin False 0 \<or> cg_cpu p = Fin True 0 then pad_left CHR '' '' 8 ''-''
                          else pad_left CHR '' '' 9 (fmt_f 2 (cg_cpu p)))),
            (File, cg_figure [TAB] (cg_memory p)), (File, cg_figure (replicate 8 CHR '' '') (cg_in_bps p)),
            (File, cg_figure (replicate 8 CHR '' '') (cg_out_bps p)), (File, [LF])])"

definition display :: "Cgroup list \<Rightarrow> pieces" where
  "display gs = (File, cgtop_heading) # concat (map display_group gs)"

text \<open>The list is empty when \<open>refresh\<close> returns, since no group was linked.\<close>

definition cgtop_main :: "(nat \<Rightarrow> string) \<Rightarrow> (string \<Rightarrow> string option) \<Rightarrow> pieces outcome" where
  "cgtop_main junk file =
     obind (read_from_cpuacct (file ''/sys/fs/cgroup/cpuacct/cpuacct.usage'')) (\<lambda>usage.
     obind (refresh junk file [''systemd'', ''cpuacct'', ''memory'', ''blkio'']) (\<lambda>r.
       Val (read_from_blkio (file ''/sys/fs/cgroup/blkio/blkio.io_service_bytes'') @ display [])))"

end
