(* ===== verification/CustomProps.thy ===== *)
theory CustomProps
  imports Custom
begin

text \<open>
  What holds of the commands of \<open>src/modules/customization\<close>: the rates of \<open>irq_info\<close>, the paths
  \<open>cgtop\<close> makes, against a reference that drops repeated slashes, and what \<open>cgtop\<close> can print at all.
\<close>

subsection \<open>Rates of interrupts\<close>

lemma has_prefix_longer: "length w \<le> length s \<Longrightarrow> has_prefix w (s @ z) = has_prefix w s"
  by (simp add: has_prefix_def)

lemma strstr_append: "strstr s w = Some t \<Longrightarrow> strstr (s @ z) w = Some (t @ z)"
proof (induction s)
  case Nil
  then have "w = []" "t = []" by (simp_all split: if_splits)
  then show ?case by (cases z) (simp_all add: has_prefix_def)
next
  case (Cons c s)
  have t: "has_prefix w t" "length t \<le> Suc (length s)" using strstr_shorter [OF Cons.prems] by simp_all
  have "length w \<le> length t" using t(1) by (simp add: has_prefix_def) (metis length_take min.cobounded1)
  then show ?case using Cons has_prefix_longer [of w "c # s" z] t(2) by (simp split: if_splits)
qed

text \<open>The first place of a word in a file has a number behind it, and something behind the number.\<close>

definition counts :: "string \<Rightarrow> string \<Rightarrow> nat \<Rightarrow> bool" where
  "counts w file n \<longleftrightarrow>
     n < 2 ^ 64 \<and> (\<exists>r. r \<noteq> [] \<and> \<not> starts_digit r \<and> strstr file w = Some (w @ CHR '' '' # dec_of_nat n @ r))"

lemma number_found:
  assumes "counts w file n" "is_cstring file" "NUL \<in> set z"
  shows "number_behind w (file @ z) v = Val (of_nat n)"
proof -
  obtain r where r: "n < 2 ^ 64" "r \<noteq> []" "\<not> starts_digit r" "strstr file w = Some (w @ CHR '' '' # dec_of_nat n @ r)"
    using assms(1) by (auto simp: counts_def)
  have c: "cstr (file @ z) = file @ cstr z"
    using assms(2) unfolding cstr_def is_cstring_def by (intro takeWhile_append2) auto
  have "\<not> starts_digit (r @ cstr z)" using r(2,3) by (cases r) (simp_all add: starts_digit_def)
  then have n: "scan_uint (dec_of_nat n @ r @ cstr z) = Some (of_nat n, r @ cstr z)" using r(1) by (rule scan_uint_dec)
  have f: "strstr (file @ cstr z) w = Some (w @ CHR '' '' # dec_of_nat n @ r @ cstr z)"
    using strstr_append [OF r(4), of "cstr z"] by (simp only: append_assoc append_Cons)
  have "drop (length w) (w @ CHR '' '' # dec_of_nat n @ r @ cstr z) = CHR '' '' # dec_of_nat n @ r @ cstr z"
    by (simp only: drop_append drop_all diff_self_eq_0 drop_0 append_Nil order_refl)
  moreover have "NUL \<in> set (file @ z)" using assms(3) by simp
  ultimately show ?thesis by (simp only: number_behind_def c f option.case scan_uint_space n prod.case not_True_eq_False if_False)
qed

lemma low_int_small:
  assumes "n < 2 ^ 31"
  shows "low_int (of_nat n) = int n"
proof -
  have "(ucast (of_nat n :: u64) :: 32 word) = of_nat n"
    using assms by (simp add: word_unat_eq_iff unsigned_ucast_eq unsigned_of_nat take_bit_nat_eq_self)
  then show ?thesis using assms by (simp add: low_int_def signed_of_nat signed_take_bit_int_eq_self_iff)
qed

text \<open>
  The rates of interrupts. From two files of the kernel's statistics, each with the number of
  interrupts and of soft interrupts behind their words, irq_info prints how many there were between
  the two, even when the second file is shorter and leaves the end of the first one in the buffer.
\<close>

lemma irq_rates:
  assumes "is_cstring f1" "is_cstring f2" "length f1 < BUFFSIZE - 1" "length f2 < BUFFSIZE - 1"
    "counts ''intr'' f1 i" "counts ''intr'' f2 i'" "counts ''softirq'' f1 s" "counts ''softirq'' f2 s'"
    "i \<le> i'" "i' - i < 2 ^ 31" "s \<le> s'" "s' - s < 2 ^ 31"
  shows "irq_info_main (Some f1) (Some f2) =
    Val (''irq:'' @ dec_of_nat (i' - i) @ ''/s softirq:'' @ dec_of_nat (s' - s) @ ''/s '' @ [LF])"
proof -
  have b: "\<exists>z. read_over (Some f) buf = f @ z \<and> NUL \<in> set z"
    if "length f < BUFFSIZE - 1" "length buf = BUFFSIZE - 1" "last buf = NUL" for f buf
  proof (intro exI conjI)
    show "read_over (Some f) buf = f @ drop (length f) buf" using that(1) by (simp add: read_over_def Let_def)
    have "drop (length f) buf \<noteq> []" "last (drop (length f) buf) = NUL" using that by simp_all
    then show "NUL \<in> set (drop (length f) buf)" by (metis last_in_set)
  qed
  obtain z1 where z1: "read_over (Some f1) (replicate (BUFFSIZE - 1) NUL) = f1 @ z1" "NUL \<in> set z1"
    using b [OF assms(3), of "replicate (BUFFSIZE - 1) NUL"] by (metis assms(3) last_replicate length_replicate less_nat_zero_code)
  have "length (f1 @ z1) = BUFFSIZE - 1" "last (f1 @ z1) = NUL"
    using assms(3) unfolding z1(1) [symmetric] by (simp_all add: read_over_def Let_def BUFFSIZE_def)
  then obtain z2 where z2: "read_over (Some f2) (f1 @ z1) = f2 @ z2" "NUL \<in> set z2" using b [OF assms(4)] by blast
  have d: "low_int (of_nat y - of_nat x) = int (y - x)" if "x \<le> y" "y - x < 2 ^ 31" for x y
    using low_int_small [OF that(2)] that(1) by (simp add: of_nat_diff)
  show ?thesis
    unfolding irq_info_main_def Let_def z1(1) z2(1)
    using number_found [OF assms(5,1) z1(2)] number_found [OF assms(7,1) z1(2)] number_found [OF assms(6,2) z2(2)] number_found [OF assms(8,2) z2(2)]
      d [OF assms(9,10)] d [OF assms(11,12)]
    by (simp add: dec_of_int_def)
qed

subsection \<open>Repeated slashes\<close>

fun squeeze :: "string \<Rightarrow> string" where
  "squeeze [] = []"
| "squeeze (c # r) = (if c = CHR ''/'' \<and> r \<noteq> [] \<and> hd r = CHR ''/'' then squeeze r else c # squeeze r)"

text \<open>What the loop keeps of a path when the last byte kept before it is \<open>e\<close>.\<close>

fun kept_of :: "char \<Rightarrow> string \<Rightarrow> string" where
  "kept_of e [] = []"
| "kept_of e (c # r) =
     (if c \<noteq> CHR ''/'' then c # kept_of c r
      else if e = CHR ''/'' \<or> r \<noteq> [] \<and> hd r = CHR ''/'' then kept_of e r else c # kept_of c r)"

lemma kept_of_shorter: "length (kept_of e r) \<le> length r"
  by (induction e r rule: kept_of.induct) (auto intro: le_SucI)

lemma kept_of_squeeze:
  "(e \<noteq> CHR ''/'' \<longrightarrow> kept_of e r = squeeze r) \<and>
   (r \<noteq> [] \<longrightarrow> last r \<noteq> CHR ''/'' \<longrightarrow> CHR ''/'' # kept_of CHR ''/'' r = squeeze (CHR ''/'' # r))"
proof (induction r arbitrary: e)
  case (Cons c r)
  show ?case
  proof (cases "c = CHR ''/''")
    case True
    then show ?thesis using Cons.IH [of e] Cons.IH [of c] by (cases r) auto
  next
    case False
    then show ?thesis using Cons.IH [of c] by simp
  qed
qed simp

lemma poke_next: "poke (w @ replicate (Suc m) NUL) (length w) c = Val (w @ c # replicate m NUL)"
  by (simp add: poke_def list_update_append)

lemma kill_loop_kept:
  "w \<noteq> [] \<Longrightarrow> r = [] \<or> last r \<noteq> CHR ''/'' \<Longrightarrow> NUL \<notin> set r \<Longrightarrow> length r \<le> m \<Longrightarrow>
    kill_loop r (w @ replicate m NUL, length w - 1, x) =
      Val (w @ kept_of (last w) r @ replicate (m - length (kept_of (last w) r)) NUL,
           length w - 1 + length (kept_of (last w) r), x + int (length r) - int (length (kept_of (last w) r)))"
proof (induction r arbitrary: w m x)
  case (Cons c r)
  let ?d = "if r = [] then NUL else hd r"
  obtain m' where m: "m = Suc m'" using Cons.prems(4) by (cases m) auto
  have d: "\<not> (c = CHR ''/'' \<and> ?d = NUL)" using Cons.prems(2,3) by (cases r) auto
  have at: "peek_at (w @ replicate m NUL) (length w - 1) = Val (last w)"
    using Cons.prems(1) by (cases w rule: rev_cases) (simp_all add: peek_at_def nth_append)
  have put: "poke (w @ replicate m NUL) (length w - 1 + 1) c = Val ((w @ [c]) @ replicate m' NUL)"
    using poke_next [of w m' c] Cons.prems(1) m by (simp add: Suc_diff_Suc flip: length_greater_0_conv)
  have r: "r = [] \<or> last r \<noteq> CHR ''/''" "NUL \<notin> set r" using Cons.prems(2,3) by auto
  show ?case
  proof (cases "c \<noteq> CHR ''/'' \<or> last w \<noteq> CHR ''/'' \<and> ?d \<noteq> CHR ''/''")
    case True
    then have "kill_step c ?d (w @ replicate m NUL, length w - 1, x) = Val ((w @ [c]) @ replicate m' NUL, length (w @ [c]) - 1, x)"
      using d at put Cons.prems(1) by (auto simp: kill_step_def)
    moreover have "kept_of (last w) (c # r) = c # kept_of c r" using True by auto
    ultimately show ?thesis using Cons.IH [of "w @ [c]" m' x] r Cons.prems(1,4) m by (simp add: Suc_diff_Suc)
  next
    case False
    then have "kill_step c ?d (w @ replicate m NUL, length w - 1, x) = Val (w @ replicate m NUL, length w - 1, x + 1)"
      using d at by (auto simp: kill_step_def)
    moreover have "kept_of (last w) (c # r) = kept_of (last w) r" using False r by (auto split: if_splits)
    ultimately show ?thesis using Cons.IH [of w m "x + 1"] r Cons.prems(1,4) by simp
  qed
qed simp

lemma squeeze_bytes: "set (squeeze r) \<subseteq> set r" "length (squeeze r) \<le> length r" "length (squeeze r) = length r \<longleftrightarrow> squeeze r = r"
proof -
  show l: "length (squeeze r) \<le> length r" for r by (induction r) (auto intro: le_SucI)
  show "set (squeeze r) \<subseteq> set r" by (induction r) auto
  have "length (squeeze r) = length r \<Longrightarrow> squeeze r = r"
  proof (induction r)
    case (Cons c r)
    then show ?case using l [of r] by (auto split: if_splits)
  qed simp
  then show "length (squeeze r) = length r \<longleftrightarrow> squeeze r = r" by auto
qed

lemma path_kill_slashes_block:
  assumes "is_cstring p" "p \<noteq> []" "hd p = CHR ''/''" "last p \<noteq> CHR ''/''"
  shows "path_kill_slashes p =
    (if squeeze p = p then Undef OutOfBounds else Val (squeeze p @ NUL # replicate (length p - length (squeeze p) - 1) NUL))"
proof -
  obtain r where p: "p = CHR ''/'' # r" using assms(2,3) by (cases p) auto
  have r: "r \<noteq> []" "last r \<noteq> CHR ''/''" "NUL \<notin> set r" using assms(1,4) p by (auto simp: is_cstring_def split: if_splits)
  let ?k = "kept_of CHR ''/'' r"
  have sq: "squeeze p = CHR ''/'' # ?k" using kept_of_squeeze [of NUL r] r(1,2) p by simp
  have len: "length ?k \<le> length r" by (rule kept_of_shorter)
  have first: "kill_loop p (CHR ''/'' # replicate (length r) NUL, 0, 0) = kill_loop r ([CHR ''/''] @ replicate (length r) NUL, length [CHR ''/''] - 1, 1)"
    using r p by (cases r) (auto simp: kill_step_def peek_at_def)
  have loop: "kill_loop p (CHR ''/'' # replicate (length r) NUL, 0, 0) =
      Val (CHR ''/'' # ?k @ replicate (length r - length ?k) NUL, length ?k, 1 + int (length r) - int (length ?k))"
    unfolding first using kill_loop_kept [of "[CHR ''/'']" r "length r" 1] r by simp
  have "path_kill_slashes p =
      poke (CHR ''/'' # ?k @ replicate (length r - length ?k) NUL) (Suc (length ?k)) NUL"
    using loop by (simp add: path_kill_slashes_def p poke_def Let_def nat_add_distrib)
  moreover have "squeeze p = p \<longleftrightarrow> length ?k = length r" using squeeze_bytes(3) [of p] sq p by simp
  moreover have "poke (CHR ''/'' # ?k @ replicate (length r - length ?k) NUL) (Suc (length ?k)) NUL =
      (if length ?k = length r then Undef OutOfBounds else Val (squeeze p @ NUL # replicate (length r - length ?k - 1) NUL))"
  proof (cases "length r - length ?k")
    case 0
    then show ?thesis using len by (simp add: poke_def)
  next
    case (Suc n)
    then show ?thesis using poke_next [of "squeeze p" n NUL] sq by auto
  qed
  ultimately show ?thesis using sq p by simp
qed

text \<open>
  C37: The paths of cgtop. A path that begins with a slash and does not end with one comes back
  without its repeated slashes, but only when it has one: the block for the result has no byte for
  the end of the string, so a path without a repeated slash, as the third level of groups has, is
  read past its end.
\<close>

theorem slashes_dropped:
  assumes "is_cstring p" "p \<noteq> []" "hd p = CHR ''/''" "last p \<noteq> CHR ''/''"
  shows "obind (path_kill_slashes p) as_string = (if squeeze p = p then Undef OutOfBounds else Val (squeeze p))"
proof -
  have "is_cstring (squeeze p)" using squeeze_bytes(1) [of p] assms(1) by (auto simp: is_cstring_def)
  then show ?thesis unfolding path_kill_slashes_block [OF assms] by (simp add: as_string_def)
qed

subsection \<open>What \<open>cgtop\<close> prints\<close>

definition systemd_procs :: string where
  "systemd_procs = ''/sys/fs/cgroup/systemd/cgroup.procs''"

lemma systemd_procs_squeezed:
  "obind (path_kill_slashes ''/sys/fs/cgroup/systemd///cgroup.procs'') as_string = Val systemd_procs"
proof -
  let ?t = "''/sys/fs/cgroup/systemd///cgroup.procs''"
  have "squeeze ?t = systemd_procs" by (simp add: systemd_procs_def)
  moreover have "path_kill_slashes ?t =
      (if squeeze ?t = ?t then Undef OutOfBounds else Val (squeeze ?t @ NUL # replicate (length ?t - length (squeeze ?t) - 1) NUL))"
    by (rule path_kill_slashes_block) (simp_all add: is_cstring_def)
  moreover have "is_cstring systemd_procs" by (simp add: systemd_procs_def is_cstring_def)
  ultimately show ?thesis by (simp add: as_string_def systemd_procs_def cstr_def)
qed

lemma systemd_path:
  assumes "join_path junk ''systemd'' ''/'' ''cgroup.procs'' = Val p"
  shows "p = systemd_procs"
  using assms systemd_procs_squeezed by (auto simp: join_path_def strjoin_def Let_def split: if_splits)

text \<open>
  All that cgtop can print is its heading. A run that returns at all has found no cgroup hierarchy
  of systemd: with one, the first group that is processed makes a function end without a value that
  its caller goes on to use. And without the file of cpuacct it reads from a null pointer before
  that.
\<close>

lemma cgtop_only_heading:
  assumes "cgtop_main junk file = Val out"
  shows "on_file out = cgtop_heading \<and> file systemd_procs = None \<and> file ''/sys/fs/cgroup/cpuacct/cpuacct.usage'' \<noteq> None"
proof -
  let ?usage = "file ''/sys/fs/cgroup/cpuacct/cpuacct.usage''"
  have u: "?usage \<noteq> None" using assms by (cases ?usage) (simp_all add: cgtop_main_def read_from_cpuacct_def)
  obtain r where r: "refresh junk file [''systemd'', ''cpuacct'', ''memory'', ''blkio''] = Val r"
    "out = read_from_blkio (file ''/sys/fs/cgroup/blkio/blkio.io_service_bytes'') @ display []"
    using assms by (auto simp: cgtop_main_def obind_eq_Val)
  obtain q where q: "refresh_one junk file ''systemd'' ''/'' 0 = Val q" using r(1) by (auto simp: obind_eq_Val)
  then obtain v where v: "process junk file ''systemd'' ''/'' = Val v" by (auto simp: refresh_one_def obind_eq_Val)
  then obtain p where p: "join_path junk ''systemd'' ''/'' ''cgroup.procs'' = Val p" "file p = None"
    by (auto simp: process_def obind_eq_Val controller_file_def split: option.splits)
  have "on_file out = cgtop_heading"
    unfolding r(2) by (auto simp: on_file_def display_def read_from_blkio_def split: option.split)
  then show ?thesis using p systemd_path [OF p(1)] u by simp
qed

end
