(* ===== verification/Sysinfo.thy ===== *)
theory Sysinfo
  imports PsTable Strto
begin

text \<open>
  \<open>sysinfo.c\<close>: the figures of the machine that ps uses. The global variables of \<open>meminfo\<close> and \<open>vminfo\<close>
  are a function from their names to values; the tables map the names of the kernel to the names of the
  variables and are searched with \<open>bsearch\<close>. Files are arguments, \<open>None\<close> one that cannot be opened; a
  missing one ends the process. The functions only other programs of procps call are left out: \<open>uptime\<close>,
  \<open>loadavg\<close>, \<open>getstat\<close>, \<open>getrunners\<close>, \<open>getdiskstat\<close>, \<open>getpartitions_num\<close>, \<open>getslabinfo\<close>.
\<close>

subsection \<open>Tables of variables\<close>

type_synonym variables = "string \<Rightarrow> u64"
type_synonym var_table = "(string \<times> string) list"

text \<open>\<open>FILE_TO_BUF\<close> reads what fits the buffer; the text is a string, which ends at a NUL.\<close>

definition file_to_buf :: "string option \<Rightarrow> string outcome" where
  "file_to_buf file = (case file of None \<Rightarrow> Undef Exits | Some s \<Rightarrow> Val (cstr (take 8191 s)))"

text \<open>
  The loop of both readers: a name up to the separator, which may be anything of less than 32 bytes, its
  variable, a number, and the rest of the line is skipped.
\<close>

definition compare_structs :: "string \<Rightarrow> string \<times> string \<Rightarrow> int" where
  "compare_structs = by_spec fst"

definition set_variable :: "var_table \<Rightarrow> string \<Rightarrow> string \<Rightarrow> variables \<Rightarrow> variables" where
  "set_variable table name rest v =
     (if 32 \<le> length name then v
      else case bsearch compare_structs name table of
        None \<Rightarrow> v
      | Some e \<Rightarrow> v(snd e := of_nat (fst (strtoul 10 rest))))"

function read_table :: "char \<Rightarrow> var_table \<Rightarrow> string \<Rightarrow> variables \<Rightarrow> variables" where
  "read_table sep table head v =
     (case strchr head sep of
        None \<Rightarrow> v
      | Some tail \<Rightarrow>
          (let v = set_variable table (takeWhile (\<lambda>c. c \<noteq> sep) head) (tl tail) v
           in case strchr (tl tail) LF of None \<Rightarrow> v | Some tail \<Rightarrow> read_table sep table (tl tail) v))"
  by pat_completeness auto
termination
  by (relation "measure (\<lambda>(sep, table, head, v). length head)") (auto dest!: strchr_Some)

declare read_table.simps [simp del]

subsection \<open>Memory\<close>

definition mem_table :: var_table where
  "mem_table =
    [(''Active'', ''kb_active''), (''Active(file)'', ''kb_active_file''), (''AnonPages'', ''kb_anon_pages''),
     (''Bounce'', ''kb_bounce''), (''Buffers'', ''kb_main_buffers''), (''Cached'', ''kb_page_cache''),
     (''CommitLimit'', ''kb_commit_limit''), (''Committed_AS'', ''kb_committed_as''), (''Dirty'', ''kb_dirty''),
     (''HighFree'', ''kb_high_free''), (''HighTotal'', ''kb_high_total''), (''Inact_clean'', ''kb_inact_clean''),
     (''Inact_dirty'', ''kb_inact_dirty''), (''Inact_laundry'', ''kb_inact_laundry''),
     (''Inact_target'', ''kb_inact_target''), (''Inactive'', ''kb_inactive''),
     (''Inactive(file)'', ''kb_inactive_file''), (''LowFree'', ''kb_low_free''), (''LowTotal'', ''kb_low_total''),
     (''Mapped'', ''kb_mapped''), (''MemAvailable'', ''kb_main_available''), (''MemFree'', ''kb_main_free''),
     (''MemTotal'', ''kb_main_total''), (''NFS_Unstable'', ''kb_nfs_unstable''), (''PageTables'', ''kb_pagetables''),
     (''ReverseMaps'', ''nr_reversemaps''), (''SReclaimable'', ''kb_slab_reclaimable''),
     (''SUnreclaim'', ''kb_slab_unreclaimable''), (''Shmem'', ''kb_main_shared''), (''Slab'', ''kb_slab''),
     (''SwapCached'', ''kb_swap_cached''), (''SwapFree'', ''kb_swap_free''), (''SwapTotal'', ''kb_swap_total''),
     (''VmallocChunk'', ''kb_vmalloc_chunk''), (''VmallocTotal'', ''kb_vmalloc_total''),
     (''VmallocUsed'', ''kb_vmalloc_used''), (''Writeback'', ''kb_writeback'')]"

text \<open>The version of the kernel as \<open>LINUX_VERSION\<close> packs it.\<close>

definition LINUX_VERSION :: "nat \<Rightarrow> nat \<Rightarrow> nat \<Rightarrow> nat" where
  "LINUX_VERSION x y z = 0x10000 * x + 0x100 * y + z"

text \<open>What the kernel before 3.14 does not say: the memory that can be had without swapping.\<close>

definition estimate_available :: "u64 \<Rightarrow> variables \<Rightarrow> u64" where
  "estimate_available min_free v =
     (let low = min_free * 5 div 4; file = v ''kb_inactive_file'' + v ''kb_active_file'';
          slab = v ''kb_slab_reclaimable'';
          available = v ''kb_main_free'' - low + file - min (file div 2) low + slab - min (slab div 2) low
      in if sint available < 0 then 0 else available)"

text \<open>The figures that follow from those of the file.\<close>

definition derive_memory :: "variables \<Rightarrow> variables" where
  "derive_memory v =
     (let v = (if v ''kb_low_total'' = 0
               then v(''kb_low_total'' := v ''kb_main_total'', ''kb_low_free'' := v ''kb_main_free'') else v);
          v = (if v ''kb_inactive'' = - 1
               then v(''kb_inactive'' := v ''kb_inact_dirty'' + v ''kb_inact_clean'' + v ''kb_inact_laundry'') else v);
          v = v(''kb_main_cached'' := v ''kb_page_cache'' + v ''kb_slab_reclaimable'',
                ''kb_swap_used'' := v ''kb_swap_total'' - v ''kb_swap_free'');
          v = (if v ''kb_main_total'' < v ''kb_main_available'' then v(''kb_main_available'' := v ''kb_main_free'') else v);
          used = v ''kb_main_total'' - v ''kb_main_free'' - v ''kb_main_cached'' - v ''kb_main_buffers''
      in v(''kb_main_used'' := if sint used < 0 then v ''kb_main_total'' - v ''kb_main_free'' else used))"

definition meminfo :: "string option \<Rightarrow> string option \<Rightarrow> nat \<Rightarrow> variables \<Rightarrow> variables outcome" where
  "meminfo file min_free_file version v =
     obind (file_to_buf file) (\<lambda>buf.
       let v = v(''kb_inactive'' := - 1, ''kb_low_total'' := 0, ''kb_main_available'' := 0);
           v = derive_memory (read_table CHR '':'' mem_table buf v)
       in if v ''kb_main_available'' \<noteq> 0 then Val v
          else if version < LINUX_VERSION 2 6 27 then Val (v(''kb_main_available'' := v ''kb_main_free''))
          else obind (file_to_buf min_free_file) (\<lambda>buf.
            let v = v(''kb_min_free'' := of_nat (fst (strtoul 10 buf)))
            in Val (v(''kb_main_available'' := estimate_available (v ''kb_min_free'') v))))"

subsection \<open>Virtual memory\<close>

definition vm_table :: var_table where
  "vm_table =
    [(''allocstall'', ''vm_allocstall''), (''kswapd_inodesteal'', ''vm_kswapd_inodesteal''),
     (''kswapd_steal'', ''vm_kswapd_steal''), (''nr_active_file'', ''vm_nr_active_file''),
     (''nr_dirty'', ''vm_nr_dirty''), (''nr_free_pages'', ''vm_nr_free_pages''),
     (''nr_inactive_file'', ''vm_nr_inactive_file''), (''nr_mapped'', ''vm_nr_mapped''),
     (''nr_page_table_pages'', ''vm_nr_page_table_pages''), (''nr_pagecache'', ''vm_nr_pagecache''),
     (''nr_reverse_maps'', ''vm_nr_reverse_maps''), (''nr_slab'', ''vm_nr_slab''),
     (''nr_slab_reclaimable'', ''vm_nr_slab_reclaimable''),
     (''nr_slab_unreclaimable'', ''vm_nr_slab_unreclaimable''), (''nr_unstable'', ''vm_nr_unstable''),
     (''nr_writeback'', ''vm_nr_writeback''), (''pageoutrun'', ''vm_pageoutrun''),
     (''pgactivate'', ''vm_pgactivate''), (''pgalloc'', ''vm_pgalloc''), (''pgalloc_dma'', ''vm_pgalloc_dma''),
     (''pgalloc_high'', ''vm_pgalloc_high''), (''pgalloc_normal'', ''vm_pgalloc_normal''),
     (''pgdeactivate'', ''vm_pgdeactivate''), (''pgfault'', ''vm_pgfault''), (''pgfree'', ''vm_pgfree''),
     (''pginodesteal'', ''vm_pginodesteal''), (''pgmajfault'', ''vm_pgmajfault''), (''pgpgin'', ''vm_pgpgin''),
     (''pgpgout'', ''vm_pgpgout''), (''pgrefill'', ''vm_pgrefill''), (''pgrefill_dma'', ''vm_pgrefill_dma''),
     (''pgrefill_high'', ''vm_pgrefill_high''), (''pgrefill_normal'', ''vm_pgrefill_normal''),
     (''pgrotated'', ''vm_pgrotated''), (''pgscan'', ''vm_pgscan''),
     (''pgscan_direct_dma'', ''vm_pgscan_direct_dma''), (''pgscan_direct_high'', ''vm_pgscan_direct_high''),
     (''pgscan_direct_normal'', ''vm_pgscan_direct_normal''), (''pgscan_kswapd_dma'', ''vm_pgscan_kswapd_dma''),
     (''pgscan_kswapd_high'', ''vm_pgscan_kswapd_high''), (''pgscan_kswapd_normal'', ''vm_pgscan_kswapd_normal''),
     (''pgsteal'', ''vm_pgsteal''), (''pgsteal_dma'', ''vm_pgsteal_dma''), (''pgsteal_high'', ''vm_pgsteal_high''),
     (''pgsteal_normal'', ''vm_pgsteal_normal''), (''pswpin'', ''vm_pswpin''), (''pswpout'', ''vm_pswpout''),
     (''slabs_scanned'', ''vm_slabs_scanned'')]"

definition sum_unless_set :: "string \<Rightarrow> string list \<Rightarrow> variables \<Rightarrow> variables" where
  "sum_unless_set name parts v = (if v name = 0 then v(name := sum_list (map v parts)) else v)"

definition vminfo :: "string option \<Rightarrow> variables \<Rightarrow> variables outcome" where
  "vminfo file v =
     obind (file_to_buf file) (\<lambda>buf.
       let v = v(''vm_pgalloc'' := 0, ''vm_pgrefill'' := 0, ''vm_pgscan'' := 0, ''vm_pgsteal'' := 0);
           v = read_table CHR '' '' vm_table buf v;
           v = sum_unless_set ''vm_pgalloc'' [''vm_pgalloc_dma'', ''vm_pgalloc_high'', ''vm_pgalloc_normal''] v;
           v = sum_unless_set ''vm_pgrefill'' [''vm_pgrefill_dma'', ''vm_pgrefill_high'', ''vm_pgrefill_normal''] v;
           v = sum_unless_set ''vm_pgscan''
                 [''vm_pgscan_direct_dma'', ''vm_pgscan_direct_high'', ''vm_pgscan_direct_normal'',
                  ''vm_pgscan_kswapd_dma'', ''vm_pgscan_kswapd_high'', ''vm_pgscan_kswapd_normal''] v
       in Val (sum_unless_set ''vm_pgsteal'' [''vm_pgsteal_dma'', ''vm_pgsteal_high'', ''vm_pgsteal_normal''] v))"

subsection \<open>The time of the start\<close>

text \<open>
  The static variable is returned unless it is 0. Without a line of the name and a number in the file the
  process ends.
\<close>

fun btime_line :: "string list \<Rightarrow> u64 option" where
  "btime_line [] = None"
| "btime_line (l # ls) =
     (if has_prefix ''btime'' l
      then (case scan_uint (drop 5 l) of Some (t, _) \<Rightarrow> Some t | None \<Rightarrow> btime_line ls)
      else btime_line ls)"

definition getbtime :: "string option \<Rightarrow> u64 \<Rightarrow> u64 outcome" where
  "getbtime file btime =
     (if btime \<noteq> 0 then Val btime
      else case file of
        None \<Rightarrow> Undef Exits
      | Some s \<Rightarrow> (case btime_line (fgets_lines 8192 s) of None \<Rightarrow> Undef Exits | Some t \<Rightarrow> Val t))"

subsection \<open>The clock\<close>

definition NOTE_NOT_FOUND :: u64 where
  "NOTE_NOT_FOUND = 42"

text \<open>
  The auxiliary vector is copied into a page up to its entry of type 0; a file without one, and a vector
  that does not fit, is written past the page. The first entry is looked at whatever its type is.
\<close>

definition copy_notes :: "nat \<Rightarrow> (u64 \<times> u64) list \<Rightarrow> (u64 \<times> u64) list outcome" where
  "copy_notes room notes =
     (let used = takeWhile (\<lambda>n. fst n \<noteq> 0) notes
      in if length used = length notes \<or> room < length used + 1 then Undef OutOfBounds
         else Val (take (length used + 1) notes))"

fun search_notes :: "u64 \<Rightarrow> (u64 \<times> u64) list \<Rightarrow> u64" where
  "search_notes ty [] = NOTE_NOT_FOUND"
| "search_notes ty (n # ns) =
     (if fst n = ty then snd n else if ns = [] \<or> fst (hd ns) = 0 then NOTE_NOT_FOUND else search_notes ty ns)"

text \<open>Without the file the notes are looked for behind the environment, \<open>stack\<close>, up to a word 0.\<close>

definition find_elf_note :: "(u64 \<times> u64) list option \<Rightarrow> (u64 \<times> u64) list \<Rightarrow> u64 \<Rightarrow> u64 outcome" where
  "find_elf_note auxv stack ty =
     (case auxv of
        None \<Rightarrow> Val (case find (\<lambda>n. fst n = ty) (takeWhile (\<lambda>n. fst n \<noteq> 0) stack) of
                       None \<Rightarrow> NOTE_NOT_FOUND | Some n \<Rightarrow> snd n)
      | Some notes \<Rightarrow> obind (copy_notes 256 notes) (\<lambda>notes. Val (search_notes ty notes)))"

text \<open>A note that says 42 is taken for a missing one; \<open>ids\<close> says that effective and real ids differ.\<close>

definition check_for_privs :: "(u64 \<times> u64) list option \<Rightarrow> (u64 \<times> u64) list \<Rightarrow> bool \<Rightarrow> bool outcome" where
  "check_for_privs auxv stack ids =
     obind (find_elf_note auxv stack 23) (\<lambda>rc. Val (if rc = NOTE_NOT_FOUND then ids else rc \<noteq> 0))"

text \<open>The rates of clocks the fallback knows, from the rate it has measured; 1024 is what it assumes of a 64-bit machine that stores the low byte first.\<close>

definition known_hertz :: "nat \<Rightarrow> u64" where
  "known_hertz h =
     (if 9 \<le> h \<and> h \<le> 11 then 10 else if 18 \<le> h \<and> h \<le> 22 then 20 else if 30 \<le> h \<and> h \<le> 34 then 32
      else if 48 \<le> h \<and> h \<le> 52 then 50 else if 58 \<le> h \<and> h \<le> 61 then 60 else if 62 \<le> h \<and> h \<le> 65 then 64
      else if 95 \<le> h \<and> h \<le> 105 then 100 else if 124 \<le> h \<and> h \<le> 132 then 128
      else if 195 \<le> h \<and> h \<le> 204 then 200 else if 247 \<le> h \<and> h \<le> 252 then 250
      else if 253 \<le> h \<and> h \<le> 260 then 256 else if 393 \<le> h \<and> h \<le> 408 then 400
      else if 790 \<le> h \<and> h \<le> 808 then 800 else if 990 \<le> h \<and> h \<le> 1010 then 1000
      else if 1015 \<le> h \<and> h \<le> 1035 then 1024 else if 1180 \<le> h \<and> h \<le> 1220 then 1200 else 1024)"

text \<open>\<open>measured\<close> is the rate from the times of \<open>/proc/uptime\<close> and \<open>/proc/stat\<close>, which is taken only when \<open>sysconf\<close> fails.\<close>

definition old_Hertz_hack :: "int \<Rightarrow> nat \<Rightarrow> u64" where
  "old_Hertz_hack clk_tck measured = (if 0 < clk_tck then of_int clk_tck else known_hertz measured)"

definition cpuinfo :: "int \<Rightarrow> int" where
  "cpuinfo online = (if online < 1 then 1 else online)"

record libproc =
  lp_have_privs :: bool
  lp_smp_num_cpus :: int
  lp_Hertz :: u64

definition init_libproc ::
  "(u64 \<times> u64) list option \<Rightarrow> (u64 \<times> u64) list \<Rightarrow> bool \<Rightarrow> nat \<Rightarrow> int \<Rightarrow> int \<Rightarrow> nat \<Rightarrow> libproc outcome" where
  "init_libproc auxv stack ids version online clk_tck measured =
     obind (check_for_privs auxv stack ids) (\<lambda>privs.
     obind (if LINUX_VERSION 2 4 0 < version then find_elf_note auxv stack 17 else Val NOTE_NOT_FOUND) (\<lambda>hz.
       Val \<lparr> lp_have_privs = privs, lp_smp_num_cpus = cpuinfo online,
             lp_Hertz = if hz \<noteq> NOTE_NOT_FOUND then hz else old_Hertz_hack clk_tck measured \<rparr>))"

subsection \<open>The width of process ids\<close>

fun digits_of :: "nat \<Rightarrow> nat" where
  "digits_of rc = (if rc = 0 then 0 else Suc (digits_of (rc div 10)))"

declare digits_of.simps [simp del]

text \<open>The static variable is returned unless it is 0. A file of 24 bytes or more is ended one byte past the buffer.\<close>

definition get_pid_digits :: "string option \<Rightarrow> nat \<Rightarrow> nat outcome" where
  "get_pid_digits file ret =
     (if ret \<noteq> 0 then Val ret
      else case file of
        None \<Rightarrow> Val 5
      | Some s \<Rightarrow>
          if length s < 3 then Val 5
          else if 24 \<le> length s then Undef OutOfBounds
          else (case strtol 10 (cstr s) of (rc, rest) \<Rightarrow>
            if rc < 42 \<or> rest \<noteq> [] \<and> hd rest \<noteq> LF then Val 5 else Val (digits_of (nat (rc - 1)))))"

end
