(* ===== verification/SysinfoProps.thy ===== *)
theory SysinfoProps
  imports Sysinfo
begin

text \<open>
  The tables of \<open>sysinfo.c\<close> are sorted as \<open>bsearch\<close> needs them, so the figures of the kernel's files come
  back under their variables, whatever their order; and the width of process ids.
\<close>

subsection \<open>The tables\<close>

lemma tables_sorted:
  "strictly_sorted (map fst mem_table)" "list_all is_cstring (map fst mem_table)"
  "strictly_sorted (map fst vm_table)" "list_all is_cstring (map fst vm_table)"
  by code_simp+

interpretation mem_names: sorted_table compare_structs mem_table is_cstring
  unfolding compare_structs_def by (intro sorted_by_spec tables_sorted)

interpretation vm_names: sorted_table compare_structs vm_table is_cstring
  unfolding compare_structs_def by (intro sorted_by_spec tables_sorted)

lemma find_map_of: "find (\<lambda>e. fst e = k) xs = map_option (Pair k) (map_of xs k)"
  by (induction xs) auto

lemma mem_search: "is_cstring k \<Longrightarrow> bsearch compare_structs k mem_table = map_option (Pair k) (map_of mem_table k)"
  using find_by_spec [of k fst mem_table] tables_sorted(2) mem_names.bsearch_find [of k]
  by (simp add: compare_structs_def find_map_of)

lemma vm_search: "is_cstring k \<Longrightarrow> bsearch compare_structs k vm_table = map_option (Pair k) (map_of vm_table k)"
  using find_by_spec [of k fst vm_table] tables_sorted(4) vm_names.bsearch_find [of k]
  by (simp add: compare_structs_def find_map_of)

subsection \<open>Lines\<close>

text \<open>A line of the kernel: a name, the separator, blanks, a number, and the rest of the line.\<close>

record table_line =
  tl_name :: string
  tl_blanks :: nat
  tl_value :: nat
  tl_rest :: string

definition line_text :: "char \<Rightarrow> table_line \<Rightarrow> string" where
  "line_text sep l = tl_name l @ sep # replicate (tl_blanks l) CHR '' '' @ dec_of_nat (tl_value l) @ tl_rest l @ [LF]"

definition table_line_ok :: "char \<Rightarrow> table_line \<Rightarrow> bool" where
  "table_line_ok sep l \<longleftrightarrow>
     sep \<notin> set (tl_name l) \<and> is_cstring (tl_name l) \<and> LF \<notin> set (tl_rest l) \<and> is_cstring (tl_rest l) \<and>
     \<not> starts_digit (tl_rest l) \<and> tl_value l < 2 ^ 64"

lemma strchr_append: "c \<notin> set s \<Longrightarrow> strchr (s @ c # r) c = Some (c # r)"
  by (induction s) auto

lemma strchr_none: "c \<notin> set s \<Longrightarrow> strchr s c = None"
  by (induction s) auto

lemma strtoul_blanks: "strtoul 10 (replicate k CHR '' '' @ s) = (case strto 10 s of None \<Rightarrow> (0, replicate k CHR '' '' @ s) | _ \<Rightarrow> strtoul 10 s)"
  by (simp add: strtoul_def strto_def Let_def split: option.split)

lemma value_read:
  assumes "\<not> starts_digit r" "n < 2 ^ 64"
  shows "fst (strtoul 10 (replicate k CHR '' '' @ dec_of_nat n @ r)) = n"
  using strtoul_dec [OF assms(1), of 10 n] strto_dec [OF assms(1), of 10 n] assms(2) by (simp add: strtoul_blanks)

definition put_line :: "var_table \<Rightarrow> table_line \<Rightarrow> variables \<Rightarrow> variables" where
  "put_line table l v = (case map_of table (tl_name l) of None \<Rightarrow> v | Some x \<Rightarrow> v(x := of_nat (tl_value l)))"

lemma read_table_lines:
  assumes "\<forall>k. is_cstring k \<longrightarrow> bsearch compare_structs k table = map_option (Pair k) (map_of table k)"
    "\<forall>e\<in>set table. length (fst e) < 32" "\<forall>l\<in>set ls. table_line_ok sep l"
  shows "read_table sep table (concat (map (line_text sep) ls)) v = fold (put_line table) ls v"
  using assms(3)
proof (induction ls arbitrary: v)
  case Nil
  then show ?case by (simp add: read_table.simps [of _ _ "[]"])
next
  case (Cons l ls)
  let ?rest = "replicate (tl_blanks l) CHR '' '' @ dec_of_nat (tl_value l) @ tl_rest l @ LF # concat (map (line_text sep) ls)"
  let ?nl = "replicate (tl_blanks l) CHR '' '' @ dec_of_nat (tl_value l) @ tl_rest l"
  have l: "sep \<notin> set (tl_name l)" "is_cstring (tl_name l)" "LF \<notin> set (tl_rest l)" "\<not> starts_digit (tl_rest l)" "tl_value l < 2 ^ 64"
    using Cons.prems by (simp_all add: table_line_ok_def)
  have shape: "concat (map (line_text sep) (l # ls)) = tl_name l @ sep # ?rest" by (simp add: line_text_def)
  have name: "strchr (tl_name l @ sep # ?rest) sep = Some (sep # ?rest)" by (rule strchr_append [OF l(1)])
  have "takeWhile (\<lambda>c. c \<noteq> sep) (tl_name l @ sep # ?rest) = tl_name l"
    using l(1) by (intro takeWhile_append_stop) auto
  moreover have "LF \<notin> set (dec_of_nat n)" for n using dec_of_nat_digits [of n] sep_not_digit(2) by blast
  then have nl: "LF \<notin> set ?nl" using l(3) by auto
  have "?rest = ?nl @ LF # concat (map (line_text sep) ls)" by simp
  then have "strchr ?rest LF = Some (LF # concat (map (line_text sep) ls))" using strchr_append [OF nl] by metis
  moreover have "set_variable table (tl_name l) ?rest v = put_line table l v"
  proof -
    have "\<not> starts_digit (tl_rest l @ LF # concat (map (line_text sep) ls))"
      using l(4) by (cases "tl_rest l") (simp_all add: starts_digit_def)
    then have "fst (strtoul 10 ?rest) = tl_value l" using l(5) by (rule value_read)
    moreover have "map_of table (tl_name l) = None" if "32 \<le> length (tl_name l)"
      using assms(2) that by (auto simp: map_of_eq_None_iff)
    ultimately show ?thesis using assms(1) l(2) by (auto simp: set_variable_def put_line_def split: option.split)
  qed
  ultimately have "read_table sep table (concat (map (line_text sep) (l # ls))) v =
      read_table sep table (concat (map (line_text sep) ls)) (put_line table l v)"
    unfolding shape by (subst read_table.simps) (simp add: name Let_def)
  then show ?case using Cons by simp
qed

lemma put_lines:
  assumes "inj_on snd (set table)" "distinct (map tl_name ls)" "map_of table n = Some x"
  shows "fold (put_line table) ls v x = (case map_of (map (\<lambda>l. (tl_name l, tl_value l)) ls) n of None \<Rightarrow> v x | Some k \<Rightarrow> of_nat k)"
  using assms(2)
proof (induction ls arbitrary: v)
  case (Cons l ls)
  show ?case
  proof (cases "tl_name l = n")
    case True
    then have "map_of (map (\<lambda>l. (tl_name l, tl_value l)) ls) n = None"
      using Cons.prems by (auto simp: map_of_eq_None_iff)
    moreover have "put_line table l v x = of_nat (tl_value l)" using True assms(3) by (simp add: put_line_def)
    ultimately show ?thesis using Cons.IH [of "put_line table l v"] Cons.prems True by simp
  next
    case False
    have "map_of table (tl_name l) \<noteq> Some x"
      using inj_onD [OF assms(1), of "(tl_name l, x)" "(n, x)"] map_of_SomeD [OF assms(3)] False by (auto dest!: map_of_SomeD)
    then have "put_line table l v x = v x" by (auto simp: put_line_def split: option.split)
    then show ?thesis using Cons.IH [of "put_line table l v"] Cons.prems False by (simp split: option.split)
  qed
qed simp

lemma mem_table_facts: "inj_on snd (set mem_table)" "\<forall>e\<in>set mem_table. length (fst e) < 32"
proof -
  have "distinct (map snd mem_table)" by code_simp
  then show "inj_on snd (set mem_table)" by (simp add: distinct_map)
  have "list_all (\<lambda>e. length (fst e) < 32) mem_table" by code_simp
  then show "\<forall>e\<in>set mem_table. length (fst e) < 32" by (simp add: list_all_iff)
qed

text \<open>
  C34: The memory figures come back. From a file of lines as the kernel writes them, in any order,
  with unknown ones between them and below the size of the buffer, every variable of the table has
  the number of its line, or its old value when the file has no line for it; but for four that are
  derived when the kernel does not give them.
\<close>

theorem meminfo_read:
  assumes "\<forall>l\<in>set ls. table_line_ok CHR '':'' l" "distinct (map tl_name ls)"
    "length (concat (map (line_text CHR '':'') ls)) \<le> 8191"
    "meminfo (Some (concat (map (line_text CHR '':'') ls))) min_free_file version v = Val v'"
    "(name, x) \<in> set mem_table" "x \<notin> {''kb_low_total'', ''kb_low_free'', ''kb_inactive'', ''kb_main_available''}"
  shows "v' x = (case map_of (map (\<lambda>l. (tl_name l, tl_value l)) ls) name of None \<Rightarrow> v x | Some k \<Rightarrow> of_nat k)"
proof -
  let ?file = "concat (map (line_text CHR '':'') ls)"
  let ?v0 = "v(''kb_inactive'' := - 1, ''kb_low_total'' := 0, ''kb_main_available'' := 0)"
  let ?v1 = "fold (put_line mem_table) ls ?v0"
  have "is_cstring (line_text CHR '':'' l)" if "l \<in> set ls" for l
    using assms(1) that dec_of_nat_is_cstring [of "tl_value l"] by (auto simp: line_text_def table_line_ok_def is_cstring_def)
  then have "is_cstring ?file" by (auto simp: is_cstring_def)
  then have buf: "file_to_buf (Some ?file) = Val ?file" using assms(3) by (simp add: file_to_buf_def)
  have r: "read_table CHR '':'' mem_table ?file ?v0 = ?v1"
    by (rule read_table_lines) (use mem_search mem_table_facts(2) assms(1) in blast)+
  have dist: "distinct (map fst mem_table)" by code_simp
  have m: "map_of mem_table name = Some x" using assms(5) dist by simp
  have derived: "x \<notin> {''kb_main_cached'', ''kb_swap_used'', ''kb_main_used'', ''kb_min_free''}"
  proof -
    have "list_all (\<lambda>e. snd e \<notin> {''kb_main_cached'', ''kb_swap_used'', ''kb_main_used'', ''kb_min_free''}) mem_table" by code_simp
    then show ?thesis using assms(5) by (auto simp: list_all_iff)
  qed
  have d: "derive_memory w x = w x" for w
    using assms(6) derived by (simp add: derive_memory_def Let_def)
  have "v' x = ?v1 x"
    using assms(4) assms(6) derived d [of ?v1] buf r
    by (auto simp: meminfo_def obind_eq_Val Let_def split: if_splits)
  also have "\<dots> = (case map_of (map (\<lambda>l. (tl_name l, tl_value l)) ls) name of None \<Rightarrow> ?v0 x | Some k \<Rightarrow> of_nat k)"
    by (rule put_lines [OF mem_table_facts(1) assms(2) m])
  finally show ?thesis using assms(6) by (simp split: option.splits)
qed

subsection \<open>The width of process ids\<close>

lemma digits_of_dec: "0 < n \<Longrightarrow> digits_of n = length (dec_of_nat n)"
proof (induction n rule: digits_of.induct)
  case (1 n)
  then show ?case
    by (cases "n < 10") (simp_all add: digits_of.simps [of n] dec_of_nat.simps [of n] digits_of.simps [of 0])
qed

text \<open>
  The width of the column of process ids is that of the largest id the kernel gives out, which is
  one less than the number in its file.
\<close>

lemma pid_digits:
  assumes "42 \<le> n" "n < 10 ^ 18"
  shows "get_pid_digits (Some (dec_of_nat n @ [LF])) 0 = Val (length (dec_of_nat (n - 1)))"
proof -
  have "length (dec_of_nat n) \<le> 18" using length_dec_of_nat [OF assms(2)] by simp
  moreover have "10 ^ 1 \<le> n" using assms(1) by simp
  then have "2 \<le> length (dec_of_nat n)" using assms(1) by (subst dec_of_nat.simps) (simp add: Suc_le_eq)
  moreover have "strtol 10 (dec_of_nat n @ [LF]) = (int n, [LF])"
    by (rule strtol_dec) (use assms(2) in \<open>simp_all add: starts_digit_def sep_not_digit\<close>)
  moreover have "is_cstring (dec_of_nat n @ [LF])" using dec_of_nat_is_cstring [of n] by (auto simp: is_cstring_def)
  then have "cstr (dec_of_nat n @ [LF]) = dec_of_nat n @ [LF]" by (rule cstr_id)
  ultimately show ?thesis using assms digits_of_dec [of "n - 1"]
    by (simp add: get_pid_digits_def nat_diff_distrib)
qed

end
