(* ===== verification/Pagemap.thy ===== *)
theory Pagemap
  imports Strto
begin

unbundle bit_operations_syntax

text \<open>
  The library of procrank (\<open>pm_kernel.c\<close>, \<open>pm_process.c\<close>, \<open>pm_map.c\<close>, \<open>pm_memusage.c\<close>): the memory of a
  process from its mappings, its page map and the counts and flags the kernel keeps per frame. A read of
  the kernel's files is a function: \<open>Inl\<close> is \<open>errno\<close> after a read that came short, which is 0 when nothing
  set it. Only whether a file of a process can be opened matters, so the errors of opening are \<open>None\<close>.
\<close>

subsection \<open>Figures\<close>

record pm_memusage =
  mu_vss :: u64
  mu_rss :: u64
  mu_pss :: u64
  mu_uss :: u64
  mu_swap :: u64

definition pm_memusage_zero :: pm_memusage where
  "pm_memusage_zero = \<lparr> mu_vss = 0, mu_rss = 0, mu_pss = 0, mu_uss = 0, mu_swap = 0 \<rparr>"

definition pm_memusage_add :: "pm_memusage \<Rightarrow> pm_memusage \<Rightarrow> pm_memusage" where
  "pm_memusage_add a b =
     \<lparr> mu_vss = mu_vss a + mu_vss b, mu_rss = mu_rss a + mu_rss b, mu_pss = mu_pss a + mu_pss b,
       mu_uss = mu_uss a + mu_uss b, mu_swap = mu_swap a + mu_swap b \<rparr>"

subsection \<open>The kernel\<close>

record pm_kernel =
  k_count :: "u64 \<Rightarrow> int + u64"
  k_flags :: "u64 \<Rightarrow> int + u64"
  k_pagesize :: u64

text \<open>The result of the call and the variable it may have set.\<close>

definition pm_kernel_count :: "pm_kernel \<Rightarrow> u64 \<Rightarrow> u64 option \<Rightarrow> int \<times> u64 option" where
  "pm_kernel_count ker pfn v = (case k_count ker pfn of Inl e \<Rightarrow> (e, v) | Inr c \<Rightarrow> (0, Some c))"

definition pm_kernel_flags :: "pm_kernel \<Rightarrow> u64 \<Rightarrow> u64 option \<Rightarrow> int \<times> u64 option" where
  "pm_kernel_flags ker pfn v = (case k_flags ker pfn of Inl e \<Rightarrow> (e, v) | Inr c \<Rightarrow> (0, Some c))"

definition initialised :: "'a option \<Rightarrow> 'a outcome" where
  "initialised v = (case v of None \<Rightarrow> Undef Uninitialised | Some x \<Rightarrow> Val x)"

text \<open>
  The process ids: the entries that begin with a number. With none the array is given back to the
  allocator by a \<open>realloc\<close> to no bytes and then once more by \<open>free\<close>.
\<close>

definition pid_of_entry :: "string \<Rightarrow> int option" where
  "pid_of_entry e =
     (if strto 10 e = None then None else Some (sint (of_int (fst (strtol 10 e)) :: 32 word)))"

definition pm_kernel_pids :: "string list option \<Rightarrow> int list option outcome" where
  "pm_kernel_pids proc =
     (case proc of
        None \<Rightarrow> Val None
      | Some es \<Rightarrow>
          (let pids = List.map_filter pid_of_entry es in if pids = [] then Undef Uninitialised else Val (Some pids)))"

subsection \<open>The mappings of a process\<close>

record pm_map =
  map_start :: u64
  map_end :: u64
  map_offset :: u64
  map_flags :: nat
  map_name :: string

definition PM_MAP_READ :: nat where "PM_MAP_READ = 1"
definition PM_MAP_WRITE :: nat where "PM_MAP_WRITE = 2"
definition PM_MAP_EXEC :: nat where "PM_MAP_EXEC = 4"

text \<open>\<open>%lx\<close>: a sign and a prefix are taken too.\<close>

definition scan_hex :: "string \<Rightarrow> (u64 \<times> string) option" where
  "scan_hex s =
     (let s1 = dropWhile c_isspace s; neg = (s1 \<noteq> [] \<and> hd s1 = CHR ''-''); s2 = strip_sign s1;
          s3 = (if 2 \<le> length s2 \<and> hd s2 = CHR ''0'' \<and> c_tolower (s2 ! 1) = CHR ''x'' then drop 2 s2 else s2);
          ds = takeWhile (\<lambda>c. alnum_value c < 16) s3; v = base_value 16 0 ds
      in if ds = [] then None
         else Some (if 2 ^ 64 \<le> v then - 1 else if neg then - of_nat v else of_nat v, dropWhile (\<lambda>c. alnum_value c < 16) s3))"

text \<open>\<open>%s\<close>\<close>

definition next_word :: "string \<Rightarrow> (string \<times> string) option" where
  "next_word s =
     (let s1 = dropWhile c_isspace s
      in if s1 = [] then None
         else Some (takeWhile (\<lambda>c. \<not> c_isspace c) s1, dropWhile (\<lambda>c. \<not> c_isspace c) s1))"

text \<open>
  The array of permissions is declared outside the loop and keeps what the lines before put in it; \<open>None\<close>
  is a byte nothing was put in. A word of more than four bytes does not fit it.
\<close>

type_synonym perms = "char option list"

definition no_perms :: perms where
  "no_perms = replicate 5 None"

definition put_word :: "string \<Rightarrow> perms \<Rightarrow> perms outcome" where
  "put_word w p = (if 4 < length w then Undef OutOfBounds else Val (map Some w @ Some NUL # drop (length w + 1) p))"

definition perm_flag :: "perms \<Rightarrow> nat \<Rightarrow> char \<Rightarrow> nat \<Rightarrow> nat outcome" where
  "perm_flag p i c f = obind (initialised (p ! i)) (\<lambda>d. Val (if d = c then f else 0))"

text \<open>The conversions of a line of \<open>maps\<close>, which stop at the first that fails.\<close>

definition scan_maps_line :: "string \<Rightarrow> pm_map \<Rightarrow> perms \<Rightarrow> (pm_map \<times> perms) outcome" where
  "scan_maps_line line m p =
     (case scan_hex line of None \<Rightarrow> Val (m, p) | Some (a, s) \<Rightarrow>
      let m = m \<lparr> map_start := a \<rparr> in
      if s = [] \<or> hd s \<noteq> CHR ''-'' then Val (m, p)
      else case scan_hex (tl s) of None \<Rightarrow> Val (m, p) | Some (b, s) \<Rightarrow>
      let m = m \<lparr> map_end := b \<rparr> in
      case next_word s of None \<Rightarrow> Val (m, p) | Some (w, s) \<Rightarrow>
      obind (put_word w p) (\<lambda>p.
      case scan_hex s of None \<Rightarrow> Val (m, p) | Some (f, s) \<Rightarrow>
      let m = m \<lparr> map_offset := f \<rparr> in
      case next_word s of None \<Rightarrow> Val (m, p) | Some (_, s) \<Rightarrow>
      case strto 10 s of None \<Rightarrow> Val (m, p) | Some (_, _, s) \<Rightarrow>
      case next_word s of None \<Rightarrow> Val (m, p) | Some (n, _) \<Rightarrow> Val (m \<lparr> map_name := n \<rparr>, p)))"

definition map_line :: "string \<Rightarrow> perms \<Rightarrow> (pm_map \<times> perms) outcome" where
  "map_line line p =
     obind (scan_maps_line line \<lparr> map_start = 0, map_end = 0, map_offset = 0, map_flags = 0, map_name = [] \<rparr> p) (\<lambda>(m, p).
     obind (perm_flag p 0 (CHR ''r'') PM_MAP_READ) (\<lambda>r.
     obind (perm_flag p 1 (CHR ''w'') PM_MAP_WRITE) (\<lambda>w.
     obind (perm_flag p 2 (CHR ''x'') PM_MAP_EXEC) (\<lambda>x.
       Val (m \<lparr> map_flags := r + w + x \<rparr>, p)))))"

fun map_lines :: "string list \<Rightarrow> perms \<Rightarrow> pm_map list outcome" where
  "map_lines [] p = Val []"
| "map_lines (l # ls) p =
     obind (map_line l p) (\<lambda>(m, p). obind (map_lines ls p) (\<lambda>ms. Val (m # ms)))"

definition read_maps :: "string option \<Rightarrow> pm_map list option outcome" where
  "read_maps file =
     (case file of None \<Rightarrow> Val None | Some s \<Rightarrow> obind (map_lines (fgets_lines 1024 s) no_perms) (\<lambda>ms. Val (Some ms)))"

subsection \<open>A process\<close>

text \<open>The page map: from a first page and a number of pages to the entries read.\<close>

type_synonym page_file = "u64 \<Rightarrow> u64 \<Rightarrow> int + u64 list"

record pm_process =
  pp_ker :: pm_kernel
  pp_pid :: int
  pp_maps :: "pm_map list"
  pp_pagemap :: page_file

definition pm_process_create ::
  "pm_kernel \<Rightarrow> int \<Rightarrow> page_file option \<Rightarrow> string option \<Rightarrow> pm_process option outcome" where
  "pm_process_create ker pid pagemap maps =
     (case pagemap of
        None \<Rightarrow> Val None
      | Some pm \<Rightarrow>
          obind (read_maps maps) (\<lambda>ms.
            Val (map_option (\<lambda>ms. \<lparr> pp_ker = ker, pp_pid = pid, pp_maps = ms, pp_pagemap = pm \<rparr>) ms)))"

text \<open>
  The number of bytes wanted is compared as an \<open>int\<close>. Entries a short read did not fill are \<open>None\<close>.
\<close>

definition as_int :: "u64 \<Rightarrow> int" where
  "as_int v = sint (ucast v :: 32 word)"

definition pm_process_pagemap_range :: "pm_process \<Rightarrow> u64 \<Rightarrow> u64 \<Rightarrow> int + u64 option list" where
  "pm_process_pagemap_range proc low high =
     (if high < low then Inl (- 1)
      else if low = high then Inr []
      else let firstpage = low div k_pagesize (pp_ker proc); numpages = (high - low) div k_pagesize (pp_ker proc)
           in case pp_pagemap proc firstpage numpages of
                Inl e \<Rightarrow> Inl e
              | Inr es \<Rightarrow>
                  (let r = 8 * int (length es)
                   in if r = 0 then Inr []
                      else if r < as_int (numpages * 8) then Inl (- 1)
                      else Inr (map Some (take (unat numpages) es) @ replicate (unat numpages - length es) None)))"

definition PM_PAGEMAP_PRESENT :: "u64 \<Rightarrow> bool" where
  "PM_PAGEMAP_PRESENT x = bit x 63"

definition PM_PAGEMAP_SWAPPED :: "u64 \<Rightarrow> bool" where
  "PM_PAGEMAP_SWAPPED x = bit x 62"

definition PM_PAGEMAP_PFN :: "u64 \<Rightarrow> u64" where
  "PM_PAGEMAP_PFN x = x AND mask 55"

subsection \<open>The usage of a mapping\<close>

definition pm_map_pagemap :: "pm_process \<Rightarrow> pm_map \<Rightarrow> int + u64 option list" where
  "pm_map_pagemap proc m = pm_process_pagemap_range proc (map_start m) (map_end m)"

text \<open>What a frame that is mapped \<open>count\<close> times adds.\<close>

definition add_frame :: "u64 \<Rightarrow> u64 \<Rightarrow> pm_memusage \<Rightarrow> pm_memusage" where
  "add_frame pagesize count u =
     u \<lparr> mu_rss := mu_rss u + (if 1 \<le> count then pagesize else 0),
         mu_pss := mu_pss u + (if 1 \<le> count then pagesize div count else 0),
         mu_uss := mu_uss u + (if count = 1 then pagesize else 0) \<rparr>"

text \<open>
  The loop over the pages, with the variable \<open>count\<close>, which a read that came short does not set. The
  variable for the flags is declared in the loop.
\<close>

fun usage_loop ::
  "pm_kernel \<Rightarrow> u64 \<Rightarrow> u64 \<Rightarrow> u64 option list \<Rightarrow> u64 option \<Rightarrow> pm_memusage \<Rightarrow> (int + pm_memusage) outcome" where
  "usage_loop ker msk req [] count u = Val (Inr u)"
| "usage_loop ker msk req (e # es) count u =
     obind (initialised e) (\<lambda>e.
       let u = u \<lparr> mu_vss := mu_vss u + k_pagesize ker \<rparr>
       in if \<not> PM_PAGEMAP_PRESENT e then usage_loop ker msk req es count u
          else if PM_PAGEMAP_SWAPPED e
          then usage_loop ker msk req es count (u \<lparr> mu_swap := mu_swap u + k_pagesize ker \<rparr>)
          else case (if msk \<noteq> 0 then pm_kernel_flags ker (PM_PAGEMAP_PFN e) None else (0, Some req)) of (err, flags) \<Rightarrow>
            if err \<noteq> 0 then Val (Inl err)
            else obind (initialised flags) (\<lambda>flags.
              if msk \<noteq> 0 \<and> flags AND msk \<noteq> req then usage_loop ker msk req es count u
              else case pm_kernel_count ker (PM_PAGEMAP_PFN e) count of (err, count) \<Rightarrow>
                if err \<noteq> 0 then Val (Inl err)
                else obind (initialised count) (\<lambda>c. usage_loop ker msk req es (Some c) (add_frame (k_pagesize ker) c u))))"

definition pm_map_usage_flags :: "pm_process \<Rightarrow> u64 \<Rightarrow> u64 \<Rightarrow> pm_map \<Rightarrow> (int + pm_memusage) outcome" where
  "pm_map_usage_flags proc msk req m =
     (case pm_map_pagemap proc m of
        Inl e \<Rightarrow> Val (Inl e)
      | Inr es \<Rightarrow> usage_loop (pp_ker proc) msk req es None pm_memusage_zero)"

definition pm_map_usage :: "pm_process \<Rightarrow> pm_map \<Rightarrow> (int + pm_memusage) outcome" where
  "pm_map_usage proc m = pm_map_usage_flags proc 0 0 m"

fun usage_maps :: "pm_process \<Rightarrow> u64 \<Rightarrow> u64 \<Rightarrow> pm_map list \<Rightarrow> pm_memusage \<Rightarrow> (int + pm_memusage) outcome" where
  "usage_maps proc msk req [] u = Val (Inr u)"
| "usage_maps proc msk req (m # ms) u =
     obind (pm_map_usage_flags proc msk req m) (\<lambda>r.
       case r of Inl e \<Rightarrow> Val (Inl e) | Inr v \<Rightarrow> usage_maps proc msk req ms (pm_memusage_add u v))"

definition pm_process_usage_flags :: "pm_process \<Rightarrow> u64 \<Rightarrow> u64 \<Rightarrow> (int + pm_memusage) outcome" where
  "pm_process_usage_flags proc msk req = usage_maps proc msk req (pp_maps proc) pm_memusage_zero"

definition pm_process_usage :: "pm_process \<Rightarrow> (int + pm_memusage) outcome" where
  "pm_process_usage proc = pm_process_usage_flags proc 0 0"

subsection \<open>The working set\<close>

definition PM_PAGE_REFERENCED :: u64 where
  "PM_PAGE_REFERENCED = 4"

text \<open>
  The loop over the pages, with both variables. \<open>None\<close>: a read failed and nothing is stored. The frame of
  a page is asked for whether it is present or not.
\<close>

fun workingset_loop ::
  "pm_kernel \<Rightarrow> u64 option list \<Rightarrow> u64 option \<Rightarrow> u64 option \<Rightarrow> pm_memusage \<Rightarrow> pm_memusage option outcome" where
  "workingset_loop ker [] flags count u = Val (Some u)"
| "workingset_loop ker (e # es) flags count u =
     obind (initialised e) (\<lambda>e.
       case pm_kernel_flags ker (PM_PAGEMAP_PFN e) flags of (err, flags) \<Rightarrow>
         if err \<noteq> 0 then Val None
         else obind (initialised flags) (\<lambda>f.
           if f AND PM_PAGE_REFERENCED = 0 then workingset_loop ker es flags count u
           else case pm_kernel_count ker (PM_PAGEMAP_PFN e) count of (err, count) \<Rightarrow>
             if err \<noteq> 0 then Val None
             else let u = u \<lparr> mu_vss := mu_vss u + k_pagesize ker \<rparr>
               in if PM_PAGEMAP_SWAPPED e then workingset_loop ker es flags count u
                  else obind (initialised count) (\<lambda>c.
                    workingset_loop ker es flags count (add_frame (k_pagesize ker) c u))))"

text \<open>\<open>pm_map_workingset\<close> returns 0 also when a read failed; then it has stored nothing.\<close>

definition pm_map_workingset :: "pm_process \<Rightarrow> pm_map \<Rightarrow> (int + pm_memusage option) outcome" where
  "pm_map_workingset proc m =
     (case pm_map_pagemap proc m of
        Inl e \<Rightarrow> Val (Inl e)
      | Inr es \<Rightarrow> obind (workingset_loop (pp_ker proc) es None None pm_memusage_zero) (\<lambda>r. Val (Inr r)))"

text \<open>The variable for a mapping is declared outside the loop over the mappings.\<close>

fun workingset_maps ::
  "pm_process \<Rightarrow> pm_map list \<Rightarrow> pm_memusage option \<Rightarrow> pm_memusage \<Rightarrow> (int + pm_memusage) outcome" where
  "workingset_maps proc [] old u = Val (Inr u)"
| "workingset_maps proc (m # ms) old u =
     obind (pm_map_workingset proc m) (\<lambda>r.
       case r of
         Inl e \<Rightarrow> Val (Inl e)
       | Inr new \<Rightarrow>
           (let old = (case new of None \<Rightarrow> old | Some v \<Rightarrow> Some v)
            in obind (initialised old) (\<lambda>v. workingset_maps proc ms old (pm_memusage_add u v))))"

text \<open>
  The figures, if the caller wants them, and whether the references were cleared; \<open>refused\<close> is the error of
  opening the file for that.
\<close>

definition pm_process_workingset ::
  "pm_process \<Rightarrow> bool \<Rightarrow> bool \<Rightarrow> int option \<Rightarrow> (int + pm_memusage option \<times> bool) outcome" where
  "pm_process_workingset proc wanted reset refused =
     obind (if wanted then workingset_maps proc (pp_maps proc) None pm_memusage_zero else Val (Inr pm_memusage_zero)) (\<lambda>r.
       case r of
         Inl e \<Rightarrow> Val (Inl e)
       | Inr u \<Rightarrow>
           (let ws = (if wanted then Some u else None)
            in if \<not> reset then Val (Inr (ws, False))
               else case refused of Some e \<Rightarrow> Val (Inl e) | None \<Rightarrow> Val (Inr (ws, True))))"

end
