(* ===== verification/Procrank.thy ===== *)
theory Procrank
  imports Pagemap LibSort
begin

text \<open>
  \<open>procrank.c\<close>, the command behind GetCmdProcrank: the options, the figures of every process, the sort,
  and the report. \<open>rank_io\<close> is what the files below \<open>/proc\<close> hold; messages to standard error are left out.
\<close>

subsection \<open>What the kernel offers\<close>

record rank_io =
  io_ker :: "pm_kernel option"
  io_entries :: "string list option"
  io_pagemap :: "int \<Rightarrow> page_file option"
  io_maps :: "int \<Rightarrow> string option"
  io_cmdline :: "int \<Rightarrow> string option"
  io_clear :: "int \<Rightarrow> int option"
  io_meminfo :: "string + string option"

subsection \<open>Options\<close>

datatype ws_mode = WS_OFF | WS_ONLY | WS_RESET

record rank_opts =
  ro_key :: "pm_memusage \<Rightarrow> u64"
  ro_order :: int
  ro_required :: u64
  ro_mask :: u64
  ro_ws :: ws_mode

definition PM_PAGE_SWAPBACKED :: u64 where
  "PM_PAGE_SWAPBACKED = 2 ^ 14"

definition PM_PAGE_KSM :: u64 where
  "PM_PAGE_KSM = 2 ^ 21"

definition rank_defaults :: rank_opts where
  "rank_defaults = \<lparr> ro_key = mu_pss, ro_order = -1, ro_required = 0, ro_mask = 0, ro_ws = WS_OFF \<rparr>"

text \<open>\<open>None\<close>: an argument that is no option, for which procrank returns at once.\<close>

fun rank_options :: "string list \<Rightarrow> rank_opts \<Rightarrow> rank_opts option outcome" where
  "rank_options [] o1 = Val (Some o1)"
| "rank_options (a # as) o1 =
     (if a = ''-v'' then rank_options as (o1 \<lparr> ro_key := mu_vss \<rparr>)
      else if a = ''-r'' then rank_options as (o1 \<lparr> ro_key := mu_rss \<rparr>)
      else if a = ''-p'' then rank_options as (o1 \<lparr> ro_key := mu_pss \<rparr>)
      else if a = ''-u'' then rank_options as (o1 \<lparr> ro_key := mu_uss \<rparr>)
      else if a = ''-s'' then rank_options as (o1 \<lparr> ro_key := mu_swap \<rparr>)
      else if a = ''-c'' then rank_options as (o1 \<lparr> ro_required := 0, ro_mask := PM_PAGE_SWAPBACKED \<rparr>)
      else if a = ''-C'' then rank_options as (o1 \<lparr> ro_required := PM_PAGE_SWAPBACKED, ro_mask := PM_PAGE_SWAPBACKED \<rparr>)
      else if a = ''-k'' then rank_options as (o1 \<lparr> ro_required := PM_PAGE_KSM, ro_mask := PM_PAGE_KSM \<rparr>)
      else if a = ''-w'' then rank_options as (o1 \<lparr> ro_ws := WS_ONLY \<rparr>)
      else if a = ''-W'' then rank_options as (o1 \<lparr> ro_ws := WS_RESET \<rparr>)
      else if a = ''-R'' then rank_options as (o1 \<lparr> ro_order := ro_order o1 * -1 \<rparr>)
      else if a = ''-h'' then Undef Exits
      else Val None)"

subsection \<open>The figures of every process\<close>

record proc_info =
  pi_pid :: int
  pi_usage :: pm_memusage

text \<open>
  A process whose files cannot be opened or read keeps zeros. The result has whether some process has
  swapped memory and the processes whose references were cleared.
\<close>

definition measure_proc :: "rank_opts \<Rightarrow> rank_io \<Rightarrow> pm_kernel \<Rightarrow> int \<Rightarrow> (pm_memusage \<times> bool) outcome" where
  "measure_proc o1 fs ker pid =
     obind (pm_process_create ker pid (io_pagemap fs pid) (io_maps fs pid)) (\<lambda>p.
       case p of
         None \<Rightarrow> Val (pm_memusage_zero, False)
       | Some proc \<Rightarrow>
           (case ro_ws o1 of
              WS_OFF \<Rightarrow>
                obind (pm_process_usage_flags proc (ro_mask o1) (ro_required o1)) (\<lambda>r.
                  Val (case r of Inl e \<Rightarrow> pm_memusage_zero | Inr u \<Rightarrow> u, False))
            | WS_ONLY \<Rightarrow>
                obind (pm_process_workingset proc True False None) (\<lambda>r.
                  Val (case r of Inr (Some u, _) \<Rightarrow> u | _ \<Rightarrow> pm_memusage_zero, False))
            | WS_RESET \<Rightarrow>
                obind (pm_process_workingset proc False True (io_clear fs pid)) (\<lambda>r.
                  Val (pm_memusage_zero, case r of Inr (_, c) \<Rightarrow> c | _ \<Rightarrow> False))))"

fun measure_procs :: "rank_opts \<Rightarrow> rank_io \<Rightarrow> pm_kernel \<Rightarrow> int list \<Rightarrow> (proc_info list \<times> bool \<times> int list) outcome" where
  "measure_procs o1 fs ker [] = Val ([], False, [])"
| "measure_procs o1 fs ker (pid # pids) =
     obind (measure_proc o1 fs ker pid) (\<lambda>(u, c).
     obind (measure_procs o1 fs ker pids) (\<lambda>(ps, sw, cl).
       Val (\<lparr> pi_pid = pid, pi_usage = u \<rparr> # ps, ro_ws o1 \<noteq> WS_RESET \<and> mu_swap u \<noteq> 0 \<or> sw, if c then pid # cl else cl)))"

subsection \<open>The order\<close>

definition numcmp :: "u64 \<Rightarrow> u64 \<Rightarrow> int" where
  "numcmp a b = (if a < b then -1 else if b < a then 1 else 0)"

definition sort_by :: "(pm_memusage \<Rightarrow> u64) \<Rightarrow> int \<Rightarrow> proc_info \<Rightarrow> proc_info \<Rightarrow> int outcome" where
  "sort_by key order a b = Val (order * numcmp (key (pi_usage a)) (key (pi_usage b)))"

subsection \<open>Names of processes\<close>

text \<open>The text in the destination, and the length of the source.\<close>

definition strlcpy :: "string \<Rightarrow> nat \<Rightarrow> string \<times> nat" where
  "strlcpy src siz = (take (siz - 1) src, length src)"

definition unknown_cmdline :: string where
  "unknown_cmdline = ''<unknown>''"

text \<open>The result and the text in the buffer, which ends at the first argument.\<close>

definition getprocname :: "string option \<Rightarrow> nat \<Rightarrow> int \<times> string" where
  "getprocname file len =
     (let unknown = (\<lambda>rc. case strlcpy unknown_cmdline len of (t, n) \<Rightarrow> (if len \<le> n then 4 else rc, t))
      in if len = 0 then (- 1, [])
         else case file of
           None \<Rightarrow> unknown 2
         | Some s \<Rightarrow> if s = [] then unknown 3 else (0, cstr (fst (fgets len s))))"

subsection \<open>The memory of the machine\<close>

definition mem_tags :: "string list" where
  "mem_tags = [''MemTotal:'', ''MemFree:'', ''Buffers:'', ''Cached:'', ''Shmem:'', ''Slab:'']"

definition tag_at :: "string \<Rightarrow> nat option" where
  "tag_at p = (case filter (\<lambda>i. has_prefix (mem_tags ! i) p) [0..<length mem_tags] of [] \<Rightarrow> None | i # _ \<Rightarrow> Some i)"

definition atoll :: "string \<Rightarrow> int" where
  "atoll s = fst (strtol 10 s)"

text \<open>The byte behind a number is overwritten and skipped, then the rest of the line, and its end.\<close>

definition rest_of_line :: "string \<Rightarrow> string" where
  "rest_of_line p = tl (dropWhile (\<lambda>c. c \<noteq> LF) p)"

definition number_at :: "string \<Rightarrow> string \<times> string" where
  "number_at p = (let p = dropWhile (\<lambda>c. c = CHR '' '') p in (takeWhile c_isdigit p, tl (dropWhile c_isdigit p)))"

lemma mem_tags_not_Nil: "i < length mem_tags \<Longrightarrow> mem_tags ! i \<noteq> []"
  by (auto simp: mem_tags_def less_Suc_eq numeral_eq_Suc)

lemma tag_at_Some: "tag_at p = Some i \<Longrightarrow> i < length mem_tags \<and> has_prefix (mem_tags ! i) p"
proof -
  assume "tag_at p = Some i"
  then obtain r where r: "filter (\<lambda>i. has_prefix (mem_tags ! i) p) [0..<length mem_tags] = i # r"
    by (auto simp: tag_at_def split: list.splits)
  have "i \<in> set (filter (\<lambda>i. has_prefix (mem_tags ! i) p) [0..<length mem_tags])" unfolding r by simp
  then show ?thesis by simp
qed

lemma rest_of_line_shorter: "length (rest_of_line p) \<le> length p - 1"
  by (simp add: rest_of_line_def length_dropWhile_le diff_le_mono)

lemma number_at_shorter: "length (snd (number_at p)) \<le> length p"
proof -
  let ?q = "dropWhile (\<lambda>c. c = CHR '' '') p"
  have "length (dropWhile c_isdigit ?q) \<le> length ?q" "length ?q \<le> length p" by (simp_all only: length_dropWhile_le)
  then have "length (dropWhile c_isdigit ?q) - 1 \<le> length p" by linarith
  then show ?thesis by (simp add: number_at_def Let_def)
qed

function mem_loop :: "string \<Rightarrow> nat \<Rightarrow> u64 list \<Rightarrow> u64 list" where
  "mem_loop p found mem =
     (if p = [] \<or> 6 \<le> found then mem
      else case tag_at p of
        None \<Rightarrow> mem_loop (rest_of_line p) found mem
      | Some i \<Rightarrow>
          (let q = number_at (drop (length (mem_tags ! i)) p)
           in mem_loop (rest_of_line (snd q)) (found + 1) (mem[i := of_int (atoll (fst q))])))"
  by pat_completeness auto
termination
proof (relation "measure (\<lambda>(p, found, mem). length p)", goal_cases)
  case (2 p found mem)
  then show ?case using rest_of_line_shorter [of p] by (cases p) auto
next
  case (3 p found mem i q)
  have "length (mem_tags ! i) \<noteq> 0" using tag_at_Some [OF 3(2)] mem_tags_not_Nil by simp
  moreover have "length (snd q) \<le> length p - length (mem_tags ! i)"
    unfolding 3(3) using number_at_shorter [of "drop (length (mem_tags ! i)) p"] by simp
  ultimately show ?case using 3(1) rest_of_line_shorter [of "snd q"] by (cases p) auto
qed simp

declare mem_loop.simps [simp del]

text \<open>\<open>Inl\<close>: the message of \<open>strerror\<close>; \<open>None\<close>: the read fails.\<close>

definition print_mem_info :: "string + string option \<Rightarrow> string" where
  "print_mem_info file =
     (case file of
        Inl err \<Rightarrow> ''Unable to open /proc/meminfo: '' @ err @ [LF]
      | Inr None \<Rightarrow> ''Empty /proc/meminfo''
      | Inr (Some s) \<Rightarrow>
          (let m = mem_loop (cstr (take 1023 s)) 0 (replicate 6 0)
           in ''RAM: '' @ show_u64 (m ! 0) @ ''K total, '' @ show_u64 (m ! 1) @ ''K free, '' @ show_u64 (m ! 2) @ ''K buffers, '' @
              show_u64 (m ! 3) @ ''K cached, '' @ show_u64 (m ! 4) @ ''K shmem, '' @ show_u64 (m ! 5) @ ''K slab'' @ [LF]))"

subsection \<open>The report\<close>

definition MAX_LINES :: nat where
  "MAX_LINES = 50"

definition gap :: string where
  "gap = ''  ''"

definition col :: "nat \<Rightarrow> string \<Rightarrow> string" where
  "col n t = pad_left CHR '' '' n t @ gap"

definition col_kb :: "nat \<Rightarrow> u64 \<Rightarrow> string" where
  "col_kb n v = pad_left CHR '' '' n (show_u64 v) @ ''K'' @ gap"

definition rank_heading :: "bool \<Rightarrow> bool \<Rightarrow> string" where
  "rank_heading ws swap =
     col 5 ''PID'' @
     (if ws then col 0 ''WRss'' @ col 7 ''WPss'' @ col 7 ''WUss'' @ (if swap then col 7 ''WSwap'' else [])
      else col 8 ''Vss'' @ col 7 ''Rss'' @ col 7 ''Pss'' @ col 7 ''Uss'' @ (if swap then col 7 ''Swap'' else [])) @
     ''cmdline'' @ [LF]"

definition rank_row :: "bool \<Rightarrow> bool \<Rightarrow> (int \<Rightarrow> string option) \<Rightarrow> proc_info \<Rightarrow> string" where
  "rank_row ws swap cmd p =
     (let u = pi_usage p
      in col 5 (dec_of_int (pi_pid p)) @
         (if ws then col_kb 6 (mu_rss u div 1024) @ col_kb 6 (mu_pss u div 1024) @ col_kb 6 (mu_uss u div 1024)
          else col_kb 7 (mu_vss u div 1024) @ col_kb 6 (mu_rss u div 1024) @ col_kb 6 (mu_pss u div 1024) @
               col_kb 6 (mu_uss u div 1024)) @
         (if swap then col_kb 6 (mu_swap u div 1024) else []) @ snd (getprocname (cmd (pi_pid p)) 256) @ [LF])"

text \<open>The loop over the sorted processes: the rows and the totals, from the index \<open>i\<close> on.\<close>

fun rank_rows ::
  "bool \<Rightarrow> bool \<Rightarrow> (int \<Rightarrow> string option) \<Rightarrow> nat \<Rightarrow> proc_info list \<Rightarrow> string \<times> u64 \<times> u64 \<times> u64 \<Rightarrow> string \<times> u64 \<times> u64 \<times> u64" where
  "rank_rows ws swap cmd i [] acc = acc"
| "rank_rows ws swap cmd i (p # ps) acc =
     rank_rows ws swap cmd (i + 1) ps
       (case acc of (out, pss, uss, sw) \<Rightarrow>
          if fst (getprocname (cmd (pi_pid p)) 256) < 0 \<or> MAX_LINES < i then acc
          else (out @ rank_row ws swap cmd p, pss + mu_pss (pi_usage p), uss + mu_uss (pi_usage p), sw + mu_swap (pi_usage p)))"

definition rank_footer :: "bool \<Rightarrow> bool \<Rightarrow> u64 \<Rightarrow> u64 \<Rightarrow> u64 \<Rightarrow> string" where
  "rank_footer ws swap pss uss sw =
     col 5 [] @
     (if ws then col 7 [] @ col 7 ''------'' @ col 7 ''------''
      else col 8 [] @ col 7 [] @ col 7 ''------'' @ col 7 ''------'') @
     (if swap then col 7 ''------'' else []) @ ''------'' @ [LF] @
     col 5 [] @
     (if ws then col 7 [] @ col_kb 6 (pss div 1024) @ col_kb 0 (uss div 1024)
      else col 8 [] @ col 7 [] @ col_kb 6 (pss div 1024) @ col_kb 6 (uss div 1024)) @
     (if swap then col_kb 6 sw else []) @ ''TOTAL'' @ [LF] @ [LF]"

text \<open>
  What is written, \<open>None\<close> when procrank returns without closing the stream, and the processes whose
  references were cleared.
\<close>

definition procrank_main :: "rank_io \<Rightarrow> string list \<Rightarrow> (string option \<times> int list) outcome" where
  "procrank_main fs argv =
     obind (rank_options (tl argv) rank_defaults) (\<lambda>opts.
       case opts of None \<Rightarrow> Val (None, []) | Some o1 \<Rightarrow>
       case io_ker fs of None \<Rightarrow> Val (None, []) | Some ker \<Rightarrow>
       obind (pm_kernel_pids (io_entries fs)) (\<lambda>pids.
         case pids of None \<Rightarrow> Val (None, []) | Some pids \<Rightarrow>
         obind (measure_procs o1 fs ker pids) (\<lambda>(ps, swap, cleared).
           if ro_ws o1 = WS_RESET then Val (None, cleared)
           else let ws = (ro_ws o1 \<noteq> WS_OFF)
             in obind (qsort (sort_by (ro_key o1) (ro_order o1)) (filter (\<lambda>p. mu_vss (pi_usage p) \<noteq> 0) ps)) (\<lambda>ps.
               case rank_rows ws swap (io_cmdline fs) 0 ps ([], 0, 0, 0) of (rows, pss, uss, sw) \<Rightarrow>
                 Val (Some (rank_heading ws swap @ rows @ rank_footer ws swap pss uss sw @ print_mem_info (io_meminfo fs)),
                      cleared)))))"

end
