(* ===== verification/ProcrankProps.thy ===== *)
theory ProcrankProps
  imports Procrank
begin

text \<open>
  What holds of procrank: the figures of a process are ordered whatever the kernel answers, swapped pages
  are never counted, and the report has the processes in the order asked for.
\<close>

subsection \<open>Steps of the loops\<close>

lemma add_frame_swap [simp]: "mu_swap (add_frame w c u) = mu_swap u"
  by (simp add: add_frame_def)

lemma usage_step:
  assumes "usage_loop ker msk req (e # es) cnt u = Val (Inr u')"
  obtains x cnt' v where "e = Some x" "usage_loop ker msk req es cnt' v = Val (Inr u')"
    "let w = u \<lparr> mu_vss := mu_vss u + k_pagesize ker \<rparr>
     in v = w \<or> PM_PAGEMAP_PRESENT x \<and> PM_PAGEMAP_SWAPPED x \<and> v = w \<lparr> mu_swap := mu_swap w + k_pagesize ker \<rparr> \<or>
        (\<exists>c. v = add_frame (k_pagesize ker) c w)"
proof -
  obtain x where e: "e = Some x" using assms by (cases e) (simp_all add: initialised_def)
  obtain err flags where f: "pm_kernel_flags ker (PM_PAGEMAP_PFN x) None = (err, flags)" by fastforce
  obtain err' cnt2 where c: "pm_kernel_count ker (PM_PAGEMAP_PFN x) cnt = (err', cnt2)" by fastforce
  show thesis
  proof (cases "PM_PAGEMAP_PRESENT x \<and> \<not> PM_PAGEMAP_SWAPPED x")
    case False
    then show thesis using assms that [OF e] unfolding e by (auto simp: initialised_def Let_def split: if_splits)
  next
    case True
    then show thesis using assms that [OF e] unfolding e
      by (cases "msk = 0"; cases flags; cases cnt2) (auto simp: initialised_def f c Let_def split: if_splits)
  qed
qed

lemma workingset_step:
  assumes "workingset_loop ker (e # es) flags cnt u = Val (Some u')"
  obtains flags' cnt' v where "workingset_loop ker es flags' cnt' v = Val (Some u')" "mu_swap v = mu_swap u"
proof -
  obtain x where e: "e = Some x" using assms by (cases e) (simp_all add: initialised_def)
  obtain err f where f: "pm_kernel_flags ker (PM_PAGEMAP_PFN x) flags = (err, f)" by fastforce
  obtain err' c where c: "pm_kernel_count ker (PM_PAGEMAP_PFN x) cnt = (err', c)" by fastforce
  show thesis using assms that unfolding e
    by (cases f; cases c) (auto simp: initialised_def f c Let_def split: if_splits)
qed

lemma usage_maps_step:
  assumes "usage_maps proc msk req (m # ms) u = Val (Inr u')"
  obtains es v where "pm_map_pagemap proc m = Inr es" "usage_loop (pp_ker proc) msk req es None pm_memusage_zero = Val (Inr v)"
    "usage_maps proc msk req ms (pm_memusage_add u v) = Val (Inr u')"
proof -
  obtain r where r: "pm_map_usage_flags proc msk req m = Val r" using assms by (auto simp: obind_eq_Val)
  then obtain v where v: "r = Inr v" "usage_maps proc msk req ms (pm_memusage_add u v) = Val (Inr u')"
    using assms by (cases r) simp_all
  then show thesis using that r by (cases "pm_map_pagemap proc m") (simp_all add: pm_map_usage_flags_def)
qed

subsection \<open>The order of the figures\<close>

text \<open>The figures are numbers with \<open>uss \<le> pss \<le> rss \<le> vss \<le> k\<close>.\<close>

definition figures_below :: "nat \<Rightarrow> pm_memusage \<Rightarrow> bool" where
  "figures_below k u \<longleftrightarrow>
     (\<exists>s p r v. s \<le> p \<and> p \<le> r \<and> r \<le> v \<and> v \<le> k \<and>
        mu_uss u = of_nat s \<and> mu_pss u = of_nat p \<and> mu_rss u = of_nat r \<and> mu_vss u = of_nat v)"

lemma figures_belowI:
  "s \<le> p \<Longrightarrow> p \<le> r \<Longrightarrow> r \<le> v \<Longrightarrow> v \<le> k \<Longrightarrow> mu_uss u = of_nat s \<Longrightarrow> mu_pss u = of_nat p \<Longrightarrow> mu_rss u = of_nat r \<Longrightarrow>
    mu_vss u = of_nat v \<Longrightarrow> figures_below k u"
  unfolding figures_below_def by blast

lemma figures_zero: "figures_below 0 pm_memusage_zero"
  by (auto simp: figures_below_def pm_memusage_zero_def intro!: exI [of _ 0])

lemma figures_more: "figures_below k u \<Longrightarrow> k \<le> k' \<Longrightarrow> figures_below k' u"
  unfolding figures_below_def by (meson le_trans)

lemma figures_vss:
  "figures_below k u \<Longrightarrow> figures_below (k + unat w) (u \<lparr> mu_vss := mu_vss u + w \<rparr>)"
  unfolding figures_below_def
  by (elim exE, rule_tac x = s in exI, rule_tac x = p in exI, rule_tac x = r in exI, rule_tac x = "v + unat w" in exI) auto

lemma figures_swap: "figures_below k (u \<lparr> mu_swap := x \<rparr>) = figures_below k u"
  by (simp add: figures_below_def)

lemma figures_frame:
  assumes "figures_below k u"
  shows "figures_below (k + unat w) (add_frame w c (u \<lparr> mu_vss := mu_vss u + w \<rparr>))"
proof -
  obtain s p r v where u: "s \<le> p" "p \<le> r" "r \<le> v" "v \<le> k"
    "mu_uss u = of_nat s" "mu_pss u = of_nat p" "mu_rss u = of_nat r" "mu_vss u = of_nat v"
    using assms unfolding figures_below_def by blast
  define ds dp dr where "ds = (if c = 1 then unat w else 0)" "dp = (if 1 \<le> c then unat (w div c) else 0)"
    "dr = (if 1 \<le> c then unat w else 0)"
  have "ds \<le> dp" "dp \<le> dr" "dr \<le> unat w" by (simp_all add: ds_dp_dr_def unat_div)
  moreover have "mu_uss (add_frame w c (u \<lparr> mu_vss := mu_vss u + w \<rparr>)) = of_nat (s + ds)"
    "mu_pss (add_frame w c (u \<lparr> mu_vss := mu_vss u + w \<rparr>)) = of_nat (p + dp)"
    "mu_rss (add_frame w c (u \<lparr> mu_vss := mu_vss u + w \<rparr>)) = of_nat (r + dr)"
    "mu_vss (add_frame w c (u \<lparr> mu_vss := mu_vss u + w \<rparr>)) = of_nat (v + unat w)"
    by (simp_all add: add_frame_def u ds_dp_dr_def)
  ultimately show ?thesis
    using u(1-4) by (intro figures_belowI [of "s + ds" "p + dp" "r + dr" "v + unat w"]) simp_all
qed

lemma usage_loop_ordered:
  "usage_loop ker msk req es cnt u = Val (Inr u') \<Longrightarrow> figures_below k u \<Longrightarrow>
    figures_below (k + length es * unat (k_pagesize ker)) u'"
proof (induction es arbitrary: cnt u k)
  case (Cons e es)
  let ?w = "k_pagesize ker"
  obtain x cnt' v where v: "usage_loop ker msk req es cnt' v = Val (Inr u')"
    "let w = u \<lparr> mu_vss := mu_vss u + ?w \<rparr>
     in v = w \<or> PM_PAGEMAP_PRESENT x \<and> PM_PAGEMAP_SWAPPED x \<and> v = w \<lparr> mu_swap := mu_swap w + ?w \<rparr> \<or> (\<exists>c. v = add_frame ?w c w)"
    using usage_step [OF Cons.prems(1)] by metis
  have "figures_below (k + unat ?w) v"
    using v(2) figures_vss [OF Cons.prems(2), of ?w] figures_frame [OF Cons.prems(2), of ?w]
    by (auto simp: Let_def figures_swap)
  from Cons.IH [OF v(1) this] show ?case by (simp add: add.assoc)
qed simp

lemma figures_add:
  assumes "figures_below k u" "figures_below k' u'"
  shows "figures_below (k + k') (pm_memusage_add u u')"
proof -
  obtain s p r v where u: "s \<le> p" "p \<le> r" "r \<le> v" "v \<le> k"
    "mu_uss u = of_nat s" "mu_pss u = of_nat p" "mu_rss u = of_nat r" "mu_vss u = of_nat v"
    using assms(1) unfolding figures_below_def by blast
  obtain s' p' r' v' where u': "s' \<le> p'" "p' \<le> r'" "r' \<le> v'" "v' \<le> k'"
    "mu_uss u' = of_nat s'" "mu_pss u' = of_nat p'" "mu_rss u' = of_nat r'" "mu_vss u' = of_nat v'"
    using assms(2) unfolding figures_below_def by blast
  show ?thesis
    by (rule figures_belowI [of "s + s'" "p + p'" "r + r'" "v + v'"]) (use u u' in \<open>simp_all add: pm_memusage_add_def\<close>)
qed

definition map_pages :: "pm_process \<Rightarrow> pm_map \<Rightarrow> nat" where
  "map_pages proc m = unat ((map_end m - map_start m) div k_pagesize (pp_ker proc))"

lemma range_length: "pm_map_pagemap proc m = Inr es \<Longrightarrow> length es \<le> map_pages proc m"
  by (auto simp: pm_map_pagemap_def pm_process_pagemap_range_def map_pages_def Let_def split: if_splits sum.splits)

lemma range_entries:
  assumes "pm_map_pagemap proc m = Inr es" "Some e \<in> set es"
  obtains f n xs where "pp_pagemap proc f n = Inr xs" "e \<in> set xs"
proof -
  let ?f = "map_start m div k_pagesize (pp_ker proc)"
  let ?n = "(map_end m - map_start m) div k_pagesize (pp_ker proc)"
  have "es \<noteq> []" using assms(2) by auto
  then obtain xs where xs: "pp_pagemap proc ?f ?n = Inr xs" "es = map Some (take (unat ?n) xs) @ replicate (unat ?n - length xs) None"
    using assms(1) by (cases "pp_pagemap proc ?f ?n") (auto simp: pm_map_pagemap_def pm_process_pagemap_range_def Let_def split: if_splits)
  then have "e \<in> set (take (unat ?n) xs)" using assms(2) by auto
  then show thesis using that xs(1) in_set_takeD by metis
qed

lemma usage_maps_ordered:
  "usage_maps proc msk req ms u = Val (Inr u') \<Longrightarrow> figures_below k u \<Longrightarrow>
    figures_below (k + sum_list (map (map_pages proc) ms) * unat (k_pagesize (pp_ker proc))) u'"
proof (induction ms arbitrary: u k)
  case (Cons m ms)
  let ?w = "unat (k_pagesize (pp_ker proc))"
  obtain es v where es: "pm_map_pagemap proc m = Inr es" "usage_loop (pp_ker proc) msk req es None pm_memusage_zero = Val (Inr v)"
    and v: "usage_maps proc msk req ms (pm_memusage_add u v) = Val (Inr u')"
    using usage_maps_step [OF Cons.prems(1)] by metis
  have "figures_below (length es * ?w) v" using usage_loop_ordered [OF es(2) figures_zero] by simp
  then have "figures_below (map_pages proc m * ?w) v"
    by (rule figures_more) (simp add: range_length [OF es(1)])
  from Cons.IH [OF v figures_add [OF Cons.prems(2) this]] show ?case by (simp add: algebra_simps)
qed simp

text \<open>
  C39: The figures of a process are ordered. Whatever the kernel answers for its pages, their counts
  and their flags, and whichever flags are asked for: if the figures are computed at all, the memory
  the process has alone is at most its proportional share, that is at most what is resident, and
  that is at most the size of the mappings, as long as these have less than 2 to the 64 bytes.
\<close>

theorem usage_ordered:
  assumes "pm_process_usage_flags proc msk req = Val (Inr u)"
    "sum_list (map (map_pages proc) (pp_maps proc)) * unat (k_pagesize (pp_ker proc)) < 2 ^ 64"
  shows "mu_uss u \<le> mu_pss u \<and> mu_pss u \<le> mu_rss u \<and> mu_rss u \<le> mu_vss u \<and>
    unat (mu_vss u) \<le> sum_list (map (map_pages proc) (pp_maps proc)) * unat (k_pagesize (pp_ker proc))"
proof -
  obtain s p r v where u: "s \<le> p" "p \<le> r" "r \<le> v" "v \<le> sum_list (map (map_pages proc) (pp_maps proc)) * unat (k_pagesize (pp_ker proc))"
    "mu_uss u = of_nat s" "mu_pss u = of_nat p" "mu_rss u = of_nat r" "mu_vss u = of_nat v"
    using usage_maps_ordered [OF assms(1) [unfolded pm_process_usage_flags_def] figures_zero] unfolding figures_below_def by auto
  have "v < 2 ^ 64" using u(4) assms(2) by linarith
  then have "unat (of_nat n :: u64) = n" if "n \<le> v" for n using that by (simp add: unsigned_of_nat take_bit_nat_eq_self)
  then show ?thesis using u by (simp add: word_le_nat_alt)
qed

subsection \<open>Swapped pages\<close>

text \<open>The kernel marks a page as present or as swapped, never as both.\<close>

definition swap_apart :: "page_file \<Rightarrow> bool" where
  "swap_apart pm \<longleftrightarrow> (\<forall>f n es e. pm f n = Inr es \<longrightarrow> e \<in> set es \<longrightarrow> \<not> (PM_PAGEMAP_PRESENT e \<and> PM_PAGEMAP_SWAPPED e))"

lemma usage_loop_no_swap:
  "usage_loop ker msk req es cnt u = Val (Inr u') \<Longrightarrow>
    (\<And>e. Some e \<in> set es \<Longrightarrow> \<not> (PM_PAGEMAP_PRESENT e \<and> PM_PAGEMAP_SWAPPED e)) \<Longrightarrow> mu_swap u' = mu_swap u"
proof (induction es arbitrary: cnt u)
  case (Cons e es)
  obtain x cnt' v where x: "e = Some x" and v: "usage_loop ker msk req es cnt' v = Val (Inr u')"
    "let w = u \<lparr> mu_vss := mu_vss u + k_pagesize ker \<rparr>
     in v = w \<or> PM_PAGEMAP_PRESENT x \<and> PM_PAGEMAP_SWAPPED x \<and> v = w \<lparr> mu_swap := mu_swap w + k_pagesize ker \<rparr> \<or>
        (\<exists>c. v = add_frame (k_pagesize ker) c w)"
    using usage_step [OF Cons.prems(1)] by metis
  have "mu_swap v = mu_swap u" using v(2) Cons.prems(2) [of x] x by (auto simp: Let_def)
  then show ?case using Cons.IH [OF v(1)] Cons.prems(2) by simp
qed simp

lemma usage_maps_no_swap:
  "usage_maps proc msk req ms u = Val (Inr u') \<Longrightarrow> swap_apart (pp_pagemap proc) \<Longrightarrow> mu_swap u' = mu_swap u"
proof (induction ms arbitrary: u)
  case (Cons m ms)
  obtain es v where es: "pm_map_pagemap proc m = Inr es" "usage_loop (pp_ker proc) msk req es None pm_memusage_zero = Val (Inr v)"
    and v: "usage_maps proc msk req ms (pm_memusage_add u v) = Val (Inr u')"
    using usage_maps_step [OF Cons.prems(1)] by metis
  have "\<not> (PM_PAGEMAP_PRESENT e \<and> PM_PAGEMAP_SWAPPED e)" if "Some e \<in> set es" for e
    using range_entries [OF es(1) that] Cons.prems(2) unfolding swap_apart_def by metis
  then have "mu_swap v = 0" using usage_loop_no_swap [OF es(2)] by (simp add: pm_memusage_zero_def)
  then show ?case using Cons.IH [OF v Cons.prems(2)] by (simp add: pm_memusage_add_def)
qed simp

lemma workingset_loop_no_swap:
  "workingset_loop ker es flags cnt u = Val (Some u') \<Longrightarrow> mu_swap u' = mu_swap u"
proof (induction es arbitrary: flags cnt u)
  case (Cons e es)
  show ?case by (rule workingset_step [OF Cons.prems]) (use Cons.IH in simp)
qed simp

lemma workingset_maps_no_swap:
  "workingset_maps proc ms old u = Val (Inr u') \<Longrightarrow> (\<And>v. old = Some v \<Longrightarrow> mu_swap v = 0) \<Longrightarrow> mu_swap u' = mu_swap u"
proof (induction ms arbitrary: old u)
  case (Cons m ms)
  obtain r where r: "pm_map_workingset proc m = Val r" using Cons.prems(1) by (auto simp: obind_eq_Val)
  then obtain new where n: "pm_map_workingset proc m = Val (Inr new)" using Cons.prems(1) by (cases r) simp_all
  define old' where "old' = (case new of None \<Rightarrow> old | Some v \<Rightarrow> Some v)"
  obtain v where v: "old' = Some v" "workingset_maps proc ms old' (pm_memusage_add u v) = Val (Inr u')"
    using Cons.prems(1) n by (auto simp: obind_eq_Val Let_def old'_def initialised_def split: option.splits)
  have "mu_swap x = 0" if "new = Some x" for x
    using n that workingset_loop_no_swap
    by (fastforce simp: pm_map_workingset_def obind_eq_Val pm_memusage_zero_def split: sum.splits)
  then have z: "mu_swap x = 0" if "old' = Some x" for x
    using that Cons.prems(2) by (auto simp: old'_def split: option.splits)
  show ?case using Cons.IH [OF v(2) z] z [OF v(1)] by (simp add: pm_memusage_add_def)
qed simp

lemma usage_no_swap:
  assumes "swap_apart (pp_pagemap proc)" "pm_process_usage_flags proc msk req = Val r"
  shows "mu_swap (case r of Inl e \<Rightarrow> pm_memusage_zero | Inr u \<Rightarrow> u) = 0"
  using assms usage_maps_no_swap [of proc msk req "pp_maps proc" pm_memusage_zero]
  by (cases r) (simp_all add: pm_process_usage_flags_def pm_memusage_zero_def)

lemma workingset_no_swap:
  assumes "pm_process_workingset proc True False None = Val r"
  shows "mu_swap (case r of Inr (Some u, _) \<Rightarrow> u | _ \<Rightarrow> pm_memusage_zero) = 0"
proof -
  obtain q where q: "workingset_maps proc (pp_maps proc) None pm_memusage_zero = Val q"
    using assms by (auto simp: pm_process_workingset_def obind_eq_Val)
  show ?thesis
    using assms q workingset_maps_no_swap [of proc "pp_maps proc" None pm_memusage_zero]
    by (cases q) (auto simp: pm_process_workingset_def pm_memusage_zero_def Let_def)
qed

lemma measure_proc_no_swap:
  assumes "measure_proc o1 fs ker pid = Val (u, c)" "\<And>pm. io_pagemap fs pid = Some pm \<Longrightarrow> swap_apart pm"
  shows "mu_swap u = 0"
proof -
  obtain p where p: "pm_process_create ker pid (io_pagemap fs pid) (io_maps fs pid) = Val p"
    using assms(1) by (auto simp: measure_proc_def obind_eq_Val)
  show ?thesis
  proof (cases p)
    case None
    then show ?thesis using assms(1) p by (auto simp: measure_proc_def pm_memusage_zero_def)
  next
    case (Some proc)
    have apart: "swap_apart (pp_pagemap proc)" using p Some assms(2)
      by (auto simp: pm_process_create_def obind_eq_Val split: option.splits)
    show ?thesis
    proof (cases "ro_ws o1")
      case WS_OFF
      then show ?thesis using assms(1) p Some usage_no_swap [OF apart] by (auto simp: measure_proc_def obind_eq_Val)
    next
      case WS_ONLY
      then show ?thesis using assms(1) p Some workingset_no_swap [of proc] by (auto simp: measure_proc_def obind_eq_Val)
    next
      case WS_RESET
      then show ?thesis using assms(1) p Some by (auto simp: measure_proc_def obind_eq_Val pm_memusage_zero_def)
    qed
  qed
qed

lemma measure_procs_no_swap:
  "measure_procs o1 fs ker pids = Val (ps, sw, cl) \<Longrightarrow> (\<And>pid pm. io_pagemap fs pid = Some pm \<Longrightarrow> swap_apart pm) \<Longrightarrow> \<not> sw"
proof (induction pids arbitrary: ps sw cl)
  case (Cons pid pids)
  obtain u c where u: "measure_proc o1 fs ker pid = Val (u, c)" using Cons.prems(1) by (auto simp: obind_eq_Val)
  then obtain ps' sw' cl' where r: "measure_procs o1 fs ker pids = Val (ps', sw', cl')" using Cons.prems(1) by (auto simp: obind_eq_Val)
  have "mu_swap u = 0" using measure_proc_no_swap [OF u] Cons.prems(2) by blast
  moreover have "\<not> sw'" using Cons.IH [OF r] Cons.prems(2) by blast
  ultimately show ?case using Cons.prems(1) u r by simp
qed simp

text \<open>A run that writes a report has come through all of its steps.\<close>

lemma procrank_main_steps:
  assumes "procrank_main fs argv = Val (Some out, cl)"
  obtains o1 ker pids ps sw where "measure_procs o1 fs ker pids = Val (ps, sw, cl)" "\<exists>ws rest. out = rank_heading ws sw @ rest"
proof -
  obtain o1 where o1: "rank_options (tl argv) rank_defaults = Val (Some o1)"
    using assms by (auto simp: procrank_main_def obind_eq_Val split: option.splits)
  obtain ker where ker: "io_ker fs = Some ker" using assms o1 by (cases "io_ker fs") (auto simp: procrank_main_def)
  obtain pids where pids: "pm_kernel_pids (io_entries fs) = Val (Some pids)"
    using assms o1 ker by (auto simp: procrank_main_def obind_eq_Val split: option.splits)
  obtain ps sw cl' where m: "measure_procs o1 fs ker pids = Val (ps, sw, cl')"
    using assms o1 ker pids by (auto simp: procrank_main_def obind_eq_Val)
  have on: "ro_ws o1 \<noteq> WS_RESET" using assms o1 ker pids m by (auto simp: procrank_main_def)
  obtain ranked where q: "qsort (sort_by (ro_key o1) (ro_order o1)) (filter (\<lambda>p. mu_vss (pi_usage p) \<noteq> 0) ps) = Val ranked"
    using assms o1 ker pids m on by (auto simp: procrank_main_def obind_eq_Val Let_def)
  obtain rows pss uss w where t: "rank_rows (ro_ws o1 \<noteq> WS_OFF) sw (io_cmdline fs) 0 ranked ([], 0, 0, 0) = (rows, pss, uss, w)"
    by (rule prod_cases4)
  have "cl' = cl" "out = rank_heading (ro_ws o1 \<noteq> WS_OFF) sw @ rows @ rank_footer (ro_ws o1 \<noteq> WS_OFF) sw pss uss w @ print_mem_info (io_meminfo fs)"
    using assms o1 ker pids m on q t by (auto simp: procrank_main_def Let_def)
  then show thesis using that m by blast
qed

text \<open>
  C40: procrank never shows swapped memory. The kernel marks a page as present or as swapped, and
  the loop over the pages passes over those that are not present before it looks for swapped ones.
  So whatever the options, no report has the column of swapped memory.
\<close>

theorem swap_never_shown:
  assumes "\<And>pid pm. io_pagemap fs pid = Some pm \<Longrightarrow> swap_apart pm"
    "procrank_main fs argv = Val (Some out, cl)"
  shows "\<exists>ws rest. out = rank_heading ws False @ rest"
proof -
  obtain o1 ker pids ps sw where m: "measure_procs o1 fs ker pids = Val (ps, sw, cl)" "\<exists>ws rest. out = rank_heading ws sw @ rest"
    using procrank_main_steps [OF assms(2)] by metis
  have "\<not> sw" using measure_procs_no_swap [OF m(1)] assms(1) by blast
  then show ?thesis using m(2) by simp
qed

subsection \<open>The order of the report\<close>

definition rank_le :: "(pm_memusage \<Rightarrow> u64) \<Rightarrow> int \<Rightarrow> proc_info \<Rightarrow> proc_info \<Rightarrow> bool" where
  "rank_le key order a b \<longleftrightarrow> (if order < 0 then key (pi_usage b) \<le> key (pi_usage a) else key (pi_usage a) \<le> key (pi_usage b))"

interpretation ranks: comparison "sort_by key order" "rank_le key order" "\<lambda>_. order \<noteq> 0" for key order
proof unfold_locales
  fix x y assume "order \<noteq> 0"
  then show "\<exists>r. sort_by key order x y = Val r \<and> (r \<le> 0 \<longleftrightarrow> rank_le key order x y)"
    by (auto simp: sort_by_def numcmp_def rank_le_def)
qed (auto simp: rank_le_def)

lemma rank_options_order: "rank_options as o1 = Val (Some o2) \<Longrightarrow> ro_order o1 \<noteq> 0 \<Longrightarrow> ro_order o2 \<noteq> 0"
  by (induction as arbitrary: o1) (simp, auto split: if_splits)

lemma getprocname_ok: "\<not> fst (getprocname c 256) < 0"
  by (simp add: getprocname_def Let_def strlcpy_def unknown_cmdline_def split: option.split)

lemma rank_rows_first:
  "rank_rows ws swap cmd i ps (out, pss, uss, sw) =
    (let shown = take (MAX_LINES + 1 - i) ps
     in (out @ concat (map (rank_row ws swap cmd) shown), pss + sum_list (map (\<lambda>p. mu_pss (pi_usage p)) shown),
         uss + sum_list (map (\<lambda>p. mu_uss (pi_usage p)) shown), sw + sum_list (map (\<lambda>p. mu_swap (pi_usage p)) shown)))"
proof (induction ps arbitrary: i out pss uss sw)
  case (Cons p ps)
  show ?case
  proof (cases "MAX_LINES < i")
    case True
    then show ?thesis using Cons [of "i + 1"] by (simp add: Let_def)
  next
    case False
    then have "MAX_LINES + 1 - i = Suc (MAX_LINES + 1 - (i + 1))" by simp
    then show ?thesis using Cons [of "i + 1"] False getprocname_ok by (simp add: Let_def add.assoc)
  qed
qed simp


end
