(* ===== verification/AppletWitnesses.thy ===== *)
theory AppletWitnesses
  imports AppletProps CustomProps SysinfoProps ProcrankProps
begin


text \<open>\<open>df -k -h -m\<close>.\<close>

definition df_lib :: getopt_lib where
  "df_lib = (\<lambda>argv opts. ([(CHR ''k'', None), (CHR ''h'', None), (CHR ''m'', None)], []))"

lemma df_last_unit_wins_witness:
  "\<exists>f vs. getopt32 df_lib df_opts (Some df_complementary) [''df'', ''-khm''] = Val (f, vs, []) \<and>
    bit f 6 \<and> \<not> bit f 0 \<and> bit f 5"
proof -
  obtain f vs where f: "getopt32 df_lib df_opts (Some df_complementary) [''df'', ''-khm''] = Val (f, vs, [])"
    "\<forall>i<7. bit f i \<longleftrightarrow> df_counts (map fst [(CHR ''k'', None :: string option), (CHR ''h'', None), (CHR ''m'', None)]) (df_names ! i)"
    using df_last_unit_wins [of df_lib "[''df'', ''-khm'']"] by (auto simp: df_lib_def df_names_def)
  have "bit f 6" "\<not> bit f 0" "bit f 5"
    using f(2) [rule_format, of 6] f(2) [rule_format, of 0] f(2) [rule_format, of 5]
    by (simp_all add: df_counts_def df_unit_def df_names_def)
  then show ?thesis using f(1) by blast
qed

lemma dmesg_reads_on_witness:
  "dmesg_main (\<lambda>_ _. ([], [])) (\<lambda>_ _. (5, ''<6>ok'')) (\<lambda>_. ''x'' @ [NUL]) [''dmesg''] = Val (''<6>okx'' @ [LF])"
proof -
  have c: "cstr (''x'' @ [NUL]) = ''x''" by (simp add: cstr_def)
  have l: "int (length ''<6>ok'') = 5" by simp
  show ?thesis
    using dmesg_reads_on [of "\<lambda>_ _. ([], [])" "\<lambda>_ _. (5, ''<6>ok'')" "''<6>ok''" "\<lambda>_. ''x'' @ [NUL]"] l c
    by (simp add: Let_def take_Cons')
qed

definition irq_file :: "nat \<Rightarrow> nat \<Rightarrow> string" where
  "irq_file i s = ''intr '' @ dec_of_nat i @ '' 0'' @ [LF] @ ''softirq '' @ dec_of_nat s @ '' 0'' @ [LF]"

lemma irq_file_1: "irq_file 7 5 = ''intr 7 0'' @ [LF] @ ''softirq 5 0'' @ [LF]" "irq_file 9 8 = ''intr 9 0'' @ [LF] @ ''softirq 8 0'' @ [LF]"
  "dec_of_nat 7 = ''7''" "dec_of_nat 9 = ''9''" "dec_of_nat 5 = ''5''" "dec_of_nat 8 = ''8''" "dec_of_nat 2 = ''2''" "dec_of_nat 3 = ''3''"
proof -
  show "dec_of_nat 7 = ''7''" "dec_of_nat 9 = ''9''" "dec_of_nat 5 = ''5''" "dec_of_nat 8 = ''8''" "dec_of_nat 2 = ''2''" "dec_of_nat 3 = ''3''"
    by code_simp+
  then show "irq_file 7 5 = ''intr 7 0'' @ [LF] @ ''softirq 5 0'' @ [LF]" "irq_file 9 8 = ''intr 9 0'' @ [LF] @ ''softirq 8 0'' @ [LF]"
    by (simp_all add: irq_file_def)
qed

lemma irq_file_counts: "counts ''intr'' (irq_file 7 5) 7" "counts ''intr'' (irq_file 9 8) 9"
  "counts ''softirq'' (irq_file 7 5) 5" "counts ''softirq'' (irq_file 9 8) 8"
  by (simp_all add: counts_def irq_file_1 has_prefix_def)

lemma irq_rates_witness:
  "irq_info_main (Some (irq_file 7 5)) (Some (irq_file 9 8)) =
    Val (''irq:'' @ dec_of_nat (9 - 7) @ ''/s softirq:'' @ dec_of_nat (8 - 5) @ ''/s '' @ [LF])"
  by (rule irq_rates [OF _ _ _ _ irq_file_counts]) (simp_all add: irq_file_1 is_cstring_def BUFFSIZE_def)

lemma slashes_dropped_witness:
  "obind (path_kill_slashes ''//user.slice//a'') as_string = Val ''/user.slice/a'' \<and>
   obind (path_kill_slashes ''/user.slice/a'') as_string = Undef OutOfBounds"
  using slashes_dropped [of "''//user.slice//a''"] slashes_dropped [of "''/user.slice/a''"] by (simp add: is_cstring_def)

definition no_systemd :: "string \<Rightarrow> string option" where
  "no_systemd p = (if p = ''/sys/fs/cgroup/cpuacct/cpuacct.usage'' then Some ''0'' else None)"

lemma no_systemd_run:
  "cgtop_main (\<lambda>n. replicate n NUL) no_systemd = Val ([(Stdout, ''wrong'' @ [LF])] @ [(File, cgtop_heading)])"
proof -
  have "process (\<lambda>n. replicate n NUL) no_systemd ''systemd'' ''/'' = Val (-1)"
    using systemd_procs_squeezed
    by (simp add: process_def join_path_def strjoin_def Let_def no_systemd_def systemd_procs_def)
  then show ?thesis
    by (simp add: cgtop_main_def refresh_one_def read_from_cpuacct_def read_from_blkio_def no_systemd_def display_def)
qed

lemma cgtop_only_heading_witness:
  "on_file ([(Stdout, ''wrong'' @ [LF])] @ [(File, cgtop_heading)]) = cgtop_heading \<and> no_systemd systemd_procs = None"
  using cgtop_only_heading [OF no_systemd_run] by blast

subsection \<open>The figures of the machine\<close>

definition mem_lines :: "table_line list" where
  "mem_lines =
     [\<lparr> tl_name = ''MemTotal'', tl_blanks = 8, tl_value = 61768, tl_rest = '' kB'' \<rparr>,
      \<lparr> tl_name = ''Unknown'', tl_blanks = 1, tl_value = 5, tl_rest = [] \<rparr>,
      \<lparr> tl_name = ''MemFree'', tl_blanks = 9, tl_value = 1436, tl_rest = '' kB'' \<rparr>]"

lemma mem_lines_ok: "\<forall>l\<in>set mem_lines. table_line_ok CHR '':'' l" "distinct (map tl_name mem_lines)"
  "length (concat (map (line_text CHR '':'') mem_lines)) \<le> 8191"
proof -
  show "\<forall>l\<in>set mem_lines. table_line_ok CHR '':'' l"
    by (simp add: mem_lines_def table_line_ok_def is_cstring_def)
  show "distinct (map tl_name mem_lines)" by (simp add: mem_lines_def)
  have "length (dec_of_nat 61768) \<le> 5" "length (dec_of_nat 5) \<le> 5" "length (dec_of_nat 1436) \<le> 5"
    by (rule length_dec_of_nat; simp)+
  then show "length (concat (map (line_text CHR '':'') mem_lines)) \<le> 8191" by (simp add: mem_lines_def line_text_def)
qed

lemma meminfo_old_kernel: "\<exists>v'. meminfo (Some file) min_free_file 0 v = Val v'"
  by (simp add: meminfo_def file_to_buf_def Let_def LINUX_VERSION_def)

lemma meminfo_read_witness:
  "\<exists>v'. meminfo (Some (concat (map (line_text CHR '':'') mem_lines))) None 0 (\<lambda>_. 0) = Val v' \<and>
    v' ''kb_main_total'' = 61768 \<and> v' ''kb_main_free'' = 1436 \<and> v' ''kb_dirty'' = 0"
proof -
  obtain v' where v: "meminfo (Some (concat (map (line_text CHR '':'') mem_lines))) None 0 (\<lambda>_. 0) = Val v'"
    using meminfo_old_kernel by blast
  have t: "(''MemTotal'', ''kb_main_total'') \<in> set mem_table" "(''MemFree'', ''kb_main_free'') \<in> set mem_table"
    "(''Dirty'', ''kb_dirty'') \<in> set mem_table"
    by (simp_all add: mem_table_def)
  note r = meminfo_read [OF mem_lines_ok v]
  have "v' ''kb_main_total'' = 61768" "v' ''kb_main_free'' = 1436" "v' ''kb_dirty'' = 0"
    using r [OF t(1)] r [OF t(2)] r [OF t(3)] by (simp_all add: mem_lines_def)
  then show ?thesis using v by blast
qed

lemma pid_digits_witness: "get_pid_digits (Some (dec_of_nat 32768 @ [LF])) 0 = Val (length (dec_of_nat (32768 - 1)))"
  by (rule pid_digits) simp_all

subsection \<open>procrank\<close>

text \<open>Two pages, one of them shared with another process.\<close>

definition rank_demo_kernel :: pm_kernel where
  "rank_demo_kernel = \<lparr> k_count = (\<lambda>pfn. Inr (if pfn = 7 then 1 else 2)), k_flags = (\<lambda>pfn. Inr 0), k_pagesize = 4096 \<rparr>"

definition rank_demo_pages :: page_file where
  "rank_demo_pages = (\<lambda>f n. Inr [2 ^ 63 + 7, 2 ^ 63 + 8])"

definition rank_demo_maps :: string where
  "rank_demo_maps = ''00400000-00402000 r-xp 00000000 08:01 5 /bin/sh'' @ [LF]"

definition rank_demo_map :: pm_map where
  "rank_demo_map = \<lparr> map_start = 0x400000, map_end = 0x402000, map_offset = 0, map_flags = 5, map_name = ''/bin/sh'' \<rparr>"

definition rank_demo_usage :: pm_memusage where
  "rank_demo_usage = \<lparr> mu_vss = 8192, mu_rss = 8192, mu_pss = 6144, mu_uss = 4096, mu_swap = 0 \<rparr>"

definition rank_demo_process :: pm_process where
  "rank_demo_process = \<lparr> pp_ker = rank_demo_kernel, pp_pid = 5, pp_maps = [rank_demo_map], pp_pagemap = rank_demo_pages \<rparr>"

definition rank_demo_io :: rank_io where
  "rank_demo_io = \<lparr> io_ker = Some rank_demo_kernel, io_entries = Some [''self'', ''5''], io_pagemap = (\<lambda>pid. Some rank_demo_pages),
     io_maps = (\<lambda>pid. Some rank_demo_maps), io_cmdline = (\<lambda>pid. Some (''sh'' @ [NUL])), io_clear = (\<lambda>pid. None), io_meminfo = Inr None \<rparr>"

lemmas rank_demo_chars = c_isspace_def byte_def strip_sign_def alnum_value_def c_isdigit_def c_islower_def c_isupper_def c_tolower_def

lemma rank_demo_line: "map_line (''00400000-00402000 r-xp 00000000 08:01 5 /bin/sh'' @ [LF]) no_perms =
    Val (rank_demo_map, [Some CHR ''r'', Some CHR ''-'', Some CHR ''x'', Some CHR ''p'', Some NUL])"
proof -
  have inode: "strto 10 ('' 5 /bin/sh'' @ [LF]) = Some (False, 5, '' /bin/sh'' @ [LF])" by code_simp
  show ?thesis
    by (simp add: map_line_def scan_maps_line_def scan_hex_def next_word_def rank_demo_chars Let_def inode [unfolded append.simps] put_word_def no_perms_def
        perm_flag_def initialised_def rank_demo_map_def PM_MAP_READ_def PM_MAP_EXEC_def PM_MAP_WRITE_def)
qed

lemma rank_demo_maps_read: "read_maps (Some rank_demo_maps) = Val (Some [rank_demo_map])"
proof -
  have "fgets_lines 1024 rank_demo_maps = [rank_demo_maps]" unfolding rank_demo_maps_def by (subst fgets_lines_line) simp_all
  then show ?thesis using rank_demo_line by (simp add: read_maps_def rank_demo_maps_def)
qed

lemma rank_demo_process_usage: "pm_process_usage_flags rank_demo_process 0 0 = Val (Inr rank_demo_usage)"
  by (simp add: pm_process_usage_flags_def rank_demo_process_def rank_demo_map_def rank_demo_kernel_def rank_demo_pages_def rank_demo_usage_def
      pm_map_usage_flags_def pm_map_pagemap_def pm_process_pagemap_range_def Let_def as_int_def initialised_def
      PM_PAGEMAP_PRESENT_def PM_PAGEMAP_SWAPPED_def PM_PAGEMAP_PFN_def pm_kernel_count_def add_frame_def
      pm_memusage_zero_def pm_memusage_add_def mask_numeral)

lemma rank_demo_entries: "pm_kernel_pids (io_entries rank_demo_io) = Val (Some [5])"
  by code_simp

lemma rank_demo_measured:
  "ro_ws o1 = WS_OFF \<Longrightarrow> ro_mask o1 = 0 \<Longrightarrow> ro_required o1 = 0 \<Longrightarrow>
    measure_procs o1 rank_demo_io rank_demo_kernel [5] = Val ([\<lparr> pi_pid = 5, pi_usage = rank_demo_usage \<rparr>], False, [])"
proof -
  assume a: "ro_ws o1 = WS_OFF" "ro_mask o1 = 0" "ro_required o1 = 0"
  have "pm_process_create rank_demo_kernel 5 (io_pagemap rank_demo_io 5) (io_maps rank_demo_io 5) = Val (Some rank_demo_process)"
    using rank_demo_maps_read by (simp add: pm_process_create_def rank_demo_io_def rank_demo_process_def)
  then show ?thesis using a rank_demo_process_usage by (simp add: measure_proc_def rank_demo_usage_def)
qed

lemma usage_ordered_witness:
  "pm_process_usage_flags rank_demo_process 0 0 = Val (Inr rank_demo_usage) \<and>
    mu_uss rank_demo_usage \<le> mu_pss rank_demo_usage \<and> mu_pss rank_demo_usage \<le> mu_rss rank_demo_usage \<and> unat (mu_vss rank_demo_usage) \<le> 8192"
proof -
  have "sum_list (map (map_pages rank_demo_process) (pp_maps rank_demo_process)) * unat (k_pagesize (pp_ker rank_demo_process)) = 8192"
    by (simp add: rank_demo_process_def rank_demo_map_def rank_demo_kernel_def map_pages_def)
  then show ?thesis using usage_ordered [OF rank_demo_process_usage] rank_demo_process_usage by simp
qed

lemma rank_demo_report: "\<exists>out. procrank_main rank_demo_io [''procrank''] = Val (Some out, [])"
proof -
  have k: "io_ker rank_demo_io = Some rank_demo_kernel" by (simp add: rank_demo_io_def)
  obtain rows pss uss sw where t: "rank_rows False False (io_cmdline rank_demo_io) 0 [\<lparr> pi_pid = 5, pi_usage = rank_demo_usage \<rparr>] ([], 0, 0, 0) = (rows, pss, uss, sw)"
    by (rule prod_cases4)
  have m: "measure_procs rank_defaults rank_demo_io rank_demo_kernel [5] = Val ([\<lparr> pi_pid = 5, pi_usage = rank_demo_usage \<rparr>], False, [])"
    by (rule rank_demo_measured) (simp_all add: rank_defaults_def)
  have o: "ro_ws rank_defaults = WS_OFF" "mu_vss rank_demo_usage \<noteq> 0" by (simp_all add: rank_defaults_def rank_demo_usage_def)
  show ?thesis using t by (simp add: procrank_main_def k rank_demo_entries m o qsort.simps del: measure_procs.simps rank_rows.simps)
qed

lemma swap_never_shown_witness:
  "\<exists>out ws rest. procrank_main rank_demo_io [''procrank''] = Val (Some out, []) \<and> out = rank_heading ws False @ rest"
proof -
  obtain out where out: "procrank_main rank_demo_io [''procrank''] = Val (Some out, [])" using rank_demo_report by blast
  have "swap_apart rank_demo_pages"
    by (auto simp: swap_apart_def rank_demo_pages_def PM_PAGEMAP_SWAPPED_def)
  then have "\<exists>ws rest. out = rank_heading ws False @ rest"
    by (intro swap_never_shown [OF _ out]) (simp add: rank_demo_io_def)
  then show ?thesis using out by blast
qed


end
