(* ===== verification/Spec2Isabelle.thy ===== *)
theory Spec2Isabelle
  imports CJsonTotal CJsonRound CJsonProps ConnQueue JsonRpcProps Connection Server SysstatCalc MpstatProps PsOutputProps PsDisplayProps PsScanProps PwCache Witnesses PsWitnesses
    PsReadWitnesses Ioconf Iostat IostatWrite IostatMain IostatProps IostatTable IostatWitnesses Getopt32
    Applets AppletProps Custom CustomProps Sysinfo SysinfoProps Pagemap Procrank
    ProcrankProps AppletWitnesses
begin

text \<open>
  A verification development of lepd, the daemon that reports the load of a machine over JSON-RPC.

  \<^bold>\<open>The program.\<close> \<open>main\<close> (\<open>src/server.c\<close>) registers one handler for each method with the JSON-RPC
  server (\<open>src/jsonrpc-c.c\<close>) and starts it. The main thread accepts connections and hands each to one
  of five worker threads by a linked queue per worker. A worker runs a read callback per connection:
  the bytes are collected in a buffer, the JSON reader (\<open>src/cJSON.c\<close>) takes one value from its front,
  an object is evaluated as a request, the handler reads a file below \<open>/proc\<close> or runs one of the
  commands compiled into the daemon (\<open>src/modules\<close>: mpstat, iostat, ps, top and others) with a pipe as
  its output, and the text comes back as the result of the call.

  \<^bold>\<open>The theories\<close>, each resting on the ones before:
  \<^item> \<open>Prelude\<close>: outcomes with undefined behaviour (\<open>Val\<close>, \<open>Undef\<close>), lists, words; \<open>CString\<close>:
    NUL-terminated strings and their library functions; \<open>Dbl\<close>: binary64 as a sign and a rational,
    rounding written out; \<open>Binding\<close>: the locales of tables of bindings (last or first one wins).
  \<^item> \<open>CJson\<close>, \<open>CJsonParse\<close>, \<open>CJsonPrint\<close>: \<open>cJSON.h\<close> and \<open>cJSON.c\<close>. An item is a node with its
    children; \<open>child\<close>, \<open>next\<close>, \<open>prev\<close> are the list of children. The parser maps a buffer to an item and
    the rest of the buffer, or to NULL, or to undefined behaviour, with fuel. \<open>CJsonTotal\<close>: fuel
    \<open>length + 1\<close> is enough. \<open>CJsonRound\<close>: parsing inverts printing. \<open>CJsonProps\<close>: encoding, sizes,
    objects as tables, and the inputs the parser mishandles.
  \<^item> \<open>ConnQueue\<close>: \<open>CQ\<close>, \<open>cq_push\<close>, \<open>cq_pop\<close>, \<open>dispath_conn\<close>, \<open>accept_callback2\<close> and the worker's
    \<open>async_cb\<close>, on an explicit heap of list cells; the fifo contract is a locale interpreted on them; the
    threads are a step relation, with an invariant and a progress theorem.
  \<^item> \<open>JsonRpc\<close>, \<open>JsonRpcProps\<close>: the table of procedures, \<open>eval_request\<close>, \<open>invoke_procedure\<close>,
    \<open>send_error\<close>, \<open>send_result\<close>, \<open>__jrpc_server_start\<close>; the table is an interpretation of the binding
    locale. \<open>Connection\<close>: \<open>connection_cb\<close>, its invariant, and calls from the bytes of the request to the
    bytes of the response.
  \<^item> \<open>Server\<close>: the handlers, the table of commands and the registration in \<open>main\<close>.
  \<^item> \<open>Scan\<close>: \<open>sscanf\<close>, \<open>strtoul\<close> and \<open>fgets\<close> as the readers use them. \<open>Sysstat\<close>: the readers of
    \<open>rd_stats.c\<close>, the counts of \<open>count.c\<close>, \<open>cpuinfo.c\<close>. \<open>SysstatCalc\<close>: \<open>common.c\<close>. \<open>Mpstat\<close>,
    \<open>MpstatOpt\<close>, \<open>MpstatProps\<close>: \<open>mpstat.c\<close>, its reports, its loop and its command line.
  \<^item> \<open>Ioconf\<close>: \<open>ioconf.c\<close>, the table of device names (\<open>ioc_state\<close>) from its file, \<open>ioc_name\<close>, and the names of
    the disks of a driver. \<open>Iostat\<close>, \<open>IostatWrite\<close>, \<open>IostatMain\<close>: \<open>iostat.c\<close>; the table of devices
    (\<open>io_table\<close>: headers, previous and current sample), the list of the command line (an array and its
    index), the readers, groups, the reports in both formats, the loop over a list of readings, the options,
    and the variables that outlive a run (\<open>io_statics\<close>). A reading is what the files hold in one turn.
    \<open>IostatProps\<close>: the daemon's report, over any number of runs. \<open>IostatTable\<close>: the table as a map, groups,
    counters that wrap, and what a second run or a device that comes back meets.
  \<^item> \<open>Strto\<close>: \<open>strtol\<close> and \<open>strtoul\<close> with a base and an end pointer; \<open>PsTable\<close>: \<open>bsearch\<close> over a sorted
    table, a locale that every searched table of ps interprets, and the tables of \<open>output.c\<close>;
    \<open>PsProc\<close>: the process record and the globals. \<open>PsSelect\<close>: \<open>select.c\<close>; \<open>PsSig\<close>: \<open>sig.c\<close>; \<open>PsEscape\<close>:
    \<open>escape.c\<close>; \<open>PsGlobal\<close>: \<open>global.c\<close>; \<open>PsSortFormat\<close>, \<open>PsSortProps\<close>: \<open>sortformat.c\<close>, columns and sort
    keys; \<open>PsParser\<close>, \<open>PsParserProps\<close>: \<open>parser.c\<close>, command lines from their words to the lists
    of columns, keys and selections; \<open>PsOutput\<close>, \<open>PsOutputProps\<close>: \<open>output.c\<close>, the printing function of every
    specifier and the line of a process, with its alignment; \<open>LibSort\<close>: \<open>qsort\<close>, with a locale for comparison
    functions; \<open>PsCompare\<close>: the comparison functions of \<open>output.c\<close>, an interpretation of it; \<open>PsDisplay\<close>,
    \<open>PsDisplayProps\<close>: \<open>display.c\<close>, sorted lists and forests, and \<open>ps_main\<close> (all under \<open>src/modules/ps/src\<close>).
  \<^item> \<open>PsStat\<close>, \<open>PsStatus\<close>, \<open>PsStatusProps\<close>, \<open>PsFile\<close>, \<open>PsRead\<close>, \<open>PsScan\<close>, \<open>PsScanProps\<close>: \<open>readproc.c\<close>. The parsers of
    \<open>/proc/<pid>/stat\<close>, \<open>statm\<close> and \<open>status\<close> with the files the kernel writes read back; files as strings and
    vectors; one process and one thread; the finders, \<open>readproc\<close>, \<open>readtask\<close>, \<open>readeither\<close> and the tables as
    functions on the scan (\<open>proctab\<close>), which end because entries of the directories are used up; the
    \<open>proc_source\<close> of the display made of them (\<open>proc_dir\<close>), and the daemon's list over \<open>/proc\<close>.
    \<open>PwCache\<close>: \<open>pwcache.c\<close>, a refinement of the map from ids to names.
  \<^item> \<open>Sysinfo\<close>, \<open>SysinfoProps\<close>: \<open>sysinfo.c\<close> of ps. The figures of the machine are a function from their names, the
    files tables of lines searched by the locale of \<open>PsTable\<close>; boot time, the notes of the ELF header, hertz.
  \<^item> \<open>Getopt32\<close>, \<open>Applets\<close>, \<open>AppletProps\<close>: the busybox commands behind GetCmdFree, GetCmdDf and GetCmdDmesg
    (\<open>free.c\<close>, \<open>df.c\<close>, \<open>dmesg.c\<close>, \<open>find_mount_point.c\<close>, \<open>human_readable.c\<close>) and their options (\<open>getopt32.c\<close>,
    \<open>xatonum.c\<close>): the language of option strings and complementary strings, with \<open>getopt_long\<close> a parameter.
  \<^item> \<open>Custom\<close>, \<open>CustomProps\<close>: \<open>irq_info.c\<close> and \<open>cgtop.c\<close>. Files are a function from their paths; \<open>junk\<close> is what a new
    block of \<open>malloc\<close> holds. What \<open>process\<close> computes behind its last test is undefined: it returns no value.
  \<^item> \<open>Pagemap\<close>, \<open>Procrank\<close>, \<open>ProcrankProps\<close>: the command behind GetCmdProcrank. \<open>Pagemap\<close> is its library (\<open>pm_kernel.c\<close>,
    \<open>pm_process.c\<close>, \<open>pm_map.c\<close>, \<open>pm_memusage.c\<close>): mappings, page map entries, counts and flags of frames, the figures
    of a process; \<open>Procrank\<close> is \<open>procrank.c\<close>, options, ranking by the \<open>qsort\<close> of \<open>LibSort\<close> (an interpretation of its
    locale) and report. The files of the kernel are the record \<open>rank_io\<close>.
  \<^item> \<open>Witnesses\<close>, \<open>PsWitnesses\<close>, \<open>PsReadWitnesses\<close>, \<open>IostatWitnesses\<close>, \<open>AppletWitnesses\<close>: every property with hypotheses applied to a concrete input.

  \<^bold>\<open>Conventions.\<close> Reading or writing outside an object, using an uninitialised variable, a conversion out
  of range, a null dereference and a call that never returns are the values \<open>Undef\<close> of the outcome
  type. Machine integers are words where they wrap; \<open>int\<close> with an explicit check where the C type is
  signed and the code relies on no overflow. Files, the clock, the pipe, the sockets and the built-in
  commands not modelled are parameters: fields of \<open>world\<close>, arguments of a step, or a reading per
  sample. \<open>pow\<close> of the C library is a parameter of the parser; the round trip uses of it only
  \<open>pow(10, 0) = 1\<close>. The witnesses take the exact power of ten, rounded once.

  \<^bold>\<open>Assumptions.\<close> \<open>malloc\<close> succeeds; the C library is glibc on x86 in the C locale, with signed
  \<open>char\<close>; \<open>write\<close> takes all bytes; the stack is deep enough for the recursion of the parser; a mutex
  makes the code it guards atomic; two handlers that hold different locks do not interfere;
  references inside JSON items are snapshots; debug output is left out.

  \<^bold>\<open>Not modelled.\<close> \<open>daemonize\<close> and the signal set-up; in \<open>common.c\<close> the functions of time zones, locale
  and terminal; the readers of \<open>rd_stats.c\<close> and counts of \<open>count.c\<close> behind \<open>SOURCE_SADC\<close>, which the
  build does not compile; the vendored headers. In \<open>iostat.c\<close> and \<open>ioconf.c\<close>
  the messages to standard error, the DEBUG output, \<open>ioc_free\<close> (it runs when \<open>malloc\<close> fails) and
  \<open>alarm_handler\<close>, which nothing installs; usage texts are values of the outcome. Of \<open>sysinfo.c\<close> the
  figures only other procps programs ask for (uptime, load averages, \<open>getstat\<close>, disks, slabs) and the measurement
  \<open>old_Hertz_hack\<close> falls back on; of \<open>cgtop.c\<close> the figures of a group, which no run reaches without undefined
  behaviour; of procrank opening and closing descriptors and the messages to standard error. iopp (not built),
  iotop and the other files of busybox (\<open>top.c\<close>, \<open>procps.c\<close>, \<open>pwd_grp.c\<close> and the wrappers of the C library) are commands and functions behind the parameter \<open>builtin\<close> of \<open>Server\<close>.
\<close>

end
